(* ===== verification/Prelude.thy ===== *)
theory Prelude
  imports Complex_Main "HOL-Library.AList" "HOL-Library.Multiset"
    "HOL-Library.List_Lexorder" "HOL-Library.Char_ord"
begin

text \<open>
  Shared vocabulary of the development: the collections of simplification rules the
  component theories fill, Go's slices-in-a-map index (an association list with
  "append under key"), order-preserving removal of duplicates, and the small facts
  about lists and options that several components use.

  A Go pointer or a nullable SQL value (\<open>*T\<close>, \<open>sql.NullT\<close>) is an \<open>option\<close>. A Go
  \<open>map[K]struct{}\<close> used as a set is a \<open>set\<close>. A \<open>map[K][]V\<close> used as an index is an
  association list \<open>('k \<times> 'v list) list\<close>; a missing key reads as the empty slice, as in
  Go. Strings are lists of characters, ordered byte by byte (\<open>List_Lexorder\<close>,
  \<open>Char_ord\<close>), which is the order of \<open>sort.Strings\<close>.
\<close>

named_theorems idx_simps \<open>lookups in an index after it has been filled\<close>
named_theorems frame_simps \<open>fields an operation does not write\<close>
named_theorems verdict_simps \<open>values of verdict functions on their branches\<close>

subsection \<open>Indexes: maps from keys to slices\<close>

type_synonym ('k, 'v) index = "('k \<times> 'v list) list"

definition ix_get :: "('k, 'v) index \<Rightarrow> 'k \<Rightarrow> 'v list" where
  "ix_get m k = (case map_of m k of None \<Rightarrow> [] | Some vs \<Rightarrow> vs)"

definition ix_push :: "'k \<Rightarrow> 'v \<Rightarrow> ('k, 'v) index \<Rightarrow> ('k, 'v) index" where
  "ix_push k v m = AList.update k (ix_get m k @ [v]) m"

text \<open>
  What the components rely on: pushing appends under one key and leaves the others alone.
  Filling an index by a loop over a slice then makes every lookup a filter of the slice.
\<close>

locale slice_index =
  fixes empty :: "'m"
    and get :: "'m \<Rightarrow> 'k \<Rightarrow> 'v list"
    and push :: "'k \<Rightarrow> 'v \<Rightarrow> 'm \<Rightarrow> 'm"
  assumes get_empty: "get empty k = []"
    and get_push: "get (push k v m) c = (if c = k then get m k @ [v] else get m c)"
begin

lemma get_push_opt:
  "get (case kf x of None \<Rightarrow> m | Some k \<Rightarrow> push k x m) c =
   get m c @ (if kf x = Some c then [x] else [])"
  by (auto simp: get_push split: option.split)

lemma get_fold_opt:
  "get (fold (\<lambda>x m. case kf x of None \<Rightarrow> m | Some k \<Rightarrow> push k x m) xs m) c =
   get m c @ filter (\<lambda>x. kf x = Some c) xs"
  by (induction xs arbitrary: m) (auto simp: get_push_opt)

lemma get_fold_keys:
  "get (fold (\<lambda>k m. push k x m) ks m) c = get m c @ replicate (count_list ks c) x"
  by (induction ks arbitrary: m) (auto simp: get_push replicate_append_same)

lemma get_fold_multi:
  "get (fold (\<lambda>x m. fold (\<lambda>k m. push k x m) (ksf x) m) xs m) c =
   get m c @ concat (map (\<lambda>x. replicate (count_list (ksf x) c) x) xs)"
  by (induction xs arbitrary: m) (auto simp: get_fold_keys)

end

interpretation ix: slice_index "[]" ix_get ix_push
  by unfold_locales (auto simp: ix_get_def ix_push_def update_conv')

lemmas ix_lookups [idx_simps] = ix.get_empty ix.get_push ix.get_push_opt ix.get_fold_opt
  ix.get_fold_keys ix.get_fold_multi

lemma ix_push_keys: "fst ` set (ix_push k v m) = insert k (fst ` set m)"
  by (simp add: ix_push_def dom_update)

lemma ix_push_distinct: "distinct (map fst m) \<Longrightarrow> distinct (map fst (ix_push k v m))"
  by (simp add: ix_push_def distinct_update)

subsection \<open>Removing duplicates, keeping first occurrences\<close>

fun uniq_from :: "'a set \<Rightarrow> 'a list \<Rightarrow> 'a list" where
  "uniq_from seen [] = []"
| "uniq_from seen (x # xs) =
     (if x \<in> seen then uniq_from seen xs else x # uniq_from (insert x seen) xs)"

lemma set_uniq_from: "set (uniq_from seen xs) = set xs - seen"
  by (induction seen xs rule: uniq_from.induct) auto

lemma distinct_uniq_from: "distinct (uniq_from seen xs)"
  by (induction seen xs rule: uniq_from.induct) (auto simp: set_uniq_from)

lemma uniq_from_distinct: "distinct xs \<Longrightarrow> set xs \<inter> seen = {} \<Longrightarrow> uniq_from seen xs = xs"
  by (induction seen xs rule: uniq_from.induct) auto

subsection \<open>Sets written out as sorted slices\<close>

definition sortedKeys :: "string set \<Rightarrow> string list" where
  "sortedKeys s = sorted_list_of_set s"

lemma set_sortedKeys [simp]: "finite s \<Longrightarrow> set (sortedKeys s) = s"
  by (simp add: sortedKeys_def)

lemma sorted_sortedKeys [simp]: "sorted (sortedKeys s)"
  by (simp add: sortedKeys_def)

lemma distinct_sortedKeys [simp]: "distinct (sortedKeys s)"
  by (simp add: sortedKeys_def)

lemma sortedKeys_empty_iff [simp]: "finite s \<Longrightarrow> sortedKeys s = [] \<longleftrightarrow> s = {}"
  by (simp add: sortedKeys_def)

subsection \<open>Lists\<close>

lemma sorted_eq_if_same_set:
  fixes xs ys :: "'a::linorder list"
  assumes "sorted xs" "distinct xs" "sorted ys" "distinct ys" "set xs = set ys"
  shows "xs = ys"
  using assms by (metis sorted_distinct_set_unique)

lemma fold_inv:
  "P s \<Longrightarrow> (\<And>x s. x \<in> set xs \<Longrightarrow> P s \<Longrightarrow> P (f x s)) \<Longrightarrow> P (fold f xs s)"
  by (induction xs arbitrary: s) auto

lemma fold_measure:
  fixes m :: "'s \<Rightarrow> nat"
  assumes "\<And>x s. m (f x s) = m s + w x"
  shows "m (fold f xs s) = m s + sum_list (map w xs)"
  by (induction xs arbitrary: s) (auto simp: assms)

lemma fold_mset_eq:
  assumes "\<And>x y. f x \<circ> f y = f y \<circ> f x" "mset xs = mset ys"
  shows "fold f xs = fold f ys"
  by (rule fold_multiset_equiv) (use assms in auto)

subsection \<open>Loops over Go maps\<close>

text \<open>
  Go visits the entries of a map in an unspecified order. A map that the code iterates over is
  a list of entries in some order; a loop is well defined when its result is a function of the
  multiset of entries. The locale states that contract once; every loop over a map in the
  model is an interpretation of it.
\<close>

locale map_loop =
  fixes run :: "'e list \<Rightarrow> 'r"
    and result :: "'e multiset \<Rightarrow> 'r"
  assumes run_result: "run es = result (mset es)"
begin

lemma any_order: "mset es = mset es' \<Longrightarrow> run es = run es'"
  by (simp add: run_result)

end

end
