(* ===== verification/GoStrings.thy ===== *)
theory GoStrings
  imports Prelude
begin

text \<open>
  The functions of Go's \<open>strings\<close>, \<open>strconv\<close> and \<open>unicode\<close> packages that the modelled code
  calls, on strings as lists of characters (bytes). Case conversion and white space are the
  ASCII part of the Unicode tables: the identifiers the code compares (document numbers,
  order codes, VAT numbers, role and state names) are ASCII, and a byte of 128 or more is
  passed through unchanged.
\<close>

subsection \<open>Character classes\<close>

definition is_digit :: "char \<Rightarrow> bool" where
  "is_digit c \<longleftrightarrow> CHR ''0'' \<le> c \<and> c \<le> CHR ''9''"

definition is_upper :: "char \<Rightarrow> bool" where
  "is_upper c \<longleftrightarrow> CHR ''A'' \<le> c \<and> c \<le> CHR ''Z''"

definition is_lower :: "char \<Rightarrow> bool" where
  "is_lower c \<longleftrightarrow> CHR ''a'' \<le> c \<and> c \<le> CHR ''z''"

definition is_letter :: "char \<Rightarrow> bool" where
  "is_letter c \<longleftrightarrow> is_upper c \<or> is_lower c"

text \<open>\<open>\b\<close> in RE2 separates these from the rest; \<open>re_space\<close> is its \<open>\s\<close>, \<open>is_space\<close> is \<open>unicode.IsSpace\<close>.\<close>

definition is_word :: "char \<Rightarrow> bool" where
  "is_word c \<longleftrightarrow> is_digit c \<or> is_letter c \<or> c = CHR ''_''"

definition re_space :: "char \<Rightarrow> bool" where
  "re_space c \<longleftrightarrow> c = CHR '' '' \<or> c = CHR 0x09 \<or> c = CHR 0x0A \<or> c = CHR 0x0C \<or> c = CHR 0x0D"

definition is_space :: "char \<Rightarrow> bool" where
  "is_space c \<longleftrightarrow> re_space c \<or> c = CHR 0x0B"

definition to_upper :: "char \<Rightarrow> char" where
  "to_upper c = (if is_lower c then char_of ((of_char c :: nat) - 32) else c)"

lemmas char_class_defs = is_digit_def is_upper_def is_lower_def is_letter_def is_word_def
  re_space_def is_space_def

lemma not_space_digit [simp]: "is_digit c \<Longrightarrow> \<not> re_space c" "is_digit c \<Longrightarrow> \<not> is_space c"
  by (auto simp: char_class_defs less_eq_char_def)

lemma digit_not_lower [simp]: "is_digit c \<Longrightarrow> \<not> is_lower c"
  by (auto simp: char_class_defs less_eq_char_def)

lemma digit_is_word [simp]: "is_digit c \<Longrightarrow> is_word c"
  by (simp add: is_word_def)

lemma to_upper_digit [simp]: "is_digit c \<Longrightarrow> to_upper c = c"
  by (simp add: to_upper_def)

lemma to_upper_not_lower [simp]: "\<not> is_lower (to_upper c)"
proof (cases "is_lower c")
  case True
  then have r: "97 \<le> (of_char c :: nat)" "(of_char c :: nat) \<le> 122"
    by (auto simp: is_lower_def less_eq_char_def)
  have "of_char (char_of ((of_char c :: nat) - 32)) = (of_char c :: nat) - 32"
    using r by simp
  then show ?thesis using True r
    by (auto simp: to_upper_def is_lower_def less_eq_char_def)
qed (simp add: to_upper_def)

lemma to_upper_idem [simp]: "to_upper (to_upper c) = to_upper c"
  using to_upper_not_lower[of c] by (simp add: to_upper_def split: if_splits)

subsection \<open>Package strings\<close>

definition TrimLeftFunc :: "(char \<Rightarrow> bool) \<Rightarrow> string \<Rightarrow> string" where
  "TrimLeftFunc p s = dropWhile p s"

definition TrimRightFunc :: "(char \<Rightarrow> bool) \<Rightarrow> string \<Rightarrow> string" where
  "TrimRightFunc p s = rev (dropWhile p (rev s))"

definition TrimSpace :: "string \<Rightarrow> string" where
  "TrimSpace s = TrimRightFunc is_space (TrimLeftFunc is_space s)"

definition ToUpper :: "string \<Rightarrow> string" where
  "ToUpper s = map to_upper s"

definition EqualFold :: "string \<Rightarrow> string \<Rightarrow> bool" where
  "EqualFold s t \<longleftrightarrow> ToUpper s = ToUpper t"

definition HasPrefix :: "string \<Rightarrow> string \<Rightarrow> bool" where
  "HasPrefix s p \<longleftrightarrow> take (length p) s = p"

definition TrimPrefix :: "string \<Rightarrow> string \<Rightarrow> string" where
  "TrimPrefix s p = (if HasPrefix s p then drop (length p) s else s)"

fun Join :: "string list \<Rightarrow> string \<Rightarrow> string" where
  "Join [] sep = ''''"
| "Join [x] sep = x"
| "Join (x # y # xs) sep = x @ sep @ Join (y # xs) sep"

text \<open>\<open>strings.Fields\<close>: the maximal runs of non-space characters.\<close>

fun fields_from :: "string \<Rightarrow> string \<Rightarrow> string list" where
  "fields_from cur [] = (if cur = [] then [] else [cur])"
| "fields_from cur (c # cs) =
     (if is_space c then (if cur = [] then [] else [cur]) @ fields_from [] cs
      else fields_from (cur @ [c]) cs)"

definition Fields :: "string \<Rightarrow> string list" where
  "Fields s = fields_from [] s"

lemma ToUpper_Nil [simp]: "ToUpper [] = []"
  by (simp add: ToUpper_def)

lemma ToUpper_idem [simp]: "ToUpper (ToUpper s) = ToUpper s"
  by (simp add: ToUpper_def)

lemma length_ToUpper [simp]: "length (ToUpper s) = length s"
  by (simp add: ToUpper_def)

lemma dropWhile_none: "(\<And>x. x \<in> set xs \<Longrightarrow> \<not> P x) \<Longrightarrow> dropWhile P xs = xs"
  by (cases xs) simp_all

lemma TrimSpace_no_space: "\<forall>c \<in> set s. \<not> is_space c \<Longrightarrow> TrimSpace s = s"
  using dropWhile_none[of s is_space] dropWhile_none[of "rev s" is_space]
  by (simp add: TrimSpace_def TrimLeftFunc_def TrimRightFunc_def)

lemma TrimSpace_Nil [simp]: "TrimSpace [] = []"
  by (simp add: TrimSpace_def TrimLeftFunc_def TrimRightFunc_def)

lemma TrimSpace_ends:
  assumes "s \<noteq> []" "\<not> is_space (hd s)" "\<not> is_space (last s)"
  shows "TrimSpace s = s"
proof -
  obtain c r where "s = c # r" "\<not> is_space c" using assms by (cases s) simp_all
  then have "dropWhile is_space s = s" by simp
  moreover obtain q d where "s = q @ [d]" "\<not> is_space d"
    using assms by (cases s rule: rev_cases) simp_all
  then have "dropWhile is_space (rev s) = rev s" by simp
  ultimately show ?thesis by (simp add: TrimSpace_def TrimLeftFunc_def TrimRightFunc_def)
qed

lemma EqualFold_refl [simp]: "EqualFold s s"
  by (simp add: EqualFold_def)

lemma HasPrefix_append [simp]: "HasPrefix (p @ s) p"
  by (simp add: HasPrefix_def)

lemma TrimPrefix_append [simp]: "TrimPrefix (p @ s) p = s"
  by (simp add: TrimPrefix_def)

text \<open>
  Joining with a separator that occurs in none of the parts is injective on lists of the
  same length; the verdicts compare label lists through \<open>strings.Join\<close>.
\<close>

lemma append_sep_inj:
  assumes "x @ sc # r = y @ sc # r'" "sc \<notin> set x" "sc \<notin> set y"
  shows "x = y \<and> r = r'"
  using assms
proof (induction x arbitrary: y)
  case Nil then show ?case by (cases y) auto
next
  case (Cons a x) then show ?case by (cases y) auto
qed

lemma Join_no_sep:
  "xs \<noteq> [] \<Longrightarrow> (\<forall>x \<in> set xs. sc \<notin> set x) \<Longrightarrow> sc \<in> set (Join xs [sc]) \<longleftrightarrow> 1 < length xs"
  by (induction xs "[sc]" rule: Join.induct) auto

lemma Join_inj:
  assumes "\<forall>x \<in> set xs. sc \<notin> set x" "\<forall>y \<in> set ys. sc \<notin> set y"
    and "xs \<noteq> []" "ys \<noteq> []" "Join xs [sc] = Join ys [sc]"
  shows "xs = ys"
  using assms
proof (induction xs arbitrary: ys)
  case Nil then show ?case by simp
next
  case (Cons x xs)
  from Cons.prems obtain y ys' where ys: "ys = y # ys'" by (cases ys) auto
  have len: "(1 < length (x # xs)) = (1 < length ys)"
    using Join_no_sep[of "x # xs" sc] Join_no_sep[of ys sc] Cons.prems by auto
  show ?case
  proof (cases xs)
    case Nil
    with len ys Cons.prems show ?thesis by auto
  next
    case (Cons x' xs')
    note xs = this
    with len ys obtain y' ys'' where ys': "ys' = y' # ys''" by (cases ys') auto
    from Cons.prems xs ys ys'
    have "x @ sc # Join xs [sc] = y @ sc # Join ys' [sc]" by simp
    then have "x = y \<and> Join xs [sc] = Join ys' [sc]"
      by (rule append_sep_inj) (use Cons.prems ys in auto)
    moreover from this have "xs = ys'"
      by (intro Cons.IH) (use Cons.prems ys ys' xs in auto)
    ultimately show ?thesis using ys by simp
  qed
qed

subsection \<open>Package strconv\<close>

fun digits_of :: "nat \<Rightarrow> string" where
  "digits_of n = (if n < 10 then [char_of (48 + n)] else digits_of (n div 10) @ [char_of (48 + n mod 10)])"

declare digits_of.simps [simp del]

definition FormatInt :: "int \<Rightarrow> string" where
  "FormatInt i = (if i < 0 then ''-'' @ digits_of (nat (- i)) else digits_of (nat i))"

lemma digits_of_digits: "\<forall>c \<in> set (digits_of n). is_digit c"
proof (induction n rule: digits_of.induct)
  case (1 n)
  have d: "is_digit (char_of (48 + k))" if "k < 10" for k :: nat
    using that by (auto simp: is_digit_def less_eq_char_def)
  show ?case
    using 1 d[of n] d[of "n mod 10"] by (cases "n < 10") (auto simp: digits_of.simps[of n])
qed

lemma digits_of_nonempty [simp]: "digits_of n \<noteq> []"
  by (subst digits_of.simps) simp

end
