(* ===== verification/GoFloat.thy ===== *)
theory GoFloat
  imports Prelude "HOL-Library.Log_Nat"
begin

text \<open>
  Go's \<open>float64\<close>. A finite value is the rational number it denotes; every arithmetic
  operation of the code is the exact rational operation followed by \<open>fl\<close>, the IEEE 754
  rounding to a 53-bit significand (to nearest, ties to even, with the binary64 lower
  exponent limit). Infinities and NaN are not values of the model: the amounts the code
  computes with are finite database columns, and no modelled operation leaves the finite
  range on them (the divisions are guarded in the code).
\<close>

type_synonym float64 = rat

text \<open>The exponent \<open>e\<close> with \<open>2 powi e \<le> x < 2 powi (e + 1)\<close>, for positive \<open>x\<close>.\<close>

definition ilog2 :: "rat \<Rightarrow> int" where
  "ilog2 x = (case quotient_of x of (p, q) \<Rightarrow>
     let e = bitlen p - bitlen q in if 2 powi e \<le> x then e else e - 1)"

definition round_half_even :: "rat \<Rightarrow> int" where
  "round_half_even y =
     (let f = \<lfloor>y\<rfloor>; d = y - of_int f
      in if d < 1 / 2 then f else if d > 1 / 2 then f + 1 else if even f then f else f + 1)"

text \<open>The unit in the last place of \<open>x\<close>, and the rounding.\<close>

definition ulp64 :: "rat \<Rightarrow> rat" where
  "ulp64 x = 2 powi (max (ilog2 \<bar>x\<bar> - 52) (- 1074))"

definition fl :: "rat \<Rightarrow> float64" where
  "fl x = (if x = 0 then 0 else of_int (round_half_even (x / ulp64 x)) * ulp64 x)"

definition fadd :: "float64 \<Rightarrow> float64 \<Rightarrow> float64" where "fadd x y = fl (x + y)"
definition fsub :: "float64 \<Rightarrow> float64 \<Rightarrow> float64" where "fsub x y = fl (x - y)"
definition fmul :: "float64 \<Rightarrow> float64 \<Rightarrow> float64" where "fmul x y = fl (x * y)"
definition fdiv :: "float64 \<Rightarrow> float64 \<Rightarrow> float64" where "fdiv x y = fl (x / y)"

text \<open>Conversions: \<open>float64(i)\<close> rounds, \<open>int64(x)\<close> truncates, \<open>math.Round\<close> rounds half away from zero.\<close>

definition float_of_int :: "int \<Rightarrow> float64" where "float_of_int i = fl (of_int i)"

definition int_of_float :: "float64 \<Rightarrow> int" where
  "int_of_float x = (if x < 0 then - \<lfloor>- x\<rfloor> else \<lfloor>x\<rfloor>)"

definition Round :: "float64 \<Rightarrow> int" where
  "Round x = (if x < 0 then - \<lfloor>- x + 1 / 2\<rfloor> else \<lfloor>x + 1 / 2\<rfloor>)"

subsection \<open>The rounding is exact on representable values\<close>

lemma powi_two_pos [simp]: "(0::rat) < 2 powi e"
  by (simp add: zero_less_power_int)

lemma ulp64_pos [simp]: "0 < ulp64 x"
  by (simp add: ulp64_def)

lemma bitlen_powi:
  assumes "0 < p"
  shows "2 powi (bitlen p - 1) \<le> (of_int p :: rat)" "(of_int p :: rat) < 2 powi bitlen p"
proof -
  have b: "0 < bitlen p" "2 ^ nat (bitlen p - 1) \<le> p" "p < 2 ^ nat (bitlen p)"
    using bitlen_bounds[OF assms] assms
    by (auto simp: bitlen_eq_zero_iff order_less_le bitlen_nonneg)
  have "of_int (2 ^ nat (bitlen p - 1)) \<le> (of_int p :: rat)"
    using b(2) by (simp only: of_int_le_iff)
  then show "2 powi (bitlen p - 1) \<le> (of_int p :: rat)"
    using b(1) by (simp add: power_int_def)
  have "(of_int p :: rat) < of_int (2 ^ nat (bitlen p))"
    using b(3) by (simp only: of_int_less_iff)
  then show "(of_int p :: rat) < 2 powi bitlen p"
    using b(1) by (simp add: power_int_def)
qed

lemma ilog2_bounds:
  assumes "0 < x"
  shows "2 powi ilog2 x \<le> x" "x < 2 powi (ilog2 x + 1)"
proof -
  obtain p q where pq: "quotient_of x = (p, q)" by force
  have q: "0 < q" using pq by (rule quotient_of_denom_pos)
  have x: "x = of_int p / of_int q" using pq by (rule quotient_of_div)
  have p: "0 < p" using assms q x by (simp add: zero_less_divide_iff)
  define e where "e = bitlen p - bitlen q"
  note bp = bitlen_powi[OF p] and bq = bitlen_powi[OF q]
  have up: "x < 2 powi (e + 1)"
  proof -
    have "x < 2 powi bitlen p / 2 powi (bitlen q - 1)"
      unfolding x by (rule frac_less) (use p bp bq in auto)
    also have "\<dots> = 2 powi (bitlen p - (bitlen q - 1))"
      by (simp only: power_int_diff[symmetric] zero_neq_numeral[symmetric] not_False_eq_True simp_thms)
    also have "bitlen p - (bitlen q - 1) = e + 1"
      by (simp add: e_def)
    finally show ?thesis .
  qed
  have low: "2 powi (e - 1) \<le> x"
  proof -
    have "2 powi (e - 1) = 2 powi (bitlen p - 1) / (2 powi bitlen q :: rat)"
      by (simp add: e_def algebra_simps flip: power_int_diff)
    also have "\<dots> \<le> x"
      unfolding x by (rule frac_le) (use p q bp bq in auto)
    finally show ?thesis .
  qed
  show "2 powi ilog2 x \<le> x" "x < 2 powi (ilog2 x + 1)"
    using up low by (auto simp: ilog2_def pq Let_def e_def[symmetric] not_le)
qed

lemma round_half_even_of_int [simp]: "round_half_even (of_int n) = n"
  by (simp add: round_half_even_def)

lemma round_half_even_err: "\<bar>of_int (round_half_even y) - y\<bar> \<le> 1 / 2"
proof -
  define f where "f = \<lfloor>y\<rfloor>"
  have f: "of_int f \<le> y" "y < of_int f + 1"
    unfolding f_def by linarith+
  show ?thesis
    using f unfolding round_half_even_def Let_def f_def[symmetric] abs_le_iff
    by (cases "even f") (auto simp: field_simps)
qed

lemma fl_error: "\<bar>fl x - x\<bar> \<le> ulp64 x / 2"
proof (cases "x = 0")
  case False
  let ?u = "ulp64 x"
  have "fl x - x = (of_int (round_half_even (x / ?u)) - x / ?u) * ?u"
    using False less_imp_neq[OF ulp64_pos[of x]] by (simp add: fl_def left_diff_distrib)
  then have "\<bar>fl x - x\<bar> = \<bar>of_int (round_half_even (x / ?u)) - x / ?u\<bar> * ?u"
    by (simp only: abs_mult abs_of_pos[OF ulp64_pos])
  also have "\<dots> \<le> 1 / 2 * ?u"
    by (rule mult_right_mono[OF round_half_even_err]) (simp add: less_imp_le)
  finally show ?thesis by simp
qed (simp add: fl_def less_imp_le)

lemma ulp64_le:
  assumes "2 powi (- 1022) \<le> \<bar>x\<bar>"
  shows "ulp64 x \<le> \<bar>x\<bar> * 2 powi (- 52)"
proof -
  have x: "0 < \<bar>x\<bar>" using assms powi_two_pos[of "- 1022"] by linarith
  have "(2::rat) powi (- 1022) < 2 powi (ilog2 \<bar>x\<bar> + 1)"
    using assms ilog2_bounds(2)[OF x] by linarith
  then have "- 1022 < ilog2 \<bar>x\<bar> + 1"
    by (meson not_le one_le_numeral power_int_increasing)
  then have "max (ilog2 \<bar>x\<bar> - 52) (- 1074) = ilog2 \<bar>x\<bar> + - 52"
    by linarith
  then have "ulp64 x = 2 powi (ilog2 \<bar>x\<bar> + - 52)"
    by (simp only: ulp64_def)
  then have "ulp64 x = 2 powi (ilog2 \<bar>x\<bar>) * 2 powi (- 52)"
    by (simp only: power_int_add[of "2::rat"] zero_neq_numeral[symmetric] not_False_eq_True simp_thms)
  also have "\<dots> \<le> \<bar>x\<bar> * 2 powi (- 52)"
    by (rule mult_right_mono[OF ilog2_bounds(1)[OF x]]) (simp add: less_imp_le)
  finally show ?thesis .
qed

lemma fl_rel_error:
  assumes "2 powi (- 1022) \<le> \<bar>x\<bar>"
  shows "\<bar>fl x - x\<bar> \<le> \<bar>x\<bar> * 2 powi (- 53)"
proof -
  have "(2::rat) powi (- 52) / 2 = 2 powi (- 53)"
    by (simp add: power_int_def field_simps)
  moreover have "ulp64 x / 2 \<le> \<bar>x\<bar> * 2 powi (- 52) / 2"
    using ulp64_le[OF assms] by (rule divide_right_mono) simp
  ultimately show ?thesis
    using fl_error[of x] by (simp only: times_divide_eq_right[symmetric])
qed

text \<open>Whole numbers below \<open>2 ^ 53\<close> are representable: conversions from \<open>int64\<close> are exact there.\<close>

lemma fl_of_int:
  assumes "\<bar>n\<bar> < 2 ^ 53"
  shows "fl (of_int n) = of_int n"
proof (cases "n = 0")
  case False
  let ?x = "of_int n :: rat"
  let ?k = "max (ilog2 \<bar>?x\<bar> - 52) (- 1074)"
  have x: "0 < \<bar>?x\<bar>" using False by simp
  have "\<bar>?x\<bar> < 2 powi 53"
    using assms by (metis of_int_abs of_int_less_iff of_int_numeral of_int_power power_int_numeral)
  then have "(2::rat) powi ilog2 \<bar>?x\<bar> < 2 powi 53"
    using ilog2_bounds(1)[OF x] by linarith
  then have "ilog2 \<bar>?x\<bar> < 53"
    by (meson not_le one_le_numeral power_int_increasing)
  then have k: "?k \<le> 0" by linarith
  have "?x / ulp64 ?x = ?x * 2 ^ nat (- ?k)"
    using k by (simp add: ulp64_def power_int_def field_simps)
  also have "\<dots> = of_int (n * 2 ^ nat (- ?k))" by simp
  finally have r: "?x / ulp64 ?x = of_int (n * 2 ^ nat (- ?k))" .
  have "of_int (round_half_even (?x / ulp64 ?x)) * ulp64 ?x = ?x / ulp64 ?x * ulp64 ?x"
    unfolding r round_half_even_of_int ..
  then show ?thesis
    using False less_imp_neq[OF ulp64_pos[of ?x]] by (simp add: fl_def)
qed (simp add: fl_def)

lemma fl_0 [simp]: "fl 0 = 0"
  by (simp add: fl_def)

subsection \<open>Rounding to whole numbers\<close>

lemma Round_of_int [simp]: "Round (of_int n) = n"
  by (auto simp: Round_def) linarith+

lemma Round_near:
  assumes "\<bar>x - of_int n\<bar> < 1 / 2"
  shows "Round x = n"
proof (cases "x < 0")
  case True
  have "\<lfloor>- x + 1 / 2\<rfloor> = - n"
    by (rule floor_unique) (use assms in \<open>auto simp: abs_if split: if_splits\<close>)
  with True show ?thesis by (simp add: Round_def)
next
  case False
  have "\<lfloor>x + 1 / 2\<rfloor> = n"
    by (rule floor_unique) (use assms in \<open>auto simp: abs_if split: if_splits\<close>)
  with False show ?thesis by (simp add: Round_def)
qed

text \<open>
  A decimal amount with two digits, stored as the nearest \<open>float64\<close>, comes back as the same
  number of cents after multiplication by 100 and rounding.
\<close>

lemma decimal_roundtrip:
  assumes n: "\<bar>n\<bar> \<le> 2 ^ 50"
  shows "Round (fmul (fl (of_int n / 100)) 100) = n"
proof (cases "n = 0")
  case True
  then show ?thesis using Round_of_int[of 0] by (simp add: fmul_def)
next
  case False
  let ?N = "\<bar>of_int n :: rat\<bar>" and ?e = "2 powi (- 53) :: rat"
  define v where "v = fl (of_int n / 100 :: rat)"
  have N1: "1 \<le> ?N"
    using False by (metis abs_ge_zero int_one_le_iff_zero_less of_int_1_le_iff of_int_abs zero_less_abs_iff)
  have N2: "?N \<le> 2 ^ 50"
    using n by (metis of_int_abs of_int_le_iff of_int_numeral of_int_power)
  have small: "(2::rat) powi (- 1022) \<le> 1 / 200"
  proof -
    have "(2::rat) powi (- 1022) \<le> 2 powi (- 8)" by (rule power_int_increasing) simp_all
    also have "(2::rat) powi (- 8) \<le> 1 / 200" by (simp add: power_int_def field_simps)
    finally show ?thesis .
  qed
  have e: "0 < ?e" "?e \<le> 1 / 2 ^ 53" by (simp_all add: power_int_def field_simps)
  have "\<bar>v - of_int n / 100\<bar> \<le> \<bar>of_int n / 100\<bar> * ?e"
    unfolding v_def by (rule fl_rel_error) (use N1 small in \<open>simp add: abs_divide\<close>)
  then have 1: "\<bar>v * 100 - of_int n\<bar> \<le> ?N * ?e"
    by (simp add: abs_divide field_simps flip: abs_mult)
  have Ne: "?N * ?e \<le> 1 / 8"
  proof -
    have "?N * ?e \<le> 2 ^ 50 * (1 / 2 ^ 53)" by (rule mult_mono) (use N2 e in auto)
    then show ?thesis by simp
  qed
  have M: "?N / 2 \<le> \<bar>v * 100\<bar>" "\<bar>v * 100\<bar> \<le> 2 * ?N"
    using 1 Ne N1 by (auto simp: abs_if split: if_splits)
  have "\<bar>fl (v * 100) - v * 100\<bar> \<le> \<bar>v * 100\<bar> * ?e"
    by (rule fl_rel_error) (use M N1 small in linarith)
  also have "\<dots> \<le> 2 * ?N * ?e" by (rule mult_right_mono) (use M e in auto)
  finally have "\<bar>fl (v * 100) - v * 100\<bar> \<le> 2 * (1 / 8)" using Ne by linarith
  then have "\<bar>fl (v * 100) - of_int n\<bar> < 1 / 2" using 1 Ne by linarith
  then show ?thesis unfolding fmul_def v_def by (rule Round_near)
qed

lemma round_half_even_nonpos: "x \<le> 0 \<Longrightarrow> round_half_even x \<le> 0"
  by (auto simp: round_half_even_def Let_def floor_le_iff less_le_trans)

lemma fl_nonpos:
  assumes "x \<le> 0" shows "fl x \<le> 0"
proof -
  have u: "0 < ulp64 x" by (rule ulp64_pos)
  have "x / ulp64 x \<le> 0" using assms u by (simp add: divide_nonpos_pos)
  then have "of_int (round_half_even (x / ulp64 x)) \<le> (0 :: rat)"
    using round_half_even_nonpos by simp
  then show ?thesis using less_imp_le[OF u] by (simp add: fl_def mult_nonpos_nonneg)
qed

text \<open>Evaluation: whole numbers below \<open>2 ^ 53\<close> are not rounded.\<close>

lemma fl_code [code]:
  "fl x = (if \<bar>x\<bar> < 9007199254740992 \<and> x = of_int \<lfloor>x\<rfloor> then x
           else if x = 0 then 0 else of_int (round_half_even (x / ulp64 x)) * ulp64 x)"
proof (cases "\<bar>x\<bar> < 9007199254740992 \<and> x = of_int \<lfloor>x\<rfloor>")
  case True
  then obtain n where n: "x = of_int n" by blast
  then have "\<bar>n\<bar> < 2 ^ 53" using True by simp
  then show ?thesis using True n fl_of_int by simp
qed (auto simp: fl_def)

end
