(* ===== verification/GoTime.thy ===== *)
theory GoTime
  imports GoStrings
begin

text \<open>
  Go's \<open>time.Time\<close> in UTC: an instant is the number of nanoseconds since 1970-01-01.
  \<open>Before\<close> and \<open>After\<close> are the order of integers. \<open>AddDate\<close> works on the civil date and
  normalises overflowing months and days as \<open>time.Date\<close> does (January 31 plus one month is
  a day of March). \<open>Format\<close> is modelled for the two layouts the code uses, and \<open>time.Parse\<close>
  for the date layout. The civil calendar is computed with the usual 400-year eras, the year
  starting in March.
\<close>

type_synonym gotime = int

definition ns_per_day :: int where "ns_per_day = 86400000000000"

definition day_of :: "gotime \<Rightarrow> int" where "day_of t = t div ns_per_day"

definition days_from_civil :: "int \<Rightarrow> int \<Rightarrow> int \<Rightarrow> int" where
  "days_from_civil y m d =
     (let y' = (if m \<le> 2 then y - 1 else y);
          era = y' div 400;
          yoe = y' mod 400;
          doy = (153 * ((m + 9) mod 12) + 2) div 5 + d - 1;
          doe = yoe * 365 + yoe div 4 - yoe div 100 + doy
      in era * 146097 + doe - 719468)"

definition civil_from_days :: "int \<Rightarrow> int \<times> int \<times> int" where
  "civil_from_days n =
     (let z = n + 719468;
          era = z div 146097;
          doe = z mod 146097;
          yoe = (doe - doe div 1460 + doe div 36524 - doe div 146096) div 365;
          doy = doe - (365 * yoe + yoe div 4 - yoe div 100);
          mp = (5 * doy + 2) div 153;
          d = doy - (153 * mp + 2) div 5 + 1;
          m = (if mp < 10 then mp + 3 else mp - 9)
      in (yoe + era * 400 + (if m \<le> 2 then 1 else 0), m, d))"

text \<open>\<open>time.Date\<close>: the month is normalised into the year, the day is an offset from the first.\<close>

definition go_date_days :: "int \<Rightarrow> int \<Rightarrow> int \<Rightarrow> int" where
  "go_date_days y m d = days_from_civil (y + (m - 1) div 12) ((m - 1) mod 12 + 1) d"

definition AddDate :: "gotime \<Rightarrow> int \<Rightarrow> int \<Rightarrow> int \<Rightarrow> gotime" where
  "AddDate t y m d =
     (case civil_from_days (day_of t) of (yy, mm, dd) \<Rightarrow>
        go_date_days (yy + y) (mm + m) (dd + d) * ns_per_day + t mod ns_per_day)"

definition Year :: "gotime \<Rightarrow> int" where
  "Year t = fst (civil_from_days (day_of t))"

definition pad :: "nat \<Rightarrow> string \<Rightarrow> string" where
  "pad n s = replicate (n - length s) (CHR ''0'') @ s"

definition FormatMonth :: "gotime \<Rightarrow> string" where
  "FormatMonth t = (case civil_from_days (day_of t) of (y, m, d) \<Rightarrow>
     pad 4 (FormatInt y) @ ''-'' @ pad 2 (FormatInt m))"

definition FormatDate :: "gotime \<Rightarrow> string" where
  "FormatDate t = (case civil_from_days (day_of t) of (y, m, d) \<Rightarrow>
     pad 4 (FormatInt y) @ ''-'' @ pad 2 (FormatInt m) @ ''-'' @ pad 2 (FormatInt d))"

definition digit_value :: "char \<Rightarrow> int" where
  "digit_value c = int (of_char c) - 48"

definition digits_value :: "string \<Rightarrow> int" where
  "digits_value s = foldl (\<lambda>n c. n * 10 + digit_value c) 0 s"

definition leap_year :: "int \<Rightarrow> bool" where
  "leap_year y \<longleftrightarrow> y mod 4 = 0 \<and> (y mod 100 \<noteq> 0 \<or> y mod 400 = 0)"

definition days_in_month :: "int \<Rightarrow> int \<Rightarrow> int" where
  "days_in_month y m =
     (if m = 2 then (if leap_year y then 29 else 28)
      else if m \<in> {4, 6, 9, 11} then 30 else 31)"

definition ParseDate :: "string \<Rightarrow> gotime option" where
  "ParseDate s =
     (if length s = 10 \<and> s ! 4 = CHR ''-'' \<and> s ! 7 = CHR ''-'' \<and>
         list_all is_digit (take 4 s) \<and> list_all is_digit (take 2 (drop 5 s)) \<and>
         list_all is_digit (drop 8 s)
      then let y = digits_value (take 4 s);
               m = digits_value (take 2 (drop 5 s));
               d = digits_value (drop 8 s)
           in if 1 \<le> m \<and> m \<le> 12 \<and> 1 \<le> d \<and> d \<le> days_in_month y m
              then Some (days_from_civil y m d * ns_per_day) else None
      else None)"


end
