(* ===== verification/FunnelTypes.thy ===== *)
theory FunnelTypes
  imports GoStrings GoFloat GoTime
begin

text \<open>
  The data of the matching funnel (\<open>backend/internal/smartpassive/funnel.go\<close> and
  \<open>funnel_orders.go\<close>): purchase invoices, purchase requests (RDAs) with their rows, purchase
  orders with their rows, and the quantities linked by the accounting office (AFC) in
  Alyante. Go pointers and nullable columns are options. The rows of an RDA are a Go map keyed
  by row id: a list of entries, in whatever order the map is visited.
\<close>

datatype funnelProfile = OneTime | Recurring | Mixed | Unknown

record funnelInvoice =
  inv_key :: string
  inv_registration :: int
  inv_supplierID :: "int option"
  inv_supplierName :: string
  inv_documentNumber :: string
  inv_documentDate :: "gotime option"
  inv_supplierReference :: string
  inv_note :: string
  inv_taxableAmount :: "float64 option"
  inv_supplierVAT :: string
  inv_supplierVATForeign :: string
  inv_fiscalCode :: string

record funnelRDALine =
  rl_rowType :: "string option"
  rl_qty :: "float64 option"
  rl_nrc :: "float64 option"
  rl_mrc :: "float64 option"
  rl_price :: "float64 option"
  rl_total :: "float64 option"
  rl_isRecurrent :: "bool option"
  rl_recurrence :: "int option"
  rl_initialMonths :: "int option"
  rl_automaticRenew :: "bool option"

record funnelRDA =
  rda_id :: int
  rda_code :: string
  rda_state :: string
  rda_type :: string
  rda_object :: string
  rda_total :: "float64 option"
  rda_currency :: string
  rda_created :: "gotime option"
  rda_delivered :: "gotime option"
  rda_supplierID :: "int option"
  rda_providerName :: string
  rda_lines :: "(int \<times> funnelRDALine) list"

record funnelDocLine =
  dl_progressive :: int
  dl_rowType :: "int option"
  dl_article :: string
  dl_description :: string
  dl_qty :: "float64 option"
  dl_price :: "float64 option"
  dl_net :: "float64 option"

text \<open>One document number read from a note; the year is empty when the note omits it.\<close>

record noteCode =
  nc_number :: string
  nc_year :: string

record funnelOrder =
  ord_key :: string
  ord_reg :: int
  ord_docCode :: string
  ord_series :: string
  ord_number :: string
  ord_date :: "gotime option"
  ord_supplierID :: "int option"
  ord_origRef :: string
  ord_total :: "float64 option"
  ord_lines :: "funnelDocLine list"
  ord_rdaCode :: "noteCode option"
  ord_rdaLegacy :: bool

record orderLineKey =
  lk_order :: string
  lk_row :: int

record orderLineLink =
  ll_invoiceRow :: int
  ll_line :: orderLineKey
  ll_qty :: float64

text \<open>A missing key of \<open>map[orderLineKey]float64\<close> reads as 0: the map is a total function.\<close>

record funnelOrderLinks =
  lnk_consumed :: "orderLineKey \<Rightarrow> float64"
  lnk_byInvoice :: "(string, orderLineLink) index"

subsection \<open>Amounts in cents\<close>

definition cents :: "float64 \<Rightarrow> int" where
  "cents value = Round (fmul value 100)"

subsection \<open>Request profiles\<close>

definition startDate :: "funnelRDA \<Rightarrow> gotime option" where
  "startDate r = (if rda_delivered r \<noteq> None then rda_delivered r else rda_created r)"

definition classifyFunnelLine :: "funnelRDALine \<Rightarrow> funnelProfile" where
  "classifyFunnelLine line =
     (if rl_rowType line = Some ''good'' then OneTime
      else if rl_rowType line \<noteq> Some ''service'' then Unknown
      else if rl_recurrence line = Some 1 \<and> rl_initialMonths line = Some 1 \<and>
              rl_automaticRenew line = Some False then OneTime
      else if rl_automaticRenew line = Some True \<or>
              (case rl_initialMonths line of Some n \<Rightarrow> n > 1 | None \<Rightarrow> False) \<or>
              (case rl_recurrence line of Some n \<Rightarrow> n > 1 | None \<Rightarrow> False) \<or>
              rl_isRecurrent line = Some True then Recurring
      else Unknown)"

fun classifyLoop :: "bool \<Rightarrow> bool \<Rightarrow> funnelRDALine list \<Rightarrow> funnelProfile" where
  "classifyLoop hasOneTime hasRecurring [] =
     (if hasOneTime \<and> hasRecurring then Mixed
      else if hasRecurring then Recurring else OneTime)"
| "classifyLoop hasOneTime hasRecurring (line # ls) =
     (let profile = classifyFunnelLine line
      in if profile = Unknown then Unknown
         else classifyLoop (hasOneTime \<or> profile = OneTime) (hasRecurring \<or> profile = Recurring) ls)"

definition classifyFunnelRDA :: "funnelRDA \<Rightarrow> funnelProfile" where
  "classifyFunnelRDA rda =
     (if rda_lines rda = [] then Unknown
      else classifyLoop False False (map snd (rda_lines rda)))"

record profileCounts =
  pc_OneTime :: nat
  pc_Recurring :: nat
  pc_Mixed :: nat
  pc_Unknown :: nat

definition addFunnelProfile :: "profileCounts \<Rightarrow> funnelProfile \<Rightarrow> profileCounts" where
  "addFunnelProfile counts profile =
     (case profile of
        OneTime \<Rightarrow> counts\<lparr>pc_OneTime := Suc (pc_OneTime counts)\<rparr>
      | Recurring \<Rightarrow> counts\<lparr>pc_Recurring := Suc (pc_Recurring counts)\<rparr>
      | Mixed \<Rightarrow> counts\<lparr>pc_Mixed := Suc (pc_Mixed counts)\<rparr>
      | Unknown \<Rightarrow> counts\<lparr>pc_Unknown := Suc (pc_Unknown counts)\<rparr>)"

text \<open>A nil date sorts last; two nil dates are equal.\<close>

definition timeAfter :: "gotime option \<Rightarrow> gotime option \<Rightarrow> bool" where
  "timeAfter left right =
     (case left of None \<Rightarrow> False
      | Some l \<Rightarrow> (case right of None \<Rightarrow> True | Some r \<Rightarrow> l > r))"

definition funnelOutcome :: "nat \<Rightarrow> string" where
  "funnelOutcome candidateCount =
     (if candidateCount = 0 then ''none'' else if candidateCount = 1 then ''one'' else ''multiple'')"

subsection \<open>Order rows and labels\<close>

definition isAmountLine :: "funnelDocLine \<Rightarrow> bool" where
  "isAmountLine l = (case dl_net l of None \<Rightarrow> False | Some n \<Rightarrow> cents n \<noteq> 0)"

definition orderLabel :: "funnelOrder \<Rightarrow> string" where
  "orderLabel o' = (if ord_origRef o' \<noteq> '''' then ord_origRef o'
     else TrimSpace (ord_series o' @ ''/'' @ ord_number o'))"

fun sumNet :: "funnelDocLine list \<Rightarrow> int" where
  "sumNet [] = 0"
| "sumNet (l # ls) = (case dl_net l of None \<Rightarrow> 0 | Some n \<Rightarrow> cents n) + sumNet ls"

definition orderTaxable :: "funnelOrder \<Rightarrow> int" where
  "orderTaxable o' = sumNet (ord_lines o')"

subsection \<open>Facts\<close>

lemma cents_decimal:
  "\<bar>n\<bar> \<le> 2 ^ 50 \<Longrightarrow> cents (fl (of_int n / 100)) = n"
  by (simp add: cents_def decimal_roundtrip)

lemma classifyLine_not_Mixed: "classifyFunnelLine line \<noteq> Mixed"
  by (simp add: classifyFunnelLine_def)

lemma classifyLoop_spec:
  "classifyLoop o' r ls =
     (if \<exists>l \<in> set ls. classifyFunnelLine l = Unknown then Unknown
      else let one = o' \<or> (\<exists>l \<in> set ls. classifyFunnelLine l = OneTime);
               rec = r \<or> (\<exists>l \<in> set ls. classifyFunnelLine l = Recurring)
           in if one \<and> rec then Mixed else if rec then Recurring else OneTime)"
  by (induction o' r ls rule: classifyLoop.induct) (auto simp: Let_def)

text \<open>The profile of an RDA does not depend on the order in which Go visits its rows.\<close>

interpretation profile_loop: map_loop "classifyLoop a b"
  "\<lambda>M. if \<exists>l \<in># M. classifyFunnelLine l = Unknown then Unknown
       else let one = a \<or> (\<exists>l \<in># M. classifyFunnelLine l = OneTime);
                rec = b \<or> (\<exists>l \<in># M. classifyFunnelLine l = Recurring)
            in if one \<and> rec then Mixed else if rec then Recurring else OneTime"
  for a b
  by unfold_locales (simp add: classifyLoop_spec)

lemma sumNet_append [simp]: "sumNet (xs @ ys) = sumNet xs + sumNet ys"
  by (induction xs) auto

lemma addFunnelProfile_total:
  "pc_OneTime (addFunnelProfile c p) + pc_Recurring (addFunnelProfile c p) +
   pc_Mixed (addFunnelProfile c p) + pc_Unknown (addFunnelProfile c p) =
   Suc (pc_OneTime c + pc_Recurring c + pc_Mixed c + pc_Unknown c)"
  by (cases p) (simp_all add: addFunnelProfile_def)

end
