(* ===== verification/FunnelReference.thy ===== *)
theory FunnelReference
  imports FunnelTypes "HOL-Library.Monad_Syntax" "HOL-Library.Sublist"
begin

text \<open>
  The AFC note and its resolution (\<open>smartpassive/funnel_reference.go\<close>): codes of purchase
  requests are read from free text with regular expressions, looked up in an index of the
  RDAs, and the outcome is the ground truth the matching is scored against.

  The regular expressions are anchored scanners. Each class in them is disjoint from the class
  that follows it (white space, separator, digits), so the leftmost-greedy match of RE2 never
  backtracks and is the one the scanner computes. \<open>find_all\<close> is \<open>FindAllStringSubmatch\<close>:
  left to right, non-overlapping, only at a word boundary (\<open>\b\<close>).
\<close>

subsection \<open>Scanners\<close>

definition is_sep :: "char \<Rightarrow> bool" where
  "is_sep c \<longleftrightarrow> c = CHR ''-'' \<or> c = CHR ''/''"

definition skip_ws :: "string \<Rightarrow> string" where
  "skip_ws s = dropWhile re_space s"

text \<open>A literal of the pattern under \<open>(?i)\<close>; the rest of the text on success.\<close>

definition match_ci :: "string \<Rightarrow> string \<Rightarrow> string option" where
  "match_ci w s = (if ToUpper (take (length w) s) = w then Some (drop (length w) s) else None)"

text \<open>\<open>(?:\s*[-/]\s*\d+)*\<close>: what it captures and the text after it.\<close>

function chain_tail :: "string \<Rightarrow> string \<times> string" where
  "chain_tail s =
     (case skip_ws s of
        [] \<Rightarrow> ([], s)
      | c # r \<Rightarrow>
          if is_sep c then
            let b = skip_ws r; rest = dropWhile is_digit b
            in if takeWhile is_digit b = [] then ([], s)
               else let (cap, left) = chain_tail rest
                    in (take (length s - length rest) s @ cap, left)
          else ([], s))"
  by pat_completeness auto
termination
proof (relation "measure length", goal_cases)
  case (2 s c r b rest)
  have "length rest \<le> length r"
    using 2 by (metis length_dropWhile_le order_trans skip_ws_def)
  moreover have "length (c # r) \<le> length s"
    using 2(1) by (metis length_dropWhile_le skip_ws_def)
  ultimately show ?case by simp
qed simp

declare chain_tail.simps [simp del]

text \<open>\<open>\d+(?:\s*[-/]\s*\d+)*\<close>, the capture group of both chain patterns.\<close>

definition chain_body :: "string \<Rightarrow> (string \<times> string) option" where
  "chain_body s =
     (if takeWhile is_digit s = [] then None
      else let (cap, left) = chain_tail (dropWhile is_digit s)
           in Some (takeWhile is_digit s @ cap, left))"

text \<open>\<open>arakChainPattern\<close>: the separator after PO is required.\<close>

definition arak_at :: "string \<Rightarrow> (string \<times> string) option" where
  "arak_at s = do {
     r \<leftarrow> match_ci ''PO'' s;
     (case skip_ws r of [] \<Rightarrow> None
      | c # r' \<Rightarrow> if is_sep c then chain_body (skip_ws r') else None) }"

text \<open>An optional separator between optional spaces: \<open>\s*[-/]?\s*\<close>.\<close>

definition skip_opt_sep :: "string \<Rightarrow> string" where
  "skip_opt_sep s =
     (case skip_ws s of [] \<Rightarrow> [] | c # r \<Rightarrow> if is_sep c then skip_ws r else c # r)"

definition legacy_at :: "string \<Rightarrow> (string \<times> string) option" where
  "legacy_at s = do { r \<leftarrow> match_ci ''PA'' s; chain_body (skip_opt_sep r) }"

definition any_code_at :: "string \<Rightarrow> bool" where
  "any_code_at s =
     (case (case match_ci ''PO'' s of Some r \<Rightarrow> Some r | None \<Rightarrow> match_ci ''PA'' s) of
        None \<Rightarrow> False
      | Some r \<Rightarrow> (case skip_opt_sep r of [] \<Rightarrow> False | c # _ \<Rightarrow> is_digit c))"

text \<open>\<open>\s+\<close>: at least one space.\<close>

definition match_spaces :: "string \<Rightarrow> string option" where
  "match_spaces s = (if takeWhile re_space s = [] then None else Some (skip_ws s))"

definition no_rda_at :: "string \<Rightarrow> bool" where
  "no_rda_at s =
     (match_ci ''PA'' s \<bind> match_spaces \<bind> match_ci ''MAI'' \<bind> match_spaces \<bind> match_ci ''C'' \<noteq> None)"

text \<open>
  \<open>find_all m k b s\<close>: the captures of \<open>m\<close> in \<open>s\<close>, after skipping \<open>k\<close> characters that belong to
  the previous match; \<open>b\<close> tells that the character before \<open>s\<close> is not a word character.
\<close>

fun find_all :: "(string \<Rightarrow> (string \<times> string) option) \<Rightarrow> nat \<Rightarrow> bool \<Rightarrow> string \<Rightarrow> string list" where
  "find_all m k b [] = []"
| "find_all m (Suc k) b (c # cs) = find_all m k (\<not> is_word c) cs"
| "find_all m 0 b (c # cs) =
     (case (if b then m (c # cs) else None) of
        None \<Rightarrow> find_all m 0 (\<not> is_word c) cs
      | Some (cap, rest) \<Rightarrow> cap # find_all m (length cs - length rest) (\<not> is_word c) cs)"

fun find_index :: "(string \<Rightarrow> bool) \<Rightarrow> bool \<Rightarrow> string \<Rightarrow> nat option" where
  "find_index p b [] = None"
| "find_index p b (c # cs) =
     (if b \<and> p (c # cs) then Some 0 else map_option Suc (find_index p (\<not> is_word c) cs))"

text \<open>\<open>chainSplitPattern.Split\<close>: the pieces between separators with their surrounding spaces.\<close>

function chain_split :: "string \<Rightarrow> string \<Rightarrow> string list" where
  "chain_split cur [] = [cur]"
| "chain_split cur (x # xs) =
     (case skip_ws (x # xs) of
        [] \<Rightarrow> chain_split (cur @ [x]) xs
      | c # r \<Rightarrow> if is_sep c then cur # chain_split [] (skip_ws r)
                 else chain_split (cur @ [x]) xs)"
  by pat_completeness auto
termination
proof (relation "measure (\<lambda>(cur, s). length s)", goal_cases)
  case (3 cur x xs c r)
  have "length (skip_ws r) \<le> length r"
    by (simp add: skip_ws_def length_dropWhile_le)
  moreover have "length (c # r) \<le> length (x # xs)"
    using 3(1) by (metis length_dropWhile_le skip_ws_def)
  ultimately show ?case by simp
qed simp_all

subsection \<open>Codes and notes\<close>

definition arakCode :: "noteCode \<Rightarrow> string" where
  "arakCode c = (if nc_year c = '''' then ''PO-'' @ nc_number c
     else ''PO-'' @ nc_number c @ ''/'' @ nc_year c)"

definition legacyCode :: "noteCode \<Rightarrow> string" where
  "legacyCode c = (if nc_year c = '''' then ''PA/'' @ nc_number c
     else ''PA/'' @ nc_number c @ ''-'' @ nc_year c)"

record parsedNote =
  pn_status :: string
  pn_noRDADeclared :: bool
  pn_arakCodes :: "noteCode list"
  pn_legacyCodes :: "noteCode list"

definition isYear :: "string \<Rightarrow> bool" where
  "isYear value = (length value = 4 \<and> HasPrefix value ''20'')"

fun chainParts :: "string list \<Rightarrow> string list \<Rightarrow> string \<Rightarrow> string list \<times> string" where
  "chainParts [] numbers year = (numbers, year)"
| "chainParts (part # ps) numbers year =
     (if isYear part then chainParts ps numbers part
      else if part \<noteq> '''' then chainParts ps (numbers @ [part]) year
      else chainParts ps numbers year)"

definition chainCodes :: "string \<Rightarrow> noteCode list" where
  "chainCodes m =
     (let (numbers, year) = chainParts (chain_split '''' (TrimSpace m)) [] ''''
      in map (\<lambda>n. \<lparr>nc_number = n, nc_year = year\<rparr>) numbers)"

definition collectChains :: "(string \<Rightarrow> (string \<times> string) option) \<Rightarrow> string \<Rightarrow> noteCode list" where
  "collectChains pattern text' = concat (map chainCodes (find_all pattern 0 True text'))"

definition uniqueCodes :: "noteCode list \<Rightarrow> noteCode list" where
  "uniqueCodes values = uniq_from {} values"

text \<open>The cut set of the trailing separators; its en dash is not an ASCII character.\<close>

definition status_cut :: "char \<Rightarrow> bool" where
  "status_cut c \<longleftrightarrow> c \<in> {CHR '' '', CHR 0x09, CHR ''-'', CHR '':''}"

definition afc_status_ok :: "string \<Rightarrow> bool" where
  "afc_status_ok s =
     (case s of [] \<Rightarrow> False | c # cs \<Rightarrow> is_letter c \<and> list_all (\<lambda>d. is_letter d \<or> d = CHR '' '') cs)"

definition leadingStatus :: "string \<Rightarrow> string" where
  "leadingStatus text' =
     (case find_index any_code_at True text' of
        None \<Rightarrow> ''''
      | Some i \<Rightarrow>
          if i = 0 then ''''
          else let prefix = TrimSpace (TrimRightFunc status_cut (take i text'))
               in if prefix = '''' \<or> \<not> afc_status_ok prefix then '''' else ToUpper prefix)"

definition parseAFCNote :: "string \<Rightarrow> parsedNote" where
  "parseAFCNote note =
     (let trimmed = TrimSpace note;
          out = \<lparr>pn_status = '''', pn_noRDADeclared = False, pn_arakCodes = [], pn_legacyCodes = []\<rparr>
      in if trimmed = '''' then out
         else let arak = uniqueCodes (collectChains arak_at trimmed);
                  legacy = uniqueCodes (collectChains legacy_at trimmed);
                  out1 = out\<lparr>pn_arakCodes := arak, pn_legacyCodes := legacy\<rparr>
              in if arak = [] \<and> legacy = []
                 then out1\<lparr>pn_noRDADeclared := find_index no_rda_at True trimmed \<noteq> None\<rparr>
                 else out1\<lparr>pn_status := leadingStatus trimmed\<rparr>)"

text \<open>\<open>rdaCodeShape\<close>, \<open>^PO-(\d+)/(\d{4})$\<close>: the number when the whole code has that shape.\<close>

definition rdaCodeShape :: "string \<Rightarrow> string option" where
  "rdaCodeShape code =
     (if HasPrefix code ''PO-'' then
        let s = drop 3 code; ds = takeWhile is_digit s; r = dropWhile is_digit s
        in if ds \<noteq> [] \<and> length r = 5 \<and> hd r = CHR ''/'' \<and> list_all is_digit (tl r)
           then Some ds else None
      else None)"

subsection \<open>The reference index and the resolution of a note\<close>

datatype funnelReferenceOutcome =
  referenceNoNote | referenceNoCode | referenceNoRDADeclared | referenceLegacyOnly
| referenceUnresolved | referenceAmbiguous | referenceOne | referenceMultiple

record referenceSummary =
  rs_NoNote :: nat
  rs_NoCode :: nat
  rs_NoRDADeclared :: nat
  rs_LegacyOnly :: nat
  rs_Unresolved :: nat
  rs_Ambiguous :: nat
  rs_OneRDA :: nat
  rs_MultipleRDAs :: nat
  rs_ArakAndLegacy :: nat
  rs_LegacyPromoted :: nat
  rs_SupplierMismatch :: nat

record referencedRDA =
  rr_Code :: string
  rr_LegacyCode :: string
  rr_ID :: "int option"
  rr_State :: string
  rr_SupplierERPID :: "int option"
  rr_Resolution :: string
  rr_SupplierMatch :: "bool option"
  rr_InCandidates :: bool
  rr_Total :: "float64 option"

record funnelReference =
  ref_Note :: string
  ref_AFCStatus :: string
  ref_Outcome :: funnelReferenceOutcome
  ref_RDAs :: "referencedRDA list"
  ref_LegacyCodes :: "string list"

record funnelReferenceIndex =
  ri_byCode :: "(string, funnelRDA) index"
  ri_byNumber :: "(string, funnelRDA) index"
  ri_byLegacy :: "(string, funnelRDA) index"

definition legacyNumbers :: "funnelRDA \<Rightarrow> string list" where
  "legacyNumbers rda = map nc_number (uniqueCodes (collectChains legacy_at (rda_object rda)))"

definition indexRDA :: "funnelRDA \<Rightarrow> funnelReferenceIndex \<Rightarrow> funnelReferenceIndex" where
  "indexRDA rda idx =
     (let idx1 = idx\<lparr>ri_byLegacy := fold (\<lambda>k m. ix_push k rda m) (legacyNumbers rda) (ri_byLegacy idx)\<rparr>;
          code = ToUpper (TrimSpace (rda_code rda))
      in if code = '''' then idx1
         else let idx2 = idx1\<lparr>ri_byCode := ix_push code rda (ri_byCode idx1)\<rparr>
              in case rdaCodeShape code of
                   None \<Rightarrow> idx2
                 | Some n \<Rightarrow> idx2\<lparr>ri_byNumber := ix_push n rda (ri_byNumber idx2)\<rparr>)"

definition newFunnelReferenceIndex :: "funnelRDA list \<Rightarrow> funnelReferenceIndex" where
  "newFunnelReferenceIndex rdas =
     fold indexRDA rdas \<lparr>ri_byCode = [], ri_byNumber = [], ri_byLegacy = []\<rparr>"

definition rdasWithLegacyPredecessor :: "funnelReferenceIndex \<Rightarrow> nat" where
  "rdasWithLegacyPredecessor idx =
     card (\<Union>kv \<in> set (ri_byLegacy idx). rda_id ` set (snd kv))"

definition lookup :: "funnelReferenceIndex \<Rightarrow> noteCode \<Rightarrow> funnelRDA list" where
  "lookup idx code =
     (if nc_year code \<noteq> '''' then ix_get (ri_byCode idx) (arakCode code)
      else ix_get (ri_byNumber idx) (nc_number code))"

definition duplicateCodes :: "funnelReferenceIndex \<Rightarrow> nat" where
  "duplicateCodes idx = length (filter (\<lambda>kv. length (snd kv) > 1) (ri_byCode idx))"

definition supplierMatches :: "funnelInvoice \<Rightarrow> funnelRDA \<Rightarrow> bool" where
  "supplierMatches invoice rda =
     (case (inv_supplierID invoice, rda_supplierID rda) of
        (Some a, Some b) \<Rightarrow> a = b | _ \<Rightarrow> False)"

definition mkReferencedRDA :: "funnelInvoice \<Rightarrow> funnelRDA \<Rightarrow> string \<Rightarrow> string \<Rightarrow> referencedRDA" where
  "mkReferencedRDA invoice rda resolution legacyCode' =
     \<lparr>rr_Code = ToUpper (rda_code rda), rr_LegacyCode = legacyCode', rr_ID = Some (rda_id rda),
      rr_State = rda_state rda, rr_SupplierERPID = rda_supplierID rda,
      rr_Resolution = resolution, rr_SupplierMatch = Some (supplierMatches invoice rda),
      rr_InCandidates = supplierMatches invoice rda, rr_Total = rda_total rda\<rparr>"

text \<open>An entry with only \<open>Code\<close> and \<open>Resolution\<close> set.\<close>

definition bareReferenced :: "string \<Rightarrow> string \<Rightarrow> referencedRDA" where
  "bareReferenced code resolution =
     \<lparr>rr_Code = code, rr_LegacyCode = '''', rr_ID = None, rr_State = '''', rr_SupplierERPID = None,
      rr_Resolution = resolution, rr_SupplierMatch = None, rr_InCandidates = False, rr_Total = None\<rparr>"

record resolveState =
  rv_hasUnresolved :: bool
  rv_hasAmbiguous :: bool
  rv_resolved :: "int set"
  rv_rdas :: "referencedRDA list"
  rv_legacy :: "string list"

definition resolveArak :: "funnelReferenceIndex \<Rightarrow> funnelInvoice \<Rightarrow> noteCode \<Rightarrow> resolveState \<Rightarrow> resolveState" where
  "resolveArak idx invoice code s =
     (case lookup idx code of
        [] \<Rightarrow> s\<lparr>rv_hasUnresolved := True,
               rv_rdas := rv_rdas s @ [bareReferenced (arakCode code) ''unresolved'']\<rparr>
      | [rda] \<Rightarrow> s\<lparr>rv_resolved := insert (rda_id rda) (rv_resolved s),
                  rv_rdas := rv_rdas s @ [mkReferencedRDA invoice rda ''resolved'' '''']\<rparr>
      | _ \<Rightarrow> s\<lparr>rv_hasAmbiguous := True,
               rv_rdas := rv_rdas s @ [bareReferenced (arakCode code) ''ambiguous'']\<rparr>)"

definition resolveLegacy :: "funnelReferenceIndex \<Rightarrow> funnelInvoice \<Rightarrow> noteCode \<Rightarrow> resolveState \<Rightarrow> resolveState" where
  "resolveLegacy idx invoice code s =
     (let successors = ix_get (ri_byLegacy idx) (nc_number code)
      in if successors = [] then s\<lparr>rv_legacy := rv_legacy s @ [legacyCode code]\<rparr>
         else fold (\<lambda>rda t. t\<lparr>rv_resolved := insert (rda_id rda) (rv_resolved t),
                      rv_rdas := rv_rdas t @ [mkReferencedRDA invoice rda ''successor'' (legacyCode code)]\<rparr>)
                successors s)"

definition resolve :: "funnelReferenceIndex \<Rightarrow> funnelInvoice \<Rightarrow> parsedNote \<Rightarrow> funnelReference" where
  "resolve idx invoice note =
     (let ref = \<lparr>ref_Note = TrimSpace (inv_note invoice), ref_AFCStatus = pn_status note,
                 ref_Outcome = referenceNoNote, ref_RDAs = [], ref_LegacyCodes = []\<rparr>
      in if ref_Note ref = '''' then ref
         else if pn_arakCodes note = [] \<and> pn_legacyCodes note = [] then
           ref\<lparr>ref_Outcome := if pn_noRDADeclared note then referenceNoRDADeclared else referenceNoCode\<rparr>
         else
           let s0 = \<lparr>rv_hasUnresolved = False, rv_hasAmbiguous = False, rv_resolved = {},
                     rv_rdas = [], rv_legacy = []\<rparr>;
               s1 = fold (resolveArak idx invoice) (pn_arakCodes note) s0;
               s2 = fold (resolveLegacy idx invoice) (pn_legacyCodes note) s1;
               outcome =
                 (if pn_arakCodes note = [] \<and> card (rv_resolved s2) = 0 then referenceLegacyOnly
                  else if rv_hasUnresolved s2 then referenceUnresolved
                  else if rv_hasAmbiguous s2 then referenceAmbiguous
                  else if card (rv_resolved s2) = 1 then referenceOne
                  else referenceMultiple)
           in ref\<lparr>ref_Outcome := outcome, ref_RDAs := sort_key rr_Code (rv_rdas s2),
                  ref_LegacyCodes := rv_legacy s2\<rparr>)"

definition countOutcome :: "referenceSummary \<Rightarrow> funnelReferenceOutcome \<Rightarrow> referenceSummary" where
  "countOutcome s out =
     (case out of
        referenceNoNote \<Rightarrow> s\<lparr>rs_NoNote := Suc (rs_NoNote s)\<rparr>
      | referenceNoCode \<Rightarrow> s\<lparr>rs_NoCode := Suc (rs_NoCode s)\<rparr>
      | referenceNoRDADeclared \<Rightarrow> s\<lparr>rs_NoRDADeclared := Suc (rs_NoRDADeclared s)\<rparr>
      | referenceLegacyOnly \<Rightarrow> s\<lparr>rs_LegacyOnly := Suc (rs_LegacyOnly s)\<rparr>
      | referenceUnresolved \<Rightarrow> s\<lparr>rs_Unresolved := Suc (rs_Unresolved s)\<rparr>
      | referenceAmbiguous \<Rightarrow> s\<lparr>rs_Ambiguous := Suc (rs_Ambiguous s)\<rparr>
      | referenceOne \<Rightarrow> s\<lparr>rs_OneRDA := Suc (rs_OneRDA s)\<rparr>
      | referenceMultiple \<Rightarrow> s\<lparr>rs_MultipleRDAs := Suc (rs_MultipleRDAs s)\<rparr>)"

definition addReferenceOutcome :: "referenceSummary \<Rightarrow> funnelReference \<Rightarrow> referenceSummary" where
  "addReferenceOutcome s0 ref =
     (let s1 = countOutcome s0 (ref_Outcome ref);
          s2 = (if ref_LegacyCodes ref \<noteq> [] \<and> ref_Outcome ref \<noteq> referenceLegacyOnly
                then s1\<lparr>rs_ArakAndLegacy := Suc (rs_ArakAndLegacy s1)\<rparr> else s1);
          mismatch = list_ex (\<lambda>r. rr_SupplierMatch r = Some False) (ref_RDAs ref);
          promoted = list_ex (\<lambda>r. rr_Resolution r = ''successor'') (ref_RDAs ref);
          s3 = (if promoted then s2\<lparr>rs_LegacyPromoted := Suc (rs_LegacyPromoted s2)\<rparr> else s2)
      in if mismatch then s3\<lparr>rs_SupplierMismatch := Suc (rs_SupplierMismatch s3)\<rparr> else s3)"

subsection \<open>The index answers with the RDAs that carry the code\<close>

definition codeKey :: "funnelRDA \<Rightarrow> string option" where
  "codeKey rda = (let code = ToUpper (TrimSpace (rda_code rda)) in if code = '''' then None else Some code)"

definition numberKey :: "funnelRDA \<Rightarrow> string option" where
  "numberKey rda = Option.bind (codeKey rda) rdaCodeShape"

lemma indexRDA_fields [frame_simps]:
  "ri_byCode (indexRDA rda idx) =
     (case codeKey rda of None \<Rightarrow> ri_byCode idx | Some k \<Rightarrow> ix_push k rda (ri_byCode idx))"
  "ri_byNumber (indexRDA rda idx) =
     (case numberKey rda of None \<Rightarrow> ri_byNumber idx | Some k \<Rightarrow> ix_push k rda (ri_byNumber idx))"
  "ri_byLegacy (indexRDA rda idx) =
     fold (\<lambda>k m. ix_push k rda m) (legacyNumbers rda) (ri_byLegacy idx)"
  by (auto simp: indexRDA_def codeKey_def numberKey_def Let_def split: option.split)

lemma fold_indexRDA:
  "ri_byCode (fold indexRDA rdas idx) =
     fold (\<lambda>r m. case codeKey r of None \<Rightarrow> m | Some k \<Rightarrow> ix_push k r m) rdas (ri_byCode idx)"
  "ri_byNumber (fold indexRDA rdas idx) =
     fold (\<lambda>r m. case numberKey r of None \<Rightarrow> m | Some k \<Rightarrow> ix_push k r m) rdas (ri_byNumber idx)"
  "ri_byLegacy (fold indexRDA rdas idx) =
     fold (\<lambda>r m. fold (\<lambda>k m. ix_push k r m) (legacyNumbers r) m) rdas (ri_byLegacy idx)"
  by (induction rdas arbitrary: idx) (simp_all add: frame_simps)

lemma reference_index_lookups [idx_simps]:
  "ix_get (ri_byCode (newFunnelReferenceIndex rdas)) c = filter (\<lambda>r. codeKey r = Some c) rdas"
  "ix_get (ri_byNumber (newFunnelReferenceIndex rdas)) c = filter (\<lambda>r. numberKey r = Some c) rdas"
  "ix_get (ri_byLegacy (newFunnelReferenceIndex rdas)) c =
     concat (map (\<lambda>r. replicate (count_list (legacyNumbers r) c) r) rdas)"
  by (simp_all add: newFunnelReferenceIndex_def fold_indexRDA idx_simps)

subsection \<open>A printed code is read back\<close>

definition wf_code :: "noteCode \<Rightarrow> bool" where
  "wf_code c \<longleftrightarrow>
     nc_number c \<noteq> '''' \<and> list_all is_digit (nc_number c) \<and> \<not> isYear (nc_number c) \<and>
     (nc_year c = '''' \<or> isYear (nc_year c) \<and> list_all is_digit (nc_year c))"

lemma skip_ws_id: "s = [] \<or> \<not> re_space (hd s) \<Longrightarrow> skip_ws s = s"
  by (cases s) (auto simp: skip_ws_def)

lemma takeWhile_digits:
  "list_all is_digit n \<Longrightarrow> r = [] \<or> \<not> is_digit (hd r) \<Longrightarrow> takeWhile is_digit (n @ r) = n"
  by (cases r) (auto simp: list_all_iff takeWhile_append)

lemma dropWhile_digits:
  "list_all is_digit n \<Longrightarrow> r = [] \<or> \<not> is_digit (hd r) \<Longrightarrow> dropWhile is_digit (n @ r) = r"
  by (cases r) (auto simp: list_all_iff dropWhile_append)

lemma sep_not_digit [simp]: "is_sep c \<Longrightarrow> \<not> is_digit c" "is_sep c \<Longrightarrow> \<not> re_space c" "is_sep c \<Longrightarrow> \<not> is_space c"
  by (auto simp: is_sep_def char_class_defs less_eq_char_def)

lemma chain_tail_Nil [simp]: "chain_tail [] = ([], [])"
  by (simp add: chain_tail.simps skip_ws_def)

lemma digits_hd: "list_all is_digit n \<Longrightarrow> n \<noteq> [] \<Longrightarrow> is_digit (hd n)"
  by (cases n) auto

lemma digits_skip_ws: "list_all is_digit n \<Longrightarrow> n \<noteq> [] \<Longrightarrow> skip_ws (n @ r) = n @ r"
  by (rule skip_ws_id) (use digits_hd[of n] in auto)

lemma chain_tail_sep_digits:
  assumes "is_sep c" "list_all is_digit y" "y \<noteq> []"
  shows "chain_tail (c # y) = (c # y, [])"
proof -
  have "skip_ws (c # y) = c # y" by (rule skip_ws_id) (use assms in simp)
  moreover have "skip_ws y = y" using digits_skip_ws[of y "[]"] assms by simp
  moreover have tw: "takeWhile is_digit y = y" "dropWhile is_digit y = []"
    using takeWhile_digits[of y "[]"] dropWhile_digits[of y "[]"] assms by simp_all
  ultimately show ?thesis
    using assms by (simp add: chain_tail.simps[of "c # y"] Let_def tw)
qed

lemma chain_body_digits:
  assumes "list_all is_digit n" "n \<noteq> []" "r = [] \<or> (\<exists>c y. r = c # y \<and> is_sep c \<and> list_all is_digit y \<and> y \<noteq> [])"
  shows "chain_body (n @ r) = Some (n @ r, [])"
proof -
  have "r = [] \<or> \<not> is_digit (hd r)" using assms(3) by auto
  then show ?thesis
    using assms takeWhile_digits[of n r] dropWhile_digits[of n r]
    by (auto simp: chain_body_def chain_tail_sep_digits)
qed

lemma chain_split_digits:
  "list_all is_digit n \<Longrightarrow> chain_split cur n = [cur @ n]"
proof (induction n arbitrary: cur)
  case (Cons x xs)
  then have "skip_ws (x # xs) = x # xs" by (intro skip_ws_id) simp
  moreover have "\<not> is_sep x" using Cons.prems sep_not_digit(1)[of x] by auto
  ultimately show ?case using Cons by simp
qed simp

lemma chain_split_sep:
  assumes "list_all is_digit n" "is_sep c" "list_all is_digit y" "y \<noteq> []"
  shows "chain_split cur (n @ c # y) = [cur @ n, y]"
  using assms(1)
proof (induction n arbitrary: cur)
  case Nil
  have "skip_ws (c # y) = c # y" by (rule skip_ws_id) (use assms in simp)
  moreover have "skip_ws y = y" using digits_skip_ws[of y "[]"] assms by simp
  ultimately show ?case using assms by (simp add: chain_split_digits)
next
  case (Cons x xs)
  then have "skip_ws ((x # xs) @ c # y) = (x # xs) @ c # y" by (intro skip_ws_id) simp
  moreover have "\<not> is_sep x" using Cons.prems sep_not_digit(1)[of x] by auto
  ultimately show ?case using Cons by simp
qed

lemma find_all_skip: "length s \<le> k \<Longrightarrow> find_all m k b s = []"
  by (induction m k b s rule: find_all.induct) auto

lemma find_all_none:
  "(\<And>t. t \<in> set (suffixes s) \<Longrightarrow> m t = None) \<Longrightarrow> find_all m 0 b s = []"
proof (induction s arbitrary: b)
  case (Cons c cs)
  then show ?case by (auto split: option.split)
qed simp

lemma find_all_hit:
  assumes "s \<noteq> []" "m s = Some (cap, [])"
  shows "find_all m 0 True s = [cap]"
  using assms by (cases s) (auto simp: find_all_skip)

lemma match_ci_None_hd:
  "w \<noteq> [] \<Longrightarrow> t = [] \<or> to_upper (hd t) \<noteq> hd w \<Longrightarrow> match_ci w t = None"
  by (cases w; cases t) (auto simp: match_ci_def ToUpper_def)

lemma legacy_at_None_hd: "t = [] \<or> to_upper (hd t) \<noteq> CHR ''P'' \<Longrightarrow> legacy_at t = None"
  by (simp add: legacy_at_def match_ci_None_hd)

lemma arak_at_None_hd: "t = [] \<or> to_upper (hd t) \<noteq> CHR ''P'' \<Longrightarrow> arak_at t = None"
  by (simp add: arak_at_def match_ci_None_hd)

lemma no_code_in_text:
  assumes "\<forall>c \<in> set s. to_upper c \<noteq> CHR ''P''"
  shows "find_all legacy_at 0 b s = []" "find_all arak_at 0 b s = []"
proof -
  have "t = [] \<or> to_upper (hd t) \<noteq> CHR ''P''" if "t \<in> set (suffixes s)" for t
    using that assms hd_in_set[of t] set_mono_suffix[of t s] in_set_suffixes[of t s] by blast
  then show "find_all legacy_at 0 b s = []" "find_all arak_at 0 b s = []"
    by (blast intro: find_all_none legacy_at_None_hd arak_at_None_hd)+
qed

lemma upper_const [simp]:
  "to_upper CHR ''P'' = CHR ''P''" "to_upper CHR ''O'' = CHR ''O''" "to_upper CHR ''A'' = CHR ''A''"
  "to_upper CHR ''-'' = CHR ''-''" "to_upper CHR ''/'' = CHR ''/''"
  by (simp_all add: to_upper_def is_lower_def less_eq_char_def)

lemma sep_const [simp]: "is_sep CHR ''-''" "is_sep CHR ''/''"
  by (simp_all add: is_sep_def)

lemma digit_not_P: "is_digit c \<Longrightarrow> c \<noteq> CHR ''P''" "is_digit c \<Longrightarrow> c \<noteq> CHR ''O''" "is_digit c \<Longrightarrow> c \<noteq> CHR ''A''"
  by (auto simp: is_digit_def less_eq_char_def)

text \<open>What follows the prefix of a well-formed code: digits, or digits, a separator and the year.\<close>

definition code_body :: "char \<Rightarrow> noteCode \<Rightarrow> string" where
  "code_body sep c = nc_number c @ (if nc_year c = '''' then '''' else sep # nc_year c)"

lemma wf_code_body:
  assumes "wf_code c" "is_sep sep"
  shows "chain_body (code_body sep c) = Some (code_body sep c, [])"
    and "chain_split '''' (code_body sep c) = (if nc_year c = '''' then [nc_number c] else [nc_number c, nc_year c])"
    and "skip_ws (code_body sep c) = code_body sep c"
    and "code_body sep c \<noteq> []" "is_digit (hd (code_body sep c))"
    and "x \<in> set (code_body sep c) \<Longrightarrow> is_digit x \<or> x = sep"
proof -
  have n: "list_all is_digit (nc_number c)" "nc_number c \<noteq> []"
    and y: "nc_year c \<noteq> '''' \<Longrightarrow> list_all is_digit (nc_year c)"
    using assms(1) by (auto simp: wf_code_def)
  show "chain_body (code_body sep c) = Some (code_body sep c, [])"
    unfolding code_body_def by (rule chain_body_digits) (use n y assms(2) in auto)
  show "chain_split '''' (code_body sep c) = (if nc_year c = '''' then [nc_number c] else [nc_number c, nc_year c])"
    using chain_split_sep[of "nc_number c" sep "nc_year c" "[]"] n y assms(2)
    by (simp add: code_body_def chain_split_digits)
  show "skip_ws (code_body sep c) = code_body sep c"
    unfolding code_body_def by (rule digits_skip_ws) (use n in auto)
  show "code_body sep c \<noteq> []" "is_digit (hd (code_body sep c))"
    using n digits_hd[OF n] by (auto simp: code_body_def)
  show "x \<in> set (code_body sep c) \<Longrightarrow> is_digit x \<or> x = sep"
    using n y by (auto simp: code_body_def list_all_iff split: if_splits)
qed

lemma chainCodes_body:
  assumes "wf_code c" "is_sep sep"
  shows "chainCodes (code_body sep c) = [c]"
proof -
  have "TrimSpace (code_body sep c) = code_body sep c"
    using wf_code_body(6)[OF assms] sep_not_digit(3)[OF assms(2)] not_space_digit(2)
    by (intro TrimSpace_no_space) blast
  then show ?thesis
    using wf_code_body(2)[OF assms] assms(1)
    by (cases c) (auto simp: chainCodes_def wf_code_def)
qed

lemma collect_hit:
  "m s = Some (cap, []) \<Longrightarrow> s \<noteq> [] \<Longrightarrow> collectChains m s = chainCodes cap"
  by (simp add: collectChains_def find_all_hit)

lemma body_not_P:
  assumes "wf_code c" "is_sep sep"
  shows "\<forall>x \<in> set (code_body sep c). to_upper x \<noteq> CHR ''P''"
proof
  fix x assume "x \<in> set (code_body sep c)"
  then have "is_digit x \<or> x = sep" by (rule wf_code_body(6)[OF assms])
  then show "to_upper x \<noteq> CHR ''P''"
    using assms(2) by (auto simp: digit_not_P is_sep_def)
qed

lemma code_text_no_space:
  assumes "wf_code c" "is_sep sep" "is_sep p" "\<not> is_space k"
  shows "TrimSpace (CHR ''P'' # k # p # code_body sep c) = CHR ''P'' # k # p # code_body sep c"
proof (rule TrimSpace_no_space)
  have "\<forall>x \<in> set (code_body sep c). \<not> is_space x"
    using wf_code_body(6)[OF assms(1,2)] sep_not_digit(3)[OF assms(2)] not_space_digit(2) by blast
  moreover have "\<not> is_space (CHR ''P'')" by (simp add: char_class_defs)
  ultimately show "\<forall>x \<in> set (CHR ''P'' # k # p # code_body sep c). \<not> is_space x"
    using assms(3,4) by simp
qed

lemma arak_at_code:
  assumes "wf_code c" "is_sep sep" "is_sep p"
  shows "arak_at (CHR ''P'' # CHR ''O'' # p # code_body sep c) = Some (code_body sep c, [])"
    and "legacy_at (CHR ''P'' # CHR ''O'' # p # code_body sep c) = None"
  using skip_ws_id[of "p # code_body sep c"] wf_code_body(1,3)[OF assms(1,2)] assms(3)
  by (simp_all add: arak_at_def legacy_at_def match_ci_def ToUpper_def)

lemma legacy_at_code:
  assumes "wf_code c" "is_sep sep" "is_sep p"
  shows "legacy_at (CHR ''P'' # CHR ''A'' # p # code_body sep c) = Some (code_body sep c, [])"
    and "arak_at (CHR ''P'' # CHR ''A'' # p # code_body sep c) = None"
  using skip_ws_id[of "p # code_body sep c"] wf_code_body(1,3)[OF assms(1,2)] assms(3)
  by (simp_all add: arak_at_def legacy_at_def match_ci_def ToUpper_def skip_opt_sep_def)

lemma collect_miss:
  assumes "m = arak_at \<or> m = legacy_at" "m (CHR ''P'' # s) = None" "\<forall>x \<in> set s. to_upper x \<noteq> CHR ''P''"
  shows "collectChains m (CHR ''P'' # s) = []"
  using assms no_code_in_text[of s] by (auto simp: collectChains_def)

lemma uniqueCodes_single [simp]: "uniqueCodes [c] = [c]" "uniqueCodes [] = []"
  by (simp_all add: uniqueCodes_def)

lemma arakCode_text: "wf_code c \<Longrightarrow> arakCode c = CHR ''P'' # CHR ''O'' # CHR ''-'' # code_body (CHR ''/'') c"
  by (simp add: arakCode_def code_body_def)

lemma legacyCode_text: "wf_code c \<Longrightarrow> legacyCode c = CHR ''P'' # CHR ''A'' # CHR ''/'' # code_body (CHR ''-'') c"
  by (simp add: legacyCode_def code_body_def)

lemma not_space_OA: "\<not> is_space (CHR ''O'')" "\<not> is_space (CHR ''A'')"
  by (simp_all add: char_class_defs)

lemma parse_arak_text:
  assumes "wf_code c"
  shows "pn_arakCodes (parseAFCNote (arakCode c)) = [c]" "pn_legacyCodes (parseAFCNote (arakCode c)) = []"
  using collect_hit[of arak_at, OF arak_at_code(1)[OF assms sep_const(2,1)]] chainCodes_body[OF assms sep_const(2)]
    collect_miss[of legacy_at, OF _ arak_at_code(2)[OF assms sep_const(2,1)]]
    body_not_P[OF assms sep_const(2)] code_text_no_space[OF assms sep_const(2,1) not_space_OA(1)]
  by (simp_all add: parseAFCNote_def arakCode_text[OF assms] Let_def)

lemma parse_legacy_text:
  assumes "wf_code c"
  shows "pn_legacyCodes (parseAFCNote (legacyCode c)) = [c]" "pn_arakCodes (parseAFCNote (legacyCode c)) = []"
  using collect_hit[of legacy_at, OF legacy_at_code(1)[OF assms sep_const(1,2)]] chainCodes_body[OF assms sep_const(1)]
    collect_miss[of arak_at, OF _ legacy_at_code(2)[OF assms sep_const(1,2)]]
    body_not_P[OF assms sep_const(1)] code_text_no_space[OF assms sep_const(1,2) not_space_OA(2)]
  by (simp_all add: parseAFCNote_def legacyCode_text[OF assms] Let_def)

subsection \<open>What a note resolves to\<close>

text \<open>The RDAs a parsed note names: the unique RDA of each PO code, and every successor of a PA code.\<close>

definition resolvedIds :: "funnelReferenceIndex \<Rightarrow> parsedNote \<Rightarrow> int set" where
  "resolvedIds idx note =
     (\<Union>c \<in> set (pn_arakCodes note). case lookup idx c of [r] \<Rightarrow> {rda_id r} | _ \<Rightarrow> {}) \<union>
     (\<Union>c \<in> set (pn_legacyCodes note). rda_id ` set (ix_get (ri_byLegacy idx) (nc_number c)))"

lemma resolveArak_fields [frame_simps]:
  "rv_hasUnresolved (resolveArak idx iv c s) \<longleftrightarrow> rv_hasUnresolved s \<or> lookup idx c = []"
  "rv_hasAmbiguous (resolveArak idx iv c s) \<longleftrightarrow> rv_hasAmbiguous s \<or> 1 < length (lookup idx c)"
  "rv_resolved (resolveArak idx iv c s) =
     rv_resolved s \<union> (case lookup idx c of [r] \<Rightarrow> {rda_id r} | _ \<Rightarrow> {})"
  "rv_legacy (resolveArak idx iv c s) = rv_legacy s"
  by (auto simp: resolveArak_def split: list.split)

lemma fold_resolveArak:
  "rv_hasUnresolved (fold (resolveArak idx iv) cs s) \<longleftrightarrow>
     rv_hasUnresolved s \<or> (\<exists>c \<in> set cs. lookup idx c = [])"
  "rv_hasAmbiguous (fold (resolveArak idx iv) cs s) \<longleftrightarrow>
     rv_hasAmbiguous s \<or> (\<exists>c \<in> set cs. 1 < length (lookup idx c))"
  "rv_resolved (fold (resolveArak idx iv) cs s) =
     rv_resolved s \<union> (\<Union>c \<in> set cs. case lookup idx c of [r] \<Rightarrow> {rda_id r} | _ \<Rightarrow> {})"
  by (induction cs arbitrary: s) (auto simp: frame_simps)

lemma successors_fields [frame_simps]:
  fixes iv code succs s
  defines "t \<equiv> fold (\<lambda>rda t. t\<lparr>rv_resolved := insert (rda_id rda) (rv_resolved t),
                      rv_rdas := rv_rdas t @ [mkReferencedRDA iv rda ''successor'' code]\<rparr>) succs s"
  shows "rv_hasUnresolved t = rv_hasUnresolved s" "rv_hasAmbiguous t = rv_hasAmbiguous s"
    "rv_resolved t = rv_resolved s \<union> rda_id ` set succs" "rv_legacy t = rv_legacy s"
  unfolding t_def by (induction succs arbitrary: s) auto

lemma resolveLegacy_fields [frame_simps]:
  "rv_hasUnresolved (resolveLegacy idx iv c s) = rv_hasUnresolved s"
  "rv_hasAmbiguous (resolveLegacy idx iv c s) = rv_hasAmbiguous s"
  "rv_resolved (resolveLegacy idx iv c s) =
     rv_resolved s \<union> rda_id ` set (ix_get (ri_byLegacy idx) (nc_number c))"
  by (auto simp: resolveLegacy_def Let_def frame_simps)

lemma fold_resolveLegacy:
  "rv_hasUnresolved (fold (resolveLegacy idx iv) cs s) = rv_hasUnresolved s"
  "rv_hasAmbiguous (fold (resolveLegacy idx iv) cs s) = rv_hasAmbiguous s"
  "rv_resolved (fold (resolveLegacy idx iv) cs s) =
     rv_resolved s \<union> (\<Union>c \<in> set cs. rda_id ` set (ix_get (ri_byLegacy idx) (nc_number c)))"
  by (induction cs arbitrary: s) (auto simp: frame_simps)

lemmas resolve_folds = fold_resolveArak fold_resolveLegacy

lemma finite_resolvedIds [simp]: "finite (resolvedIds idx note)"
  by (auto simp: resolvedIds_def split: list.split)

lemma resolve_outcome:
  "ref_Outcome (resolve idx iv note) =
     (if TrimSpace (inv_note iv) = '''' then referenceNoNote
      else if pn_arakCodes note = [] \<and> pn_legacyCodes note = [] then
        (if pn_noRDADeclared note then referenceNoRDADeclared else referenceNoCode)
      else if pn_arakCodes note = [] \<and> resolvedIds idx note = {} then referenceLegacyOnly
      else if \<exists>c \<in> set (pn_arakCodes note). lookup idx c = [] then referenceUnresolved
      else if \<exists>c \<in> set (pn_arakCodes note). 1 < length (lookup idx c) then referenceAmbiguous
      else if card (resolvedIds idx note) = 1 then referenceOne else referenceMultiple)"
proof -
  define s where "s = fold (resolveLegacy idx iv) (pn_legacyCodes note)
    (fold (resolveArak idx iv) (pn_arakCodes note)
      \<lparr>rv_hasUnresolved = False, rv_hasAmbiguous = False, rv_resolved = {}, rv_rdas = [], rv_legacy = []\<rparr>)"
  have "rv_resolved s = resolvedIds idx note"
    by (simp add: s_def resolve_folds resolvedIds_def)
  moreover have "rv_hasUnresolved s \<longleftrightarrow> (\<exists>c \<in> set (pn_arakCodes note). lookup idx c = [])"
    "rv_hasAmbiguous s \<longleftrightarrow> (\<exists>c \<in> set (pn_arakCodes note). 1 < length (lookup idx c))"
    by (simp_all add: s_def resolve_folds)
  ultimately show ?thesis
    unfolding resolve_def Let_def s_def [symmetric] by simp
qed

text \<open>C26: The outcome of an AFC note is "one" exactly when the note has text, every PO code in it
  names exactly one RDA, and all the RDAs it names (successors of PA codes included) are the
  same one.\<close>

theorem resolve_one:
  "ref_Outcome (resolve idx iv note) = referenceOne \<longleftrightarrow>
     TrimSpace (inv_note iv) \<noteq> '''' \<and>
     list_all (\<lambda>c. length (lookup idx c) = 1) (pn_arakCodes note) \<and>
     card (resolvedIds idx note) = 1"
proof -
  have "card (resolvedIds idx note) \<noteq> 1" if "pn_arakCodes note = []" "pn_legacyCodes note = []"
    using that by (simp add: resolvedIds_def)
  moreover have "length xs = 1 \<longleftrightarrow> xs \<noteq> [] \<and> \<not> 1 < length xs" for xs :: "funnelRDA list"
    by (cases xs) auto
  ultimately show ?thesis
    unfolding resolve_outcome list_all_iff by auto
qed

text \<open>C38: A code the program writes is read back from a note as that code and nothing else, for
  purchase-request codes (PO) and for legacy codes (PA).\<close>

theorem parse_print_code:
  assumes "wf_code c"
  shows "pn_arakCodes (parseAFCNote (arakCode c)) = [c] \<and> pn_legacyCodes (parseAFCNote (arakCode c)) = [] \<and>
    pn_legacyCodes (parseAFCNote (legacyCode c)) = [c] \<and> pn_arakCodes (parseAFCNote (legacyCode c)) = []"
  using parse_arak_text[OF assms] parse_legacy_text[OF assms] by simp

theorem parse_print_code_witness:
  "pn_arakCodes (parseAFCNote ''PO-50205/2025'') = [\<lparr>nc_number = ''50205'', nc_year = ''2025''\<rparr>]"
  using parse_print_code[of "\<lparr>nc_number = ''50205'', nc_year = ''2025''\<rparr>"]
  by (simp add: wf_code_def arakCode_def isYear_def HasPrefix_def is_digit_def less_eq_char_def)

text \<open>A lookup in the reference index returns, in the order of the load, exactly the RDAs whose
  code is the one asked for: the whole code when the note gives the year, its number alone
  otherwise.\<close>

theorem lookup_spec:
  "lookup (newFunnelReferenceIndex rdas) c =
     filter (\<lambda>r. if nc_year c \<noteq> '''' then codeKey r = Some (arakCode c) else numberKey r = Some (nc_number c)) rdas"
  by (simp add: lookup_def idx_simps)

end
