(* ===== verification/FunnelRules.thy ===== *)
theory FunnelRules
  imports FunnelReference
begin

text \<open>
  The fixed matching rules (\<open>smartpassive/funnel_rules.go\<close>): the taxable amount of an invoice
  against the RDAs of the same supplier, to the cent, and the score of the proposals against
  the RDAs named in the AFC note. The facts say what a proposal is (soundness and completeness
  of the combinatorial search within its bounds), when the verdict is a match, and that the
  counters partition the invoices.
\<close>

subsection \<open>Proposals\<close>

definition ruleFull :: string where "ruleFull = ''full''"
definition ruleInstallment :: string where "ruleInstallment = ''installment''"
definition ruleSum :: string where "ruleSum = ''sum''"

definition sumPairMaxCandidates :: nat where "sumPairMaxCandidates = 60"
definition sumTripleMaxCandidates :: nat where "sumTripleMaxCandidates = 30"
definition nearMissRelative :: float64 where "nearMissRelative = fl (2 / 100)"

lemma nearMissRelative_code [code]: "nearMissRelative = 5764607523034235 / 288230376151711744"
  by code_simp

text \<open>\<open>math.MaxFloat64\<close>.\<close>

definition MaxFloat64 :: float64 where "MaxFloat64 = 2 ^ 1024 - 2 ^ 971"

record matchingProposal =
  mp_Codes :: "string list"
  mp_IDs :: "int list"

record ruleResult =
  rx_Rule :: string
  rx_Proposals :: "matchingProposal list"
  rx_Verdict :: string
  rx_NearMiss :: "float64 option"

record rulesSummary =
  ru_TruthInvoices :: nat
  ru_Match :: nat
  ru_Ambiguous :: nat
  ru_Wrong :: nat
  ru_None :: nat
  ru_NoRDAInvoices :: nat
  ru_FalsePositive :: nat
  ru_SilentOK :: nat
  ru_NoTruthInvoices :: nat
  ru_NoTruthProposals :: nat
  ru_MatchByFull :: nat
  ru_MatchByInstallment :: nat
  ru_MatchBySum :: nat
  ru_NearMisses :: nat

definition groupProposal :: "funnelRDA list \<Rightarrow> matchingProposal" where
  "groupProposal rdas = \<lparr>mp_Codes = map (\<lambda>r. ToUpper (rda_code r)) rdas, mp_IDs = map rda_id rdas\<rparr>"

definition singleProposal :: "funnelRDA \<Rightarrow> matchingProposal" where
  "singleProposal rda = groupProposal [rda]"

definition fullAmountProposals :: "int \<Rightarrow> funnelRDA list \<Rightarrow> matchingProposal list" where
  "fullAmountProposals amount candidates =
     [singleProposal rda. rda \<leftarrow> candidates,
        (case rda_total rda of None \<Rightarrow> False | Some t \<Rightarrow> cents t = amount)]"

text \<open>One period of a recurring row: monthly fee times quantity times months per period.\<close>

definition lineInstallment :: "funnelRDALine \<Rightarrow> int option" where
  "lineInstallment line =
     (if classifyFunnelLine line \<noteq> Recurring then None
      else case rl_mrc line of None \<Rightarrow> None
      | Some mrc \<Rightarrow>
          let qty = (case rl_qty line of Some q \<Rightarrow> if q > 0 then q else 1 | None \<Rightarrow> 1);
              months = (case rl_recurrence line of Some n \<Rightarrow> if n > 0 then float_of_int n else 1 | None \<Rightarrow> 1);
              installment = cents (fmul (fmul mrc qty) months)
          in if installment > 0 then Some installment else None)"

definition recurringInstallments :: "funnelRDA \<Rightarrow> int list" where
  "recurringInstallments rda = List.map_filter lineInstallment (map snd (rda_lines rda))"

fun installmentLoop :: "int \<Rightarrow> int \<Rightarrow> bool \<Rightarrow> int list \<Rightarrow> int \<times> bool" where
  "installmentLoop amount sm hit [] = (sm, hit)"
| "installmentLoop amount sm hit (v # vs) = installmentLoop amount (sm + v) (hit \<or> v = amount) vs"

definition installmentHit :: "int \<Rightarrow> int list \<Rightarrow> bool" where
  "installmentHit amount installments =
     (if installments = [] then False
      else let (sm, hit) = installmentLoop amount 0 False installments
           in hit \<or> length installments > 1 \<and> sm = amount)"

definition installmentProposals :: "int \<Rightarrow> funnelRDA list \<Rightarrow> matchingProposal list" where
  "installmentProposals amount candidates =
     [singleProposal rda. rda \<leftarrow> candidates, installmentHit amount (recurringInstallments rda)]"

definition totalCents :: "funnelRDA \<Rightarrow> int" where
  "totalCents rda = (case rda_total rda of None \<Rightarrow> 0 | Some t \<Rightarrow> cents t)"

definition pairIndices :: "int \<Rightarrow> int list \<Rightarrow> nat list list" where
  "pairIndices amount totals =
     [[i, j]. i \<leftarrow> [0..<length totals], \<not> totals ! i \<le> 0,
              j \<leftarrow> [i + 1..<length totals], \<not> totals ! j \<le> 0, totals ! i + totals ! j = amount]"

definition tripleIndices :: "int \<Rightarrow> int list \<Rightarrow> nat list list" where
  "tripleIndices amount totals =
     [[i, j, k]. i \<leftarrow> [0..<length totals], \<not> totals ! i \<le> 0,
                 j \<leftarrow> [i + 1..<length totals], \<not> totals ! j \<le> 0,
                 k \<leftarrow> [j + 1..<length totals],
                 totals ! k > 0 \<and> totals ! i + totals ! j + totals ! k = amount]"

definition sumProposals :: "int \<Rightarrow> funnelRDA list \<Rightarrow> matchingProposal list" where
  "sumProposals amount candidates =
     (if length candidates > sumPairMaxCandidates then []
      else let totals = map totalCents candidates;
               propose = map (\<lambda>is. groupProposal (map ((!) candidates) is));
               out = propose (pairIndices amount totals)
           in if length out > 0 \<or> length candidates > sumTripleMaxCandidates then out
              else propose (tripleIndices amount totals))"

definition proposeByRules :: "int \<Rightarrow> funnelRDA list \<Rightarrow> string \<times> matchingProposal list" where
  "proposeByRules amount candidates =
     (let full = fullAmountProposals amount candidates
      in if length full > 0 then (ruleFull, full)
         else let inst = installmentProposals amount candidates
              in if length inst > 0 then (ruleInstallment, inst)
                 else let ss = sumProposals amount candidates
                      in if length ss > 0 then (ruleSum, ss) else ('''', []))"

subsection \<open>The nearest candidate\<close>

definition nearValues :: "funnelRDA \<Rightarrow> int list" where
  "nearValues rda =
     (case rda_total rda of None \<Rightarrow> [] | Some t \<Rightarrow> if cents t > 0 then [cents t] else []) @
     recurringInstallments rda"

definition relativeGap :: "int \<Rightarrow> int \<Rightarrow> float64" where
  "relativeGap amount v = fdiv \<bar>float_of_int (v - amount)\<bar> (float_of_int amount)"

definition nearestRelativeGap :: "int \<Rightarrow> funnelRDA list \<Rightarrow> float64 option" where
  "nearestRelativeGap amount candidates =
     (let best = fold (\<lambda>rda best. fold (\<lambda>v best. if relativeGap amount v < best then relativeGap amount v else best)
                                        (nearValues rda) best) candidates MaxFloat64
      in if best > nearMissRelative then None else Some best)"

subsection \<open>Verdicts and counters\<close>

definition sameIDSet :: "int list \<Rightarrow> int list \<Rightarrow> bool" where
  "sameIDSet left right =
     (if length left \<noteq> length right then False
      else list_all2 (=) (sort left) (sort right))"

definition truthIDs :: "funnelReference \<Rightarrow> int list" where
  "truthIDs reference =
     [i. rda \<leftarrow> ref_RDAs reference,
         rr_Resolution rda = ''resolved'' \<or> rr_Resolution rda = ''successor'',
         i \<leftarrow> (case rr_ID rda of None \<Rightarrow> [] | Some i \<Rightarrow> [i])]"

definition ruleVerdict :: "ruleResult \<Rightarrow> funnelReference \<Rightarrow> string" where
  "ruleVerdict result reference =
     (let truth = truthIDs reference;
          hasProposals = length (rx_Proposals result) > 0
      in if ref_Outcome reference = referenceNoRDADeclared then
           (if hasProposals then ''false_positive'' else ''silent_ok'')
         else if truth = [] \<or> (ref_Outcome reference \<noteq> referenceOne \<and> ref_Outcome reference \<noteq> referenceMultiple)
         then ''no_truth''
         else if \<not> hasProposals then ''none''
         else let hits = length (filter (\<lambda>p. sameIDSet (mp_IDs p) truth) (rx_Proposals result))
              in if hits = 1 \<and> length (rx_Proposals result) = 1 then ''match''
                 else if hits \<ge> 1 then ''ambiguous'' else ''wrong'')"

definition applyFunnelRules :: "funnelInvoice \<Rightarrow> funnelRDA list \<Rightarrow> funnelReference \<Rightarrow> ruleResult" where
  "applyFunnelRules invoice candidates reference =
     (let result0 = \<lparr>rx_Rule = '''', rx_Proposals = [], rx_Verdict = '''', rx_NearMiss = None\<rparr>;
          result1 = (case inv_taxableAmount invoice of None \<Rightarrow> result0
            | Some a \<Rightarrow>
                if candidates = [] then result0
                else let amount = cents a
                     in if amount = 0 then result0
                        else let (rule, props) = proposeByRules amount candidates;
                                 r = result0\<lparr>rx_Rule := rule, rx_Proposals := props\<rparr>
                             in if props = [] then r\<lparr>rx_NearMiss := nearestRelativeGap amount candidates\<rparr>
                                else r)
      in result1\<lparr>rx_Verdict := ruleVerdict result1 reference\<rparr>)"

definition addRuleResult :: "rulesSummary \<Rightarrow> ruleResult \<Rightarrow> rulesSummary" where
  "addRuleResult s result =
     (let v = rx_Verdict result;
          s1 =
            (if v = ''match'' then
               let t = s\<lparr>ru_TruthInvoices := Suc (ru_TruthInvoices s), ru_Match := Suc (ru_Match s)\<rparr>
               in if rx_Rule result = ruleFull then t\<lparr>ru_MatchByFull := Suc (ru_MatchByFull t)\<rparr>
                  else if rx_Rule result = ruleInstallment then t\<lparr>ru_MatchByInstallment := Suc (ru_MatchByInstallment t)\<rparr>
                  else if rx_Rule result = ruleSum then t\<lparr>ru_MatchBySum := Suc (ru_MatchBySum t)\<rparr> else t
             else if v = ''ambiguous'' then s\<lparr>ru_TruthInvoices := Suc (ru_TruthInvoices s), ru_Ambiguous := Suc (ru_Ambiguous s)\<rparr>
             else if v = ''wrong'' then s\<lparr>ru_TruthInvoices := Suc (ru_TruthInvoices s), ru_Wrong := Suc (ru_Wrong s)\<rparr>
             else if v = ''none'' then s\<lparr>ru_TruthInvoices := Suc (ru_TruthInvoices s), ru_None := Suc (ru_None s)\<rparr>
             else if v = ''false_positive'' then s\<lparr>ru_NoRDAInvoices := Suc (ru_NoRDAInvoices s), ru_FalsePositive := Suc (ru_FalsePositive s)\<rparr>
             else if v = ''silent_ok'' then s\<lparr>ru_NoRDAInvoices := Suc (ru_NoRDAInvoices s), ru_SilentOK := Suc (ru_SilentOK s)\<rparr>
             else let t = s\<lparr>ru_NoTruthInvoices := Suc (ru_NoTruthInvoices s)\<rparr>
                  in if length (rx_Proposals result) > 0
                     then t\<lparr>ru_NoTruthProposals := Suc (ru_NoTruthProposals t)\<rparr> else t)
      in if rx_NearMiss result \<noteq> None then s1\<lparr>ru_NearMisses := Suc (ru_NearMisses s1)\<rparr> else s1)"

subsection \<open>The search for sums\<close>

lemma installmentLoop_spec:
  "installmentLoop a s h vs = (s + sum_list vs, h \<or> a \<in> set vs)"
  by (induction a s h vs rule: installmentLoop.induct) auto

text \<open>Whether an RDA is hit by an installment does not depend on the order its rows are visited in.\<close>

interpretation installment_loop: map_loop "installmentHit a"
  "\<lambda>M. M \<noteq> {#} \<and> (a \<in># M \<or> size M > 1 \<and> sum_mset M = a)" for a
  by unfold_locales (auto simp: installmentHit_def installmentLoop_spec sum_mset_sum_list)

lemma mset_map_filter: "mset xs = mset ys \<Longrightarrow> mset (List.map_filter f xs) = mset (List.map_filter f ys)"
  by (simp add: List.map_filter_def)

lemma mset_recurringInstallments:
  "mset (rda_lines r) = mset (rda_lines r') \<Longrightarrow>
   mset (recurringInstallments r) = mset (recurringInstallments r')"
  unfolding recurringInstallments_def by (intro mset_map_filter) (simp add: mset_map)

text \<open>A group of positions with positive totals that sum to the amount.\<close>

definition sumsTo :: "int \<Rightarrow> int list \<Rightarrow> nat list \<Rightarrow> bool" where
  "sumsTo amount totals is \<longleftrightarrow>
     sorted_wrt (<) is \<and> (\<forall>i \<in> set is. i < length totals \<and> 0 < totals ! i) \<and>
     sum_list (map ((!) totals) is) = amount"

lemma length2_iff: "length xs = 2 \<longleftrightarrow> (\<exists>a b. xs = [a, b])"
  by (auto simp: numeral_2_eq_2 length_Suc_conv)

lemma length3_iff: "length xs = 3 \<longleftrightarrow> (\<exists>a b c. xs = [a, b, c])"
  by (auto simp: numeral_3_eq_3 length_Suc_conv)

lemma pairIndices_spec: "set (pairIndices a ts) = {is. length is = 2 \<and> sumsTo a ts is}"
  unfolding length2_iff by (force simp: pairIndices_def sumsTo_def)

lemma tripleIndices_spec: "set (tripleIndices a ts) = {is. length is = 3 \<and> sumsTo a ts is}"
  unfolding length3_iff by (force simp: tripleIndices_def sumsTo_def add.assoc)

lemma pairIndices_empty: "pairIndices a ts = [] \<longleftrightarrow> (\<nexists>is. length is = 2 \<and> sumsTo a ts is)"
  using pairIndices_spec[of a ts] by (metis (mono_tags) empty_Collect_eq set_empty)

text \<open>Up to sixty candidates, the sum rule proposes every pair of RDAs with positive totals that
  add up to the invoice, and only those; when no pair does and there are at most thirty, every
  triple; nothing otherwise.\<close>

theorem sumProposals_spec:
  "p \<in> set (sumProposals amount cs) \<longleftrightarrow>
     length cs \<le> 60 \<and>
     (\<exists>is. sumsTo amount (map totalCents cs) is \<and> p = groupProposal (map ((!) cs) is) \<and>
        (if (\<exists>js. length js = 2 \<and> sumsTo amount (map totalCents cs) js) \<or> 30 < length cs
         then length is = 2 else length is = 3))"
  by (auto simp: sumProposals_def Let_def pairIndices_spec tripleIndices_spec pairIndices_empty
      sumPairMaxCandidates_def sumTripleMaxCandidates_def)

subsection \<open>Verdicts\<close>

lemma sameIDSet_mset: "sameIDSet l r \<longleftrightarrow> mset l = mset r"
proof
  assume "sameIDSet l r"
  then have "sort l = sort r"
    by (simp add: sameIDSet_def list_all2_eq split: if_splits)
  then show "mset l = mset r" by (metis mset_sort)
next
  assume m: "mset l = mset r"
  then have "sort l = sort r" by (metis mset_sort properties_for_sort sorted_sort)
  moreover have "length l = length r" using m by (metis size_mset)
  ultimately show "sameIDSet l r" by (simp add: sameIDSet_def list_all2_eq)
qed

lemma ruleVerdict_match:
  "ruleVerdict res ref = ''match'' \<longleftrightarrow>
     (ref_Outcome ref = referenceOne \<or> ref_Outcome ref = referenceMultiple) \<and> truthIDs ref \<noteq> [] \<and>
     (\<exists>p. rx_Proposals res = [p] \<and> mset (mp_IDs p) = mset (truthIDs ref))"
  by (cases "rx_Proposals res") (auto simp: ruleVerdict_def Let_def sameIDSet_mset)

lemma applyFunnelRules_verdict:
  "rx_Verdict (applyFunnelRules iv cs ref) = ruleVerdict (applyFunnelRules iv cs ref) ref"
  by (simp add: applyFunnelRules_def Let_def ruleVerdict_def split: option.split prod.split)

lemma applyFunnelRules_rule:
  "rx_Proposals (applyFunnelRules iv cs ref) \<noteq> [] \<Longrightarrow>
   rx_Rule (applyFunnelRules iv cs ref) \<in> {ruleFull, ruleInstallment, ruleSum}"
  by (auto simp: applyFunnelRules_def proposeByRules_def Let_def split: option.splits if_splits)

text \<open>The verdict on the rules is "match" exactly when the note names RDAs and the rules propose
  one group only, made of precisely those RDAs.\<close>

theorem rules_match:
  "rx_Verdict (applyFunnelRules iv cs ref) = ''match'' \<longleftrightarrow>
     (ref_Outcome ref = referenceOne \<or> ref_Outcome ref = referenceMultiple) \<and> truthIDs ref \<noteq> [] \<and>
     (\<exists>p. rx_Proposals (applyFunnelRules iv cs ref) = [p] \<and> mset (mp_IDs p) = mset (truthIDs ref))"
  unfolding applyFunnelRules_verdict by (rule ruleVerdict_match)

subsection \<open>Counters\<close>

definition rules_partition :: "nat \<Rightarrow> rulesSummary \<Rightarrow> bool" where
  "rules_partition n s \<longleftrightarrow>
     ru_TruthInvoices s + ru_NoRDAInvoices s + ru_NoTruthInvoices s = n \<and>
     ru_TruthInvoices s = ru_Match s + ru_Ambiguous s + ru_Wrong s + ru_None s \<and>
     ru_NoRDAInvoices s = ru_FalsePositive s + ru_SilentOK s \<and>
     ru_NoTruthProposals s \<le> ru_NoTruthInvoices s \<and>
     ru_Match s = ru_MatchByFull s + ru_MatchByInstallment s + ru_MatchBySum s"

definition rules0 :: rulesSummary where
  "rules0 = \<lparr>ru_TruthInvoices = 0, ru_Match = 0, ru_Ambiguous = 0, ru_Wrong = 0, ru_None = 0,
     ru_NoRDAInvoices = 0, ru_FalsePositive = 0, ru_SilentOK = 0, ru_NoTruthInvoices = 0,
     ru_NoTruthProposals = 0, ru_MatchByFull = 0, ru_MatchByInstallment = 0, ru_MatchBySum = 0,
     ru_NearMisses = 0\<rparr>"

lemma addRuleResult_partition:
  assumes "rules_partition n s" "rx_Verdict r = ''match'' \<Longrightarrow> rx_Rule r \<in> {ruleFull, ruleInstallment, ruleSum}"
  shows "rules_partition (Suc n) (addRuleResult s r)"
  using assms by (auto simp: rules_partition_def addRuleResult_def Let_def)

text \<open>After any sequence of invoices the counters of the rules partition them: by kind of truth,
  by verdict within each kind, and the matches by the rule that produced them.\<close>

theorem rules_counters_partition:
  "rules_partition (length xs)
     (fold (\<lambda>(iv, cs, ref) s. addRuleResult s (applyFunnelRules iv cs ref)) xs rules0)"
proof (induction xs rule: rev_induct)
  case (snoc x xs)
  obtain iv cs ref where x: "x = (iv, cs, ref)" by (cases x)
  have "rx_Rule (applyFunnelRules iv cs ref) \<in> {ruleFull, ruleInstallment, ruleSum}"
    if "rx_Verdict (applyFunnelRules iv cs ref) = ''match''"
    using that applyFunnelRules_rule[of iv cs ref] ruleVerdict_match[of "applyFunnelRules iv cs ref" ref]
    by (auto simp: applyFunnelRules_verdict)
  then show ?case using snoc by (simp add: x addRuleResult_partition)
qed (simp add: rules_partition_def rules0_def)

subsection \<open>Near misses\<close>

lemma fold_min: "fold (\<lambda>v best. if f v < best then f v else best) vs b = Min (insert b (f ` set vs))"
  for f :: "'a \<Rightarrow> 'b::linorder"
proof -
  have "(\<lambda>v best. if f v < best then f v else best) = min \<circ> f"
    by (auto simp: fun_eq_iff min_def)
  then show ?thesis
    using Min.set_eq_fold[of b "map f vs"] by (simp add: fold_map)
qed

lemma fold_concat_map: "fold (\<lambda>x. fold g (h x)) xs = fold g (concat (map h xs))"
  by (induction xs) (simp_all add: fun_eq_iff)

lemma nearest_min:
  "nearestRelativeGap a cs =
     (let m = Min (insert MaxFloat64 (relativeGap a ` set (concat (map nearValues cs))))
      in if m > nearMissRelative then None else Some m)"
  unfolding nearestRelativeGap_def fold_concat_map fold_min ..

lemma near_miss_iff:
  "nearestRelativeGap a cs \<noteq> None \<longleftrightarrow>
     (\<exists>rda \<in> set cs. \<exists>v \<in> set (nearValues rda). relativeGap a v \<le> nearMissRelative)"
proof -
  have "nearMissRelative < MaxFloat64"
    by (simp add: nearMissRelative_def MaxFloat64_def) code_simp
  then show ?thesis
    by (auto simp: nearest_min Let_def not_less) (meson leD)
qed

text \<open>For a credit note (negative taxable amount) the gap is divided by the signed amount, so every
  candidate with a positive value counts as a near miss, however far its value is.\<close>

theorem near_miss_credit_note:
  assumes "amount < 0" "\<exists>rda \<in> set cs. nearValues rda \<noteq> []"
  shows "nearestRelativeGap amount cs \<noteq> None"
proof -
  obtain rda v where "rda \<in> set cs" "v \<in> set (nearValues rda)"
    using assms(2) by (metis hd_in_set)
  moreover have "float_of_int amount \<le> 0"
    unfolding float_of_int_def by (rule fl_nonpos) (use assms(1) in simp)
  then have "relativeGap amount v \<le> 0"
    unfolding relativeGap_def fdiv_def by (intro fl_nonpos) (simp add: divide_nonneg_nonpos)
  moreover have "0 \<le> nearMissRelative" by code_simp
  ultimately show ?thesis unfolding near_miss_iff by force
qed

definition witness_rda :: funnelRDA where
  "witness_rda = \<lparr>rda_id = 7, rda_code = ''PO-7/2025'', rda_state = ''APPROVED'', rda_type = '''',
     rda_object = '''', rda_total = Some 5000, rda_currency = ''EUR'', rda_created = None,
     rda_delivered = None, rda_supplierID = Some 1, rda_providerName = '''', rda_lines = []\<rparr>"

theorem near_miss_credit_note_witness: "nearestRelativeGap (- 10000) [witness_rda] \<noteq> None"
  by (rule near_miss_credit_note) (simp, code_simp)

end
