(* ===== verification/FunnelOrders.thy ===== *)
theory FunnelOrders
  imports FunnelRules
begin

text \<open>
  Purchase orders (\<open>smartpassive/funnel_orders.go\<close>): the order index, the residual quantity and
  amount of an order, and the rules that propose orders for an invoice (line by line, by
  identifying description, by the taxable total) with the score against the orders AFC linked.

  A Go \<open>map[string]struct{}\<close> is a set; \<open>byKey\<close> and \<open>rdaByOrder\<close> are partial maps whose missing
  pointer is \<open>None\<close>; a missing \<open>funnelOrder\<close> value reads as the zero value.
\<close>

subsection \<open>Links\<close>

definition ordersOf :: "funnelOrderLinks \<Rightarrow> string \<Rightarrow> string list" where
  "ordersOf l invoiceKey =
     sort (uniq_from {} (map (\<lambda>k. lk_order (ll_line k)) (ix_get (lnk_byInvoice l) invoiceKey)))"

text \<open>\<open>own\<close> returns a fresh map; a missing key of it reads as 0.\<close>

definition own :: "funnelOrderLinks \<Rightarrow> string \<Rightarrow> orderLineKey \<Rightarrow> float64" where
  "own l invoiceKey =
     fold (\<lambda>k out. out(ll_line k := fadd (out (ll_line k)) (ll_qty k)))
       (ix_get (lnk_byInvoice l) invoiceKey) (\<lambda>_. 0)"

definition no_own :: "orderLineKey \<Rightarrow> float64" where "no_own = (\<lambda>_. 0)"

subsection \<open>The order index\<close>

record ordersSummary =
  os_OrderCount :: nat
  os_ByDocCode :: "string \<Rightarrow> nat"
  os_WithRDACode :: nat
  os_RDAResolved :: nat
  os_RDAUnresolved :: nat
  os_WithLegacyCode :: nat
  os_WithoutCode :: nat
  os_SupplierMismatch :: nat
  os_OrdersWithoutERP :: nat
  os_OpenOrders :: nat
  os_ClosedOrders :: nat
  os_OverConsumed :: nat
  os_OrdersNoLines :: nat
  os_InvoicesNoOrder :: nat
  os_InvoicesOneOrder :: nat
  os_InvoicesManyOrder :: nat
  os_InvoicesNoOpen :: nat
  os_InvoicesOneOpen :: nat
  os_InvoicesManyOpen :: nat
  os_InvoicesLinked :: nat

record funnelOrderIndex =
  oi_bySupplier :: "(int, funnelOrder) index"
  oi_byKey :: "string \<rightharpoonup> funnelOrder"
  oi_rdaByOrder :: "string \<rightharpoonup> int"
  oi_byArakNumber :: "(string, funnelOrder) index"
  oi_byLegacyNumber :: "(string, funnelOrder) index"
  oi_links :: funnelOrderLinks
  oi_summary :: ordersSummary

definition byCodeNumber :: "funnelOrderIndex \<Rightarrow> string \<Rightarrow> bool \<Rightarrow> funnelOrder list" where
  "byCodeNumber idx number legacy =
     (if legacy then ix_get (oi_byLegacyNumber idx) number else ix_get (oi_byArakNumber idx) number)"

definition qtyEpsilon :: float64 where "qtyEpsilon = fl (5 / 10000)"

definition residual :: "funnelOrderLinks \<Rightarrow> funnelOrder \<Rightarrow> funnelDocLine \<Rightarrow> (orderLineKey \<Rightarrow> float64) \<Rightarrow> float64 option" where
  "residual links ord l own' =
     (case dl_qty l of None \<Rightarrow> None
      | Some q \<Rightarrow>
          let key = \<lparr>lk_order = ord_key ord, lk_row = dl_progressive l\<rparr>
          in Some (fadd (fsub q (lnk_consumed links key)) (own' key)))"

lemma qtyEpsilon_code [code]: "qtyEpsilon = 1152921504606847 / 2305843009213693952"
  by code_simp

fun residualSum :: "funnelOrderLinks \<Rightarrow> funnelOrder \<Rightarrow> (orderLineKey \<Rightarrow> float64) \<Rightarrow> funnelDocLine list \<Rightarrow> int" where
  "residualSum links ord own' [] = 0"
| "residualSum links ord own' (l # ls) =
     (if \<not> isAmountLine l then 0
      else let net = the (dl_net l)
           in case (residual links ord l own', dl_qty l) of
                (Some r, Some q) \<Rightarrow>
                  if q = 0 then cents net
                  else if r \<le> 0 then 0 else cents (fdiv (fmul net r) q)
              | _ \<Rightarrow> cents net) + residualSum links ord own' ls"

definition residualAmount :: "funnelOrderLinks \<Rightarrow> funnelOrder \<Rightarrow> (orderLineKey \<Rightarrow> float64) \<Rightarrow> int" where
  "residualAmount links ord own' = residualSum links ord own' (ord_lines ord)"

fun isOpenLoop :: "funnelOrderLinks \<Rightarrow> funnelOrder \<Rightarrow> (orderLineKey \<Rightarrow> float64) \<Rightarrow> nat \<Rightarrow> funnelDocLine list \<Rightarrow> bool" where
  "isOpenLoop links ord own' amountLines [] = (amountLines = 0)"
| "isOpenLoop links ord own' amountLines (l # ls) =
     (if \<not> isAmountLine l then isOpenLoop links ord own' amountLines ls
      else case residual links ord l own' of
             None \<Rightarrow> True
           | Some r \<Rightarrow> if r > qtyEpsilon then True else isOpenLoop links ord own' (Suc amountLines) ls)"

definition isOpen :: "funnelOrderLinks \<Rightarrow> funnelOrder \<Rightarrow> (orderLineKey \<Rightarrow> float64) \<Rightarrow> bool" where
  "isOpen links ord own' = isOpenLoop links ord own' 0 (ord_lines ord)"

text \<open>The body of the loop of \<open>newFunnelOrderIndex\<close>, one definition per statement.\<close>

definition indexOrderCode :: "funnelOrder \<Rightarrow> funnelOrderIndex \<Rightarrow> funnelOrderIndex" where
  "indexOrderCode ord idx0 =
     (let idx = idx0\<lparr>oi_byKey := (oi_byKey idx0)(ord_key ord \<mapsto> ord)\<rparr>
      in case ord_rdaCode ord of None \<Rightarrow> idx
         | Some c \<Rightarrow>
             if ord_rdaLegacy ord
             then idx\<lparr>oi_byLegacyNumber := ix_push (nc_number c) ord (oi_byLegacyNumber idx)\<rparr>
             else idx\<lparr>oi_byArakNumber := ix_push (nc_number c) ord (oi_byArakNumber idx)\<rparr>)"

definition countOrderState :: "funnelOrderLinks \<Rightarrow> funnelOrder \<Rightarrow> ordersSummary \<Rightarrow> ordersSummary" where
  "countOrderState links ord s0 =
     (let s = s0\<lparr>os_ByDocCode := (os_ByDocCode s0)(ord_docCode ord := Suc (os_ByDocCode s0 (ord_docCode ord)))\<rparr>;
          amountLines = length (filter isAmountLine (ord_lines ord));
          s1 = (if amountLines = 0 then s\<lparr>os_OrdersNoLines := Suc (os_OrdersNoLines s)\<rparr>
                else if isOpen links ord no_own then s\<lparr>os_OpenOrders := Suc (os_OpenOrders s)\<rparr>
                else s\<lparr>os_ClosedOrders := Suc (os_ClosedOrders s)\<rparr>)
      in if list_ex (\<lambda>l. isAmountLine l \<and>
                (case residual links ord l no_own of None \<Rightarrow> False | Some r \<Rightarrow> r < - qtyEpsilon)) (ord_lines ord)
         then s1\<lparr>os_OverConsumed := Suc (os_OverConsumed s1)\<rparr> else s1)"

definition indexOrderSupplier :: "funnelOrder \<Rightarrow> funnelOrderIndex \<Rightarrow> funnelOrderIndex" where
  "indexOrderSupplier ord idx =
     (case ord_supplierID ord of
        None \<Rightarrow> idx\<lparr>oi_summary := (oi_summary idx)\<lparr>os_OrdersWithoutERP := Suc (os_OrdersWithoutERP (oi_summary idx))\<rparr>\<rparr>
      | Some s \<Rightarrow> idx\<lparr>oi_bySupplier := ix_push s ord (oi_bySupplier idx)\<rparr>)"

definition indexOrderRDA :: "funnelReferenceIndex \<Rightarrow> funnelOrder \<Rightarrow> funnelOrderIndex \<Rightarrow> funnelOrderIndex" where
  "indexOrderRDA refs ord idx =
     (let s = oi_summary idx
      in case ord_rdaCode ord of
           None \<Rightarrow> idx\<lparr>oi_summary := s\<lparr>os_WithoutCode := Suc (os_WithoutCode s)\<rparr>\<rparr>
         | Some c \<Rightarrow>
             if ord_rdaLegacy ord then idx\<lparr>oi_summary := s\<lparr>os_WithLegacyCode := Suc (os_WithLegacyCode s)\<rparr>\<rparr>
             else let s1 = s\<lparr>os_WithRDACode := Suc (os_WithRDACode s)\<rparr>
                  in case lookup refs c of
                       [r] \<Rightarrow>
                         let s2 = s1\<lparr>os_RDAResolved := Suc (os_RDAResolved s1)\<rparr>;
                             mismatch = (case (rda_supplierID r, ord_supplierID ord) of
                               (Some a, Some b) \<Rightarrow> a \<noteq> b | _ \<Rightarrow> True)
                         in idx\<lparr>oi_rdaByOrder := (oi_rdaByOrder idx)(ord_key ord \<mapsto> rda_id r),
                                oi_summary := (if mismatch then s2\<lparr>os_SupplierMismatch := Suc (os_SupplierMismatch s2)\<rparr> else s2)\<rparr>
                     | _ \<Rightarrow> idx\<lparr>oi_summary := s1\<lparr>os_RDAUnresolved := Suc (os_RDAUnresolved s1)\<rparr>\<rparr>)"

definition indexOrder :: "funnelReferenceIndex \<Rightarrow> funnelOrder \<Rightarrow> funnelOrderIndex \<Rightarrow> funnelOrderIndex" where
  "indexOrder refs ord idx =
     (let idx1 = indexOrderCode ord idx;
          idx2 = idx1\<lparr>oi_summary := countOrderState (oi_links idx1) ord (oi_summary idx1)\<rparr>
      in indexOrderRDA refs ord (indexOrderSupplier ord idx2))"

definition orders0 :: "nat \<Rightarrow> ordersSummary" where
  "orders0 n = \<lparr>os_OrderCount = n, os_ByDocCode = (\<lambda>_. 0), os_WithRDACode = 0, os_RDAResolved = 0,
     os_RDAUnresolved = 0, os_WithLegacyCode = 0, os_WithoutCode = 0, os_SupplierMismatch = 0,
     os_OrdersWithoutERP = 0, os_OpenOrders = 0, os_ClosedOrders = 0, os_OverConsumed = 0,
     os_OrdersNoLines = 0, os_InvoicesNoOrder = 0, os_InvoicesOneOrder = 0, os_InvoicesManyOrder = 0,
     os_InvoicesNoOpen = 0, os_InvoicesOneOpen = 0, os_InvoicesManyOpen = 0, os_InvoicesLinked = 0\<rparr>"

definition newFunnelOrderIndex :: "funnelOrder list \<Rightarrow> funnelReferenceIndex \<Rightarrow> funnelOrderLinks \<Rightarrow> funnelOrderIndex" where
  "newFunnelOrderIndex orders refs links =
     fold (indexOrder refs) orders
       \<lparr>oi_bySupplier = [], oi_byKey = Map.empty, oi_rdaByOrder = Map.empty, oi_byArakNumber = [],
        oi_byLegacyNumber = [], oi_links = links, oi_summary = orders0 (length orders)\<rparr>"

definition hasOrderFor :: "funnelOrderIndex \<Rightarrow> funnelRDA \<Rightarrow> bool" where
  "hasOrderFor idx rda =
     (case rdaCodeShape (ToUpper (TrimSpace (rda_code rda))) of
        None \<Rightarrow> False
      | Some n \<Rightarrow> length (ix_get (oi_byArakNumber idx) n) > 0)"

definition candidates :: "funnelOrderIndex \<Rightarrow> int option \<Rightarrow> funnelOrder list" where
  "candidates idx supplierID = (case supplierID of None \<Rightarrow> [] | Some s \<Rightarrow> ix_get (oi_bySupplier idx) s)"

definition openCandidates :: "funnelOrderIndex \<Rightarrow> int option \<Rightarrow> (orderLineKey \<Rightarrow> float64) \<Rightarrow> funnelOrder list" where
  "openCandidates idx supplierID own' = filter (\<lambda>ord. isOpen (oi_links idx) ord own') (candidates idx supplierID)"

subsection \<open>Export\<close>

record exportedLine =
  xl_Progressive :: int
  xl_Article :: string
  xl_Description :: string
  xl_Qty :: "float64 option"
  xl_Price :: "float64 option"
  xl_Net :: "float64 option"
  xl_Residual :: "float64 option"

definition exportDocLines :: "funnelDocLine list \<Rightarrow> (funnelDocLine \<Rightarrow> float64 option) option \<Rightarrow> exportedLine list" where
  "exportDocLines lines res =
     map (\<lambda>l. \<lparr>xl_Progressive = dl_progressive l, xl_Article = dl_article l,
               xl_Description = dl_description l, xl_Qty = dl_qty l, xl_Price = dl_price l,
               xl_Net = dl_net l, xl_Residual = (case res of None \<Rightarrow> None | Some f \<Rightarrow> f l)\<rparr>)
       (filter isAmountLine lines)"

record exportedOrder =
  xo_Registration :: int
  xo_DocCode :: string
  xo_Label :: string
  xo_Date :: "gotime option"
  xo_RDACode :: string
  xo_RDAID :: "int option"
  xo_Total :: "float64 option"
  xo_Taxable :: float64
  xo_LineCount :: nat
  xo_Residual :: float64
  xo_Open :: bool
  xo_Lines :: "exportedLine list"

definition exportOrder :: "funnelOrderIndex \<Rightarrow> funnelOrder \<Rightarrow> exportedOrder" where
  "exportOrder idx ord =
     (let amount = filter isAmountLine (ord_lines ord);
          res = (\<lambda>l. residual (oi_links idx) ord l no_own)
      in \<lparr>xo_Registration = ord_reg ord, xo_DocCode = ord_docCode ord, xo_Label = orderLabel ord,
          xo_Date = ord_date ord,
          xo_RDACode = (case ord_rdaCode ord of None \<Rightarrow> ''''
             | Some c \<Rightarrow> if ord_rdaLegacy ord then legacyCode c else arakCode c),
          xo_RDAID = oi_rdaByOrder idx (ord_key ord), xo_Total = ord_total ord,
          xo_Taxable = fdiv (float_of_int (orderTaxable ord)) 100,
          xo_LineCount = length amount,
          xo_Residual = fold (\<lambda>l acc. case res l of None \<Rightarrow> acc
             | Some r \<Rightarrow> if r > 0 then fadd acc r else acc) amount 0,
          xo_Open = isOpen (oi_links idx) ord no_own,
          xo_Lines = exportDocLines (ord_lines ord) (Some res)\<rparr>)"

subsection \<open>The order rules\<close>

record orderRuleResult =
  or_Rule :: string
  or_Proposals :: "string list list"
  or_keys :: "string list list"
  or_Verdict :: string
  or_AFCLinks :: "string list"
  or_LinesTotal :: nat
  or_LinesMatched :: nat
  or_AmbiguousLines :: nat
  or_OpenCandidates :: nat

record orderRulesSummary =
  ox_LinkedInvoices :: nat
  ox_Match :: nat
  ox_Ambiguous :: nat
  ox_Wrong :: nat
  ox_None :: nat
  ox_MatchByHeader :: nat
  ox_MatchByLines :: nat
  ox_UnlinkedInvoices :: nat
  ox_UnlinkedProposal :: nat

definition isGoodsOrder :: "funnelOrder \<Rightarrow> bool" where
  "isGoodsOrder ord = HasPrefix (ord_docCode ord) ''BGF''"

definition withoutGoodsOrders :: "funnelOrder list \<Rightarrow> funnelOrder list" where
  "withoutGoodsOrders orders = filter (\<lambda>ord. \<not> isGoodsOrder ord) orders"

text \<open>One row of \<open>orderHasLine\<close>: same article, enough residual, same description for free text, and
  the same net amount or the same non-zero unit price.\<close>

definition lineFits :: "funnelOrderLinks \<Rightarrow> funnelOrder \<Rightarrow> funnelDocLine \<Rightarrow> (orderLineKey \<Rightarrow> float64) \<Rightarrow> funnelDocLine \<Rightarrow> bool" where
  "lineFits links ord l own' ol =
     (let article = ToUpper (dl_article l)
      in if \<not> isAmountLine ol \<or> ToUpper (dl_article ol) \<noteq> article then False
         else if (case (residual links ord ol own', dl_qty l) of
                    (Some r, Some q) \<Rightarrow> q > fadd r qtyEpsilon | _ \<Rightarrow> False) then False
         else if article = '''' \<and> \<not> EqualFold (dl_description ol) (dl_description l) then False
         else if cents (the (dl_net ol)) = cents (the (dl_net l)) then True
         else (case (dl_price ol, dl_price l) of
                 (Some p, Some q) \<Rightarrow> cents p = cents q \<and> cents p \<noteq> 0 | _ \<Rightarrow> False))"

definition orderHasLine :: "funnelOrderLinks \<Rightarrow> funnelOrder \<Rightarrow> funnelDocLine \<Rightarrow> (orderLineKey \<Rightarrow> float64) \<Rightarrow> bool" where
  "orderHasLine links ord l own' = list_ex (lineFits links ord l own') (ord_lines ord)"

definition foundOrders :: "funnelDocLine \<Rightarrow> funnelOrder list \<Rightarrow> (orderLineKey \<Rightarrow> float64) \<Rightarrow> funnelOrderLinks \<Rightarrow> string set" where
  "foundOrders l cands own' links = ord_key ` set (filter (\<lambda>ord. orderHasLine links ord l own') cands)"

fun lineLoop :: "(funnelDocLine \<Rightarrow> string set) \<Rightarrow> string set \<Rightarrow> nat \<Rightarrow> nat \<Rightarrow> funnelDocLine list \<Rightarrow> string list \<times> nat \<times> nat" where
  "lineLoop found uni matched ambiguous [] =
     (if matched = 0 then ([], 0, 0) else (sortedKeys uni, matched, ambiguous))"
| "lineLoop found uni matched ambiguous (l # ls) =
     (if \<not> isAmountLine l then lineLoop found uni matched ambiguous ls
      else if card (found l) = 0 then ([], matched, ambiguous)
      else lineLoop found (uni \<union> found l) (Suc matched)
             (if card (found l) > 1 then Suc ambiguous else ambiguous) ls)"

definition lineProposal :: "funnelDocLine list \<Rightarrow> funnelOrder list \<Rightarrow> (orderLineKey \<Rightarrow> float64) \<Rightarrow> funnelOrderLinks \<Rightarrow> string list \<times> nat \<times> nat" where
  "lineProposal lines cands own' links =
     lineLoop (\<lambda>l. foundOrders l cands own' links) {} 0 0 lines"

definition descriptionKey :: "funnelDocLine \<Rightarrow> string" where
  "descriptionKey l = ToUpper (TrimSpace (dl_article l)) @ ''|'' @ ToUpper (Join (Fields (dl_description l)) '' '')"

text \<open>The map \<open>owners\<close>; a missing key reads as the empty set.\<close>

definition addOwners :: "funnelOrder \<Rightarrow> (string \<Rightarrow> string set) \<Rightarrow> string \<Rightarrow> string set" where
  "addOwners ord owners =
     fold (\<lambda>ol ow. if \<not> isAmountLine ol \<or> TrimSpace (dl_description ol) = '''' then ow
             else ow(descriptionKey ol := insert (ord_key ord) (ow (descriptionKey ol)))) (ord_lines ord) owners"

definition descriptionProposal :: "funnelDocLine list \<Rightarrow> funnelOrder list \<Rightarrow> string list" where
  "descriptionProposal lines orders =
     (let owners = fold addOwners orders (\<lambda>_. {});
          uni = fold (\<lambda>l u. if \<not> isAmountLine l then u
                     else if card (owners (descriptionKey l)) = 1 then u \<union> owners (descriptionKey l) else u) lines {}
      in sortedKeys uni)"

definition orderVerdict :: "string list list \<Rightarrow> bool \<Rightarrow> string list \<Rightarrow> string" where
  "orderVerdict proposals unique links =
     (if links = [] then (if proposals \<noteq> [] then ''unlinked_proposal'' else ''unlinked_silent'')
      else if proposals = [] then ''none''
      else let truth = sort links;
               uni = \<Union> (set ` set proposals);
               covered = list_all (\<lambda>t. t \<in> uni) truth
           in if unique then
                (if length proposals = 1 \<and> Join (proposals ! 0) ''|'' = Join truth ''|''
                 then ''match'' else ''wrong'')
              else if covered then ''ambiguous'' else ''wrong'')"

text \<open>The label of \<open>idx.byKey[k]\<close>, the zero order when the key is missing.\<close>

definition keyLabel :: "funnelOrderIndex \<Rightarrow> string \<Rightarrow> string" where
  "keyLabel idx k = (case oi_byKey idx k of None \<Rightarrow> ''/'' | Some ord \<Rightarrow> orderLabel ord)"

definition afcLabel :: "funnelOrderIndex \<Rightarrow> string \<Rightarrow> string" where
  "afcLabel idx link = (case oi_byKey idx link of
      Some ord \<Rightarrow> orderLabel ord | None \<Rightarrow> ''reg. '' @ TrimPrefix link ''1:'')"

text \<open>The three attempts, each made when the previous ones left the rule empty: rule, whether the
  proposal is unique, keys, lines matched, ambiguous lines.\<close>

definition tryLines :: "funnelDocLine list \<Rightarrow> funnelOrder list \<Rightarrow> (orderLineKey \<Rightarrow> float64) \<Rightarrow> funnelOrderLinks \<Rightarrow>
    string \<times> bool \<times> string list list \<times> nat \<times> nat" where
  "tryLines lines cands own' links =
     (if lines \<noteq> [] \<and> cands \<noteq> [] then
        let (uni, matched, ambiguous) = lineProposal lines cands own' links
        in if uni \<noteq> [] then (''lines'', ambiguous = 0, [uni], matched, ambiguous)
           else ('''', True, [], matched, ambiguous)
      else ('''', True, [], 0, 0))"

definition tryDescription :: "funnelDocLine list \<Rightarrow> funnelOrder list \<Rightarrow> string \<Rightarrow> string list list \<Rightarrow> string \<times> string list list" where
  "tryDescription lines supplier rule keys =
     (if rule = '''' \<and> lines \<noteq> [] then
        let uni = descriptionProposal lines supplier
        in if uni \<noteq> [] then (''description'', [uni]) else (rule, keys)
      else (rule, keys))"

definition tryHeader :: "funnelInvoice \<Rightarrow> funnelOrder list \<Rightarrow> string \<Rightarrow> bool \<Rightarrow> string list list \<Rightarrow> string \<times> bool \<times> string list list" where
  "tryHeader invoice cands rule unique keys =
     (if rule = '''' \<and> cands \<noteq> [] then
        (case inv_taxableAmount invoice of None \<Rightarrow> (rule, unique, keys)
         | Some a \<Rightarrow>
             if cents a = 0 then (rule, unique, keys)
             else let keys' = keys @ map (\<lambda>ord. [ord_key ord]) (filter (\<lambda>ord. orderTaxable ord = cents a) cands)
                  in if keys' \<noteq> [] then (''header'', length keys' = 1, keys') else (rule, unique, keys'))
      else (rule, unique, keys))"

definition applyOrderRules :: "funnelInvoice \<Rightarrow> funnelDocLine list \<Rightarrow> funnelOrderIndex \<Rightarrow> orderRuleResult" where
  "applyOrderRules invoice lines idx =
     (let own' = own (oi_links idx) (inv_key invoice);
          links = ordersOf (oi_links idx) (inv_key invoice);
          cands = withoutGoodsOrders (openCandidates idx (inv_supplierID invoice) own');
          supplier = withoutGoodsOrders (candidates idx (inv_supplierID invoice));
          (rule1, unique1, keys1, matched, ambiguous) = tryLines lines cands own' (oi_links idx);
          (rule2, keys2) = tryDescription lines supplier rule1 keys1;
          (rule3, unique3, keys3) = tryHeader invoice cands rule2 unique1 keys2
      in \<lparr>or_Rule = rule3,
          or_Proposals = map (\<lambda>keys. sort (map (keyLabel idx) keys)) keys3,
          or_keys = keys3,
          or_Verdict = orderVerdict keys3 unique3 links,
          or_AFCLinks = sort (map (afcLabel idx) links),
          or_LinesTotal = length (filter isAmountLine lines),
          or_LinesMatched = matched, or_AmbiguousLines = ambiguous,
          or_OpenCandidates = length cands\<rparr>)"

definition addOrderRuleResult :: "orderRulesSummary \<Rightarrow> orderRuleResult \<Rightarrow> orderRulesSummary" where
  "addOrderRuleResult s result =
     (let v = or_Verdict result
      in if v = ''match'' then
           let t = s\<lparr>ox_LinkedInvoices := Suc (ox_LinkedInvoices s), ox_Match := Suc (ox_Match s)\<rparr>
           in if or_Rule result = ''header'' then t\<lparr>ox_MatchByHeader := Suc (ox_MatchByHeader t)\<rparr>
              else t\<lparr>ox_MatchByLines := Suc (ox_MatchByLines t)\<rparr>
         else if v = ''ambiguous'' then s\<lparr>ox_LinkedInvoices := Suc (ox_LinkedInvoices s), ox_Ambiguous := Suc (ox_Ambiguous s)\<rparr>
         else if v = ''wrong'' then s\<lparr>ox_LinkedInvoices := Suc (ox_LinkedInvoices s), ox_Wrong := Suc (ox_Wrong s)\<rparr>
         else if v = ''none'' then s\<lparr>ox_LinkedInvoices := Suc (ox_LinkedInvoices s), ox_None := Suc (ox_None s)\<rparr>
         else if v = ''unlinked_proposal'' then s\<lparr>ox_UnlinkedInvoices := Suc (ox_UnlinkedInvoices s), ox_UnlinkedProposal := Suc (ox_UnlinkedProposal s)\<rparr>
         else s\<lparr>ox_UnlinkedInvoices := Suc (ox_UnlinkedInvoices s)\<rparr>)"

subsection \<open>The order index answers with the orders that carry the key\<close>

definition arakNumber :: "funnelOrder \<Rightarrow> string option" where
  "arakNumber ord = (if ord_rdaLegacy ord then None else map_option nc_number (ord_rdaCode ord))"

definition legacyNumber :: "funnelOrder \<Rightarrow> string option" where
  "legacyNumber ord = (if ord_rdaLegacy ord then map_option nc_number (ord_rdaCode ord) else None)"

lemma indexOrder_fields [frame_simps]:
  "oi_bySupplier (indexOrder refs ord idx) =
     (case ord_supplierID ord of None \<Rightarrow> oi_bySupplier idx | Some s \<Rightarrow> ix_push s ord (oi_bySupplier idx))"
  "oi_byArakNumber (indexOrder refs ord idx) =
     (case arakNumber ord of None \<Rightarrow> oi_byArakNumber idx | Some n \<Rightarrow> ix_push n ord (oi_byArakNumber idx))"
  "oi_byLegacyNumber (indexOrder refs ord idx) =
     (case legacyNumber ord of None \<Rightarrow> oi_byLegacyNumber idx | Some n \<Rightarrow> ix_push n ord (oi_byLegacyNumber idx))"
  "oi_links (indexOrder refs ord idx) = oi_links idx"
  "oi_byKey (indexOrder refs ord idx) = (oi_byKey idx)(ord_key ord \<mapsto> ord)"
  by (auto simp: indexOrder_def indexOrderCode_def indexOrderSupplier_def indexOrderRDA_def
      arakNumber_def legacyNumber_def Let_def split: option.split list.split)

lemma fold_indexOrder:
  "oi_bySupplier (fold (indexOrder refs) os idx) =
     fold (\<lambda>o' m. case ord_supplierID o' of None \<Rightarrow> m | Some s \<Rightarrow> ix_push s o' m) os (oi_bySupplier idx)"
  "oi_byArakNumber (fold (indexOrder refs) os idx) =
     fold (\<lambda>o' m. case arakNumber o' of None \<Rightarrow> m | Some s \<Rightarrow> ix_push s o' m) os (oi_byArakNumber idx)"
  "oi_byLegacyNumber (fold (indexOrder refs) os idx) =
     fold (\<lambda>o' m. case legacyNumber o' of None \<Rightarrow> m | Some s \<Rightarrow> ix_push s o' m) os (oi_byLegacyNumber idx)"
  "oi_links (fold (indexOrder refs) os idx) = oi_links idx"
  "oi_byKey (fold (indexOrder refs) os idx) = fold (\<lambda>o' m. m(ord_key o' \<mapsto> o')) os (oi_byKey idx)"
  by (induction os arbitrary: idx) (simp_all add: frame_simps)

lemma fold_upd_map: "fold (\<lambda>o' m. m(f o' \<mapsto> o')) os m k = (case find (\<lambda>o'. f o' = k) (rev os) of None \<Rightarrow> m k | Some o' \<Rightarrow> Some o')"
proof (induction os arbitrary: m)
  case (Cons a os)
  have "find P (xs @ [x]) = (case find P xs of None \<Rightarrow> if P x then Some x else None | Some y \<Rightarrow> Some y)"
    for P :: "'a \<Rightarrow> bool" and xs x by (induction xs) auto
  then show ?case using Cons by (auto split: option.split)
qed simp

lemma order_index_lookups [idx_simps]:
  "ix_get (oi_bySupplier (newFunnelOrderIndex os refs links)) s = filter (\<lambda>o'. ord_supplierID o' = Some s) os"
  "ix_get (oi_byArakNumber (newFunnelOrderIndex os refs links)) n = filter (\<lambda>o'. arakNumber o' = Some n) os"
  "ix_get (oi_byLegacyNumber (newFunnelOrderIndex os refs links)) n = filter (\<lambda>o'. legacyNumber o' = Some n) os"
  "oi_links (newFunnelOrderIndex os refs links) = links"
  "oi_byKey (newFunnelOrderIndex os refs links) k = find (\<lambda>o'. ord_key o' = k) (rev os)"
  by (simp_all add: newFunnelOrderIndex_def fold_indexOrder idx_simps fold_upd_map split: option.split)

lemma byKey_distinct:
  assumes "distinct (map ord_key os)" "ord \<in> set os"
  shows "oi_byKey (newFunnelOrderIndex os refs links) (ord_key ord) = Some ord"
proof -
  obtain o' where "find (\<lambda>o'. ord_key o' = ord_key ord) (rev os) = Some o'"
    using assms(2) by (cases "find (\<lambda>o'. ord_key o' = ord_key ord) (rev os)") (auto simp: find_None_iff)
  moreover from this have "o' \<in> set os" "ord_key o' = ord_key ord"
    by (auto simp: find_Some_iff) (metis nth_mem set_rev length_rev)
  ultimately show ?thesis
    using assms by (auto simp: idx_simps dest: map_of_eq_Some_iff inj_onD[OF iffD1[OF distinct_map, THEN conjunct2]])
qed

lemma candidates_spec [idx_simps]:
  "candidates (newFunnelOrderIndex os refs links) sid =
     (case sid of None \<Rightarrow> [] | Some s \<Rightarrow> filter (\<lambda>o'. ord_supplierID o' = Some s) os)"
  by (simp add: candidates_def idx_simps split: option.split)

text \<open>A purchase request is reported as having an order exactly when some loaded order carries its
  PO number in the original document number.\<close>

theorem hasOrderFor_spec:
  "hasOrderFor (newFunnelOrderIndex os refs links) rda \<longleftrightarrow>
     (\<exists>n. rdaCodeShape (ToUpper (TrimSpace (rda_code rda))) = Some n \<and>
          (\<exists>o' \<in> set os. arakNumber o' = Some n))"
  by (auto simp: hasOrderFor_def idx_simps filter_empty_conv split: option.split)

subsection \<open>Residuals\<close>

lemma isOpenLoop_spec:
  "isOpenLoop links ord ow n ls \<longleftrightarrow>
     n = 0 \<and> filter isAmountLine ls = [] \<or>
     (\<exists>l \<in> set ls. isAmountLine l \<and> (case residual links ord l ow of None \<Rightarrow> True | Some r \<Rightarrow> qtyEpsilon < r))"
  by (induction links ord ow n ls rule: isOpenLoop.induct) (auto split: option.split)

text \<open>An order is open when it has no amount row to judge it by, or some amount row has no quantity
  or a residual above the tolerance.\<close>

theorem isOpen_spec:
  "isOpen links ord ow \<longleftrightarrow>
     filter isAmountLine (ord_lines ord) = [] \<or>
     (\<exists>l \<in> set (ord_lines ord). isAmountLine l \<and>
        (case residual links ord l ow of None \<Rightarrow> True | Some r \<Rightarrow> qtyEpsilon < r))"
  by (simp add: isOpen_def isOpenLoop_spec)

definition summary_partition :: "nat \<Rightarrow> ordersSummary \<Rightarrow> bool" where
  "summary_partition n s \<longleftrightarrow>
     os_OrdersNoLines s + os_OpenOrders s + os_ClosedOrders s = n \<and>
     os_WithRDACode s + os_WithLegacyCode s + os_WithoutCode s = n \<and>
     os_RDAResolved s + os_RDAUnresolved s = os_WithRDACode s \<and>
     os_SupplierMismatch s \<le> os_RDAResolved s \<and>
     os_OrdersWithoutERP s \<le> n \<and> os_OverConsumed s \<le> n"

lemma countOrderState_fields [frame_simps]:
  "os_OrdersNoLines (countOrderState links ord s) + os_OpenOrders (countOrderState links ord s) +
     os_ClosedOrders (countOrderState links ord s) =
     Suc (os_OrdersNoLines s + os_OpenOrders s + os_ClosedOrders s)"
  "os_WithRDACode (countOrderState links ord s) = os_WithRDACode s"
  "os_WithLegacyCode (countOrderState links ord s) = os_WithLegacyCode s"
  "os_WithoutCode (countOrderState links ord s) = os_WithoutCode s"
  "os_RDAResolved (countOrderState links ord s) = os_RDAResolved s"
  "os_RDAUnresolved (countOrderState links ord s) = os_RDAUnresolved s"
  "os_SupplierMismatch (countOrderState links ord s) = os_SupplierMismatch s"
  "os_OrdersWithoutERP (countOrderState links ord s) = os_OrdersWithoutERP s"
  "os_OverConsumed (countOrderState links ord s) \<le> Suc (os_OverConsumed s)"
  by (simp_all add: countOrderState_def Let_def)

lemma indexOrderCode_summary [frame_simps]:
  "oi_summary (indexOrderCode ord idx) = oi_summary idx"
  by (auto simp: indexOrderCode_def Let_def split: option.split)

lemma indexOrder_partition:
  assumes "summary_partition n (oi_summary idx)"
  shows "summary_partition (Suc n) (oi_summary (indexOrder refs ord idx))"
proof -
  let ?s = "countOrderState (oi_links (indexOrderCode ord idx)) ord (oi_summary idx)"
  have "os_OrdersNoLines ?s + os_OpenOrders ?s + os_ClosedOrders ?s = Suc n"
    "os_WithRDACode ?s + os_WithLegacyCode ?s + os_WithoutCode ?s = n"
    "os_RDAResolved ?s + os_RDAUnresolved ?s = os_WithRDACode ?s"
    "os_SupplierMismatch ?s \<le> os_RDAResolved ?s"
    "os_OrdersWithoutERP ?s \<le> n" "os_OverConsumed ?s \<le> Suc n"
    using assms countOrderState_fields[of "oi_links (indexOrderCode ord idx)" ord "oi_summary idx"]
    by (simp_all add: summary_partition_def)
  then show ?thesis
    by (auto simp: indexOrder_def indexOrderSupplier_def indexOrderRDA_def Let_def summary_partition_def
        frame_simps split: option.split list.split)
qed

text \<open>The order summary partitions the loaded orders twice: by what can still be invoiced (no rows,
  open, closed) and by the code they carry (PO, PA, none), the PO ones into resolved and
  unresolved.\<close>

theorem order_summary_partition:
  "summary_partition (length os) (oi_summary (newFunnelOrderIndex os refs links))"
proof -
  have "summary_partition (n + length os) (oi_summary (fold (indexOrder refs) os idx))"
    if "summary_partition n (oi_summary idx)" for n idx
    using that by (induction os arbitrary: n idx) (use indexOrder_partition in \<open>fastforce+\<close>)
  from this[of 0] show ?thesis
    by (simp add: newFunnelOrderIndex_def summary_partition_def orders0_def)
qed

subsection \<open>Line by line\<close>

lemma lineLoop_fail:
  "list_ex (\<lambda>l. isAmountLine l \<and> card (found l) = 0) ls \<Longrightarrow> fst (lineLoop found u m a ls) = []"
  by (induction found u m a ls rule: lineLoop.induct) auto

lemma lineLoop_ok:
  assumes "\<forall>l \<in> set ls. isAmountLine l \<longrightarrow> card (found l) \<noteq> 0"
  shows "lineLoop found u m a ls =
     (if m + length (filter isAmountLine ls) = 0 then ([], 0, 0)
      else (sortedKeys (u \<union> (\<Union>l \<in> set (filter isAmountLine ls). found l)),
            m + length (filter isAmountLine ls),
            a + length (filter (\<lambda>l. isAmountLine l \<and> card (found l) > 1) ls)))"
  using assms
proof (induction ls arbitrary: u m a)
  case (Cons l ls)
  show ?case
  proof (cases "isAmountLine l")
    case True
    then have "card (found l) \<noteq> 0" using Cons.prems by simp
    with True show ?thesis
      using Cons.IH[of "u \<union> found l" "Suc m" "if card (found l) > 1 then Suc a else a"] Cons.prems
      by (simp add: Un_assoc)
  next
    case False
    then show ?thesis using Cons by simp
  qed
qed simp

lemma finite_foundOrders [simp]: "finite (foundOrders l cands ow links)"
  by (simp add: foundOrders_def)

lemma lineProposal_facts:
  "fst (lineProposal ls cands ow links) =
     (if filter isAmountLine ls = [] then []
      else if \<exists>l \<in> set ls. isAmountLine l \<and> foundOrders l cands ow links = {} then []
      else sortedKeys {ord_key ord | ord l. ord \<in> set cands \<and> l \<in> set ls \<and> isAmountLine l \<and>
                         orderHasLine links ord l ow})"
proof -
  have u: "(\<Union>l \<in> set (filter isAmountLine ls). foundOrders l cands ow links) =
    {ord_key ord | ord l. ord \<in> set cands \<and> l \<in> set ls \<and> isAmountLine l \<and> orderHasLine links ord l ow}"
    by (auto simp: foundOrders_def)
  show ?thesis
  proof (cases "\<exists>l \<in> set ls. isAmountLine l \<and> foundOrders l cands ow links = {}")
    case True
    then show ?thesis
      using lineLoop_fail[of "\<lambda>l. foundOrders l cands ow links" ls] by (auto simp: lineProposal_def list_ex_iff)
  next
    case False
    then have "\<forall>l \<in> set ls. isAmountLine l \<longrightarrow> card (foundOrders l cands ow links) \<noteq> 0" by simp
    from lineLoop_ok[OF this, of "{}" 0 0] False show ?thesis
      by (simp only: lineProposal_def u) (simp add: filter_empty_conv)
  qed
qed

text \<open>A line-by-line proposal exists exactly when the invoice has amount rows and every one of them
  fits some candidate order; it then names all the orders that fit some row.\<close>

theorem lineProposal_spec:
  "fst (lineProposal ls cands ow links) =
     (if filter isAmountLine ls = [] then []
      else if \<exists>l \<in> set ls. isAmountLine l \<and> foundOrders l cands ow links = {} then []
      else sortedKeys {ord_key ord | ord l. ord \<in> set cands \<and> l \<in> set ls \<and> isAmountLine l \<and>
                         orderHasLine links ord l ow})"
  by (rule lineProposal_facts)

lemma lineProposal_unambiguous:
  assumes "lineProposal ls cands ow links = (ks, m, 0)" "ks \<noteq> []" "l \<in> set ls" "isAmountLine l"
  shows "\<exists>k. foundOrders l cands ow links = {k}"
proof -
  let ?f = "\<lambda>l. foundOrders l cands ow links"
  have ok: "\<forall>l \<in> set ls. isAmountLine l \<longrightarrow> card (?f l) \<noteq> 0"
    using assms(1,2) lineLoop_fail[of ?f ls "{}" 0 0] by (auto simp: lineProposal_def list_ex_iff)
  then have "filter (\<lambda>l. isAmountLine l \<and> card (?f l) > 1) ls = []"
    using assms(1,2) lineLoop_ok[OF ok, of "{}" 0 0]
    by (simp add: lineProposal_def split: if_splits)
  then have "\<not> card (?f l) > 1" using assms(3,4) by (auto simp: filter_empty_conv)
  moreover have "card (?f l) \<noteq> 0" using ok assms(3,4) by blast
  ultimately have "card (?f l) = 1" by linarith
  then show ?thesis by (auto simp: card_1_singleton_iff)
qed

subsection \<open>Identifying descriptions\<close>

definition describes :: "funnelOrder \<Rightarrow> string \<Rightarrow> bool" where
  "describes ord k \<longleftrightarrow>
     list_ex (\<lambda>ol. isAmountLine ol \<and> TrimSpace (dl_description ol) \<noteq> '''' \<and> descriptionKey ol = k) (ord_lines ord)"

lemma addOwners_spec: "addOwners ord ow k = ow k \<union> (if describes ord k then {ord_key ord} else {})"
proof -
  have "fold (\<lambda>ol ow. if \<not> isAmountLine ol \<or> TrimSpace (dl_description ol) = '''' then ow
          else ow(descriptionKey ol := insert (ord_key ord) (ow (descriptionKey ol)))) ls ow k =
        ow k \<union> (if list_ex (\<lambda>ol. isAmountLine ol \<and> TrimSpace (dl_description ol) \<noteq> '''' \<and> descriptionKey ol = k) ls
                 then {ord_key ord} else {})" for ls
    by (induction ls arbitrary: ow) auto
  then show ?thesis by (simp add: addOwners_def describes_def)
qed

lemma fold_addOwners: "fold addOwners os ow k = ow k \<union> ord_key ` set (filter (\<lambda>o'. describes o' k) os)"
  by (induction os arbitrary: ow) (auto simp: addOwners_spec)

lemma fold_description_union:
  "fold (\<lambda>l u. if \<not> isAmountLine l then u else if card (ow (descriptionKey l)) = 1 then u \<union> ow (descriptionKey l) else u) ls u =
   u \<union> (\<Union>l \<in> set (filter (\<lambda>l. isAmountLine l \<and> card (ow (descriptionKey l)) = 1) ls). ow (descriptionKey l))"
  by (induction ls arbitrary: u) auto

lemma card_1_mem: "card A = 1 \<and> k \<in> A \<longleftrightarrow> A = {k}"
proof
  assume "card A = 1 \<and> k \<in> A"
  then obtain x where "A = {x}" "k \<in> A" using card_1_singletonE by blast
  then show "A = {k}" by simp
qed simp

lemma descriptionProposal_facts:
  "k \<in> set (descriptionProposal ls os) \<longleftrightarrow>
     (\<exists>l \<in> set (filter isAmountLine ls). ord_key ` set (filter (\<lambda>o'. describes o' (descriptionKey l)) os) = {k})"
proof -
  define S where "S l = ord_key ` set (filter (\<lambda>o'. describes o' (descriptionKey l)) os)" for l
  have "card (S l) = 1 \<and> k \<in> S l \<longleftrightarrow> S l = {k}" for l
    by (rule card_1_mem)
  moreover have "k \<in> set (descriptionProposal ls os) \<longleftrightarrow>
    (\<exists>l \<in> set (filter isAmountLine ls). card (S l) = 1 \<and> k \<in> S l)"
  proof -
    have "(\<Union>l \<in> set (filter (\<lambda>l. isAmountLine l \<and> card (S l) = 1) ls). S l) =
      {k. \<exists>l \<in> set (filter isAmountLine ls). card (S l) = 1 \<and> k \<in> S l}" (is "?U = ?R")
      by (auto simp del: One_nat_def)
    moreover have "finite ?U" by (simp add: S_def)
    moreover have "descriptionProposal ls os = sortedKeys ?U"
      unfolding descriptionProposal_def Let_def fold_addOwners fold_description_union S_def by simp
    ultimately show ?thesis by (simp only: set_sortedKeys mem_Collect_eq)
  qed
  ultimately show ?thesis unfolding S_def [symmetric] by (simp only:)
qed

text \<open>An order is proposed by description exactly when some amount row of the invoice carries an
  article and text that, among the orders of the supplier, that order alone has.\<close>

theorem descriptionProposal_spec:
  "k \<in> set (descriptionProposal ls os) \<longleftrightarrow>
     (\<exists>l \<in> set (filter isAmountLine ls). ord_key ` set (filter (\<lambda>o'. describes o' (descriptionKey l)) os) = {k})"
  by (rule descriptionProposal_facts)

subsection \<open>What the order rules propose\<close>

lemma set_foundOrders: "foundOrders l cands ow links \<subseteq> ord_key ` set cands"
  by (auto simp: foundOrders_def)

lemma tryLines_cases:
  assumes "tryLines ls cands ow links = (r, u, ks, m, a)"
  shows "r = '''' \<and> ks = [] \<and> u \<or>
    r = ''lines'' \<and> u = (a = 0) \<and> (\<exists>p. ks = [p] \<and> p \<noteq> [] \<and> set p \<subseteq> ord_key ` set cands)"
proof -
  obtain p m' a' where p: "lineProposal ls cands ow links = (p, m', a')" by (cases "lineProposal ls cands ow links")
  have "set p \<subseteq> ord_key ` set cands"
    using lineProposal_facts[of ls cands ow links] p by (auto split: if_splits)
  then show ?thesis
    using assms p by (auto simp: tryLines_def split: if_splits)
qed

lemma set_descriptionProposal: "set (descriptionProposal ls os) \<subseteq> ord_key ` set os"
proof
  fix k assume "k \<in> set (descriptionProposal ls os)"
  then obtain l where "ord_key ` set (filter (\<lambda>o'. describes o' (descriptionKey l)) os) = {k}"
    unfolding descriptionProposal_facts by blast
  then have "k \<in> ord_key ` set (filter (\<lambda>o'. describes o' (descriptionKey l)) os)" by simp
  then show "k \<in> ord_key ` set os" by auto
qed

lemma tryDescription_cases:
  assumes "tryDescription ls os r ks = (r', ks')"
  shows "r' = r \<and> ks' = ks \<or>
    r = '''' \<and> r' = ''description'' \<and> (\<exists>p. ks' = [p] \<and> p \<noteq> [] \<and> set p \<subseteq> ord_key ` set os)"
  using assms set_descriptionProposal[of ls os]
  by (auto simp: tryDescription_def Let_def split: if_splits)

lemma tryHeader_cases:
  assumes "tryHeader iv cands r u ks = (r', u', ks')"
  shows "r' = r \<and> u' = u \<and> ks' = ks \<or>
    r = '''' \<and> r' = ''header'' \<and> u' = (length ks' = 1) \<and> ks' \<noteq> [] \<and>
    (\<exists>os. ks' = ks @ map (\<lambda>o'. [ord_key o']) os \<and> set os \<subseteq> set cands)"
  using assms by (auto simp: tryHeader_def Let_def split: if_splits option.splits intro!: exI)

text \<open>Everything the verdict and the proposals are computed from, on each of the four outcomes.\<close>

lemma applyOrderRules_cases:
  fixes iv ls idx
  defines "ow \<equiv> own (oi_links idx) (inv_key iv)"
  defines "cands \<equiv> withoutGoodsOrders (openCandidates idx (inv_supplierID iv) ow)"
  defines "res \<equiv> applyOrderRules iv ls idx"
  obtains (none) u where "or_Rule res = ''''" "or_keys res = []"
      "or_Verdict res = orderVerdict [] u (ordersOf (oi_links idx) (inv_key iv))"
    | (lines) p where "or_Rule res = ''lines''" "or_keys res = [p]" "p \<noteq> []" "set p \<subseteq> ord_key ` set cands"
      "or_Verdict res = orderVerdict [p] (or_AmbiguousLines res = 0) (ordersOf (oi_links idx) (inv_key iv))"
    | (description) p where "or_Rule res = ''description''" "or_keys res = [p]" "p \<noteq> []"
      "set p \<subseteq> ord_key ` set (withoutGoodsOrders (candidates idx (inv_supplierID iv)))"
      "or_Verdict res = orderVerdict [p] True (ordersOf (oi_links idx) (inv_key iv))"
    | (header) os where "or_Rule res = ''header''" "or_keys res = map (\<lambda>o'. [ord_key o']) os" "os \<noteq> []"
      "set os \<subseteq> set cands"
      "or_Verdict res = orderVerdict (or_keys res) (length (or_keys res) = 1) (ordersOf (oi_links idx) (inv_key iv))"
proof -
  obtain r1 u1 k1 m a where 1: "tryLines ls cands ow (oi_links idx) = (r1, u1, k1, m, a)" by (metis prod_cases5)
  obtain r2 k2 where 2: "tryDescription ls (withoutGoodsOrders (candidates idx (inv_supplierID iv))) r1 k1 = (r2, k2)"
    by (metis prod.exhaust)
  obtain r3 u3 k3 where 3: "tryHeader iv cands r2 u1 k2 = (r3, u3, k3)" by (metis prod_cases3)
  have f: "or_Rule res = r3" "or_keys res = k3" "or_AmbiguousLines res = a"
    "or_Verdict res = orderVerdict k3 u3 (ordersOf (oi_links idx) (inv_key iv))"
    using 1 2 3 by (simp_all add: res_def applyOrderRules_def Let_def cands_def ow_def)
  show ?thesis
    using tryLines_cases[OF 1] tryDescription_cases[OF 2] tryHeader_cases[OF 3] f that by auto
qed

text \<open>C37: The order rules propose only orders of the invoice's supplier and never a goods order; except
  for the description rule, only orders with residual.\<close>

theorem proposals_sound:
  "\<Union> (set ` set (or_keys (applyOrderRules iv ls idx))) \<subseteq>
     ord_key ` {o' \<in> set (candidates idx (inv_supplierID iv)). \<not> isGoodsOrder o' \<and>
       (if or_Rule (applyOrderRules iv ls idx) = ''description'' then True
        else isOpen (oi_links idx) o' (own (oi_links idx) (inv_key iv)))}"
proof (rule applyOrderRules_cases[of iv ls idx], goal_cases)
  case (2 p)
  then show ?case by (auto simp: withoutGoodsOrders_def openCandidates_def)
next
  case (3 p)
  then show ?case by (auto simp: withoutGoodsOrders_def)
next
  case (4 os)
  then show ?case by (auto simp: withoutGoodsOrders_def openCandidates_def)
qed simp

lemma sorted_ordersOf [simp]: "sorted (ordersOf l k)" "sort (ordersOf l k) = ordersOf l k" "distinct (ordersOf l k)"
  by (simp_all add: ordersOf_def distinct_uniq_from sorted_sort_id)

lemma orderVerdict_match:
  assumes "\<forall>k \<in> set p. CHR ''|'' \<notin> set k" "\<forall>k \<in> set links. CHR ''|'' \<notin> set k" "p \<noteq> []" "sorted links"
  shows "orderVerdict [p] u links = ''match'' \<longleftrightarrow> u \<and> links = p"
proof -
  have "links \<noteq> [] \<Longrightarrow> Join p ''|'' = Join links ''|'' \<longleftrightarrow> links = p"
    using Join_inj[of p "CHR ''|''" links] assms by auto
  then show ?thesis using assms(3,4) by (auto simp: orderVerdict_def Let_def sorted_sort_id)
qed

text \<open>The verdict on the order rules is "match" exactly when they propose one combination of orders,
  which is the set of orders AFC linked, and no invoice row fits more than one order. Order keys
  are assumed free of the separator of the comparison.\<close>

theorem order_rules_match:
  assumes "\<forall>o' \<in> set (candidates idx (inv_supplierID iv)). CHR ''|'' \<notin> set (ord_key o')"
    and "\<forall>k \<in> set (ordersOf (oi_links idx) (inv_key iv)). CHR ''|'' \<notin> set k"
  shows "or_Verdict (applyOrderRules iv ls idx) = ''match'' \<longleftrightarrow>
    or_keys (applyOrderRules iv ls idx) = [ordersOf (oi_links idx) (inv_key iv)] \<and>
    ordersOf (oi_links idx) (inv_key iv) \<noteq> [] \<and>
    \<not> (or_Rule (applyOrderRules iv ls idx) = ''lines'' \<and> or_AmbiguousLines (applyOrderRules iv ls idx) \<noteq> 0)"
proof -
  let ?L = "ordersOf (oi_links idx) (inv_key iv)"
  have bar: "\<forall>k \<in> set p. CHR ''|'' \<notin> set k"
    if "set p \<subseteq> ord_key ` S" "S \<subseteq> set (candidates idx (inv_supplierID iv))" for p S
    using that assms(1) by blast
  show ?thesis
  proof (rule applyOrderRules_cases[of iv ls idx], goal_cases)
    case 1 then show ?case by (auto simp: orderVerdict_def)
  next
    case (2 p)
    have "\<forall>k \<in> set p. CHR ''|'' \<notin> set k"
      by (rule bar[OF 2(4)]) (auto simp: withoutGoodsOrders_def openCandidates_def)
    with 2 show ?case using orderVerdict_match[OF _ assms(2)] by auto
  next
    case (3 p)
    have "\<forall>k \<in> set p. CHR ''|'' \<notin> set k"
      by (rule bar[OF 3(4)]) (auto simp: withoutGoodsOrders_def)
    with 3 show ?case using orderVerdict_match[OF _ assms(2)] by auto
  next
    case (4 os)
    show ?case
    proof (cases os)
      case (Cons o1 os')
      have "\<forall>k \<in> set [ord_key o1]. CHR ''|'' \<notin> set k"
        by (rule bar[where S = "{o1}"]) (use 4(4) Cons in \<open>auto simp: withoutGoodsOrders_def openCandidates_def\<close>)
      with 4 Cons show ?thesis using orderVerdict_match[OF _ assms(2)]
        by (cases os') (auto simp: orderVerdict_def Let_def)
    qed (use 4 in simp)
  qed
qed

subsection \<open>A small world\<close>

text \<open>One supplier, one open service order of 100.00 a month for twelve months (three already
  invoiced) and one invoice of 100.00 that AFC linked to it: a concrete input for the theorems.\<close>

definition world_order :: funnelOrder where
  "world_order = \<lparr>ord_key = ''1:100'', ord_reg = 100, ord_docCode = ''TSF-ORDINE'', ord_series = ''A'',
     ord_number = ''12'', ord_date = Some 0, ord_supplierID = Some 1, ord_origRef = ''PO-50205/2025'',
     ord_total = Some 1200,
     ord_lines = [\<lparr>dl_progressive = 1, dl_rowType = Some 1, dl_article = ''CANONE'',
       dl_description = ''Circuito Milano'', dl_qty = Some 12, dl_price = Some 100, dl_net = Some 1200\<rparr>],
     ord_rdaCode = Some \<lparr>nc_number = ''50205'', nc_year = ''2025''\<rparr>, ord_rdaLegacy = False\<rparr>"

definition world_links :: funnelOrderLinks where
  "world_links = \<lparr>lnk_consumed = (\<lambda>k. if k = \<lparr>lk_order = ''1:100'', lk_row = 1\<rparr> then 3 else 0),
     lnk_byInvoice = [(''1:200'', [\<lparr>ll_invoiceRow = 1, ll_line = \<lparr>lk_order = ''1:100'', lk_row = 1\<rparr>, ll_qty = 1\<rparr>])]\<rparr>"

definition world_invoice :: funnelInvoice where
  "world_invoice = \<lparr>inv_key = ''1:200'', inv_registration = 200, inv_supplierID = Some 1,
     inv_supplierName = ''Carrier'', inv_documentNumber = ''7'', inv_documentDate = Some (40 * ns_per_day),
     inv_supplierReference = ''FT-7'', inv_note = ''PO-50205/2025'', inv_taxableAmount = Some 100,
     inv_supplierVAT = ''IT01234567890'', inv_supplierVATForeign = '''', inv_fiscalCode = ''''\<rparr>"

definition world_lines :: "funnelDocLine list" where
  "world_lines = [\<lparr>dl_progressive = 1, dl_rowType = Some 1, dl_article = ''CANONE'',
     dl_description = ''Circuito Milano'', dl_qty = Some 1, dl_price = Some 100, dl_net = Some 100\<rparr>]"

definition world_rda :: funnelRDA where
  "world_rda = \<lparr>rda_id = 7, rda_code = ''PO-50205/2025'', rda_state = ''APPROVED'', rda_type = '''',
     rda_object = '''', rda_total = Some 1200, rda_currency = ''EUR'', rda_created = Some 0,
     rda_delivered = None, rda_supplierID = Some 1, rda_providerName = ''Carrier'', rda_lines = []\<rparr>"

definition world_refs :: funnelReferenceIndex where
  "world_refs = newFunnelReferenceIndex [world_rda]"

definition world_index :: funnelOrderIndex where
  "world_index = newFunnelOrderIndex [world_order] world_refs world_links"

theorem order_rules_match_witness:
  "or_Verdict (applyOrderRules world_invoice world_lines world_index) = ''match''"
  by (subst order_rules_match) code_simp+

end
