(* ===== verification/FunnelContracts.thy ===== *)
theory FunnelContracts
  imports FunnelOrders
begin

text \<open>
  Purchase contracts (\<open>smartpassive/funnel_contracts.go\<close>): the index, the search for the
  combinations of fees that sum to an invoice, and the outcome of the contract level.

  The recursive closure \<open>walk\<close> and the loop in its body are two mutually recursive functions;
  the captured slice \<open>hits\<close> is passed and returned. The shared backing array of \<open>chosen\<close> cannot
  be observed: a hit copies the labels at once.
\<close>

subsection \<open>Contracts and their index\<close>

record funnelContract =
  ct_key :: string
  ct_reg :: int
  ct_series :: string
  ct_number :: string
  ct_date :: "gotime option"
  ct_supplierID :: "int option"
  ct_total :: "float64 option"
  ct_lines :: "funnelDocLine list"

definition contractLabel :: "funnelContract \<Rightarrow> string" where
  "contractLabel c = TrimSpace (ct_series c @ ''/'' @ ct_number c)"

definition contractTaxable :: "funnelContract \<Rightarrow> int" where
  "contractTaxable c = sumNet (ct_lines c)"

definition category :: "funnelContract \<Rightarrow> string" where
  "category c = (case find (\<lambda>l. isAmountLine l \<and> dl_article l \<noteq> '''') (ct_lines c) of
     Some l \<Rightarrow> dl_article l | None \<Rightarrow> '''')"

definition contractDescription :: "funnelContract \<Rightarrow> string" where
  "contractDescription c = (case find (\<lambda>l. isAmountLine l \<and> dl_description l \<noteq> '''') (ct_lines c) of
     Some l \<Rightarrow> dl_description l | None \<Rightarrow> '''')"

record funnelContractIndex =
  ci_bySupplier :: "(int, funnelContract) index"
  ci_byKey :: "string \<rightharpoonup> funnelContract"
  ci_linksByInvoice :: "(string, string) index"
  ci_count :: nat

definition indexContract :: "funnelContract \<Rightarrow> funnelContractIndex \<Rightarrow> funnelContractIndex" where
  "indexContract c idx0 =
     (let idx = idx0\<lparr>ci_byKey := (ci_byKey idx0)(ct_key c \<mapsto> c)\<rparr>
      in case ct_supplierID c of None \<Rightarrow> idx
         | Some s \<Rightarrow> idx\<lparr>ci_bySupplier := ix_push s c (ci_bySupplier idx)\<rparr>)"

definition newFunnelContractIndex :: "funnelContract list \<Rightarrow> (string, string) index \<Rightarrow> funnelContractIndex" where
  "newFunnelContractIndex contracts links =
     (let idx = fold indexContract contracts
        \<lparr>ci_bySupplier = [], ci_byKey = Map.empty, ci_linksByInvoice = links, ci_count = length contracts\<rparr>
      in idx\<lparr>ci_bySupplier := map (\<lambda>(s, cs). (s, sort_key ct_number cs)) (ci_bySupplier idx)\<rparr>)"

definition contractCandidates :: "funnelContractIndex \<Rightarrow> int option \<Rightarrow> funnelContract list" where
  "contractCandidates idx supplierID = (case supplierID of None \<Rightarrow> [] | Some s \<Rightarrow> ix_get (ci_bySupplier idx) s)"

definition truth :: "funnelContractIndex \<Rightarrow> string \<Rightarrow> string list" where
  "truth idx invoiceKey =
     sort (map contractLabel (List.map_filter (ci_byKey idx) (ix_get (ci_linksByInvoice idx) invoiceKey)))"

record exportedContract =
  xc_Registration :: int
  xc_Label :: string
  xc_Date :: "gotime option"
  xc_Category :: string
  xc_Description :: string
  xc_Fee :: float64
  xc_LinkedInvoices :: nat

definition exportContract :: "funnelContractIndex \<Rightarrow> funnelContract \<Rightarrow> exportedContract" where
  "exportContract idx c =
     \<lparr>xc_Registration = ct_reg c, xc_Label = contractLabel c, xc_Date = ct_date c,
      xc_Category = category c, xc_Description = contractDescription c,
      xc_Fee = fdiv (float_of_int (contractTaxable c)) 100,
      xc_LinkedInvoices = sum_list (map (\<lambda>kv. count_list (snd kv) (ct_key c)) (ci_linksByInvoice idx))\<rparr>"

subsection \<open>Matching\<close>

definition contractMaxCandidates :: nat where "contractMaxCandidates = 24"

record contractResult =
  cr_Candidates :: nat
  cr_Proposals :: "string list"
  cr_Reason :: string

function walk :: "funnelContract list \<Rightarrow> int list \<Rightarrow> nat \<Rightarrow> int \<Rightarrow> nat list \<Rightarrow> string list list \<Rightarrow> string list list"
  and walkLoop :: "funnelContract list \<Rightarrow> int list \<Rightarrow> nat \<Rightarrow> int \<Rightarrow> nat list \<Rightarrow> string list list \<Rightarrow> string list list" where
  "walk cs fees start remaining chosen hits =
     (if length hits > 1 then hits
      else if remaining = 0 \<and> length chosen > 0 then hits @ [map (\<lambda>i. contractLabel (cs ! i)) chosen]
      else walkLoop cs fees start remaining chosen hits)"
| "walkLoop cs fees i remaining chosen hits =
     (if i < length fees then
        walkLoop cs fees (Suc i) remaining chosen
          (if fees ! i > remaining then hits
           else walk cs fees (Suc i) (remaining - fees ! i) (chosen @ [i]) hits)
      else hits)"
  by pat_completeness auto
termination
  by (relation "measure (\<lambda>x. case x of
        Inl (cs, fees, start, _) \<Rightarrow> 2 * (length fees - start) + 1
      | Inr (cs, fees, i, _) \<Rightarrow> 2 * (length fees - i))") auto

declare walk.simps [simp del] walkLoop.simps [simp del]

definition contractSubsets :: "funnelContract list \<Rightarrow> int \<Rightarrow> string list list" where
  "contractSubsets contracts target = walk contracts (map contractTaxable contracts) 0 target [] []"

definition closeContracts :: "contractResult \<Rightarrow> string list list \<Rightarrow> string \<Rightarrow> contractResult" where
  "closeContracts result hits none =
     (case hits of
        [] \<Rightarrow> result\<lparr>cr_Reason := none\<rparr>
      | [h] \<Rightarrow> result\<lparr>cr_Proposals := sort h\<rparr>
      | _ \<Rightarrow> result\<lparr>cr_Reason := ''ambiguous''\<rparr>)"

definition activeContracts :: "gotime \<Rightarrow> funnelContract list \<Rightarrow> funnelContract list" where
  "activeContracts day contracts =
     filter (\<lambda>c. \<not> (case ct_date c of None \<Rightarrow> False | Some d \<Rightarrow> d > day) \<and> \<not> contractTaxable c \<le> 0) contracts"

definition applyContracts :: "funnelInvoice \<Rightarrow> funnelContract list \<Rightarrow> contractResult" where
  "applyContracts invoice contracts =
     (let result = \<lparr>cr_Candidates = 0, cr_Proposals = [], cr_Reason = ''''\<rparr>
      in case (inv_taxableAmount invoice, inv_documentDate invoice) of
           (Some amount, Some day) \<Rightarrow>
             let active = activeContracts day contracts;
                 result1 = result\<lparr>cr_Candidates := length active\<rparr>;
                 target = cents amount
             in if length active = 0 then result1\<lparr>cr_Reason := ''no_contracts''\<rparr>
                else if length active > contractMaxCandidates then
                  closeContracts result1
                    (map (\<lambda>c. [contractLabel c]) (filter (\<lambda>c. contractTaxable c = target) active)) ''ambiguous''
                else closeContracts result1 (contractSubsets active target) ''no_match''
         | _ \<Rightarrow> result\<lparr>cr_Reason := ''no_contracts''\<rparr>)"

subsection \<open>The index\<close>

lemma indexContract_fields [frame_simps]:
  "ci_bySupplier (indexContract c idx) =
     (case ct_supplierID c of None \<Rightarrow> ci_bySupplier idx | Some s \<Rightarrow> ix_push s c (ci_bySupplier idx))"
  "ci_byKey (indexContract c idx) = (ci_byKey idx)(ct_key c \<mapsto> c)"
  "ci_linksByInvoice (indexContract c idx) = ci_linksByInvoice idx"
  by (auto simp: indexContract_def Let_def split: option.split)

lemma fold_indexContract:
  "ci_bySupplier (fold indexContract cs idx) =
     fold (\<lambda>c m. case ct_supplierID c of None \<Rightarrow> m | Some s \<Rightarrow> ix_push s c m) cs (ci_bySupplier idx)"
  "ci_byKey (fold indexContract cs idx) = fold (\<lambda>c m. m(ct_key c \<mapsto> c)) cs (ci_byKey idx)"
  "ci_linksByInvoice (fold indexContract cs idx) = ci_linksByInvoice idx"
  by (induction cs arbitrary: idx) (simp_all add: frame_simps)

lemma contractCandidates_spec [idx_simps]:
  "contractCandidates (newFunnelContractIndex cs links) sid =
     (case sid of None \<Rightarrow> [] | Some s \<Rightarrow> sort_key ct_number (filter (\<lambda>c. ct_supplierID c = Some s) cs))"
proof -
  have "ix_get (map (\<lambda>(k, vs). (k, sort_key ct_number vs)) m) s = sort_key ct_number (ix_get m s)" for m :: "(int, funnelContract) index" and s
    by (simp add: ix_get_def map_of_map split: option.split)
  then show ?thesis
    by (simp add: contractCandidates_def newFunnelContractIndex_def Let_def fold_indexContract idx_simps
        split: option.split)
qed

subsection \<open>The search is exact\<close>

text \<open>What an unbounded search would enumerate, in the same order: the increasing positions from \<open>i\<close>
  on whose fees sum to the remaining amount.\<close>

function subs :: "int list \<Rightarrow> nat \<Rightarrow> int \<Rightarrow> nat list list" where
  "subs fees i remaining =
     (if i < length fees then
        (if fees ! i > remaining then []
         else if remaining - fees ! i = 0 then [[i]]
         else map ((#) i) (subs fees (Suc i) (remaining - fees ! i))) @ subs fees (Suc i) remaining
      else [])"
  by pat_completeness auto
termination by (relation "measure (\<lambda>(fees, i, _). length fees - i)") auto

declare subs.simps [simp del]

text \<open>The search stops after two hits: it appends what fits of the enumeration.\<close>

definition cap2 :: "'a list \<Rightarrow> 'a list \<Rightarrow> 'a list" where
  "cap2 hits new = hits @ take (2 - length hits) new"

lemma cap2_simps [simp]:
  "cap2 hits [] = hits" "1 < length hits \<Longrightarrow> length hits \<le> 2 \<Longrightarrow> cap2 hits new = hits"
  "length hits \<le> 1 \<Longrightarrow> cap2 hits [x] = hits @ [x]"
  by (auto simp: cap2_def)

lemma cap2_append: "cap2 (cap2 hits xs) ys = cap2 hits (xs @ ys)"
  by (cases "2 \<le> length hits + length xs") (auto simp: cap2_def min_def)

lemma length_cap2: "length hits \<le> 2 \<Longrightarrow> length (cap2 hits xs) \<le> 2"
  by (simp add: cap2_def)

lemma walk_subs:
  assumes "\<forall>f \<in> set fees. 0 < f"
  shows walk_eq: "length hits \<le> 2 \<Longrightarrow>
      walk cs fees start remaining chosen hits =
        cap2 hits (if remaining = 0 \<and> chosen \<noteq> [] then [map (\<lambda>i. contractLabel (cs ! i)) chosen]
                   else map (\<lambda>is. map (\<lambda>i. contractLabel (cs ! i)) (chosen @ is)) (subs fees start remaining))"
    and walkLoop_eq: "length hits \<le> 2 \<Longrightarrow>
      walkLoop cs fees start remaining chosen hits =
        cap2 hits (map (\<lambda>is. map (\<lambda>i. contractLabel (cs ! i)) (chosen @ is)) (subs fees start remaining))"
  using assms
proof (induction cs fees start remaining chosen hits and cs fees start remaining chosen hits rule: walk_walkLoop.induct)
  case (1 cs fees start remaining chosen hits)
  then show ?case
    by (cases "1 < length hits") (simp_all add: walk.simps[of cs fees start])
next
  case (2 cs fees i remaining chosen hits)
  show ?case
  proof (cases "i < length fees")
    case True
    let ?L = "\<lambda>is. map (\<lambda>i. contractLabel (cs ! i)) is"
    let ?h = "if fees ! i > remaining then hits
              else walk cs fees (Suc i) (remaining - fees ! i) (chosen @ [i]) hits"
    have h: "?h = cap2 hits (map (\<lambda>is. ?L (chosen @ is))
               (if fees ! i > remaining then [] else if remaining - fees ! i = 0 then [[i]]
                else map ((#) i) (subs fees (Suc i) (remaining - fees ! i))))"
      using 2(1)[OF True _ 2(3,4)] by (auto simp: comp_def)
    moreover have "length ?h \<le> 2" unfolding h using 2(3) by (rule length_cap2)
    ultimately show ?thesis
      using 2(2)[OF True] 2(4) True
      by (simp add: walkLoop.simps[of cs fees i] subs.simps[of fees i] cap2_append)
  qed (simp add: walkLoop.simps[of cs fees i] subs.simps[of fees i])
qed

text \<open>The increasing positions from \<open>i\<close> on whose fees sum to \<open>r\<close>.\<close>

definition combos :: "int list \<Rightarrow> nat \<Rightarrow> int \<Rightarrow> nat list set" where
  "combos fees i r = {is. is \<noteq> [] \<and> sorted_wrt (<) is \<and> (\<forall>j \<in> set is. i \<le> j \<and> j < length fees) \<and>
     sum_list (map ((!) fees) is) = r}"

lemma combos_pos:
  assumes "\<forall>f \<in> set fees. 0 < f" "is \<in> combos fees i r"
  shows "0 < r"
proof -
  have "is \<noteq> [] \<Longrightarrow> \<forall>j \<in> set is. j < length fees \<Longrightarrow> 0 < sum_list (map ((!) fees) is)" for "is"
    by (induction "is") (use assms(1) in \<open>force simp: add_pos_nonneg less_imp_le\<close>)+
  then show ?thesis using assms(2) by (auto simp: combos_def)
qed

lemma combos_end: "\<not> i < length fees \<Longrightarrow> combos fees i r = {}"
  by (auto simp: combos_def neq_Nil_conv)

lemma combos_step:
  assumes "i < length fees"
  shows "combos fees i r = (if fees ! i = r then {[i]} else {}) \<union>
    (#) i ` combos fees (Suc i) (r - fees ! i) \<union> combos fees (Suc i) r" (is "?L = ?R")
proof (rule set_eqI)
  fix xs
  show "xs \<in> ?L \<longleftrightarrow> xs \<in> ?R"
  proof (cases xs)
    case (Cons j js)
    show ?thesis
    proof (cases "j = i")
      case True
      have "js \<noteq> [] \<Longrightarrow> \<forall>x \<in> set js. i < x \<longleftrightarrow> Suc i \<le> x" by auto
      then show ?thesis using Cons True assms
        by (cases js) (auto simp: combos_def image_iff Suc_le_eq less_imp_le)
    next
      case False
      have "(\<forall>x \<in> set js. j < x) \<Longrightarrow> (i \<le> j \<and> (\<forall>x \<in> set js. i \<le> x)) = (i \<le> j)" by auto
      then show ?thesis using Cons False
        by (auto simp: combos_def Suc_le_eq less_le)
    qed
  qed (auto simp: combos_def)
qed

lemma subs_spec:
  assumes "\<forall>f \<in> set fees. 0 < f"
  shows "set (subs fees i r) = combos fees i r"
  using assms
proof (induction fees i r rule: subs.induct)
  case (1 fees i r)
  show ?case
  proof (cases "i < length fees")
    case True
    have neg: "q \<le> 0 \<Longrightarrow> combos fees (Suc i) q = {}" for q
      using combos_pos[OF 1(3)] by force
    have "set (subs fees (Suc i) r) = combos fees (Suc i) r" using 1(2)[OF True 1(3)] .
    moreover have "set (subs fees (Suc i) (r - fees ! i)) = combos fees (Suc i) (r - fees ! i)"
      if "\<not> fees ! i > r" "r - fees ! i \<noteq> 0"
      using 1(1)[OF True that 1(3)] .
    ultimately show ?thesis
      using True neg[of "r - fees ! i"] by (auto simp: subs.simps[of fees i r] combos_step)
  qed (simp add: subs.simps[of fees i r] combos_end)
qed

lemma subs_distinct:
  assumes "\<forall>f \<in> set fees. 0 < f"
  shows "distinct (subs fees i r)"
  using assms
proof (induction fees i r rule: subs.induct)
  case (1 fees i r)
  have "i # t \<notin> combos fees (Suc i) r" for t by (auto simp: combos_def)
  then have "i # t \<notin> set (subs fees (Suc i) r)" for t using subs_spec[OF 1(3)] by blast
  then show ?case
    using 1 by (cases "i < length fees") (auto simp: subs.simps[of fees i r] distinct_map)
qed

lemma active_positive: "\<forall>f \<in> set (map contractTaxable (activeContracts d cs)). 0 < f"
  by (auto simp: activeContracts_def)

lemma contractSubsets_eq:
  assumes "\<forall>f \<in> set (map contractTaxable cs). 0 < f"
  shows "contractSubsets cs t =
    take 2 (map (map (\<lambda>i. contractLabel (cs ! i))) (subs (map contractTaxable cs) 0 t))"
  using walk_eq[OF assms, of "[]" cs 0 t "[]"] by (simp add: contractSubsets_def cap2_def)

lemma closeContracts_take2:
  "closeContracts r (take 2 (map g xs)) e =
     (if xs = [] then r\<lparr>cr_Reason := e\<rparr> else if length xs = 1 then r\<lparr>cr_Proposals := sort (g (hd xs))\<rparr>
      else r\<lparr>cr_Reason := ''ambiguous''\<rparr>)"
  by (cases xs; cases "tl xs") (auto simp: closeContracts_def)

text \<open>C21: With at most twenty-four contracts in force, the contract level proposes exactly when one and
  only one combination of positive fees sums to the invoice to the cent, and then proposes the
  labels of that combination; otherwise the reason tells no combination from several.\<close>

theorem applyContracts_exact:
  fixes iv cs a d
  defines "act \<equiv> activeContracts d cs"
  defines "K \<equiv> combos (map contractTaxable act) 0 (cents a)"
  assumes "inv_taxableAmount iv = Some a" "inv_documentDate iv = Some d" "length act \<le> 24"
  shows "applyContracts iv cs =
    \<lparr>cr_Candidates = length act,
     cr_Proposals = (if card K = 1 then sort (map (\<lambda>i. contractLabel (act ! i)) (the_elem K)) else []),
     cr_Reason = (if act = [] then ''no_contracts'' else if K = {} then ''no_match''
                  else if card K = 1 then '''' else ''ambiguous'')\<rparr>"
proof -
  let ?S = "subs (map contractTaxable act) 0 (cents a)"
  have pos: "\<forall>f \<in> set (map contractTaxable act). 0 < f"
    unfolding act_def by (rule active_positive)
  have K: "K = set ?S" "card K = length ?S"
    unfolding K_def using subs_spec[OF pos] distinct_card[OF subs_distinct[OF pos]] by metis+
  have "the_elem K = hd ?S" if "length ?S = 1"
    using that unfolding K(1) by (cases ?S) auto
  moreover have "act = [] \<Longrightarrow> K = {}" by (simp add: K_def combos_end)
  ultimately show ?thesis
    using assms(3-5) K
    by (simp add: applyContracts_def contractMaxCandidates_def contractSubsets_eq[OF pos]
        closeContracts_take2 flip: act_def)
qed

definition world_contract :: "string \<Rightarrow> int \<Rightarrow> funnelContract" where
  "world_contract n fee = \<lparr>ct_key = ''1:'' @ n, ct_reg = 300, ct_series = ''C'', ct_number = n, ct_date = Some 0,
     ct_supplierID = Some 1, ct_total = None,
     ct_lines = [\<lparr>dl_progressive = 1, dl_rowType = Some 1, dl_article = ''CROSS-CONNECT'',
       dl_description = ''Cage 3'', dl_qty = Some 1, dl_price = None, dl_net = Some (of_int fee)\<rparr>]\<rparr>"

theorem applyContracts_exact_witness:
  "applyContracts world_invoice [world_contract ''31'' 60, world_contract ''32'' 40, world_contract ''33'' 70] =
     \<lparr>cr_Candidates = 3, cr_Proposals = [''C/31'', ''C/32''], cr_Reason = ''''\<rparr>"
proof -
  let ?cs = "[world_contract ''31'' 60, world_contract ''32'' 40, world_contract ''33'' 70]"
  have a: "activeContracts (40 * ns_per_day) ?cs = ?cs" by code_simp
  have "set (subs (map contractTaxable ?cs) 0 (cents 100)) = combos (map contractTaxable ?cs) 0 (cents 100)"
    by (rule subs_spec) code_simp
  moreover have "subs (map contractTaxable ?cs) 0 (cents 100) = [[0, 1]]" by code_simp
  ultimately have k: "combos (map contractTaxable ?cs) 0 (cents 100) = {[0, 1]}" by simp
  have s: "sort [contractLabel (world_contract ''31'' 60), contractLabel (world_contract ''32'' 40)] = [''C/31'', ''C/32'']"
    by code_simp
  show ?thesis
    using applyContracts_exact[of world_invoice 100 "40 * ns_per_day" ?cs] unfolding a k
    using s by (simp add: world_invoice_def)
qed

text \<open>Beyond twenty-four contracts in force the search is not attempted: the level proposes a single
  contract whose fee is the invoice amount when there is exactly one, and is ambiguous otherwise.\<close>

theorem applyContracts_many:
  assumes "inv_taxableAmount iv = Some a" "inv_documentDate iv = Some d"
    and "24 < length (activeContracts d cs)"
  shows "applyContracts iv cs =
    \<lparr>cr_Candidates = length (activeContracts d cs),
     cr_Proposals = (case filter (\<lambda>c. contractTaxable c = cents a) (activeContracts d cs) of
        [c] \<Rightarrow> [contractLabel c] | _ \<Rightarrow> []),
     cr_Reason = (case filter (\<lambda>c. contractTaxable c = cents a) (activeContracts d cs) of
        [c] \<Rightarrow> '''' | _ \<Rightarrow> ''ambiguous'')\<rparr>"
proof -
  have "activeContracts d cs \<noteq> []" using assms(3) by auto
  then show ?thesis
    using assms by (simp add: applyContracts_def contractMaxCandidates_def closeContracts_def split: list.split)
qed

theorem applyContracts_many_witness:
  "cr_Proposals (applyContracts world_invoice (world_contract ''31'' 100 # replicate 24 (world_contract ''32'' 7))) = [''C/31'']"
proof -
  let ?cs = "world_contract ''31'' 100 # replicate 24 (world_contract ''32'' 7)"
  have a: "activeContracts (40 * ns_per_day) ?cs = ?cs" by code_simp
  have f: "filter (\<lambda>c. contractTaxable c = cents 100) ?cs = [world_contract ''31'' 100]" by code_simp
  have l: "contractLabel (world_contract ''31'' 100) = ''C/31''" by code_simp
  show ?thesis
    using applyContracts_many[of world_invoice 100 "40 * ns_per_day" ?cs] unfolding a f
    by (simp add: world_invoice_def l)
qed

end
