(* ===== verification/FunnelSdi.thy ===== *)
theory FunnelSdi
  imports FunnelContracts
begin

text \<open>
  Electronic invoices (\<open>smartpassive/funnel_sdi.go\<close>): which SDI document belongs to a registered
  invoice, the orders and RDAs its declared references resolve to, and the verdict against the
  orders AFC linked. The decoded document is an input (the XML decoder and the SQL are not
  modelled); the index of the documents by requested number is.
\<close>

subsection \<open>Documents\<close>

record sdiOrderRef =
  so_ID :: string
  so_Date :: string
  so_Lines :: "string list"

record sdiLine =
  sl_Number :: string
  sl_Articles :: "string list"
  sl_Description :: string
  sl_Qty :: "float64 option"
  sl_UnitPrice :: "float64 option"
  sl_Total :: "float64 option"
  sl_PeriodStart :: string
  sl_PeriodEnd :: string

record sdiDocument =
  sd_sourceID :: int
  sd_supplierVAT :: string
  sd_supplierName :: string
  sd_docType :: string
  sd_number :: string
  sd_date :: "gotime option"
  sd_orderRefs :: "sdiOrderRef list"
  sd_contracts :: "string list"
  sd_lines :: "sdiLine list"

definition normalizeDocNumber :: "string \<Rightarrow> string" where
  "normalizeDocNumber n = ToUpper (TrimSpace n)"

definition fiscalKey :: "string \<Rightarrow> string" where
  "fiscalKey v0 =
     (let v = filter (\<lambda>c. is_digit c \<or> is_upper c) (ToUpper (TrimSpace v0))
      in if length v > 2 \<and> is_upper (v ! 0) \<and> is_upper (v ! 1) then drop 2 v else v)"

definition fiscalKeys :: "string list \<Rightarrow> string set" where
  "fiscalKeys values = set (filter (\<lambda>k. k \<noteq> '''') (map fiscalKey values))"

definition sdiSuffixMinLength :: nat where "sdiSuffixMinLength = 10"

text \<open>The numbers to ask for: per distinct normalised reference, the trimmed reference, and the
  normalised one again when it is long enough to be a truncation.\<close>

fun sdiRequests :: "string set \<Rightarrow> funnelInvoice list \<Rightarrow> string set \<times> string list \<times> string list" where
  "sdiRequests requested [] = (requested, [], [])"
| "sdiRequests requested (iv # ivs) =
     (let n = normalizeDocNumber (inv_supplierReference iv)
      in if n = '''' \<or> n \<in> requested then sdiRequests requested ivs
         else let (req, numbers, suffixes) = sdiRequests (insert n requested) ivs
              in (req, TrimSpace (inv_supplierReference iv) # numbers,
                  if length n \<ge> sdiSuffixMinLength then n # suffixes else suffixes))"

definition indexSDIDocument :: "string set \<Rightarrow> sdiDocument \<Rightarrow> (string, sdiDocument) index \<Rightarrow> (string, sdiDocument) index" where
  "indexSDIDocument requested doc out =
     (let key = normalizeDocNumber (sd_number doc);
          push = (\<lambda>s m. if s \<in> requested then ix_push s doc m else m)
      in fold (\<lambda>l m. push (drop (length key - l) key) m)
           (rev [sdiSuffixMinLength..<length key]) (push key out))"

definition sdiDocsByNumber :: "string set \<Rightarrow> sdiDocument list \<Rightarrow> (string, sdiDocument) index" where
  "sdiDocsByNumber requested docs = fold (indexSDIDocument requested) docs []"

subsection \<open>Analysis\<close>

record sdiRef =
  sr_Declared :: string
  sr_Code :: string
  sr_Lines :: "string list"
  sr_Orders :: "string list"
  sr_RDAID :: "int option"
  sr_RDACode :: string
  sr_orderKeys :: "string list"

record sdiResult =
  sx_Linked :: bool
  sx_LinkKind :: string
  sx_SourceID :: "int option"
  sx_OrderRefs :: "sdiRef list"
  sx_Contracts :: "string list"
  sx_PeriodStart :: string
  sx_PeriodEnd :: string
  sx_Articles :: "string list"
  sx_Verdict :: string

definition sameDate :: "funnelInvoice \<Rightarrow> sdiDocument \<Rightarrow> bool" where
  "sameDate invoice d =
     (case (sd_date d, inv_documentDate invoice) of
        (Some a, Some b) \<Rightarrow> FormatDate a = FormatDate b | _ \<Rightarrow> False)"

definition sameSupplier :: "funnelInvoice \<Rightarrow> sdiDocument \<Rightarrow> bool" where
  "sameSupplier invoice d =
     (fiscalKey (sd_supplierVAT d) \<in>
        fiscalKeys [inv_supplierVAT invoice, inv_supplierVATForeign invoice, inv_fiscalCode invoice])"

definition sameNumber :: "funnelInvoice \<Rightarrow> sdiDocument \<Rightarrow> bool" where
  "sameNumber invoice d =
     (normalizeDocNumber (sd_number d) = normalizeDocNumber (inv_supplierReference invoice))"

text \<open>The choice of the document: the loop breaks at the first document of the strongest kind.\<close>

fun linkLoop :: "funnelInvoice \<Rightarrow> sdiDocument option \<Rightarrow> string \<Rightarrow> sdiDocument list \<Rightarrow> sdiDocument option \<times> string" where
  "linkLoop iv doc kind [] = (doc, kind)"
| "linkLoop iv doc kind (d # ds) =
     (let (doc', kind') =
        (if sameDate iv d \<and> sameSupplier iv d \<and> sameNumber iv d then (Some d, ''vat_number_date'')
         else if sameDate iv d \<and> sameNumber iv d \<and> (doc = None \<or> kind = ''vat_suffix_date'') then (Some d, ''number_date'')
         else if sameDate iv d \<and> sameSupplier iv d \<and> doc = None then (Some d, ''vat_suffix_date'')
         else (doc, kind))
      in if kind' = ''vat_number_date'' then (doc', kind') else linkLoop iv doc' kind' ds)"

definition appendOrders :: "funnelOrder list \<Rightarrow> sdiRef \<Rightarrow> sdiRef" where
  "appendOrders os item =
     item\<lparr>sr_Orders := sr_Orders item @ map orderLabel os, sr_orderKeys := sr_orderKeys item @ map ord_key os\<rparr>"

definition refArak :: "funnelOrderIndex \<Rightarrow> funnelReferenceIndex \<Rightarrow> noteCode \<Rightarrow> sdiRef \<Rightarrow> sdiRef" where
  "refArak idx refs code item =
     (let item1 = (case lookup refs code of
            [r] \<Rightarrow> if sr_RDAID item = None
                   then item\<lparr>sr_RDAID := Some (rda_id r), sr_RDACode := ToUpper (rda_code r)\<rparr> else item
          | _ \<Rightarrow> item)
      in appendOrders (byCodeNumber idx (nc_number code) False) item1)"

text \<open>The orders of the RDAs that quote a PA number in their object.\<close>

definition successorOrders :: "funnelOrderIndex \<Rightarrow> funnelReferenceIndex \<Rightarrow> string \<Rightarrow> funnelOrder list" where
  "successorOrders idx refs number =
     concat (map (\<lambda>rda. case rdaCodeShape (ToUpper (rda_code rda)) of
                None \<Rightarrow> [] | Some n \<Rightarrow> byCodeNumber idx n False) (ix_get (ri_byLegacy refs) number))"

definition refLegacy :: "funnelOrderIndex \<Rightarrow> funnelReferenceIndex \<Rightarrow> (orderLineKey \<Rightarrow> float64) \<Rightarrow> noteCode \<Rightarrow> sdiRef \<Rightarrow> sdiRef" where
  "refLegacy idx refs own' code item =
     (let openPA = filter (\<lambda>ord. isOpen (oi_links idx) ord own') (byCodeNumber idx (nc_number code) True)
      in if openPA \<noteq> [] then appendOrders openPA item
         else let item1 = appendOrders (successorOrders idx refs (nc_number code)) item
              in if sr_Orders item1 = [] then appendOrders (byCodeNumber idx (nc_number code) True) item1
                 else item1)"

definition resolveSDIRef :: "funnelOrderIndex \<Rightarrow> funnelReferenceIndex \<Rightarrow> (orderLineKey \<Rightarrow> float64) \<Rightarrow> sdiOrderRef \<Rightarrow> sdiRef" where
  "resolveSDIRef idx refs own' ref =
     (let note = parseAFCNote (so_ID ref);
          item0 = \<lparr>sr_Declared = so_ID ref, sr_Code = '''', sr_Lines = so_Lines ref, sr_Orders = [],
                   sr_RDAID = None, sr_RDACode = '''', sr_orderKeys = []\<rparr>;
          item1 = fold (refArak idx refs) (pn_arakCodes note) item0;
          item2 = fold (refLegacy idx refs own') (pn_legacyCodes note) item1
      in item2\<lparr>sr_Code := Join (map arakCode (pn_arakCodes note) @ map legacyCode (pn_legacyCodes note)) '' '',
               sr_Orders := sort (uniq_from {} (sr_Orders item2))\<rparr>)"

definition minPeriod :: "sdiLine list \<Rightarrow> string" where
  "minPeriod ls = fold (\<lambda>l p. if sl_PeriodStart l \<noteq> '''' \<and> (p = '''' \<or> sl_PeriodStart l < p)
     then sl_PeriodStart l else p) ls ''''"

definition maxPeriod :: "sdiLine list \<Rightarrow> string" where
  "maxPeriod ls = fold (\<lambda>l p. if sl_PeriodEnd l \<noteq> '''' \<and> sl_PeriodEnd l > p then sl_PeriodEnd l else p) ls ''''"

definition sdiVerdict :: "string list \<Rightarrow> string set \<Rightarrow> string" where
  "sdiVerdict linked proposed =
     (if linked = [] then ''no_truth''
      else if card proposed = 0 then ''none''
      else let hits = length (filter (\<lambda>t. t \<in> proposed) linked)
           in if hits = length linked \<and> card proposed = length linked then ''match''
              else if hits > 0 then ''partial'' else ''wrong'')"

text \<open>\<open>proposed\<close> is the set of the keys appended to the references.\<close>

definition applySDI :: "funnelInvoice \<Rightarrow> sdiDocument list \<Rightarrow> funnelOrderIndex \<Rightarrow> funnelReferenceIndex \<Rightarrow> sdiResult" where
  "applySDI invoice docs orders refs =
     (let (found, kind) = linkLoop invoice None '''' docs;
          result = \<lparr>sx_Linked = False, sx_LinkKind = kind, sx_SourceID = None, sx_OrderRefs = [], sx_Contracts = [],
                    sx_PeriodStart = '''', sx_PeriodEnd = '''', sx_Articles = [], sx_Verdict = ''no_truth''\<rparr>
      in case found of None \<Rightarrow> result
         | Some doc \<Rightarrow>
             let own' = own (oi_links orders) (inv_key invoice);
                 items = map (resolveSDIRef orders refs own') (sd_orderRefs doc);
                 proposed = (\<Union>item \<in> set items. set (sr_orderKeys item))
             in result\<lparr>sx_Linked := True, sx_SourceID := Some (sd_sourceID doc), sx_OrderRefs := items,
                  sx_Contracts := sd_contracts doc,
                  sx_PeriodStart := minPeriod (sd_lines doc), sx_PeriodEnd := maxPeriod (sd_lines doc),
                  sx_Articles := sortedKeys (\<Union>l \<in> set (sd_lines doc). set (sl_Articles l)),
                  sx_Verdict := sdiVerdict (ordersOf (oi_links orders) (inv_key invoice)) proposed\<rparr>)"

record sdiSummary =
  ss_InvoicesLinked :: nat
  ss_InvoicesNotLinked :: nat
  ss_LinkedByNumberOnly :: nat
  ss_LinkedBySuffix :: nat
  ss_WithOrderRef :: nat
  ss_WithUsableCode :: nat
  ss_WithContractRef :: nat
  ss_WithPeriod :: nat
  ss_WithArticleCodes :: nat
  ss_ResolvedToOrder :: nat
  ss_ResolvedToRDA :: nat
  ss_UnresolvedCode :: nat
  ss_LinkedInvoices :: nat
  ss_Match :: nat
  ss_Partial :: nat
  ss_Wrong :: nat
  ss_None :: nat
  ss_AmbiguousResolvedNow :: nat

definition incIf :: "bool \<Rightarrow> nat \<Rightarrow> nat" where "incIf b n = (if b then Suc n else n)"

definition addSDIResult :: "sdiSummary \<Rightarrow> sdiResult \<Rightarrow> orderRuleResult \<Rightarrow> sdiSummary" where
  "addSDIResult s result orderRules =
     (if \<not> sx_Linked result then s\<lparr>ss_InvoicesNotLinked := Suc (ss_InvoicesNotLinked s)\<rparr>
      else
        let coded = filter (\<lambda>r. sr_Code r \<noteq> '''') (sx_OrderRefs result);
            v = sx_Verdict result
        in s\<lparr>ss_InvoicesLinked := Suc (ss_InvoicesLinked s),
             ss_LinkedByNumberOnly := incIf (sx_LinkKind result = ''number_date'') (ss_LinkedByNumberOnly s),
             ss_LinkedBySuffix := incIf (sx_LinkKind result = ''vat_suffix_date'') (ss_LinkedBySuffix s),
             ss_WithOrderRef := incIf (sx_OrderRefs result \<noteq> []) (ss_WithOrderRef s),
             ss_WithContractRef := incIf (sx_Contracts result \<noteq> []) (ss_WithContractRef s),
             ss_WithPeriod := incIf (sx_PeriodStart result \<noteq> '''') (ss_WithPeriod s),
             ss_WithArticleCodes := incIf (sx_Articles result \<noteq> []) (ss_WithArticleCodes s),
             ss_WithUsableCode := incIf (coded \<noteq> []) (ss_WithUsableCode s),
             ss_ResolvedToOrder := incIf (list_ex (\<lambda>r. sr_Orders r \<noteq> []) coded) (ss_ResolvedToOrder s),
             ss_ResolvedToRDA := incIf (list_ex (\<lambda>r. sr_RDAID r \<noteq> None) coded) (ss_ResolvedToRDA s),
             ss_UnresolvedCode := incIf (list_ex (\<lambda>r. sr_Orders r = []) coded) (ss_UnresolvedCode s),
             ss_LinkedInvoices := incIf (v \<in> {''match'', ''partial'', ''wrong'', ''none''}) (ss_LinkedInvoices s),
             ss_Match := incIf (v = ''match'') (ss_Match s),
             ss_AmbiguousResolvedNow := incIf (v = ''match'' \<and> or_Verdict orderRules = ''ambiguous'') (ss_AmbiguousResolvedNow s),
             ss_Partial := incIf (v = ''partial'') (ss_Partial s),
             ss_Wrong := incIf (v = ''wrong'') (ss_Wrong s),
             ss_None := incIf (v = ''none'') (ss_None s)\<rparr>)"

subsection \<open>Which documents are tried\<close>

lemma push_suffixes:
  fixes key :: string
  assumes "distinct ls" "\<forall>l \<in> set ls. l < length key"
  shows "ix_get (fold (\<lambda>l m. if drop (length key - l) key \<in> req then ix_push (drop (length key - l) key) d m else m) ls m) n =
    ix_get m n @ (if n \<in> req \<and> length n \<in> set ls \<and> drop (length key - length n) key = n then [d] else [])"
  using assms
proof (induction ls arbitrary: m)
  case (Cons l ls)
  have "length (drop (length key - l) key) = l" using Cons.prems by simp
  then show ?case using Cons by (auto simp: idx_simps)
qed simp

lemma strict_suffix_drop:
  "length n < length key \<Longrightarrow> drop (length key - length n) key = n \<longleftrightarrow> strict_suffix n key"
  by (auto simp: strict_suffix_def suffix_def suffix_drop) (metis append_take_drop_id)

lemma indexSDIDocument_get:
  "ix_get (indexSDIDocument req d out) n = ix_get out n @
     (if n \<in> req \<and> (normalizeDocNumber (sd_number d) = n \<or>
          10 \<le> length n \<and> strict_suffix n (normalizeDocNumber (sd_number d))) then [d] else [])"
proof -
  let ?key = "normalizeDocNumber (sd_number d)"
  have "ix_get (indexSDIDocument req d out) n =
    ix_get (if ?key \<in> req then ix_push ?key d out else out) n @
    (if n \<in> req \<and> length n \<in> set (rev [sdiSuffixMinLength..<length ?key]) \<and>
        drop (length ?key - length n) ?key = n then [d] else [])"
    unfolding indexSDIDocument_def Let_def by (rule push_suffixes) auto
  moreover have "length n \<in> set (rev [sdiSuffixMinLength..<length ?key]) \<and> drop (length ?key - length n) ?key = n \<longleftrightarrow>
    10 \<le> length n \<and> strict_suffix n ?key"
    using strict_suffix_drop[of n ?key] suffix_length_less[of n ?key]
    by (auto simp: sdiSuffixMinLength_def)
  moreover have "\<not> strict_suffix n n" by simp
  ultimately show ?thesis by (auto simp: idx_simps)
qed

text \<open>The documents tried for a requested number are exactly those whose normalised number is that
  number, or ends with it when it has at least ten characters (Alyante's truncation), in the
  order they were read and each once.\<close>

theorem sdi_documents_tried:
  "ix_get (sdiDocsByNumber req docs) n =
     filter (\<lambda>d. n \<in> req \<and> (normalizeDocNumber (sd_number d) = n \<or>
               10 \<le> length n \<and> strict_suffix n (normalizeDocNumber (sd_number d)))) docs"
proof -
  have "ix_get (fold (indexSDIDocument req) docs m) n = ix_get m n @
     filter (\<lambda>d. n \<in> req \<and> (normalizeDocNumber (sd_number d) = n \<or>
               10 \<le> length n \<and> strict_suffix n (normalizeDocNumber (sd_number d)))) docs" for m
    by (induction docs arbitrary: m) (auto simp: indexSDIDocument_get)
  then show ?thesis by (simp add: sdiDocsByNumber_def idx_simps)
qed

subsection \<open>Which document is linked\<close>

lemma linkLoop_number:
  "linkLoop iv (Some d0) ''number_date'' ds =
     (case find (\<lambda>d. sameDate iv d \<and> sameSupplier iv d \<and> sameNumber iv d) ds of
        Some d \<Rightarrow> (Some d, ''vat_number_date'') | None \<Rightarrow> (Some d0, ''number_date''))"
  by (induction ds) auto

lemma linkLoop_suffix:
  "linkLoop iv (Some d0) ''vat_suffix_date'' ds =
     (case find (\<lambda>d. sameDate iv d \<and> sameSupplier iv d \<and> sameNumber iv d) ds of
        Some d \<Rightarrow> (Some d, ''vat_number_date'')
      | None \<Rightarrow> (case find (\<lambda>d. sameDate iv d \<and> sameNumber iv d) ds of
          Some d \<Rightarrow> (Some d, ''number_date'') | None \<Rightarrow> (Some d0, ''vat_suffix_date'')))"
  by (induction ds) (auto simp: linkLoop_number split: option.split)

text \<open>The linked document is the first one with the invoice's date, supplier and number; failing
  that, the first with its date and number; failing that, the first with its date and supplier.\<close>

theorem linked_document:
  "linkLoop iv None '''' ds =
     (case find (\<lambda>d. sameDate iv d \<and> sameSupplier iv d \<and> sameNumber iv d) ds of
        Some d \<Rightarrow> (Some d, ''vat_number_date'')
      | None \<Rightarrow> (case find (\<lambda>d. sameDate iv d \<and> sameNumber iv d) ds of
          Some d \<Rightarrow> (Some d, ''number_date'')
        | None \<Rightarrow> (case find (\<lambda>d. sameDate iv d \<and> sameSupplier iv d) ds of
            Some d \<Rightarrow> (Some d, ''vat_suffix_date'') | None \<Rightarrow> (None, ''''))))"
  by (induction ds) (auto simp: linkLoop_number linkLoop_suffix split: option.split)

subsection \<open>The verdict\<close>

lemma sdiVerdict_spec:
  assumes "distinct linked" "finite proposed"
  shows "sdiVerdict linked proposed =
    (if linked = [] then ''no_truth'' else if proposed = {} then ''none''
     else if proposed = set linked then ''match''
     else if proposed \<inter> set linked \<noteq> {} then ''partial'' else ''wrong'')"
proof -
  let ?h = "filter (\<lambda>t. t \<in> proposed) linked"
  have h: "length ?h = length linked \<longleftrightarrow> set linked \<subseteq> proposed"
    using filter_id_conv[of "\<lambda>t. t \<in> proposed" linked] length_filter_less[of _ linked "\<lambda>t. t \<in> proposed"]
    by (auto simp: subset_iff) (metis less_irrefl)
  have "card (set linked) = length linked" using assms(1) by (rule distinct_card)
  then have "length ?h = length linked \<and> card proposed = length linked \<longleftrightarrow> proposed = set linked"
    unfolding h using card_subset_eq[OF assms(2), of "set linked"] by auto
  moreover have "0 < length ?h \<longleftrightarrow> proposed \<inter> set linked \<noteq> {}"
    by (auto simp: filter_empty_conv)
  ultimately show ?thesis using assms(2) by (simp add: sdiVerdict_def Let_def)
qed

text \<open>The orders the references of the linked document resolve to.\<close>

definition sdiProposed :: "sdiResult \<Rightarrow> string set" where
  "sdiProposed r = (\<Union>item \<in> set (sx_OrderRefs r). set (sr_orderKeys item))"

text \<open>The verdict on a linked electronic invoice compares sets: match when the orders its references
  resolve to are the orders AFC linked, partial when they overlap, wrong when they do not, none
  when nothing resolved, no truth when AFC linked nothing or no document was found.\<close>

theorem applySDI_verdict:
  fixes iv docs idx refs
  defines "r \<equiv> applySDI iv docs idx refs"
  defines "T \<equiv> set (ordersOf (oi_links idx) (inv_key iv))"
  shows "sx_Verdict r =
    (if \<not> sx_Linked r then ''no_truth'' else if T = {} then ''no_truth''
     else if sdiProposed r = {} then ''none'' else if sdiProposed r = T then ''match''
     else if sdiProposed r \<inter> T \<noteq> {} then ''partial'' else ''wrong'')"
proof (cases "fst (linkLoop iv None '''' docs)")
  case None
  then show ?thesis by (auto simp: r_def applySDI_def Let_def split: prod.split)
next
  case (Some d)
  then obtain k where k: "linkLoop iv None '''' docs = (Some d, k)" by (cases "linkLoop iv None '''' docs") simp
  let ?P = "\<Union>item \<in> set (map (resolveSDIRef idx refs (own (oi_links idx) (inv_key iv))) (sd_orderRefs d)). set (sr_orderKeys item)"
  have "sdiProposed r = ?P" "sx_Linked r"
    "sx_Verdict r = sdiVerdict (ordersOf (oi_links idx) (inv_key iv)) ?P"
    using k by (simp_all add: r_def applySDI_def Let_def sdiProposed_def)
  moreover have "finite ?P" by simp
  ultimately show ?thesis
    by (simp only: sdiVerdict_spec[OF sorted_ordersOf(3)] T_def set_empty) simp
qed

subsection \<open>Legacy codes\<close>

text \<open>A legacy code names its own orders while one has residual, otherwise the orders of the requests
  that replaced it; its closed orders are used only when no reference before it in the same chain
  resolved, so in a chain of codes a closed legacy order can be dropped silently.\<close>

theorem refLegacy_orders:
  fixes idx refs ow code item
  defines "PA \<equiv> byCodeNumber idx (nc_number code) True"
  defines "op \<equiv> filter (\<lambda>o'. isOpen (oi_links idx) o' ow) PA"
  defines "succs \<equiv> successorOrders idx refs (nc_number code)"
  shows "sr_orderKeys (refLegacy idx refs ow code item) = sr_orderKeys item @
    map ord_key (if op \<noteq> [] then op else if succs \<noteq> [] then succs
                 else if sr_Orders item \<noteq> [] then [] else PA)"
  by (auto simp: refLegacy_def Let_def appendOrders_def PA_def op_def succs_def)

end
