(* ===== verification/FunnelFixedFee.thy ===== *)
theory FunnelFixedFee
  imports FunnelSdi
begin

text \<open>
  Fixed monthly fees (\<open>smartpassive/funnel_fixedfee.go\<close>): the series of invoices of one supplier
  with the same taxable amount, one a month for at least three months, and the anchor whose
  confirmed orders a new invoice of the series takes.

  The groups by amount are visited in map order; the facts below do not depend on it. Dates are
  never nil in a series (the members without a date are dropped when it is built).
\<close>

definition fixedFeeMinMonths :: nat where "fixedFeeMinMonths = 3"

record fixedFeeResult =
  ff_InSeries :: bool
  ff_SeriesSize :: nat
  ff_Proposals :: "string list"
  ff_OrderKeys :: "string list"
  ff_Reason :: string

definition seriesAmount :: "funnelInvoice \<Rightarrow> int option" where
  "seriesAmount iv =
     (case (inv_taxableAmount iv, inv_documentDate iv) of
        (Some a, Some _) \<Rightarrow> if a \<le> 0 then None else Some (Round (fmul a 100))
      | _ \<Rightarrow> None)"

definition amountGroups :: "funnelInvoice list \<Rightarrow> (int, funnelInvoice) index" where
  "amountGroups invoices =
     fold (\<lambda>iv m. case seriesAmount iv of None \<Rightarrow> m | Some c \<Rightarrow> ix_push c iv m) invoices []"

definition invoiceDay :: "funnelInvoice \<Rightarrow> gotime" where
  "invoiceDay iv = (case inv_documentDate iv of None \<Rightarrow> 0 | Some d \<Rightarrow> d)"

definition isMonthlySeries :: "funnelInvoice list \<Rightarrow> bool" where
  "isMonthlySeries grp =
     (let months = map (\<lambda>iv. FormatMonth (invoiceDay iv)) grp
      in \<not> card (set months) < fixedFeeMinMonths \<and>
         \<not> list_ex (\<lambda>m. count_list months m > 1) months)"

definition addSeries :: "int \<times> funnelInvoice list \<Rightarrow> (string \<rightharpoonup> funnelInvoice list) \<Rightarrow> (string \<rightharpoonup> funnelInvoice list)" where
  "addSeries e out =
     (if \<not> isMonthlySeries (snd e) then out
      else let sorted_grp = sort_key invoiceDay (snd e)
           in fold (\<lambda>iv out. out(inv_key iv \<mapsto> sorted_grp)) sorted_grp out)"

definition buildFixedFeeSeries :: "funnelInvoice list \<Rightarrow> (string \<rightharpoonup> funnelInvoice list)" where
  "buildFixedFeeSeries invoices = fold addSeries (amountGroups invoices) Map.empty"

fun anchorLoop :: "funnelOrderLinks \<Rightarrow> funnelInvoice \<Rightarrow> funnelInvoice option \<Rightarrow> funnelInvoice option \<Rightarrow> funnelInvoice list \<Rightarrow>
    funnelInvoice option \<times> funnelInvoice option" where
  "anchorLoop links iv before after [] = (before, after)"
| "anchorLoop links iv before after (member # ms) =
     (if inv_key member = inv_key iv \<or> length (ordersOf links (inv_key member)) = 0
      then anchorLoop links iv before after ms
      else if \<not> invoiceDay member > invoiceDay iv then anchorLoop links iv (Some member) after ms
      else if after = None then anchorLoop links iv before (Some member) ms
      else anchorLoop links iv before after ms)"

definition applyFixedFee :: "funnelInvoice \<Rightarrow> (string \<rightharpoonup> funnelInvoice list) \<Rightarrow> funnelOrderIndex \<Rightarrow> fixedFeeResult" where
  "applyFixedFee invoice series idx =
     (case series (inv_key invoice) of
        None \<Rightarrow> \<lparr>ff_InSeries = False, ff_SeriesSize = 0, ff_Proposals = [], ff_OrderKeys = [], ff_Reason = ''no_series''\<rparr>
      | Some grp \<Rightarrow>
          let result = \<lparr>ff_InSeries = True, ff_SeriesSize = length grp, ff_Proposals = [], ff_OrderKeys = [], ff_Reason = ''''\<rparr>;
              (before, after) = anchorLoop (oi_links idx) invoice None None grp
          in case (if before \<noteq> None then before else after) of
               None \<Rightarrow> result\<lparr>ff_Reason := ''no_anchor''\<rparr>
             | Some anchor \<Rightarrow>
                 let keys = ordersOf (oi_links idx) (inv_key anchor)
                 in result\<lparr>ff_Proposals := sort (map (afcLabel idx) keys),
                           ff_OrderKeys := filter (\<lambda>k. oi_byKey idx k \<noteq> None) keys\<rparr>)"

subsection \<open>Series\<close>

lemma amountGroups_get [idx_simps]:
  "ix_get (amountGroups ivs) c = filter (\<lambda>iv. seriesAmount iv = Some c) ivs"
  by (simp add: amountGroups_def idx_simps)

lemma amountGroups_distinct: "distinct (map fst (amountGroups ivs))"
  unfolding amountGroups_def
  by (rule fold_inv) (auto intro: ix_push_distinct split: option.split)

lemma amountGroups_entry: "(c, g) \<in> set (amountGroups ivs) \<Longrightarrow> g = filter (\<lambda>iv. seriesAmount iv = Some c) ivs"
  using amountGroups_get[of ivs c] map_of_is_SomeI[OF amountGroups_distinct, of c g ivs]
  by (simp add: ix_get_def)

lemma distinct_count_list: "distinct xs \<longleftrightarrow> \<not> list_ex (\<lambda>x. count_list xs x > 1) xs"
proof -
  have "0 < count_list xs x" if "x \<in> set xs" for x
    using that by (metis count_list_0_iff gr0I)
  then have "\<not> 1 < count_list xs x \<longleftrightarrow> count_list xs x = 1" if "x \<in> set xs" for x
    using that by force
  moreover have "distinct xs \<longleftrightarrow> (\<forall>x \<in> set xs. count_list xs x = 1)"
    unfolding distinct_count_atmost_1 count_mset by (auto simp: count_list_0_iff)
  ultimately show ?thesis by (auto simp: list_ex_iff)
qed

lemma isMonthlySeries_distinct:
  "isMonthlySeries g \<longleftrightarrow> distinct (map (\<lambda>iv. FormatMonth (invoiceDay iv)) g) \<and> 3 \<le> length g"
  unfolding isMonthlySeries_def Let_def distinct_count_list [symmetric] fixedFeeMinMonths_def
  using distinct_card[of "map (\<lambda>iv. FormatMonth (invoiceDay iv)) g"] by auto

lemma fold_upd_const:
  "fold (\<lambda>iv out. out(inv_key iv \<mapsto> s)) g m k = (if k \<in> inv_key ` set g then Some s else m k)"
  by (induction g arbitrary: m) auto

lemma addSeries_get:
  "addSeries e out k = (if isMonthlySeries (snd e) \<and> k \<in> inv_key ` set (snd e)
     then Some (sort_key invoiceDay (snd e)) else out k)"
  by (simp add: addSeries_def Let_def fold_upd_const)

lemma fold_addSeries:
  "fold addSeries gs m k = Some s \<Longrightarrow>
   m k = Some s \<or> (\<exists>e \<in> set gs. isMonthlySeries (snd e) \<and> s = sort_key invoiceDay (snd e) \<and> k \<in> inv_key ` set (snd e))"
proof (induction gs arbitrary: m)
  case (Cons e gs)
  then have "addSeries e m k = Some s \<or>
    (\<exists>e \<in> set gs. isMonthlySeries (snd e) \<and> s = sort_key invoiceDay (snd e) \<and> k \<in> inv_key ` set (snd e))"
    by simp
  then show ?case by (auto simp: addSeries_get split: if_splits)
qed simp

lemma series_facts:
  assumes "buildFixedFeeSeries ivs k = Some g"
  shows "(\<exists>c. mset g = mset (filter (\<lambda>iv. seriesAmount iv = Some c) ivs)) \<and>
    sorted (map invoiceDay g) \<and> distinct (map (\<lambda>iv. FormatMonth (invoiceDay iv)) g) \<and>
    3 \<le> length g \<and> k \<in> inv_key ` set g"
proof -
  obtain c h where h: "(c, h) \<in> set (amountGroups ivs)" "isMonthlySeries h" "g = sort_key invoiceDay h"
      "k \<in> inv_key ` set h"
    using fold_addSeries[OF assms[unfolded buildFixedFeeSeries_def]] by force
  have "distinct (map (\<lambda>iv. FormatMonth (invoiceDay iv)) g)"
    using h(2,3) by (metis isMonthlySeries_distinct distinct_map distinct_sort inj_on_def set_sort)
  then show ?thesis
    using h amountGroups_entry[OF h(1)] by (auto simp: isMonthlySeries_distinct)
qed

subsection \<open>The anchor\<close>

definition linkedOthers :: "funnelOrderLinks \<Rightarrow> funnelInvoice \<Rightarrow> funnelInvoice list \<Rightarrow> funnelInvoice list" where
  "linkedOthers links iv grp =
     filter (\<lambda>m. inv_key m \<noteq> inv_key iv \<and> ordersOf links (inv_key m) \<noteq> []) grp"

lemma anchorLoop_spec:
  "anchorLoop links iv b a g =
    (let os = linkedOthers links iv g;
         earlier = filter (\<lambda>m. invoiceDay m \<le> invoiceDay iv) os;
         later = filter (\<lambda>m. invoiceDay iv < invoiceDay m) os
     in (if earlier = [] then b else Some (last earlier),
         if a \<noteq> None \<or> later = [] then a else Some (hd later)))"
  by (induction links iv b a g rule: anchorLoop.induct)
    (auto simp: linkedOthers_def Let_def not_less)

text \<open>The anchor of an invoice in a series.\<close>

definition anchor :: "funnelOrderLinks \<Rightarrow> funnelInvoice \<Rightarrow> funnelInvoice list \<Rightarrow> funnelInvoice option" where
  "anchor links iv g =
     (let os = linkedOthers links iv g;
          earlier = filter (\<lambda>m. invoiceDay m \<le> invoiceDay iv) os
      in if earlier \<noteq> [] then Some (last earlier) else if os \<noteq> [] then Some (hd os) else None)"

lemma applyFixedFee_anchor:
  "applyFixedFee iv series idx =
    (case series (inv_key iv) of
       None \<Rightarrow> \<lparr>ff_InSeries = False, ff_SeriesSize = 0, ff_Proposals = [], ff_OrderKeys = [], ff_Reason = ''no_series''\<rparr>
     | Some g \<Rightarrow> (case anchor (oi_links idx) iv g of
         None \<Rightarrow> \<lparr>ff_InSeries = True, ff_SeriesSize = length g, ff_Proposals = [], ff_OrderKeys = [], ff_Reason = ''no_anchor''\<rparr>
       | Some m \<Rightarrow> \<lparr>ff_InSeries = True, ff_SeriesSize = length g,
           ff_Proposals = sort (map (afcLabel idx) (ordersOf (oi_links idx) (inv_key m))),
           ff_OrderKeys = filter (\<lambda>k. oi_byKey idx k \<noteq> None) (ordersOf (oi_links idx) (inv_key m)), ff_Reason = ''''\<rparr>))"
proof -
  have later: "filter (\<lambda>m. invoiceDay iv < invoiceDay m) os = os" if "filter (\<lambda>m. invoiceDay m \<le> invoiceDay iv) os = []" for os
    using that by (auto simp: filter_empty_conv intro!: filter_True)
  show ?thesis
  proof (cases "series (inv_key iv)")
    case (Some g)
    let ?os = "linkedOthers (oi_links idx) iv g"
    show ?thesis
      by (cases "filter (\<lambda>m. invoiceDay m \<le> invoiceDay iv) ?os = []")
        (use later[of ?os] in \<open>auto simp: applyFixedFee_def Some anchorLoop_spec anchor_def Let_def\<close>)
  qed (simp add: applyFixedFee_def)
qed

lemma sorted_last: "sorted (map f xs) \<Longrightarrow> x \<in> set xs \<Longrightarrow> f x \<le> f (last xs)"
  by (induction xs) auto

lemma anchor_nearest:
  assumes "sorted (map invoiceDay g)" "anchor links iv g = Some m"
  shows "m \<in> set g \<and> inv_key m \<noteq> inv_key iv \<and> ordersOf links (inv_key m) \<noteq> [] \<and>
    (\<forall>x \<in> set (linkedOthers links iv g).
       if invoiceDay m \<le> invoiceDay iv then invoiceDay x \<le> invoiceDay m \<or> invoiceDay iv < invoiceDay x
       else invoiceDay m \<le> invoiceDay x)"
proof -
  let ?os = "linkedOthers links iv g"
  let ?e = "filter (\<lambda>m. invoiceDay m \<le> invoiceDay iv) ?os"
  have sub: "set ?os \<subseteq> {m \<in> set g. inv_key m \<noteq> inv_key iv \<and> ordersOf links (inv_key m) \<noteq> []}"
    by (auto simp: linkedOthers_def)
  have so: "sorted (map invoiceDay ?os)"
    unfolding linkedOthers_def by (rule sorted_filter[OF assms(1)])
  have se: "sorted (map invoiceDay ?e)" by (rule sorted_filter[OF so])
  have mo: "m \<in> set ?os"
    using assms(2) last_in_set[of ?e] by (auto simp: anchor_def Let_def split: if_splits)
  show ?thesis
  proof (cases "?e = []")
    case True
    then have m: "m = hd ?os" "?os \<noteq> []" using assms(2) by (auto simp: anchor_def Let_def split: if_splits)
    then have "invoiceDay m \<le> invoiceDay x" if "x \<in> set ?os" for x
      using so that by (cases ?os) auto
    moreover have "\<not> invoiceDay m \<le> invoiceDay iv" using True mo by (auto simp: filter_empty_conv)
    ultimately show ?thesis using mo sub by auto
  next
    case False
    then have m: "m = last ?e" using assms(2) by (auto simp: anchor_def Let_def)
    then have "invoiceDay x \<le> invoiceDay m" if "x \<in> set ?e" for x
      using sorted_last[OF se that] m by simp
    moreover have "invoiceDay m \<le> invoiceDay iv" using m last_in_set[OF False] by auto
    ultimately show ?thesis using mo sub by (auto simp: not_le)
  qed
qed

text \<open>A fixed-fee series is a set of dated invoices of the supplier with the same positive amount to
  the cent, at least three, in pairwise different months, sorted by date; and the invoice it is
  recorded for is one of its members.\<close>

theorem series_sound:
  assumes "buildFixedFeeSeries ivs k = Some g"
  shows "(\<exists>c. mset g = mset (filter (\<lambda>iv. seriesAmount iv = Some c) ivs)) \<and>
    sorted (map invoiceDay g) \<and> distinct (map (\<lambda>iv. FormatMonth (invoiceDay iv)) g) \<and>
    3 \<le> length g \<and> k \<in> inv_key ` set g"
  using assms by (rule series_facts)

text \<open>When the fixed-fee level proposes orders, they are those AFC linked to the nearest member of the
  series before the invoice: no linked member lies strictly between the two, and a later member
  is used, the first one, only when no earlier one is linked.\<close>

theorem fixed_fee_nearest:
  assumes "buildFixedFeeSeries ivs (inv_key iv) = Some g"
    and "ff_Proposals (applyFixedFee iv (buildFixedFeeSeries ivs) idx) \<noteq> []"
  shows "\<exists>m \<in> set g. inv_key m \<noteq> inv_key iv \<and>
    ff_Proposals (applyFixedFee iv (buildFixedFeeSeries ivs) idx) =
      sort (map (afcLabel idx) (ordersOf (oi_links idx) (inv_key m))) \<and>
    (\<forall>x \<in> set (linkedOthers (oi_links idx) iv g).
       if invoiceDay m \<le> invoiceDay iv then invoiceDay x \<le> invoiceDay m \<or> invoiceDay iv < invoiceDay x
       else invoiceDay m \<le> invoiceDay x)"
proof -
  obtain m where m: "anchor (oi_links idx) iv g = Some m"
    using assms by (cases "anchor (oi_links idx) iv g") (auto simp: applyFixedFee_anchor)
  have "sorted (map invoiceDay g)" using series_facts[OF assms(1)] by blast
  note near = anchor_nearest[OF this m]
  moreover have "ff_Proposals (applyFixedFee iv (buildFixedFeeSeries ivs) idx) =
      sort (map (afcLabel idx) (ordersOf (oi_links idx) (inv_key m)))"
    using assms(1) m by (simp add: applyFixedFee_anchor)
  ultimately show ?thesis by (intro bexI[of _ m] conjI) blast+
qed

definition monthly_invoice :: "string \<Rightarrow> int \<Rightarrow> funnelInvoice" where
  "monthly_invoice k d = world_invoice\<lparr>inv_key := k, inv_documentDate := Some (d * ns_per_day)\<rparr>"

definition world_series :: "funnelInvoice list" where
  "world_series = [monthly_invoice ''1:202'' 70, monthly_invoice ''1:199'' 5, world_invoice]"

lemma world_series_built:
  "map_option (map inv_key) (buildFixedFeeSeries world_series ''1:202'') = Some [''1:199'', ''1:200'', ''1:202'']"
  by code_simp

theorem series_sound_witness:
  "\<exists>g. buildFixedFeeSeries world_series ''1:202'' = Some g \<and> sorted (map invoiceDay g) \<and> 3 \<le> length g"
  using world_series_built series_sound[of world_series "''1:202''"] by auto

theorem fixed_fee_nearest_witness:
  "\<exists>m :: funnelInvoice. inv_key m \<noteq> ''1:202'' \<and>
    ff_Proposals (applyFixedFee (monthly_invoice ''1:202'' 70) (buildFixedFeeSeries world_series) world_index) =
      sort (map (afcLabel world_index) (ordersOf (oi_links world_index) (inv_key m)))"
proof -
  have k: "inv_key (monthly_invoice ''1:202'' 70) = ''1:202''" by (simp add: monthly_invoice_def)
  have p: "ff_Proposals (applyFixedFee (monthly_invoice ''1:202'' 70) (buildFixedFeeSeries world_series) world_index) \<noteq> []"
    by code_simp
  obtain g where "buildFixedFeeSeries world_series (inv_key (monthly_invoice ''1:202'' 70)) = Some g"
    using world_series_built unfolding k by auto
  from fixed_fee_nearest[OF this p] obtain m :: funnelInvoice where "inv_key m \<noteq> ''1:202''"
    "ff_Proposals (applyFixedFee (monthly_invoice ''1:202'' 70) (buildFixedFeeSeries world_series) world_index) =
      sort (map (afcLabel world_index) (ordersOf (oi_links world_index) (inv_key m)))"
    unfolding k by (elim bexE conjE) (rule that, assumption+)
  then show ?thesis by (intro exI[of _ m] conjI)
qed

end
