(* ===== verification/FunnelCascade.thy ===== *)
theory FunnelCascade
  imports FunnelFixedFee "HOL-Library.Product_Lexorder"
begin

text \<open>
  The cascade (\<open>smartpassive/funnel_cascade.go\<close>, with \<open>orderCoverage\<close> of
  \<open>funnel_suggestion.go\<close>): every invoice goes through four levels and stops at the first that
  closes it; what is left is classified by what exists upstream for its supplier, and the
  summary counts how the invoices flow through the levels.
\<close>

subsection \<open>Coverage\<close>

definition sdiReferenceMaxLen :: nat where "sdiReferenceMaxLen = 20"

definition orderCoverage :: "funnelInvoice \<Rightarrow> string list \<Rightarrow> funnelOrderIndex \<Rightarrow> string list \<times> bool" where
  "orderCoverage invoice keys idx =
     (let own' = own (oi_links idx) (inv_key invoice);
          os = List.map_filter (oi_byKey idx) keys;
          res = sum_list (map (\<lambda>ord. residualAmount (oi_links idx) ord own') os);
          labels = sort (map orderLabel os)
      in if labels = [] then (labels, False)
         else case inv_taxableAmount invoice of
                Some a \<Rightarrow> if res < cents a then (labels, False) else (labels, True)
              | None \<Rightarrow> (labels, True))"

subsection \<open>Residual families\<close>

definition orderMonths :: "funnelDocLine list \<Rightarrow> float64" where
  "orderMonths ls = fold (\<lambda>l months. if isAmountLine l then
       (case dl_qty l of Some q \<Rightarrow> if q > months then q else months | None \<Rightarrow> months) else months) ls 0"

definition serviceOrderCovers :: "funnelOrder \<Rightarrow> gotime \<Rightarrow> bool" where
  "serviceOrderCovers ord day =
     (case ord_date ord of None \<Rightarrow> False
      | Some start \<Rightarrow>
          if start > day then False
          else let months = orderMonths (ord_lines ord)
               in if months < 12 then False
                  else \<not> day > AddDate start 0 (int_of_float months) 0)"

definition lineCovers :: "gotime \<Rightarrow> gotime \<Rightarrow> funnelRDALine \<Rightarrow> bool" where
  "lineCovers start day l =
     (classifyFunnelLine l = Recurring \<and>
      (rl_automaticRenew l = Some True \<or>
       (case rl_initialMonths l of None \<Rightarrow> False | Some n \<Rightarrow> \<not> day > AddDate start 0 n 0)))"

definition recurringRDACovers :: "funnelRDA \<Rightarrow> gotime \<Rightarrow> bool" where
  "recurringRDACovers rda day =
     (case startDate rda of None \<Rightarrow> False
      | Some start \<Rightarrow> if start > day then False else list_ex (lineCovers start day) (map snd (rda_lines rda)))"

text \<open>The loop over the orders of the supplier: \<open>None\<close> is the early return
  \<open>familyRecurringInCourse\<close>, otherwise whether goods and service orders were seen.\<close>

definition orderInCourse :: "funnelInvoice \<Rightarrow> (string \<rightharpoonup> int) \<Rightarrow> (int \<rightharpoonup> funnelRDA) \<Rightarrow> funnelOrder \<Rightarrow> bool" where
  "orderInCourse invoice rdaByOrder rdaByID ord =
     (case inv_documentDate invoice of None \<Rightarrow> False
      | Some day \<Rightarrow>
          (case rdaByOrder (ord_key ord) of
             Some i \<Rightarrow> (case rdaByID i of None \<Rightarrow> False | Some rda \<Rightarrow> recurringRDACovers rda day)
           | None \<Rightarrow> serviceOrderCovers ord day))"

fun residualLoop :: "(funnelOrder \<Rightarrow> bool) \<Rightarrow> bool \<Rightarrow> bool \<Rightarrow> funnelOrder list \<Rightarrow> (bool \<times> bool) option" where
  "residualLoop inCourse hasGoods hasService [] = Some (hasGoods, hasService)"
| "residualLoop inCourse hasGoods hasService (ord # os) =
     (if HasPrefix (ord_docCode ord) ''BGF'' then residualLoop inCourse True hasService os
      else if inCourse ord then None
      else residualLoop inCourse hasGoods True os)"

definition classifyResidual :: "funnelInvoice \<Rightarrow> funnelOrder list \<Rightarrow> funnelRDA list \<Rightarrow> (string \<rightharpoonup> int) \<Rightarrow> (int \<rightharpoonup> funnelRDA) \<Rightarrow> string" where
  "classifyResidual invoice orders rdas rdaByOrder rdaByID =
     (case residualLoop (orderInCourse invoice rdaByOrder rdaByID) False False orders of
        None \<Rightarrow> ''recurring_in_course''
      | Some (hasGoods, hasService) \<Rightarrow>
          if list_ex (\<lambda>rda. case inv_documentDate invoice of None \<Rightarrow> False
                        | Some day \<Rightarrow> recurringRDACovers rda day) rdas then ''recurring_in_course''
          else if hasGoods then ''goods_orders''
          else if hasService then ''service_orders_expired''
          else if length rdas > 0 then ''rda_only'' else ''unknown'')"

subsection \<open>The levels\<close>

record cascadeInvoice =
  ca_Level :: string
  ca_Proposals :: "string list"
  ca_Verdict :: string
  ca_ContractsReason :: string
  ca_ContractCandidates :: nat
  ca_SDIReason :: string
  ca_OrdersReason :: string
  ca_FixedFeeReason :: string
  ca_SeriesSize :: nat
  ca_Family :: string

definition cascadeVerdict :: "string list \<Rightarrow> string list \<Rightarrow> string" where
  "cascadeVerdict proposals linked =
     (if linked = [] then ''no_truth''
      else if Join proposals ''|'' = Join linked ''|'' then ''match''
      else if list_ex (\<lambda>p. p \<notin> set linked) proposals then ''wrong'' else ''partial'')"

definition declaredKeys :: "sdiResult \<Rightarrow> string set" where
  "declaredKeys sdi = (\<Union>r \<in> set (sx_OrderRefs sdi). set (sr_orderKeys r))"

definition cascadeSDI :: "funnelInvoice \<Rightarrow> sdiResult \<Rightarrow> funnelOrderIndex \<Rightarrow> cascadeInvoice \<Rightarrow> cascadeInvoice" where
  "cascadeSDI invoice sdi idx out =
     (if \<not> sx_Linked sdi then out\<lparr>ca_SDIReason := ''no_xml''\<rparr>
      else if sx_OrderRefs sdi = [] then out\<lparr>ca_SDIReason := ''no_ref''\<rparr>
      else
        let declared = declaredKeys sdi;
            withCode = list_ex (\<lambda>r. sr_Code r \<noteq> '''') (sx_OrderRefs sdi);
            unresolved = list_ex (\<lambda>r. sr_Code r \<noteq> '''' \<and> sr_orderKeys r = []) (sx_OrderRefs sdi);
            truncated = list_ex (\<lambda>r. length (sr_Declared r) \<ge> sdiReferenceMaxLen) (sx_OrderRefs sdi)
        in if card declared = 0 \<and> \<not> withCode then out\<lparr>ca_SDIReason := ''no_code''\<rparr>
           else if card declared = 0 \<or> unresolved then out\<lparr>ca_SDIReason := ''unresolved''\<rparr>
           else if truncated then out\<lparr>ca_SDIReason := ''truncated''\<rparr>
           else let (covered, ok) = orderCoverage invoice (sortedKeys declared) idx
                in if ok then out\<lparr>ca_Level := ''sdi'', ca_Proposals := covered\<rparr>
                   else out\<lparr>ca_SDIReason := ''not_covered''\<rparr>)"

definition cascadeOrders :: "orderRuleResult \<Rightarrow> funnelOrder list \<Rightarrow> cascadeInvoice \<Rightarrow> cascadeInvoice" where
  "cascadeOrders orderRules supplierOrders out =
     (let unique = (length (or_Proposals orderRules) = 1 \<and> or_AmbiguousLines orderRules = 0)
      in if length supplierOrders = 0 then out\<lparr>ca_OrdersReason := ''no_orders''\<rparr>
         else if length (withoutGoodsOrders supplierOrders) = 0 then out\<lparr>ca_OrdersReason := ''goods_only''\<rparr>
         else if or_OpenCandidates orderRules = 0 then out\<lparr>ca_OrdersReason := ''no_open_orders''\<rparr>
         else if or_Proposals orderRules = [] then out\<lparr>ca_OrdersReason := ''no_match''\<rparr>
         else if \<not> unique then out\<lparr>ca_OrdersReason := ''ambiguous''\<rparr>
         else out\<lparr>ca_Level := ''orders'', ca_Proposals := sort (ca_Proposals out @ or_Proposals orderRules ! 0)\<rparr>)"

definition cascadeFixedFee :: "fixedFeeResult \<Rightarrow> cascadeInvoice \<Rightarrow> cascadeInvoice" where
  "cascadeFixedFee fixedFee out0 =
     (let out = out0\<lparr>ca_SeriesSize := ff_SeriesSize fixedFee\<rparr>
      in if \<not> ff_InSeries fixedFee then out\<lparr>ca_FixedFeeReason := ''no_series''\<rparr>
         else if ff_Proposals fixedFee = [] then out\<lparr>ca_FixedFeeReason := ''no_anchor''\<rparr>
         else out\<lparr>ca_Level := ''fixed_fee'', ca_Proposals := ca_Proposals out @ ff_Proposals fixedFee\<rparr>)"

definition applyCascade :: "funnelInvoice \<Rightarrow> sdiResult \<Rightarrow> contractResult \<Rightarrow> string list \<Rightarrow> orderRuleResult \<Rightarrow> fixedFeeResult \<Rightarrow>
    funnelOrder list \<Rightarrow> funnelRDA list \<Rightarrow> funnelOrderIndex \<Rightarrow> (int \<rightharpoonup> funnelRDA) \<Rightarrow> cascadeInvoice" where
  "applyCascade invoice sdi contracts contractTruth orderRules fixedFee supplierOrders supplierRDAs idx rdaByID =
     (let out0 = \<lparr>ca_Level = '''', ca_Proposals = [], ca_Verdict = '''', ca_ContractsReason = '''',
            ca_ContractCandidates = 0, ca_SDIReason = '''', ca_OrdersReason = '''', ca_FixedFeeReason = '''',
            ca_SeriesSize = 0, ca_Family = ''''\<rparr>;
          out1 = cascadeSDI invoice sdi idx out0;
          out2 = (if ca_Level out1 = '''' then out1\<lparr>ca_ContractCandidates := cr_Candidates contracts\<rparr> else out1)
      in if ca_Level out1 = '''' \<and> cr_Proposals contracts \<noteq> [] then
           let props = ca_Proposals out2 @ cr_Proposals contracts
           in out2\<lparr>ca_Level := ''contracts'', ca_Proposals := props, ca_Verdict := cascadeVerdict props contractTruth\<rparr>
         else
           let out3 = (if ca_Level out2 = '''' then out2\<lparr>ca_ContractsReason := cr_Reason contracts\<rparr> else out2);
               out4 = (if ca_Level out3 = '''' then cascadeOrders orderRules supplierOrders out3 else out3);
               out5 = (if ca_Level out4 = '''' then cascadeFixedFee fixedFee out4 else out4);
               linked = sort (or_AFCLinks orderRules)
           in if ca_Level out5 = '''' then
                out5\<lparr>ca_Level := ''residual'',
                     ca_Family := classifyResidual invoice supplierOrders supplierRDAs (oi_rdaByOrder idx) rdaByID,
                     ca_Verdict := (if length linked > 0 then ''afc_linked'' else ''afc_unlinked'')\<rparr>
              else out5\<lparr>ca_Verdict := cascadeVerdict (ca_Proposals out5) linked\<rparr>)"

subsection \<open>The summary\<close>

record cascadeLevel =
  cl_Key :: string
  cl_Entered :: nat
  cl_Closed :: nat
  cl_Passed :: nat
  cl_Match :: nat
  cl_Partial :: nat
  cl_Wrong :: nat
  cl_NoTruth :: nat

record cascadeReason =
  ce_Reason :: string
  ce_Count :: nat
  ce_WithAFCLink :: nat

record cascadeSummary =
  cs_Invoices :: nat
  cs_Levels :: "cascadeLevel list"
  cs_Residual :: nat
  cs_ResidualWithAFCLink :: nat
  cs_ResidualBySDI :: "cascadeReason list"
  cs_ResidualByOrders :: "cascadeReason list"
  cs_ResidualByPair :: "cascadeReason list"
  cs_ResidualByContracts :: "cascadeReason list"
  cs_ResidualByFixedFee :: "cascadeReason list"
  cs_ResidualByFamily :: "cascadeReason list"

definition cascadeLevels :: "string list" where
  "cascadeLevels = [''sdi'', ''contracts'', ''orders'', ''fixed_fee'']"

definition newCascadeSummary :: cascadeSummary where
  "newCascadeSummary =
     \<lparr>cs_Invoices = 0,
      cs_Levels = map (\<lambda>k. \<lparr>cl_Key = k, cl_Entered = 0, cl_Closed = 0, cl_Passed = 0, cl_Match = 0,
                            cl_Partial = 0, cl_Wrong = 0, cl_NoTruth = 0\<rparr>) cascadeLevels,
      cs_Residual = 0, cs_ResidualWithAFCLink = 0, cs_ResidualBySDI = [], cs_ResidualByOrders = [],
      cs_ResidualByPair = [], cs_ResidualByContracts = [], cs_ResidualByFixedFee = [], cs_ResidualByFamily = []\<rparr>"

definition closeLevel :: "string \<Rightarrow> cascadeLevel \<Rightarrow> cascadeLevel" where
  "closeLevel verdict l0 =
     (let l = l0\<lparr>cl_Closed := Suc (cl_Closed l0)\<rparr>
      in if verdict = ''match'' then l\<lparr>cl_Match := Suc (cl_Match l)\<rparr>
         else if verdict = ''partial'' then l\<lparr>cl_Partial := Suc (cl_Partial l)\<rparr>
         else if verdict = ''wrong'' then l\<lparr>cl_Wrong := Suc (cl_Wrong l)\<rparr>
         else l\<lparr>cl_NoTruth := Suc (cl_NoTruth l)\<rparr>)"

fun addReason :: "cascadeReason list \<Rightarrow> string \<Rightarrow> bool \<Rightarrow> cascadeReason list" where
  "addReason [] reason linked = [\<lparr>ce_Reason = reason, ce_Count = 1, ce_WithAFCLink = (if linked then 1 else 0)\<rparr>]"
| "addReason (r # rs) reason linked =
     (if ce_Reason r = reason
      then r\<lparr>ce_Count := Suc (ce_Count r), ce_WithAFCLink := (if linked then Suc (ce_WithAFCLink r) else ce_WithAFCLink r)\<rparr> # rs
      else r # addReason rs reason linked)"

text \<open>The loop over the levels; the flag tells that the invoice was closed.\<close>

fun addLevels :: "string \<Rightarrow> string \<Rightarrow> cascadeLevel list \<Rightarrow> cascadeLevel list \<times> bool" where
  "addLevels level verdict [] = ([], False)"
| "addLevels level verdict (l # ls) =
     (let l1 = l\<lparr>cl_Entered := Suc (cl_Entered l)\<rparr>
      in if cl_Key l1 = level then (closeLevel verdict l1 # ls, True)
         else let (ls', closed) = addLevels level verdict ls
              in (l1\<lparr>cl_Passed := Suc (cl_Passed l1)\<rparr> # ls', closed))"

definition addCascade :: "cascadeSummary \<Rightarrow> cascadeInvoice \<Rightarrow> cascadeSummary" where
  "addCascade s0 r =
     (let (levels, closed) = addLevels (ca_Level r) (ca_Verdict r) (cs_Levels s0);
          s = s0\<lparr>cs_Invoices := Suc (cs_Invoices s0), cs_Levels := levels\<rparr>
      in if closed then s
         else
           let linked = (ca_Verdict r = ''afc_linked'')
           in s\<lparr>cs_Residual := Suc (cs_Residual s),
                cs_ResidualWithAFCLink := (if linked then Suc (cs_ResidualWithAFCLink s) else cs_ResidualWithAFCLink s),
                cs_ResidualBySDI := addReason (cs_ResidualBySDI s) (ca_SDIReason r) linked,
                cs_ResidualByOrders := addReason (cs_ResidualByOrders s) (ca_OrdersReason r) linked,
                cs_ResidualByPair := addReason (cs_ResidualByPair s) (ca_SDIReason r @ '' / '' @ ca_OrdersReason r) linked,
                cs_ResidualByContracts := addReason (cs_ResidualByContracts s) (ca_ContractsReason r) linked,
                cs_ResidualByFixedFee := addReason (cs_ResidualByFixedFee s) (ca_FixedFeeReason r) linked,
                cs_ResidualByFamily := addReason (cs_ResidualByFamily s) (ca_Family r) linked\<rparr>)"

text \<open>\<open>sortReasons\<close>: by decreasing count, then by reason.\<close>

definition sortReasons :: "cascadeReason list \<Rightarrow> cascadeReason list" where
  "sortReasons rs = sort_key (\<lambda>r. (- int (ce_Count r), ce_Reason r)) rs"

subsection \<open>Coverage and families\<close>

lemma sort_Nil_iff [simp]: "sort xs = [] \<longleftrightarrow> xs = []" for xs :: "'a::linorder list"
  by (metis length_0_conv length_sort)

lemma orderCoverage_covered:
  "snd (orderCoverage iv keys idx) \<longleftrightarrow>
     List.map_filter (oi_byKey idx) keys \<noteq> [] \<and>
     (case inv_taxableAmount iv of None \<Rightarrow> True
      | Some a \<Rightarrow> cents a \<le> sum_list (map (\<lambda>o'. residualAmount (oi_links idx) o' (own (oi_links idx) (inv_key iv)))
                                        (List.map_filter (oi_byKey idx) keys)))"
  by (auto simp: orderCoverage_def Let_def not_less split: option.split)

lemma orderCoverage_labels:
  "fst (orderCoverage iv keys idx) = sort (map orderLabel (List.map_filter (oi_byKey idx) keys))"
  by (simp add: orderCoverage_def Let_def split: option.split)

lemma residualLoop_spec:
  "residualLoop c g s os =
     (if \<exists>o' \<in> set os. \<not> isGoodsOrder o' \<and> c o' then None
      else Some (g \<or> (\<exists>o' \<in> set os. isGoodsOrder o'), s \<or> (\<exists>o' \<in> set os. \<not> isGoodsOrder o')))"
  by (induction c g s os rule: residualLoop.induct) (auto simp: isGoodsOrder_def)

text \<open>The rows of an RDA are visited in map order: whether it covers a day does not depend on it.\<close>

interpretation cover_loop: map_loop "list_ex (lineCovers start day)" "\<lambda>M. \<exists>l \<in># M. lineCovers start day l"
  for start day
  by unfold_locales (simp add: list_ex_iff)

text \<open>A residual invoice is classified as recurring in course exactly when it is dated and some service
  order of the supplier, or some request, is in force at its date; otherwise goods orders, service
  orders and requests are reported in this order of precedence.\<close>

theorem classifyResidual_spec:
  "classifyResidual iv os rdas byOrder byID =
     (if (\<exists>o' \<in> set os. \<not> isGoodsOrder o' \<and> orderInCourse iv byOrder byID o') \<or>
         (\<exists>d. inv_documentDate iv = Some d \<and> (\<exists>rda \<in> set rdas. recurringRDACovers rda d))
      then ''recurring_in_course''
      else if \<exists>o' \<in> set os. isGoodsOrder o' then ''goods_orders''
      else if os \<noteq> [] then ''service_orders_expired''
      else if rdas \<noteq> [] then ''rda_only'' else ''unknown'')"
proof -
  have "list_ex (\<lambda>rda. case inv_documentDate iv of None \<Rightarrow> False | Some day \<Rightarrow> recurringRDACovers rda day) rdas \<longleftrightarrow>
    (\<exists>d. inv_documentDate iv = Some d \<and> (\<exists>rda \<in> set rdas. recurringRDACovers rda d))"
    by (auto simp: list_ex_iff split: option.splits)
  moreover have "(\<exists>o' \<in> set os. \<not> isGoodsOrder o') \<longleftrightarrow> os \<noteq> []" if "\<not> (\<exists>o' \<in> set os. isGoodsOrder o')"
    using that by (cases os) auto
  ultimately show ?thesis
    unfolding classifyResidual_def residualLoop_spec by (cases "\<exists>o' \<in> set os. isGoodsOrder o'") (simp_all split del: if_split, simp_all)
qed

subsection \<open>The first level that closes\<close>

definition sdiCloses :: "funnelInvoice \<Rightarrow> sdiResult \<Rightarrow> funnelOrderIndex \<Rightarrow> bool" where
  "sdiCloses iv sdi idx \<longleftrightarrow>
     sx_Linked sdi \<and> declaredKeys sdi \<noteq> {} \<and>
     list_all (\<lambda>r. length (sr_Declared r) < 20 \<and> \<not> (sr_Code r \<noteq> '''' \<and> sr_orderKeys r = [])) (sx_OrderRefs sdi) \<and>
     snd (orderCoverage iv (sortedKeys (declaredKeys sdi)) idx)"

definition ordersClose :: "orderRuleResult \<Rightarrow> funnelOrder list \<Rightarrow> bool" where
  "ordersClose res os \<longleftrightarrow>
     withoutGoodsOrders os \<noteq> [] \<and> or_OpenCandidates res \<noteq> 0 \<and> length (or_Proposals res) = 1 \<and> or_AmbiguousLines res = 0"

lemma finite_declaredKeys [simp]: "finite (declaredKeys sdi)"
  by (simp add: declaredKeys_def)

lemma cascadeSDI_closes:
  assumes "ca_Level out = ''''"
  shows "ca_Level (cascadeSDI iv sdi idx out) = (if sdiCloses iv sdi idx then ''sdi'' else '''')"
    and "ca_Proposals (cascadeSDI iv sdi idx out) =
      (if sdiCloses iv sdi idx then fst (orderCoverage iv (sortedKeys (declaredKeys sdi)) idx) else ca_Proposals out)"
proof -
  let ?refs = "sx_OrderRefs sdi"
  have a: "list_all (\<lambda>r. length (sr_Declared r) < 20 \<and> \<not> (sr_Code r \<noteq> '''' \<and> sr_orderKeys r = [])) ?refs \<longleftrightarrow>
    \<not> list_ex (\<lambda>r. length (sr_Declared r) \<ge> sdiReferenceMaxLen) ?refs \<and>
    \<not> list_ex (\<lambda>r. sr_Code r \<noteq> '''' \<and> sr_orderKeys r = []) ?refs"
    by (auto simp: list_all_iff list_ex_iff not_le sdiReferenceMaxLen_def)
  have d: "declaredKeys sdi \<noteq> {} \<Longrightarrow> ?refs \<noteq> []" by (auto simp: declaredKeys_def)
  have c: "card (declaredKeys sdi) = 0 \<longleftrightarrow> declaredKeys sdi = {}" by simp
  obtain ls ok where "orderCoverage iv (sortedKeys (declaredKeys sdi)) idx = (ls, ok)" by (metis prod.exhaust)
  then show "ca_Level (cascadeSDI iv sdi idx out) = (if sdiCloses iv sdi idx then ''sdi'' else '''')"
    "ca_Proposals (cascadeSDI iv sdi idx out) =
      (if sdiCloses iv sdi idx then fst (orderCoverage iv (sortedKeys (declaredKeys sdi)) idx) else ca_Proposals out)"
    using assms d unfolding cascadeSDI_def sdiCloses_def Let_def a c by simp_all
qed

lemma cascadeOrders_closes:
  assumes "ca_Level out = ''''"
  shows "ca_Level (cascadeOrders res os out) = (if ordersClose res os then ''orders'' else '''')"
    and "ca_Proposals (cascadeOrders res os out) =
      (if ordersClose res os then sort (ca_Proposals out @ or_Proposals res ! 0) else ca_Proposals out)"
  using assms by (auto simp: cascadeOrders_def ordersClose_def Let_def withoutGoodsOrders_def)

lemma cascadeFixedFee_closes:
  assumes "ca_Level out = ''''"
  shows "ca_Level (cascadeFixedFee fee out) = (if ff_InSeries fee \<and> ff_Proposals fee \<noteq> [] then ''fixed_fee'' else '''')"
    and "ca_Proposals (cascadeFixedFee fee out) =
      (if ff_InSeries fee \<and> ff_Proposals fee \<noteq> [] then ca_Proposals out @ ff_Proposals fee else ca_Proposals out)"
  using assms by (auto simp: cascadeFixedFee_def Let_def)

lemmas level_closes = cascadeSDI_closes cascadeOrders_closes cascadeFixedFee_closes

text \<open>C20: An invoice stops at the first level that closes it, in the order SDI, contracts, orders, fixed
  fee, with that level's proposal; the contract level is scored against the linked contracts, the
  others against the linked orders, and an invoice no level closes is residual.\<close>

theorem cascade_first_level:
  fixes iv sdi contracts contractTruth res fee os rdas idx byID
  defines "r \<equiv> applyCascade iv sdi contracts contractTruth res fee os rdas idx byID"
  defines "cov \<equiv> fst (orderCoverage iv (sortedKeys (declaredKeys sdi)) idx)"
  defines "linked \<equiv> sort (or_AFCLinks res)"
  shows "(ca_Level r, ca_Proposals r, ca_Verdict r) =
    (if sdiCloses iv sdi idx then (''sdi'', cov, cascadeVerdict cov linked)
     else if cr_Proposals contracts \<noteq> [] then
       (''contracts'', cr_Proposals contracts, cascadeVerdict (cr_Proposals contracts) contractTruth)
     else if ordersClose res os then
       (''orders'', sort (or_Proposals res ! 0), cascadeVerdict (sort (or_Proposals res ! 0)) linked)
     else if ff_InSeries fee \<and> ff_Proposals fee \<noteq> [] then
       (''fixed_fee'', ff_Proposals fee, cascadeVerdict (ff_Proposals fee) linked)
     else (''residual'', [], if linked = [] then ''afc_unlinked'' else ''afc_linked''))"
proof -
  note [simp] = level_closes applyCascade_def Let_def
  show ?thesis
  proof (cases "sdiCloses iv sdi idx")
    case True
    then show ?thesis by (simp add: r_def cov_def linked_def)
  next
    case s: False
    show ?thesis
    proof (cases "cr_Proposals contracts = []")
      case False
      with s show ?thesis by (simp add: r_def)
    next
      case True
      with s show ?thesis by (cases "ordersClose res os") (auto simp: r_def linked_def)
    qed
  qed
qed

text \<open>When the labels are free of the separator, the verdict of a non-empty proposal is a match exactly
  when it is the list of linked labels, partial when it is a different list with no foreign label,
  wrong when some label is foreign, and no truth when nothing is linked.\<close>

theorem cascadeVerdict_spec:
  assumes "\<forall>k \<in> set p. CHR ''|'' \<notin> set k" "\<forall>k \<in> set linked. CHR ''|'' \<notin> set k" "p \<noteq> []"
  shows "cascadeVerdict p linked =
    (if linked = [] then ''no_truth'' else if p = linked then ''match''
     else if set p \<subseteq> set linked then ''partial'' else ''wrong'')"
  using Join_inj[of p "CHR ''|''" linked] assms
  by (auto simp: cascadeVerdict_def list_ex_iff)

theorem cascadeVerdict_spec_witness:
  "cascadeVerdict [''PO-1/2025''] [''PO-1/2025'', ''PO-1/2025''] = ''partial''"
  by (subst cascadeVerdict_spec) simp_all

subsection \<open>Conservation\<close>

text \<open>What a tally of reasons promises: one more of the given reason, the others unchanged.\<close>

locale reason_tally =
  fixes add :: "'l \<Rightarrow> string \<Rightarrow> bool \<Rightarrow> 'l"
    and count_of :: "'l \<Rightarrow> string \<Rightarrow> nat"
    and total :: "'l \<Rightarrow> nat"
    and linked_total :: "'l \<Rightarrow> nat"
  assumes count_add: "count_of (add l r b) q = count_of l q + (if q = r then 1 else 0)"
    and total_add: "total (add l r b) = Suc (total l)"
    and linked_add: "linked_total (add l r b) = linked_total l + (if b then 1 else 0)"
begin

lemma count_fold: "count_of (fold (\<lambda>(r, b) l. add l r b) xs l) q = count_of l q + count_list (map fst xs) q"
  by (induction xs arbitrary: l) (auto simp: count_add)

lemma total_fold: "total (fold (\<lambda>(r, b) l. add l r b) xs l) = total l + length xs"
  by (induction xs arbitrary: l) (auto simp: total_add)

lemma linked_le: "linked_total l \<le> total l \<Longrightarrow> linked_total (add l r b) \<le> total (add l r b)"
  by (simp add: total_add linked_add)

end

definition reasonCount :: "cascadeReason list \<Rightarrow> string \<Rightarrow> nat" where
  "reasonCount rs q = sum_list (map ce_Count (filter (\<lambda>r. ce_Reason r = q) rs))"

definition reasonTotal :: "cascadeReason list \<Rightarrow> nat" where
  "reasonTotal rs = sum_list (map ce_Count rs)"

definition reasonLinked :: "cascadeReason list \<Rightarrow> nat" where
  "reasonLinked rs = sum_list (map ce_WithAFCLink rs)"

interpretation reasons: reason_tally addReason reasonCount reasonTotal reasonLinked
proof
  fix l r b q
  show "reasonCount (addReason l r b) q = reasonCount l q + (if q = r then 1 else 0)"
    by (induction l r b rule: addReason.induct) (auto simp: reasonCount_def)
  show "reasonTotal (addReason l r b) = Suc (reasonTotal l)"
    by (induction l r b rule: addReason.induct) (auto simp: reasonTotal_def)
  show "reasonLinked (addReason l r b) = reasonLinked l + (if b then 1 else 0)"
    by (induction l r b rule: addReason.induct) (auto simp: reasonLinked_def)
qed

text \<open>\<open>flows n levels res\<close>: \<open>n\<close> invoices enter the first level, each level passes on what it does not
  close, and \<open>res\<close> come out of the last one.\<close>

fun flows :: "nat \<Rightarrow> cascadeLevel list \<Rightarrow> nat \<Rightarrow> bool" where
  "flows n [] res = (n = res)"
| "flows n (l # ls) res =
     (cl_Entered l = n \<and> cl_Closed l + cl_Passed l = n \<and>
      cl_Closed l = cl_Match l + cl_Partial l + cl_Wrong l + cl_NoTruth l \<and> flows (cl_Passed l) ls res)"

lemma closeLevel_fields [simp]:
  "cl_Key (closeLevel v l) = cl_Key l" "cl_Entered (closeLevel v l) = cl_Entered l"
  "cl_Passed (closeLevel v l) = cl_Passed l" "cl_Closed (closeLevel v l) = Suc (cl_Closed l)"
  "cl_Match (closeLevel v l) + cl_Partial (closeLevel v l) + cl_Wrong (closeLevel v l) + cl_NoTruth (closeLevel v l) =
     Suc (cl_Match l + cl_Partial l + cl_Wrong l + cl_NoTruth l)"
  by (simp_all add: closeLevel_def Let_def)

lemma flows_addLevels:
  "flows n ls res \<Longrightarrow> addLevels lv v ls = (ls', c) \<Longrightarrow> flows (Suc n) ls' (if c then res else Suc res)"
proof (induction ls arbitrary: n ls' c)
  case (Cons l ls)
  then show ?case by (auto simp: Let_def split: if_splits prod.splits)
qed simp

definition cascade_inv :: "cascadeSummary \<Rightarrow> bool" where
  "cascade_inv s \<longleftrightarrow>
     flows (cs_Invoices s) (cs_Levels s) (cs_Residual s) \<and>
     list_all (\<lambda>l. reasonTotal l = cs_Residual s \<and> reasonLinked l = cs_ResidualWithAFCLink s)
       [cs_ResidualBySDI s, cs_ResidualByOrders s, cs_ResidualByPair s, cs_ResidualByContracts s,
        cs_ResidualByFixedFee s, cs_ResidualByFamily s]"

lemma addCascade_inv: "cascade_inv s \<Longrightarrow> cascade_inv (addCascade s r)"
proof -
  assume i: "cascade_inv s"
  obtain ls c where l: "addLevels (ca_Level r) (ca_Verdict r) (cs_Levels s) = (ls, c)" by (metis prod.exhaust)
  have "flows (Suc (cs_Invoices s)) ls (if c then cs_Residual s else Suc (cs_Residual s))"
    using flows_addLevels[OF _ l] i by (auto simp: cascade_inv_def)
  with i l show ?thesis
    by (auto simp: addCascade_def cascade_inv_def Let_def reasons.total_add reasons.linked_add)
qed

text \<open>C25: The cascade summary conserves the invoices: all enter the first level, every level splits what
  enters it into closed (by verdict) and passed on to the next, what leaves the last level is the
  residual, and each breakdown of the residual by reason adds up to it, linked invoices included.\<close>

theorem cascade_conservation:
  "cascade_inv (fold (\<lambda>r s. addCascade s r) rs newCascadeSummary) \<and>
   cs_Invoices (fold (\<lambda>r s. addCascade s r) rs newCascadeSummary) = length rs"
proof
  have z: "cascade_inv newCascadeSummary"
    by (simp add: cascade_inv_def newCascadeSummary_def cascadeLevels_def reasonTotal_def reasonLinked_def)
  show "cascade_inv (fold (\<lambda>r s. addCascade s r) rs newCascadeSummary)"
    by (rule fold_inv[of cascade_inv, OF z]) (rule addCascade_inv)
  have "cs_Invoices (addCascade s r) = cs_Invoices s + 1" for s r
    by (simp add: addCascade_def Let_def split: prod.split)
  then have "cs_Invoices (fold (\<lambda>r s. addCascade s r) rs newCascadeSummary) =
    cs_Invoices newCascadeSummary + sum_list (map (\<lambda>_. 1) rs)"
    by (rule fold_measure)
  then show "cs_Invoices (fold (\<lambda>r s. addCascade s r) rs newCascadeSummary) = length rs"
    by (simp add: newCascadeSummary_def sum_list_triv)
qed

end
