(* ===== verification/FunnelSuggestion.thy ===== *)
theory FunnelSuggestion
  imports FunnelCascade
begin

text \<open>
  The suggestion (\<open>smartpassive/funnel_suggestion.go\<close>): the same levels as the cascade under a
  stricter reading. Each level answers verified, hint or none; the invoice stops at the first
  verified answer, otherwise takes the first hint. The contract every level check obeys is the
  locale \<open>level_check\<close>; the four checks are its interpretations.
\<close>

subsection \<open>The checks\<close>

record suggestionCheck =
  sc_Level :: string
  sc_Outcome :: string
  sc_Reason :: string
  sc_Proposals :: "string list"

record suggestionInvoice =
  si_Checks :: "suggestionCheck list"
  si_Level :: string
  si_Verified :: bool
  si_Proposals :: "string list"
  si_Verdict :: string
  si_OverBilled :: bool
  si_Family :: string

definition checkReason :: "suggestionInvoice \<Rightarrow> string \<Rightarrow> string" where
  "checkReason c level = (case find (\<lambda>k. sc_Level k = level) (si_Checks c) of
     Some k \<Rightarrow> sc_Reason k | None \<Rightarrow> '''')"

definition suggestSDI :: "funnelInvoice \<Rightarrow> sdiResult \<Rightarrow> funnelOrderIndex \<Rightarrow> suggestionCheck" where
  "suggestSDI invoice sdi idx =
     (let check = \<lparr>sc_Level = ''sdi'', sc_Outcome = ''none'', sc_Reason = '''', sc_Proposals = []\<rparr>
      in if \<not> sx_Linked sdi then check\<lparr>sc_Reason := ''no_xml''\<rparr>
         else if sx_OrderRefs sdi = [] then check\<lparr>sc_Reason := ''no_ref''\<rparr>
         else
           let declared = declaredKeys sdi;
               withCode = list_ex (\<lambda>r. sr_Code r \<noteq> '''') (sx_OrderRefs sdi);
               unresolved = list_ex (\<lambda>r. sr_orderKeys r = []) (sx_OrderRefs sdi);
               truncated = list_ex (\<lambda>r. length (sr_Declared r) \<ge> sdiReferenceMaxLen) (sx_OrderRefs sdi)
           in if card declared = 0 then
                (if withCode then check\<lparr>sc_Reason := ''unresolved''\<rparr> else check\<lparr>sc_Reason := ''no_code''\<rparr>)
              else
                let (labels, covered) = orderCoverage invoice (sortedKeys declared) idx;
                    check1 = check\<lparr>sc_Proposals := labels\<rparr>
                in if unresolved then check1\<lparr>sc_Reason := ''unresolved'', sc_Outcome := ''hint''\<rparr>
                   else if truncated then check1\<lparr>sc_Reason := ''truncated'', sc_Outcome := ''hint''\<rparr>
                   else if \<not> covered then check1\<lparr>sc_Reason := ''not_covered'', sc_Outcome := ''hint''\<rparr>
                   else check1\<lparr>sc_Outcome := ''verified''\<rparr>)"

definition suggestContracts :: "contractResult \<Rightarrow> suggestionCheck" where
  "suggestContracts contracts =
     (let check = \<lparr>sc_Level = ''contracts'', sc_Outcome = ''none'', sc_Reason = cr_Reason contracts, sc_Proposals = []\<rparr>
      in if length (cr_Proposals contracts) > 0
         then check\<lparr>sc_Outcome := ''verified'', sc_Reason := '''', sc_Proposals := cr_Proposals contracts\<rparr>
         else check)"

definition suggestOrders :: "funnelInvoice \<Rightarrow> orderRuleResult \<Rightarrow> funnelOrder list \<Rightarrow> funnelOrderIndex \<Rightarrow> suggestionCheck" where
  "suggestOrders invoice orderRules supplierOrders idx =
     (let check = \<lparr>sc_Level = ''orders'', sc_Outcome = ''none'', sc_Reason = '''', sc_Proposals = []\<rparr>;
          first = sort (or_Proposals orderRules ! 0)
      in if length supplierOrders = 0 then check\<lparr>sc_Reason := ''no_orders''\<rparr>
         else if length (withoutGoodsOrders supplierOrders) = 0 then check\<lparr>sc_Reason := ''goods_only''\<rparr>
         else if length (or_Proposals orderRules) = 0 \<and> or_OpenCandidates orderRules = 0
         then check\<lparr>sc_Reason := ''no_open_orders''\<rparr>
         else if length (or_Proposals orderRules) = 0 then check\<lparr>sc_Reason := ''no_match''\<rparr>
         else if or_Rule orderRules = ''description'' then
           (let check1 = check\<lparr>sc_Proposals := first\<rparr>
            in if snd (orderCoverage invoice (or_keys orderRules ! 0) idx)
               then check1\<lparr>sc_Outcome := ''verified''\<rparr>
               else check1\<lparr>sc_Outcome := ''hint'', sc_Reason := ''not_covered''\<rparr>)
         else if length (or_Proposals orderRules) = 1 \<and> or_AmbiguousLines orderRules = 0
         then check\<lparr>sc_Outcome := ''verified'', sc_Proposals := first\<rparr>
         else if or_Rule orderRules = ''lines''
         then check\<lparr>sc_Outcome := ''hint'', sc_Reason := ''ambiguous'', sc_Proposals := first\<rparr>
         else check\<lparr>sc_Reason := ''ambiguous''\<rparr>)"

definition suggestFixedFee :: "funnelInvoice \<Rightarrow> fixedFeeResult \<Rightarrow> funnelOrderIndex \<Rightarrow> suggestionCheck" where
  "suggestFixedFee invoice fixedFee idx =
     (let check = \<lparr>sc_Level = ''fixed_fee'', sc_Outcome = ''none'', sc_Reason = ff_Reason fixedFee, sc_Proposals = []\<rparr>
      in if length (ff_Proposals fixedFee) = 0 then check
         else let check1 = check\<lparr>sc_Proposals := ff_Proposals fixedFee, sc_Outcome := ''hint'', sc_Reason := ''anchor_only''\<rparr>
              in if \<not> snd (orderCoverage invoice (ff_OrderKeys fixedFee) idx) \<or>
                    length (ff_OrderKeys fixedFee) \<noteq> length (ff_Proposals fixedFee)
                 then check1\<lparr>sc_Reason := ''not_covered''\<rparr> else check1)"

subsection \<open>The suggestion\<close>

text \<open>The loop over the checks: the checks made, whether some was \<open>not_covered\<close>, the first hint and
  the check that verified, if any.\<close>

fun checkLoop :: "suggestionCheck list \<Rightarrow> bool \<Rightarrow> suggestionCheck option \<Rightarrow> suggestionCheck list \<Rightarrow>
    suggestionCheck list \<times> bool \<times> suggestionCheck option \<times> suggestionCheck option" where
  "checkLoop made over hint [] = (made, over, hint, None)"
| "checkLoop made over hint (c # cs) =
     (let made' = made @ [c];
          over' = (over \<or> sc_Reason c = ''not_covered'');
          hint' = (if sc_Outcome c = ''hint'' \<and> hint = None then Some c else hint)
      in if sc_Outcome c = ''verified'' then (made', over', hint', Some c)
         else checkLoop made' over' hint' cs)"

definition suggestionChecks :: "funnelInvoice \<Rightarrow> sdiResult \<Rightarrow> contractResult \<Rightarrow> orderRuleResult \<Rightarrow> fixedFeeResult \<Rightarrow>
    funnelOrder list \<Rightarrow> funnelOrderIndex \<Rightarrow> suggestionCheck list" where
  "suggestionChecks invoice sdi contracts orderRules fixedFee supplierOrders idx =
     [suggestSDI invoice sdi idx, suggestContracts contracts,
      suggestOrders invoice orderRules supplierOrders idx, suggestFixedFee invoice fixedFee idx]"

definition applySuggestion :: "funnelInvoice \<Rightarrow> sdiResult \<Rightarrow> contractResult \<Rightarrow> string list \<Rightarrow> orderRuleResult \<Rightarrow> fixedFeeResult \<Rightarrow>
    funnelOrder list \<Rightarrow> funnelRDA list \<Rightarrow> funnelOrderIndex \<Rightarrow> (int \<rightharpoonup> funnelRDA) \<Rightarrow> suggestionInvoice" where
  "applySuggestion invoice sdi contracts contractTruth orderRules fixedFee supplierOrders supplierRDAs idx rdaByID =
     (let orderTruth = sort (or_AFCLinks orderRules);
          truthFor = (\<lambda>level. if level = ''contracts'' then contractTruth else orderTruth);
          (made, over, hint, verified) =
            checkLoop [] False None (suggestionChecks invoice sdi contracts orderRules fixedFee supplierOrders idx);
          out = \<lparr>si_Checks = made, si_Level = '''', si_Verified = False, si_Proposals = [], si_Verdict = '''',
                 si_OverBilled = over, si_Family = ''''\<rparr>
      in case verified of
           Some c \<Rightarrow> out\<lparr>si_Level := sc_Level c, si_Verified := True, si_Proposals := sc_Proposals c,
                        si_Verdict := cascadeVerdict (sc_Proposals c) (truthFor (sc_Level c))\<rparr>
         | None \<Rightarrow> (case hint of
             Some c \<Rightarrow> out\<lparr>si_Level := sc_Level c, si_Proposals := sc_Proposals c,
                          si_Verdict := cascadeVerdict (sc_Proposals c) (truthFor (sc_Level c))\<rparr>
           | None \<Rightarrow> out\<lparr>si_Level := ''residual'',
               si_Family := classifyResidual invoice supplierOrders supplierRDAs (oi_rdaByOrder idx) rdaByID,
               si_Verdict := (if length orderTruth > 0 then ''afc_linked'' else ''afc_unlinked'')\<rparr>))"

subsection \<open>The summary\<close>

record suggestionLevel =
  sg_Key :: string
  sg_Tested :: nat
  sg_Verified :: nat
  sg_Hint :: nat
  sg_Match :: nat
  sg_Partial :: nat
  sg_Wrong :: nat
  sg_NoTruth :: nat

record suggestionFinal =
  sf_Level :: string
  sf_Verified :: nat
  sf_Hint :: nat
  sf_Match :: nat
  sf_Partial :: nat
  sf_Wrong :: nat
  sf_NoTruth :: nat

record suggestionSummary =
  su_Invoices :: nat
  su_Levels :: "suggestionLevel list"
  su_Verified :: nat
  su_HintOnly :: nat
  su_Residual :: nat
  su_ResidualWithAFCLink :: nat
  su_OverBilled :: nat
  su_Final :: "suggestionFinal list"
  su_ResidualBySDI :: "cascadeReason list"
  su_ResidualByContracts :: "cascadeReason list"
  su_ResidualByOrders :: "cascadeReason list"
  su_ResidualByFixedFee :: "cascadeReason list"
  su_ResidualByFamily :: "cascadeReason list"

definition newSuggestionSummary :: suggestionSummary where
  "newSuggestionSummary =
     \<lparr>su_Invoices = 0,
      su_Levels = map (\<lambda>k. \<lparr>sg_Key = k, sg_Tested = 0, sg_Verified = 0, sg_Hint = 0, sg_Match = 0,
                            sg_Partial = 0, sg_Wrong = 0, sg_NoTruth = 0\<rparr>) cascadeLevels,
      su_Verified = 0, su_HintOnly = 0, su_Residual = 0, su_ResidualWithAFCLink = 0, su_OverBilled = 0,
      su_Final = map (\<lambda>k. \<lparr>sf_Level = k, sf_Verified = 0, sf_Hint = 0, sf_Match = 0, sf_Partial = 0,
                           sf_Wrong = 0, sf_NoTruth = 0\<rparr>) cascadeLevels,
      su_ResidualBySDI = [], su_ResidualByContracts = [], su_ResidualByOrders = [],
      su_ResidualByFixedFee = [], su_ResidualByFamily = []\<rparr>"

text \<open>\<open>countVerdict\<close>, on the counters of a level and of a final row.\<close>

definition countLevelVerdict :: "string \<Rightarrow> suggestionLevel \<Rightarrow> suggestionLevel" where
  "countLevelVerdict v l =
     (if v = ''match'' then l\<lparr>sg_Match := Suc (sg_Match l)\<rparr>
      else if v = ''partial'' then l\<lparr>sg_Partial := Suc (sg_Partial l)\<rparr>
      else if v = ''wrong'' then l\<lparr>sg_Wrong := Suc (sg_Wrong l)\<rparr>
      else l\<lparr>sg_NoTruth := Suc (sg_NoTruth l)\<rparr>)"

definition countFinalVerdict :: "string \<Rightarrow> suggestionFinal \<Rightarrow> suggestionFinal" where
  "countFinalVerdict v l =
     (if v = ''match'' then l\<lparr>sf_Match := Suc (sf_Match l)\<rparr>
      else if v = ''partial'' then l\<lparr>sf_Partial := Suc (sf_Partial l)\<rparr>
      else if v = ''wrong'' then l\<lparr>sf_Wrong := Suc (sf_Wrong l)\<rparr>
      else l\<lparr>sf_NoTruth := Suc (sf_NoTruth l)\<rparr>)"

definition addCheck :: "string \<Rightarrow> suggestionCheck \<Rightarrow> suggestionLevel \<Rightarrow> suggestionLevel" where
  "addCheck verdict c l0 =
     (if sg_Key l0 \<noteq> sc_Level c then l0
      else let l = l0\<lparr>sg_Tested := Suc (sg_Tested l0)\<rparr>
           in if sc_Outcome c = ''verified'' then countLevelVerdict verdict (l\<lparr>sg_Verified := Suc (sg_Verified l)\<rparr>)
              else if sc_Outcome c = ''hint'' then l\<lparr>sg_Hint := Suc (sg_Hint l)\<rparr> else l)"

definition addFinal :: "suggestionInvoice \<Rightarrow> suggestionFinal \<Rightarrow> suggestionFinal" where
  "addFinal r f =
     (if sf_Level f \<noteq> si_Level r then f
      else countFinalVerdict (si_Verdict r)
             (if si_Verified r then f\<lparr>sf_Verified := Suc (sf_Verified f)\<rparr> else f\<lparr>sf_Hint := Suc (sf_Hint f)\<rparr>))"

definition addSuggestion :: "suggestionSummary \<Rightarrow> suggestionInvoice \<Rightarrow> suggestionSummary" where
  "addSuggestion s0 r =
     (let s = s0\<lparr>su_Invoices := Suc (su_Invoices s0),
                 su_OverBilled := (if si_OverBilled r then Suc (su_OverBilled s0) else su_OverBilled s0),
                 su_Levels := fold (\<lambda>c ls. map (addCheck (si_Verdict r) c) ls) (si_Checks r) (su_Levels s0)\<rparr>
      in if si_Level r \<noteq> ''residual'' then
           (let s1 = (if si_Verified r then s\<lparr>su_Verified := Suc (su_Verified s)\<rparr>
                      else s\<lparr>su_HintOnly := Suc (su_HintOnly s)\<rparr>)
            in s1\<lparr>su_Final := map (addFinal r) (su_Final s1)\<rparr>)
         else
           let linked = (si_Verdict r = ''afc_linked'')
           in s\<lparr>su_Residual := Suc (su_Residual s),
                su_ResidualWithAFCLink := (if linked then Suc (su_ResidualWithAFCLink s) else su_ResidualWithAFCLink s),
                su_ResidualBySDI := addReason (su_ResidualBySDI s) (checkReason r ''sdi'') linked,
                su_ResidualByContracts := addReason (su_ResidualByContracts s) (checkReason r ''contracts'') linked,
                su_ResidualByOrders := addReason (su_ResidualByOrders s) (checkReason r ''orders'') linked,
                su_ResidualByFixedFee := addReason (su_ResidualByFixedFee s) (checkReason r ''fixed_fee'') linked,
                su_ResidualByFamily := addReason (su_ResidualByFamily s) (si_Family r) linked\<rparr>)"

subsection \<open>The contract of a level check\<close>

locale level_check =
  fixes check :: "'x \<Rightarrow> suggestionCheck"
    and level :: string
  assumes tag: "sc_Level (check x) = level"
    and none_empty: "sc_Outcome (check x) = ''none'' \<Longrightarrow> sc_Proposals (check x) = []"
    and verified_clean: "sc_Outcome (check x) = ''verified'' \<Longrightarrow> sc_Reason (check x) = ''''"
    and hint_reason: "sc_Outcome (check x) = ''hint'' \<Longrightarrow> sc_Reason (check x) \<noteq> ''''"
    and outcomes: "sc_Outcome (check x) \<in> {''verified'', ''hint'', ''none''}"
begin

lemma not_both: "sc_Outcome (check x) = ''verified'' \<Longrightarrow> sc_Reason (check x) \<noteq> ''not_covered''"
  by (simp add: verified_clean)

lemma proposes: "sc_Proposals (check x) \<noteq> [] \<Longrightarrow> sc_Outcome (check x) = ''verified'' \<or> sc_Outcome (check x) = ''hint''"
  using outcomes[of x] none_empty[of x] by auto

end

interpretation sdi_check: level_check "\<lambda>(iv, sdi, idx). suggestSDI iv sdi idx" "''sdi''"
  by unfold_locales (auto simp: suggestSDI_def Let_def split: prod.splits if_splits)

interpretation contracts_check: level_check suggestContracts "''contracts''"
  by unfold_locales (auto simp: suggestContracts_def Let_def split: if_splits)

interpretation orders_check: level_check "\<lambda>(iv, res, os, idx). suggestOrders iv res os idx" "''orders''"
  by unfold_locales (auto simp: suggestOrders_def Let_def split: prod.splits if_splits)

interpretation fixed_fee_check: level_check "\<lambda>(iv, fee, idx). suggestFixedFee iv fee idx" "''fixed_fee''"
  by unfold_locales (auto simp: suggestFixedFee_def Let_def split: prod.splits if_splits)

lemma check_tags [simp]:
  "sc_Level (suggestSDI iv sdi idx) = ''sdi''" "sc_Level (suggestContracts c) = ''contracts''"
  "sc_Level (suggestOrders iv res os idx) = ''orders''" "sc_Level (suggestFixedFee iv fee idx) = ''fixed_fee''"
  using sdi_check.tag[of "(iv, sdi, idx)"] contracts_check.tag[of c] orders_check.tag[of "(iv, res, os, idx)"]
    fixed_fee_check.tag[of "(iv, fee, idx)"] by simp_all

lemma fixed_fee_hint_only [simp]: "sc_Outcome (suggestFixedFee iv fee idx) \<noteq> ''verified''"
  by (simp add: suggestFixedFee_def Let_def)

text \<open>The suggestion verifies the electronic invoice's references exactly when the cascade closes on
  them and, in addition, every declared reference resolves to some order.\<close>

theorem sdi_stricter:
  "sc_Outcome (suggestSDI iv sdi idx) = ''verified'' \<longleftrightarrow>
     sdiCloses iv sdi idx \<and> list_all (\<lambda>r. sr_orderKeys r \<noteq> []) (sx_OrderRefs sdi)"
proof -
  have d: "declaredKeys sdi \<noteq> {} \<Longrightarrow> sx_OrderRefs sdi \<noteq> []" by (auto simp: declaredKeys_def)
  obtain ls ok where o': "orderCoverage iv (sortedKeys (declaredKeys sdi)) idx = (ls, ok)" by (metis prod.exhaust)
  have "list_all (\<lambda>r. length (sr_Declared r) < 20 \<and> \<not> (sr_Code r \<noteq> '''' \<and> sr_orderKeys r = [])) (sx_OrderRefs sdi) \<and>
      list_all (\<lambda>r. sr_orderKeys r \<noteq> []) (sx_OrderRefs sdi) \<longleftrightarrow>
    \<not> list_ex (\<lambda>r. length (sr_Declared r) \<ge> sdiReferenceMaxLen) (sx_OrderRefs sdi) \<and>
    \<not> list_ex (\<lambda>r. sr_orderKeys r = []) (sx_OrderRefs sdi)" (is "?A \<and> ?B \<longleftrightarrow> ?C")
    by (auto simp: list_all_iff list_ex_iff not_le sdiReferenceMaxLen_def)
  then have "sdiCloses iv sdi idx \<and> ?B \<longleftrightarrow> sx_Linked sdi \<and> declaredKeys sdi \<noteq> {} \<and> ?C \<and> ok"
    unfolding sdiCloses_def o' by auto
  then show ?thesis
    unfolding suggestSDI_def Let_def using d o' by simp
qed

subsection \<open>The first verified check, or the first hint\<close>

definition tested :: "suggestionCheck list \<Rightarrow> suggestionCheck list" where
  "tested cs = takeWhile (\<lambda>c. sc_Outcome c \<noteq> ''verified'') cs @
     (case find (\<lambda>c. sc_Outcome c = ''verified'') cs of None \<Rightarrow> [] | Some c \<Rightarrow> [c])"

lemma checkLoop_spec:
  "checkLoop made over hint cs =
     (made @ tested cs, over \<or> (\<exists>c \<in> set (tested cs). sc_Reason c = ''not_covered''),
      (if hint = None then find (\<lambda>c. sc_Outcome c = ''hint'') (tested cs) else hint),
      find (\<lambda>c. sc_Outcome c = ''verified'') cs)"
  by (induction made over hint cs rule: checkLoop.induct) (auto simp: tested_def Let_def)

lemma find_hint_tested:
  "find (\<lambda>c. sc_Outcome c = ''verified'') cs = None \<Longrightarrow> tested cs = cs"
  by (induction cs) (auto simp: tested_def split: if_splits)

lemma suggestion_choice_facts:
  fixes iv sdi con ct res fee os rdas idx byID
  defines "r \<equiv> applySuggestion iv sdi con ct res fee os rdas idx byID"
  defines "cs \<equiv> suggestionChecks iv sdi con res fee os idx"
  shows "(si_Level r, si_Verified r, si_Proposals r, si_Checks r) =
    (case find (\<lambda>c. sc_Outcome c = ''verified'') cs of
       Some c \<Rightarrow> (sc_Level c, True, sc_Proposals c, takeWhile (\<lambda>c. sc_Outcome c \<noteq> ''verified'') cs @ [c])
     | None \<Rightarrow> (case find (\<lambda>c. sc_Outcome c = ''hint'') cs of
         Some c \<Rightarrow> (sc_Level c, False, sc_Proposals c, cs)
       | None \<Rightarrow> (''residual'', False, [], cs)))"
proof (cases "find (\<lambda>c. sc_Outcome c = ''verified'') cs")
  case None
  then show ?thesis
    unfolding r_def applySuggestion_def Let_def cs_def checkLoop_spec
    by (simp add: find_hint_tested[OF None[unfolded cs_def]] split: option.split)
next
  case (Some c)
  then show ?thesis
    unfolding r_def applySuggestion_def Let_def cs_def checkLoop_spec
    by (simp add: tested_def)
qed

text \<open>C24: The suggestion is the first level check that verifies, whatever hints came before it; when none
  verifies it is the first hint, and with no hint the invoice is residual. The checks recorded are
  those made, up to and including the one that verified.\<close>

theorem suggestion_choice:
  fixes iv sdi con ct res fee os rdas idx byID
  defines "r \<equiv> applySuggestion iv sdi con ct res fee os rdas idx byID"
  defines "cs \<equiv> suggestionChecks iv sdi con res fee os idx"
  shows "(si_Level r, si_Verified r, si_Proposals r, si_Checks r) =
    (case find (\<lambda>c. sc_Outcome c = ''verified'') cs of
       Some c \<Rightarrow> (sc_Level c, True, sc_Proposals c, takeWhile (\<lambda>c. sc_Outcome c \<noteq> ''verified'') cs @ [c])
     | None \<Rightarrow> (case find (\<lambda>c. sc_Outcome c = ''hint'') cs of
         Some c \<Rightarrow> (sc_Level c, False, sc_Proposals c, cs)
       | None \<Rightarrow> (''residual'', False, [], cs)))"
  unfolding r_def cs_def by (rule suggestion_choice_facts)

text \<open>A suggestion is verified exactly when the electronic invoice, the contracts or the orders verify
  it: the fixed-fee level only ever hints.\<close>

theorem verified_levels:
  "si_Verified (applySuggestion iv sdi con ct res fee os rdas idx byID) \<longleftrightarrow>
     list_ex (\<lambda>c. sc_Outcome c = ''verified'')
       [suggestSDI iv sdi idx, suggestContracts con, suggestOrders iv res os idx]"
  using suggestion_choice_facts[of iv sdi con ct res fee os rdas idx byID]
  by (auto simp: suggestionChecks_def split: if_splits option.splits)

subsection \<open>Conservation\<close>

text \<open>\<open>sflows n levels rest\<close>: \<open>n\<close> invoices are tested at the first level, what a level verifies stops
  there with a verdict, and \<open>rest\<close> leave the last level unverified.\<close>

fun sflows :: "nat \<Rightarrow> suggestionLevel list \<Rightarrow> nat \<Rightarrow> bool" where
  "sflows n [] rest = (n = rest)"
| "sflows n (l # ls) rest =
     (sg_Tested l = n \<and> sg_Verified l + sg_Hint l \<le> n \<and>
      sg_Verified l = sg_Match l + sg_Partial l + sg_Wrong l + sg_NoTruth l \<and>
      sflows (n - sg_Verified l) ls rest)"

lemma countLevelVerdict_fields [simp]:
  "sg_Key (countLevelVerdict v l) = sg_Key l" "sg_Tested (countLevelVerdict v l) = sg_Tested l"
  "sg_Verified (countLevelVerdict v l) = sg_Verified l" "sg_Hint (countLevelVerdict v l) = sg_Hint l"
  "sg_Match (countLevelVerdict v l) + sg_Partial (countLevelVerdict v l) + sg_Wrong (countLevelVerdict v l) +
     sg_NoTruth (countLevelVerdict v l) = Suc (sg_Match l + sg_Partial l + sg_Wrong l + sg_NoTruth l)"
  by (simp_all add: countLevelVerdict_def)

lemma addCheck_other [simp]: "sg_Key l \<noteq> sc_Level c \<Longrightarrow> addCheck v c l = l"
  by (simp add: addCheck_def)

lemma addCheck_key [simp]: "sg_Key (addCheck v c l) = sg_Key l"
  by (simp add: addCheck_def Let_def)

lemma fold_addCheck_other:
  "\<forall>c \<in> set cs. sg_Key l \<noteq> sc_Level c \<Longrightarrow>
   fold (\<lambda>c ls. map (addCheck v c) ls) cs (l # ls) = l # fold (\<lambda>c ls. map (addCheck v c) ls) cs ls"
  by (induction cs arbitrary: ls) auto

lemma map_addCheck_other: "\<forall>l \<in> set ls. sg_Key l \<noteq> sc_Level c \<Longrightarrow> map (addCheck v c) ls = ls"
  by (induction ls) auto

lemma tested_Cons:
  "tested (c # cs) = c # (if sc_Outcome c = ''verified'' then [] else tested cs)"
  by (auto simp: tested_def)

lemma set_tested: "set (tested cs) \<subseteq> set cs"
proof (induction cs)
  case (Cons c cs)
  then show ?case by (auto simp: tested_Cons)
qed (simp add: tested_def)

lemma sflows_step:
  assumes "sflows n ls rest" "map sg_Key ls = map sc_Level cs" "distinct (map sc_Level cs)"
    "\<forall>c \<in> set cs. sc_Outcome c \<in> {''verified'', ''hint'', ''none''}"
  shows "sflows (Suc n) (fold (\<lambda>c ls. map (addCheck v c) ls) (tested cs) ls)
           (if find (\<lambda>c. sc_Outcome c = ''verified'') cs = None then Suc rest else rest) \<and>
         map sg_Key (fold (\<lambda>c ls. map (addCheck v c) ls) (tested cs) ls) = map sg_Key ls"
  using assms
proof (induction cs arbitrary: n ls)
  case Nil
  then show ?case by (simp add: tested_def)
next
  case (Cons c cs)
  then obtain l ls' where l: "ls = l # ls'" "sg_Key l = sc_Level c" "map sg_Key ls' = map sc_Level cs" by (cases ls) auto
  have f: "sflows (n - sg_Verified l) ls' rest" "sg_Tested l = n" "sg_Verified l + sg_Hint l \<le> n"
    "sg_Verified l = sg_Match l + sg_Partial l + sg_Wrong l + sg_NoTruth l"
    using Cons.prems(1) l(1) by auto
  have ks: "\<forall>k \<in> set ls'. sg_Key k \<noteq> sc_Level c"
    using Cons.prems(3) l(3) by (metis distinct.simps(2) in_set_conv_nth length_map list.simps(9) nth_map nth_mem)
  have m: "map (addCheck v c) ls = addCheck v c l # ls'"
    using l(1) map_addCheck_other[OF ks] by simp
  have kc: "\<forall>k \<in> set (tested cs). sg_Key (addCheck v c l) \<noteq> sc_Level k"
    using Cons.prems(3) l(2) set_tested[of cs] by auto
  have a: "sg_Tested (addCheck v c l) = Suc n"
    "sg_Verified (addCheck v c l) = (if sc_Outcome c = ''verified'' then Suc (sg_Verified l) else sg_Verified l)"
    "sg_Verified (addCheck v c l) + sg_Hint (addCheck v c l) \<le> Suc n"
    "sg_Verified (addCheck v c l) = sg_Match (addCheck v c l) + sg_Partial (addCheck v c l) +
       sg_Wrong (addCheck v c l) + sg_NoTruth (addCheck v c l)"
    using f l(2) by (simp_all add: addCheck_def Let_def)
  show ?case
  proof (cases "sc_Outcome c = ''verified''")
    case True
    then show ?thesis using f a m l by (simp add: tested_Cons)
  next
    case False
    have "Suc n - sg_Verified (addCheck v c l) = Suc (n - sg_Verified l)" using a(2) False f(3) by simp
    then show ?thesis
      using Cons.IH[OF f(1) l(3)] Cons.prems(3,4) False a m l fold_addCheck_other[OF kc]
      by (simp add: tested_Cons)
  qed
qed

definition suggestion_inv :: "suggestionSummary \<Rightarrow> bool" where
  "suggestion_inv s \<longleftrightarrow>
     su_Invoices s = su_Verified s + su_HintOnly s + su_Residual s \<and>
     map sg_Key (su_Levels s) = cascadeLevels \<and>
     sflows (su_Invoices s) (su_Levels s) (su_HintOnly s + su_Residual s) \<and>
     map sf_Level (su_Final s) = cascadeLevels \<and>
     sum_list (map sf_Verified (su_Final s)) = su_Verified s \<and>
     sum_list (map sf_Hint (su_Final s)) = su_HintOnly s \<and>
     list_all (\<lambda>f. sf_Verified f + sf_Hint f = sf_Match f + sf_Partial f + sf_Wrong f + sf_NoTruth f) (su_Final s) \<and>
     list_all (\<lambda>l. reasonTotal l = su_Residual s \<and> reasonLinked l = su_ResidualWithAFCLink s)
       [su_ResidualBySDI s, su_ResidualByContracts s, su_ResidualByOrders s, su_ResidualByFixedFee s, su_ResidualByFamily s]"

text \<open>What \<open>addSuggestion\<close> needs to know of a result: the checks made are those of the four levels up to
  the first verified, and the level of the result is one of the four exactly when there is a
  suggestion.\<close>

definition good_suggestion :: "suggestionInvoice \<Rightarrow> bool" where
  "good_suggestion r \<longleftrightarrow>
     (\<exists>cs. si_Checks r = tested cs \<and> map sc_Level cs = cascadeLevels \<and>
        (\<forall>c \<in> set cs. sc_Outcome c \<in> {''verified'', ''hint'', ''none''}) \<and>
        (si_Verified r \<longleftrightarrow> find (\<lambda>c. sc_Outcome c = ''verified'') cs \<noteq> None)) \<and>
     (si_Level r \<noteq> ''residual'' \<longrightarrow> si_Level r \<in> set cascadeLevels) \<and>
     (si_Level r = ''residual'' \<longrightarrow> \<not> si_Verified r)"

lemma addFinal_fields:
  "sf_Level (addFinal r f) = sf_Level f"
  "sf_Verified (addFinal r f) = sf_Verified f + (if sf_Level f = si_Level r \<and> si_Verified r then 1 else 0)"
  "sf_Hint (addFinal r f) = sf_Hint f + (if sf_Level f = si_Level r \<and> \<not> si_Verified r then 1 else 0)"
  "sf_Match (addFinal r f) + sf_Partial (addFinal r f) + sf_Wrong (addFinal r f) + sf_NoTruth (addFinal r f) =
     sf_Match f + sf_Partial f + sf_Wrong f + sf_NoTruth f + (if sf_Level f = si_Level r then 1 else 0)"
  by (simp_all add: addFinal_def countFinalVerdict_def)

lemma one_hit:
  "distinct xs \<Longrightarrow> x \<in> set xs \<Longrightarrow> sum_list (map (\<lambda>k. if k = x \<and> b then 1 else 0) xs) = (if b then 1 else (0 :: nat))"
proof (induction xs)
  case (Cons y xs)
  have "x \<notin> set xs \<Longrightarrow> sum_list (map (\<lambda>k. if k = x \<and> b then 1 else (0 :: nat)) xs) = 0"
    by (induction xs) auto
  then show ?case using Cons by auto
qed simp

lemma distinct_levels: "distinct cascadeLevels"
  by (simp add: cascadeLevels_def)

lemma addFinal_sums:
  assumes "map sf_Level fs = cascadeLevels" "si_Level r \<in> set cascadeLevels"
  shows "sum_list (map sf_Verified (map (addFinal r) fs)) = sum_list (map sf_Verified fs) + (if si_Verified r then 1 else 0)"
    "sum_list (map sf_Hint (map (addFinal r) fs)) = sum_list (map sf_Hint fs) + (if si_Verified r then 0 else 1)"
proof -
  have c: "sum_list (map (\<lambda>f. if sf_Level f = si_Level r \<and> b then 1 else (0::nat)) fs) = (if b then 1 else 0)" for b
  proof -
    have "map (\<lambda>f. if sf_Level f = si_Level r \<and> b then 1 else (0::nat)) fs =
      map (\<lambda>k. if k = si_Level r \<and> b then 1 else 0) (map sf_Level fs)" by simp
    then show ?thesis
      using one_hit[OF distinct_levels assms(2)] by (simp only: assms(1))
  qed
  show "sum_list (map sf_Verified (map (addFinal r) fs)) = sum_list (map sf_Verified fs) + (if si_Verified r then 1 else 0)"
    "sum_list (map sf_Hint (map (addFinal r) fs)) = sum_list (map sf_Hint fs) + (if si_Verified r then 0 else 1)"
    using c[of "si_Verified r"] c[of "\<not> si_Verified r"]
    by (simp_all add: comp_def addFinal_fields sum_list_addf)
qed

lemma addSuggestion_inv:
  assumes "suggestion_inv s" "good_suggestion r"
  shows "suggestion_inv (addSuggestion s r)"
proof -
  obtain cs where cs: "si_Checks r = tested cs" "map sc_Level cs = cascadeLevels"
      "\<forall>c \<in> set cs. sc_Outcome c \<in> {''verified'', ''hint'', ''none''}"
      "si_Verified r \<longleftrightarrow> find (\<lambda>c. sc_Outcome c = ''verified'') cs \<noteq> None"
    and lv: "si_Level r \<noteq> ''residual'' \<Longrightarrow> si_Level r \<in> set cascadeLevels" "si_Level r = ''residual'' \<Longrightarrow> \<not> si_Verified r"
    using assms(2) unfolding good_suggestion_def by blast
  have k: "map sg_Key (su_Levels s) = map sc_Level cs" "distinct (map sc_Level cs)"
    using assms(1) cs(2) by (simp_all add: suggestion_inv_def cascadeLevels_def)
  have "sflows (su_Invoices s) (su_Levels s) (su_HintOnly s + su_Residual s)"
    using assms(1) unfolding suggestion_inv_def by blast
  note step = sflows_step[OF this k cs(3), of "si_Verdict r"]
  show ?thesis
  proof (cases "si_Level r = ''residual''")
    case True
    then show ?thesis
      using assms(1) step lv(2) cs(1,4) True
      by (auto simp: addSuggestion_def suggestion_inv_def Let_def reasons.total_add reasons.linked_add)
  next
    case False
    have "map sf_Level (su_Final s) = cascadeLevels" using assms(1) by (simp add: suggestion_inv_def)
    note fin = addFinal_sums[OF this lv(1)[OF False]]
    have "list_all (\<lambda>f. sf_Verified f + sf_Hint f = sf_Match f + sf_Partial f + sf_Wrong f + sf_NoTruth f) (map (addFinal r) (su_Final s))"
      using assms(1) by (auto simp: suggestion_inv_def list_all_iff addFinal_fields)
    moreover have "sf_Level \<circ> addFinal r = sf_Level"
      by (simp add: fun_eq_iff addFinal_fields)
    ultimately show ?thesis
      using assms(1) step cs(1,4) fin False
      by (cases "si_Verified r") (auto simp add: addSuggestion_def suggestion_inv_def Let_def)
  qed
qed

lemma applySuggestion_good: "good_suggestion (applySuggestion iv sdi con ct res fee os rdas idx byID)"
proof -
  let ?cs = "suggestionChecks iv sdi con res fee os idx"
  let ?r = "applySuggestion iv sdi con ct res fee os rdas idx byID"
  have 1: "map sc_Level ?cs = cascadeLevels" by (simp add: suggestionChecks_def cascadeLevels_def)
  have 2: "\<forall>c \<in> set ?cs. sc_Outcome c \<in> {''verified'', ''hint'', ''none''}"
    using sdi_check.outcomes[of "(iv, sdi, idx)"] contracts_check.outcomes[of con]
      orders_check.outcomes[of "(iv, res, os, idx)"] fixed_fee_check.outcomes[of "(iv, fee, idx)"]
    by (simp add: suggestionChecks_def)
  have 3: "si_Checks ?r = tested ?cs \<and>
    (si_Verified ?r \<longleftrightarrow> find (\<lambda>c. sc_Outcome c = ''verified'') ?cs \<noteq> None)"
  proof (cases "find (\<lambda>c. sc_Outcome c = ''verified'') ?cs")
    case None
    with suggestion_choice_facts[of iv sdi con ct res fee os rdas idx byID] show ?thesis
      by (simp add: find_hint_tested split: option.splits)
  next
    case (Some c)
    with suggestion_choice_facts[of iv sdi con ct res fee os rdas idx byID] show ?thesis
      by (simp add: tested_def)
  qed
  have 4: "c \<in> set ?cs \<Longrightarrow> sc_Level c \<in> set cascadeLevels" for c
    by (auto simp: suggestionChecks_def cascadeLevels_def)
  have 5: "si_Level ?r \<in> insert ''residual'' (sc_Level ` set ?cs)" "si_Level ?r = ''residual'' \<longrightarrow> \<not> si_Verified ?r"
    using suggestion_choice_facts[of iv sdi con ct res fee os rdas idx byID]
    by (auto simp: suggestionChecks_def split: option.splits if_splits)
  have "si_Level ?r \<noteq> ''residual'' \<longrightarrow> si_Level ?r \<in> set cascadeLevels"
  proof
    assume "si_Level ?r \<noteq> ''residual''"
    then have "si_Level ?r \<in> sc_Level ` set ?cs" using 5(1) by simp
    then show "si_Level ?r \<in> set cascadeLevels" by (elim imageE) (use 4 in simp)
  qed
  then show ?thesis
    unfolding good_suggestion_def using 1 2 3 5(2) by (intro conjI exI[of _ ?cs]) simp_all
qed

text \<open>The suggestion summary conserves the invoices: verified, hint only and residual partition them,
  also by level and by verdict; each level is tested on what the levels before it did not verify,
  and each breakdown of the residual by reason adds up to it.\<close>

theorem suggestion_conservation:
  "suggestion_inv (fold (\<lambda>(iv, sdi, con, ct, res, fee, os, rdas, idx, byID) s.
     addSuggestion s (applySuggestion iv sdi con ct res fee os rdas idx byID)) xs newSuggestionSummary)"
proof (rule fold_inv)
  show "suggestion_inv newSuggestionSummary"
    by (simp add: suggestion_inv_def newSuggestionSummary_def cascadeLevels_def reasonTotal_def reasonLinked_def)
qed (auto simp: addSuggestion_inv applySuggestion_good)

end
