(* ===== verification/Funnel.thy ===== *)
theory Funnel
  imports FunnelSuggestion
begin

text \<open>
  The matching funnel as a whole (\<open>smartpassive/funnel.go\<close>): the request parameters, the chain
  summary, and \<open>buildMatchingFunnel\<close>, which groups the invoices by supplier, runs every analysis on
  every invoice and accumulates the response.

  Go visits the map of suppliers, and the fiscal keys of an invoice, in an unspecified order: the
  order is a parameter of the model (\<open>visit\<close>, \<open>pick\<close>), a function that reorders the entries.
\<close>

subsection \<open>Request parameters\<close>

datatype funnelScope = funnelScopeOpen | funnelScopeAll

record funnelFilter =
  fi_scope :: funnelScope
  fi_from :: "gotime option"
  fi_to :: "gotime option"

definition parseFunnelScope :: "string \<Rightarrow> funnelScope option" where
  "parseFunnelScope raw =
     (if raw = '''' \<or> raw = ''open'' then Some funnelScopeOpen
      else if raw = ''all'' then Some funnelScopeAll else None)"

text \<open>An optional date parameter: absent, a day, or not a date.\<close>

definition parseDay :: "string \<Rightarrow> string \<Rightarrow> string + gotime option" where
  "parseDay name raw =
     (if raw = '''' then Inr None
      else case ParseDate raw of
             None \<Rightarrow> Inl (''Parametro '' @ name @ '' non valido: usare AAAA-MM-GG'')
           | Some day \<Rightarrow> Inr (Some day))"

definition parseFunnelFilter :: "string \<Rightarrow> string \<Rightarrow> string \<Rightarrow> string + funnelFilter" where
  "parseFunnelFilter rawScope rawFrom rawTo =
     (case parseFunnelScope rawScope of
        None \<Rightarrow> Inl ''Parametro scope non valido: usare open oppure all''
      | Some scope \<Rightarrow>
          (case parseDay ''from'' rawFrom of
             Inl e \<Rightarrow> Inl e
           | Inr from \<Rightarrow>
               (case parseDay ''to'' rawTo of
                  Inl e \<Rightarrow> Inl e
                | Inr to \<Rightarrow>
                    if (case (from, to) of (Some a, Some b) \<Rightarrow> b < a | _ \<Rightarrow> False)
                    then Inl ''Intervallo di date non valido: la fine precede l'inizio''
                    else Inr \<lparr>fi_scope = scope, fi_from = from, fi_to = to\<rparr>)))"

subsection \<open>Billing profiles\<close>

record supplierBillingProfile =
  sb_Documents :: nat
  sb_Months :: nat
  sb_PerMonth :: float64
  sb_MedianLines :: float64
  sb_RepeatShare :: float64
  sb_PeriodShare :: float64
  sb_CodeShare :: float64

definition supplierBilling :: "(string set \<Rightarrow> string list) \<Rightarrow> (string \<rightharpoonup> supplierBillingProfile) \<Rightarrow> funnelInvoice \<Rightarrow> supplierBillingProfile option" where
  "supplierBilling pick profiles invoice =
     (case List.map_filter profiles (pick (fiscalKeys [inv_supplierVAT invoice, inv_supplierVATForeign invoice, inv_fiscalCode invoice])) of
        [] \<Rightarrow> None | b # _ \<Rightarrow> Some b)"

subsection \<open>The chain summary\<close>

record rdaOrderCounts =
  ro_WithOrder :: nat
  ro_WithoutOrder :: nat
  ro_WithoutOrderByState :: "string \<Rightarrow> nat"

record orderYearCounts =
  oy_WithRDACode :: nat
  oy_WithLegacyCode :: nat
  oy_WithoutCode :: nat

record chainSummary =
  ch_RDAsByType :: "string \<Rightarrow> rdaOrderCounts"
  ch_OrdersByYear :: "string \<Rightarrow> orderYearCounts"

definition addChainRDA :: "funnelOrderIndex \<Rightarrow> funnelRDA \<Rightarrow> (string \<Rightarrow> rdaOrderCounts) \<Rightarrow> string \<Rightarrow> rdaOrderCounts" where
  "addChainRDA idx rda m =
     (let kind = (if rda_type rda = '''' then ''?'' else rda_type rda);
          c = m kind
      in m(kind := (if hasOrderFor idx rda then c\<lparr>ro_WithOrder := Suc (ro_WithOrder c)\<rparr>
                    else c\<lparr>ro_WithoutOrder := Suc (ro_WithoutOrder c),
                           ro_WithoutOrderByState := (ro_WithoutOrderByState c)
                             (rda_state rda := Suc (ro_WithoutOrderByState c (rda_state rda)))\<rparr>)))"

definition orderYearKey :: "funnelOrder \<Rightarrow> string" where
  "orderYearKey ord = (case ord_date ord of None \<Rightarrow> ''?'' | Some d \<Rightarrow> FormatInt (Year d)) @ '' '' @ ord_docCode ord"

definition addChainOrder :: "funnelOrder \<Rightarrow> (string \<Rightarrow> orderYearCounts) \<Rightarrow> string \<Rightarrow> orderYearCounts" where
  "addChainOrder ord m =
     (let c = m (orderYearKey ord)
      in m(orderYearKey ord :=
             (if ord_rdaCode ord = None then c\<lparr>oy_WithoutCode := Suc (oy_WithoutCode c)\<rparr>
              else if ord_rdaLegacy ord then c\<lparr>oy_WithLegacyCode := Suc (oy_WithLegacyCode c)\<rparr>
              else c\<lparr>oy_WithRDACode := Suc (oy_WithRDACode c)\<rparr>)))"

definition buildChainSummary :: "funnelRDA list \<Rightarrow> funnelOrder list \<Rightarrow> funnelOrderIndex \<Rightarrow> chainSummary" where
  "buildChainSummary rdas orders idx =
     \<lparr>ch_RDAsByType = fold (addChainRDA idx) rdas
        (\<lambda>_. \<lparr>ro_WithOrder = 0, ro_WithoutOrder = 0, ro_WithoutOrderByState = (\<lambda>_. 0)\<rparr>),
      ch_OrdersByYear = fold addChainOrder orders
        (\<lambda>_. \<lparr>oy_WithRDACode = 0, oy_WithLegacyCode = 0, oy_WithoutCode = 0\<rparr>)\<rparr>"

subsection \<open>The response\<close>

record funnelSummary =
  fs_InvoiceCount :: nat
  fs_NoCandidates :: nat
  fs_OneCandidate :: nat
  fs_MultipleCandidates :: nat
  fs_RDACount :: nat
  fs_RDAsWithoutERPID :: nat
  fs_DuplicateRDACodes :: nat
  fs_RDAsWithLegacy :: nat

record contractsSummary =
  co_ContractCount :: nat
  co_SuppliersWithContracts :: nat
  co_InvoicesLinked :: nat

record invoiceRow =
  iw_Registration :: int
  iw_DocumentNumber :: string
  iw_DocumentDate :: "gotime option"
  iw_SupplierReference :: string
  iw_TaxableAmount :: "float64 option"
  iw_Lines :: "exportedLine list"
  iw_Reference :: funnelReference
  iw_Rules :: ruleResult
  iw_OrderRules :: orderRuleResult
  iw_SDI :: sdiResult
  iw_Cascade :: cascadeInvoice
  iw_Suggestion :: suggestionInvoice

record rdaRow =
  rw_ID :: int
  rw_Code :: string
  rw_State :: string
  rw_Type :: string
  rw_HasOrder :: bool
  rw_Object :: string
  rw_Total :: "float64 option"
  rw_Currency :: string
  rw_Created :: "gotime option"
  rw_Delivered :: "gotime option"
  rw_Profile :: funnelProfile

record supplierRow =
  sw_SupplierERPID :: "int option"
  sw_AlyanteSupplierName :: "string option"
  sw_ProviderName :: "string option"
  sw_Billing :: "supplierBillingProfile option"
  sw_InvoiceCount :: nat
  sw_CandidateCount :: nat
  sw_Outcome :: string
  sw_Profiles :: profileCounts
  sw_Reference :: referenceSummary
  sw_Invoices :: "invoiceRow list"
  sw_Candidates :: "rdaRow list"
  sw_OrderCandidateCount :: nat
  sw_OrderOutcome :: string
  sw_Orders :: "exportedOrder list"
  sw_Contracts :: "exportedContract list"

record funnelResponse =
  re_Summary :: funnelSummary
  re_Chain :: chainSummary
  re_Profiles :: profileCounts
  re_Reference :: referenceSummary
  re_Rules :: rulesSummary
  re_Orders :: ordersSummary
  re_OrderRules :: orderRulesSummary
  re_Contracts :: contractsSummary
  re_SDI :: sdiSummary
  re_Cascade :: cascadeSummary
  re_Suggestions :: suggestionSummary
  re_Suppliers :: "supplierRow list"

text \<open>The maps and indexes the loops read: they are filled before the loop over the suppliers.\<close>

record funnelContext =
  fc_refs :: funnelReferenceIndex
  fc_orders :: funnelOrderIndex
  fc_contracts :: funnelContractIndex
  fc_lines :: "(string, funnelDocLine) index"
  fc_links :: funnelOrderLinks
  fc_sdi :: "(string, sdiDocument) index"
  fc_rdasBySupplier :: "(int, funnelRDA) index"
  fc_rdaByID :: "int \<rightharpoonup> funnelRDA"
  fc_profiles :: "int \<rightharpoonup> funnelProfile"
  fc_series :: "(string, funnelInvoice) index"
  fc_billing :: "string \<rightharpoonup> supplierBillingProfile"

record supplierAccumulator =
  ac_supplierID :: "int option"
  ac_alyanteName :: string
  ac_invoices :: "funnelInvoice list"

definition supplierKey :: "funnelInvoice \<Rightarrow> string" where
  "supplierKey invoice = (case inv_supplierID invoice of None \<Rightarrow> ''missing'' | Some s \<Rightarrow> FormatInt s)"

definition accumulate :: "funnelInvoice \<Rightarrow> string set \<times> (string \<times> supplierAccumulator) list \<Rightarrow>
    string set \<times> (string \<times> supplierAccumulator) list" where
  "accumulate invoice state =
     (let (seen, groups) = state
      in if inv_key invoice \<in> seen then (seen, groups)
         else
           let key = supplierKey invoice;
               acc = (case map_of groups key of
                        None \<Rightarrow> \<lparr>ac_supplierID = inv_supplierID invoice, ac_alyanteName = '''', ac_invoices = []\<rparr>
                      | Some a \<Rightarrow> a);
               acc' = acc\<lparr>ac_invoices := ac_invoices acc @ [invoice],
                          ac_alyanteName := (if ac_alyanteName acc = '''' \<and> inv_supplierName invoice \<noteq> ''''
                                             then inv_supplierName invoice else ac_alyanteName acc)\<rparr>
           in (insert (inv_key invoice) seen, AList.update key acc' groups))"

definition groupSuppliers :: "funnelInvoice list \<Rightarrow> string set \<times> (string \<times> supplierAccumulator) list" where
  "groupSuppliers invoices = fold accumulate invoices ({}, [])"

subsection \<open>One invoice\<close>

definition countByOutcome :: "nat \<Rightarrow> nat \<Rightarrow> funnelSummary \<Rightarrow> funnelSummary" where
  "countByOutcome cands n s =
     (let out = funnelOutcome cands
      in if out = ''none'' then s\<lparr>fs_NoCandidates := fs_NoCandidates s + n\<rparr>
         else if out = ''one'' then s\<lparr>fs_OneCandidate := fs_OneCandidate s + n\<rparr>
         else s\<lparr>fs_MultipleCandidates := fs_MultipleCandidates s + n\<rparr>)"

definition countOrdersByOutcome :: "nat \<Rightarrow> nat \<Rightarrow> ordersSummary \<Rightarrow> ordersSummary" where
  "countOrdersByOutcome cands n s =
     (let out = funnelOutcome cands
      in if out = ''none'' then s\<lparr>os_InvoicesNoOrder := os_InvoicesNoOrder s + n\<rparr>
         else if out = ''one'' then s\<lparr>os_InvoicesOneOrder := os_InvoicesOneOrder s + n\<rparr>
         else s\<lparr>os_InvoicesManyOrder := os_InvoicesManyOrder s + n\<rparr>)"

definition countOpen :: "nat \<Rightarrow> ordersSummary \<Rightarrow> ordersSummary" where
  "countOpen cands s =
     (let out = funnelOutcome cands
      in if out = ''none'' then s\<lparr>os_InvoicesNoOpen := Suc (os_InvoicesNoOpen s)\<rparr>
         else if out = ''one'' then s\<lparr>os_InvoicesOneOpen := Suc (os_InvoicesOneOpen s)\<rparr>
         else s\<lparr>os_InvoicesManyOpen := Suc (os_InvoicesManyOpen s)\<rparr>)"

text \<open>The analyses of one invoice, in the order the code makes them.\<close>

definition analyseInvoice :: "funnelContext \<Rightarrow> funnelRDA list \<Rightarrow> funnelOrder list \<Rightarrow> funnelContract list \<Rightarrow>
    (string \<rightharpoonup> funnelInvoice list) \<Rightarrow> funnelInvoice \<Rightarrow> invoiceRow" where
  "analyseInvoice ctx cands orderCands contracts series invoice =
     (let reference = resolve (fc_refs ctx) invoice (parseAFCNote (inv_note invoice));
          rules = applyFunnelRules invoice cands reference;
          lines = ix_get (fc_lines ctx) (inv_key invoice);
          orderRules = applyOrderRules invoice lines (fc_orders ctx);
          sdi = applySDI invoice (ix_get (fc_sdi ctx) (normalizeDocNumber (inv_supplierReference invoice)))
                  (fc_orders ctx) (fc_refs ctx);
          fixedFee = applyFixedFee invoice series (fc_orders ctx);
          contractTruth = truth (fc_contracts ctx) (inv_key invoice);
          contractsResult = applyContracts invoice contracts
      in \<lparr>iw_Registration = inv_registration invoice, iw_DocumentNumber = inv_documentNumber invoice,
          iw_DocumentDate = inv_documentDate invoice, iw_SupplierReference = inv_supplierReference invoice,
          iw_TaxableAmount = inv_taxableAmount invoice, iw_Lines = exportDocLines lines None,
          iw_Reference = reference, iw_Rules = rules, iw_OrderRules = orderRules, iw_SDI = sdi,
          iw_Cascade = applyCascade invoice sdi contractsResult contractTruth orderRules fixedFee orderCands cands
            (fc_orders ctx) (fc_rdaByID ctx),
          iw_Suggestion = applySuggestion invoice sdi contractsResult contractTruth orderRules fixedFee orderCands cands
            (fc_orders ctx) (fc_rdaByID ctx)\<rparr>)"

text \<open>The counters of the response and of the supplier's row after one invoice.\<close>

definition addInvoiceRow :: "funnelContext \<Rightarrow> funnelInvoice \<Rightarrow> invoiceRow \<Rightarrow> funnelResponse \<Rightarrow> funnelResponse" where
  "addInvoiceRow ctx invoice w re =
     (let linked = length (ix_get (lnk_byInvoice (fc_links ctx)) (inv_key invoice)) > 0;
          orders1 = (if linked then (re_Orders re)\<lparr>os_InvoicesLinked := Suc (os_InvoicesLinked (re_Orders re))\<rparr>
                     else re_Orders re);
          hasTruth = length (truth (fc_contracts ctx) (inv_key invoice)) > 0
      in re\<lparr>re_Reference := addReferenceOutcome (re_Reference re) (iw_Reference w),
            re_Rules := addRuleResult (re_Rules re) (iw_Rules w),
            re_OrderRules := addOrderRuleResult (re_OrderRules re) (iw_OrderRules w),
            re_SDI := addSDIResult (re_SDI re) (iw_SDI w) (iw_OrderRules w),
            re_Contracts := (if hasTruth then (re_Contracts re)\<lparr>co_InvoicesLinked := Suc (co_InvoicesLinked (re_Contracts re))\<rparr>
                             else re_Contracts re),
            re_Cascade := addCascade (re_Cascade re) (iw_Cascade w),
            re_Suggestions := addSuggestion (re_Suggestions re) (iw_Suggestion w),
            re_Orders := countOpen (or_OpenCandidates (iw_OrderRules w)) orders1\<rparr>)"

definition stepInvoice :: "funnelContext \<Rightarrow> funnelRDA list \<Rightarrow> funnelOrder list \<Rightarrow> funnelContract list \<Rightarrow>
    (string \<rightharpoonup> funnelInvoice list) \<Rightarrow> funnelInvoice \<Rightarrow> funnelResponse \<times> supplierRow \<Rightarrow> funnelResponse \<times> supplierRow" where
  "stepInvoice ctx cands orderCands contracts series invoice state =
     (let (re, row) = state;
          w = analyseInvoice ctx cands orderCands contracts series invoice
      in (addInvoiceRow ctx invoice w re,
          row\<lparr>sw_Reference := addReferenceOutcome (sw_Reference row) (iw_Reference w),
              sw_Invoices := sw_Invoices row @ [w]\<rparr>))"

subsection \<open>One supplier\<close>

text \<open>The key of \<open>sort.Slice\<close> with \<open>timeAfter\<close>: dated entries first, latest first.\<close>

definition latestFirst :: "gotime option \<Rightarrow> nat \<times> int" where
  "latestFirst d = (case d of Some t \<Rightarrow> (0, - t) | None \<Rightarrow> (1, 0))"

definition candidateRow :: "funnelContext \<Rightarrow> funnelRDA \<Rightarrow> rdaRow" where
  "candidateRow ctx c =
     \<lparr>rw_ID = rda_id c, rw_Code = rda_code c, rw_State = rda_state c, rw_Type = rda_type c,
      rw_HasOrder = hasOrderFor (fc_orders ctx) c, rw_Object = rda_object c, rw_Total = rda_total c,
      rw_Currency = rda_currency c, rw_Created = rda_created c, rw_Delivered = rda_delivered c,
      rw_Profile = (case fc_profiles ctx (rda_id c) of None \<Rightarrow> Unknown | Some p \<Rightarrow> p)\<rparr>"

definition addCandidate :: "funnelContext \<Rightarrow> funnelRDA \<Rightarrow> supplierRow \<Rightarrow> supplierRow" where
  "addCandidate ctx c row =
     row\<lparr>sw_Profiles := addFunnelProfile (sw_Profiles row) (rw_Profile (candidateRow ctx c)),
         sw_Candidates := sw_Candidates row @ [candidateRow ctx c],
         sw_ProviderName := (if sw_ProviderName row = None \<and> rda_providerName c \<noteq> ''''
                             then Some (rda_providerName c) else sw_ProviderName row)\<rparr>"

definition zeroProfiles :: profileCounts where
  "zeroProfiles = \<lparr>pc_OneTime = 0, pc_Recurring = 0, pc_Mixed = 0, pc_Unknown = 0\<rparr>"

definition zeroReference :: referenceSummary where
  "zeroReference = \<lparr>rs_NoNote = 0, rs_NoCode = 0, rs_NoRDADeclared = 0, rs_LegacyOnly = 0, rs_Unresolved = 0,
     rs_Ambiguous = 0, rs_OneRDA = 0, rs_MultipleRDAs = 0, rs_ArakAndLegacy = 0, rs_LegacyPromoted = 0,
     rs_SupplierMismatch = 0\<rparr>"

definition newRow :: "(string set \<Rightarrow> string list) \<Rightarrow> funnelContext \<Rightarrow> supplierAccumulator \<Rightarrow> funnelRDA list \<Rightarrow>
    funnelOrder list \<Rightarrow> funnelContract list \<Rightarrow> supplierRow" where
  "newRow pick ctx acc cands orderCands contracts =
     \<lparr>sw_SupplierERPID = ac_supplierID acc,
      sw_AlyanteSupplierName = (if ac_alyanteName acc \<noteq> '''' then Some (ac_alyanteName acc) else None),
      sw_ProviderName = None,
      sw_Billing = (case List.map_filter (supplierBilling pick (fc_billing ctx)) (ac_invoices acc) of
          [] \<Rightarrow> None | b # _ \<Rightarrow> Some b),
      sw_InvoiceCount = length (ac_invoices acc), sw_CandidateCount = length cands,
      sw_Outcome = funnelOutcome (length cands), sw_Profiles = zeroProfiles, sw_Reference = zeroReference,
      sw_Invoices = [], sw_Candidates = [], sw_OrderCandidateCount = length orderCands,
      sw_OrderOutcome = funnelOutcome (length orderCands),
      sw_Orders = sort_key (\<lambda>x. latestFirst (xo_Date x)) (map (exportOrder (fc_orders ctx)) orderCands),
      sw_Contracts = map (exportContract (fc_contracts ctx)) contracts\<rparr>"

definition processSupplier :: "(string set \<Rightarrow> string list) \<Rightarrow> funnelContext \<Rightarrow> string \<times> supplierAccumulator \<Rightarrow> funnelResponse \<Rightarrow> funnelResponse" where
  "processSupplier pick ctx entry re =
     (let (key, acc) = entry;
          cands = (case ac_supplierID acc of None \<Rightarrow> [] | Some s \<Rightarrow> ix_get (fc_rdasBySupplier ctx) s);
          orderCands = candidates (fc_orders ctx) (ac_supplierID acc);
          contracts = contractCandidates (fc_contracts ctx) (ac_supplierID acc);
          n = length (ac_invoices acc);
          re1 = re\<lparr>re_Summary := countByOutcome (length cands) n (re_Summary re),
                   re_Orders := countOrdersByOutcome (length orderCands) n (re_Orders re),
                   re_Contracts := (if length contracts > 0
                     then (re_Contracts re)\<lparr>co_SuppliersWithContracts := Suc (co_SuppliersWithContracts (re_Contracts re))\<rparr>
                     else re_Contracts re)\<rparr>;
          series = buildFixedFeeSeries (ix_get (fc_series ctx) key);
          (re2, row1) = fold (stepInvoice ctx cands orderCands contracts series) (ac_invoices acc)
                          (re1, newRow pick ctx acc cands orderCands contracts);
          row2 = fold (addCandidate ctx) cands row1;
          row3 = row2\<lparr>sw_Invoices := sort_key (\<lambda>w. latestFirst (iw_DocumentDate w)) (sw_Invoices row2),
                      sw_Candidates := sort_key rw_ID (sw_Candidates row2)\<rparr>
      in re2\<lparr>re_Suppliers := re_Suppliers re2 @ [row3]\<rparr>)"

subsection \<open>The funnel\<close>

definition buildContext :: "funnelInvoice list \<Rightarrow> funnelRDA list \<Rightarrow> funnelOrder list \<Rightarrow> (string, funnelDocLine) index \<Rightarrow>
    funnelOrderLinks \<Rightarrow> funnelContractIndex \<Rightarrow> (string, sdiDocument) index \<Rightarrow> (string \<rightharpoonup> supplierBillingProfile) \<Rightarrow> funnelContext" where
  "buildContext seriesBase rdas orders invoiceLines orderLinks contractIndex sdiDocs billing =
     (let refs = newFunnelReferenceIndex rdas
      in \<lparr>fc_refs = refs, fc_orders = newFunnelOrderIndex orders refs orderLinks, fc_contracts = contractIndex,
          fc_lines = invoiceLines, fc_links = orderLinks, fc_sdi = sdiDocs,
          fc_rdasBySupplier = fold (\<lambda>r m. case rda_supplierID r of None \<Rightarrow> m | Some s \<Rightarrow> ix_push s r m) rdas [],
          fc_rdaByID = fold (\<lambda>r m. m(rda_id r \<mapsto> r)) rdas Map.empty,
          fc_profiles = fold (\<lambda>r m. m(rda_id r \<mapsto> classifyFunnelRDA r)) rdas Map.empty,
          fc_series = fold (\<lambda>iv m. ix_push (supplierKey iv) iv m) seriesBase [],
          fc_billing = billing\<rparr>)"

definition initialResponse :: "funnelContext \<Rightarrow> nat \<Rightarrow> funnelRDA list \<Rightarrow> funnelOrder list \<Rightarrow> funnelResponse" where
  "initialResponse ctx invoiceCount rdas orders =
     \<lparr>re_Summary = \<lparr>fs_InvoiceCount = invoiceCount, fs_NoCandidates = 0, fs_OneCandidate = 0,
         fs_MultipleCandidates = 0, fs_RDACount = length rdas,
         fs_RDAsWithoutERPID = length (filter (\<lambda>r. rda_supplierID r = None) rdas),
         fs_DuplicateRDACodes = duplicateCodes (fc_refs ctx),
         fs_RDAsWithLegacy = rdasWithLegacyPredecessor (fc_refs ctx)\<rparr>,
      re_Chain = buildChainSummary rdas orders (fc_orders ctx),
      re_Profiles = fold (\<lambda>r c. addFunnelProfile c (classifyFunnelRDA r)) rdas zeroProfiles,
      re_Reference = zeroReference, re_Rules = rules0, re_Orders = oi_summary (fc_orders ctx),
      re_OrderRules = \<lparr>ox_LinkedInvoices = 0, ox_Match = 0, ox_Ambiguous = 0, ox_Wrong = 0, ox_None = 0,
         ox_MatchByHeader = 0, ox_MatchByLines = 0, ox_UnlinkedInvoices = 0, ox_UnlinkedProposal = 0\<rparr>,
      re_Contracts = \<lparr>co_ContractCount = ci_count (fc_contracts ctx), co_SuppliersWithContracts = 0, co_InvoicesLinked = 0\<rparr>,
      re_SDI = \<lparr>ss_InvoicesLinked = 0, ss_InvoicesNotLinked = 0, ss_LinkedByNumberOnly = 0, ss_LinkedBySuffix = 0,
         ss_WithOrderRef = 0, ss_WithUsableCode = 0, ss_WithContractRef = 0, ss_WithPeriod = 0,
         ss_WithArticleCodes = 0, ss_ResolvedToOrder = 0, ss_ResolvedToRDA = 0, ss_UnresolvedCode = 0,
         ss_LinkedInvoices = 0, ss_Match = 0, ss_Partial = 0, ss_Wrong = 0, ss_None = 0, ss_AmbiguousResolvedNow = 0\<rparr>,
      re_Cascade = newCascadeSummary, re_Suggestions = newSuggestionSummary, re_Suppliers = []\<rparr>"

definition sortCascade :: "cascadeSummary \<Rightarrow> cascadeSummary" where
  "sortCascade s =
     s\<lparr>cs_ResidualBySDI := sortReasons (cs_ResidualBySDI s), cs_ResidualByOrders := sortReasons (cs_ResidualByOrders s),
       cs_ResidualByPair := sortReasons (cs_ResidualByPair s), cs_ResidualByFixedFee := sortReasons (cs_ResidualByFixedFee s),
       cs_ResidualByContracts := sortReasons (cs_ResidualByContracts s), cs_ResidualByFamily := sortReasons (cs_ResidualByFamily s)\<rparr>"

definition supplierOrder :: "supplierRow \<Rightarrow> int \<times> int" where
  "supplierOrder row = (- int (sw_InvoiceCount row), case sw_SupplierERPID row of None \<Rightarrow> - 1 | Some i \<Rightarrow> i)"

definition buildMatchingFunnel :: "((string \<times> supplierAccumulator) list \<Rightarrow> (string \<times> supplierAccumulator) list) \<Rightarrow>
    (string set \<Rightarrow> string list) \<Rightarrow> funnelInvoice list \<Rightarrow> funnelInvoice list \<Rightarrow> funnelRDA list \<Rightarrow> funnelOrder list \<Rightarrow>
    (string, funnelDocLine) index \<Rightarrow> funnelOrderLinks \<Rightarrow> funnelContractIndex \<Rightarrow> (string, sdiDocument) index \<Rightarrow>
    (string \<rightharpoonup> supplierBillingProfile) \<Rightarrow> funnelResponse" where
  "buildMatchingFunnel visit pick invoices seriesBase rdas orders invoiceLines orderLinks contractIndex sdiDocs billing =
     (let ctx = buildContext seriesBase rdas orders invoiceLines orderLinks contractIndex sdiDocs billing;
          (seen, groups) = groupSuppliers invoices;
          re = fold (processSupplier pick ctx) (visit groups) (initialResponse ctx (card seen) rdas orders)
      in re\<lparr>re_Cascade := sortCascade (re_Cascade re),
            re_Suppliers := sort_key supplierOrder (re_Suppliers re)\<rparr>)"

subsection \<open>Request parameters\<close>

text \<open>The request is accepted exactly when the scope is known, each date given is a date, and the end does
  not precede the start; the filter then carries precisely those values.\<close>

theorem parseFunnelFilter_accepts:
  "parseFunnelFilter s a b = Inr f \<longleftrightarrow>
     parseFunnelScope s = Some (fi_scope f) \<and>
     (if a = '''' then fi_from f = None else ParseDate a = fi_from f \<and> fi_from f \<noteq> None) \<and>
     (if b = '''' then fi_to f = None else ParseDate b = fi_to f \<and> fi_to f \<noteq> None) \<and>
     (case (fi_from f, fi_to f) of (Some d, Some e) \<Rightarrow> d \<le> e | _ \<Rightarrow> True)"
  by (cases f) (auto simp: parseFunnelFilter_def parseDay_def split: option.splits sum.splits if_splits)

subsection \<open>Grouping\<close>

definition groupWeight :: "(string \<times> supplierAccumulator) list \<Rightarrow> nat" where
  "groupWeight gs = sum_list (map (\<lambda>(_, a). length (ac_invoices a)) gs)"

lemma groupWeight_update:
  "groupWeight (AList.update k a gs) + (case map_of gs k of None \<Rightarrow> 0 | Some b \<Rightarrow> length (ac_invoices b)) =
   groupWeight gs + length (ac_invoices a)"
  by (induction gs) (auto simp: groupWeight_def split: option.splits)

lemma accumulate_new:
  assumes "inv_key iv \<notin> seen"
  obtains a where "accumulate iv (seen, gs) = (insert (inv_key iv) seen, AList.update (supplierKey iv) a gs)"
    "ac_invoices a = (case map_of gs (supplierKey iv) of None \<Rightarrow> [] | Some b \<Rightarrow> ac_invoices b) @ [iv]"
proof -
  let ?b = "case map_of gs (supplierKey iv) of
      None \<Rightarrow> \<lparr>ac_supplierID = inv_supplierID iv, ac_alyanteName = '''', ac_invoices = []\<rparr> | Some a \<Rightarrow> a"
  let ?a = "?b\<lparr>ac_invoices := ac_invoices ?b @ [iv],
      ac_alyanteName := (if ac_alyanteName ?b = '''' \<and> inv_supplierName iv \<noteq> '''' then inv_supplierName iv else ac_alyanteName ?b)\<rparr>"
  have "accumulate iv (seen, gs) = (insert (inv_key iv) seen, AList.update (supplierKey iv) ?a gs)"
    using assms by (simp add: accumulate_def Let_def)
  moreover have "ac_invoices ?a = (case map_of gs (supplierKey iv) of None \<Rightarrow> [] | Some b \<Rightarrow> ac_invoices b) @ [iv]"
    by (simp split: option.split)
  ultimately show ?thesis by (rule that)
qed

lemma groupSuppliers_inv:
  "fst (groupSuppliers ivs) = inv_key ` set ivs \<and> groupWeight (snd (groupSuppliers ivs)) = card (inv_key ` set ivs)"
proof -
  have "fst (fold accumulate ivs (seen, gs)) = seen \<union> inv_key ` set ivs \<and>
    groupWeight (snd (fold accumulate ivs (seen, gs))) + card seen = groupWeight gs + card (seen \<union> inv_key ` set ivs)"
    if "finite seen" for seen gs
    using that
  proof (induction ivs arbitrary: seen gs)
    case (Cons iv ivs)
    show ?case
    proof (cases "inv_key iv \<in> seen")
      case True
      then show ?thesis using Cons.IH[OF Cons.prems, of gs] by (simp add: accumulate_def insert_absorb)
    next
      case False
      obtain a where a: "accumulate iv (seen, gs) = (insert (inv_key iv) seen, AList.update (supplierKey iv) a gs)"
        and i: "ac_invoices a = (case map_of gs (supplierKey iv) of None \<Rightarrow> [] | Some b \<Rightarrow> ac_invoices b) @ [iv]"
        using accumulate_new[OF False] .
      let ?gs = "AList.update (supplierKey iv) a gs"
      have w: "groupWeight ?gs = Suc (groupWeight gs)"
        using groupWeight_update[of "supplierKey iv" a gs] i by (simp split: option.splits)
      have "card (insert (inv_key iv) seen) = Suc (card seen)" using Cons.prems False by simp
      then show ?thesis
        using Cons.IH[of "insert (inv_key iv) seen" ?gs] Cons.prems a w by simp
    qed
  qed simp
  from this[of "{}" "[]"] show ?thesis by (simp add: groupSuppliers_def groupWeight_def)
qed

text \<open>Every group holds invoices of one supplier, under that supplier's key.\<close>

definition oneSupplier :: "string \<times> supplierAccumulator \<Rightarrow> bool" where
  "oneSupplier e \<longleftrightarrow> (\<forall>iv \<in> set (ac_invoices (snd e)). supplierKey iv = fst e)"

lemma oneSupplier_update: "\<forall>e \<in> set gs. oneSupplier e \<Longrightarrow> oneSupplier (k, a) \<Longrightarrow> \<forall>e \<in> set (AList.update k a gs). oneSupplier e"
  by (induction gs) auto

lemma groupSuppliers_members: "\<forall>e \<in> set (snd (groupSuppliers ivs)). oneSupplier e"
proof -
  have "\<forall>e \<in> set (snd (accumulate iv s)). oneSupplier e" if s: "\<forall>e \<in> set (snd s). oneSupplier e" for iv s
  proof (cases "inv_key iv \<in> fst s")
    case False
    obtain seen gs where p: "s = (seen, gs)" by (cases s)
    have "inv_key iv \<notin> seen" using False p by simp
    then obtain a where a: "accumulate iv (seen, gs) = (insert (inv_key iv) seen, AList.update (supplierKey iv) a gs)"
      and i: "ac_invoices a = (case map_of gs (supplierKey iv) of None \<Rightarrow> [] | Some b \<Rightarrow> ac_invoices b) @ [iv]"
      by (rule accumulate_new)
    have new: "oneSupplier (supplierKey iv, a)"
    proof (cases "map_of gs (supplierKey iv)")
      case None
      then show ?thesis using i by (simp add: oneSupplier_def)
    next
      case (Some b)
      then have "(supplierKey iv, b) \<in> set gs" by (rule map_of_SomeD)
      then have b: "oneSupplier (supplierKey iv, b)" using s p by simp
      have "ac_invoices a = ac_invoices b @ [iv]" using i Some by simp
      then show ?thesis using b by (simp only: oneSupplier_def fst_conv snd_conv set_append ball_Un list.set ball_simps simp_thms)
    qed
    have "\<forall>e \<in> set gs. oneSupplier e" using s p by simp
    from oneSupplier_update[OF this new] show ?thesis unfolding p a snd_conv .
  next
    case True
    then show ?thesis using s by (auto simp: accumulate_def split: prod.splits)
  qed
  then have "\<forall>e \<in> set (snd (fold accumulate ivs ({}, []))). oneSupplier e"
    by (intro fold_inv[of "\<lambda>s. \<forall>e \<in> set (snd s). oneSupplier e"]) auto
  then show ?thesis by (simp add: groupSuppliers_def)
qed

subsection \<open>The counters add up\<close>

definition referenceTotal :: "referenceSummary \<Rightarrow> nat" where
  "referenceTotal s = rs_NoNote s + rs_NoCode s + rs_NoRDADeclared s + rs_LegacyOnly s + rs_Unresolved s +
     rs_Ambiguous s + rs_OneRDA s + rs_MultipleRDAs s"

definition candidateTotal :: "funnelSummary \<Rightarrow> nat" where
  "candidateTotal s = fs_NoCandidates s + fs_OneCandidate s + fs_MultipleCandidates s"

text \<open>The number of invoices every section of the response accounts for.\<close>

definition perInvoice :: "funnelResponse \<Rightarrow> nat list" where
  "perInvoice re =
     [referenceTotal (re_Reference re),
      ru_TruthInvoices (re_Rules re) + ru_NoRDAInvoices (re_Rules re) + ru_NoTruthInvoices (re_Rules re),
      ox_LinkedInvoices (re_OrderRules re) + ox_UnlinkedInvoices (re_OrderRules re),
      ss_InvoicesLinked (re_SDI re) + ss_InvoicesNotLinked (re_SDI re),
      cs_Invoices (re_Cascade re), su_Invoices (re_Suggestions re),
      os_InvoicesNoOpen (re_Orders re) + os_InvoicesOneOpen (re_Orders re) + os_InvoicesManyOpen (re_Orders re)]"

definition perSupplier :: "funnelResponse \<Rightarrow> nat list" where
  "perSupplier re =
     [candidateTotal (re_Summary re),
      os_InvoicesNoOrder (re_Orders re) + os_InvoicesOneOrder (re_Orders re) + os_InvoicesManyOrder (re_Orders re),
      sum_list (map sw_InvoiceCount (re_Suppliers re))]"

lemma addReferenceOutcome_total [simp]: "referenceTotal (addReferenceOutcome s r) = Suc (referenceTotal s)"
  by (simp add: addReferenceOutcome_def countOutcome_def referenceTotal_def Let_def split: funnelReferenceOutcome.split)

lemma addRuleResult_total:
  "ru_TruthInvoices (addRuleResult s r) + ru_NoRDAInvoices (addRuleResult s r) + ru_NoTruthInvoices (addRuleResult s r) =
   Suc (ru_TruthInvoices s + ru_NoRDAInvoices s + ru_NoTruthInvoices s)"
  by (simp add: addRuleResult_def Let_def)

lemma addOrderRuleResult_total:
  "ox_LinkedInvoices (addOrderRuleResult s r) + ox_UnlinkedInvoices (addOrderRuleResult s r) =
   Suc (ox_LinkedInvoices s + ox_UnlinkedInvoices s)"
  by (simp add: addOrderRuleResult_def Let_def)

lemma addSDIResult_total:
  "ss_InvoicesLinked (addSDIResult s r o') + ss_InvoicesNotLinked (addSDIResult s r o') =
   Suc (ss_InvoicesLinked s + ss_InvoicesNotLinked s)"
  by (simp add: addSDIResult_def Let_def)

lemma addCascade_total: "cs_Invoices (addCascade s r) = Suc (cs_Invoices s)"
  by (simp add: addCascade_def Let_def split: prod.split)

lemma addSuggestion_total: "su_Invoices (addSuggestion s r) = Suc (su_Invoices s)"
  by (simp add: addSuggestion_def Let_def)

lemma countOpen_fields:
  "os_InvoicesNoOpen (countOpen n s) + os_InvoicesOneOpen (countOpen n s) + os_InvoicesManyOpen (countOpen n s) =
     Suc (os_InvoicesNoOpen s + os_InvoicesOneOpen s + os_InvoicesManyOpen s)"
  "os_InvoicesNoOrder (countOpen n s) = os_InvoicesNoOrder s" "os_InvoicesOneOrder (countOpen n s) = os_InvoicesOneOrder s"
  "os_InvoicesManyOrder (countOpen n s) = os_InvoicesManyOrder s"
  by (simp_all add: countOpen_def Let_def)

lemmas per_invoice_totals = addRuleResult_total addOrderRuleResult_total addSDIResult_total
  addCascade_total addSuggestion_total countOpen_fields

lemma addInvoiceRow_counts:
  "perInvoice (addInvoiceRow ctx iv w re) = map Suc (perInvoice re)"
  "perSupplier (addInvoiceRow ctx iv w re) = perSupplier re"
  by (simp_all add: addInvoiceRow_def perInvoice_def perSupplier_def per_invoice_totals Let_def)

lemma fold_stepInvoice:
  "perInvoice (fst (fold (stepInvoice ctx c o' k s) ivs (re, row))) = map ((+) (length ivs)) (perInvoice re) \<and>
   perSupplier (fst (fold (stepInvoice ctx c o' k s) ivs (re, row))) = perSupplier re \<and>
   re_Summary (fst (fold (stepInvoice ctx c o' k s) ivs (re, row))) = re_Summary re \<and>
   sw_InvoiceCount (snd (fold (stepInvoice ctx c o' k s) ivs (re, row))) = sw_InvoiceCount row"
proof (induction ivs arbitrary: re row)
  case Nil
  then show ?case by (simp add: map_idI)
next
  case (Cons iv ivs)
  obtain re' row' where s: "stepInvoice ctx c o' k s iv (re, row) = (re', row')" by (metis prod.exhaust)
  then have "perInvoice re' = map Suc (perInvoice re)" "perSupplier re' = perSupplier re"
    "re_Summary re' = re_Summary re" "sw_InvoiceCount row' = sw_InvoiceCount row"
    by (auto simp: stepInvoice_def Let_def addInvoiceRow_counts) (simp add: addInvoiceRow_def Let_def)
  then show ?case using Cons.IH[of re' row'] s by (simp add: comp_def)
qed

lemma fold_addCandidate: "sw_InvoiceCount (fold (addCandidate ctx) cs row) = sw_InvoiceCount row"
  by (induction cs arbitrary: row) (simp_all add: addCandidate_def)

lemma countByOutcome_total: "candidateTotal (countByOutcome c n s) = n + candidateTotal s"
  by (simp add: countByOutcome_def candidateTotal_def Let_def)

lemma countOrdersByOutcome_fields:
  "os_InvoicesNoOrder (countOrdersByOutcome c n s) + os_InvoicesOneOrder (countOrdersByOutcome c n s) +
     os_InvoicesManyOrder (countOrdersByOutcome c n s) =
     n + (os_InvoicesNoOrder s + os_InvoicesOneOrder s + os_InvoicesManyOrder s)"
  "os_InvoicesNoOpen (countOrdersByOutcome c n s) = os_InvoicesNoOpen s"
  "os_InvoicesOneOpen (countOrdersByOutcome c n s) = os_InvoicesOneOpen s"
  "os_InvoicesManyOpen (countOrdersByOutcome c n s) = os_InvoicesManyOpen s"
  by (simp_all add: countOrdersByOutcome_def Let_def)

lemma processSupplier_counts:
  "perInvoice (processSupplier pick ctx e re) = map ((+) (length (ac_invoices (snd e)))) (perInvoice re) \<and>
   perSupplier (processSupplier pick ctx e re) = map ((+) (length (ac_invoices (snd e)))) (perSupplier re) \<and>
   fs_InvoiceCount (re_Summary (processSupplier pick ctx e re)) = fs_InvoiceCount (re_Summary re)"
proof -
  obtain key acc where e: "e = (key, acc)" by (cases e)
  define cands where "cands = (case ac_supplierID acc of None \<Rightarrow> [] | Some s \<Rightarrow> ix_get (fc_rdasBySupplier ctx) s)"
  define oc where "oc = candidates (fc_orders ctx) (ac_supplierID acc)"
  define cc where "cc = contractCandidates (fc_contracts ctx) (ac_supplierID acc)"
  define n where "n = length (ac_invoices acc)"
  define re1 where "re1 = re\<lparr>re_Summary := countByOutcome (length cands) n (re_Summary re),
     re_Orders := countOrdersByOutcome (length oc) n (re_Orders re),
     re_Contracts := (if length cc > 0
       then (re_Contracts re)\<lparr>co_SuppliersWithContracts := Suc (co_SuppliersWithContracts (re_Contracts re))\<rparr>
       else re_Contracts re)\<rparr>"
  let ?f = "fold (stepInvoice ctx cands oc cc (buildFixedFeeSeries (ix_get (fc_series ctx) key))) (ac_invoices acc)
     (re1, newRow pick ctx acc cands oc cc)"
  obtain re2 row1 where f: "?f = (re2, row1)" by (metis prod.exhaust)
  have 1: "perInvoice re1 = perInvoice re"
    "perSupplier re1 = [n + candidateTotal (re_Summary re),
       n + (os_InvoicesNoOrder (re_Orders re) + os_InvoicesOneOrder (re_Orders re) + os_InvoicesManyOrder (re_Orders re)),
       sum_list (map sw_InvoiceCount (re_Suppliers re))]"
    by (simp_all add: re1_def perInvoice_def perSupplier_def countByOutcome_total countOrdersByOutcome_fields)
  have 2: "perInvoice re2 = map ((+) n) (perInvoice re1)" "perSupplier re2 = perSupplier re1" "sw_InvoiceCount row1 = n"
    using fold_stepInvoice[of ctx cands oc cc "buildFixedFeeSeries (ix_get (fc_series ctx) key)" "ac_invoices acc" re1
        "newRow pick ctx acc cands oc cc"] f
    by (simp_all add: n_def newRow_def)
  have 3: "re_Summary re2 = re_Summary re1"
    using fold_stepInvoice[of ctx cands oc cc "buildFixedFeeSeries (ix_get (fc_series ctx) key)" "ac_invoices acc" re1
        "newRow pick ctx acc cands oc cc"] f by simp
  define row where "row = (fold (addCandidate ctx) cands row1)\<lparr>
     sw_Invoices := sort_key (\<lambda>w. latestFirst (iw_DocumentDate w)) (sw_Invoices (fold (addCandidate ctx) cands row1)),
     sw_Candidates := sort_key rw_ID (sw_Candidates (fold (addCandidate ctx) cands row1))\<rparr>"
  have "sw_InvoiceCount row = n" by (simp add: row_def fold_addCandidate 2)
  moreover have "processSupplier pick ctx e re = re2\<lparr>re_Suppliers := re_Suppliers re2 @ [row]\<rparr>"
    unfolding processSupplier_def Let_def e
    by (simp only: prod.case cands_def [symmetric] oc_def [symmetric] cc_def [symmetric] n_def [symmetric]
        re1_def [symmetric] f row_def)
  ultimately show ?thesis
    using 1 2 3 by (simp add: perInvoice_def perSupplier_def e re1_def countByOutcome_def Let_def flip: n_def)
qed

lemma fold_processSupplier:
  "perInvoice (fold (processSupplier pick ctx) gs re) = map ((+) (groupWeight gs)) (perInvoice re) \<and>
   perSupplier (fold (processSupplier pick ctx) gs re) = map ((+) (groupWeight gs)) (perSupplier re) \<and>
   fs_InvoiceCount (re_Summary (fold (processSupplier pick ctx) gs re)) = fs_InvoiceCount (re_Summary re)"
proof (induction gs arbitrary: re)
  case Nil
  then show ?case by (simp add: groupWeight_def map_idI)
next
  case (Cons e gs)
  then show ?case
    by (simp add: processSupplier_counts comp_def groupWeight_def case_prod_beta add.assoc add.left_commute)
qed

lemma index_invoice_counters:
  "os_InvoicesNoOpen (oi_summary (newFunnelOrderIndex os refs links)) = 0"
  "os_InvoicesOneOpen (oi_summary (newFunnelOrderIndex os refs links)) = 0"
  "os_InvoicesManyOpen (oi_summary (newFunnelOrderIndex os refs links)) = 0"
  "os_InvoicesNoOrder (oi_summary (newFunnelOrderIndex os refs links)) = 0"
  "os_InvoicesOneOrder (oi_summary (newFunnelOrderIndex os refs links)) = 0"
  "os_InvoicesManyOrder (oi_summary (newFunnelOrderIndex os refs links)) = 0"
proof -
  let ?z = "\<lambda>s. os_InvoicesNoOpen s = 0 \<and> os_InvoicesOneOpen s = 0 \<and> os_InvoicesManyOpen s = 0 \<and>
    os_InvoicesNoOrder s = 0 \<and> os_InvoicesOneOrder s = 0 \<and> os_InvoicesManyOrder s = 0"
  have "?z (countOrderState l o' s)" if "?z s" for l o' s
    using that by (simp add: countOrderState_def Let_def)
  then have "?z (oi_summary (indexOrder refs o' idx))" if "?z (oi_summary idx)" for o' idx
    using that
    by (simp add: indexOrder_def indexOrderRDA_def indexOrderSupplier_def Let_def indexOrderCode_summary
        split: option.split list.split)
  then have "?z (oi_summary (newFunnelOrderIndex os refs links))"
    unfolding newFunnelOrderIndex_def by (intro fold_inv[of "\<lambda>i. ?z (oi_summary i)"]) (auto simp: orders0_def)
  then show "os_InvoicesNoOpen (oi_summary (newFunnelOrderIndex os refs links)) = 0"
    "os_InvoicesOneOpen (oi_summary (newFunnelOrderIndex os refs links)) = 0"
    "os_InvoicesManyOpen (oi_summary (newFunnelOrderIndex os refs links)) = 0"
    "os_InvoicesNoOrder (oi_summary (newFunnelOrderIndex os refs links)) = 0"
    "os_InvoicesOneOrder (oi_summary (newFunnelOrderIndex os refs links)) = 0"
    "os_InvoicesManyOrder (oi_summary (newFunnelOrderIndex os refs links)) = 0" by simp_all
qed

lemma initialResponse_counts:
  assumes "fc_orders ctx = newFunnelOrderIndex os refs links"
  shows "perInvoice (initialResponse ctx n rdas orders) = replicate 7 0"
    "perSupplier (initialResponse ctx n rdas orders) = replicate 3 0"
  by (simp_all add: initialResponse_def perInvoice_def perSupplier_def referenceTotal_def zeroReference_def
      rules0_def newCascadeSummary_def newSuggestionSummary_def candidateTotal_def assms index_invoice_counters
      numeral_eq_Suc)

lemma sum_list_mset_eq: "mset xs = mset ys \<Longrightarrow> sum_list xs = sum_list ys" for xs ys :: "nat list"
  by (metis sum_mset_sum_list)

text \<open>C1: Every invoice is accounted for exactly once by every section of the response, in whatever order
  the suppliers are visited: with duplicate keys dropped, the reference, rule, order-rule, SDI,
  cascade, suggestion and open-candidate counters each add up to the number of invoices, and so do
  the candidate counters and the invoice counts of the supplier rows.\<close>

theorem funnel_accounts:
  fixes visit pick ivs base rdas orders lines links contracts docs billing
  assumes "\<And>gs. mset (visit gs) = mset gs"
  defines "re \<equiv> buildMatchingFunnel visit pick ivs base rdas orders lines links contracts docs billing"
  shows "fs_InvoiceCount (re_Summary re) = card (inv_key ` set ivs) \<and>
    perInvoice re = replicate 7 (card (inv_key ` set ivs)) \<and>
    perSupplier re = replicate 3 (card (inv_key ` set ivs))"
proof -
  let ?ctx = "buildContext base rdas orders lines links contracts docs billing"
  obtain seen gs where g: "groupSuppliers ivs = (seen, gs)" by (cases "groupSuppliers ivs")
  have s: "seen = inv_key ` set ivs" and w0: "groupWeight gs = card (inv_key ` set ivs)"
    using groupSuppliers_inv[of ivs] g by auto
  have "groupWeight (visit gs) = groupWeight gs"
    unfolding groupWeight_def by (rule sum_list_mset_eq) (simp add: assms(1))
  then have w: "groupWeight (visit gs) = card (inv_key ` set ivs)" using w0 by simp
  define r0 where "r0 = fold (processSupplier pick ?ctx) (visit gs) (initialResponse ?ctx (card seen) rdas orders)"
  have re: "re = r0\<lparr>re_Cascade := sortCascade (re_Cascade r0), re_Suppliers := sort_key supplierOrder (re_Suppliers r0)\<rparr>"
    unfolding re_def buildMatchingFunnel_def Let_def g r0_def by simp
  have o': "fc_orders ?ctx = newFunnelOrderIndex orders (newFunnelReferenceIndex rdas) links"
    by (simp add: buildContext_def Let_def)
  have "perInvoice r0 = replicate 7 (card (inv_key ` set ivs))" "perSupplier r0 = replicate 3 (card (inv_key ` set ivs))"
    unfolding r0_def using fold_processSupplier[of pick ?ctx "visit gs" "initialResponse ?ctx (card seen) rdas orders"] w
    by (simp_all add: initialResponse_counts[OF o'])
  moreover have "perInvoice re = perInvoice r0"
    by (simp add: re perInvoice_def sortCascade_def)
  moreover have "perSupplier re = perSupplier r0"
  proof -
    have "sum_list (map sw_InvoiceCount (sort_key supplierOrder (re_Suppliers r0))) = sum_list (map sw_InvoiceCount (re_Suppliers r0))"
      by (rule sum_list_mset_eq) simp
    then show ?thesis by (simp add: re perSupplier_def)
  qed
  moreover have "fs_InvoiceCount (re_Summary r0) = card seen"
    unfolding r0_def using fold_processSupplier[of pick ?ctx "visit gs" "initialResponse ?ctx (card seen) rdas orders"]
    by (simp add: initialResponse_def)
  ultimately show ?thesis by (simp add: s re)
qed

theorem funnel_accounts_witness:
  "fs_InvoiceCount (re_Summary (buildMatchingFunnel rev sortedKeys [world_invoice, world_invoice] [] [world_rda]
     [world_order] [] world_links (newFunnelContractIndex [] []) [] Map.empty)) = 1"
  using funnel_accounts[of rev sortedKeys "[world_invoice, world_invoice]" "[]" "[world_rda]" "[world_order]" "[]"
      world_links "newFunnelContractIndex [] []" "[]" Map.empty]
  by simp

end
