(* ===== verification/FunnelLoad.thy ===== *)
theory FunnelLoad
  imports Funnel
begin

text \<open>
  Loading (\<open>loadFunnelOrders\<close>, \<open>loadFunnelRDAs\<close>, \<open>loadFunnelContracts\<close>, \<open>loadFunnelInvoiceLines\<close>,
  \<open>loadFunnelOrderLinks\<close>, \<open>loadFunnelContractLinks\<close>, \<open>loadFunnelInvoices\<close>, \<open>loadFunnelBilling\<close>): the
  loops over the rows of a query. The rows a query returns are the input; what the loops make of
  them is modelled whole. A scan error returns before anything is used and is not modelled.

  Three of the loops join a header with its rows (one SQL row per pair); they share the contract
  of the locale \<open>row_grouping\<close>.
\<close>

definition str :: "string option \<Rightarrow> string" where
  "str s = (case s of None \<Rightarrow> '''' | Some v \<Rightarrow> v)"

definition num :: "int option \<Rightarrow> int" where
  "num n = (case n of None \<Rightarrow> 0 | Some v \<Rightarrow> v)"

definition flt :: "float64 option \<Rightarrow> float64" where
  "flt x = (case x of None \<Rightarrow> 0 | Some v \<Rightarrow> v)"

definition docKey :: "int \<Rightarrow> int \<Rightarrow> string" where
  "docKey ditta reg = FormatInt ditta @ '':'' @ FormatInt reg"

subsection \<open>Joining headers and rows\<close>

text \<open>\<open>byKey\<close> and \<open>order\<close> in one list: the items in the order their keys are first seen.\<close>

definition groupRow :: "('r \<Rightarrow> 'k) \<Rightarrow> ('r \<Rightarrow> 'a) \<Rightarrow> ('r \<Rightarrow> 'a \<Rightarrow> 'a) \<Rightarrow> 'r \<Rightarrow> ('k \<times> 'a) list \<Rightarrow> ('k \<times> 'a) list" where
  "groupRow key new add r m =
     (let item = (case map_of m (key r) of None \<Rightarrow> new r | Some a \<Rightarrow> a)
      in AList.update (key r) (add r item) m)"

definition groupRows :: "('r \<Rightarrow> 'k) \<Rightarrow> ('r \<Rightarrow> 'a) \<Rightarrow> ('r \<Rightarrow> 'a \<Rightarrow> 'a) \<Rightarrow> 'r list \<Rightarrow> ('k \<times> 'a) list" where
  "groupRows key new add rows = fold (groupRow key new add) rows []"

text \<open>
  What a join promises: an item answers to the key of its rows, and adding a row appends to its
  lines without touching the rest (the header).
\<close>

locale row_grouping =
  fixes key :: "'r \<Rightarrow> 'k"
    and new :: "'r \<Rightarrow> 'a"
    and add :: "'r \<Rightarrow> 'a \<Rightarrow> 'a"
    and header :: "'a \<Rightarrow> 'h"
    and ident :: "'a \<Rightarrow> 'k"
    and lines_of :: "'a \<Rightarrow> 'l list"
    and line :: "'r \<Rightarrow> 'l list"
  assumes new_ident: "ident (new r) = key r"
    and new_lines: "lines_of (new r) = []"
    and add_ident: "ident (add r a) = ident a"
    and add_header: "header (add r a) = header a"
    and add_lines: "lines_of (add r a) = lines_of a @ line r"
begin

lemma map_of_groupRow:
  "map_of (groupRow key new add r m) k =
     (if k = key r then Some (add r (case map_of m k of None \<Rightarrow> new r | Some a \<Rightarrow> a)) else map_of m k)"
  by (simp add: groupRow_def Let_def update_conv')

lemma map_of_fold:
  "map_of (fold (groupRow key new add) rows m) k =
    (case filter (\<lambda>r. key r = k) rows of
       [] \<Rightarrow> map_of m k
     | r # rs \<Rightarrow> Some (fold add (r # rs) (case map_of m k of None \<Rightarrow> new r | Some a \<Rightarrow> a)))"
proof (induction rows arbitrary: m)
  case (Cons r rows)
  show ?case
    unfolding fold_simps(2) Cons.IH map_of_groupRow by (auto split: list.split)
qed simp

lemma fold_add:
  "header (fold add rs a) = header a" "ident (fold add rs a) = ident a"
  "lines_of (fold add rs a) = lines_of a @ concat (map line rs)"
  by (induction rs arbitrary: a) (simp_all add: add_header add_ident add_lines)

lemma grouped:
  "map_of (groupRows key new add rows) k = Some a \<longleftrightarrow>
    (\<exists>r rs. filter (\<lambda>r. key r = k) rows = r # rs \<and> a = fold add (r # rs) (new r))"
  unfolding groupRows_def map_of_fold by (auto split: list.split)

lemma grouped_facts:
  assumes "map_of (groupRows key new add rows) k = Some a"
  shows "ident a = k \<and> lines_of a = concat (map line (filter (\<lambda>r. key r = k) rows)) \<and>
    (\<exists>r \<in> set rows. key r = k \<and> header a = header (new r))"
proof -
  obtain r rs where r: "filter (\<lambda>r. key r = k) rows = r # rs" "a = fold add (r # rs) (new r)"
    using assms unfolding grouped by blast
  then have "r \<in> set (filter (\<lambda>r. key r = k) rows)" by simp
  then have "r \<in> set rows" "key r = k" by auto
  then show ?thesis
    using r by (auto simp only: fold_add new_ident new_lines append_Nil)
qed

lemma grouped_distinct: "distinct (map fst (groupRows key new add rows))"
  unfolding groupRows_def
  by (rule fold_inv) (auto simp: groupRow_def Let_def distinct_update)

lemma grouped_keys: "fst ` set (groupRows key new add rows) = key ` set rows"
proof -
  have "fst ` set (fold (groupRow key new add) rows m) = fst ` set m \<union> key ` set rows" for m
    by (induction rows arbitrary: m) (auto simp: groupRow_def Let_def dom_update)
  then show ?thesis by (simp add: groupRows_def)
qed

lemma item_of:
  assumes "a \<in> snd ` set (groupRows key new add rows)"
  shows "map_of (groupRows key new add rows) (ident a) = Some a"
proof -
  obtain k where k: "(k, a) \<in> set (groupRows key new add rows)" using assms by auto
  then have m: "map_of (groupRows key new add rows) k = Some a"
    by (rule map_of_is_SomeI[OF grouped_distinct])
  with grouped_facts[OF m] show ?thesis by simp
qed

end

subsection \<open>Orders\<close>

record orderScan =
  os_ditta :: int
  os_reg :: int
  os_docCode :: "string option"
  os_series :: "string option"
  os_number :: "string option"
  os_date :: "gotime option"
  os_supplier :: "int option"
  os_origRef :: "string option"
  os_total :: "float64 option"
  os_progressive :: "int option"
  os_rowType :: "int option"
  os_article :: "string option"
  os_description :: "string option"
  os_qty :: "float64 option"
  os_price :: "float64 option"
  os_net :: "float64 option"

definition orderRDACode :: "string \<Rightarrow> noteCode option \<times> bool" where
  "orderRDACode origRef =
     (let note = parseAFCNote origRef
      in case pn_arakCodes note of
           c # _ \<Rightarrow> (Some c, False)
         | [] \<Rightarrow> (case pn_legacyCodes note of c # _ \<Rightarrow> (Some c, True) | [] \<Rightarrow> (None, False)))"

definition newOrder :: "orderScan \<Rightarrow> funnelOrder" where
  "newOrder r =
     (let origRef = TrimSpace (str (os_origRef r)); (code, legacy) = orderRDACode origRef
      in \<lparr>ord_key = docKey (os_ditta r) (os_reg r), ord_reg = os_reg r, ord_docCode = TrimSpace (str (os_docCode r)),
          ord_series = TrimSpace (str (os_series r)), ord_number = TrimSpace (str (os_number r)),
          ord_date = os_date r, ord_supplierID = os_supplier r, ord_origRef = origRef, ord_total = os_total r,
          ord_lines = [], ord_rdaCode = code, ord_rdaLegacy = legacy\<rparr>)"

definition docLine :: "int \<Rightarrow> int option \<Rightarrow> string option \<Rightarrow> string option \<Rightarrow> float64 option \<Rightarrow> float64 option \<Rightarrow> float64 option \<Rightarrow> funnelDocLine" where
  "docLine progressive rowType article description qty price net =
     \<lparr>dl_progressive = progressive, dl_rowType = rowType, dl_article = TrimSpace (str article),
      dl_description = TrimSpace (str description), dl_qty = qty, dl_price = price, dl_net = net\<rparr>"

definition orderScanLine :: "orderScan \<Rightarrow> funnelDocLine list" where
  "orderScanLine r = (case os_progressive r of None \<Rightarrow> []
     | Some p \<Rightarrow> [docLine p (os_rowType r) (os_article r) (os_description r) (os_qty r) (os_price r) (os_net r)])"

definition addOrderRow :: "orderScan \<Rightarrow> funnelOrder \<Rightarrow> funnelOrder" where
  "addOrderRow r item = item\<lparr>ord_lines := ord_lines item @ orderScanLine r\<rparr>"

definition loadFunnelOrders :: "orderScan list \<Rightarrow> funnelOrder list" where
  "loadFunnelOrders rows = map snd (groupRows (\<lambda>r. docKey (os_ditta r) (os_reg r)) newOrder addOrderRow rows)"

interpretation order_rows: row_grouping "\<lambda>r. docKey (os_ditta r) (os_reg r)" newOrder addOrderRow
  "\<lambda>o'. o'\<lparr>ord_lines := []\<rparr>" ord_key ord_lines orderScanLine
  by unfold_locales (simp_all add: newOrder_def addOrderRow_def Let_def split: prod.split)

text \<open>The loaded orders have distinct keys, one for every document in the result, and each carries in
  order exactly the rows of its document that have a progressive number.\<close>

theorem loadFunnelOrders_spec:
  "distinct (map ord_key (loadFunnelOrders rows)) \<and>
   ord_key ` set (loadFunnelOrders rows) = (\<lambda>r. docKey (os_ditta r) (os_reg r)) ` set rows \<and>
   list_all (\<lambda>o'. ord_lines o' = concat (map orderScanLine
      (filter (\<lambda>r. docKey (os_ditta r) (os_reg r) = ord_key o') rows))) (loadFunnelOrders rows)"
proof -
  let ?g = "groupRows (\<lambda>r. docKey (os_ditta r) (os_reg r)) newOrder addOrderRow rows"
  have m: "map_of ?g (ord_key o') = Some o'" if "o' \<in> set (loadFunnelOrders rows)" for o'
    using that order_rows.item_of by (auto simp: loadFunnelOrders_def)
  have k: "map ord_key (loadFunnelOrders rows) = map fst ?g"
  proof -
    have "ord_key a = k" if "(k, a) \<in> set ?g" for k a
      using order_rows.grouped_facts[OF map_of_is_SomeI[OF order_rows.grouped_distinct that]] by blast
    then show ?thesis by (auto simp: loadFunnelOrders_def)
  qed
  have "ord_key ` set (loadFunnelOrders rows) = (\<lambda>r. docKey (os_ditta r) (os_reg r)) ` set rows"
    using order_rows.grouped_keys[of rows] k by (metis list.set_map)
  moreover have "ord_lines o' = concat (map orderScanLine (filter (\<lambda>r. docKey (os_ditta r) (os_reg r) = ord_key o') rows))"
    if "o' \<in> set (loadFunnelOrders rows)" for o'
    using order_rows.grouped_facts[OF m[OF that]] by blast
  ultimately show ?thesis
    using k order_rows.grouped_distinct[of rows] by (simp add: list_all_iff)
qed

subsection \<open>Contracts\<close>

record contractScan =
  kt_ditta :: int
  kt_reg :: int
  kt_series :: "string option"
  kt_number :: "string option"
  kt_date :: "gotime option"
  kt_supplier :: "int option"
  kt_total :: "float64 option"
  kt_progressive :: "int option"
  kt_rowType :: "int option"
  kt_article :: "string option"
  kt_description :: "string option"
  kt_qty :: "float64 option"
  kt_price :: "float64 option"
  kt_net :: "float64 option"

definition newContract :: "contractScan \<Rightarrow> funnelContract" where
  "newContract r =
     \<lparr>ct_key = docKey (kt_ditta r) (kt_reg r), ct_reg = kt_reg r, ct_series = TrimSpace (str (kt_series r)),
      ct_number = TrimSpace (str (kt_number r)), ct_date = kt_date r, ct_supplierID = kt_supplier r,
      ct_total = kt_total r, ct_lines = []\<rparr>"

definition contractScanLine :: "contractScan \<Rightarrow> funnelDocLine list" where
  "contractScanLine r = (case kt_progressive r of None \<Rightarrow> []
     | Some p \<Rightarrow> [docLine p (kt_rowType r) (kt_article r) (kt_description r) (kt_qty r) (kt_price r) (kt_net r)])"

definition addContractRow :: "contractScan \<Rightarrow> funnelContract \<Rightarrow> funnelContract" where
  "addContractRow r item = item\<lparr>ct_lines := ct_lines item @ contractScanLine r\<rparr>"

definition loadFunnelContracts :: "contractScan list \<Rightarrow> funnelContract list" where
  "loadFunnelContracts rows = map snd (groupRows (\<lambda>r. docKey (kt_ditta r) (kt_reg r)) newContract addContractRow rows)"

interpretation contract_rows: row_grouping "\<lambda>r. docKey (kt_ditta r) (kt_reg r)" newContract addContractRow
  "\<lambda>c. c\<lparr>ct_lines := []\<rparr>" ct_key ct_lines contractScanLine
  by unfold_locales (simp_all add: newContract_def addContractRow_def)

record contractLinkScan =
  kl_ditta :: int
  kl_invoiceReg :: "string option"
  kl_contractReg :: "string option"

definition loadFunnelContractLinks :: "contractLinkScan list \<Rightarrow> (string, string) index" where
  "loadFunnelContractLinks rows =
     fold (\<lambda>r m. let prefix = FormatInt (kl_ditta r) @ '':''
                 in ix_push (prefix @ TrimSpace (str (kl_invoiceReg r))) (prefix @ TrimSpace (str (kl_contractReg r))) m)
       rows []"

subsection \<open>Purchase requests\<close>

record rdaScan =
  qs_id :: int
  qs_code :: "string option"
  qs_state :: "string option"
  qs_type :: "string option"
  qs_object :: "string option"
  qs_total :: "float64 option"
  qs_currency :: "string option"
  qs_created :: "gotime option"
  qs_delivered :: "gotime option"
  qs_supplier :: "int option"
  qs_providerName :: "string option"
  qs_rowID :: "int option"
  qs_line :: funnelRDALine

definition newRDA :: "rdaScan \<Rightarrow> funnelRDA" where
  "newRDA r =
     \<lparr>rda_id = qs_id r, rda_code = str (qs_code r), rda_state = str (qs_state r), rda_type = str (qs_type r),
      rda_object = str (qs_object r), rda_total = qs_total r, rda_currency = str (qs_currency r),
      rda_created = qs_created r, rda_delivered = qs_delivered r, rda_supplierID = qs_supplier r,
      rda_providerName = str (qs_providerName r), rda_lines = []\<rparr>"

text \<open>\<open>item.lines[rowID] = line\<close>: a row seen again replaces the earlier one.\<close>

definition addRDARow :: "rdaScan \<Rightarrow> funnelRDA \<Rightarrow> funnelRDA" where
  "addRDARow r item =
     (case qs_rowID r of None \<Rightarrow> item
      | Some i \<Rightarrow> item\<lparr>rda_lines := AList.update i (qs_line r) (rda_lines item)\<rparr>)"

definition loadFunnelRDAs :: "rdaScan list \<Rightarrow> funnelRDA list" where
  "loadFunnelRDAs rows = map snd (groupRows qs_id newRDA addRDARow rows)"

text \<open>The rows of an RDA are a map; the contract of the join is stated on the header alone.\<close>

interpretation rda_rows: row_grouping qs_id newRDA addRDARow "\<lambda>r. r\<lparr>rda_lines := []\<rparr>" rda_id
  "\<lambda>_. [] :: unit list" "\<lambda>_. []"
  by unfold_locales (simp_all add: newRDA_def addRDARow_def split: option.split)

text \<open>The loaded requests have distinct ids, one for every id in the result, and the rows of each are
  keyed without duplicates by the row ids that occur with its id.\<close>

theorem loadFunnelRDAs_spec:
  "distinct (map rda_id (loadFunnelRDAs rows)) \<and> rda_id ` set (loadFunnelRDAs rows) = qs_id ` set rows \<and>
   list_all (\<lambda>r. distinct (map fst (rda_lines r)) \<and>
     fst ` set (rda_lines r) = {i. \<exists>q \<in> set rows. qs_id q = rda_id r \<and> qs_rowID q = Some i}) (loadFunnelRDAs rows)"
proof -
  let ?g = "groupRows qs_id newRDA addRDARow rows"
  have k: "map rda_id (loadFunnelRDAs rows) = map fst ?g"
  proof -
    have "rda_id a = k" if "(k, a) \<in> set ?g" for k a
      using rda_rows.grouped_facts[OF map_of_is_SomeI[OF rda_rows.grouped_distinct that]] by blast
    then show ?thesis by (auto simp: loadFunnelRDAs_def)
  qed
  have keys: "rda_id ` set (loadFunnelRDAs rows) = qs_id ` set rows"
    using rda_rows.grouped_keys[of rows] k by (metis list.set_map)
  have lines: "fst ` set (rda_lines (fold addRDARow rs a)) = fst ` set (rda_lines a) \<union> {i. \<exists>q \<in> set rs. qs_rowID q = Some i} \<and>
    (distinct (map fst (rda_lines a)) \<longrightarrow> distinct (map fst (rda_lines (fold addRDARow rs a))))" for rs a
    by (induction rs arbitrary: a) (auto simp: addRDARow_def dom_update distinct_update split: option.split)
  have "distinct (map fst (rda_lines r)) \<and>
     fst ` set (rda_lines r) = {i. \<exists>q \<in> set rows. qs_id q = rda_id r \<and> qs_rowID q = Some i}"
    if "r \<in> set (loadFunnelRDAs rows)" for r
  proof -
    have "map_of ?g (rda_id r) = Some r"
      using that rda_rows.item_of by (auto simp: loadFunnelRDAs_def)
    then obtain q qs where q: "filter (\<lambda>q. qs_id q = rda_id r) rows = q # qs" "r = fold addRDARow (q # qs) (newRDA q)"
      unfolding rda_rows.grouped by blast
    have "set (q # qs) = {x \<in> set rows. qs_id x = rda_id r}" using q(1) by (metis set_filter)
    then show ?thesis
      using lines[of "q # qs" "newRDA q"] unfolding q(2) [symmetric] by (auto simp: newRDA_def)
  qed
  then show ?thesis
    using k keys rda_rows.grouped_distinct[of rows] by (simp add: list_all_iff)
qed

subsection \<open>Invoices, their lines and the links\<close>

record invoiceScan =
  vs_ditta :: int
  vs_registration :: int
  vs_supplier :: "int option"
  vs_supplierName :: "string option"
  vs_documentNumber :: "string option"
  vs_documentDate :: "gotime option"
  vs_supplierReference :: "string option"
  vs_note :: "string option"
  vs_taxableAmount :: "float64 option"
  vs_vat :: "string option"
  vs_vatForeign :: "string option"
  vs_fiscalCode :: "string option"

definition loadFunnelInvoices :: "invoiceScan list \<Rightarrow> funnelInvoice list" where
  "loadFunnelInvoices rows =
     map (\<lambda>r. \<lparr>inv_key = docKey (vs_ditta r) (vs_registration r), inv_registration = vs_registration r,
              inv_supplierID = vs_supplier r, inv_supplierName = str (vs_supplierName r),
              inv_documentNumber = str (vs_documentNumber r), inv_documentDate = vs_documentDate r,
              inv_supplierReference = str (vs_supplierReference r), inv_note = str (vs_note r),
              inv_taxableAmount = vs_taxableAmount r, inv_supplierVAT = str (vs_vat r),
              inv_supplierVATForeign = str (vs_vatForeign r), inv_fiscalCode = str (vs_fiscalCode r)\<rparr>) rows"

record lineScan =
  ns_ditta :: int
  ns_reg :: int
  ns_progressive :: "int option"
  ns_rowType :: "int option"
  ns_article :: "string option"
  ns_description :: "string option"
  ns_qty :: "float64 option"
  ns_price :: "float64 option"
  ns_net :: "float64 option"

definition loadFunnelInvoiceLines :: "lineScan list \<Rightarrow> (string, funnelDocLine) index" where
  "loadFunnelInvoiceLines rows =
     map (\<lambda>(k, ls). (k, sort_key dl_progressive ls))
       (fold (\<lambda>r m. ix_push (docKey (ns_ditta r) (ns_reg r))
                (docLine (num (ns_progressive r)) (ns_rowType r) (ns_article r) (ns_description r)
                   (ns_qty r) (ns_price r) (ns_net r)) m) rows [])"

record linkScan =
  ks_ditta :: int
  ks_invoiceReg :: "string option"
  ks_invoiceRow :: "int option"
  ks_orderReg :: "string option"
  ks_orderRow :: "int option"
  ks_qty :: "float64 option"

definition addLinkScan :: "linkScan \<Rightarrow> funnelOrderLinks \<Rightarrow> funnelOrderLinks" where
  "addLinkScan r links =
     (let orderRef = TrimSpace (str (ks_orderReg r))
      in if orderRef = '''' then links
         else
           let prefix = FormatInt (ks_ditta r) @ '':'';
               key = \<lparr>lk_order = prefix @ orderRef, lk_row = num (ks_orderRow r)\<rparr>;
               link = \<lparr>ll_invoiceRow = num (ks_invoiceRow r), ll_line = key, ll_qty = flt (ks_qty r)\<rparr>;
               invoiceKey = prefix @ TrimSpace (str (ks_invoiceReg r))
           in links\<lparr>lnk_consumed := (lnk_consumed links)(key := fadd (lnk_consumed links key) (ll_qty link)),
                    lnk_byInvoice := ix_push invoiceKey link (lnk_byInvoice links)\<rparr>)"

definition loadFunnelOrderLinks :: "linkScan list \<Rightarrow> funnelOrderLinks" where
  "loadFunnelOrderLinks rows = fold addLinkScan rows \<lparr>lnk_consumed = (\<lambda>_. 0), lnk_byInvoice = []\<rparr>"

record billingScan =
  bs_vat :: "string option"
  bs_documents :: nat
  bs_months :: nat
  bs_median :: "float64 option"
  bs_repeat :: "float64 option"
  bs_period :: "float64 option"
  bs_code :: "float64 option"

definition loadFunnelBilling :: "billingScan list \<Rightarrow> (string \<rightharpoonup> supplierBillingProfile)" where
  "loadFunnelBilling rows =
     fold (\<lambda>r m.
        let b = \<lparr>sb_Documents = bs_documents r, sb_Months = bs_months r,
                 sb_PerMonth = (if bs_months r > 0 then fdiv (float_of_int (int (bs_documents r))) (float_of_int (int (bs_months r))) else 0),
                 sb_MedianLines = flt (bs_median r), sb_RepeatShare = flt (bs_repeat r),
                 sb_PeriodShare = flt (bs_period r), sb_CodeShare = flt (bs_code r)\<rparr>;
            k = fiscalKey (str (bs_vat r))
        in if k \<noteq> '''' then m(k \<mapsto> b) else m) rows Map.empty"

subsection \<open>An invoice is judged as if it were not linked yet\<close>

definition linkKey :: "linkScan \<Rightarrow> orderLineKey" where
  "linkKey r = \<lparr>lk_order = FormatInt (ks_ditta r) @ '':'' @ TrimSpace (str (ks_orderReg r)), lk_row = num (ks_orderRow r)\<rparr>"

definition linkInvoice :: "linkScan \<Rightarrow> string" where
  "linkInvoice r = FormatInt (ks_ditta r) @ '':'' @ TrimSpace (str (ks_invoiceReg r))"

definition isLink :: "linkScan \<Rightarrow> bool" where
  "isLink r \<longleftrightarrow> TrimSpace (str (ks_orderReg r)) \<noteq> ''''"

lemma addLinkScan_fields [frame_simps]:
  "lnk_consumed (addLinkScan r l) k =
     (if isLink r \<and> linkKey r = k then fadd (lnk_consumed l k) (flt (ks_qty r)) else lnk_consumed l k)"
  "ix_get (lnk_byInvoice (addLinkScan r l)) i = ix_get (lnk_byInvoice l) i @
     (if isLink r \<and> linkInvoice r = i then [\<lparr>ll_invoiceRow = num (ks_invoiceRow r), ll_line = linkKey r, ll_qty = flt (ks_qty r)\<rparr>] else [])"
  by (auto simp: addLinkScan_def isLink_def linkKey_def linkInvoice_def Let_def idx_simps)

definition sumFloat :: "float64 list \<Rightarrow> float64 \<Rightarrow> float64" where
  "sumFloat qs acc = fold (\<lambda>q acc. fadd acc q) qs acc"

lemma loaded_consumed:
  "lnk_consumed (loadFunnelOrderLinks rows) k =
     sumFloat (map (\<lambda>r. flt (ks_qty r)) (filter (\<lambda>r. isLink r \<and> linkKey r = k) rows)) 0"
proof -
  have "lnk_consumed (fold addLinkScan rows l) k =
    sumFloat (map (\<lambda>r. flt (ks_qty r)) (filter (\<lambda>r. isLink r \<and> linkKey r = k) rows)) (lnk_consumed l k)" for l
    by (induction rows arbitrary: l) (simp_all add: sumFloat_def frame_simps)
  then show ?thesis by (simp add: loadFunnelOrderLinks_def)
qed

lemma own_fold: "own l i k = sumFloat (map ll_qty (filter (\<lambda>x. ll_line x = k) (ix_get (lnk_byInvoice l) i))) 0"
proof -
  have "fold (\<lambda>k out. out(ll_line k := fadd (out (ll_line k)) (ll_qty k))) xs out k =
    sumFloat (map ll_qty (filter (\<lambda>x. ll_line x = k) xs)) (out k)" for xs out
    by (induction xs arbitrary: out) (simp_all add: sumFloat_def)
  then show ?thesis by (simp add: own_def)
qed

lemma loaded_own:
  "own (loadFunnelOrderLinks rows) i k =
     sumFloat (map (\<lambda>r. flt (ks_qty r)) (filter (\<lambda>r. isLink r \<and> linkKey r = k \<and> linkInvoice r = i) rows)) 0"
proof -
  have "ix_get (lnk_byInvoice (fold addLinkScan rows l)) i = ix_get (lnk_byInvoice l) i @
    map (\<lambda>r. \<lparr>ll_invoiceRow = num (ks_invoiceRow r), ll_line = linkKey r, ll_qty = flt (ks_qty r)\<rparr>)
      (filter (\<lambda>r. isLink r \<and> linkInvoice r = i) rows)" for l
    by (induction rows arbitrary: l) (simp_all add: frame_simps)
  then have "ix_get (lnk_byInvoice (loadFunnelOrderLinks rows)) i =
    map (\<lambda>r. \<lparr>ll_invoiceRow = num (ks_invoiceRow r), ll_line = linkKey r, ll_qty = flt (ks_qty r)\<rparr>)
      (filter (\<lambda>r. isLink r \<and> linkInvoice r = i) rows)"
    by (simp add: loadFunnelOrderLinks_def idx_simps)
  then show ?thesis
    by (simp add: own_fold filter_map comp_def) (metis (no_types, lifting) filter_cong conj_assoc conj_commute)
qed

lemma sumFloat_exact:
  "sum_list ns + a < 2 ^ 53 \<Longrightarrow> sumFloat (map of_nat ns) (of_nat a) = of_nat (a + sum_list ns)"
proof (induction ns arbitrary: a)
  case (Cons n ns)
  have "fl (of_int (int (a + n))) = of_int (int (a + n))"
    by (rule fl_of_int) (use Cons.prems in simp)
  then have "fadd (of_nat a) (of_nat n) = of_nat (a + n)" by (simp add: fadd_def)
  then show ?case using Cons.IH[of "a + n"] Cons.prems by (simp add: sumFloat_def add.assoc)
qed (simp add: sumFloat_def)

lemma sum_filter_split:
  "sum_list (map f (filter P xs)) =
     sum_list (map f (filter (\<lambda>x. P x \<and> Q x) xs)) + sum_list (map f (filter (\<lambda>x. P x \<and> \<not> Q x) xs))"
  for f :: "'a \<Rightarrow> nat"
  by (induction xs) auto

lemma sum_filter_le: "sum_list (map f (filter (\<lambda>x. P x \<and> Q x) xs)) \<le> sum_list (map f (filter P xs))"
  for f :: "'a \<Rightarrow> nat"
  by (induction xs) auto

lemma filter_qty:
  assumes "\<And>r. r \<in> set rows \<Longrightarrow> flt (ks_qty r) = of_nat (n r)" "sum_list (map n (filter P rows)) < 2 ^ 53"
  shows "sumFloat (map (\<lambda>r. flt (ks_qty r)) (filter P rows)) 0 = of_nat (sum_list (map n (filter P rows)))"
proof -
  have "map (\<lambda>r. flt (ks_qty r)) (filter P rows) = map of_nat (map n (filter P rows))"
    by (simp add: assms(1))
  then show ?thesis
    using sumFloat_exact[of "map n (filter P rows)" 0] assms(2) by (simp only: of_nat_0 add_0)
qed

text \<open>When the linked quantities and the ordered one are whole numbers (below \<open>2 ^ 52\<close> in total), the
  residual of an order row for an invoice is exactly the ordered quantity less what the other
  invoices took from the row: the invoice is judged as if it were not linked yet.\<close>

theorem residual_excludes_own:
  fixes rows n q l ord i
  defines "k \<equiv> \<lparr>lk_order = ord_key ord, lk_row = dl_progressive l\<rparr>"
  assumes n: "\<And>r. r \<in> set rows \<Longrightarrow> flt (ks_qty r) = of_nat (n r)"
    and total: "sum_list (map n (filter isLink rows)) < 2 ^ 52"
    and q: "dl_qty l = Some (of_nat q)" "q < 2 ^ 52"
  shows "residual (loadFunnelOrderLinks rows) ord l (own (loadFunnelOrderLinks rows) i) =
    Some (of_int (int q - int (sum_list (map n (filter (\<lambda>r. isLink r \<and> linkKey r = k \<and> linkInvoice r \<noteq> i) rows)))))"
proof -
  let ?P = "\<lambda>r. isLink r \<and> linkKey r = k"
  let ?A = "sum_list (map n (filter ?P rows))"
  let ?B = "sum_list (map n (filter (\<lambda>r. ?P r \<and> linkInvoice r = i) rows))"
  let ?C = "sum_list (map n (filter (\<lambda>r. ?P r \<and> linkInvoice r \<noteq> i) rows))"
  have abc: "?A = ?B + ?C" by (rule sum_filter_split)
  have a: "?A < 2 ^ 52" using sum_filter_le[of n isLink "\<lambda>r. linkKey r = k" rows] total by simp
  have c: "lnk_consumed (loadFunnelOrderLinks rows) k = of_nat ?A"
    unfolding loaded_consumed by (rule filter_qty) (use n a in auto)
  have "own (loadFunnelOrderLinks rows) i k =
    sumFloat (map (\<lambda>r. flt (ks_qty r)) (filter (\<lambda>r. ?P r \<and> linkInvoice r = i) rows)) 0"
    by (simp add: loaded_own conj_assoc)
  also have "\<dots> = of_nat ?B" by (rule filter_qty) (use n a abc in auto)
  finally have o': "own (loadFunnelOrderLinks rows) i k = of_nat ?B" .
  have "fsub (of_nat q) (of_nat ?A) = of_int (int q - int ?A)"
    using fl_of_int[of "int q - int ?A"] a q(2) by (simp add: fsub_def)
  moreover have "fadd (of_int (int q - int ?A)) (of_nat ?B) = of_int (int q - int ?A + int ?B)"
    using fl_of_int[of "int q - int ?A + int ?B"] a q(2) abc by (simp add: fadd_def)
  moreover have "int q - int ?A + int ?B = int q - int ?C" using abc by simp
  ultimately show ?thesis
    using q(1) c o' by (simp add: residual_def Let_def k_def [symmetric] conj_assoc)
qed

definition world_link :: "string \<Rightarrow> nat \<Rightarrow> linkScan" where
  "world_link reg n = \<lparr>ks_ditta = 1, ks_invoiceReg = Some reg, ks_invoiceRow = Some 1, ks_orderReg = Some ''100'',
     ks_orderRow = Some 1, ks_qty = Some (of_nat n)\<rparr>"

theorem residual_excludes_own_witness:
  "residual (loadFunnelOrderLinks [world_link ''200'' 1, world_link ''201'' 2]) world_order (hd (ord_lines world_order))
     (own (loadFunnelOrderLinks [world_link ''200'' 1, world_link ''201'' 2]) ''1:200'') = Some 10"
proof -
  let ?rows = "[world_link ''200'' 1, world_link ''201'' 2]"
  have f: "filter isLink ?rows = ?rows" by code_simp
  have g: "filter (\<lambda>r. isLink r \<and> linkKey r = \<lparr>lk_order = ord_key world_order, lk_row = dl_progressive (hd (ord_lines world_order))\<rparr> \<and>
      linkInvoice r \<noteq> ''1:200'') ?rows = [world_link ''201'' 2]" by code_simp
  have "residual (loadFunnelOrderLinks ?rows) world_order (hd (ord_lines world_order)) (own (loadFunnelOrderLinks ?rows) ''1:200'') =
    Some (of_int (int 12 - int (sum_list (map (\<lambda>r. if ks_invoiceReg r = Some ''200'' then 1 else (2::nat))
      (filter (\<lambda>r. isLink r \<and> linkKey r = \<lparr>lk_order = ord_key world_order, lk_row = dl_progressive (hd (ord_lines world_order))\<rparr> \<and>
        linkInvoice r \<noteq> ''1:200'') ?rows)))))"
  proof (rule residual_excludes_own)
    show "flt (ks_qty r) = of_nat (if ks_invoiceReg r = Some ''200'' then 1 else (2::nat))" if "r \<in> set ?rows" for r
      using that by (auto simp: world_link_def flt_def)
    show "sum_list (map (\<lambda>r. if ks_invoiceReg r = Some ''200'' then 1 else (2::nat)) (filter isLink ?rows)) < (2::nat) ^ 52"
      unfolding f by (simp add: world_link_def)
    show "dl_qty (hd (ord_lines world_order)) = Some (of_nat 12)" by (simp add: world_order_def)
  qed simp
  then show ?thesis unfolding g by (simp add: world_link_def)
qed

end
