(* ===== verification/GoNumbers.thy ===== *)
theory GoNumbers
  imports GoStrings GoFloat
begin

text \<open>
  The number conversions of Go's \<open>strconv\<close>: a \<open>float64\<close> that may be infinite or not a number,
  \<open>ParseFloat\<close>, \<open>FormatFloat(v, 'f', -1, 64)\<close> (the shortest decimal that reads back as the value),
  \<open>ParseInt\<close>, \<open>ParseBool\<close>, and the conversion of a float to \<open>int64\<close>. A hexadecimal mantissa is not
  modelled (it reads as a syntax error), nor is the sign of zero.
\<close>

subsection \<open>Floats with the special values\<close>

datatype number = Fin float64 | PosInf | NegInf | NaN

definition maxFloat :: rat where "maxFloat = 2 ^ 1024"

definition to_number :: "rat \<Rightarrow> number" where
  "to_number q = (let r = fl q in if r \<ge> maxFloat then PosInf else if r \<le> - maxFloat then NegInf else Fin r)"

text \<open>The comparisons with zero the code makes: NaN compares false.\<close>

fun positive :: "number \<Rightarrow> bool" where
  "positive (Fin q) = (0 < q)"
| "positive PosInf = True"
| "positive _ = False"

fun nonpositive :: "number \<Rightarrow> bool" where
  "nonpositive (Fin q) = (q \<le> 0)"
| "nonpositive NegInf = True"
| "nonpositive _ = False"

fun is_zero :: "number \<Rightarrow> bool" where
  "is_zero (Fin q) = (q = 0)"
| "is_zero _ = False"

text \<open>\<open>a < b\<close>.\<close>

fun nless :: "number \<Rightarrow> number \<Rightarrow> bool" where
  "nless NaN _ = False"
| "nless _ NaN = False"
| "nless (Fin a) (Fin b) = (a < b)"
| "nless NegInf b = (b \<noteq> NegInf)"
| "nless (Fin _) b = (b = PosInf)"
| "nless PosInf _ = False"

text \<open>\<open>a >= b\<close>.\<close>

fun ngeq :: "number \<Rightarrow> number \<Rightarrow> bool" where
  "ngeq NaN _ = False"
| "ngeq _ NaN = False"
| "ngeq (Fin a) (Fin b) = (a \<ge> b)"
| "ngeq PosInf _ = True"
| "ngeq (Fin _) b = (b = NegInf)"
| "ngeq NegInf b = (b = NegInf)"

fun nneg :: "number \<Rightarrow> number" where
  "nneg (Fin a) = Fin (- a)"
| "nneg PosInf = NegInf"
| "nneg NegInf = PosInf"
| "nneg NaN = NaN"

definition inf_times :: "number \<Rightarrow> number" where
  "inf_times b = (if positive b then PosInf else if is_zero b \<or> b = NaN then NaN else NegInf)"

fun nmul :: "number \<Rightarrow> number \<Rightarrow> number" where
  "nmul (Fin a) (Fin b) = to_number (a * b)"
| "nmul NaN _ = NaN"
| "nmul PosInf b = inf_times b"
| "nmul NegInf b = nneg (inf_times b)"
| "nmul (Fin a) PosInf = inf_times (Fin a)"
| "nmul (Fin a) NegInf = nneg (inf_times (Fin a))"
| "nmul (Fin a) NaN = NaN"

fun nadd :: "number \<Rightarrow> number \<Rightarrow> number" where
  "nadd (Fin a) (Fin b) = to_number (a + b)"
| "nadd NaN _ = NaN"
| "nadd _ NaN = NaN"
| "nadd PosInf b = (if b = NegInf then NaN else PosInf)"
| "nadd NegInf b = (if b = PosInf then NaN else NegInf)"
| "nadd (Fin _) PosInf = PosInf"
| "nadd (Fin _) NegInf = NegInf"

text \<open>Division by a positive number: the only one in the code is guarded.\<close>

fun ndiv_pos :: "number \<Rightarrow> number \<Rightarrow> number" where
  "ndiv_pos (Fin a) (Fin b) = to_number (a / b)"
| "ndiv_pos (Fin a) PosInf = Fin 0"
| "ndiv_pos PosInf (Fin b) = PosInf"
| "ndiv_pos NegInf (Fin b) = NegInf"
| "ndiv_pos _ _ = NaN"

subsection \<open>Strings\<close>

definition to_lower :: "char \<Rightarrow> char" where
  "to_lower c = (if is_upper c then char_of ((of_char c :: nat) + 32) else c)"

definition ToLower :: "string \<Rightarrow> string" where
  "ToLower s = map to_lower s"

text \<open>\<open>strings.ReplaceAll\<close> of one character by a string, \<open>strings.TrimRight\<close>.\<close>

definition ReplaceChar :: "char \<Rightarrow> string \<Rightarrow> string \<Rightarrow> string" where
  "ReplaceChar c t s = concat (map (\<lambda>d. if d = c then t else [d]) s)"

lemma ReplaceChar_none: "c \<notin> set s \<Longrightarrow> ReplaceChar c t s = s"
  by (induction s) (auto simp: ReplaceChar_def)

definition TrimRight :: "string \<Rightarrow> string \<Rightarrow> string" where
  "TrimRight s cutset = TrimRightFunc (\<lambda>c. c \<in> set cutset) s"

subsection \<open>Reading\<close>

definition digit :: "char \<Rightarrow> nat" where
  "digit c = (of_char c :: nat) - 48"

definition digits_nat :: "string \<Rightarrow> nat" where
  "digits_nat s = foldl (\<lambda>n c. 10 * n + digit c) 0 s"

definition split_sign :: "string \<Rightarrow> bool \<times> string" where
  "split_sign s =
     (case s of [] \<Rightarrow> (False, [])
      | c # r \<Rightarrow> if c = CHR ''-'' then (True, r) else if c = CHR ''+'' then (False, r) else (False, s))"

text \<open>The exponent part: none, or \<open>e\<close>, an optional sign and digits to the end.\<close>

definition read_exp :: "string \<Rightarrow> int option" where
  "read_exp s =
     (case s of [] \<Rightarrow> Some 0
      | c # r \<Rightarrow>
          if c = CHR ''e'' \<or> c = CHR ''E'' then
            let (ng, ds) = split_sign r
            in if ds = [] \<or> \<not> list_all is_digit ds then None
               else Some (if ng then - int (digits_nat ds) else int (digits_nat ds))
          else None)"

text \<open>A decimal without sign: digits with at most one point and at least one digit, then the exponent.\<close>

definition read_decimal :: "string \<Rightarrow> rat option" where
  "read_decimal s =
     (let ip = takeWhile is_digit s; r = dropWhile is_digit s;
          (fp, rest) = (case r of c # t \<Rightarrow> if c = CHR ''.'' then (takeWhile is_digit t, dropWhile is_digit t) else ([], r)
                        | [] \<Rightarrow> ([], r))
      in if ip @ fp = [] then None
         else map_option (\<lambda>e. of_nat (digits_nat (ip @ fp)) * 10 powi (e - int (length fp))) (read_exp rest))"

text \<open>\<open>ParseFloat\<close>: the value and whether there is no error. A value out of range is an infinity with an error.\<close>

definition ParseFloat :: "string \<Rightarrow> number \<times> bool" where
  "ParseFloat s =
     (let (ng, u) = split_sign s; l = ToLower u
      in if l = ''inf'' \<or> l = ''infinity'' then (if ng then NegInf else PosInf, True)
         else if ToLower s = ''nan'' then (NaN, True)
         else case read_decimal u of
                None \<Rightarrow> (Fin 0, False)
              | Some q \<Rightarrow> let v = to_number (if ng then - q else q)
                          in (v, v \<noteq> PosInf \<and> v \<noteq> NegInf))"

definition maxInt64 :: int where "maxInt64 = 2 ^ 63 - 1"
definition minInt64 :: int where "minInt64 = - (2 ^ 63)"

text \<open>\<open>ParseInt(s, 10, 64)\<close>: out of range the nearest bound is returned with an error.\<close>

definition ParseInt :: "string \<Rightarrow> int \<times> bool" where
  "ParseInt s =
     (let (ng, ds) = split_sign s; v = (if ng then - int (digits_nat ds) else int (digits_nat ds))
      in if ds = [] \<or> \<not> list_all is_digit ds then (0, False)
         else if v > maxInt64 then (maxInt64, False)
         else if v < minInt64 then (minInt64, False)
         else (v, True))"

definition ParseBool :: "string \<Rightarrow> bool" where
  "ParseBool s \<longleftrightarrow> s \<in> {''1'', ''t'', ''T'', ''true'', ''TRUE'', ''True''}"

text \<open>\<open>int64(v)\<close>: truncation; out of range the result is the one of the amd64 instruction.\<close>

fun int64_of_number :: "number \<Rightarrow> int" where
  "int64_of_number (Fin q) =
     (let i = int_of_float q in if minInt64 \<le> i \<and> i \<le> maxInt64 then i else minInt64)"
| "int64_of_number _ = minInt64"

subsection \<open>Writing\<close>

definition ilog10 :: "rat \<Rightarrow> int" where
  "ilog10 x = (case quotient_of x of (p, q) \<Rightarrow>
     let e = int (length (digits_of (nat p))) - int (length (digits_of (nat q)))
     in if 10 powi e \<le> x then e else e - 1)"

text \<open>The decimal with \<open>n\<close> significant digits nearest to \<open>x\<close>: a significand and a power of ten.\<close>

definition decimal_near :: "rat \<Rightarrow> nat \<Rightarrow> int \<times> int" where
  "decimal_near x n = (let e = ilog10 x - int n + 1 in (round_half_even (x / 10 powi e), e))"

function strip_zeros :: "nat \<times> int \<Rightarrow> nat \<times> int" where
  "strip_zeros (m, e) = (if m \<noteq> 0 \<and> m mod 10 = 0 then strip_zeros (m div 10, e + 1) else (m, e))"
  by pat_completeness auto
termination by (relation "measure fst") auto

declare strip_zeros.simps [simp del]

text \<open>
  The shortest decimal that reads back as \<open>x\<close>; a double always reads back from its exact
  expansion, the fallback of the search.
\<close>

definition exact_decimal :: "rat \<Rightarrow> int \<times> int" where
  "exact_decimal x = (case quotient_of x of (p, q) \<Rightarrow>
     let s = bitlen q - 1 in (p * 5 ^ nat s, - s))"

definition shortest :: "rat \<Rightarrow> nat \<times> int" where
  "shortest x =
     (case find (\<lambda>n. let (m, e) = decimal_near x n in 0 \<le> m \<and> fl (of_int m * 10 powi e) = x) [1..<18] of
        Some n \<Rightarrow> let (m, e) = decimal_near x n in strip_zeros (nat m, e)
      | None \<Rightarrow> let (m, e) = exact_decimal x in strip_zeros (nat m, e))"

definition print_decimal :: "nat \<times> int \<Rightarrow> string" where
  "print_decimal d = (case d of (m, e) \<Rightarrow>
     if 0 \<le> e then digits_of m @ (if m = 0 then [] else replicate (nat e) (CHR ''0''))
     else let k = nat (- e); ds = digits_of m; ps = replicate (Suc k - length ds) (CHR ''0'') @ ds
          in take (length ps - k) ps @ ''.'' @ drop (length ps - k) ps)"

fun FormatFloat :: "number \<Rightarrow> string" where
  "FormatFloat (Fin q) =
     (if q = 0 then ''0'' else if q < 0 then ''-'' @ print_decimal (shortest (- q)) else print_decimal (shortest q))"
| "FormatFloat PosInf = ''+Inf''"
| "FormatFloat NegInf = ''-Inf''"
| "FormatFloat NaN = ''NaN''"

subsection \<open>Reading back what is written\<close>

lemma digit_digits_of: "k < 10 \<Longrightarrow> digit (char_of (48 + k)) = k" for k :: nat
  by (simp add: digit_def)

lemma digits_nat_Nil [simp]: "digits_nat [] = 0"
  by (simp add: digits_nat_def)

lemma digits_nat_snoc [simp]: "digits_nat (s @ [c]) = 10 * digits_nat s + digit c"
  by (simp add: digits_nat_def)

lemma digits_nat_append: "digits_nat (s @ t) = digits_nat s * 10 ^ length t + digits_nat t"
  by (induction t rule: rev_induct) (simp_all del: append_assoc add: append_assoc [symmetric] algebra_simps)

lemma digits_nat_digits_of [simp]: "digits_nat (digits_of n) = n"
proof (induction n rule: digits_of.induct)
  case (1 n)
  show ?case
  proof (cases "n < 10")
    case True
    then show ?thesis using digits_nat_snoc[of "[]" "char_of (48 + n)"] digit_digits_of[of n]
      by (subst digits_of.simps) simp
  next
    case False
    then show ?thesis using 1 digit_digits_of[of "n mod 10"] by (subst digits_of.simps) simp
  qed
qed

lemma digits_nat_zeros [simp]: "digits_nat (replicate k (CHR ''0'')) = 0"
proof (induction k)
  case (Suc k)
  have "digits_nat (replicate k (CHR ''0'') @ [CHR ''0'']) = 0"
    using Suc by (simp add: digit_def del: replicate_append_same)
  then show ?case by (simp only: replicate_append_same replicate_Suc)
qed simp

lemma digits_span:
  assumes "list_all is_digit s"
  shows "takeWhile is_digit s = s" "dropWhile is_digit s = []"
  using assms by (simp_all add: list_all_iff takeWhile_eq_all_conv)

lemma takeWhile_digits_point: "list_all is_digit s \<Longrightarrow> takeWhile is_digit (s @ CHR ''.'' # t) = s \<and> dropWhile is_digit (s @ CHR ''.'' # t) = CHR ''.'' # t"
  by (induction s) (simp_all add: is_digit_def)

lemma read_decimal_int:
  assumes "list_all is_digit s" "s \<noteq> []"
  shows "read_decimal s = Some (of_nat (digits_nat s))"
  using assms by (simp add: read_decimal_def read_exp_def digits_span)

lemma read_decimal_point:
  assumes "list_all is_digit s" "list_all is_digit t" "s \<noteq> []"
  shows "read_decimal (s @ CHR ''.'' # t) = Some (of_nat (digits_nat (s @ t)) * 10 powi (- int (length t)))"
  using assms(3) takeWhile_digits_point[OF assms(1), of t]
  by (simp add: read_decimal_def read_exp_def Let_def digits_span[OF assms(2)])

definition decimal_value :: "nat \<times> int \<Rightarrow> rat" where
  "decimal_value d = of_nat (fst d) * 10 powi snd d"

lemma digits_of_all [simp]: "list_all is_digit (digits_of n)"
  using digits_of_digits by (simp add: list_all_iff)

lemma zero_is_digit [simp]: "is_digit (CHR ''0'')"
  by (simp add: is_digit_def)

lemma print_decimal_reads: "read_decimal (print_decimal (m, e)) = Some (decimal_value (m, e))"
proof (cases "0 \<le> e")
  case True
  have "list_all is_digit (digits_of m @ (if m = 0 then [] else replicate (nat e) (CHR ''0'')))"
    by (auto simp: list_all_iff digits_of_digits)
  then have "read_decimal (print_decimal (m, e)) =
      Some (of_nat (digits_nat (digits_of m @ (if m = 0 then [] else replicate (nat e) (CHR ''0'')))))"
    using True by (simp add: print_decimal_def read_decimal_int)
  then show ?thesis
    using True by (simp add: digits_nat_append decimal_value_def power_int_def)
next
  case False
  define k where "k = nat (- e)"
  define ps where "ps = replicate (Suc k - length (digits_of m)) (CHR ''0'') @ digits_of m"
  have l: "length ps > k" by (simp add: ps_def)
  have d: "list_all is_digit ps" by (auto simp: ps_def list_all_iff digits_of_digits)
  have v: "digits_nat ps = m" by (simp add: ps_def digits_nat_append)
  have "print_decimal (m, e) = take (length ps - k) ps @ CHR ''.'' # drop (length ps - k) ps"
    using False by (simp add: print_decimal_def Let_def k_def ps_def)
  moreover have "list_all is_digit (take (length ps - k) ps)" "list_all is_digit (drop (length ps - k) ps)"
    using d by (auto simp: list_all_iff dest: in_set_takeD in_set_dropD)
  moreover have "take (length ps - k) ps \<noteq> []" using l by (cases ps) auto
  ultimately have "read_decimal (print_decimal (m, e)) = Some (of_nat m * 10 powi (- int k))"
    using read_decimal_point l by (simp add: v)
  then show ?thesis using False by (simp add: decimal_value_def k_def)
qed

lemma strip_zeros_value: "decimal_value (strip_zeros d) = decimal_value d"
proof (induction d rule: strip_zeros.induct)
  case (1 m e)
  show ?case
  proof (cases "m \<noteq> 0 \<and> m mod 10 = 0")
    case True
    then obtain j where "m = 10 * j" by auto
    then have "decimal_value (m div 10, e + 1) = decimal_value (m, e)"
      by (simp add: decimal_value_def power_int_add)
    then show ?thesis using 1[OF True] True by (subst strip_zeros.simps) simp
  next
    case False
    then show ?thesis by (subst strip_zeros.simps) (simp only: if_False)
  qed
qed

text \<open>A double is a dyadic rational, so its exact expansion is a decimal.\<close>

lemma dvd_two_pow: "d dvd 2 ^ k \<Longrightarrow> \<exists>j. d = 2 ^ j" for d :: nat
proof (induction k arbitrary: d)
  case (Suc k)
  show ?case
  proof (cases "even d")
    case True
    then obtain d' where d: "d = 2 * d'" by (elim evenE)
    then have "d' dvd 2 ^ k" using Suc.prems by simp
    then obtain j where "d' = 2 ^ j" using Suc.IH by blast
    then show ?thesis using d by (intro exI[of _ "Suc j"]) simp
  next
    case False
    then have "coprime d 2" by simp
    then have "d dvd 2 ^ k" using Suc.prems by (simp add: coprime_dvd_mult_right_iff)
    then show ?thesis by (rule Suc.IH)
  qed
qed (intro exI[of _ 0], simp)

lemma dyadic_denominator:
  assumes "quotient_of (of_int r * 2 powi k) = (p, q)"
  shows "\<exists>j. q = 2 ^ j"
proof (cases "0 \<le> k")
  case True
  then have "of_int r * 2 powi k = (of_int (r * 2 ^ nat k) :: rat)"
    by (simp add: power_int_def)
  then have "quotient_of (of_int (r * 2 ^ nat k)) = (p, q)" using assms by (simp only:)
  then have "q = 1" by (simp add: of_int_rat quotient_of_Fract Rat.normalize_def del: of_int_mult of_int_power)
  then show ?thesis by (intro exI[of _ 0]) simp
next
  case False
  define n where "n = nat (- k)"
  have "of_int r * 2 powi k = Rat.Fract r (2 ^ n)"
    using False by (simp add: Fract_of_int_quotient n_def power_int_def field_simps)
  then have "Rat.normalize (r, 2 ^ n) = (p, q)" using assms by (simp add: quotient_of_Fract)
  then have "q = 2 ^ n div gcd r (2 ^ n)" by (simp add: Rat.normalize_def Let_def)
  then have "q dvd 2 ^ n" by (simp add: div_dvd_iff_mult dvd_div_iff_mult)
  moreover have "0 < q" using quotient_of_denom_pos[OF assms] .
  ultimately have "nat q dvd 2 ^ n" by (simp add: nat_dvd_iff)
  then obtain j where "nat q = 2 ^ j" using dvd_two_pow by blast
  then have "q = 2 ^ j" using \<open>0 < q\<close> by (metis int_nat_eq less_le of_nat_numeral of_nat_power)
  then show ?thesis ..
qed

lemma exact_decimal_value:
  assumes "fl x = x" "0 < x"
  shows "0 \<le> fst (exact_decimal x) \<and> of_int (fst (exact_decimal x)) * 10 powi snd (exact_decimal x) = x"
proof -
  obtain p q where pq: "quotient_of x = (p, q)" by (cases "quotient_of x")
  have "x = of_int (round_half_even (x / ulp64 x)) * 2 powi (max (ilog2 \<bar>x\<bar> - 52) (- 1074))"
    using assms by (simp add: fl_def ulp64_def)
  then obtain j where j: "q = 2 ^ j" using dyadic_denominator pq by metis
  have x: "x = of_int p / 2 ^ j" using quotient_of_div[OF pq] j by simp
  have "bitlen (1::int) = 1" by (simp add: bitlen_def floorlog_def)
  then have b: "bitlen q - 1 = int j" using bitlen_pow2[of 1 j] j by simp
  have "0 < p" using assms(2) x by (simp add: zero_less_divide_iff)
  moreover have "(10::rat) ^ j = 2 ^ j * 5 ^ j" by (simp flip: power_mult_distrib)
  ultimately show ?thesis
    using x b pq by (simp add: exact_decimal_def power_int_minus field_simps)
qed

lemma shortest_reads:
  assumes "fl x = x" "0 < x"
  shows "fl (decimal_value (shortest x)) = x"
proof (cases "find (\<lambda>n. let (m, e) = decimal_near x n in 0 \<le> m \<and> fl (of_int m * 10 powi e) = x) [1..<18]")
  case None
  then show ?thesis
    using exact_decimal_value[OF assms] assms(1)
    by (simp add: shortest_def strip_zeros_value case_prod_beta) (simp add: decimal_value_def)
next
  case (Some n)
  then have "0 \<le> fst (decimal_near x n)" "fl (of_int (fst (decimal_near x n)) * 10 powi snd (decimal_near x n)) = x"
    by (auto simp: find_Some_iff case_prod_beta)
  then show ?thesis
    using Some by (simp add: shortest_def strip_zeros_value case_prod_beta) (simp add: decimal_value_def)
qed

lemma print_decimal_head: "\<exists>c s. print_decimal d = c # s \<and> is_digit c"
proof -
  obtain m e where d: "d = (m, e)" by (cases d)
  have h: "\<exists>c s. xs @ ys = c # s \<and> is_digit c" if "list_all is_digit xs" "xs \<noteq> []" for xs ys :: string
    using that by (cases xs) auto
  show ?thesis
  proof (cases "0 \<le> e")
    case True
    then show ?thesis
      using h[of "digits_of m" "if m = 0 then [] else replicate (nat e) (CHR ''0'')"] by (simp add: d print_decimal_def)
  next
    case False
    define k where "k = nat (- e)"
    define ps where "ps = replicate (Suc k - length (digits_of m)) (CHR ''0'') @ digits_of m"
    have "list_all is_digit ps" by (auto simp: ps_def list_all_iff digits_of_digits)
    then have "list_all is_digit (take (length ps - k) ps)" by (auto simp: list_all_iff dest: in_set_takeD)
    moreover have "length ps > k" by (simp add: ps_def)
    then have "take (length ps - k) ps \<noteq> []" by (cases ps) auto
    ultimately show ?thesis
      using h[of "take (length ps - k) ps" "''.'' @ drop (length ps - k) ps"] False
      by (simp add: d print_decimal_def Let_def k_def ps_def)
  qed
qed

lemma read_decimal_print [simp]: "read_decimal (print_decimal d) = Some (decimal_value d)"
  using print_decimal_reads by (cases d) simp

text \<open>\<open>fl\<close> commutes with the sign, so a negative value is written and read through its opposite.\<close>

lemma round_half_even_minus: "round_half_even (- y) = - round_half_even y"
proof (cases "y \<in> \<int>")
  case True
  then obtain n where "y = of_int n" by (elim Ints_cases)
  then show ?thesis using round_half_even_of_int[of "- n"] by simp
next
  case False
  have ne: "y \<noteq> of_int \<lfloor>y\<rfloor>" using False by (metis Ints_of_int)
  then have f: "\<lfloor>- y\<rfloor> = - \<lfloor>y\<rfloor> - 1" by (simp add: floor_minus ceiling_altdef)
  have d: "0 < y - of_int \<lfloor>y\<rfloor>" using ne of_int_floor_le[of y] by linarith
  have "- y - of_int \<lfloor>- y\<rfloor> = 1 - (y - of_int \<lfloor>y\<rfloor>)" using f by simp
  then show ?thesis
    using f d by (simp add: round_half_even_def Let_def)
qed

lemma fl_minus: "fl (- x) = - fl x"
  by (simp add: fl_def ulp64_def round_half_even_minus)

text \<open>Every finite \<open>float64\<close> is read back from what \<open>FormatFloat\<close> writes.\<close>

definition is_float :: "number \<Rightarrow> bool" where
  "is_float v \<longleftrightarrow> (case v of Fin q \<Rightarrow> fl q = q \<and> \<bar>q\<bar> < maxFloat | _ \<Rightarrow> True)"

lemma split_sign_digit: "is_digit c \<Longrightarrow> split_sign (c # s) = (False, c # s)"
  by (auto simp: split_sign_def is_digit_def)

lemma split_sign_print [simp]: "split_sign (print_decimal d) = (False, print_decimal d)"
  using print_decimal_head[of d] by (auto simp: split_sign_digit)

lemma digit_not_letter: "is_digit c \<Longrightarrow> to_lower c = c \<and> c \<noteq> CHR ''i'' \<and> c \<noteq> CHR ''n''"
  by (auto simp: to_lower_def is_upper_def is_digit_def less_eq_char_def)

lemma ToLower_print: "ToLower (print_decimal d) \<noteq> ''inf'' \<and> ToLower (print_decimal d) \<noteq> ''infinity'' \<and>
    ToLower (print_decimal d) \<noteq> ''nan''"
  using print_decimal_head[of d] digit_not_letter by (auto simp: ToLower_def)

lemma parse_format:
  assumes "fl q = q" "\<bar>q\<bar> < maxFloat"
  shows "ParseFloat (FormatFloat (Fin q)) = (Fin q, True)"
proof -
  have b: "\<not> q \<le> - maxFloat" "\<not> maxFloat \<le> q" using assms(2) by linarith+
  consider "q = 0" | "0 < q" | "q < 0" by linarith
  then show ?thesis
  proof cases
    case 1
    have "read_decimal ''0'' = Some 0"
      using read_decimal_int[of "''0''"] digits_nat_zeros[of 1] by simp
    moreover have "ToLower ''0'' = ''0''" by (simp add: ToLower_def to_lower_def is_upper_def)
    moreover have "to_number 0 = Fin 0" by (simp add: to_number_def maxFloat_def)
    ultimately show ?thesis
      using 1 split_sign_digit[of "CHR ''0''" "[]"] by (simp add: ParseFloat_def)
  next
    case 2
    have "to_number (decimal_value (shortest q)) = Fin q"
      using shortest_reads[OF assms(1) 2] b by (simp add: to_number_def Let_def)
    then show ?thesis
      using 2 ToLower_print[of "shortest q"] by (simp add: ParseFloat_def)
  next
    case 3
    let ?d = "shortest (- q)"
    have "fl (- decimal_value ?d) = q"
      using shortest_reads[of "- q"] assms(1) 3 by (simp add: fl_minus)
    then have "to_number (- decimal_value ?d) = Fin q"
      using b by (simp add: to_number_def Let_def)
    moreover have "ToLower (CHR ''-'' # print_decimal ?d) \<noteq> ''nan''"
      by (simp add: ToLower_def to_lower_def is_upper_def)
    moreover have "split_sign (CHR ''-'' # print_decimal ?d) = (True, print_decimal ?d)"
      by (simp add: split_sign_def)
    ultimately show ?thesis
      using 3 ToLower_print[of ?d] by (simp add: ParseFloat_def)
  qed
qed

subsection \<open>Every value the code computes is a float, and reads back\<close>

text \<open>Rounding is the identity on its results.\<close>

lemma ilog2_less:
  assumes "0 < x" "x < 2 powi k" shows "ilog2 x < k"
proof (rule ccontr)
  assume "\<not> ilog2 x < k"
  then have "(2::rat) powi k \<le> 2 powi ilog2 x" by (intro power_int_increasing) auto
  then show False using ilog2_bounds(1)[OF assms(1)] assms(2) by linarith
qed

lemma fl_exact:
  assumes "0 < m" "m < 2 ^ 53" "- 1074 \<le> e"
  shows "fl (of_int m * 2 powi e) = of_int m * 2 powi e"
proof -
  define y :: rat where "y = of_int m * 2 powi e"
  have pos: "0 < y" using assms(1) by (simp add: y_def)
  have "of_int m < (of_int (2 ^ 53) :: rat)" using assms(2) by (simp only: of_int_less_iff)
  then have "y < 2 ^ 53 * 2 powi e" by (simp add: y_def)
  also have "2 ^ 53 * 2 powi e = (2::rat) powi (53 + e)" by (simp add: power_int_add)
  finally have l: "ilog2 y < 53 + e" by (rule ilog2_less[OF pos])
  define E where "E = max (ilog2 \<bar>y\<bar> - 52) (- 1074)"
  define k where "k = nat (e - E)"
  have e: "e = E + int k" using l pos assms(3) by (auto simp: k_def E_def)
  have u: "ulp64 y = 2 powi E" by (simp add: ulp64_def E_def)
  have y: "y = of_int (m * 2 ^ k) * 2 powi E" by (simp add: y_def e power_int_add)
  have "y / ulp64 y = of_int (m * 2 ^ k)" unfolding u by (simp add: y)
  then have "fl y = of_int (m * 2 ^ k) * ulp64 y"
    using pos by (simp only: fl_def round_half_even_of_int) simp
  then have "fl y = y" using u y by simp
  then show ?thesis by (simp only: y_def)
qed

lemma fl_idem_pos: assumes "0 < x" shows "fl (fl x) = fl x"
proof -
  define E where "E = max (ilog2 \<bar>x\<bar> - 52) (- 1074)"
  define n where "n = round_half_even (x / ulp64 x)"
  have u: "ulp64 x = 2 powi E" by (simp add: ulp64_def E_def)
  have f: "fl x = of_int n * 2 powi E" using assms by (simp add: fl_def n_def u)
  have "2 powi (ilog2 x - 52) \<le> (2::rat) powi E" using assms by (intro power_int_increasing) (auto simp: E_def)
  then have "2 ^ 53 * 2 powi (ilog2 x - 52) \<le> 2 ^ 53 * (2::rat) powi E" by simp
  moreover have "x < 2 powi (ilog2 x + 1)" by (rule ilog2_bounds[OF assms])
  moreover have "2 powi (ilog2 x + 1) = 2 ^ 53 * (2::rat) powi (ilog2 x - 52)"
    using power_int_add[of "2::rat" 53 "ilog2 x - 52"] by (simp add: add.commute)
  ultimately have "x < 2 ^ 53 * 2 powi E" by linarith
  then have q: "x / ulp64 x < 2 ^ 53" by (simp add: u divide_less_eq)
  have err: "\<bar>of_int n - x / ulp64 x\<bar> \<le> 1 / 2" unfolding n_def by (rule round_half_even_err)
  have q0: "0 < x / ulp64 x" using assms by simp
  have "of_int n < (2 :: rat) ^ 53 + 1" "- 1 < (of_int n :: rat)" using q q0 err by linarith+
  then have "of_int n < (of_int (2 ^ 53 + 1) :: rat)" "of_int (- 1) < (of_int n :: rat)" by simp_all
  then have up: "n \<le> 2 ^ 53" and lo: "0 \<le> n" unfolding of_int_less_iff by simp_all
  have E: "- 1074 \<le> E" by (simp add: E_def)
  consider "n = 0" | "0 < n" "n < 2 ^ 53" | "n = 2 ^ 53" using up lo by linarith
  then show ?thesis
  proof cases
    case 1
    then show ?thesis by (simp add: f)
  next
    case 2
    then show ?thesis unfolding f by (rule fl_exact[OF _ _ E])
  next
    case 3
    have "of_int n * 2 powi E = of_int (2 ^ 52) * (2::rat) powi (E + 1)" by (simp add: 3 power_int_add)
    then show ?thesis unfolding f using fl_exact[of "2 ^ 52" "E + 1"] E by simp
  qed
qed

lemma fl_idem [simp]: "fl (fl x) = fl x"
proof -
  consider "x = 0" | "0 < x" | "0 < - x" by linarith
  then show ?thesis
  proof cases
    case 3
    then show ?thesis using fl_idem_pos[of "- x"] by (simp add: fl_minus)
  qed (auto simp: fl_idem_pos)
qed

lemma is_float_to_number [simp]: "is_float (to_number q)"
  by (auto simp: is_float_def to_number_def Let_def)

lemma is_float_ParseFloat [simp]: "is_float (fst (ParseFloat s))"
  by (auto simp: ParseFloat_def Let_def case_prod_beta split: option.split) (auto simp: is_float_def maxFloat_def)

lemma inf_times_special: "inf_times b \<in> {PosInf, NegInf, NaN}"
  by (auto simp: inf_times_def)

lemma is_float_nmul [simp]: "is_float (nmul a b)"
proof -
  have i: "is_float (inf_times c)" "is_float (nneg (inf_times c))" for c
    using inf_times_special[of c] by (auto simp: is_float_def)
  show ?thesis by (cases "(a, b)" rule: nmul.cases) (auto simp: i, auto simp: is_float_def)
qed

lemma is_float_nadd [simp]: "is_float (nadd a b)"
  by (cases "(a, b)" rule: nadd.cases) (auto, auto simp: is_float_def)

lemma parse_special: "ParseFloat ''+Inf'' = (PosInf, True)" "ParseFloat ''-Inf'' = (NegInf, True)"
  "ParseFloat ''NaN'' = (NaN, True)"
  by code_simp+

lemma parse_format_number:
  assumes "is_float v" shows "fst (ParseFloat (FormatFloat v)) = v"
proof (cases v)
  case (Fin q)
  then show ?thesis using parse_format[of q] assms by (simp add: is_float_def)
qed (simp_all add: parse_special)

lemma print_decimal_chars: "\<forall>c \<in> set (print_decimal d). is_digit c \<or> c = CHR ''.''"
  by (cases d) (auto simp: print_decimal_def Let_def digits_of_digits dest!: in_set_takeD in_set_dropD split: if_splits)

lemma number_char: "is_digit c \<or> c = CHR ''.'' \<or> c = CHR ''-'' \<Longrightarrow> \<not> is_space c \<and> c \<noteq> CHR '',''"
  by (auto simp: is_digit_def less_eq_char_def is_space_def re_space_def)

lemma FormatFloat_Fin_chars: "\<forall>c \<in> set (FormatFloat (Fin q)). is_digit c \<or> c = CHR ''.'' \<or> c = CHR ''-''"
  using print_decimal_chars[of "shortest q"] print_decimal_chars[of "shortest (- q)"] by auto

lemma FormatFloat_chars: "\<forall>c \<in> set (FormatFloat v). \<not> is_space c \<and> c \<noteq> CHR '',''"
proof (cases v)
  case (Fin q)
  then show ?thesis using FormatFloat_Fin_chars number_char by blast
qed (auto simp: is_space_def re_space_def)

end
