(* ===== verification/RdaValues.thy ===== *)
theory RdaValues
  imports GoNumbers
begin

text \<open>
  The dynamic values of the purchase-request handlers (\<open>rda/validation.go\<close>, \<open>rda/row_totals.go\<close>,
  \<open>rda/clone.go\<close>): what \<open>encoding/json\<close> decodes into \<open>any\<close>, and the conversions the code applies
  to it. A number is a \<open>float64\<close> under the default decoder and its text under \<open>UseNumber\<close>; the
  code itself also stores \<open>float64\<close> and \<open>int64\<close> values. A Go map is a list of entries of which
  the last one of a key counts; a raw message is an optional value (\<open>None\<close>: it does not decode).
\<close>

datatype any = Null | Bool bool | Str string | Float number | Number string | Integer int
  | Arr "any list" | Obj "(string \<times> any) list"

type_synonym fields = "(string \<times> any) list"

text \<open>\<open>m[k]\<close> (a missing key reads as nil), the map of a value if it is one, assignment.\<close>

definition get :: "fields \<Rightarrow> string \<Rightarrow> any" where
  "get m k = (case map_of (rev m) k of None \<Rightarrow> Null | Some v \<Rightarrow> v)"

definition has_key :: "fields \<Rightarrow> string \<Rightarrow> bool" where
  "has_key m k \<longleftrightarrow> k \<in> fst ` set m"

definition put :: "string \<Rightarrow> any \<Rightarrow> fields \<Rightarrow> fields" where
  "put k v m = m @ [(k, v)]"

definition mapValue :: "any \<Rightarrow> fields" where
  "mapValue v = (case v of Obj m \<Rightarrow> m | _ \<Rightarrow> [])"

lemma get_Nil [simp]: "get [] k = Null"
  by (simp add: get_def)

lemma get_put [simp]: "get (put k v m) c = (if c = k then v else get m c)"
  by (simp add: get_def put_def)

subsection \<open>Conversions\<close>

definition stringValue :: "any \<Rightarrow> string" where
  "stringValue v =
     (case v of Str s \<Rightarrow> s | Number s \<Rightarrow> s | Float x \<Rightarrow> FormatFloat x | Integer i \<Rightarrow> FormatInt i | _ \<Rightarrow> '''')"

definition numberValue :: "any \<Rightarrow> number" where
  "numberValue v =
     (case v of Float x \<Rightarrow> x | Integer i \<Rightarrow> to_number (of_int i) | Number s \<Rightarrow> fst (ParseFloat s)
      | Str s \<Rightarrow> fst (ParseFloat (ReplaceChar (CHR '','') ''.'' (TrimSpace s))) | _ \<Rightarrow> Fin 0)"

definition int64Value :: "any \<Rightarrow> int" where
  "int64Value v =
     (case v of Integer i \<Rightarrow> i | Float x \<Rightarrow> int64_of_number x | Number s \<Rightarrow> fst (ParseInt s)
      | Str s \<Rightarrow> fst (ParseInt (TrimSpace s)) | _ \<Rightarrow> 0)"

definition boolValue :: "any \<Rightarrow> bool" where
  "boolValue v = (case v of Bool b \<Rightarrow> b | Str s \<Rightarrow> ParseBool s | _ \<Rightarrow> False)"

definition decimalString :: "any \<Rightarrow> string" where
  "decimalString v = FormatFloat (numberValue v)"

definition price_char :: "char \<Rightarrow> bool" where
  "price_char c \<longleftrightarrow> is_digit c \<or> c = CHR '','' \<or> c = CHR ''.'' \<or> c = CHR ''-''"

definition parseTotalPrice :: "string \<Rightarrow> number" where
  "parseTotalPrice value =
     (let clean = filter price_char value;
          clean' = (if CHR '','' \<in> set clean \<and> CHR ''.'' \<in> set clean
                    then ReplaceChar (CHR '','') ''.'' (ReplaceChar (CHR ''.'') '''' clean)
                    else ReplaceChar (CHR '','') ''.'' clean);
          (parsed, ok) = ParseFloat clean'
      in if \<not> ok \<or> parsed = NaN \<or> parsed = PosInf \<or> parsed = NegInf then Fin 0 else parsed)"

definition moneyValue :: "any \<Rightarrow> number" where
  "moneyValue v = (case v of Str s \<Rightarrow> parseTotalPrice s | _ \<Rightarrow> numberValue v)"

fun firstPositiveMoney :: "any list \<Rightarrow> number" where
  "firstPositiveMoney [] = Fin 0"
| "firstPositiveMoney (v # vs) = (let amount = moneyValue v in if positive amount then amount else firstPositiveMoney vs)"

definition nestedMoneyValue :: "fields \<Rightarrow> string \<Rightarrow> string \<Rightarrow> number" where
  "nestedMoneyValue row objectKey valueKey =
     (case get row objectKey of Obj m \<Rightarrow> moneyValue (get m valueKey) | _ \<Rightarrow> Fin 0)"

fun firstString :: "any list \<Rightarrow> string" where
  "firstString [] = ''''"
| "firstString (v # vs) = (let t = TrimSpace (stringValue v) in if t \<noteq> '''' then t else firstString vs)"

definition rowIDKey :: "any \<Rightarrow> string" where
  "rowIDKey v =
     (case v of Number s \<Rightarrow> s | Str s \<Rightarrow> TrimSpace s | Float x \<Rightarrow> FormatInt (int64_of_number x)
      | Integer i \<Rightarrow> FormatInt i | _ \<Rightarrow> '''')"

definition int64FromAny :: "any \<Rightarrow> int option" where
  "int64FromAny v =
     (let pos = (\<lambda>i. if 0 < i then Some i else None);
          parsed = (\<lambda>(i, ok). if ok \<and> 0 < i then Some i else None)
      in case v of Number s \<Rightarrow> parsed (ParseInt s) | Str s \<Rightarrow> parsed (ParseInt (TrimSpace s))
         | Float x \<Rightarrow> pos (int64_of_number x) | Integer i \<Rightarrow> pos i | _ \<Rightarrow> None)"

text \<open>\<open>poListItemID\<close>: the id of an item of a list, when it is an integer.\<close>

definition poListItemID :: "fields \<Rightarrow> int option" where
  "poListItemID item =
     (let parsed = (\<lambda>(i, ok). if ok then Some i else None)
      in case get item ''id'' of
           Number s \<Rightarrow> parsed (ParseInt s)
         | Str s \<Rightarrow> parsed (ParseInt (TrimSpace s))
         | Float x \<Rightarrow> let i = int64_of_number x in if to_number (of_int i) = x then Some i else None
         | _ \<Rightarrow> None)"

text \<open>
  A string field of a struct under \<open>json.Unmarshal\<close>: keys match up to case, the last one counts,
  null leaves the field alone, and a value of another type is an error.
\<close>

fun structString :: "string \<Rightarrow> fields \<Rightarrow> string \<Rightarrow> string option" where
  "structString key [] acc = Some acc"
| "structString key ((k, v) # m) acc =
     (if \<not> EqualFold k key then structString key m acc
      else case v of Str s \<Rightarrow> structString key m s | Null \<Rightarrow> structString key m acc | _ \<Rightarrow> None)"

subsection \<open>Lists of requests\<close>

definition poListItemMaps :: "any list \<Rightarrow> fields list" where
  "poListItemMaps items = List.map_filter (\<lambda>v. case v of Obj m \<Rightarrow> Some m | _ \<Rightarrow> None) items"

definition poListItems :: "any \<Rightarrow> fields list option" where
  "poListItems payload =
     (case payload of Arr items \<Rightarrow> Some (poListItemMaps items)
      | Obj m \<Rightarrow> (case get m ''items'' of Arr items \<Rightarrow> Some (poListItemMaps items) | _ \<Rightarrow> None)
      | _ \<Rightarrow> None)"

definition poListIDs :: "fields list \<Rightarrow> int list" where
  "poListIDs items = uniq_from {} (List.map_filter poListItemID items)"

definition recipientIDsFromRaw :: "any option list \<Rightarrow> int list" where
  "recipientIDsFromRaw recipients =
     uniq_from {} (filter (\<lambda>i. 0 < i) (List.map_filter
       (\<lambda>raw. case raw of Some (Obj m) \<Rightarrow> Some (int64Value (get m ''id'')) | Some Null \<Rightarrow> Some 0 | _ \<Rightarrow> None) recipients))"

end
