(* ===== verification/RdaTypes.thy ===== *)
theory RdaTypes
  imports RdaValues
begin

text \<open>
  The data of a purchase request (\<open>rda/types.go\<close>), the permissions of a user
  (\<open>rda/permissions.go\<close>) and the questions every handler asks of them (\<open>rda/arak.go\<close>,
  \<open>rda/pdf_access.go\<close>, \<open>rda/validation.go\<close>): who the requester is, who approves at the current
  level, how many quotes are attached, what the payment method is.
\<close>

type_synonym raw = "any option"

record userRef =
  us_FirstName :: string
  us_LastName :: string
  us_Email :: string

record approverRef =
  ap_Email :: string
  ap_Level :: any
  ap_UserEmail :: string

record providerDetail =
  pr_ID :: int
  pr_CompanyName :: string
  pr_Language :: string
  pr_VATNumber :: string
  pr_PostalCode :: string
  pr_CAP :: string
  pr_DefaultPaymentMethod :: raw

record poDetail =
  po_ID :: any
  po_Code :: string
  po_State :: string
  po_Type :: string
  po_Project :: string
  po_Object :: string
  po_Description :: string
  po_Note :: string
  po_ProviderOfferCode :: string
  po_ProviderOfferDate :: string
  po_CurrentApprovalLevel :: any
  po_TotalPrice :: string
  po_Currency :: string
  po_Requester :: userRef
  po_Provider :: providerDetail
  po_PaymentMethod :: raw
  po_Rows :: "raw list"
  po_Attachments :: "raw list"
  po_Recipients :: "raw list"
  po_Approvers :: "approverRef list"

record rdaPermissions =
  pm_IsApprover :: bool
  pm_IsAFC :: bool
  pm_IsApproverNoLeasing :: bool
  pm_IsApproverExtraBudget :: bool
  pm_CanSeeAllPO :: bool
  pm_SkipApproval :: bool

datatype rdaPermissionFlag = permissionApprover | permissionAFC | permissionApproverNoLeasing | permissionExtraBudget

definition has :: "rdaPermissions \<Rightarrow> rdaPermissionFlag \<Rightarrow> bool" where
  "has p flag =
     (case flag of permissionApprover \<Rightarrow> pm_IsApprover p | permissionAFC \<Rightarrow> pm_IsAFC p
      | permissionApproverNoLeasing \<Rightarrow> pm_IsApproverNoLeasing p
      | permissionExtraBudget \<Rightarrow> pm_IsApproverExtraBudget p)"

subsection \<open>Approval levels\<close>

text \<open>\<open>fmt.Sprint\<close> of a value that is neither nil, a string nor a number text.\<close>

definition exponent_text :: "int \<Rightarrow> string" where
  "exponent_text e = (if e < 0 then ''e-'' else ''e+'') @ (if \<bar>e\<bar> < 10 then ''0'' else '''') @ digits_of (nat \<bar>e\<bar>)"

definition print_general :: "nat \<times> int \<Rightarrow> string" where
  "print_general d = (case d of (m, e) \<Rightarrow>
     let ds = digits_of m; x = int (length ds) + e - 1
     in if x < - 4 \<or> 6 \<le> x
        then take 1 ds @ (if length ds = 1 then '''' else ''.'' @ drop 1 ds) @ exponent_text x
        else print_decimal d)"

fun SprintNumber :: "number \<Rightarrow> string" where
  "SprintNumber (Fin q) =
     (if q = 0 then ''0'' else if q < 0 then ''-'' @ print_general (shortest (- q)) else print_general (shortest q))"
| "SprintNumber x = FormatFloat x"

text \<open>Entries of a map are printed in the order of their keys, the last of a key counting.\<close>

fun Sprint :: "any \<Rightarrow> string" where
  "Sprint Null = ''<nil>''"
| "Sprint (Bool b) = (if b then ''true'' else ''false'')"
| "Sprint (Str s) = s"
| "Sprint (Float x) = SprintNumber x"
| "Sprint (Number s) = s"
| "Sprint (Integer i) = FormatInt i"
| "Sprint (Arr vs) = ''['' @ Join (map Sprint vs) '' '' @ '']''"
| "Sprint (Obj m) =
     (let entries = map (\<lambda>(k, v). (k, Sprint v)) m
      in ''map['' @ Join (map (\<lambda>k. k @ '':'' @ (case map_of (rev entries) k of Some t \<Rightarrow> t | None \<Rightarrow> ''''))
           (sortedKeys (fst ` set entries))) '' '' @ '']'')"

definition normalizeApprovalLevel :: "any \<Rightarrow> string" where
  "normalizeApprovalLevel v = (case v of Null \<Rightarrow> '''' | _ \<Rightarrow> TrimSpace (Sprint v))"

definition approverLevelMatches :: "poDetail \<Rightarrow> approverRef \<Rightarrow> bool" where
  "approverLevelMatches po approver =
     (let current = normalizeApprovalLevel (po_CurrentApprovalLevel po);
          level = normalizeApprovalLevel (ap_Level approver)
      in current = '''' \<or> level = '''' \<or> level = current)"

definition isRequester :: "poDetail \<Rightarrow> string \<Rightarrow> bool" where
  "isRequester po email = EqualFold (TrimSpace (us_Email (po_Requester po))) (TrimSpace email)"

definition isApprover :: "poDetail \<Rightarrow> string \<Rightarrow> bool" where
  "isApprover po email =
     list_ex (\<lambda>a. EqualFold (TrimSpace (ap_UserEmail a)) (TrimSpace email) \<and> approverLevelMatches po a) (po_Approvers po)"

definition approvalLevelNumber :: "any \<Rightarrow> number option" where
  "approvalLevelNumber v =
     (let normalized = normalizeApprovalLevel v
      in if normalized = '''' then None
         else case ParseFloat normalized of (level, ok) \<Rightarrow> if ok then Some level else None)"

definition approverRefEmail :: "approverRef \<Rightarrow> string" where
  "approverRefEmail a =
     (let email = TrimSpace (ap_Email a) in if email \<noteq> '''' then email else TrimSpace (ap_UserEmail a))"

text \<open>The approvers of the current level and above, each address once up to case.\<close>

fun pendingLoop :: "number option \<Rightarrow> string set \<Rightarrow> approverRef list \<Rightarrow> string list" where
  "pendingLoop current seen [] = []"
| "pendingLoop current seen (a # rest) =
     (let email = approverRefEmail a
      in if email = '''' then pendingLoop current seen rest
         else if (case current of None \<Rightarrow> False
                  | Some c \<Rightarrow> (case approvalLevelNumber (ap_Level a) of None \<Rightarrow> False | Some l \<Rightarrow> nless l c))
              then pendingLoop current seen rest
         else if ToLower email \<in> seen then pendingLoop current seen rest
         else email # pendingLoop current (insert (ToLower email) seen) rest)"

definition pendingApprovalEmails :: "poDetail \<Rightarrow> string list" where
  "pendingApprovalEmails po = pendingLoop (approvalLevelNumber (po_CurrentApprovalLevel po)) {} (po_Approvers po)"

subsection \<open>Attachments, payment, provider\<close>

definition isQuote :: "raw \<Rightarrow> bool" where
  "isQuote r = (case r of Some (Obj m) \<Rightarrow> structString ''attachment_type'' m '''' = Some ''quote'' | _ \<Rightarrow> False)"

definition countQuoteAttachments :: "raw list \<Rightarrow> nat" where
  "countQuoteAttachments attachments = length (filter isQuote attachments)"

definition paymentCodeFromRawMessage :: "raw \<Rightarrow> string" where
  "paymentCodeFromRawMessage r =
     (case r of
        Some (Obj m) \<Rightarrow> (case structString ''code'' m '''' of Some c \<Rightarrow> TrimSpace c | None \<Rightarrow> '''')
      | Some (Str t) \<Rightarrow> TrimSpace t
      | Some (Number t) \<Rightarrow> TrimSpace t
      | _ \<Rightarrow> '''')"

definition poPaymentMethodCode :: "poDetail \<Rightarrow> string" where
  "poPaymentMethodCode po = paymentCodeFromRawMessage (po_PaymentMethod po)"

definition providerDefaultPaymentMethod :: "providerDetail \<Rightarrow> string" where
  "providerDefaultPaymentMethod provider = paymentCodeFromRawMessage (pr_DefaultPaymentMethod provider)"

definition providerLanguage :: "providerDetail \<Rightarrow> string" where
  "providerLanguage provider =
     (let language = TrimSpace (pr_Language provider) in if language = '''' then ''it'' else language)"

definition providerCAP :: "providerDetail \<Rightarrow> string" where
  "providerCAP provider =
     (let c = TrimSpace (pr_CAP provider) in if c \<noteq> '''' then c else TrimSpace (pr_PostalCode provider))"

subsection \<open>States\<close>

definition poPDFDownloadStates :: "string list" where
  "poPDFDownloadStates = [''APPROVED'', ''PENDING_SEND'', ''SENT'', ''PENDING_VERIFICATION'', ''PENDING_DISPUTE'',
     ''DELIVERED_AND_COMPLIANT'', ''CLOSED'']"

definition canDownloadPOPDF :: "string \<Rightarrow> bool" where
  "canDownloadPOPDF state = List.member poPDFDownloadStates (TrimSpace state)"

definition isRequesterDeleteState :: "string \<Rightarrow> bool" where
  "isRequesterDeleteState state = List.member [''DRAFT'', ''PENDING_APPROVAL_PROVIDER'', ''PENDING_APPROVAL'',
     ''PENDING_APPROVAL_PAYMENT_METHOD'', ''PENDING_BUDGET_INCREMENT''] (TrimSpace state)"

definition normalizeQuoteThreshold :: "number \<Rightarrow> number" where
  "normalizeQuoteThreshold v = (if nonpositive v \<or> v = NaN \<or> v = PosInf \<or> v = NegInf then Fin 3000 else v)"

subsection \<open>Inboxes\<close>

record inboxRoute =
  ib_upstreamPath :: string
  ib_requiredPermission :: rdaPermissionFlag

definition inboxConfig :: "string \<Rightarrow> inboxRoute option" where
  "inboxConfig kind =
     map_option (\<lambda>(p, f). \<lparr>ib_upstreamPath = p, ib_requiredPermission = f\<rparr>)
       (map_of [(''level1-2'', ''/po/pending-approval'', permissionApprover),
                (''leasing'', ''/po/pending-leasing'', permissionAFC),
                (''no-leasing'', ''/po/pending-approval-no-leasing'', permissionApproverNoLeasing),
                (''payment-method'', ''/po/pending-approval-payment-method'', permissionAFC),
                (''budget-increment'', ''/po-pending-budget-increment'', permissionExtraBudget)] kind)"

end
