(* ===== verification/RdaRows.thy ===== *)
theory RdaRows
  imports RdaTypes
begin

text \<open>
  The rows of a purchase request: the amounts shown for them (\<open>rda/row_totals.go\<close>), the check and
  the body of a row sent upstream (\<open>rda/validation.go\<close>), and the payload of a cloned row
  (\<open>rda/clone.go\<close>). Assignments to a Go map are \<open>put\<close>s in the order of the code; a map is read with
  \<open>get\<close>, so that only the last entry of a key counts.
\<close>

section \<open>Amounts shown: row_totals.go\<close>

record rowEconomics =
  ec_Price :: number
  ec_MRC :: number
  ec_NRC :: number
  ec_Total :: number

definition zeroEconomics :: rowEconomics where
  "zeroEconomics = \<lparr>ec_Price = Fin 0, ec_MRC = Fin 0, ec_NRC = Fin 0, ec_Total = Fin 0\<rparr>"

definition nullFloat :: "number option \<Rightarrow> number" where
  "nullFloat v = (case v of None \<Rightarrow> Fin 0 | Some x \<Rightarrow> x)"

text \<open>A row of the database query: id, price, mrc, nrc, total; a later row of an id replaces it.\<close>

type_synonym economicsRow = "int \<times> number option \<times> number option \<times> number option \<times> number option"

definition economicsMap :: "economicsRow list \<Rightarrow> string \<Rightarrow> rowEconomics" where
  "economicsMap rows key =
     (case map_of (rev (map (\<lambda>(i, p, m, n, t). (FormatInt i,
                  \<lparr>ec_Price = nullFloat p, ec_MRC = nullFloat m, ec_NRC = nullFloat n, ec_Total = nullFloat t\<rparr>)) rows)) key of
        None \<Rightarrow> zeroEconomics | Some e \<Rightarrow> e)"

definition lacksMoney :: "fields \<Rightarrow> string \<Rightarrow> string \<Rightarrow> bool" where
  "lacksMoney row k1 k2 \<longleftrightarrow> nonpositive (moneyValue (get row k1)) \<and> nonpositive (moneyValue (get row k2))"

definition fillMoney :: "bool \<Rightarrow> string \<Rightarrow> any \<Rightarrow> fields \<Rightarrow> fields" where
  "fillMoney b k v row = (if b then put k (Str (decimalString v)) row else row)"

definition rowTypeOf :: "fields \<Rightarrow> string" where
  "rowTypeOf row = ToLower (TrimSpace (stringValue (get row ''type'')))"

text \<open>The price of a good that has none: from the database, or the total divided by the quantity.\<close>

definition normalizeGoodPrice :: "rowEconomics \<Rightarrow> fields \<Rightarrow> fields" where
  "normalizeGoodPrice ec row =
     (if rowTypeOf row \<noteq> ''good'' \<or> positive (moneyValue (get row ''price'')) then row
      else if positive (ec_Price ec) then put ''price'' (Str (decimalString (Float (ec_Price ec)))) row
      else let total = firstPositiveMoney [get row ''total'', get row ''total_price'', Float (ec_Total ec)];
               qty = moneyValue (get row ''qty'')
           in if positive total \<and> positive qty then put ''price'' (Str (decimalString (Float (ndiv_pos total qty)))) row
              else row)"

definition normalizeRowEconomics :: "rowEconomics \<Rightarrow> fields \<Rightarrow> fields" where
  "normalizeRowEconomics ec row0 =
     (let row1 = fillMoney (lacksMoney row0 ''montly_fee'' ''monthly_fee'' \<and> positive (moneyValue (get row0 ''mrc'')))
                   ''montly_fee'' (get row0 ''mrc'') row0;
          row2 = fillMoney (lacksMoney row1 ''activation_fee'' ''activation_price'' \<and> positive (moneyValue (get row1 ''nrc'')))
                   ''activation_fee'' (get row1 ''nrc'') row1;
          row3 = fillMoney (positive (ec_MRC ec) \<and> lacksMoney row2 ''montly_fee'' ''monthly_fee'')
                   ''montly_fee'' (Float (ec_MRC ec)) row2;
          row4 = fillMoney (rowTypeOf row0 = ''service'' \<and> positive (ec_Price ec) \<and> lacksMoney row3 ''montly_fee'' ''monthly_fee'')
                   ''montly_fee'' (Float (ec_Price ec)) row3;
          row5 = fillMoney (positive (ec_NRC ec) \<and> lacksMoney row4 ''activation_fee'' ''activation_price'')
                   ''activation_fee'' (Float (ec_NRC ec)) row4;
          row6 = fillMoney (positive (ec_Total ec) \<and> lacksMoney row5 ''total'' ''total_price'')
                   ''total'' (Float (ec_Total ec)) row5
      in normalizeGoodPrice ec row6)"

definition rowCalculatedTotal :: "fields \<Rightarrow> number" where
  "rowCalculatedTotal row =
     (let qty = moneyValue (get row ''qty'')
      in if nonpositive qty then Fin 0
         else if rowTypeOf row = ''good'' then nmul (moneyValue (get row ''price'')) qty
         else if rowTypeOf row = ''service'' then
           let mrc = firstPositiveMoney [get row ''monthly_fee'', get row ''montly_fee'', get row ''mrc'', get row ''price''];
               nrc = firstPositiveMoney [get row ''activation_fee'', get row ''activation_price'', get row ''nrc''];
               duration = nestedMoneyValue row ''renew_detail'' ''initial_subscription_months''
           in nadd (nmul (nmul mrc qty) duration) (nmul nrc qty)
         else Fin 0)"

definition normalizeRowTotal :: "fields \<Rightarrow> fields" where
  "normalizeRowTotal row =
     (if positive (moneyValue (get row ''total_price'')) then row
      else let total = moneyValue (get row ''total'')
           in if positive total then put ''total_price'' (Str (decimalString (Float total))) row
              else let computed = rowCalculatedTotal row
                   in if positive computed then put ''total_price'' (Str (decimalString (Float computed))) row else row)"

definition normalizeRow :: "(string \<Rightarrow> rowEconomics) \<Rightarrow> any \<Rightarrow> any" where
  "normalizeRow economics item =
     (case item of
        Obj row \<Rightarrow> Obj (normalizeRowTotal (normalizeRowEconomics (economics (rowIDKey (get row ''id''))) row))
      | _ \<Rightarrow> item)"

definition rowsTotal :: "any list \<Rightarrow> number" where
  "rowsTotal rows =
     foldl (\<lambda>total item. case item of Obj row \<Rightarrow> nadd total (moneyValue (get row ''total_price'')) | _ \<Rightarrow> total) (Fin 0) rows"

definition normalizePOTotal :: "fields \<Rightarrow> any list \<Rightarrow> fields" where
  "normalizePOTotal payload rows =
     (if positive (moneyValue (get payload ''total_price'')) then payload
      else let total = rowsTotal rows
           in if positive total then put ''total_price'' (Str (decimalString (Float total))) payload else payload)"

text \<open>A body that is not an object fails to decode; null decodes into an empty map.\<close>

definition normalizePODetailRows :: "any option \<Rightarrow> (string \<Rightarrow> rowEconomics) \<Rightarrow> any option" where
  "normalizePODetailRows body economics =
     (case body of
        Some (Obj payload) \<Rightarrow>
          (case get payload ''rows'' of
             Arr rows \<Rightarrow>
               let rows' = map (normalizeRow economics) rows
               in Some (Obj (normalizePOTotal (put ''rows'' (Arr rows') payload) rows'))
           | _ \<Rightarrow> body)
      | Some Null \<Rightarrow> body
      | _ \<Rightarrow> None)"

section \<open>Rows sent upstream: validation.go\<close>

definition text_of :: "fields \<Rightarrow> string \<Rightarrow> string" where
  "text_of m k = TrimSpace (stringValue (get m k))"

definition number_of :: "fields \<Rightarrow> string \<Rightarrow> number" where
  "number_of m k = numberValue (get m k)"

text \<open>The recurring and the one-off amount of a service row, under either of their two names.\<close>

definition mrcValue :: "fields \<Rightarrow> any" where
  "mrcValue body = (if is_zero (number_of body ''monthly_fee'') then get body ''montly_fee'' else get body ''monthly_fee'')"

definition nrcValue :: "fields \<Rightarrow> any" where
  "nrcValue body = (if is_zero (number_of body ''activation_price'') then get body ''activation_fee'' else get body ''activation_price'')"

definition validateServiceRow :: "fields \<Rightarrow> string option" where
  "validateServiceRow body =
     (let paymentDetail = mapValue (get body ''payment_detail'');
          startAt = text_of paymentDetail ''start_at'';
          renewDetail = mapValue (get body ''renew_detail'')
      in if startAt \<noteq> ''activation_date'' \<and> startAt \<noteq> ''specific_date'' then Some ''Decorrenza non valida''
         else if nonpositive (numberValue (mrcValue body)) \<and> nonpositive (numberValue (nrcValue body))
         then Some ''Inserisci MRC o NRC''
         else if nonpositive (number_of renewDetail ''initial_subscription_months'') then Some ''Inserisci la durata iniziale''
         else if nonpositive (number_of paymentDetail ''month_recursion'') then Some ''Seleziona la ricorrenza''
         else if boolValue (get renewDetail ''automatic_renew'') \<and> text_of renewDetail ''cancellation_advice'' = ''''
         then Some ''Inserisci il preavviso di disdetta''
         else if boolValue (get renewDetail ''automatic_renew'') \<and> nonpositive (number_of renewDetail ''cancellation_advice'')
         then Some ''Inserisci il preavviso di disdetta''
         else None)"

text \<open>The error of the first check that fails, or \<open>None\<close>.\<close>

definition validateRow :: "fields \<Rightarrow> string option" where
  "validateRow body =
     (let rowType = text_of body ''type'';
          paymentDetail = mapValue (get body ''payment_detail'');
          startAt = text_of paymentDetail ''start_at''
      in if rowType \<noteq> ''good'' \<and> rowType \<noteq> ''service'' then Some ''Seleziona il tipo riga''
         else if text_of body ''description'' = '''' then Some ''Inserisci la descrizione''
         else if nonpositive (number_of body ''qty'') then Some ''Inserisci una quantita maggiore di zero''
         else if text_of body ''product_code'' = '''' \<or> text_of body ''product_description'' = '''' then Some ''Seleziona un articolo''
         else if startAt = '''' then Some ''Seleziona la decorrenza''
         else if startAt = ''specific_date'' \<and> text_of paymentDetail ''start_at_date'' = '''' then Some ''Inserisci la data di decorrenza''
         else if rowType = ''good'' then
           (if startAt \<noteq> ''activation_date'' \<and> startAt \<noteq> ''advance_payment'' \<and> startAt \<noteq> ''specific_date'' then Some ''Decorrenza non valida''
            else if nonpositive (number_of body ''price'') then Some ''Inserisci un costo unitario maggiore di zero''
            else None)
         else validateServiceRow body)"

definition rowCreateTotal :: "string \<Rightarrow> fields \<Rightarrow> any \<Rightarrow> any \<Rightarrow> number" where
  "rowCreateTotal rowType body mrcOrPrice nrc =
     (let qty = number_of body ''qty''
      in if nonpositive qty then Fin 0
         else if rowType = ''good'' then nmul (numberValue mrcOrPrice) qty
         else let duration = number_of (mapValue (get body ''renew_detail'')) ''initial_subscription_months''
              in nadd (nmul (nmul (numberValue mrcOrPrice) qty) duration) (nmul (numberValue nrc) qty))"

definition rowRenewDetail :: "fields \<Rightarrow> fields" where
  "rowRenewDetail renewDetail =
     (let autoRenew = boolValue (get renewDetail ''automatic_renew'')
      in [(''initial_subscription_months'', Integer (int64Value (get renewDetail ''initial_subscription_months''))),
          (''automatic_renew'', Bool autoRenew)] @
         (if autoRenew then [(''cancellation_advice'', Integer (int64Value (get renewDetail ''cancellation_advice'')))] else []))"

definition rowPaymentDetail :: "fields \<Rightarrow> fields" where
  "rowPaymentDetail paymentDetail =
     [(''start_at'', Str (text_of paymentDetail ''start_at''))] @
     (if text_of paymentDetail ''start_at_date'' \<noteq> '''' then [(''start_at_date'', Str (text_of paymentDetail ''start_at_date''))] else [])"

definition buildRowCreateBody :: "fields \<Rightarrow> string \<Rightarrow> fields" where
  "buildRowCreateBody body email =
     (let rowType = text_of body ''type'';
          paymentDetail = mapValue (get body ''payment_detail'');
          out = [(''type'', Str rowType), (''description'', Str (text_of body ''description'')),
                 (''requester_email'', Str email), (''product_code'', Str (text_of body ''product_code'')),
                 (''product_description'', Str (text_of body ''product_description'')),
                 (''qty'', Integer (int64Value (get body ''qty'')))]
      in if rowType = ''good'' then
           out @ [(''payment_detail'', Obj (rowPaymentDetail paymentDetail)),
                  (''price'', Str (decimalString (get body ''price''))),
                  (''total'', Str (decimalString (Float (rowCreateTotal rowType body (get body ''price'') Null)))),
                  (''renew_detail'', Obj [])]
         else
           let mrc = mrcValue body; nrc = nrcValue body
           in out @ [(''payment_detail'', Obj (rowPaymentDetail paymentDetail @
                        [(''is_recurrent'', Bool (positive (numberValue mrc))),
                         (''month_recursion'', Integer (int64Value (get paymentDetail ''month_recursion'')))])),
                     (''price'', Str (decimalString mrc)), (''activation_price'', Str (decimalString nrc)),
                     (''total'', Str (decimalString (Float (rowCreateTotal rowType body mrc nrc)))),
                     (''renew_detail'', Obj (rowRenewDetail (mapValue (get body ''renew_detail''))))])"

section \<open>Rows of a clone: clone.go\<close>

definition decodeRawMap :: "raw \<Rightarrow> fields option" where
  "decodeRawMap r = (case r of Some (Obj m) \<Rightarrow> Some m | Some Null \<Rightarrow> Some [] | _ \<Rightarrow> None)"

definition normalizeCloneStartAt :: "string \<Rightarrow> string \<Rightarrow> string" where
  "normalizeCloneStartAt value rowType =
     (let v = TrimSpace value
      in if rowType = ''good'' then
           (if v = ''activation_date'' \<or> v = ''advance_payment'' \<or> v = ''specific_date'' then v else ''activation_date'')
         else (if v = ''activation_date'' \<or> v = ''specific_date'' then v else ''activation_date''))"

definition validated :: "fields \<Rightarrow> fields option" where
  "validated payload = (case validateRow payload of None \<Rightarrow> Some payload | Some _ \<Rightarrow> None)"

text \<open>A good keeps its price, or gets its total divided by its quantity.\<close>

definition cloneGoodPrice :: "fields \<Rightarrow> number \<Rightarrow> number" where
  "cloneGoodPrice row qty =
     (let price = firstPositiveMoney [get row ''price''];
          total = firstPositiveMoney [get row ''total_price'', get row ''total'']
      in if nonpositive price \<and> positive total then ndiv_pos total qty else price)"

definition cloneServicePayload :: "fields \<Rightarrow> fields \<Rightarrow> fields \<Rightarrow> fields option" where
  "cloneServicePayload row payload payloadPaymentDetail =
     (let mrc = firstPositiveMoney [get row ''monthly_fee'', get row ''montly_fee'', get row ''mrc'', get row ''price''];
          nrc = firstPositiveMoney [get row ''activation_price'', get row ''activation_fee'', get row ''nrc''];
          recurrence = firstPositiveMoney [get (mapValue (get row ''payment_detail'')) ''month_recursion''];
          renewDetail = mapValue (get row ''renew_detail'');
          duration = firstPositiveMoney [get renewDetail ''initial_subscription_months''];
          autoRenew = boolValue (get renewDetail ''automatic_renew'');
          advice = int64Value (get renewDetail ''cancellation_advice'')
      in if nonpositive mrc \<and> nonpositive nrc then None
         else if nonpositive recurrence then None
         else if nonpositive duration then None
         else if autoRenew \<and> advice \<le> 0 then None
         else validated
           (payload @
            [(''monthly_fee'', Float mrc), (''activation_price'', Float nrc),
             (''payment_detail'', Obj (payloadPaymentDetail @ [(''month_recursion'', Integer (int64_of_number recurrence))])),
             (''renew_detail'', Obj ([(''initial_subscription_months'', Integer (int64_of_number duration)),
                                     (''automatic_renew'', Bool autoRenew)] @
                                    (if autoRenew then [(''cancellation_advice'', Integer advice)] else [])))]))"

definition cloneRowPayloadFromSource :: "raw \<Rightarrow> fields option" where
  "cloneRowPayloadFromSource r =
     (case decodeRawMap r of
        None \<Rightarrow> None
      | Some row \<Rightarrow>
          let rowType = rowTypeOf row;
              qty = number_of row ''qty'';
              productCode = text_of row ''product_code'';
              productDescription = TrimSpace (firstString [get row ''product_description'', get row ''description'', get row ''product_code'']);
              paymentDetail = mapValue (get row ''payment_detail'');
              startAt = normalizeCloneStartAt (firstString [get paymentDetail ''start_at'', get paymentDetail ''start_pay_at_activation_date'']) rowType;
              startAtDate = text_of paymentDetail ''start_at_date'';
              payloadPaymentDetail = [(''start_at'', Str startAt)] @ (if startAtDate \<noteq> '''' then [(''start_at_date'', Str startAtDate)] else []);
              payload = [(''type'', Str rowType),
                         (''description'', Str (TrimSpace (firstString [get row ''description'', get row ''product_description'']))),
                         (''qty'', Float qty), (''product_code'', Str productCode), (''product_description'', Str productDescription),
                         (''payment_detail'', Obj payloadPaymentDetail)]
          in if rowType \<noteq> ''good'' \<and> rowType \<noteq> ''service'' then None
             else if nonpositive qty then None
             else if productCode = '''' \<or> productDescription = '''' then None
             else if startAt = ''specific_date'' \<and> startAtDate = '''' then None
             else if rowType = ''good'' then
               (let price = cloneGoodPrice row qty
                in if nonpositive price then None else validated (payload @ [(''price'', Float price)]))
             else cloneServicePayload row payload payloadPaymentDetail)"

section \<open>Finding a row\<close>

definition poHasRow :: "poDetail \<Rightarrow> string \<Rightarrow> bool" where
  "poHasRow po rowID =
     (let needle = TrimSpace rowID
      in needle \<noteq> '''' \<and>
         list_ex (\<lambda>r. case decodeRawMap r of Some row \<Rightarrow> rowIDKey (get row ''id'') = needle | None \<Rightarrow> False) (po_Rows po))"

definition rowResponseID :: "any option \<Rightarrow> string" where
  "rowResponseID body = (case decodeRawMap body of Some m \<Rightarrow> rowIDKey (get m ''id'') | None \<Rightarrow> '''')"

section \<open>Reading back amounts\<close>

definition any_float :: "any \<Rightarrow> bool" where
  "any_float v \<longleftrightarrow> (case v of Float x \<Rightarrow> is_float x | _ \<Rightarrow> True)"

definition float_fields :: "fields \<Rightarrow> bool" where
  "float_fields m \<longleftrightarrow> list_all (\<lambda>(k, v). any_float v) m"

lemma any_float_get: "float_fields m \<Longrightarrow> any_float (get m k)"
  by (auto simp: float_fields_def list_all_iff get_def any_float_def split: option.splits dest!: map_of_SomeD)

lemma is_float_numberValue: "any_float v \<Longrightarrow> is_float (numberValue v)"
  by (auto simp: any_float_def numberValue_def is_float_def[of "Fin 0"] maxFloat_def split: any.splits)

lemma is_float_parseTotalPrice [simp]: "is_float (parseTotalPrice s)"
  using is_float_ParseFloat[of "ReplaceChar (CHR '','') ''.'' (filter price_char s)"]
    is_float_ParseFloat[of "ReplaceChar (CHR '','') ''.'' (ReplaceChar (CHR ''.'') '''' (filter price_char s))"]
  by (auto simp: parseTotalPrice_def Let_def case_prod_beta is_float_def[of "Fin 0"] maxFloat_def)

lemma is_float_moneyValue: "any_float v \<Longrightarrow> is_float (moneyValue v)"
  using is_float_numberValue by (auto simp: moneyValue_def split: any.splits)

lemma FormatFloat_trim: "TrimSpace (FormatFloat v) = FormatFloat v"
  by (rule TrimSpace_no_space) (use FormatFloat_chars in blast)

lemma FormatFloat_no_comma: "ReplaceChar (CHR '','') t (FormatFloat v) = FormatFloat v"
  by (rule ReplaceChar_none) (use FormatFloat_chars in blast)

lemma numberValue_text: "is_float v \<Longrightarrow> numberValue (Str (FormatFloat v)) = v"
  by (simp add: numberValue_def FormatFloat_trim FormatFloat_no_comma parse_format_number)

lemma numberValue_decimalString: "any_float v \<Longrightarrow> numberValue (Str (decimalString v)) = numberValue v"
  by (simp add: decimalString_def numberValue_text is_float_numberValue)

lemma number_char_price: "is_digit c \<or> c = CHR ''.'' \<or> c = CHR ''-'' \<Longrightarrow> price_char c"
  by (auto simp: price_char_def)

lemma filter_price: "filter price_char (FormatFloat (Fin q)) = FormatFloat (Fin q)"
  unfolding filter_id_conv using FormatFloat_Fin_chars[of q] number_char_price by blast

lemma moneyValue_text: "is_float (Fin q) \<Longrightarrow> moneyValue (Str (FormatFloat (Fin q))) = Fin q"
proof -
  assume f: "is_float (Fin q)"
  have "CHR '','' \<notin> set (FormatFloat (Fin q))" using FormatFloat_chars by blast
  moreover have "ParseFloat (FormatFloat (Fin q)) = (Fin q, True)" using f by (intro parse_format) (simp_all add: is_float_def)
  ultimately show ?thesis
    unfolding moneyValue_def any.case parseTotalPrice_def filter_price Let_def FormatFloat_no_comma by (simp del: FormatFloat.simps)
qed

lemma FormatFloat_nonempty: "FormatFloat v \<noteq> ''''"
  using print_decimal_head[of "shortest q" for q] by (cases v) (auto, metis list.distinct(1))

subsection \<open>Entries of the body\<close>

lemma get_Cons: "get ((k, v) # m) c = (if c \<in> fst ` set m then get m c else if c = k then v else Null)"
proof -
  have "map_of (rev m) c = None \<longleftrightarrow> c \<notin> fst ` set m" by (simp add: map_of_eq_None_iff)
  then show ?thesis by (cases "map_of (rev m) c") (auto simp: get_def map_add_def)
qed

lemma build_body_get:
  "get (buildRowCreateBody body email) ''type'' = Str (text_of body ''type'')"
  "get (buildRowCreateBody body email) ''qty'' = Integer (int64Value (get body ''qty''))"
  "get (buildRowCreateBody body email) ''requester_email'' = Str email"
  "text_of body ''type'' = ''good'' \<Longrightarrow> get (buildRowCreateBody body email) ''price'' = Str (decimalString (get body ''price''))"
  "text_of body ''type'' \<noteq> ''good'' \<Longrightarrow> get (buildRowCreateBody body email) ''price'' = Str (decimalString (mrcValue body))"
  "text_of body ''type'' \<noteq> ''good'' \<Longrightarrow> get (buildRowCreateBody body email) ''activation_price'' = Str (decimalString (nrcValue body))"
  by (simp_all add: buildRowCreateBody_def Let_def get_Cons)

section \<open>What an accepted row sends\<close>

lemma validateRow_None:
  assumes "validateRow body = None"
  shows "text_of body ''type'' = ''good'' \<or> text_of body ''type'' = ''service''"
    and "\<not> nonpositive (number_of body ''qty'')"
    and "text_of body ''type'' = ''good'' \<Longrightarrow> \<not> nonpositive (number_of body ''price'')"
    and "text_of body ''type'' \<noteq> ''good'' \<Longrightarrow> validateServiceRow body = None"
    and "text_of body ''description'' \<noteq> ''''" "text_of body ''product_code'' \<noteq> ''''" "text_of body ''product_description'' \<noteq> ''''"
  using assms by (auto simp: validateRow_def Let_def split: if_splits)

lemma validateServiceRow_None:
  assumes "validateServiceRow body = None"
  shows "\<not> (nonpositive (numberValue (mrcValue body)) \<and> nonpositive (numberValue (nrcValue body)))"
    and "\<not> nonpositive (number_of (mapValue (get body ''renew_detail'')) ''initial_subscription_months'')"
  using assms by (auto simp: validateServiceRow_def Let_def split: if_splits)

lemma any_float_amounts: "float_fields body \<Longrightarrow> any_float (mrcValue body)" "float_fields body \<Longrightarrow> any_float (nrcValue body)"
  by (auto simp: mrcValue_def nrcValue_def any_float_get)

lemma is_float_rowCreateTotal: "is_float (rowCreateTotal t body a b)"
  by (simp add: rowCreateTotal_def Let_def is_float_def[of "Fin 0"] maxFloat_def)

lemma build_body_total:
  "get (buildRowCreateBody body email) ''total'' =
     Str (decimalString (Float (if text_of body ''type'' = ''good''
       then rowCreateTotal ''good'' body (get body ''price'') Null
       else rowCreateTotal (text_of body ''type'') body (mrcValue body) (nrcValue body))))"
  by (simp add: buildRowCreateBody_def Let_def get_Cons)

lemma numberValue_Float [simp]: "numberValue (Float v) = v"
  by (simp add: numberValue_def)

lemma numberValue_total: "is_float v \<Longrightarrow> numberValue (Str (decimalString (Float v))) = v"
  using numberValue_decimalString[of "Float v"] by (simp add: any_float_def)

text \<open>A row that passes the check is sent with amounts that read back as the checked ones: the price (the
  recurring amount of a service), the activation price, and a total that is price times quantity for a
  good and recurring amount times quantity times duration plus activation times quantity for a service.\<close>

theorem row_amounts_sent:
  assumes "validateRow body = None" "float_fields body"
  shows "let out = buildRowCreateBody body email; qty = number_of body ''qty'';
             months = number_of (mapValue (get body ''renew_detail'')) ''initial_subscription_months'' in
         if text_of body ''type'' = ''good'' then
           number_of out ''price'' = number_of body ''price'' \<and> \<not> nonpositive (number_of out ''price'') \<and>
           number_of out ''total'' = nmul (number_of body ''price'') qty
         else
           number_of out ''price'' = numberValue (mrcValue body) \<and> number_of out ''activation_price'' = numberValue (nrcValue body) \<and>
           \<not> (nonpositive (number_of out ''price'') \<and> nonpositive (number_of out ''activation_price'')) \<and>
           number_of out ''total'' = nadd (nmul (nmul (numberValue (mrcValue body)) qty) months) (nmul (numberValue (nrcValue body)) qty)"
  using validateRow_None(2,3,4)[OF assms(1)] validateServiceRow_None(1)[of body]
    any_float_get[OF assms(2), of "''price''"] any_float_amounts[OF assms(2)]
  by (auto simp: Let_def number_of_def build_body_get build_body_total numberValue_total numberValue_decimalString rowCreateTotal_def)

definition goodRow :: "any \<Rightarrow> fields" where
  "goodRow qty = [(''type'', Str ''good''), (''description'', Str ''Switch''), (''qty'', qty), (''product_code'', Str ''SW1''),
     (''product_description'', Str ''Switch24''), (''payment_detail'', Obj [(''start_at'', Str ''activation_date'')]),
     (''price'', Float (Fin 10))]"

lemma goodRow_accepted: "\<not> nonpositive (numberValue qty) \<Longrightarrow> validateRow (goodRow qty) = None"
  by (simp add: validateRow_def goodRow_def text_of_def number_of_def get_Cons mapValue_def stringValue_def
      TrimSpace_no_space is_space_def re_space_def Let_def)

text \<open>The check accepts a fraction of a unit and a quantity that is not a number, and what is sent then
  contradicts itself.\<close>

text \<open>An accepted row with a quantity between zero and one is sent with quantity 0, while its total is
  still computed on the fraction.\<close>

theorem fractional_quantity_sent_as_zero:
  assumes "validateRow body = None" "get body ''qty'' = Float (Fin q)" "q < 1"
  shows "get (buildRowCreateBody body email) ''qty'' = Integer 0 \<and>
         (text_of body ''type'' = ''good'' \<longrightarrow>
           number_of (buildRowCreateBody body email) ''total'' = nmul (number_of body ''price'') (Fin q))"
proof -
  have "0 < q" using validateRow_None(2)[OF assms(1)] assms(2) by (simp add: number_of_def)
  then have "\<lfloor>q\<rfloor> = 0" using assms(3) by (simp add: floor_eq_iff)
  then have "int64Value (get body ''qty'') = 0"
    using \<open>0 < q\<close> assms(2) by (simp add: int64Value_def int_of_float_def minInt64_def maxInt64_def)
  then show ?thesis
    using \<open>0 < q\<close> assms(2)
    by (simp add: build_body_get build_body_total number_of_def rowCreateTotal_def numberValue_total)
qed

theorem fractional_quantity_sent_as_zero_witness:
  "get (buildRowCreateBody (goodRow (Float (Fin (1/2)))) ''a@b'') ''qty'' = Integer 0"
  using fractional_quantity_sent_as_zero[of "goodRow (Float (Fin (1/2)))" "1/2" "''a@b''"] goodRow_accepted[of "Float (Fin (1/2))"]
  by (simp add: goodRow_def get_Cons)

text \<open>A quantity given as the text NaN passes the check of any row that is accepted with another quantity
  and a finite positive price, and the total sent for a good is the text NaN.\<close>

theorem nan_quantity_accepted:
  assumes "validateRow body = None"
  shows "validateRow (put ''qty'' (Str ''NaN'') body) = None \<and>
         (text_of body ''type'' = ''good'' \<longrightarrow>
           get (buildRowCreateBody (put ''qty'' (Str ''NaN'') body) email) ''total'' = Str ''NaN'')"
proof -
  have n: "numberValue (Str ''NaN'') = NaN"
    by (simp add: numberValue_def TrimSpace_no_space is_space_def re_space_def ReplaceChar_def parse_special)
  have same: "text_of (put ''qty'' (Str ''NaN'') body) k = text_of body k" if "k \<noteq> ''qty''" for k
    using that by (simp add: text_of_def)
  have amounts: "mrcValue (put ''qty'' (Str ''NaN'') body) = mrcValue body" "nrcValue (put ''qty'' (Str ''NaN'') body) = nrcValue body"
    by (simp_all add: mrcValue_def nrcValue_def number_of_def)
  have "validateServiceRow (put ''qty'' (Str ''NaN'') body) = validateServiceRow body"
    by (simp add: validateServiceRow_def amounts cong: if_cong)
  then have "validateRow (put ''qty'' (Str ''NaN'') body) = None"
    using assms n by (simp add: validateRow_def same number_of_def Let_def split: if_splits)
  moreover have "nmul v NaN = NaN" if "\<not> nonpositive v" for v
    using that by (cases v) (auto simp: inf_times_def)
  ultimately show ?thesis
    using validateRow_None(3)[OF assms] n
    by (auto simp: build_body_total same rowCreateTotal_def number_of_def decimalString_def)
qed

theorem nan_quantity_accepted_witness: "validateRow (put ''qty'' (Str ''NaN'') (goodRow (Float (Fin 1)))) = None"
  using nan_quantity_accepted[of "goodRow (Float (Fin 1))"] goodRow_accepted[of "Float (Fin 1)"] by simp

theorem row_amounts_sent_witness: "number_of (buildRowCreateBody (goodRow (Float (Fin 3))) ''a@b'') ''price'' = Fin 10"
  using row_amounts_sent[of "goodRow (Float (Fin 3))" "''a@b''"] goodRow_accepted[of "Float (Fin 3)"]
  by (simp add: goodRow_def get_Cons float_fields_def any_float_def is_float_def maxFloat_def fl_of_int[of 3, simplified]
      fl_of_int[of 10, simplified] text_of_def stringValue_def TrimSpace_no_space is_space_def re_space_def Let_def number_of_def)

section \<open>The totals shown\<close>

lemma moneyValue_simps [simp]: "moneyValue Null = Fin 0" "moneyValue (Float v) = v"
  by (simp_all add: moneyValue_def numberValue_def)

lemma any_float_moneyText: "is_float (Fin q) \<Longrightarrow> 0 < q \<Longrightarrow> positive (moneyValue (Str (decimalString (Float (Fin q)))))"
  by (simp add: decimalString_def moneyValue_text del: FormatFloat.simps)

lemma is_float_foldl: "is_float t \<Longrightarrow> is_float (foldl (\<lambda>t i. case i of Obj r \<Rightarrow> nadd t (f r) | _ \<Rightarrow> t) t items)"
  by (induction items arbitrary: t) (auto split: any.split)

lemma is_float_rowsTotal: "is_float (rowsTotal rows)"
  unfolding rowsTotal_def by (rule is_float_foldl) (simp add: is_float_def maxFloat_def)

lemma moneyValue_text_Float: "is_float (Fin q) \<Longrightarrow> moneyValue (Str (decimalString (Float (Fin q)))) = Fin q"
  by (simp add: decimalString_def moneyValue_text del: FormatFloat.simps)

text \<open>A row shows the total it has; failing that, the total of the source or the one computed from its amounts,
  written so that it reads back exactly, and the normalisation changes nothing the second time.\<close>

theorem row_total_shown:
  assumes "float_fields row" "\<not> positive (moneyValue (get row ''total_price''))"
    "(if positive (moneyValue (get row ''total'')) then moneyValue (get row ''total'') else rowCalculatedTotal row) = Fin q" "0 < q"
  shows "moneyValue (get (normalizeRowTotal row) ''total_price'') = Fin q \<and>
         normalizeRowTotal (normalizeRowTotal row) = normalizeRowTotal row"
proof -
  have "is_float (rowCalculatedTotal row)"
    by (simp add: rowCalculatedTotal_def Let_def is_float_def[of "Fin 0"] maxFloat_def)
  moreover have "is_float (moneyValue (get row ''total''))" by (intro is_float_moneyValue any_float_get assms(1))
  ultimately have f: "is_float (Fin q)" using assms(3) by (metis (full_types))
  have n: "normalizeRowTotal row = put ''total_price'' (Str (decimalString (Float (Fin q)))) row"
    using assms(2,3,4) by (auto simp: normalizeRowTotal_def Let_def split: if_splits)
  have m: "moneyValue (get (normalizeRowTotal row) ''total_price'') = Fin q"
    unfolding n by (simp add: moneyValue_text_Float[OF f])
  then have "normalizeRowTotal (normalizeRowTotal row) = normalizeRowTotal row"
    using assms(4) by (simp add: normalizeRowTotal_def[of "normalizeRowTotal row"])
  with m show ?thesis by blast
qed

theorem row_total_shown_witness:
  "moneyValue (get (normalizeRowTotal [(''total'', Float (Fin 30))]) ''total_price'') = Fin 30"
  using row_total_shown[of "[(''total'', Float (Fin 30))]" 30] fl_of_int[of 30]
  by (simp add: float_fields_def any_float_def is_float_def maxFloat_def get_Cons)

text \<open>When the service gives no positive total for a request, the detail shows the sum of the totals of its
  rows, each row after its own normalisation, and it reads back exactly.\<close>

theorem detail_total_is_rows_sum:
  assumes "get payload ''rows'' = Arr rows" "\<not> positive (moneyValue (get payload ''total_price''))"
    "rowsTotal (map (normalizeRow economics) rows) = Fin q" "0 < q"
  shows "case normalizePODetailRows (Some (Obj payload)) economics of
           Some (Obj p) \<Rightarrow> get p ''rows'' = Arr (map (normalizeRow economics) rows) \<and> moneyValue (get p ''total_price'') = Fin q
         | _ \<Rightarrow> False"
proof -
  have f: "is_float (Fin q)" using is_float_rowsTotal[of "map (normalizeRow economics) rows"] assms(3) by simp
  show ?thesis
    using assms by (simp add: normalizePODetailRows_def normalizePOTotal_def Let_def moneyValue_text_Float[OF f])
qed

theorem detail_total_is_rows_sum_witness:
  "case normalizePODetailRows (Some (Obj [(''rows'', Arr [Obj [(''total_price'', Float (Fin 7))]])])) (\<lambda>_. zeroEconomics) of
     Some (Obj p) \<Rightarrow> moneyValue (get p ''total_price'') = Fin 7 | _ \<Rightarrow> False"
  using detail_total_is_rows_sum[of "[(''rows'', Arr [Obj [(''total_price'', Float (Fin 7))]])]"
      "[Obj [(''total_price'', Float (Fin 7))]]" "\<lambda>_. zeroEconomics" 7] fl_of_int[of 7]
  by (simp add: get_Cons rowsTotal_def normalizeRow_def normalizeRowEconomics_def fillMoney_def zeroEconomics_def normalizeRowTotal_def
      normalizeGoodPrice_def to_number_def maxFloat_def rowTypeOf_def stringValue_def ToLower_def split: option.splits any.splits)

section \<open>Amounts in the Italian notation\<close>

lemma point_not_digit [simp]: "\<not> is_digit (CHR ''.'')"
  by (simp add: is_digit_def less_eq_char_def)

lemma point_in_set: "1 \<le> count_list s c \<Longrightarrow> c \<in> set s"
  using count_notin[of c s] by fastforce

lemma read_exp_point:
  assumes "CHR ''.'' \<in> set s" shows "read_exp s = None"
proof -
  obtain c r where s: "s = c # r" using assms by (cases s) auto
  obtain ng ds where d: "split_sign r = (ng, ds)" by fastforce
  have "c \<noteq> CHR ''e'' \<and> c \<noteq> CHR ''E'' \<or> CHR ''.'' \<in> set ds"
    using assms s d by (auto simp: split_sign_def split: list.splits if_splits)
  then show ?thesis using s d point_not_digit by (auto simp: read_exp_def list_all_iff simp del: point_not_digit)
qed

lemma count_dropWhile: "\<not> P c \<Longrightarrow> count_list (dropWhile P t) c = count_list t c"
  by (induction t) auto

lemma read_decimal_two_points:
  assumes "2 \<le> count_list s (CHR ''.'')" shows "read_decimal s = None"
proof -
  let ?r = "dropWhile is_digit s"
  have c: "2 \<le> count_list ?r (CHR ''.'')" using assms by (simp add: count_dropWhile)
  then obtain a t where r: "?r = a # t" by (cases ?r) auto
  have "1 \<le> count_list (dropWhile is_digit t) (CHR ''.'')" using c r by (simp add: count_dropWhile split: if_splits)
  then have "read_exp (dropWhile is_digit t) = None" by (rule read_exp_point[OF point_in_set])
  moreover have "read_exp ?r = None" by (rule read_exp_point[OF point_in_set]) (use c in simp)
  ultimately show ?thesis using r by (simp add: read_decimal_def Let_def)
qed

lemma to_lower_point: "CHR ''.'' \<in> set s \<Longrightarrow> CHR ''.'' \<in> set (ToLower s)"
  by (force simp: ToLower_def to_lower_def is_upper_def)

lemma ParseFloat_two_points:
  assumes "2 \<le> count_list s (CHR ''.'')" shows "ParseFloat s = (Fin 0, False)"
proof -
  obtain ng u where u: "split_sign s = (ng, u)" by fastforce
  then have c: "count_list u (CHR ''.'') = count_list s (CHR ''.'')"
    by (auto simp: split_sign_def split: list.splits if_splits)
  have "CHR ''.'' \<in> set u" "CHR ''.'' \<in> set s" by (rule point_in_set, use assms c in simp)+
  note this[THEN to_lower_point]
  then have "ToLower u \<noteq> ''inf'' \<and> ToLower u \<noteq> ''infinity'' \<and> ToLower s \<noteq> ''nan''"
    by (intro conjI notI) simp_all
  then show ?thesis
    using assms c u read_decimal_two_points[of u] by (simp add: ParseFloat_def)
qed

lemma count_ReplaceChar:
  "count_list (ReplaceChar (CHR '','') ''.'' s) (CHR ''.'') = count_list s (CHR ''.'') + count_list s (CHR '','')"
  by (induction s) (auto simp: ReplaceChar_def)

lemma numberValue_mixed:
  assumes "CHR ''.'' \<in> set s" "CHR '','' \<in> set s" "TrimSpace s = s"
  shows "numberValue (Str s) = Fin 0"
proof -
  have "count_list s (CHR ''.'') \<noteq> 0" "count_list s (CHR '','') \<noteq> 0" using assms by (simp_all add: count_list_0_iff)
  then have "2 \<le> count_list (ReplaceChar (CHR '','') ''.'' s) (CHR ''.'')" by (simp add: count_ReplaceChar)
  then show ?thesis using assms(3) by (simp add: numberValue_def ParseFloat_two_points)
qed

text \<open>A recurring amount written with both separators (as 1.200,00) counts as a positive amount but is copied as
  0, because the test reads it as money and the copy as a plain number.\<close>

theorem mixed_notation_amount_lost:
  assumes "CHR ''.'' \<in> set s" "CHR '','' \<in> set s" "TrimSpace s = s" "get row ''mrc'' = Str s"
    "positive (moneyValue (Str s))" "lacksMoney row ''montly_fee'' ''monthly_fee''"
  shows "get (normalizeRowEconomics zeroEconomics row) ''montly_fee'' = Str ''0''"
proof -
  have d: "decimalString (Str s) = ''0''" using assms(1-3) by (simp add: decimalString_def numberValue_mixed)
  have g: "get (normalizeGoodPrice ec r) ''montly_fee'' = get r ''montly_fee''" for ec r
    by (simp add: normalizeGoodPrice_def Let_def)
  show ?thesis
    using assms(4,5,6) by (simp add: normalizeRowEconomics_def Let_def g fillMoney_def zeroEconomics_def d)
qed

theorem mixed_notation_amount_lost_witness:
  "get (normalizeRowEconomics zeroEconomics [(''type'', Str ''service''), (''mrc'', Str ''1.200,00'')]) ''montly_fee'' = Str ''0''"
proof -
  have d: "digits_nat ''120000'' = 120000" "list_all is_digit ''1200''" "list_all is_digit ''00''"
    "ToLower ''1200.00'' = ''1200.00''" "filter price_char ''1.200,00'' = ''1.200,00''"
    by (simp_all add: digits_nat_def digit_def is_digit_def less_eq_char_def ToLower_def to_lower_def is_upper_def price_char_def)
  have "read_decimal ''1200.00'' = Some 1200"
    using read_decimal_point[OF d(2,3)] by (simp add: d power_int_def power_one_over)
  then have "ParseFloat ''1200.00'' = (Fin 1200, True)"
    using fl_of_int[of 1200] by (simp add: ParseFloat_def split_sign_def d(4) to_number_def maxFloat_def)
  then have "positive (moneyValue (Str ''1.200,00''))"
    unfolding moneyValue_def any.case parseTotalPrice_def d(5) by (simp add: ReplaceChar_def)
  moreover have "TrimSpace ''1.200,00'' = ''1.200,00''"
    by (simp add: TrimSpace_no_space is_space_def re_space_def)
  ultimately show ?thesis
    by (intro mixed_notation_amount_lost[where s = "''1.200,00''"])
      (simp_all add: get_Cons lacksMoney_def moneyValue_def numberValue_def)
qed

section \<open>Cloning a row\<close>

lemma TrimSpace_idem [simp]: "TrimSpace (TrimSpace s) = TrimSpace s"
proof -
  have d: "dropWhile P (dropWhile P xs) = dropWhile P xs" for P and xs :: string
    by (induction xs) auto
  have e: "dropWhile P xs = xs" if "xs = [] \<or> \<not> P (hd xs)" for P and xs :: string
    using that by (cases xs) auto
  define t where "t = dropWhile is_space s"
  define u where "u = rev (dropWhile is_space (rev t))"
  have "u = [] \<or> \<not> is_space (hd u)"
  proof (cases u)
    case (Cons c u')
    have "\<exists>v. t = u @ v" unfolding u_def by (metis rev_append rev_rev_ident takeWhile_dropWhile_id)
    then have "hd t = c" "t \<noteq> []" using Cons by auto
    then show ?thesis using hd_dropWhile[of is_space s] Cons by (auto simp: t_def)
  qed simp
  then have "dropWhile is_space u = u" by (rule e)
  then show ?thesis by (simp add: TrimSpace_def TrimLeftFunc_def TrimRightFunc_def t_def[symmetric] u_def[symmetric])
    (simp add: u_def d)
qed

lemma text_of_trimmed [simp]: "TrimSpace (text_of m k) = text_of m k"
  by (simp add: text_of_def)

lemma stringValue_Str [simp]: "stringValue (Str s) = s"
  by (simp add: stringValue_def)

lemma firstString_head: "TrimSpace s \<noteq> '''' \<Longrightarrow> firstString (Str s # vs) = TrimSpace s"
  by (simp add: Let_def)

lemma build_good_entries:
  fixes email
  assumes "text_of body ''type'' = ''good''"
  defines "out \<equiv> buildRowCreateBody body email"
  shows "rowTypeOf out = ''good''" "text_of out ''product_code'' = text_of body ''product_code''"
    "get out ''description'' = Str (text_of body ''description'')"
    "get out ''product_description'' = Str (text_of body ''product_description'')"
    "get out ''payment_detail'' = Obj (rowPaymentDetail (mapValue (get body ''payment_detail'')))"
  using assms by (simp_all add: out_def buildRowCreateBody_def Let_def get_Cons rowTypeOf_def text_of_def[of "_ # _"]
      ToLower_def to_lower_def is_upper_def TrimSpace_no_space is_space_def re_space_def)

lemma good_start:
  assumes "validateRow body = None" "text_of body ''type'' = ''good''"
  shows "text_of (mapValue (get body ''payment_detail'')) ''start_at'' \<in> {''activation_date'', ''advance_payment'', ''specific_date''}"
    and "text_of (mapValue (get body ''payment_detail'')) ''start_at'' = ''specific_date'' \<Longrightarrow>
         text_of (mapValue (get body ''payment_detail'')) ''start_at_date'' \<noteq> ''''"
  using assms by (auto simp: validateRow_def Let_def split: if_splits)

text \<open>The payload a good is cloned to.\<close>

definition goodPayload :: "fields \<Rightarrow> number \<Rightarrow> number \<Rightarrow> fields" where
  "goodPayload body qty price =
     [(''type'', Str ''good''), (''description'', Str (text_of body ''description'')), (''qty'', Float qty),
      (''product_code'', Str (text_of body ''product_code'')), (''product_description'', Str (text_of body ''product_description'')),
      (''payment_detail'', Obj (rowPaymentDetail (mapValue (get body ''payment_detail'')))), (''price'', Float price)]"

lemma mapValue_Obj [simp]: "mapValue (Obj m) = m"
  by (simp add: mapValue_def)

lemma text_of_Cons: "text_of ((k, v) # m) c = (if c \<in> fst ` set m then text_of m c else if c = k then TrimSpace (stringValue v) else [])"
  by (auto simp: text_of_def get_Cons stringValue_def)

lemma text_of_rowPaymentDetail:
  "text_of (rowPaymentDetail m) ''start_at'' = text_of m ''start_at''"
  "text_of (rowPaymentDetail m) ''start_at_date'' = text_of m ''start_at_date''"
proof -
  have "text_of m ''start_at_date'' = '''' \<Longrightarrow> text_of (rowPaymentDetail m) ''start_at_date'' = ''''"
    by (simp add: rowPaymentDetail_def text_of_Cons)
  moreover have "text_of m ''start_at_date'' \<noteq> '''' \<Longrightarrow> text_of (rowPaymentDetail m) ''start_at_date'' = text_of m ''start_at_date''"
    by (simp add: rowPaymentDetail_def text_of_Cons)
  ultimately show "text_of (rowPaymentDetail m) ''start_at_date'' = text_of m ''start_at_date''" by metis
  show "text_of (rowPaymentDetail m) ''start_at'' = text_of m ''start_at''"
    by (simp add: rowPaymentDetail_def text_of_Cons)
qed

lemma rowPaymentDetail_idem: "rowPaymentDetail (rowPaymentDetail m) = rowPaymentDetail m"
  by (simp only: rowPaymentDetail_def[of "rowPaymentDetail m"] text_of_rowPaymentDetail) (simp only: rowPaymentDetail_def)

lemma goodPayload_gets:
  "text_of (goodPayload body qty price) ''type'' = ''good''"
  "text_of (goodPayload body qty price) ''description'' = text_of body ''description''"
  "text_of (goodPayload body qty price) ''product_code'' = text_of body ''product_code''"
  "text_of (goodPayload body qty price) ''product_description'' = text_of body ''product_description''"
  "get (goodPayload body qty price) ''qty'' = Float qty" "get (goodPayload body qty price) ''price'' = Float price"
  "get (goodPayload body qty price) ''payment_detail'' = Obj (rowPaymentDetail (mapValue (get body ''payment_detail'')))"
  by (simp_all add: goodPayload_def text_of_Cons get_Cons TrimSpace_no_space is_space_def re_space_def)

lemma goodPayload_valid:
  assumes "validateRow body = None" "text_of body ''type'' = ''good''" "\<not> nonpositive qty" "\<not> nonpositive price"
  shows "validateRow (goodPayload body qty price) = None"
  using assms(3,4) validateRow_None(5-7)[OF assms(1)] good_start[OF assms(1,2)]
  by (auto simp: validateRow_def goodPayload_gets mapValue_def text_of_rowPaymentDetail number_of_def Let_def)

lemma clone_good:
  fixes email
  assumes "validateRow body = None" "text_of body ''type'' = ''good''"
    "number_of (buildRowCreateBody body email) ''qty'' = qty" "\<not> nonpositive qty"
    "moneyValue (get (buildRowCreateBody body email) ''price'') = price" "positive price"
  shows "cloneRowPayloadFromSource (Some (Obj (buildRowCreateBody body email))) = Some (goodPayload body qty price)"
proof -
  let ?out = "buildRowCreateBody body email"
  note entries = build_good_entries[OF assms(2), of email] and start = good_start[OF assms(1,2)]
  have np: "\<not> nonpositive price" using assms(6) by (cases price) auto
  have texts: "firstString (Str (text_of body ''product_description'') # vs) = text_of body ''product_description''"
    "firstString (Str (text_of body ''description'') # vs) = text_of body ''description''" for vs
    using validateRow_None(5-7)[OF assms(1)] by (simp_all add: firstString_head del: firstString.simps)
  have st: "firstString [get (rowPaymentDetail m) ''start_at'', v] = text_of m ''start_at''" if "text_of m ''start_at'' \<noteq> ''''" for m v
    using that by (simp add: rowPaymentDetail_def get_Cons)
  have norm: "normalizeCloneStartAt (text_of (mapValue (get body ''payment_detail'')) ''start_at'') ''good'' =
      text_of (mapValue (get body ''payment_detail'')) ''start_at''"
    using start(1) by (auto simp: normalizeCloneStartAt_def)
  have price: "cloneGoodPrice ?out qty = price"
    using assms(5,6) np by (simp add: cloneGoodPrice_def Let_def)
  have v: "validated (goodPayload body qty price) = Some (goodPayload body qty price)"
    using goodPayload_valid[OF assms(1,2,4) np] by (simp add: validated_def)
  define m where "m = mapValue (get body ''payment_detail'')"
  have ne: "text_of m ''start_at'' \<noteq> ''''" using start(1) by (auto simp: m_def)
  have pd: "[(''start_at'', Str (text_of m ''start_at''))] @
      (if text_of m ''start_at_date'' \<noteq> [] then [(''start_at_date'', Str (text_of m ''start_at_date''))] else []) = rowPaymentDetail m"
    by (simp add: rowPaymentDetail_def)
  have same: "''good'' \<noteq> ''good'' \<and> ''good'' \<noteq> ''service'' \<longleftrightarrow> False" "(''good'' = ''good'') = True" by simp_all
  have "\<not> (text_of m ''start_at'' = ''specific_date'' \<and> text_of m ''start_at_date'' = [])" using start(2) by (auto simp: m_def)
  then show ?thesis
    using validateRow_None(6,7)[OF assms(1)] assms(3,4) np v
    unfolding cloneRowPayloadFromSource_def decodeRawMap_def option.case any.case Let_def entries price texts mapValue_Obj
      m_def[symmetric] st[OF ne] norm[folded m_def] text_of_rowPaymentDetail text_of_trimmed assms(3) price pd same
    by (simp add: goodPayload_def m_def[symmetric])
qed

text \<open>Cloning gives back what was created: a good with a whole quantity and a finite price, in the form it was
  sent with, is cloned, and the clone is sent with exactly the same body.\<close>

theorem clone_sends_the_same_row:
  assumes "validateRow body = None" "text_of body ''type'' = ''good''" "float_fields body"
    "get body ''qty'' = Float (Fin (of_int n))" "n < 2 ^ 53" "number_of body ''price'' = Fin p"
  shows "map_option (\<lambda>payload. buildRowCreateBody payload email) (cloneRowPayloadFromSource (Some (Obj (buildRowCreateBody body email)))) =
         Some (buildRowCreateBody body email)"
proof -
  have n: "0 < n" using validateRow_None(2)[OF assms(1)] assms(4) by (simp add: number_of_def)
  have p: "0 < p" using validateRow_None(3)[OF assms(1,2)] assms(6) by simp
  have i: "int64Value (Float (Fin (of_int n))) = n"
    using n assms(5) by (simp add: int64Value_def int_of_float_def minInt64_def maxInt64_def)
  have "(of_int n :: rat) < of_int (2 ^ 53)" using assms(5) by (simp only: of_int_less_iff)
  then have "numberValue (Integer n) = Fin (of_int n)"
    using n assms(5) fl_of_int[of n] by (simp add: numberValue_def to_number_def maxFloat_def)
  then have q: "number_of (buildRowCreateBody body email) ''qty'' = Fin (of_int n)"
    by (simp add: number_of_def build_body_get assms(4) i)
  have f: "is_float (Fin p)"
    using is_float_numberValue[OF any_float_get[OF assms(3), of "''price''"]] assms(6) by (simp add: number_of_def)
  have d: "decimalString (get body ''price'') = FormatFloat (Fin p)"
    using assms(6) by (simp add: decimalString_def number_of_def del: FormatFloat.simps)
  have pr: "moneyValue (get (buildRowCreateBody body email) ''price'') = Fin p"
    by (simp only: build_body_get(4)[OF assms(2)] d moneyValue_text[OF f])
  have c: "cloneRowPayloadFromSource (Some (Obj (buildRowCreateBody body email))) = Some (goodPayload body (Fin (of_int n)) (Fin p))"
    using clone_good[OF assms(1,2) q _ pr] n p by simp
  have "buildRowCreateBody (goodPayload body (Fin (of_int n)) (Fin p)) email = buildRowCreateBody body email"
    by (simp add: buildRowCreateBody_def goodPayload_gets assms(2,4) i d rowPaymentDetail_idem rowCreateTotal_def number_of_def
        assms(6)[unfolded number_of_def] decimalString_def Let_def del: FormatFloat.simps)
  then show ?thesis by (simp add: c)
qed

lemma goodRow_floats: "is_float q \<Longrightarrow> float_fields (goodRow (Float q))"
  by (simp add: goodRow_def float_fields_def any_float_def is_float_def[of "Fin 10"] maxFloat_def fl_of_int[of 10, simplified])

lemma goodRow_type: "text_of (goodRow q) ''type'' = ''good''"
  by (simp add: goodRow_def text_of_Cons TrimSpace_no_space is_space_def re_space_def)

theorem clone_sends_the_same_row_witness:
  "map_option (\<lambda>payload. buildRowCreateBody payload ''a@b'')
     (cloneRowPayloadFromSource (Some (Obj (buildRowCreateBody (goodRow (Float (Fin 3))) ''a@b'')))) =
   Some (buildRowCreateBody (goodRow (Float (Fin 3))) ''a@b'')"
  by (rule clone_sends_the_same_row[where n = 3 and p = 10])
    (simp_all add: goodRow_accepted goodRow_type goodRow_floats is_float_def maxFloat_def fl_of_int[of 3, simplified],
     simp_all add: goodRow_def get_Cons number_of_def)

end
