(* ===== verification/RdaHttp.thy ===== *)
theory RdaHttp
  imports RdaRows "HOL-Library.State_Monad"
begin

text \<open>
  What every purchase-request handler is made of: the requests to the upstream service and to the
  database, the decoding of a request detail, the permissions of a user, and the responses
  (\<open>rda/handler.go\<close>, \<open>rda/arak.go\<close>, \<open>rda/permissions.go\<close>, \<open>rda/row_totals.go\<close>,
  \<open>platform/httputil\<close>). A handler is a program in the state monad over the history of its effects;
  the upstream service, the database and the notifier are parameters, arbitrary functions of that
  history, so that a theorem about a handler holds for every behaviour they may have.
\<close>

section \<open>Effects\<close>

datatype verb = GET | POST | PUT | PATCH | DELETE

text \<open>A body sent upstream: JSON, raw bytes, or the multipart form of an upload.\<close>

datatype sent = NoBody | JSONBody any | RawBody string
  | FormBody (fb_filename: string) (fb_contentType: string) (fb_content: string) (fb_attachmentType: string)

record call =
  ca_Method :: verb
  ca_Path :: string
  ca_Query :: string
  ca_Headers :: "(string \<times> string) list"
  ca_Body :: sent

text \<open>
  A body received: the bytes read, the value \<open>encoding/json\<close> reads from them with its numbers as
  texts (\<open>None\<close>: not JSON), and whether the reading ended without error.
\<close>

record content =
  by_Text :: string
  by_JSON :: "any option"
  by_OK :: bool

record header =
  hd_ContentType :: string
  hd_ContentDisposition :: string
  hd_ContentLength :: string

datatype reply = Failed | Reply (rp_Status: int) (rp_Header: header) (rp_Body: content)

text \<open>The outcome of a query for one row.\<close>

datatype 'a dbResult = DbError | NoRows | Row 'a

record recipient =
  rc_Email :: string
  rc_Name :: string

record notification =
  no_TypeKey :: string
  no_Title :: string
  no_Body :: string
  no_EntityType :: string
  no_EntityID :: string
  no_DedupeKey :: string
  no_DeepLink :: string
  no_Metadata :: fields
  no_Recipients :: "recipient list"
  no_CreatedBySubject :: string
  no_CreatedByEmail :: string

text \<open>What a handler does to the outside, in order; reads of the database leave no trace.\<close>

datatype event = Call call | DirectDelete int | Resolve string string string | Notify notification

type_synonym 'a prog = "(event list, 'a) state"

record paymentMethod =
  pa_Code :: string
  pa_Description :: string
  pa_RDAAvailable :: bool

text \<open>The database: each query as a function of the history and its arguments, and the text of its errors.\<close>

record store =
  st_Permissions :: "event list \<Rightarrow> string \<Rightarrow> rdaPermissions dbResult"
  st_Economics :: "event list \<Rightarrow> int \<Rightarrow> economicsRow list option"
  st_DefaultPayment :: "event list \<Rightarrow> string dbResult"
  st_PaymentMethod :: "event list \<Rightarrow> string \<Rightarrow> paymentMethod dbResult"
  st_Delete :: "event list \<Rightarrow> int \<Rightarrow> int option"
  st_Approvers :: "event list \<Rightarrow> int list \<Rightarrow> (int \<times> int option \<times> string option) list option"
  st_Mention :: "event list \<Rightarrow> int \<Rightarrow> string \<Rightarrow> (int \<times> string \<times> string \<times> string) dbResult"
  st_ErrorText :: string

record handler =
  ha_arak :: "(event list \<Rightarrow> call \<Rightarrow> reply) option"
  ha_arakDB :: "store option"
  ha_notifier :: bool
  ha_quoteThreshold :: number
  ha_notifySelfMentions :: bool
  ha_rdaAppURL :: string
  ha_staticDir :: string

record claims =
  cl_Subject :: string
  cl_Email :: string

record upload =
  up_Filename :: string
  up_ContentType :: string
  up_Size :: int
  up_Content :: string
  up_Readable :: bool

text \<open>
  A request: the claims of the user, the path values, the query, the JSON value the body starts
  with (its numbers as texts; \<open>None\<close>: not JSON), its bytes, the uploaded file (\<open>None\<close>: the form does not parse; \<open>Some None\<close>: no file).
\<close>

record request =
  rq_Claims :: "claims option"
  rq_Path :: string
  rq_ID :: string
  rq_RowID :: string
  rq_AID :: string
  rq_Query :: "(string \<times> string list) list"
  rq_RawQuery :: string
  rq_Body :: "any option"
  rq_RawBody :: string
  rq_Upload :: "upload option option"
  rq_AttachmentType :: string

datatype written = Empty | Aborted | JSON any | Copied content

record response =
  rs_Status :: int
  rs_Header :: header
  rs_Written :: written

section \<open>Programs\<close>

definition history :: "event list prog" where
  "history = State (\<lambda>es. (es, es))"

definition emit :: "event \<Rightarrow> unit prog" where
  "emit e = State (\<lambda>es. ((), es @ [e]))"

text \<open>\<open>DoWithHeaders\<close> of the upstream client.\<close>

definition ask :: "(event list \<Rightarrow> call \<Rightarrow> reply) \<Rightarrow> call \<Rightarrow> reply prog" where
  "ask arak c = State (\<lambda>es. (arak es c, es @ [Call c]))"

lemma run_bind [simp]: "run_state (State_Monad.bind m f) es = (case run_state m es of (a, es') \<Rightarrow> run_state (f a) es')"
  by (simp add: State_Monad.bind_def)

lemma run_return [simp]: "run_state (State_Monad.return a) es = (a, es)"
  by (simp add: State_Monad.return_def)

lemma run_prims [simp]:
  "run_state history es = (es, es)" "run_state (emit e) es = ((), es @ [e])"
  "run_state (ask arak c) es = (arak es c, es @ [Call c])"
  by (simp_all add: history_def emit_def ask_def)

section \<open>Responses\<close>

definition jsonType :: header where
  "jsonType = \<lparr>hd_ContentType = ''application/json'', hd_ContentDisposition = '''', hd_ContentLength = ''''\<rparr>"

definition respond :: "int \<Rightarrow> any \<Rightarrow> response" where
  "respond status v = \<lparr>rs_Status = status, rs_Header = jsonType, rs_Written = JSON v\<rparr>"

definition Error :: "int \<Rightarrow> string \<Rightarrow> response" where
  "Error status message = respond status (Obj [(''error'', Str message)])"

definition ErrorCode :: "int \<Rightarrow> string \<Rightarrow> string \<Rightarrow> response" where
  "ErrorCode status message code = respond status (Obj [(''error'', Str message), (''code'', Str code)])"

definition InternalError :: response where
  "InternalError = Error 500 ''internal_server_error''"

definition unavailable :: response where
  "unavailable = ErrorCode 502 ''Servizio RDA temporaneamente non disponibile'' ''UPSTREAM_UNAVAILABLE''"

definition authFailed :: response where
  "authFailed = ErrorCode 502 ''Autorizzazione verso il servizio RDA non riuscita'' ''UPSTREAM_AUTH_FAILED''"

text \<open>The headers copied from upstream; the content type defaults to JSON.\<close>

definition copyResponseHeaders :: "header \<Rightarrow> header" where
  "copyResponseHeaders h = (if hd_ContentType h = '''' then h\<lparr>hd_ContentType := ''application/json''\<rparr> else h)"

definition copyReply :: "int \<Rightarrow> header \<Rightarrow> content \<Rightarrow> response" where
  "copyReply status h b = \<lparr>rs_Status = status, rs_Header = copyResponseHeaders h, rs_Written = Copied b\<rparr>"

text \<open>The same without the upstream's content length.\<close>

definition copiedUnsized :: "int \<Rightarrow> header \<Rightarrow> written \<Rightarrow> response" where
  "copiedUnsized status h b =
     \<lparr>rs_Status = status, rs_Header = (copyResponseHeaders h)\<lparr>hd_ContentLength := ''''\<rparr>, rs_Written = b\<rparr>"

subsection \<open>Rejections of the upstream service\<close>

text \<open>The value under the default decoder: numbers become floats, an out-of-range one is an error.\<close>

fun floated :: "any \<Rightarrow> any option" where
  "floated (Number s) = (case ParseFloat s of (x, ok) \<Rightarrow> if ok then Some (Float x) else None)"
| "floated (Arr vs) = map_option Arr (those (map floated vs))"
| "floated (Obj m) = map_option (\<lambda>vs. Obj (zip (map fst m) vs)) (those (map (\<lambda>(k, v). floated v) m))"
| "floated v = Some v"

definition parseUpstreamRejectionBody :: "content \<Rightarrow> any" where
  "parseUpstreamRejectionBody b =
     (if TrimSpace (by_Text b) = '''' then Str ''''
      else case Option.bind (by_JSON b) floated of Some v \<Rightarrow> v | None \<Rightarrow> Str (TrimSpace (by_Text b)))"

fun firstNonempty :: "string list \<Rightarrow> string" where
  "firstNonempty [] = ''''"
| "firstNonempty (s # ss) = (if s \<noteq> '''' then s else firstNonempty ss)"

fun upstreamRejectionMessageValue :: "any \<Rightarrow> string" where
  "upstreamRejectionMessageValue (Str s) = TrimSpace s"
| "upstreamRejectionMessageValue (Obj m) =
     (let messages = map (\<lambda>(k, v). (k, upstreamRejectionMessageValue v)) m
      in firstNonempty (map (\<lambda>key. case map_of (rev messages) key of Some t \<Rightarrow> t | None \<Rightarrow> '''')
           [''error'', ''message'', ''detail'', ''title'', ''description'', ''errors'']))"
| "upstreamRejectionMessageValue (Arr vs) = firstNonempty (map upstreamRejectionMessageValue vs)"
| "upstreamRejectionMessageValue _ = ''''"

definition upstreamRejectionMessage :: "any \<Rightarrow> string" where
  "upstreamRejectionMessage body =
     (let message = upstreamRejectionMessageValue body in if message \<noteq> '''' then message else ''Richiesta RDA rifiutata da Mistra'')"

definition upstreamPathWithQuery :: "string \<Rightarrow> string \<Rightarrow> string" where
  "upstreamPathWithQuery path rawQuery = (if rawQuery = '''' then path else path @ ''?'' @ rawQuery)"

definition writeUpstreamRejected :: "int \<Rightarrow> header \<Rightarrow> content \<Rightarrow> string \<Rightarrow> string \<Rightarrow> response" where
  "writeUpstreamRejected status h b path rawQuery =
     (let body = parseUpstreamRejectionBody b
      in respond status (Obj
           [(''error'', Str (upstreamRejectionMessage body)), (''code'', Str ''UPSTREAM_REJECTED''),
            (''upstream'', Obj [(''service'', Str ''mistra''), (''status'', Integer status),
               (''path'', Str (upstreamPathWithQuery path rawQuery)), (''content_type'', Str (hd_ContentType h)),
               (''body'', body)])]))"

section \<open>Requests\<close>

definition hexDigit :: "nat \<Rightarrow> char" where
  "hexDigit n = (if n < 10 then char_of (48 + n) else char_of (55 + n))"

definition percent :: "char \<Rightarrow> string" where
  "percent c = [CHR ''%'', hexDigit (of_char c div 16), hexDigit (of_char c mod 16)]"

definition unreserved :: "char \<Rightarrow> bool" where
  "unreserved c \<longleftrightarrow> is_letter c \<or> is_digit c \<or> c \<in> {CHR ''-'', CHR ''_'', CHR ''.'', CHR ''~''}"

definition PathEscape :: "string \<Rightarrow> string" where
  "PathEscape s =
     concat (map (\<lambda>c. if unreserved c \<or> c \<in> {CHR ''$'', CHR ''&'', CHR ''+'', CHR '':'', CHR ''='', CHR ''@''} then [c] else percent c) s)"

definition QueryEscape :: "string \<Rightarrow> string" where
  "QueryEscape s = concat (map (\<lambda>c. if unreserved c then [c] else if c = CHR '' '' then ''+'' else percent c) s)"

type_synonym urlValues = "(string \<times> string list) list"

definition valuesGet :: "urlValues \<Rightarrow> string \<Rightarrow> string" where
  "valuesGet vs k = (case map_of vs k of Some (v # _) \<Rightarrow> v | _ \<Rightarrow> '''')"

definition valuesSet :: "string \<Rightarrow> string \<Rightarrow> urlValues \<Rightarrow> urlValues" where
  "valuesSet k v vs = (k, [v]) # filter (\<lambda>e. fst e \<noteq> k) vs"

definition valuesDel :: "string \<Rightarrow> urlValues \<Rightarrow> urlValues" where
  "valuesDel k vs = filter (\<lambda>e. fst e \<noteq> k) vs"

definition Encode :: "urlValues \<Rightarrow> string" where
  "Encode vs = Join (concat (map (\<lambda>k. map (\<lambda>v. QueryEscape k @ ''='' @ QueryEscape v) (the (map_of vs k)))
     (sortedKeys (fst ` set vs)))) ''&''"

definition setDefault :: "string \<Rightarrow> string \<Rightarrow> urlValues \<Rightarrow> urlValues" where
  "setDefault k v vs = (if valuesGet vs k = '''' then valuesSet k v vs else vs)"

definition queryWithDefaults :: "request \<Rightarrow> string" where
  "queryWithDefaults r = Encode (setDefault ''disable_pagination'' ''true'' (setDefault ''page_number'' ''1'' (rq_Query r)))"

definition currentEmail :: "request \<Rightarrow> string option" where
  "currentEmail r =
     (case rq_Claims r of
        None \<Rightarrow> None
      | Some claims \<Rightarrow>
          let email = TrimSpace (cl_Email claims)
          in if email = '''' \<or> CHR ''@'' \<notin> set email then None else Some email)"

definition requesterHeaders :: "string \<Rightarrow> (string \<times> string) list" where
  "requesterHeaders email = [(''Requester-Email'', email)]"

definition budgetHeaders :: "string \<Rightarrow> (string \<times> string) list" where
  "budgetHeaders email = [(''user_email'', email)]"

definition jsonHeaders :: "(string \<times> string) list" where
  "jsonHeaders = [(''Content-Type'', ''application/json'')]"

definition arakRDARoot :: string where "arakRDARoot = ''/arak/rda/v1''"
definition arakBudgetRoot :: string where "arakBudgetRoot = ''/arak/budget/v1''"
definition arakUsersRoot :: string where "arakUsersRoot = ''/arak/users-int/v1''"
definition arakProviderRoot :: string where "arakProviderRoot = ''/arak/provider-qualification/v1''"

definition poPath :: "string \<Rightarrow> string" where
  "poPath i = arakRDARoot @ ''/po/'' @ PathEscape i"

section \<open>Forwarding\<close>

text \<open>The callback runs only when the upstream call succeeded and its body was read.\<close>

definition forwardArakAfterSuccess :: "(event list \<Rightarrow> call \<Rightarrow> reply) \<Rightarrow> call \<Rightarrow> unit prog \<Rightarrow> response prog" where
  "forwardArakAfterSuccess arak c after =
     do {
       r \<leftarrow> ask arak c;
       case r of
         Failed \<Rightarrow> State_Monad.return unavailable
       | Reply status h b \<Rightarrow>
           if status = 401 then State_Monad.return authFailed
           else if 400 \<le> status \<and> status \<le> 599 then
             State_Monad.return (writeUpstreamRejected status h b (ca_Path c) (ca_Query c))
           else if \<not> by_OK b then State_Monad.return unavailable
           else do { after; State_Monad.return (copyReply status h b) }
     }"

definition forwardArak :: "(event list \<Rightarrow> call \<Rightarrow> reply) \<Rightarrow> call \<Rightarrow> response prog" where
  "forwardArak arak c = forwardArakAfterSuccess arak c (State_Monad.return ())"

text \<open>An upstream call whose response the handler looks at: \<open>None\<close> when it fails or cannot be read.\<close>

definition upstreamBody :: "(event list \<Rightarrow> call \<Rightarrow> reply) \<Rightarrow> call \<Rightarrow> (int \<times> header \<times> content) option prog" where
  "upstreamBody arak c =
     do {
       r \<leftarrow> ask arak c;
       State_Monad.return (case r of Failed \<Rightarrow> None | Reply status h b \<Rightarrow> if by_OK b then Some (status, h, b) else None)
     }"

definition successful :: "int \<Rightarrow> bool" where
  "successful status \<longleftrightarrow> 200 \<le> status \<and> status < 300"

end
