(* ===== verification/RdaAccess.thy ===== *)
theory RdaAccess
  imports RdaHttp
begin

text \<open>
  How a handler gets at a purchase request and at the rights of its user: the decoding of the
  detail into \<open>poDetail\<close> (\<open>rda/types.go\<close>), \<open>fetchPODetail\<close> and \<open>fetchPODetailForNotifications\<close>
  (\<open>rda/arak.go\<close>, \<open>rda/notifications.go\<close>), the permissions (\<open>rda/permissions.go\<close>) and the guards
  that end a handler early (\<open>rda/handler.go\<close>).
\<close>

section \<open>Decoding a detail\<close>

text \<open>
  \<open>json.Unmarshal\<close> into a struct: the entries in order, keys up to case, unknown keys ignored, null
  leaves a field alone, and a value of the wrong type makes the whole decoding fail.
\<close>

fun decodeFields :: "(string \<Rightarrow> any \<Rightarrow> 'r \<Rightarrow> 'r option) \<Rightarrow> fields \<Rightarrow> 'r \<Rightarrow> 'r option" where
  "decodeFields setter [] r = Some r"
| "decodeFields setter ((k, v) # m) r = Option.bind (setter k v r) (decodeFields setter m)"

definition decodeStruct :: "(string \<Rightarrow> any \<Rightarrow> 'r \<Rightarrow> 'r option) \<Rightarrow> any \<Rightarrow> 'r \<Rightarrow> 'r option" where
  "decodeStruct setter v r = (case v of Obj m \<Rightarrow> decodeFields setter m r | Null \<Rightarrow> Some r | _ \<Rightarrow> None)"

definition asString :: "(string \<Rightarrow> 'r) \<Rightarrow> any \<Rightarrow> 'r \<Rightarrow> 'r option" where
  "asString upd v r = (case v of Str s \<Rightarrow> Some (upd s) | Null \<Rightarrow> Some r | _ \<Rightarrow> None)"

definition asInt :: "(int \<Rightarrow> 'r) \<Rightarrow> any \<Rightarrow> 'r \<Rightarrow> 'r option" where
  "asInt upd v r =
     (case v of Number s \<Rightarrow> (case ParseInt s of (i, ok) \<Rightarrow> if ok then Some (upd i) else None) | Null \<Rightarrow> Some r | _ \<Rightarrow> None)"

definition asList :: "(any \<Rightarrow> 'e option) \<Rightarrow> ('e list \<Rightarrow> 'r) \<Rightarrow> any \<Rightarrow> 'r option" where
  "asList dec upd v =
     (case v of Arr vs \<Rightarrow> map_option upd (those (map dec vs)) | Null \<Rightarrow> Some (upd []) | _ \<Rightarrow> None)"

fun setUserRef :: "string \<Rightarrow> any \<Rightarrow> userRef \<Rightarrow> userRef option" where
  "setUserRef k v r =
     (if EqualFold k ''id'' then asInt (\<lambda>_. r) v r
      else if EqualFold k ''first_name'' then asString (\<lambda>s. r\<lparr>us_FirstName := s\<rparr>) v r
      else if EqualFold k ''last_name'' then asString (\<lambda>s. r\<lparr>us_LastName := s\<rparr>) v r
      else if EqualFold k ''email'' then asString (\<lambda>s. r\<lparr>us_Email := s\<rparr>) v r
      else Some r)"

text \<open>A value of type \<open>any\<close>, under the default decoder or under \<open>UseNumber\<close>.\<close>

definition asAny :: "bool \<Rightarrow> (any \<Rightarrow> 'r) \<Rightarrow> any \<Rightarrow> 'r option" where
  "asAny useNumber upd v = (if useNumber then Some (upd v) else map_option upd (floated v))"

definition setApproverUser :: "string \<Rightarrow> any \<Rightarrow> approverRef \<Rightarrow> approverRef option" where
  "setApproverUser k v r = (if EqualFold k ''email'' then asString (\<lambda>s. r\<lparr>ap_UserEmail := s\<rparr>) v r else Some r)"

definition setApproverRef :: "bool \<Rightarrow> string \<Rightarrow> any \<Rightarrow> approverRef \<Rightarrow> approverRef option" where
  "setApproverRef useNumber k v r =
     (if EqualFold k ''email'' then asString (\<lambda>s. r\<lparr>ap_Email := s\<rparr>) v r
      else if EqualFold k ''level'' then asAny useNumber (\<lambda>l. r\<lparr>ap_Level := l\<rparr>) v
      else if EqualFold k ''user'' then decodeStruct setApproverUser v r
      else Some r)"

definition noApprover :: approverRef where
  "noApprover = \<lparr>ap_Email = '''', ap_Level = Null, ap_UserEmail = ''''\<rparr>"

text \<open>The contacts of a provider: only their types matter here, they are not kept.\<close>

definition checkReference :: "string \<Rightarrow> any \<Rightarrow> unit \<Rightarrow> unit option" where
  "checkReference k v r =
     (if EqualFold k ''id'' then asInt (\<lambda>_. ()) v ()
      else if EqualFold k ''first_name'' \<or> EqualFold k ''last_name'' \<or> EqualFold k ''email'' \<or> EqualFold k ''reference_type''
      then asString (\<lambda>_. ()) v () else Some ())"

definition setProvider :: "string \<Rightarrow> any \<Rightarrow> providerDetail \<Rightarrow> providerDetail option" where
  "setProvider k v r =
     (if EqualFold k ''id'' then asInt (\<lambda>i. r\<lparr>pr_ID := i\<rparr>) v r
      else if EqualFold k ''company_name'' then asString (\<lambda>s. r\<lparr>pr_CompanyName := s\<rparr>) v r
      else if EqualFold k ''language'' then asString (\<lambda>s. r\<lparr>pr_Language := s\<rparr>) v r
      else if EqualFold k ''refs'' then asList (\<lambda>e. decodeStruct checkReference e ()) (\<lambda>_. r) v
      else if EqualFold k ''vat_number'' then asString (\<lambda>s. r\<lparr>pr_VATNumber := s\<rparr>) v r
      else if EqualFold k ''postal_code'' then asString (\<lambda>s. r\<lparr>pr_PostalCode := s\<rparr>) v r
      else if EqualFold k ''cap'' then asString (\<lambda>s. r\<lparr>pr_CAP := s\<rparr>) v r
      else if EqualFold k ''default_payment_method'' then Some (r\<lparr>pr_DefaultPaymentMethod := Some v\<rparr>)
      else Some r)"

definition noProvider :: providerDetail where
  "noProvider = \<lparr>pr_ID = 0, pr_CompanyName = '''', pr_Language = '''', pr_VATNumber = '''', pr_PostalCode = '''', pr_CAP = '''',
     pr_DefaultPaymentMethod = None\<rparr>"

definition noPO :: poDetail where
  "noPO = \<lparr>po_ID = Null, po_Code = '''', po_State = '''', po_Type = '''', po_Project = '''', po_Object = '''', po_Description = '''',
     po_Note = '''', po_ProviderOfferCode = '''', po_ProviderOfferDate = '''', po_CurrentApprovalLevel = Null, po_TotalPrice = '''',
     po_Currency = '''', po_Requester = \<lparr>us_FirstName = '''', us_LastName = '''', us_Email = ''''\<rparr>, po_Provider = noProvider,
     po_PaymentMethod = None, po_Rows = [], po_Attachments = [], po_Recipients = [], po_Approvers = []\<rparr>"

text \<open>The string fields of a request, by key.\<close>

definition poStringSetters :: "(string \<times> (string \<Rightarrow> poDetail \<Rightarrow> poDetail)) list" where
  "poStringSetters =
     [(''code'', \<lambda>s r. r\<lparr>po_Code := s\<rparr>), (''state'', \<lambda>s r. r\<lparr>po_State := s\<rparr>), (''created'', \<lambda>s r. r),
      (''type'', \<lambda>s r. r\<lparr>po_Type := s\<rparr>), (''project'', \<lambda>s r. r\<lparr>po_Project := s\<rparr>), (''object'', \<lambda>s r. r\<lparr>po_Object := s\<rparr>),
      (''description'', \<lambda>s r. r\<lparr>po_Description := s\<rparr>), (''note'', \<lambda>s r. r\<lparr>po_Note := s\<rparr>),
      (''provider_offer_code'', \<lambda>s r. r\<lparr>po_ProviderOfferCode := s\<rparr>), (''provider_offer_date'', \<lambda>s r. r\<lparr>po_ProviderOfferDate := s\<rparr>),
      (''total_price'', \<lambda>s r. r\<lparr>po_TotalPrice := s\<rparr>), (''currency'', \<lambda>s r. r\<lparr>po_Currency := s\<rparr>)]"

definition setPO :: "bool \<Rightarrow> string \<Rightarrow> any \<Rightarrow> poDetail \<Rightarrow> poDetail option" where
  "setPO useNumber k v r =
     (case find (\<lambda>e. EqualFold k (fst e)) poStringSetters of
        Some (_, upd) \<Rightarrow> asString (\<lambda>s. upd s r) v r
      | None \<Rightarrow>
          if EqualFold k ''id'' then asAny useNumber (\<lambda>i. r\<lparr>po_ID := i\<rparr>) v
          else if EqualFold k ''current_approval_level'' then asAny useNumber (\<lambda>l. r\<lparr>po_CurrentApprovalLevel := l\<rparr>) v
          else if EqualFold k ''requester'' then map_option (\<lambda>u. r\<lparr>po_Requester := u\<rparr>) (decodeStruct setUserRef v (po_Requester r))
          else if EqualFold k ''provider'' then map_option (\<lambda>p. r\<lparr>po_Provider := p\<rparr>) (decodeStruct setProvider v (po_Provider r))
          else if EqualFold k ''payment_method'' then Some (r\<lparr>po_PaymentMethod := Some v\<rparr>)
          else if EqualFold k ''rows'' then asList (\<lambda>e. Some (Some e)) (\<lambda>rs. r\<lparr>po_Rows := rs\<rparr>) v
          else if EqualFold k ''attachments'' then asList (\<lambda>e. Some (Some e)) (\<lambda>rs. r\<lparr>po_Attachments := rs\<rparr>) v
          else if EqualFold k ''recipients'' then asList (\<lambda>e. Some (Some e)) (\<lambda>rs. r\<lparr>po_Recipients := rs\<rparr>) v
          else if EqualFold k ''approvers'' then
            asList (\<lambda>e. decodeStruct (setApproverRef useNumber) e noApprover) (\<lambda>as. r\<lparr>po_Approvers := as\<rparr>) v
          else Some r)"

definition decodePO :: "bool \<Rightarrow> any \<Rightarrow> poDetail option" where
  "decodePO useNumber v = decodeStruct (setPO useNumber) v noPO"

definition decodeProvider :: "any \<Rightarrow> providerDetail option" where
  "decodeProvider v = decodeStruct setProvider v noProvider"

section \<open>Fetching a detail\<close>

text \<open>The economics of the rows: no database is no economics; a query that fails is an error.\<close>

definition fetchPORowEconomics :: "handler \<Rightarrow> event list \<Rightarrow> string \<Rightarrow> (string \<Rightarrow> rowEconomics) option" where
  "fetchPORowEconomics h es poID =
     (case ha_arakDB h of
        None \<Rightarrow> Some (\<lambda>_. zeroEconomics)
      | Some db \<Rightarrow>
          (case ParseInt (TrimSpace poID) of (i, ok) \<Rightarrow>
             if \<not> ok then None else map_option economicsMap (st_Economics db es i)))"

text \<open>The error of a fetch: the status upstream answered, or anything else.\<close>

datatype fetchError = UpstreamStatus int | OtherError

definition getPO :: "string \<Rightarrow> string \<Rightarrow> string \<Rightarrow> call" where
  "getPO email i rawQuery =
     \<lparr>ca_Method = GET, ca_Path = poPath i, ca_Query = rawQuery, ca_Headers = requesterHeaders email, ca_Body = NoBody\<rparr>"

definition normalizedBody :: "(string \<Rightarrow> rowEconomics) option \<Rightarrow> any option \<Rightarrow> any option" where
  "normalizedBody economics body = (case economics of None \<Rightarrow> body | Some ec \<Rightarrow> normalizePODetailRows body ec)"

definition fetchPODetail :: "handler \<Rightarrow> (event list \<Rightarrow> call \<Rightarrow> reply) \<Rightarrow> string \<Rightarrow> string \<Rightarrow> (fetchError + poDetail) prog" where
  "fetchPODetail h arak email i =
     do {
       r \<leftarrow> ask arak (getPO email i '''');
       case r of
         Failed \<Rightarrow> State_Monad.return (Inl OtherError)
       | Reply status _ b \<Rightarrow>
           if \<not> successful status then State_Monad.return (Inl (UpstreamStatus status))
           else if \<not> by_OK b then State_Monad.return (Inl OtherError)
           else do {
             es \<leftarrow> history;
             State_Monad.return
               (case Option.bind (normalizedBody (fetchPORowEconomics h es i) (by_JSON b)) (decodePO False) of
                  None \<Rightarrow> Inl OtherError | Some po \<Rightarrow> Inr po)
           }
     }"

text \<open>For the notifications: without the row amounts, its numbers kept as texts.\<close>

definition fetchPODetailForNotifications :: "handler \<Rightarrow> string \<Rightarrow> string \<Rightarrow> poDetail option prog" where
  "fetchPODetailForNotifications h email i =
     (case ha_arak h of
        None \<Rightarrow> State_Monad.return None
      | Some arak \<Rightarrow>
          do {
            r \<leftarrow> ask arak (getPO email i '''');
            State_Monad.return
              (case r of Failed \<Rightarrow> None
               | Reply status _ b \<Rightarrow> if successful status then Option.bind (by_JSON b) (decodePO True) else None)
          })"

definition handleFetchPOError :: "fetchError \<Rightarrow> response" where
  "handleFetchPOError e =
     (if e = UpstreamStatus 404 then Error 404 ''Richiesta non disponibile''
      else if e = UpstreamStatus 401 then authFailed
      else ErrorCode 502 ''Richiesta non disponibile in questo momento'' ''UPSTREAM_UNAVAILABLE'')"

section \<open>Guards\<close>

definition withArak :: "handler \<Rightarrow> ((event list \<Rightarrow> call \<Rightarrow> reply) \<Rightarrow> response prog) \<Rightarrow> response prog" where
  "withArak h k =
     (case ha_arak h of
        None \<Rightarrow> State_Monad.return (ErrorCode 503 ''Servizio RDA temporaneamente non disponibile'' ''DEPENDENCY_UNAVAILABLE'')
      | Some arak \<Rightarrow> k arak)"

definition withArakDB :: "handler \<Rightarrow> (store \<Rightarrow> response prog) \<Rightarrow> response prog" where
  "withArakDB h k =
     (case ha_arakDB h of
        None \<Rightarrow> State_Monad.return (ErrorCode 503 ''Catalogo RDA temporaneamente non disponibile'' ''DEPENDENCY_UNAVAILABLE'')
      | Some db \<Rightarrow> k db)"

definition withEmail :: "request \<Rightarrow> (string \<Rightarrow> response prog) \<Rightarrow> response prog" where
  "withEmail r k = (case currentEmail r of None \<Rightarrow> State_Monad.return (Error 401 ''Accesso richiesto'') | Some email \<Rightarrow> k email)"

definition loadPOForWrite :: "handler \<Rightarrow> (event list \<Rightarrow> call \<Rightarrow> reply) \<Rightarrow> request \<Rightarrow> (string \<Rightarrow> poDetail \<Rightarrow> response prog) \<Rightarrow> response prog" where
  "loadPOForWrite h arak r k =
     withEmail r (\<lambda>email.
       do {
         po \<leftarrow> fetchPODetail h arak email (rq_ID r);
         case po of Inl e \<Rightarrow> State_Monad.return (handleFetchPOError e) | Inr po \<Rightarrow> k email po
       })"

text \<open>A user without a role has no permission; a store that is missing or fails is an error.\<close>

datatype permissionError = PermissionsUnavailable | PermissionsFailed

definition noPermissions :: rdaPermissions where
  "noPermissions = \<lparr>pm_IsApprover = False, pm_IsAFC = False, pm_IsApproverNoLeasing = False, pm_IsApproverExtraBudget = False,
     pm_CanSeeAllPO = False, pm_SkipApproval = False\<rparr>"

definition permissionsForEmail :: "handler \<Rightarrow> event list \<Rightarrow> string \<Rightarrow> permissionError + rdaPermissions" where
  "permissionsForEmail h es email =
     (case ha_arakDB h of
        None \<Rightarrow> Inl PermissionsUnavailable
      | Some db \<Rightarrow>
          (case st_Permissions db es (TrimSpace email) of
             Row p \<Rightarrow> Inr p | NoRows \<Rightarrow> Inr noPermissions | DbError \<Rightarrow> Inl PermissionsFailed))"

definition loadPermissionsForRequest :: "handler \<Rightarrow> string \<Rightarrow> (rdaPermissions \<Rightarrow> response prog) \<Rightarrow> response prog" where
  "loadPermissionsForRequest h email k =
     do {
       es \<leftarrow> history;
       case permissionsForEmail h es email of
         Inr p \<Rightarrow> k p
       | Inl PermissionsUnavailable \<Rightarrow> State_Monad.return
           (ErrorCode 503 ''Le approvazioni non sono disponibili in questo momento'' ''DEPENDENCY_UNAVAILABLE'')
       | Inl PermissionsFailed \<Rightarrow> State_Monad.return (Error 500 ''Le approvazioni non sono disponibili in questo momento'')
     }"

end
