(* ===== verification/RdaNotify.thy ===== *)
theory RdaNotify
  imports RdaAccess
begin

text \<open>
  The notifications of a purchase request (\<open>rda/notifications.go\<close>): who is told that a request waits
  for approval, when, and who is told of a mention in a comment. Failures of the notifier are only
  logged, so a notification is an event and has no result.
\<close>

definition rdaApprovalNotificationType :: string where "rdaApprovalNotificationType = ''rda_approval_requested''"
definition rdaCommentMentionNotificationType :: string where "rdaCommentMentionNotificationType = ''rda_comment_mention''"
definition rdaNotificationEntityType :: string where "rdaNotificationEntityType = ''rda_po''"

section \<open>Recipients\<close>

fun recipientLoop :: "poDetail \<Rightarrow> string set \<Rightarrow> approverRef list \<Rightarrow> string list" where
  "recipientLoop po seen [] = []"
| "recipientLoop po seen (a # rest) =
     (let email = TrimSpace (ap_UserEmail a)
      in if \<not> approverLevelMatches po a then recipientLoop po seen rest
         else if email = '''' then recipientLoop po seen rest
         else if ToLower email \<in> seen then recipientLoop po seen rest
         else email # recipientLoop po (insert (ToLower email) seen) rest)"

definition rdaApprovalRecipients :: "poDetail \<Rightarrow> string list" where
  "rdaApprovalRecipients po = recipientLoop po {} (po_Approvers po)"

definition shouldNotifyRDAApproval :: "poDetail option \<Rightarrow> poDetail \<Rightarrow> bool" where
  "shouldNotifyRDAApproval previous updated \<longleftrightarrow>
     (if po_State updated \<noteq> ''PENDING_APPROVAL'' \<or> rdaApprovalRecipients updated = [] then False
      else case previous of
        None \<Rightarrow> True
      | Some p \<Rightarrow> po_State p \<noteq> ''PENDING_APPROVAL'' \<or>
          normalizeApprovalLevel (po_CurrentApprovalLevel p) \<noteq> normalizeApprovalLevel (po_CurrentApprovalLevel updated))"

definition poIDString :: "any \<Rightarrow> string" where
  "poIDString v = (case v of Null \<Rightarrow> '''' | _ \<Rightarrow> TrimSpace (Sprint v))"

definition rdaPODetailDeepLink :: "handler \<Rightarrow> string \<Rightarrow> string" where
  "rdaPODetailDeepLink h poID =
     (let escapedID = PathEscape (TrimSpace poID);
          appURL = TrimRight (TrimSpace (ha_rdaAppURL h)) ''/''
      in if escapedID = '''' then ''/apps/rda/rda''
         else if appURL \<noteq> '''' then appURL @ ''/rda/po/'' @ escapedID
         else if TrimSpace (ha_staticDir h) = '''' then ''http://localhost:5190/rda/po/'' @ escapedID
         else ''/apps/rda/rda/po/'' @ escapedID)"

text \<open>\<open>auth.GetClaims\<close>: missing claims read as empty ones.\<close>

definition claimsOf :: "request \<Rightarrow> claims" where
  "claimsOf r = (case rq_Claims r of Some c \<Rightarrow> c | None \<Rightarrow> \<lparr>cl_Subject = '''', cl_Email = ''''\<rparr>)"

definition approvalNotification :: "handler \<Rightarrow> request \<Rightarrow> poDetail \<Rightarrow> notification" where
  "approvalNotification h r po =
     (let poID = poIDString (po_ID po);
          level0 = normalizeApprovalLevel (po_CurrentApprovalLevel po);
          level = (if level0 = '''' then ''current'' else level0);
          code0 = TrimSpace (po_Code po);
          code = (if code0 = '''' then poID else code0);
          requester = TrimSpace (us_Email (po_Requester po))
      in \<lparr>no_TypeKey = rdaApprovalNotificationType,
          no_Title = ''RDA '' @ code @ '' waiting for approval'',
          no_Body = (if requester \<noteq> '''' then ''A purchase request from '' @ requester @ '' is waiting for your approval.''
                     else ''A purchase request is waiting for your approval.''),
          no_EntityType = rdaNotificationEntityType, no_EntityID = poID,
          no_DedupeKey = ''rda:po:'' @ poID @ '':approval:'' @ level @ '':requested'',
          no_DeepLink = rdaPODetailDeepLink h poID,
          no_Metadata = [(''po_id'', Str poID), (''po_code'', Str code), (''state'', Str (po_State po)),
             (''current_approval_level'', Str level), (''requester_email'', Str requester),
             (''total_price'', Str (TrimSpace (po_TotalPrice po))), (''currency'', Str (TrimSpace (po_Currency po)))],
          no_Recipients = map (\<lambda>e. \<lparr>rc_Email = e, rc_Name = ''''\<rparr>) (rdaApprovalRecipients po),
          no_CreatedBySubject = cl_Subject (claimsOf r), no_CreatedByEmail = cl_Email (claimsOf r)\<rparr>)"

definition notifyRDAApprovalRequested :: "handler \<Rightarrow> request \<Rightarrow> poDetail \<Rightarrow> unit prog" where
  "notifyRDAApprovalRequested h r po =
     (if \<not> ha_notifier h \<or> poIDString (po_ID po) = '''' \<or> rdaApprovalRecipients po = [] then State_Monad.return ()
      else emit (Notify (approvalNotification h r po)))"

text \<open>After a transition upstream: stale notifications are resolved, then the request is read again.\<close>

definition afterRDAWorkflowTransition :: "handler \<Rightarrow> request \<Rightarrow> string \<Rightarrow> string \<Rightarrow> poDetail option \<Rightarrow> unit prog" where
  "afterRDAWorkflowTransition h r email poID previous =
     (if \<not> ha_notifier h then State_Monad.return ()
      else do {
        emit (Resolve rdaApprovalNotificationType rdaNotificationEntityType poID);
        updated \<leftarrow> fetchPODetailForNotifications h email poID;
        case updated of
          None \<Rightarrow> State_Monad.return ()
        | Some po \<Rightarrow> if shouldNotifyRDAApproval previous po then notifyRDAApprovalRequested h r po else State_Monad.return ()
      })"

definition resolveRDADeleteNotifications :: "handler \<Rightarrow> string \<Rightarrow> unit prog" where
  "resolveRDADeleteNotifications h poID =
     (if \<not> ha_notifier h then State_Monad.return ()
      else do {
        emit (Resolve rdaApprovalNotificationType rdaNotificationEntityType (TrimSpace poID));
        emit (Resolve rdaCommentMentionNotificationType rdaNotificationEntityType (TrimSpace poID))
      })"

definition resolveRDACommentMentions :: "handler \<Rightarrow> string \<Rightarrow> unit prog" where
  "resolveRDACommentMentions h poID =
     (if \<not> ha_notifier h then State_Monad.return ()
      else emit (Resolve rdaCommentMentionNotificationType rdaNotificationEntityType (TrimSpace poID)))"

section \<open>Mentions\<close>

record commentMentionUser =
  mu_ID :: int
  mu_Email :: string

definition rdaCommentHasMentionToken :: "string \<Rightarrow> string \<Rightarrow> bool" where
  "rdaCommentHasMentionToken comment email =
     (let needle = CHR ''@'' # ToLower (TrimSpace email)
      in needle \<noteq> ''@'' \<and> list_ex (\<lambda>f. TrimRight (ToLower f) ''.,;:!?'' = needle) (Fields comment))"

text \<open>A user that does not exist, is disabled or cannot be looked up is no recipient.\<close>

definition lookupEnabledMentionRecipient :: "store \<Rightarrow> event list \<Rightarrow> int \<Rightarrow> string \<Rightarrow> recipient option" where
  "lookupEnabledMentionRecipient db es i email =
     (case st_Mention db es i email of
        Row (_, e, firstName, lastName) \<Rightarrow> Some \<lparr>rc_Email = e, rc_Name = TrimSpace (Join [firstName, lastName] '' '')\<rparr>
      | _ \<Rightarrow> None)"

fun mentionLoop :: "handler \<Rightarrow> store \<Rightarrow> event list \<Rightarrow> string \<Rightarrow> string \<Rightarrow> string set \<Rightarrow> commentMentionUser list \<Rightarrow> recipient list" where
  "mentionLoop h db es author comment seen [] = []"
| "mentionLoop h db es author comment seen (m # rest) =
     (let email = TrimSpace (mu_Email m); skip = mentionLoop h db es author comment seen rest
      in if mu_ID m \<le> 0 \<or> email = '''' then skip
         else if \<not> ha_notifySelfMentions h \<and> EqualFold email author then skip
         else if \<not> rdaCommentHasMentionToken comment email then skip
         else if ToLower email \<in> seen then skip
         else case lookupEnabledMentionRecipient db es (mu_ID m) email of
                None \<Rightarrow> skip
              | Some rc \<Rightarrow> rc # mentionLoop h db es author comment (insert (ToLower email) seen) rest)"

definition rdaCommentMentionRecipients :: "handler \<Rightarrow> event list \<Rightarrow> string \<Rightarrow> string \<Rightarrow> commentMentionUser list \<Rightarrow> recipient list" where
  "rdaCommentMentionRecipients h es author comment requested =
     (case ha_arakDB h of None \<Rightarrow> [] | Some db \<Rightarrow> mentionLoop h db es author comment {} requested)"

text \<open>The runes of a text: a UTF-8 continuation byte belongs to the rune before it.\<close>

definition continuation :: "char \<Rightarrow> bool" where
  "continuation c \<longleftrightarrow> (of_char c :: nat) div 64 = 2"

fun takeRunes :: "nat \<Rightarrow> string \<Rightarrow> string" where
  "takeRunes n [] = []"
| "takeRunes n (c # cs) =
     (if continuation c then c # takeRunes n cs
      else case n of 0 \<Rightarrow> [] | Suc k \<Rightarrow> c # takeRunes k cs)"

definition truncateForNotificationMetadata :: "string \<Rightarrow> nat \<Rightarrow> string" where
  "truncateForNotificationMetadata value limit =
     (let v = TrimSpace value in if limit = 0 then v else takeRunes limit v)"

definition mentionNotification :: "handler \<Rightarrow> request \<Rightarrow> string \<Rightarrow> string \<Rightarrow> string \<Rightarrow> string \<Rightarrow> recipient \<Rightarrow> notification" where
  "mentionNotification h r poID commentID author comment rc =
     (let claimed = TrimSpace (cl_Email (claimsOf r));
          createdByEmail = (if claimed = '''' then TrimSpace author else claimed)
      in \<lparr>no_TypeKey = rdaCommentMentionNotificationType, no_Title = ''Menzione in un commento RDA'',
          no_Body = (if createdByEmail = '''' then ''Ti hanno menzionato sulla RDA #'' @ poID @ ''.''
                     else createdByEmail @ '' ti ha menzionato sulla RDA #'' @ poID @ ''.''),
          no_EntityType = rdaNotificationEntityType, no_EntityID = poID,
          no_DedupeKey = ''rda:po:'' @ poID @ '':comment:'' @ commentID @ '':mention:'' @ rc_Email rc,
          no_DeepLink = rdaPODetailDeepLink h poID,
          no_Metadata = [(''po_id'', Str poID), (''comment_id'', Str commentID), (''author_email'', Str createdByEmail),
             (''mentioned_email'', Str (rc_Email rc)), (''comment_preview'', Str (truncateForNotificationMetadata comment 180))],
          no_Recipients = [rc], no_CreatedBySubject = TrimSpace (cl_Subject (claimsOf r)), no_CreatedByEmail = createdByEmail\<rparr>)"

fun emitAll :: "event list \<Rightarrow> unit prog" where
  "emitAll [] = State_Monad.return ()"
| "emitAll (e # es) = do { emit e; emitAll es }"

definition notifyRDACommentMentions :: "handler \<Rightarrow> request \<Rightarrow> string \<Rightarrow> string \<Rightarrow> string \<Rightarrow> string \<Rightarrow> commentMentionUser list \<Rightarrow> unit prog" where
  "notifyRDACommentMentions h r poID0 commentID0 author comment requested =
     (let poID = TrimSpace poID0; commentID = TrimSpace commentID0
      in if \<not> ha_notifier h \<or> requested = [] \<or> poID = '''' \<or> commentID = '''' then State_Monad.return ()
         else do {
           es \<leftarrow> history;
           emitAll (map (\<lambda>rc. Notify (mentionNotification h r poID commentID author comment rc))
             (rdaCommentMentionRecipients h es author comment requested))
         })"

lemma run_emitAll [simp]: "run_state (emitAll evs) es = ((), es @ evs)"
  by (induction evs arbitrary: es) auto

section \<open>Who is told\<close>

lemma to_upper_lower: "to_upper (to_lower c) = to_upper c"
proof (cases "is_upper c")
  case True
  then have r: "65 \<le> (of_char c :: nat)" "(of_char c :: nat) \<le> 90" by (auto simp: is_upper_def less_eq_char_def)
  have "of_char (char_of ((of_char c :: nat) + 32)) = (of_char c :: nat) + 32" using r by simp
  then show ?thesis using True r
    by (auto simp: to_upper_def to_lower_def is_lower_def is_upper_def less_eq_char_def)
qed (simp add: to_lower_def)

lemma EqualFold_lower: "ToLower s = ToLower t \<Longrightarrow> EqualFold s t"
proof -
  assume "ToLower s = ToLower t"
  then have "map to_upper (map to_lower s) = map to_upper (map to_lower t)" by (simp add: ToLower_def)
  then show ?thesis by (simp add: EqualFold_def ToUpper_def to_upper_lower comp_def)
qed

end
