(* ===== verification/RdaActionModel.thy ===== *)
theory RdaActionModel
  imports RdaTypes
begin

text \<open>
  The action model of a purchase request (\<open>rda/action_model.go\<close>): what the user who opens the
  detail may do in the current state, why an action is disabled, and which mode the page opens in.
\<close>

datatype permissionStatus = poPermissionAvailable | poPermissionUnavailable

record poAction =
  ac_ID :: string
  ac_ModeID :: string
  ac_Label :: string
  ac_Description :: string
  ac_Next :: string
  ac_Tone :: string
  ac_Primary :: bool
  ac_Disabled :: bool
  ac_DisabledReason :: string

record poActionMode =
  mo_ID :: string
  mo_Label :: string
  mo_Description :: string
  mo_Reason :: string
  mo_ActionIDs :: "string list"

record poActionSummary =
  su_State :: string
  su_TotalPrice :: string
  su_Currency :: string
  su_RowCount :: nat
  su_AttachmentCount :: nat
  su_QuoteCount :: nat
  su_RecipientCount :: nat
  su_PaymentMethod :: string

record poActionModel =
  am_PermissionStatus :: permissionStatus
  am_Modes :: "poActionMode list"
  am_PrimaryModeID :: string
  am_Actions :: "poAction list"
  am_WorkflowStage :: string
  am_Summary :: poActionSummary

definition poWorkflowStage :: "string \<Rightarrow> string" where
  "poWorkflowStage state =
     (let s = TrimSpace state
      in if s = ''DRAFT'' then ''draft''
         else if s \<in> {''PENDING_APPROVAL'', ''APPROVED'', ''PENDING_PROVIDER_SAVED_IN_ALYANTE''} then ''approval''
         else if s \<in> {''PENDING_APPROVAL_PAYMENT_METHOD'', ''PENDING_LEASING'', ''PENDING_LEASING_ORDER_CREATION'',
                      ''PENDING_APPROVAL_NO_LEASING'', ''PENDING_BUDGET_INCREMENT''} then ''method_budget''
         else if s = ''PENDING_SEND'' then ''send''
         else if s \<in> {''PENDING_VERIFICATION'', ''PENDING_DISPUTE'', ''SENT''} then ''verification''
         else if s \<in> {''CLOSED'', ''REJECTED'', ''DELIVERED_AND_COMPLIANT''} then ''closure''
         else ''draft'')"

definition submitDisabledReason :: "poDetail \<Rightarrow> number \<Rightarrow> bool \<times> string" where
  "submitDisabledReason po quoteThreshold =
     (if po_Rows po = [] then (True, ''Aggiungi almeno una riga PO.'')
      else if ngeq (parseTotalPrice (po_TotalPrice po)) quoteThreshold \<and> countQuoteAttachments (po_Attachments po) < 2
      then (True, ''Carica almeno 2 preventivi per inviare la richiesta.'')
      else (False, ''''))"

definition actionDisabledReason :: "bool \<Rightarrow> string \<Rightarrow> string \<Rightarrow> string" where
  "actionDisabledReason enabled unavailableReason forbiddenReason =
     (if enabled then '''' else if unavailableReason \<noteq> '''' then unavailableReason else forbiddenReason)"

text \<open>The accented letter of the message is its UTF-8 encoding.\<close>

definition e_grave :: string where "e_grave = [CHR 0xC3, CHR 0xA8]"

definition pendingApprovalReason :: "poDetail \<Rightarrow> string" where
  "pendingApprovalReason po =
     (let emails = pendingApprovalEmails po
      in if emails = [] then ''Il PO '' @ e_grave @ '' in attesa di approvazione.''
         else ''Il PO '' @ e_grave @ '' in attesa di approvazione da '' @ Join emails '', '' @ ''.'')"

definition mode :: "string \<Rightarrow> string \<Rightarrow> string \<Rightarrow> string \<Rightarrow> poActionMode" where
  "mode i label description reason =
     \<lparr>mo_ID = i, mo_Label = label, mo_Description = description, mo_Reason = reason, mo_ActionIDs = []\<rparr>"

definition primary :: "string \<Rightarrow> string \<Rightarrow> string \<Rightarrow> string \<Rightarrow> string \<Rightarrow> bool \<Rightarrow> string \<Rightarrow> poAction" where
  "primary i modeID label description next' disabled reason =
     \<lparr>ac_ID = i, ac_ModeID = modeID, ac_Label = label, ac_Description = description, ac_Next = next',
      ac_Tone = ''primary'', ac_Primary = True, ac_Disabled = disabled, ac_DisabledReason = reason\<rparr>"

definition danger :: "string \<Rightarrow> string \<Rightarrow> string \<Rightarrow> string \<Rightarrow> bool \<Rightarrow> string \<Rightarrow> poAction" where
  "danger i modeID label description disabled reason =
     \<lparr>ac_ID = i, ac_ModeID = modeID, ac_Label = label, ac_Description = description, ac_Next = '''',
      ac_Tone = ''danger'', ac_Primary = False, ac_Disabled = disabled, ac_DisabledReason = reason\<rparr>"

definition addMode :: "poActionMode \<times> poAction list \<Rightarrow> poActionModel \<Rightarrow> poActionModel" where
  "addMode ma model =
     (case ma of (m, actions) \<Rightarrow>
        model\<lparr>am_Actions := am_Actions model @ actions,
              am_Modes := am_Modes model @ [m\<lparr>mo_ActionIDs := map ac_ID actions\<rparr>]\<rparr>)"

definition selectPrimaryModeID :: "poActionMode list \<Rightarrow> string" where
  "selectPrimaryModeID modes =
     (case find (\<lambda>m. mo_ID m = ''requester_draft'' \<or> mo_ID m = ''requester_payment_update'') modes of
        Some m \<Rightarrow> mo_ID m
      | None \<Rightarrow> (case modes of [] \<Rightarrow> '''' | m # _ \<Rightarrow> mo_ID m))"

text \<open>The mode and actions of each state: the arguments of the calls to \<open>addMode\<close>, in their order.\<close>

definition draftModes :: "poDetail \<Rightarrow> number \<Rightarrow> (poActionMode \<times> poAction list) list" where
  "draftModes po quoteThreshold =
     (case submitDisabledReason po quoteThreshold of (disabled, reason) \<Rightarrow>
        [(mode ''requester_draft'' ''Richiedente'' ''Completa la bozza e mandala in approvazione.'' ''La richiesta e ancora modificabile.'',
          [primary ''submit'' ''requester_draft'' ''Manda in approvazione'' ''La richiesta passa agli approvatori assegnati.''
             ''Approvazione'' disabled reason])])"

definition approverModes :: "poDetail \<Rightarrow> bool \<Rightarrow> string \<Rightarrow> (poActionMode \<times> poAction list) list" where
  "approverModes po enabled unavailable =
     (let reason = actionDisabledReason enabled unavailable ''Operazione riservata agli approvatori assegnati.''
      in [(mode ''approver_l1_l2'' ''Approvatore'' ''Valuta la richiesta per il livello corrente.'' (pendingApprovalReason po),
           [primary ''approve'' ''approver_l1_l2'' ''Approva'' ''La richiesta passa allo step successivo.'' ''Prossimo controllo'' (\<not> enabled) reason,
            danger ''reject'' ''approver_l1_l2'' ''Rifiuta'' ''La richiesta viene fermata e resta visibile al richiedente.'' (\<not> enabled) reason])])"

definition requesterPaymentModes :: "(poActionMode \<times> poAction list) list" where
  "requesterPaymentModes =
     [(mode ''requester_payment_update'' ''Richiedente'' ''Correggi il metodo di pagamento richiesto.'' ''Il metodo selezionato richiede una verifica.'', [])]"

definition afcPaymentModes :: "bool \<Rightarrow> string \<Rightarrow> (poActionMode \<times> poAction list) list" where
  "afcPaymentModes enabled unavailable =
     (let reason = actionDisabledReason enabled unavailable ''Operazione riservata agli utenti AFC.''
      in [(mode ''afc_payment'' ''AFC pagamento'' ''Conferma o ferma il metodo di pagamento.'' ''Il PO attende controllo sul pagamento.'',
           [primary ''payment-method/approve'' ''afc_payment'' ''Approva metodo'' ''Il metodo viene confermato e il PO avanza.'' ''Prossimo step'' (\<not> enabled) reason,
            danger ''reject'' ''afc_payment'' ''Rifiuta metodo'' ''La richiesta viene rifiutata.'' (\<not> enabled) reason])])"

definition leasingModes :: "bool \<Rightarrow> string \<Rightarrow> (poActionMode \<times> poAction list) list" where
  "leasingModes enabled unavailable =
     (let reason = actionDisabledReason enabled unavailable ''Operazione riservata agli utenti AFC.''
      in [(mode ''afc_leasing'' ''AFC leasing'' ''Valuta il percorso leasing.'' ''Il PO attende decisione sul leasing.'',
           [primary ''leasing/approve'' ''afc_leasing'' ''Approva leasing'' ''Il PO prosegue nel percorso leasing.'' ''Creazione ordine leasing'' (\<not> enabled) reason,
            danger ''leasing/reject'' ''afc_leasing'' ''Rifiuta leasing'' ''Il PO viene fermato per la decisione leasing.'' (\<not> enabled) reason])])"

definition leasingCreatedModes :: "bool \<Rightarrow> string \<Rightarrow> (poActionMode \<times> poAction list) list" where
  "leasingCreatedModes enabled unavailable =
     [(mode ''afc_leasing_created'' ''AFC leasing'' ''Conferma la creazione del leasing.'' ''Il PO attende conferma ordine leasing.'',
       [primary ''leasing/created'' ''afc_leasing_created'' ''Leasing creato'' ''Il PO avanza dopo la creazione del leasing.'' ''Invio'' (\<not> enabled)
          (actionDisabledReason enabled unavailable ''Operazione riservata agli utenti AFC.'')])]"

definition noLeasingModes :: "bool \<Rightarrow> string \<Rightarrow> (poActionMode \<times> poAction list) list" where
  "noLeasingModes enabled unavailable =
     (let reason = actionDisabledReason enabled unavailable ''Operazione riservata agli approvatori no leasing.''
      in [(mode ''no_leasing'' ''No leasing'' ''Valuta il percorso senza leasing.'' ''Il PO attende approvazione no leasing.'',
           [primary ''no-leasing/approve'' ''no_leasing'' ''Approva no leasing'' ''Il PO prosegue senza leasing.'' ''Invio'' (\<not> enabled) reason,
            danger ''reject'' ''no_leasing'' ''Rifiuta'' ''La richiesta viene fermata.'' (\<not> enabled) reason])])"

definition extraBudgetModes :: "bool \<Rightarrow> string \<Rightarrow> (poActionMode \<times> poAction list) list" where
  "extraBudgetModes enabled unavailable =
     (let reason = actionDisabledReason enabled unavailable ''Operazione riservata agli approvatori budget.''
      in [(mode ''extra_budget'' ''Extra budget'' ''Valuta la promessa di incremento budget.'' ''Il PO attende copertura budget.'',
           [primary ''budget-increment/approve'' ''extra_budget'' ''Approva incremento'' ''La copertura budget viene accettata.'' ''Invio'' (\<not> enabled) reason,
            danger ''budget-increment/reject'' ''extra_budget'' ''Rifiuta incremento'' ''La richiesta viene fermata per mancanza di copertura.'' (\<not> enabled) reason])])"

definition sendModes :: "(poActionMode \<times> poAction list) list" where
  "sendModes =
     [(mode ''send_provider'' ''Invio fornitore'' ''Invia l'ordine al fornitore.'' ''Il PO e pronto per l'invio.'',
       [primary ''send-to-provider'' ''send_provider'' ''Invia al fornitore'' ''Il fornitore riceve l'ordine.'' ''Verifica conformita'' False ''''])]"

definition conformityModes :: "(poActionMode \<times> poAction list) list" where
  "conformityModes =
     [(mode ''conformity'' ''Verifica fornitura'' ''Conferma la conformita o apri una contestazione.'' ''Il PO attende verifica finale.'',
       [primary ''conformity/confirm'' ''conformity'' ''Erogato e conforme'' ''La richiesta puo essere chiusa.'' ''Chiusura'' False '''',
        danger ''conformity/reject'' ''conformity'' ''In contestazione'' ''La fornitura viene segnalata come non conforme.'' False ''''])]"

text \<open>The switch over the state.\<close>

definition stateModes :: "poDetail \<Rightarrow> rdaPermissions \<Rightarrow> permissionStatus \<Rightarrow> string \<Rightarrow> number \<Rightarrow> (poActionMode \<times> poAction list) list" where
  "stateModes po permissions status email quoteThreshold =
     (let state = po_State po;
          requester = isRequester po email;
          permissionReady = status \<noteq> poPermissionUnavailable;
          unavailable = (if permissionReady then '''' else ''Le autorizzazioni non sono disponibili. Riprova piu tardi.'');
          enabled = (\<lambda>flag. permissionReady \<and> has permissions flag);
          shown = (\<lambda>flag. \<not> permissionReady \<or> has permissions flag)
      in if state = ''DRAFT'' then
           (if requester then draftModes po quoteThreshold else [])
         else if state = ''PENDING_APPROVAL'' then
           (if isApprover po email then approverModes po (enabled permissionApprover) unavailable else [])
         else if state = ''PENDING_APPROVAL_PAYMENT_METHOD'' then
           (if requester then requesterPaymentModes else []) @
           (if shown permissionAFC then afcPaymentModes (enabled permissionAFC) unavailable else [])
         else if state = ''PENDING_LEASING'' then
           (if shown permissionAFC then leasingModes (enabled permissionAFC) unavailable else [])
         else if state = ''PENDING_LEASING_ORDER_CREATION'' then
           (if shown permissionAFC then leasingCreatedModes (enabled permissionAFC) unavailable else [])
         else if state = ''PENDING_APPROVAL_NO_LEASING'' then
           (if shown permissionApproverNoLeasing then noLeasingModes (enabled permissionApproverNoLeasing) unavailable else [])
         else if state = ''PENDING_BUDGET_INCREMENT'' then
           (if shown permissionExtraBudget then extraBudgetModes (enabled permissionExtraBudget) unavailable else [])
         else if state = ''PENDING_SEND'' then sendModes
         else if state = ''PENDING_VERIFICATION'' then conformityModes
         else [])"

definition actionSummary :: "poDetail \<Rightarrow> poActionSummary" where
  "actionSummary po =
     \<lparr>su_State = po_State po, su_TotalPrice = po_TotalPrice po, su_Currency = po_Currency po,
      su_RowCount = length (po_Rows po), su_AttachmentCount = length (po_Attachments po),
      su_QuoteCount = countQuoteAttachments (po_Attachments po), su_RecipientCount = length (po_Recipients po),
      su_PaymentMethod = poPaymentMethodCode po\<rparr>"

definition readOnlyMode :: poActionMode where
  "readOnlyMode = mode ''read_only'' ''Consultazione'' ''Segui lo stato della richiesta.''
     ''Non ci sono azioni disponibili per il tuo profilo in questo momento.''"

definition buildPOActionModel :: "poDetail \<Rightarrow> rdaPermissions \<Rightarrow> permissionStatus \<Rightarrow> string \<Rightarrow> number \<Rightarrow> poActionModel" where
  "buildPOActionModel po permissions status email quoteThreshold =
     (let model0 = \<lparr>am_PermissionStatus = status, am_Modes = [], am_PrimaryModeID = '''', am_Actions = [],
                    am_WorkflowStage = poWorkflowStage (po_State po), am_Summary = actionSummary po\<rparr>;
          model = fold addMode (stateModes po permissions status email quoteThreshold) model0;
          model' = model\<lparr>am_PrimaryModeID := selectPrimaryModeID (am_Modes model)\<rparr>
      in if am_Modes model' = [] then model'\<lparr>am_Modes := [readOnlyMode], am_PrimaryModeID := ''read_only''\<rparr>
         else model')"

subsection \<open>The shape of the model\<close>

lemmas mode_tables = draftModes_def approverModes_def requesterPaymentModes_def afcPaymentModes_def leasingModes_def
  leasingCreatedModes_def noLeasingModes_def extraBudgetModes_def sendModes_def conformityModes_def

lemma fold_addMode:
  "am_Modes (fold addMode mas model) = am_Modes model @ map (\<lambda>(m, acs). m\<lparr>mo_ActionIDs := map ac_ID acs\<rparr>) mas"
  "am_Actions (fold addMode mas model) = am_Actions model @ concat (map snd mas)"
  by (induction mas arbitrary: model) (auto simp: addMode_def)

lemma built_model:
  fixes po permissions status email threshold
  defines "mas \<equiv> stateModes po permissions status email threshold"
  defines "m \<equiv> buildPOActionModel po permissions status email threshold"
  shows "am_Actions m = concat (map snd mas)"
    and "am_Modes m = (if mas = [] then [readOnlyMode] else map (\<lambda>(m, acs). m\<lparr>mo_ActionIDs := map ac_ID acs\<rparr>) mas)"
    and "am_PrimaryModeID m = (if mas = [] then ''read_only'' else selectPrimaryModeID (am_Modes m))"
  by (simp_all add: m_def mas_def buildPOActionModel_def Let_def fold_addMode)

text \<open>Each action of a table belongs to the mode it is listed under, and tells why it is disabled.\<close>

definition well_formed_mode :: "poActionMode \<times> poAction list \<Rightarrow> bool" where
  "well_formed_mode ma \<longleftrightarrow> (case ma of (m, acs) \<Rightarrow> list_all (\<lambda>a. ac_ModeID a = mo_ID m \<and>
     (ac_Disabled a \<longleftrightarrow> ac_DisabledReason a \<noteq> '''')) acs \<and> distinct (map ac_ID acs) \<and> length (filter ac_Primary acs) \<le> 1)"

lemma reason_nonempty: "actionDisabledReason enabled u f = '''' \<longleftrightarrow> enabled" if "f \<noteq> ''''"
  using that by (simp add: actionDisabledReason_def)

lemma submit_reason: "fst (submitDisabledReason po t) \<longleftrightarrow> snd (submitDisabledReason po t) \<noteq> ''''"
  by (simp add: submitDisabledReason_def)

lemmas table_simps = mode_tables mode_def primary_def danger_def reason_nonempty Let_def

lemma tables_well_formed:
  "list_all well_formed_mode (draftModes po t)" "list_all well_formed_mode (approverModes po e u)"
  "list_all well_formed_mode requesterPaymentModes" "list_all well_formed_mode (afcPaymentModes e u)"
  "list_all well_formed_mode (leasingModes e u)" "list_all well_formed_mode (leasingCreatedModes e u)"
  "list_all well_formed_mode (noLeasingModes e u)" "list_all well_formed_mode (extraBudgetModes e u)"
  "list_all well_formed_mode sendModes" "list_all well_formed_mode conformityModes"
  using submit_reason[of po t]
  by (simp_all add: table_simps well_formed_mode_def case_prod_beta)

lemma stateModes_well_formed: "list_all well_formed_mode (stateModes po p st email t)"
  by (simp add: stateModes_def Let_def tables_well_formed)

abbreviation mode_ids :: "(poActionMode \<times> poAction list) list \<Rightarrow> string list" where
  "mode_ids mas \<equiv> map (mo_ID \<circ> fst) mas"

abbreviation action_ids :: "(poActionMode \<times> poAction list) list \<Rightarrow> string list" where
  "action_ids mas \<equiv> map ac_ID (concat (map snd mas))"

text \<open>The identifiers of each table, by evaluation.\<close>

lemma table_ids:
  "mode_ids (draftModes po t) = [''requester_draft'']" "action_ids (draftModes po t) = [''submit'']"
  "mode_ids (approverModes po e u) = [''approver_l1_l2'']" "action_ids (approverModes po e u) = [''approve'', ''reject'']"
  "mode_ids requesterPaymentModes = [''requester_payment_update'']" "action_ids requesterPaymentModes = []"
  "mode_ids (afcPaymentModes e u) = [''afc_payment'']"
  "action_ids (afcPaymentModes e u) = [''payment-method/approve'', ''reject'']"
  "mode_ids (leasingModes e u) = [''afc_leasing'']" "action_ids (leasingModes e u) = [''leasing/approve'', ''leasing/reject'']"
  "mode_ids (leasingCreatedModes e u) = [''afc_leasing_created'']" "action_ids (leasingCreatedModes e u) = [''leasing/created'']"
  "mode_ids (noLeasingModes e u) = [''no_leasing'']" "action_ids (noLeasingModes e u) = [''no-leasing/approve'', ''reject'']"
  "mode_ids (extraBudgetModes e u) = [''extra_budget'']"
  "action_ids (extraBudgetModes e u) = [''budget-increment/approve'', ''budget-increment/reject'']"
  "mode_ids sendModes = [''send_provider'']" "action_ids sendModes = [''send-to-provider'']"
  "mode_ids conformityModes = [''conformity'']" "action_ids conformityModes = [''conformity/confirm'', ''conformity/reject'']"
  by (simp_all add: table_simps case_prod_beta)

text \<open>What holds of every table, and of the two tables a state may show together, holds of every state.\<close>

lemma if_mem: "x \<in> S \<Longrightarrow> y \<in> S \<Longrightarrow> (if b then x else y) \<in> S"
  by simp

lemma stateModes_mem:
  assumes "[] \<in> S" "\<And>t. draftModes po t \<in> S" "\<And>e u. approverModes po e u \<in> S" "\<And>e u. afcPaymentModes e u \<in> S"
    "\<And>e u. requesterPaymentModes @ afcPaymentModes e u \<in> S" "requesterPaymentModes \<in> S"
    "\<And>e u. leasingModes e u \<in> S" "\<And>e u. leasingCreatedModes e u \<in> S" "\<And>e u. noLeasingModes e u \<in> S"
    "\<And>e u. extraBudgetModes e u \<in> S" "sendModes \<in> S" "conformityModes \<in> S"
  shows "stateModes po p st email t \<in> S"
proof -
  have both: "(if b then requesterPaymentModes else []) @ (if c then afcPaymentModes e u else []) \<in> S" for b c e u
    using assms(1,4,5,6) by (cases b; cases c) (simp_all only: if_True if_False append_Nil append_Nil2)
  show ?thesis unfolding stateModes_def Let_def by (intro if_mem assms(1-4,7-) both)
qed

lemma stateModes_ids: "distinct (mode_ids (stateModes po p st email t))" "distinct (action_ids (stateModes po p st email t))"
  using stateModes_mem[of "{mas. distinct (mode_ids mas) \<and> distinct (action_ids mas)}"]
  by (simp_all add: table_ids)

lemma actions_of_mode:
  assumes "list_all well_formed_mode mas" "distinct (map (mo_ID \<circ> fst) mas)" "(m, acs) \<in> set mas"
  shows "filter (\<lambda>a. ac_ModeID a = mo_ID m) (concat (map snd mas)) = acs"
  using assms
proof (induction mas)
  case (Cons ma mas)
  obtain m' acs' where ma: "ma = (m', acs')" by (cases ma)
  have wf': "\<forall>a\<in>set as. ac_ModeID a = mo_ID n" if "(n, as) \<in> set (ma # mas)" for n as
    using Cons.prems(1) that by (simp only: list_all_iff) (drule (1) bspec, simp add: well_formed_mode_def list_all_iff)
  have own: "filter (\<lambda>a. ac_ModeID a = mo_ID m') acs' = acs'"
    using wf'[of m' acs'] ma by (simp add: filter_id_conv)
  have other: "filter (\<lambda>a. ac_ModeID a = i) (concat (map snd mas)) = []" if "i \<notin> (mo_ID \<circ> fst) ` set mas" for i
  proof -
    have "ac_ModeID a \<noteq> i" if a: "a \<in> set as" "(n, as) \<in> set mas" for a n as
      using wf'[of n as] a \<open>i \<notin> _\<close> by (force simp: image_iff)
    then show ?thesis unfolding filter_empty_conv set_concat set_map by force
  qed
  show ?case
  proof (cases "(m, acs) = (m', acs')")
    case True
    then show ?thesis using own other[of "mo_ID m'"] Cons.prems(2) ma by auto
  next
    case False
    then have i: "(m, acs) \<in> set mas" using Cons.prems(3) ma by auto
    then have "mo_ID m \<noteq> mo_ID m'" using Cons.prems(2) ma by force
    then have "filter (\<lambda>a. ac_ModeID a = mo_ID m) acs' = []"
      using wf'[of m' acs'] ma by (simp add: filter_empty_conv)
    then show ?thesis using Cons.IH Cons.prems(1,2) i ma by simp
  qed
qed simp

lemma selectPrimary_mem: "modes \<noteq> [] \<Longrightarrow> selectPrimaryModeID modes \<in> mo_ID ` set modes"
  by (cases modes) (auto simp: selectPrimaryModeID_def find_Some_iff split: option.split)

definition shape_ok :: "poActionModel \<Rightarrow> bool" where
  "shape_ok m \<longleftrightarrow>
     am_Modes m \<noteq> [] \<and> distinct (map mo_ID (am_Modes m)) \<and> am_PrimaryModeID m \<in> mo_ID ` set (am_Modes m) \<and>
     distinct (map ac_ID (am_Actions m)) \<and>
     list_all (\<lambda>a. ac_Disabled a \<longleftrightarrow> ac_DisabledReason a \<noteq> '''') (am_Actions m) \<and>
     list_all (\<lambda>mo. mo_ActionIDs mo = map ac_ID (filter (\<lambda>a. ac_ModeID a = mo_ID mo) (am_Actions m))) (am_Modes m)"

text \<open>Whatever the request, the permissions and the user, the action model is well formed: it has a
  mode, its primary mode is one of them, mode and action identifiers are unique, the actions of a
  mode are exactly the ones it lists, and an action is disabled precisely when it gives a reason.\<close>

theorem action_model_shape: "shape_ok (buildPOActionModel po permissions status email threshold)"
proof -
  let ?mas = "stateModes po permissions status email threshold"
  let ?m = "buildPOActionModel po permissions status email threshold"
  note wf = stateModes_well_formed[of po permissions status email threshold]
    and ids = stateModes_ids[of po permissions status email threshold]
    and parts = built_model[of po permissions status email threshold]
  have dis: "list_all (\<lambda>a. ac_Disabled a \<longleftrightarrow> ac_DisabledReason a \<noteq> '''') (am_Actions ?m)"
    using wf unfolding parts(1) by (fastforce simp: list_all_iff well_formed_mode_def)
  show ?thesis
  proof (cases "?mas = []")
    case True
    then show ?thesis by (simp add: shape_ok_def parts readOnlyMode_def mode_def)
  next
    case False
    let ?f = "\<lambda>(m, acs). m\<lparr>mo_ActionIDs := map ac_ID acs\<rparr>"
    have id: "map mo_ID (map ?f ?mas) = map (mo_ID \<circ> fst) ?mas" by (simp add: case_prod_beta comp_def)
    have "am_PrimaryModeID ?m \<in> mo_ID ` set (am_Modes ?m)"
      using False selectPrimary_mem[of "am_Modes ?m"] by (simp add: parts)
    moreover have "list_all (\<lambda>mo. mo_ActionIDs mo = map ac_ID (filter (\<lambda>a. ac_ModeID a = mo_ID mo) (am_Actions ?m))) (am_Modes ?m)"
      using False actions_of_mode[OF wf ids(1)] by (auto simp: parts(1,2) list_all_iff)
    moreover have "distinct (map mo_ID (am_Modes ?m))"
      using False ids(1) by (simp only: parts(2) if_False id)
    moreover have "distinct (map ac_ID (am_Actions ?m))" using ids(2) by (simp only: parts(1))
    moreover have "am_Modes ?m \<noteq> []" using False by (simp add: parts(2))
    ultimately show ?thesis using dis by (simp add: shape_ok_def)
  qed
qed

end
