(* ===== verification/RdaHandlers.thy ===== *)
theory RdaHandlers
  imports RdaNotify RdaActionModel
begin

text \<open>
  The handlers that read a purchase request and move it through its workflow (\<open>rda/handler.go\<close>,
  \<open>rda/validation.go\<close>, \<open>rda/approvers.go\<close>): each is the Go function with its guards in order, its
  upstream call and what follows the call.
\<close>

section \<open>Reading\<close>

definition plainGet :: "string \<Rightarrow> string \<Rightarrow> (string \<times> string) list \<Rightarrow> call" where
  "plainGet path query headers =
     \<lparr>ca_Method = GET, ca_Path = path, ca_Query = query, ca_Headers = headers, ca_Body = NoBody\<rparr>"

definition handlePermissions :: "handler \<Rightarrow> request \<Rightarrow> response prog" where
  "handlePermissions h r =
     withEmail r (\<lambda>email. loadPermissionsForRequest h email (\<lambda>p. State_Monad.return (respond 200 (Obj
       [(''is_approver'', Bool (pm_IsApprover p)), (''is_afc'', Bool (pm_IsAFC p)),
        (''is_approver_no_leasing'', Bool (pm_IsApproverNoLeasing p)),
        (''is_approver_extra_budget'', Bool (pm_IsApproverExtraBudget p)),
        (''can_see_all_po'', Bool (pm_CanSeeAllPO p)), (''skip_approval'', Bool (pm_SkipApproval p))]))))"

definition handleBudgets :: "handler \<Rightarrow> request \<Rightarrow> response prog" where
  "handleBudgets h r = withArak h (\<lambda>arak. withEmail r (\<lambda>email.
     forwardArak arak (plainGet (arakBudgetRoot @ ''/budget-for-user'') (queryWithDefaults r) (budgetHeaders email))))"

definition handleUsers :: "handler \<Rightarrow> request \<Rightarrow> response prog" where
  "handleUsers h r = withArak h (\<lambda>arak.
     let values = rq_Query r;
         search = TrimSpace (valuesGet values ''search'');
         values = (if search \<noteq> '''' then valuesDel ''search'' (valuesSet ''search_string'' search values) else values);
         values = setDefault ''disable_pagination'' ''true'' (setDefault ''page_number'' ''1'' (setDefault ''enabled'' ''true'' values))
     in forwardArak arak (plainGet (arakUsersRoot @ ''/user'') (Encode values) []))"

subsection \<open>Lists with their approvers: approvers.go\<close>

definition approverBrief :: "int option \<times> string option \<Rightarrow> any option" where
  "approverBrief row =
     (case row of
        (Some level, Some email) \<Rightarrow>
          if TrimSpace email = '''' then None
          else Some (Obj [(''email'', Str (TrimSpace email)), (''level'', Integer level)])
      | _ \<Rightarrow> None)"

definition approversOf :: "(int \<times> int option \<times> string option) list \<Rightarrow> int \<Rightarrow> any list" where
  "approversOf rows i = List.map_filter (\<lambda>(oid, l, e). if oid = i then approverBrief (l, e) else None) rows"

definition withApprovers :: "(int \<times> int option \<times> string option) list \<Rightarrow> any \<Rightarrow> any" where
  "withApprovers rows v =
     (case v of
        Obj item \<Rightarrow>
          (case poListItemID item of None \<Rightarrow> v | Some i \<Rightarrow> Obj (put ''approvers'' (Arr (approversOf rows i)) item))
      | _ \<Rightarrow> v)"

definition mapItems :: "(any \<Rightarrow> any) \<Rightarrow> any \<Rightarrow> any" where
  "mapItems f payload =
     (case payload of
        Arr items \<Rightarrow> Arr (map f items)
      | Obj m \<Rightarrow> (case get m ''items'' of Arr items \<Rightarrow> Obj (put ''items'' (Arr (map f items)) m) | _ \<Rightarrow> payload)
      | _ \<Rightarrow> payload)"

text \<open>\<open>None\<close> when the list stays as upstream sent it: no database, nothing to enrich, or an error.\<close>

definition enrichPOListApprovers :: "handler \<Rightarrow> event list \<Rightarrow> content \<Rightarrow> any option" where
  "enrichPOListApprovers h es b =
     (case (ha_arakDB h, by_JSON b) of
        (Some db, Some payload) \<Rightarrow>
          (case poListItems payload of
             Some items \<Rightarrow>
               if items = [] \<or> poListIDs items = [] then None
               else map_option (\<lambda>rows. mapItems (withApprovers rows) payload) (st_Approvers db es (poListIDs items))
           | None \<Rightarrow> None)
      | _ \<Rightarrow> None)"

definition forwardArakPOList :: "handler \<Rightarrow> (event list \<Rightarrow> call \<Rightarrow> reply) \<Rightarrow> call \<Rightarrow> response prog" where
  "forwardArakPOList h arak c =
     do {
       r \<leftarrow> ask arak c;
       case r of
         Failed \<Rightarrow> State_Monad.return unavailable
       | Reply status hdr b \<Rightarrow>
           if status = 401 then State_Monad.return authFailed
           else if 400 \<le> status \<and> status \<le> 599 then
             State_Monad.return (writeUpstreamRejected status hdr b (ca_Path c) (ca_Query c))
           else if \<not> by_OK b then State_Monad.return unavailable
           else do {
             es \<leftarrow> history;
             State_Monad.return (copiedUnsized status hdr
               (case enrichPOListApprovers h es b of Some v \<Rightarrow> JSON v | None \<Rightarrow> Copied b))
           }
     }"

definition handlePOList :: "handler \<Rightarrow> request \<Rightarrow> response prog" where
  "handlePOList h r = withArak h (\<lambda>arak. withEmail r (\<lambda>email.
     forwardArakPOList h arak (plainGet (arakRDARoot @ ''/po'') (queryWithDefaults r) (requesterHeaders email))))"

definition inboxKindFromRequest :: "request \<Rightarrow> string" where
  "inboxKindFromRequest r = TrimPrefix (rq_Path r) ''/rda/v1/pos/inbox/''"

definition handlePOInbox :: "handler \<Rightarrow> request \<Rightarrow> response prog" where
  "handlePOInbox h r = withArak h (\<lambda>arak. withEmail r (\<lambda>email.
     case inboxConfig (inboxKindFromRequest r) of
       None \<Rightarrow> State_Monad.return (Error 404 ''Pagina non disponibile'')
     | Some cfg \<Rightarrow>
         loadPermissionsForRequest h email (\<lambda>p.
           if \<not> has p (ib_requiredPermission cfg) then
             State_Monad.return (Error 403 ''Operazione riservata agli utenti abilitati'')
           else forwardArakPOList h arak
             (plainGet (arakRDARoot @ ib_upstreamPath cfg) (queryWithDefaults r) (requesterHeaders email)))))"

definition handlePDF :: "handler \<Rightarrow> request \<Rightarrow> response prog" where
  "handlePDF h r = withArak h (\<lambda>arak. loadPOForWrite h arak r (\<lambda>email po.
     if \<not> canDownloadPOPDF (po_State po) then
       State_Monad.return (Error 403 ''Il PDF sara disponibile quando il PO e approvato o pronto per l'invio'')
     else forwardArak arak (plainGet (poPath (rq_ID r) @ ''/download'') '''' (requesterHeaders email))))"

subsection \<open>The detail with its actions\<close>

definition actionValue :: "poAction \<Rightarrow> any" where
  "actionValue a =
     (let omit = (\<lambda>k s. if s = '''' then [] else [(k, Str s)])
      in Obj ([(''id'', Str (ac_ID a)), (''mode_id'', Str (ac_ModeID a)), (''label'', Str (ac_Label a)),
               (''description'', Str (ac_Description a))] @ omit ''next'' (ac_Next a) @ omit ''tone'' (ac_Tone a) @
              [(''primary'', Bool (ac_Primary a)), (''disabled'', Bool (ac_Disabled a))] @
              omit ''disabled_reason'' (ac_DisabledReason a)))"

definition modeValue :: "poActionMode \<Rightarrow> any" where
  "modeValue m =
     Obj ([(''id'', Str (mo_ID m)), (''label'', Str (mo_Label m)), (''description'', Str (mo_Description m))] @
          (if mo_Reason m = '''' then [] else [(''reason'', Str (mo_Reason m))]) @
          [(''action_ids'', Arr (map Str (mo_ActionIDs m)))])"

definition summaryValue :: "poActionSummary \<Rightarrow> any" where
  "summaryValue s =
     (let omit = (\<lambda>k t. if t = '''' then [] else [(k, Str t)])
      in Obj (omit ''state'' (su_State s) @ omit ''total_price'' (su_TotalPrice s) @ omit ''currency'' (su_Currency s) @
              [(''row_count'', Integer (int (su_RowCount s))), (''attachment_count'', Integer (int (su_AttachmentCount s))),
               (''quote_count'', Integer (int (su_QuoteCount s))), (''recipient_count'', Integer (int (su_RecipientCount s)))] @
              omit ''payment_method'' (su_PaymentMethod s)))"

definition modelValue :: "poActionModel \<Rightarrow> any" where
  "modelValue m =
     Obj ([(''permission_status'', Str (case am_PermissionStatus m of poPermissionAvailable \<Rightarrow> ''available''
                                        | poPermissionUnavailable \<Rightarrow> ''unavailable'')),
           (''modes'', Arr (map modeValue (am_Modes m)))] @
          (if am_PrimaryModeID m = '''' then [] else [(''primary_mode_id'', Str (am_PrimaryModeID m))]) @
          [(''actions'', Arr (map actionValue (am_Actions m))), (''workflow_stage'', Str (am_WorkflowStage m)),
           (''summary'', summaryValue (am_Summary m))])"

text \<open>The model is added to an object; null decodes into a nil map, and the assignment to it panics.\<close>

datatype added = Added any | AddError | AddPanic

definition addPOActionModel :: "any \<Rightarrow> poActionModel \<Rightarrow> added" where
  "addPOActionModel body m =
     (case body of Obj payload \<Rightarrow> Added (Obj (put ''action_model'' (modelValue m) payload)) | Null \<Rightarrow> AddPanic | _ \<Rightarrow> AddError)"

text \<open>A panic ends the connection without a response.\<close>

definition panicked :: response where
  "panicked = \<lparr>rs_Status = 0, rs_Header = jsonType, rs_Written = Aborted\<rparr>"

definition notAvailableNow :: response where
  "notAvailableNow = ErrorCode 502 ''Richiesta non disponibile in questo momento'' ''UPSTREAM_UNAVAILABLE''"

definition actionPermissions :: "handler \<Rightarrow> event list \<Rightarrow> string \<Rightarrow> rdaPermissions \<times> permissionStatus" where
  "actionPermissions h es email =
     (case permissionsForEmail h es email of
        Inr p \<Rightarrow> (p, poPermissionAvailable) | Inl _ \<Rightarrow> (noPermissions, poPermissionUnavailable))"

definition handleGetPO :: "handler \<Rightarrow> request \<Rightarrow> response prog" where
  "handleGetPO h r = withArak h (\<lambda>arak. withEmail r (\<lambda>email.
     do {
       rep \<leftarrow> ask arak (getPO email (rq_ID r) (rq_RawQuery r));
       case rep of
         Failed \<Rightarrow> State_Monad.return unavailable
       | Reply status hdr b \<Rightarrow>
           if \<not> by_OK b then State_Monad.return notAvailableNow
           else if status = 401 then State_Monad.return authFailed
           else if \<not> successful status then State_Monad.return (copiedUnsized status hdr (Copied b))
           else do {
             es \<leftarrow> history;
             let economics = (case fetchPORowEconomics h es (rq_ID r) of Some ec \<Rightarrow> ec | None \<Rightarrow> \<lambda>_. zeroEconomics);
             State_Monad.return
               (case normalizePODetailRows (by_JSON b) economics of
                  None \<Rightarrow> notAvailableNow
                | Some body \<Rightarrow>
                    (case decodePO False body of
                       None \<Rightarrow> notAvailableNow
                     | Some po \<Rightarrow>
                         (case actionPermissions h es email of (p, st) \<Rightarrow>
                            (case addPOActionModel body (buildPOActionModel po p st email (ha_quoteThreshold h)) of
                               AddError \<Rightarrow> notAvailableNow
                             | AddPanic \<Rightarrow> panicked
                             | Added v \<Rightarrow> copiedUnsized 200 hdr (JSON v)))))
           }
     }))"

section \<open>Workflow transitions\<close>

definition postTransition :: "string \<Rightarrow> string \<Rightarrow> string \<Rightarrow> call" where
  "postTransition email poID suffix =
     \<lparr>ca_Method = POST, ca_Path = poPath poID @ suffix, ca_Query = '''', ca_Headers = requesterHeaders email, ca_Body = NoBody\<rparr>"

definition forbidden :: "string \<Rightarrow> response prog" where
  "forbidden message = State_Monad.return (Error 403 message)"

definition handleSubmitPO :: "handler \<Rightarrow> request \<Rightarrow> response prog" where
  "handleSubmitPO h r = withArak h (\<lambda>arak. loadPOForWrite h arak r (\<lambda>email po.
     if \<not> isRequester po email \<or> po_State po \<noteq> ''DRAFT'' then forbidden ''La bozza puo essere inviata solo dal richiedente''
     else if po_Rows po = [] then State_Monad.return (Error 400 ''Aggiungi almeno una riga PO'')
     else if ngeq (parseTotalPrice (po_TotalPrice po)) (ha_quoteThreshold h) \<and> countQuoteAttachments (po_Attachments po) < 2 then
       State_Monad.return (Error 400 ''Per importi superiori alla soglia configurata sono necessari almeno 2 preventivi'')
     else forwardArakAfterSuccess arak (postTransition email (rq_ID r) ''/submit'')
       (afterRDAWorkflowTransition h r email (rq_ID r) (Some po))))"

definition handleApprovePO :: "handler \<Rightarrow> request \<Rightarrow> response prog" where
  "handleApprovePO h r = withArak h (\<lambda>arak. loadPOForWrite h arak r (\<lambda>email po.
     if po_State po \<noteq> ''PENDING_APPROVAL'' \<or> \<not> isApprover po email then forbidden ''Operazione riservata agli approvatori assegnati''
     else loadPermissionsForRequest h email (\<lambda>p.
       if \<not> has p permissionApprover then forbidden ''Operazione riservata agli approvatori assegnati''
       else forwardArakAfterSuccess arak (postTransition email (rq_ID r) ''/approve'')
         (afterRDAWorkflowTransition h r email (rq_ID r) (Some po)))))"

text \<open>Who may reject, by state.\<close>

definition rejectGuard :: "poDetail \<Rightarrow> string \<Rightarrow> response + rdaPermissionFlag" where
  "rejectGuard po email =
     (if po_State po = ''PENDING_APPROVAL'' then
        (if isApprover po email then Inr permissionApprover else Inl (Error 403 ''Operazione riservata agli approvatori assegnati''))
      else if po_State po = ''PENDING_APPROVAL_PAYMENT_METHOD'' then Inr permissionAFC
      else if po_State po = ''PENDING_APPROVAL_NO_LEASING'' then Inr permissionApproverNoLeasing
      else Inl (Error 409 ''Azione non disponibile nello stato attuale''))"

definition handleRejectPO :: "handler \<Rightarrow> request \<Rightarrow> response prog" where
  "handleRejectPO h r = withArak h (\<lambda>arak. loadPOForWrite h arak r (\<lambda>email po.
     case rejectGuard po email of
       Inl e \<Rightarrow> State_Monad.return e
     | Inr flag \<Rightarrow>
         loadPermissionsForRequest h email (\<lambda>p.
           if \<not> has p flag then forbidden ''Operazione riservata agli utenti abilitati''
           else forwardArakAfterSuccess arak (postTransition email (rq_ID r) ''/reject'')
             (afterRDAWorkflowTransition h r email (rq_ID r) (Some po)))))"

definition requestString :: "any option \<Rightarrow> string \<Rightarrow> string option" where
  "requestString body key =
     (case body of Some (Obj m) \<Rightarrow> structString key m '''' | Some Null \<Rightarrow> Some '''' | _ \<Rightarrow> None)"

definition handlePatchPaymentMethod :: "handler \<Rightarrow> request \<Rightarrow> response prog" where
  "handlePatchPaymentMethod h r = withArak h (\<lambda>arak. loadPOForWrite h arak r (\<lambda>email po.
     if \<not> isRequester po email \<or> po_State po \<noteq> ''PENDING_APPROVAL_PAYMENT_METHOD'' then
       forbidden ''Il metodo di pagamento puo essere aggiornato solo dal richiedente''
     else case requestString (rq_Body r) ''payment_method'' of
       None \<Rightarrow> State_Monad.return (Error 400 ''Seleziona un metodo di pagamento'')
     | Some method \<Rightarrow>
         if TrimSpace method = '''' then State_Monad.return (Error 400 ''Seleziona un metodo di pagamento'')
         else forwardArakAfterSuccess arak
           \<lparr>ca_Method = PATCH, ca_Path = poPath (rq_ID r) @ ''/payment-method'', ca_Query = '''',
            ca_Headers = requesterHeaders email @ jsonHeaders,
            ca_Body = JSONBody (Obj [(''payment_method'', Str (TrimSpace method))])\<rparr>
           (afterRDAWorkflowTransition h r email (rq_ID r) (Some po))))"

text \<open>Transitions guarded by a permission: the request is read for the notifications only.\<close>

definition handlePermissionTransition :: "rdaPermissionFlag \<Rightarrow> string \<Rightarrow> handler \<Rightarrow> request \<Rightarrow> response prog" where
  "handlePermissionTransition flag suffix h r = withArak h (\<lambda>arak. withEmail r (\<lambda>email.
     loadPermissionsForRequest h email (\<lambda>p.
       if \<not> has p flag then forbidden ''Operazione riservata agli utenti abilitati''
       else do {
         previous \<leftarrow> fetchPODetailForNotifications h email (rq_ID r);
         forwardArakAfterSuccess arak (postTransition email (rq_ID r) suffix)
           (afterRDAWorkflowTransition h r email (rq_ID r) previous)
       })))"

definition handleStateTransition :: "string \<Rightarrow> string \<Rightarrow> handler \<Rightarrow> request \<Rightarrow> response prog" where
  "handleStateTransition requiredState suffix h r = withArak h (\<lambda>arak. loadPOForWrite h arak r (\<lambda>email po.
     if po_State po \<noteq> requiredState then State_Monad.return (Error 409 ''Azione non disponibile nello stato attuale'')
     else forwardArakAfterSuccess arak (postTransition email (rq_ID r) suffix)
       (afterRDAWorkflowTransition h r email (rq_ID r) (Some po))))"

definition handleBudgetIncrement :: "bool \<Rightarrow> handler \<Rightarrow> request \<Rightarrow> response prog" where
  "handleBudgetIncrement approve h r = withArak h (\<lambda>arak. withEmail r (\<lambda>email.
     loadPermissionsForRequest h email (\<lambda>p.
       if \<not> has p permissionExtraBudget then forbidden ''Operazione riservata agli utenti abilitati''
       else do {
         previous \<leftarrow> fetchPODetailForNotifications h email (rq_ID r);
         forwardArakAfterSuccess arak
           \<lparr>ca_Method = POST, ca_Path = poPath (rq_ID r) @ (if approve then ''/approve-budget-increment'' else ''/reject-budget-increment''),
            ca_Query = '''', ca_Headers = requesterHeaders email @ jsonHeaders, ca_Body = RawBody (rq_RawBody r)\<rparr>
           (afterRDAWorkflowTransition h r email (rq_ID r) previous)
       })))"

text \<open>A draft is deleted upstream; a request already submitted is cancelled in the database.\<close>

definition handleDeletePO :: "handler \<Rightarrow> request \<Rightarrow> response prog" where
  "handleDeletePO h r = withArak h (\<lambda>arak. loadPOForWrite h arak r (\<lambda>email po.
     if \<not> isRequester po email \<or> \<not> isRequesterDeleteState (po_State po) then
       forbidden ''La richiesta puo essere eliminata solo dal richiedente prima dell'invio al fornitore''
     else if po_State po \<noteq> ''DRAFT'' then
       withArakDB h (\<lambda>db.
         case ParseInt (TrimSpace (rq_ID r)) of (i, ok) \<Rightarrow>
           if \<not> ok \<or> i \<le> 0 then State_Monad.return (Error 400 ''Richiesta non valida'')
           else do {
             es \<leftarrow> history;
             emit (DirectDelete i);
             case st_Delete db es i of
               None \<Rightarrow> State_Monad.return InternalError
             | Some affected \<Rightarrow>
                 if affected = 0 then State_Monad.return (Error 404 ''Richiesta non disponibile'')
                 else do {
                   resolveRDADeleteNotifications h (rq_ID r);
                   State_Monad.return (respond 200 (Obj [(''message'', Str ''Successfully Deleted'')]))
                 }
           })
     else forwardArakAfterSuccess arak
       \<lparr>ca_Method = DELETE, ca_Path = poPath (rq_ID r), ca_Query = '''', ca_Headers = requesterHeaders email, ca_Body = NoBody\<rparr>
       (resolveRDADeleteNotifications h (rq_ID r))))"

end
