(* ===== verification/RdaEdit.thy ===== *)
theory RdaEdit
  imports RdaHandlers
begin

text \<open>
  The handlers that write a purchase request: creation and change of a draft with the rule on the
  payment method (\<open>rda/handler.go\<close>, \<open>rda/payments.go\<close>), rows, attachments, comments and recipients
  (\<open>rda/validation.go\<close>), and the duplication of a request (\<open>rda/clone.go\<close>).
\<close>

section \<open>Checks of the body\<close>

record createPORequest =
  cr_Type :: string
  cr_BudgetID :: int
  cr_CostCenter :: string
  cr_BudgetUserID :: int
  cr_ProviderID :: int
  cr_PaymentMethod :: string
  cr_Currency :: string
  cr_Project :: string
  cr_Object :: string
  cr_Description :: string
  cr_Note :: string
  cr_ProviderOfferCode :: string
  cr_ProviderOfferDate :: string

text \<open>The number of runes of a text.\<close>

definition RuneCount :: "string \<Rightarrow> nat" where
  "RuneCount s = length (filter (\<lambda>c. \<not> continuation c) s)"

definition validateCreatePO :: "createPORequest \<Rightarrow> string option" where
  "validateCreatePO req =
     (let hasCostCenter = TrimSpace (cr_CostCenter req) \<noteq> ''''; hasBudgetUser = 0 < cr_BudgetUserID req
      in if cr_Type req \<noteq> ''STANDARD'' \<and> cr_Type req \<noteq> ''ECOMMERCE'' then Some ''Seleziona il tipo PO''
         else if cr_BudgetID req \<le> 0 then Some ''Seleziona un budget''
         else if cr_ProviderID req \<le> 0 then Some ''Seleziona un fornitore''
         else if TrimSpace (cr_Project req) = '''' then Some ''Inserisci il progetto''
         else if 50 < RuneCount (TrimSpace (cr_Project req)) then Some ''Il progetto puo avere al massimo 50 caratteri''
         else if TrimSpace (cr_Object req) = '''' then Some ''Inserisci l'oggetto''
         else if hasCostCenter = hasBudgetUser then Some ''Il budget deve indicare un solo centro di costo o utente''
         else None)"

definition allowedPOCurrencies :: "string list" where
  "allowedPOCurrencies = [''EUR'', ''USD'', ''GBP'']"

definition defaultPOCurrency :: string where "defaultPOCurrency = ''EUR''"

definition createPOCurrency :: "string \<Rightarrow> string option" where
  "createPOCurrency value =
     (let currency = ToUpper (TrimSpace value)
      in if currency = '''' then Some defaultPOCurrency
         else if currency \<in> set allowedPOCurrencies then Some currency else None)"

definition patchPOCurrency :: "any \<Rightarrow> string option" where
  "patchPOCurrency value =
     (case value of
        Str s \<Rightarrow> let currency = ToUpper (TrimSpace s) in if currency \<in> set allowedPOCurrencies then Some currency else None
      | _ \<Rightarrow> None)"

text \<open>A missing or null list is no list; every id is positive.\<close>

definition validateUpdatePORecipients :: "int list option \<Rightarrow> string option" where
  "validateUpdatePORecipients ids =
     (case ids of None \<Rightarrow> Some ''Seleziona i destinatari''
      | Some is \<Rightarrow> if list_ex (\<lambda>i. i \<le> 0) is then Some ''Destinatario non valido'' else None)"

definition positivePathID :: "string \<Rightarrow> string option" where
  "positivePathID s = (case ParseInt (TrimSpace s) of (i, ok) \<Rightarrow> if \<not> ok \<or> i \<le> 0 then None else Some (FormatInt i))"

subsection \<open>Decoding a creation request\<close>

definition setCreate :: "string \<Rightarrow> any \<Rightarrow> createPORequest \<Rightarrow> createPORequest option" where
  "setCreate k v r =
     (if EqualFold k ''type'' then asString (\<lambda>s. r\<lparr>cr_Type := s\<rparr>) v r
      else if EqualFold k ''budget_id'' then asInt (\<lambda>i. r\<lparr>cr_BudgetID := i\<rparr>) v r
      else if EqualFold k ''cost_center'' then asString (\<lambda>s. r\<lparr>cr_CostCenter := s\<rparr>) v r
      else if EqualFold k ''budget_user_id'' then asInt (\<lambda>i. r\<lparr>cr_BudgetUserID := i\<rparr>) v r
      else if EqualFold k ''provider_id'' then asInt (\<lambda>i. r\<lparr>cr_ProviderID := i\<rparr>) v r
      else if EqualFold k ''payment_method'' then asString (\<lambda>s. r\<lparr>cr_PaymentMethod := s\<rparr>) v r
      else if EqualFold k ''currency'' then asString (\<lambda>s. r\<lparr>cr_Currency := s\<rparr>) v r
      else if EqualFold k ''project'' then asString (\<lambda>s. r\<lparr>cr_Project := s\<rparr>) v r
      else if EqualFold k ''object'' then asString (\<lambda>s. r\<lparr>cr_Object := s\<rparr>) v r
      else if EqualFold k ''description'' then asString (\<lambda>s. r\<lparr>cr_Description := s\<rparr>) v r
      else if EqualFold k ''note'' then asString (\<lambda>s. r\<lparr>cr_Note := s\<rparr>) v r
      else if EqualFold k ''provider_offer_code'' then asString (\<lambda>s. r\<lparr>cr_ProviderOfferCode := s\<rparr>) v r
      else if EqualFold k ''provider_offer_date'' then asString (\<lambda>s. r\<lparr>cr_ProviderOfferDate := s\<rparr>) v r
      else Some r)"

definition noCreate :: createPORequest where
  "noCreate = \<lparr>cr_Type = '''', cr_BudgetID = 0, cr_CostCenter = '''', cr_BudgetUserID = 0, cr_ProviderID = 0, cr_PaymentMethod = '''',
     cr_Currency = '''', cr_Project = '''', cr_Object = '''', cr_Description = '''', cr_Note = '''', cr_ProviderOfferCode = '''',
     cr_ProviderOfferDate = ''''\<rparr>"

definition decodeCreate :: "any option \<Rightarrow> createPORequest option" where
  "decodeCreate body = Option.bind body (\<lambda>v. decodeStruct setCreate v noCreate)"

section \<open>The payment method\<close>

text \<open>The requested method, or the provider's, or the default of the company; a database error is \<open>None\<close>.\<close>

definition resolvePaymentMethod :: "store \<Rightarrow> event list \<Rightarrow> string \<Rightarrow> providerDetail \<Rightarrow> (string \<times> string) option" where
  "resolvePaymentMethod db es requested provider =
     (let providerDefault = providerDefaultPaymentMethod provider;
          method = (if TrimSpace requested = '''' then providerDefault else TrimSpace requested)
      in if method \<noteq> '''' then Some (method, providerDefault)
         else case st_DefaultPayment db es of
                Row code \<Rightarrow> Some (TrimSpace code, providerDefault)
              | NoRows \<Rightarrow> Some ('''', providerDefault)
              | DbError \<Rightarrow> None)"

datatype paymentVerdict = PaymentOK | PaymentNotAllowed | PaymentProviderRequired | PaymentDbError

definition validateEffectivePaymentMethod :: "store \<Rightarrow> event list \<Rightarrow> string \<Rightarrow> string \<Rightarrow> paymentVerdict" where
  "validateEffectivePaymentMethod db es code providerDefault =
     (if TrimSpace code = '''' then PaymentNotAllowed
      else case st_PaymentMethod db es (TrimSpace code) of
             NoRows \<Rightarrow> PaymentNotAllowed
           | DbError \<Rightarrow> PaymentDbError
           | Row m \<Rightarrow> if pa_RDAAvailable m \<or> TrimSpace code = TrimSpace providerDefault then PaymentOK else PaymentNotAllowed)"

text \<open>The provider of a new request: an empty one when it cannot be read.\<close>

definition fetchProviderForCreate :: "(event list \<Rightarrow> call \<Rightarrow> reply) \<Rightarrow> int \<Rightarrow> providerDetail prog" where
  "fetchProviderForCreate arak providerID =
     (if providerID \<le> 0 then State_Monad.return noProvider
      else do {
        r \<leftarrow> ask arak (plainGet (arakProviderRoot @ ''/provider/'' @ PathEscape (FormatInt providerID)) '''' []);
        State_Monad.return
          (case r of
             Failed \<Rightarrow> noProvider
           | Reply status _ b \<Rightarrow>
               if successful status then (case Option.bind (by_JSON b) decodeProvider of Some p \<Rightarrow> p | None \<Rightarrow> noProvider)
               else noProvider)
      })"

section \<open>Creating a request\<close>

definition ifText :: "string \<Rightarrow> string \<Rightarrow> fields" where
  "ifText k s = (if s = '''' then [] else [(k, Str s)])"

definition createBody :: "createPORequest \<Rightarrow> string \<Rightarrow> string \<Rightarrow> providerDetail \<Rightarrow> fields" where
  "createBody req currency method provider =
     [(''type'', Str (cr_Type req)), (''budget_id'', Integer (cr_BudgetID req)), (''provider_id'', Integer (cr_ProviderID req)),
      (''project'', Str (cr_Project req)), (''object'', Str (cr_Object req)), (''reference_warehouse'', Str ''MILANO''),
      (''currency'', Str currency), (''language'', Str (providerLanguage provider)), (''payment_method'', Str method),
      (''recipient_ids'', Arr [])] @
     (if TrimSpace (cr_CostCenter req) \<noteq> '''' then [(''cost_center'', Str (TrimSpace (cr_CostCenter req)))]
      else [(''budget_user_id'', Integer (cr_BudgetUserID req))]) @
     ifText ''description'' (cr_Description req) @ ifText ''note'' (cr_Note req) @
     ifText ''provider_offer_code'' (cr_ProviderOfferCode req) @ ifText ''provider_offer_date'' (cr_ProviderOfferDate req) @
     ifText ''cap'' (providerCAP provider) @ ifText ''vat'' (TrimSpace (pr_VATNumber provider))"

definition sendJSON :: "verb \<Rightarrow> string \<Rightarrow> string \<Rightarrow> any \<Rightarrow> call" where
  "sendJSON m path email v =
     \<lparr>ca_Method = m, ca_Path = path, ca_Query = '''', ca_Headers = requesterHeaders email @ jsonHeaders, ca_Body = JSONBody v\<rparr>"

definition badRequest :: "string \<Rightarrow> response prog" where
  "badRequest message = State_Monad.return (Error 400 message)"

definition handleCreatePO :: "handler \<Rightarrow> request \<Rightarrow> response prog" where
  "handleCreatePO h r = withArak h (\<lambda>arak. withEmail r (\<lambda>email.
     case decodeCreate (rq_Body r) of
       None \<Rightarrow> badRequest ''Richiesta non valida''
     | Some req \<Rightarrow>
       (case validateCreatePO req of
         Some e \<Rightarrow> badRequest e
       | None \<Rightarrow>
         (case createPOCurrency (cr_Currency req) of
           None \<Rightarrow> badRequest ''Seleziona una valuta valida''
         | Some currency \<Rightarrow>
           do {
             provider \<leftarrow> fetchProviderForCreate arak (cr_ProviderID req);
             withArakDB h (\<lambda>db.
               do {
                 es \<leftarrow> history;
                 case resolvePaymentMethod db es (cr_PaymentMethod req) provider of
                   None \<Rightarrow> State_Monad.return InternalError
                 | Some (method, providerDefault) \<Rightarrow>
                     if method = '''' then badRequest ''Seleziona un metodo di pagamento''
                     else (case validateEffectivePaymentMethod db es method providerDefault of
                         PaymentOK \<Rightarrow> forwardArak arak
                           (sendJSON POST (arakRDARoot @ ''/po'') email (Obj (createBody req currency method provider)))
                       | PaymentNotAllowed \<Rightarrow> badRequest ''Seleziona un metodo di pagamento valido''
                       | _ \<Rightarrow> State_Monad.return InternalError)
               })
           }))))"

section \<open>Changing a draft\<close>

definition patchAllowed :: "string list" where
  "patchAllowed = [''type'', ''budget_id'', ''budget_user_id'', ''cost_center'', ''description'', ''object'', ''note'', ''payment_method'',
     ''reference_warehouse'', ''provider_id'', ''project'', ''provider_offer_code'', ''provider_offer_date'', ''currency'']"

text \<open>A body decoded into a map, its numbers as floats.\<close>

definition bodyMap :: "request \<Rightarrow> fields option" where
  "bodyMap r = decodeRawMap (Option.bind (rq_Body r) floated)"

definition decodeAllowedPatch :: "request \<Rightarrow> string + fields" where
  "decodeAllowedPatch r =
     (case bodyMap r of
        None \<Rightarrow> Inl ''Richiesta non valida''
      | Some m \<Rightarrow>
          let out = filter (\<lambda>(k, v). k \<in> set patchAllowed) m
          in if out = [] then Inl ''Nessun campo da aggiornare'' else Inr out)"

definition patchAffectsPaymentRule :: "fields \<Rightarrow> bool" where
  "patchAffectsPaymentRule body \<longleftrightarrow> has_key body ''payment_method'' \<or> has_key body ''provider_id''"

text \<open>The method a patch asks for: \<open>None\<close> when it asks for a blank one.\<close>

definition requestedPayment :: "fields \<Rightarrow> poDetail \<Rightarrow> string option" where
  "requestedPayment body po =
     (if has_key body ''payment_method'' then
        (let method = TrimSpace (stringValue (get body ''payment_method'')) in if method = '''' then None else Some method)
      else if has_key body ''provider_id'' then Some '''' else Some (poPaymentMethodCode po))"

text \<open>The patch with the method that takes effect, or the reason it is refused.\<close>

definition applyPatchPaymentMethodRule :: "(event list \<Rightarrow> call \<Rightarrow> reply) \<Rightarrow> store \<Rightarrow> fields \<Rightarrow> poDetail \<Rightarrow> (paymentVerdict + fields) prog" where
  "applyPatchPaymentMethodRule arak db body po =
     (let providerID = (if has_key body ''provider_id'' then int64Value (get body ''provider_id'') else pr_ID (po_Provider po))
      in if providerID \<le> 0 then State_Monad.return (Inl PaymentProviderRequired)
         else do {
           provider \<leftarrow> (if pr_ID (po_Provider po) \<noteq> providerID \<or> providerDefaultPaymentMethod (po_Provider po) = ''''
                         then fetchProviderForCreate arak providerID else State_Monad.return (po_Provider po));
           es \<leftarrow> history;
           State_Monad.return
             (case requestedPayment body po of
                None \<Rightarrow> Inl PaymentNotAllowed
              | Some requested \<Rightarrow>
                  (case resolvePaymentMethod db es requested provider of
                     None \<Rightarrow> Inl PaymentDbError
                   | Some (method, providerDefault) \<Rightarrow>
                       if method = '''' then Inl PaymentNotAllowed
                       else (case validateEffectivePaymentMethod db es method providerDefault of
                               PaymentOK \<Rightarrow> Inr (put ''payment_method'' (Str method) body)
                             | verdict \<Rightarrow> Inl verdict)))
         })"

definition patchPO :: "(event list \<Rightarrow> call \<Rightarrow> reply) \<Rightarrow> request \<Rightarrow> string \<Rightarrow> fields \<Rightarrow> response prog" where
  "patchPO arak r email body = forwardArak arak (sendJSON PATCH (poPath (rq_ID r)) email (Obj body))"

text \<open>The currency of a patch, if it has one, checked and normalised.\<close>

definition patchCurrency :: "fields \<Rightarrow> fields option" where
  "patchCurrency body =
     (if has_key body ''currency'' then map_option (\<lambda>c. put ''currency'' (Str c) body) (patchPOCurrency (get body ''currency''))
      else Some body)"

definition handlePatchPO :: "handler \<Rightarrow> request \<Rightarrow> response prog" where
  "handlePatchPO h r = withArak h (\<lambda>arak. loadPOForWrite h arak r (\<lambda>email po.
     if \<not> isRequester po email \<or> po_State po \<noteq> ''DRAFT'' then forbidden ''La bozza puo essere modificata solo dal richiedente''
     else case decodeAllowedPatch r of
       Inl e \<Rightarrow> badRequest e
     | Inr body0 \<Rightarrow>
       (case patchCurrency body0 of
         None \<Rightarrow> badRequest ''Seleziona una valuta valida''
       | Some body \<Rightarrow>
           if \<not> patchAffectsPaymentRule body then patchPO arak r email body
           else withArakDB h (\<lambda>db.
             do {
               res \<leftarrow> applyPatchPaymentMethodRule arak db body po;
               case res of
                 Inr body' \<Rightarrow> patchPO arak r email body'
               | Inl PaymentProviderRequired \<Rightarrow> badRequest ''Seleziona un fornitore''
               | Inl PaymentNotAllowed \<Rightarrow> badRequest ''Seleziona un metodo di pagamento valido''
               | Inl _ \<Rightarrow> State_Monad.return InternalError
             }))))"

section \<open>Rows\<close>

definition rowRequest :: "string \<Rightarrow> string \<Rightarrow> fields \<Rightarrow> call" where
  "rowRequest email poID body = sendJSON POST (poPath poID @ ''/row'') email (Obj body)"

definition rowDelete :: "string \<Rightarrow> string \<Rightarrow> string \<Rightarrow> call" where
  "rowDelete email poID rowID =
     \<lparr>ca_Method = DELETE, ca_Path = poPath poID @ ''/row/'' @ PathEscape rowID, ca_Query = '''',
      ca_Headers = requesterHeaders email, ca_Body = NoBody\<rparr>"

definition writeCreateRowResponse :: "int \<Rightarrow> header \<Rightarrow> content \<Rightarrow> response" where
  "writeCreateRowResponse status hdr b =
     (if status = 401 then authFailed
      else if \<not> successful status then copiedUnsized status hdr (Copied b)
      else copiedUnsized status hdr
        (case normalizePODetailRows (by_JSON b) (\<lambda>_. zeroEconomics) of Some v \<Rightarrow> JSON v | None \<Rightarrow> Copied b))"

definition rowsForbidden :: "response prog" where
  "rowsForbidden = forbidden ''Le righe possono essere modificate solo dal richiedente in bozza''"

definition handleCreateRow :: "handler \<Rightarrow> request \<Rightarrow> response prog" where
  "handleCreateRow h r = withArak h (\<lambda>arak. loadPOForWrite h arak r (\<lambda>email po.
     if \<not> isRequester po email \<or> po_State po \<noteq> ''DRAFT'' then rowsForbidden
     else case bodyMap r of
       None \<Rightarrow> badRequest ''Richiesta non valida''
     | Some body \<Rightarrow>
       (case validateRow body of
         Some e \<Rightarrow> badRequest e
       | None \<Rightarrow>
         do {
           res \<leftarrow> upstreamBody arak (rowRequest email (rq_ID r) (buildRowCreateBody body email));
           State_Monad.return
             (case res of None \<Rightarrow> unavailable | Some (status, hdr, b) \<Rightarrow> writeCreateRowResponse status hdr b)
         })))"

definition writeRowReplaceDeleteFailure :: "string \<Rightarrow> response" where
  "writeRowReplaceDeleteFailure createdRowID =
     respond 409 (Obj
       ([(''error'', Str ''Nuova riga creata, ma la riga precedente non e stata eliminata. Controlla le righe prima di inviare la richiesta.''),
         (''code'', Str ''ROW_REPLACE_DELETE_FAILED'')] @
        (if createdRowID \<noteq> '''' then [(''created_row_id'', Str createdRowID)] else [])))"

definition noContent :: response where
  "noContent = \<lparr>rs_Status = 204, rs_Header = \<lparr>hd_ContentType = '''', hd_ContentDisposition = '''', hd_ContentLength = ''''\<rparr>,
     rs_Written = Empty\<rparr>"

text \<open>A replacement is a new row and then the deletion of the old one.\<close>

definition deleteReplacedRow :: "(event list \<Rightarrow> call \<Rightarrow> reply) \<Rightarrow> string \<Rightarrow> string \<Rightarrow> string \<Rightarrow> content \<Rightarrow> response prog" where
  "deleteReplacedRow arak email poID rowID created =
     do {
       res \<leftarrow> upstreamBody arak (rowDelete email poID rowID);
       State_Monad.return
         (case res of
            None \<Rightarrow> writeRowReplaceDeleteFailure (rowResponseID (by_JSON created))
          | Some (status, _, _) \<Rightarrow>
              if successful status then noContent else writeRowReplaceDeleteFailure (rowResponseID (by_JSON created)))
     }"

definition handleReplaceRow :: "handler \<Rightarrow> request \<Rightarrow> response prog" where
  "handleReplaceRow h r = withArak h (\<lambda>arak. loadPOForWrite h arak r (\<lambda>email po.
     if \<not> isRequester po email \<or> po_State po \<noteq> ''DRAFT'' then rowsForbidden
     else if \<not> poHasRow po (TrimSpace (rq_RowID r)) then State_Monad.return (Error 404 ''Riga non disponibile'')
     else case bodyMap r of
       None \<Rightarrow> badRequest ''Richiesta non valida''
     | Some body \<Rightarrow>
       (case validateRow body of
         Some e \<Rightarrow> badRequest e
       | None \<Rightarrow>
         do {
           res \<leftarrow> upstreamBody arak (rowRequest email (rq_ID r) (buildRowCreateBody body email));
           case res of
             None \<Rightarrow> State_Monad.return unavailable
           | Some (status, hdr, b) \<Rightarrow>
               if status = 401 then State_Monad.return authFailed
               else if \<not> successful status then State_Monad.return (copiedUnsized status hdr (Copied b))
               else deleteReplacedRow arak email (rq_ID r) (TrimSpace (rq_RowID r)) b
         })))"

definition handleDeleteRow :: "handler \<Rightarrow> request \<Rightarrow> response prog" where
  "handleDeleteRow h r = withArak h (\<lambda>arak. loadPOForWrite h arak r (\<lambda>email po.
     if \<not> isRequester po email \<or> po_State po \<noteq> ''DRAFT'' then rowsForbidden
     else forwardArak arak (rowDelete email (rq_ID r) (rq_RowID r))))"

section \<open>Attachments\<close>

definition allowedAttachmentTypes :: "string list" where
  "allowedAttachmentTypes = [''quote'', ''transport_document'', ''other'']"

definition attachmentTypeFromUpload :: "string \<Rightarrow> string \<Rightarrow> string option" where
  "attachmentTypeFromUpload poState given =
     (let value = TrimSpace given
      in if value = '''' then Some (if poState = ''DRAFT'' then ''quote'' else ''transport_document'')
         else if value \<in> set allowedAttachmentTypes then Some value else None)"

definition escapeQuotes :: "string \<Rightarrow> string" where
  "escapeQuotes value = ReplaceChar (CHR 0x22) [CHR 0x5C, CHR 0x22] value"

text \<open>\<open>None\<close> stands for a form over 25 MiB or malformed.\<close>

definition handleUploadAttachment :: "handler \<Rightarrow> request \<Rightarrow> response prog" where
  "handleUploadAttachment h r = withArak h (\<lambda>arak. loadPOForWrite h arak r (\<lambda>email po.
     if po_State po \<noteq> ''DRAFT'' \<and> po_State po \<noteq> ''PENDING_VERIFICATION'' then forbidden ''Allegato non caricabile nello stato attuale''
     else case rq_Upload r of
       None \<Rightarrow> badRequest ''Il file supera la dimensione massima o non puo essere letto''
     | Some None \<Rightarrow> badRequest ''Seleziona un file da caricare''
     | Some (Some up) \<Rightarrow>
         if up_Size up = 0 then badRequest ''Seleziona un file da caricare''
         else if \<not> up_Readable up then badRequest ''Il file non puo essere letto''
         else (case attachmentTypeFromUpload (po_State po) (rq_AttachmentType r) of
             None \<Rightarrow> badRequest ''Seleziona un tipo documento valido''
           | Some t \<Rightarrow> forwardArak arak
               \<lparr>ca_Method = POST, ca_Path = poPath (rq_ID r) @ ''/attachment'', ca_Query = '''',
                ca_Headers = requesterHeaders email @ [(''Content-Type'', ''multipart/form-data'')],
                ca_Body = FormBody (escapeQuotes (up_Filename up)) (up_ContentType up) (up_Content up) t\<rparr>)))"

definition attachmentPath :: "request \<Rightarrow> string" where
  "attachmentPath r = poPath (rq_ID r) @ ''/attachment/'' @ PathEscape (rq_AID r)"

definition handleDownloadAttachment :: "handler \<Rightarrow> request \<Rightarrow> response prog" where
  "handleDownloadAttachment h r = withArak h (\<lambda>arak. withEmail r (\<lambda>email.
     forwardArak arak (plainGet (attachmentPath r @ ''/download'') '''' (requesterHeaders email))))"

definition handleDeleteAttachment :: "handler \<Rightarrow> request \<Rightarrow> response prog" where
  "handleDeleteAttachment h r = withArak h (\<lambda>arak. loadPOForWrite h arak r (\<lambda>email po.
     if \<not> isRequester po email \<or> po_State po \<noteq> ''DRAFT'' then
       forbidden ''Gli allegati possono essere eliminati solo dal richiedente in bozza''
     else forwardArak arak
       \<lparr>ca_Method = DELETE, ca_Path = attachmentPath r, ca_Query = '''', ca_Headers = requesterHeaders email, ca_Body = NoBody\<rparr>))"

section \<open>Comments\<close>

definition handleComments :: "handler \<Rightarrow> request \<Rightarrow> response prog" where
  "handleComments h r = withArak h (\<lambda>arak. withEmail r (\<lambda>email.
     forwardArak arak (plainGet (poPath (rq_ID r) @ ''/comment'') (queryWithDefaults r) (requesterHeaders email))))"

definition setMention :: "string \<Rightarrow> any \<Rightarrow> commentMentionUser \<Rightarrow> commentMentionUser option" where
  "setMention k v m =
     (if EqualFold k ''id'' then asInt (\<lambda>i. m\<lparr>mu_ID := i\<rparr>) v m
      else if EqualFold k ''email'' then asString (\<lambda>s. m\<lparr>mu_Email := s\<rparr>) v m
      else if EqualFold k ''first_name'' \<or> EqualFold k ''last_name'' \<or> EqualFold k ''name'' then asString (\<lambda>_. m) v m
      else Some m)"

definition setComment :: "string \<Rightarrow> any \<Rightarrow> string \<times> commentMentionUser list \<Rightarrow> (string \<times> commentMentionUser list) option" where
  "setComment k v c =
     (if EqualFold k ''comment'' then asString (\<lambda>s. (s, snd c)) v c
      else if EqualFold k ''mentioned_users'' then
        asList (\<lambda>e. decodeStruct setMention e \<lparr>mu_ID = 0, mu_Email = ''''\<rparr>) (\<lambda>ms. (fst c, ms)) v
      else Some c)"

definition decodeComment :: "any option \<Rightarrow> (string \<times> commentMentionUser list) option" where
  "decodeComment body = Option.bind body (\<lambda>v. decodeStruct setComment v ('''', []))"

definition commentIDFromResponse :: "any option \<Rightarrow> string" where
  "commentIDFromResponse body =
     (case body of
        Some (Obj m) \<Rightarrow> poIDString (case find (\<lambda>e. EqualFold (fst e) ''id'') (rev m) of Some (_, v) \<Rightarrow> v | None \<Rightarrow> Null)
      | _ \<Rightarrow> '''')"

definition handlePostComment :: "handler \<Rightarrow> request \<Rightarrow> response prog" where
  "handlePostComment h r = withArak h (\<lambda>arak. withEmail r (\<lambda>email.
     case decodeComment (rq_Body r) of
       None \<Rightarrow> badRequest ''Inserisci un commento''
     | Some (text, mentions) \<Rightarrow>
         if TrimSpace text = '''' then badRequest ''Inserisci un commento''
         else do {
           let path = poPath (rq_ID r) @ ''/comment'';
           res \<leftarrow> upstreamBody arak (sendJSON POST path email (Obj [(''comment'', Str (TrimSpace text))]));
           case res of
             None \<Rightarrow> State_Monad.return unavailable
           | Some (status, hdr, b) \<Rightarrow>
               if status = 401 then State_Monad.return authFailed
               else if 400 \<le> status \<and> status \<le> 599 then State_Monad.return (writeUpstreamRejected status hdr b path '''')
               else do {
                 notifyRDACommentMentions h r (rq_ID r) (commentIDFromResponse (by_JSON b)) email (TrimSpace text) mentions;
                 State_Monad.return (copyReply status hdr b)
               }
         }))"

section \<open>Recipients\<close>

definition setRecipients :: "string \<Rightarrow> any \<Rightarrow> int list option \<Rightarrow> int list option option" where
  "setRecipients k v ids =
     (if EqualFold k ''recipient_ids'' then
        (case v of
           Null \<Rightarrow> Some None
         | Arr vs \<Rightarrow> map_option Some (those (map (\<lambda>e. asInt id e 0) vs))
         | _ \<Rightarrow> None)
      else Some ids)"

definition decodeRecipients :: "any option \<Rightarrow> int list option option" where
  "decodeRecipients body = Option.bind body (\<lambda>v. decodeStruct setRecipients v None)"

definition recipientsRequest :: "string \<Rightarrow> string \<Rightarrow> int list \<Rightarrow> call" where
  "recipientsRequest email poID ids =
     sendJSON PATCH (poPath poID @ ''/recipients'') email (Obj [(''recipient_ids'', Arr (map Integer ids))])"

definition handleUpdatePORecipients :: "handler \<Rightarrow> request \<Rightarrow> response prog" where
  "handleUpdatePORecipients h r = withArak h (\<lambda>arak. withEmail r (\<lambda>email.
     case positivePathID (rq_ID r) of
       None \<Rightarrow> badRequest ''Richiesta non valida''
     | Some poID \<Rightarrow>
       (case decodeRecipients (rq_Body r) of
         None \<Rightarrow> badRequest ''Richiesta non valida''
       | Some ids \<Rightarrow>
         (case validateUpdatePORecipients ids of
           Some e \<Rightarrow> badRequest e
         | None \<Rightarrow>
           do {
             res \<leftarrow> upstreamBody arak (recipientsRequest email poID (case ids of Some is \<Rightarrow> is | None \<Rightarrow> []));
             State_Monad.return
               (case res of
                  None \<Rightarrow> unavailable
                | Some (status, hdr, b) \<Rightarrow>
                    if successful status then copiedUnsized status hdr (Copied b)
                    else writeUpstreamRejected status hdr b (poPath poID @ ''/recipients'') '''')
           }))))"


end
