(* ===== verification/RdaClone.thy ===== *)
theory RdaClone
  imports RdaEdit
begin

text \<open>
  The duplication of a purchase request (\<open>rda/clone.go\<close>): a new draft with the fields of the source,
  then its rows one by one, then its recipients; what cannot be copied becomes a warning.
\<close>

record clonePORequest =
  cp_BudgetID :: int
  cp_CostCenter :: string
  cp_BudgetUserID :: int
  cp_IncludeRows :: "bool option"
  cp_IncludeRecipients :: "bool option"
  cp_IncludeOfferFields :: bool

definition includeRows :: "clonePORequest \<Rightarrow> bool" where
  "includeRows req = (case cp_IncludeRows req of None \<Rightarrow> True | Some b \<Rightarrow> b)"

definition includeRecipients :: "clonePORequest \<Rightarrow> bool" where
  "includeRecipients req = (case cp_IncludeRecipients req of None \<Rightarrow> True | Some b \<Rightarrow> b)"

definition asBool :: "(bool \<Rightarrow> 'r) \<Rightarrow> any \<Rightarrow> 'r \<Rightarrow> 'r option" where
  "asBool upd v r = (case v of Bool b \<Rightarrow> Some (upd b) | Null \<Rightarrow> Some r | _ \<Rightarrow> None)"

definition setClone :: "string \<Rightarrow> any \<Rightarrow> clonePORequest \<Rightarrow> clonePORequest option" where
  "setClone k v r =
     (if EqualFold k ''budget_id'' then asInt (\<lambda>i. r\<lparr>cp_BudgetID := i\<rparr>) v r
      else if EqualFold k ''cost_center'' then asString (\<lambda>s. r\<lparr>cp_CostCenter := s\<rparr>) v r
      else if EqualFold k ''budget_user_id'' then asInt (\<lambda>i. r\<lparr>cp_BudgetUserID := i\<rparr>) v r
      else if EqualFold k ''include_rows'' then asBool (\<lambda>b. r\<lparr>cp_IncludeRows := Some b\<rparr>) v (r\<lparr>cp_IncludeRows := None\<rparr>)
      else if EqualFold k ''include_recipients'' then
        asBool (\<lambda>b. r\<lparr>cp_IncludeRecipients := Some b\<rparr>) v (r\<lparr>cp_IncludeRecipients := None\<rparr>)
      else if EqualFold k ''include_offer_fields'' then asBool (\<lambda>b. r\<lparr>cp_IncludeOfferFields := b\<rparr>) v r
      else Some r)"

definition decodeClone :: "any option \<Rightarrow> clonePORequest option" where
  "decodeClone body = Option.bind body (\<lambda>v. decodeStruct setClone v
     \<lparr>cp_BudgetID = 0, cp_CostCenter = '''', cp_BudgetUserID = 0, cp_IncludeRows = None, cp_IncludeRecipients = None,
      cp_IncludeOfferFields = False\<rparr>)"

definition validateClonePO :: "clonePORequest \<Rightarrow> string option" where
  "validateClonePO req =
     (if cp_BudgetID req \<le> 0 then Some ''Seleziona un budget''
      else if (TrimSpace (cp_CostCenter req) \<noteq> '''') = (0 < cp_BudgetUserID req)
      then Some ''Il budget deve indicare un solo centro di costo o utente'' else None)"

definition mergeCloneProvider :: "providerDetail \<Rightarrow> providerDetail \<Rightarrow> providerDetail" where
  "mergeCloneProvider source fetched =
     (let pick = (\<lambda>f. if TrimSpace (f fetched) = '''' then f source else f fetched)
      in fetched\<lparr>pr_ID := (if pr_ID fetched \<le> 0 then pr_ID source else pr_ID fetched),
                 pr_Language := pick pr_Language, pr_VATNumber := pick pr_VATNumber, pr_PostalCode := pick pr_PostalCode,
                 pr_CAP := pick pr_CAP,
                 pr_DefaultPaymentMethod := (case pr_DefaultPaymentMethod fetched of
                    None \<Rightarrow> pr_DefaultPaymentMethod source | Some v \<Rightarrow> Some v)\<rparr>)"

definition clonePOType :: "string \<Rightarrow> string" where
  "clonePOType value = (if ToUpper (TrimSpace value) = ''ECOMMERCE'' then ''ECOMMERCE'' else ''STANDARD'')"

text \<open>The part of a date before the time.\<close>

definition cloneDate :: "string \<Rightarrow> string" where
  "cloneDate value =
     (let v = TrimSpace value; day = takeWhile (\<lambda>c. c \<noteq> CHR ''T'') v
      in if v = '''' then ''''
         else if day \<noteq> v \<and> day \<noteq> '''' then day
         else if 10 < length v then take 10 v else v)"

definition fallbackWarning :: string where
  "fallbackWarning = ''Metodo di pagamento sorgente non piu valido: e stato impostato il metodo predefinito disponibile.''"

text \<open>The method of the source if it is still valid, else the default one.\<close>

definition clonePaymentMethod :: "store \<Rightarrow> event list \<Rightarrow> poDetail \<Rightarrow> providerDetail \<Rightarrow> paymentVerdict + string \<times> string list" where
  "clonePaymentMethod db es source provider =
     (case resolvePaymentMethod db es (poPaymentMethodCode source) provider of
        None \<Rightarrow> Inl PaymentDbError
      | Some (method, providerDefault) \<Rightarrow>
          (case validateEffectivePaymentMethod db es method providerDefault of
             PaymentOK \<Rightarrow> Inr (method, [])
           | PaymentNotAllowed \<Rightarrow>
               (case resolvePaymentMethod db es '''' provider of
                  None \<Rightarrow> Inl PaymentDbError
                | Some (fallback, fallbackDefault) \<Rightarrow>
                    if fallback \<noteq> '''' \<and> validateEffectivePaymentMethod db es fallback fallbackDefault = PaymentOK
                    then Inr (fallback, [fallbackWarning]) else Inl PaymentNotAllowed)
           | verdict \<Rightarrow> Inl verdict))"

definition cloneRequest :: "clonePORequest \<Rightarrow> poDetail \<Rightarrow> string \<Rightarrow> string \<Rightarrow> createPORequest" where
  "cloneRequest req source currency method =
     \<lparr>cr_Type = clonePOType (po_Type source), cr_BudgetID = cp_BudgetID req, cr_CostCenter = TrimSpace (cp_CostCenter req),
      cr_BudgetUserID = cp_BudgetUserID req, cr_ProviderID = pr_ID (po_Provider source), cr_PaymentMethod = method,
      cr_Currency = currency, cr_Project = TrimSpace (po_Project source), cr_Object = TrimSpace (po_Object source),
      cr_Description = TrimSpace (po_Description source), cr_Note = TrimSpace (po_Note source),
      cr_ProviderOfferCode = (if cp_IncludeOfferFields req then TrimSpace (po_ProviderOfferCode source) else ''''),
      cr_ProviderOfferDate = (if cp_IncludeOfferFields req then cloneDate (po_ProviderOfferDate source) else '''')\<rparr>"

datatype cloneError = ClonePayment paymentVerdict | CloneInvalid string

definition currencyWarning :: string where
  "currencyWarning = ''Valuta sorgente non valida: la nuova bozza usa EUR.''"

definition buildCloneCreateBody :: "store \<Rightarrow> event list \<Rightarrow> clonePORequest \<Rightarrow> poDetail \<Rightarrow> providerDetail \<Rightarrow> cloneError + fields \<times> string list" where
  "buildCloneCreateBody db es req source provider =
     (let (currency, warnings) = (case createPOCurrency (po_Currency source) of
            Some c \<Rightarrow> (c, []) | None \<Rightarrow> (defaultPOCurrency, [currencyWarning]))
      in case clonePaymentMethod db es source provider of
           Inl e \<Rightarrow> Inl (ClonePayment e)
         | Inr (method, paymentWarnings) \<Rightarrow>
             (let createReq = cloneRequest req source currency method
              in case validateCreatePO createReq of
                   Some e \<Rightarrow> Inl (CloneInvalid e)
                 | None \<Rightarrow> Inr (createBody createReq currency method provider, warnings @ paymentWarnings)))"

definition poIDInt64FromResponse :: "any option \<Rightarrow> int option" where
  "poIDInt64FromResponse body =
     (case body of None \<Rightarrow> None | Some (Obj m) \<Rightarrow> int64FromAny (get m ''id'') | Some v \<Rightarrow> int64FromAny v)"

section \<open>Rows and recipients\<close>

definition rowCopied :: "(int \<times> header \<times> content) option \<Rightarrow> bool" where
  "rowCopied res = (case res of Some (status, _, _) \<Rightarrow> successful status | None \<Rightarrow> False)"

text \<open>The rows in order: how many were copied and how many skipped.\<close>

fun copyLoop :: "(event list \<Rightarrow> call \<Rightarrow> reply) \<Rightarrow> string \<Rightarrow> string \<Rightarrow> nat \<times> nat \<Rightarrow> raw list \<Rightarrow> (nat \<times> nat) prog" where
  "copyLoop arak email newPOID counts [] = State_Monad.return counts"
| "copyLoop arak email newPOID (copied, skipped) (r # rows) =
     (case cloneRowPayloadFromSource r of
        None \<Rightarrow> copyLoop arak email newPOID (copied, skipped + 1) rows
      | Some payload \<Rightarrow>
          do {
            res \<leftarrow> upstreamBody arak (rowRequest email newPOID (buildRowCreateBody payload email));
            copyLoop arak email newPOID (if rowCopied res then (copied + 1, skipped) else (copied, skipped + 1)) rows
          })"

definition copyPORows :: "(event list \<Rightarrow> call \<Rightarrow> reply) \<Rightarrow> string \<Rightarrow> string \<Rightarrow> raw list \<Rightarrow> (nat \<times> nat \<times> string list) prog" where
  "copyPORows arak email newPOID rows =
     do {
       counts \<leftarrow> copyLoop arak email newPOID (0, 0) rows;
       State_Monad.return
         (case counts of (copied, skipped) \<Rightarrow>
            (copied, skipped,
             if skipped = 0 then []
             else [FormatInt (int skipped) @ '' righe non sono state copiate: verifica la nuova bozza.'']))
     }"

definition copyPORecipients :: "(event list \<Rightarrow> call \<Rightarrow> reply) \<Rightarrow> string \<Rightarrow> string \<Rightarrow> raw list \<Rightarrow> (nat \<times> string list) prog" where
  "copyPORecipients arak email newPOID recipients =
     (let ids = recipientIDsFromRaw recipients
      in if ids = [] then State_Monad.return (0, [])
         else do {
           res \<leftarrow> upstreamBody arak (recipientsRequest email newPOID ids);
           State_Monad.return
             (case res of
                None \<Rightarrow> (0, [''I destinatari non sono stati copiati: verifica la nuova bozza.''])
              | Some (status, _, _) \<Rightarrow>
                  if successful status then (length ids, [])
                  else (0, [''Alcuni destinatari non sono piu disponibili per il fornitore.'']))
         })"

definition cloneReport :: "int \<Rightarrow> nat \<Rightarrow> nat \<Rightarrow> nat \<Rightarrow> string list \<Rightarrow> response" where
  "cloneReport newPOID copied skipped recipients warnings =
     respond 200 (Obj [(''id'', Integer newPOID), (''copied_rows'', Integer (int copied)), (''skipped_rows'', Integer (int skipped)),
       (''copied_recipients'', Integer (int recipients)), (''warnings'', Arr (map Str warnings))])"

section \<open>The handler\<close>

text \<open>What follows the creation of the new draft.\<close>

definition copyInto :: "(event list \<Rightarrow> call \<Rightarrow> reply) \<Rightarrow> string \<Rightarrow> clonePORequest \<Rightarrow> poDetail \<Rightarrow> string list \<Rightarrow> int \<Rightarrow> response prog" where
  "copyInto arak email req source warnings newPOID =
     do {
       rows \<leftarrow> (if includeRows req then copyPORows arak email (FormatInt newPOID) (po_Rows source)
                 else State_Monad.return (0, 0, []));
       recipients \<leftarrow> (if includeRecipients req then copyPORecipients arak email (FormatInt newPOID) (po_Recipients source)
                       else State_Monad.return (0, []));
       State_Monad.return
         (case (rows, recipients) of ((copied, skipped, rowWarnings), (n, recipientWarnings)) \<Rightarrow>
            cloneReport newPOID copied skipped n (warnings @ rowWarnings @ recipientWarnings))
     }"

definition createClone :: "(event list \<Rightarrow> call \<Rightarrow> reply) \<Rightarrow> string \<Rightarrow> clonePORequest \<Rightarrow> poDetail \<Rightarrow> fields \<Rightarrow> string list \<Rightarrow> response prog" where
  "createClone arak email req source body warnings =
     do {
       res \<leftarrow> upstreamBody arak (sendJSON POST (arakRDARoot @ ''/po'') email (Obj body));
       case res of
         None \<Rightarrow> State_Monad.return unavailable
       | Some (status, hdr, b) \<Rightarrow>
           if status = 401 then State_Monad.return authFailed
           else if \<not> successful status then State_Monad.return (writeUpstreamRejected status hdr b (arakRDARoot @ ''/po'') '''')
           else case poIDInt64FromResponse (by_JSON b) of
             None \<Rightarrow> State_Monad.return
               (ErrorCode 502 ''Bozza duplicata non riapribile in questo momento'' ''UPSTREAM_UNAVAILABLE'')
           | Some newPOID \<Rightarrow> copyInto arak email req source warnings newPOID
     }"

definition handleClonePO :: "handler \<Rightarrow> request \<Rightarrow> response prog" where
  "handleClonePO h r = withArak h (\<lambda>arak. withEmail r (\<lambda>email.
     case positivePathID (rq_ID r) of
       None \<Rightarrow> badRequest ''Richiesta non valida''
     | Some sourceID \<Rightarrow>
       (case decodeClone (rq_Body r) of
         None \<Rightarrow> badRequest ''Richiesta non valida''
       | Some req \<Rightarrow>
         (case validateClonePO req of
           Some e \<Rightarrow> badRequest e
         | None \<Rightarrow>
           do {
             fetched \<leftarrow> fetchPODetail h arak email sourceID;
             case fetched of
               Inl e \<Rightarrow> State_Monad.return (handleFetchPOError e)
             | Inr source \<Rightarrow>
                 if pr_ID (po_Provider source) \<le> 0 then State_Monad.return
                   (ErrorCode 502 ''Richiesta sorgente non duplicabile in questo momento'' ''UPSTREAM_UNAVAILABLE'')
                 else withArakDB h (\<lambda>db.
                   do {
                     provider \<leftarrow> fetchProviderForCreate arak (pr_ID (po_Provider source));
                     es \<leftarrow> history;
                     case buildCloneCreateBody db es req source (mergeCloneProvider (po_Provider source) provider) of
                       Inl (ClonePayment PaymentNotAllowed) \<Rightarrow> badRequest ''Seleziona un metodo di pagamento valido''
                     | Inl (CloneInvalid e) \<Rightarrow> badRequest e
                     | Inl (ClonePayment _) \<Rightarrow> badRequest (st_ErrorText db)
                     | Inr (body, warnings) \<Rightarrow> createClone arak email req source body warnings
                   })
           }))))"

end
