(* ===== verification/RdaRoutes.thy ===== *)
theory RdaRoutes
  imports RdaClone
begin

text \<open>
  The routes of the purchase-request service (\<open>RegisterRoutes\<close> in \<open>rda/handler.go\<close>) and the rules
  by which the properties of its handlers are proved: what a program returns and what it adds to the
  history. The handlers of the catalogues (payment methods, articles, users' providers) and of the
  provider e-mail are not modelled and are not in the table.
\<close>

section \<open>Routes\<close>

type_synonym route = "verb \<times> string \<times> (handler \<Rightarrow> request \<Rightarrow> response prog)"

definition readRoutes :: "route list" where
  "readRoutes =
     [(GET, ''/rda/v1/me/permissions'', handlePermissions), (GET, ''/rda/v1/budgets'', handleBudgets),
      (GET, ''/rda/v1/users'', handleUsers), (GET, ''/rda/v1/pos'', handlePOList),
      (GET, ''/rda/v1/pos/inbox/level1-2'', handlePOInbox), (GET, ''/rda/v1/pos/inbox/leasing'', handlePOInbox),
      (GET, ''/rda/v1/pos/inbox/no-leasing'', handlePOInbox), (GET, ''/rda/v1/pos/inbox/payment-method'', handlePOInbox),
      (GET, ''/rda/v1/pos/inbox/budget-increment'', handlePOInbox), (GET, ''/rda/v1/pos/{id}'', handleGetPO),
      (GET, ''/rda/v1/pos/{id}/pdf'', handlePDF), (GET, ''/rda/v1/pos/{id}/attachments/{aid}'', handleDownloadAttachment),
      (GET, ''/rda/v1/pos/{id}/comments'', handleComments)]"

definition editRoutes :: "route list" where
  "editRoutes =
     [(POST, ''/rda/v1/pos'', handleCreatePO), (POST, ''/rda/v1/pos/{id}/clone'', handleClonePO),
      (PATCH, ''/rda/v1/pos/{id}'', handlePatchPO), (PATCH, ''/rda/v1/pos/{id}/recipients'', handleUpdatePORecipients),
      (DELETE, ''/rda/v1/pos/{id}'', handleDeletePO), (PATCH, ''/rda/v1/pos/{id}/payment-method'', handlePatchPaymentMethod),
      (POST, ''/rda/v1/pos/{id}/rows'', handleCreateRow), (PUT, ''/rda/v1/pos/{id}/rows/{rowId}'', handleReplaceRow),
      (DELETE, ''/rda/v1/pos/{id}/rows/{rowId}'', handleDeleteRow), (POST, ''/rda/v1/pos/{id}/attachments'', handleUploadAttachment),
      (DELETE, ''/rda/v1/pos/{id}/attachments/{aid}'', handleDeleteAttachment), (POST, ''/rda/v1/pos/{id}/comments'', handlePostComment)]"

text \<open>The transitions, by what follows the id of the request in their pattern: the identifiers of the actions.\<close>

definition transitionHandlers :: "(string \<times> (handler \<Rightarrow> request \<Rightarrow> response prog)) list" where
  "transitionHandlers =
     [(''submit'', handleSubmitPO), (''approve'', handleApprovePO), (''reject'', handleRejectPO),
      (''leasing/approve'', handlePermissionTransition permissionAFC ''/leasing/approve''),
      (''leasing/reject'', handlePermissionTransition permissionAFC ''/leasing/reject''),
      (''leasing/created'', handlePermissionTransition permissionAFC ''/leasing/created''),
      (''no-leasing/approve'', handlePermissionTransition permissionApproverNoLeasing ''/no-leasing/approve''),
      (''payment-method/approve'', handlePermissionTransition permissionAFC ''/payment-method/approve''),
      (''budget-increment/approve'', handleBudgetIncrement True), (''budget-increment/reject'', handleBudgetIncrement False),
      (''conformity/confirm'', handleStateTransition ''PENDING_VERIFICATION'' ''/confirm-conformity''),
      (''conformity/reject'', handleStateTransition ''PENDING_VERIFICATION'' ''/reject-conformity''),
      (''send-to-provider'', handleStateTransition ''PENDING_SEND'' ''/send-to-provider'')]"

definition transitionRoutes :: "route list" where
  "transitionRoutes = map (\<lambda>(i, f). (POST, ''/rda/v1/pos/{id}/'' @ i, f)) transitionHandlers"

definition routes :: "route list" where
  "routes = readRoutes @ editRoutes @ transitionRoutes"

section \<open>Runs\<close>

text \<open>From a history, a program appends events; its result and these events satisfy a condition.\<close>

definition yields :: "event list \<Rightarrow> 'a prog \<Rightarrow> ('a \<Rightarrow> event list \<Rightarrow> bool) \<Rightarrow> bool" where
  "yields es p Q \<longleftrightarrow> (\<exists>new. snd (run_state p es) = es @ new \<and> Q (fst (run_state p es)) new)"

named_theorems yields_intros

lemma yields_return [yields_intros]: "Q a [] \<Longrightarrow> yields es (State_Monad.return a) Q"
  by (simp add: yields_def)

lemma yields_bind [yields_intros]:
  assumes "yields es m (\<lambda>a n1. yields (es @ n1) (f a) (\<lambda>b n2. Q b (n1 @ n2)))"
  shows "yields es (State_Monad.bind m f) Q"
  using assms by (cases "run_state m es") (auto simp: yields_def)

lemma yields_ask [yields_intros]: "Q (arak es c) [Call c] \<Longrightarrow> yields es (ask arak c) Q"
  by (simp add: yields_def)

lemma yields_emit [yields_intros]: "Q () [e] \<Longrightarrow> yields es (emit e) Q"
  by (simp add: yields_def)

lemma yields_emitAll [yields_intros]: "Q () evs \<Longrightarrow> yields es (emitAll evs) Q"
  by (simp add: yields_def)

lemma yields_history [yields_intros]: "Q es [] \<Longrightarrow> yields es history Q"
  by (simp add: yields_def)

lemma yields_mono: "yields es p Q \<Longrightarrow> (\<And>a n. Q a n \<Longrightarrow> R a n) \<Longrightarrow> yields es p R"
  by (auto simp: yields_def)

text \<open>The events of a run, and the conclusion of a condition on them.\<close>

definition effects :: "'a prog \<Rightarrow> event list \<Rightarrow> event list" where
  "effects p es = drop (length es) (snd (run_state p es))"

lemma yields_effects: "yields es p Q \<Longrightarrow> Q (fst (run_state p es)) (effects p es)"
  by (auto simp: yields_def effects_def)

lemma effects_yields:
  assumes "yields es p (\<lambda>_ _. True)" "Q (fst (run_state p es)) (effects p es)" shows "yields es p Q"
  using assms by (auto simp: yields_def effects_def)

section \<open>Parts shared by the handlers\<close>

lemma yields_upstreamBody [yields_intros]:
  "Q (case arak es c of Failed \<Rightarrow> None | Reply status h b \<Rightarrow> if by_OK b then Some (status, h, b) else None) [Call c] \<Longrightarrow>
   yields es (upstreamBody arak c) Q"
  unfolding upstreamBody_def by (intro yields_intros) simp

text \<open>Upstream accepted the call and its body could be read.\<close>

definition accepted :: "reply \<Rightarrow> bool" where
  "accepted r = (case r of Failed \<Rightarrow> False | Reply status _ b \<Rightarrow> \<not> (400 \<le> status \<and> status \<le> 599) \<and> by_OK b)"

definition refusal :: "call \<Rightarrow> reply \<Rightarrow> response" where
  "refusal c r =
     (case r of Failed \<Rightarrow> unavailable
      | Reply status h b \<Rightarrow> if status = 401 then authFailed
          else if 400 \<le> status \<and> status \<le> 599 then writeUpstreamRejected status h b (ca_Path c) (ca_Query c) else unavailable)"

definition passed :: "reply \<Rightarrow> response" where
  "passed r = (case r of Reply status h b \<Rightarrow> copyReply status h b | Failed \<Rightarrow> unavailable)"

lemma yields_forward:
  assumes "\<not> accepted (arak es c) \<Longrightarrow> Q (refusal c (arak es c)) [Call c]"
    "accepted (arak es c) \<Longrightarrow> yields (es @ [Call c]) after (\<lambda>_ n. Q (passed (arak es c)) (Call c # n))"
  shows "yields es (forwardArakAfterSuccess arak c after) Q"
proof (cases "arak es c")
  case Failed
  then show ?thesis using assms(1)
    by (auto simp: forwardArakAfterSuccess_def accepted_def refusal_def intro!: yields_intros)
next
  case (Reply status h b)
  show ?thesis
  proof (cases "accepted (arak es c)")
    case True
    then have "status \<noteq> 401" "\<not> (400 \<le> status \<and> status \<le> 599)" "by_OK b" using Reply by (auto simp: accepted_def)
    then show ?thesis using assms(2)[OF True] Reply
      by (auto simp: forwardArakAfterSuccess_def passed_def intro!: yields_intros elim!: yields_mono)
  next
    case False
    then show ?thesis using assms(1)[OF False] Reply
      by (auto simp: forwardArakAfterSuccess_def accepted_def refusal_def intro!: yields_intros)
  qed
qed

lemma yields_forward_plain [yields_intros]:
  assumes "Q (if accepted (arak es c) then passed (arak es c) else refusal c (arak es c)) [Call c]"
  shows "yields es (forwardArak arak c) Q"
  unfolding forwardArak_def using assms by (intro yields_forward yields_return) (simp_all split: if_splits)

text \<open>The outcome of a fetch.\<close>

definition fetched :: "handler \<Rightarrow> (event list \<Rightarrow> call \<Rightarrow> reply) \<Rightarrow> event list \<Rightarrow> string \<Rightarrow> string \<Rightarrow> fetchError + poDetail" where
  "fetched h arak es email i = fst (run_state (fetchPODetail h arak email i) es)"

lemma yields_fetchPODetail [yields_intros]:
  assumes "Q (fetched h arak es email i) [Call (getPO email i '''')]"
  shows "yields es (fetchPODetail h arak email i) Q"
proof -
  have "yields es (fetchPODetail h arak email i) (\<lambda>_ n. n = [Call (getPO email i '''')])"
    unfolding fetchPODetail_def by (auto intro!: yields_intros split: reply.split)
  then show ?thesis using assms by (auto simp: yields_def fetched_def)
qed

definition fetchedForNotifications :: "handler \<Rightarrow> event list \<Rightarrow> string \<Rightarrow> string \<Rightarrow> poDetail option" where
  "fetchedForNotifications h es email i = fst (run_state (fetchPODetailForNotifications h email i) es)"

lemma yields_fetchForNotifications:
  assumes "ha_arak h = Some arak" "Q (fetchedForNotifications h es email i) [Call (getPO email i '''')]"
  shows "yields es (fetchPODetailForNotifications h email i) Q"
proof -
  have "yields es (fetchPODetailForNotifications h email i) (\<lambda>_ n. n = [Call (getPO email i '''')])"
    unfolding fetchPODetailForNotifications_def using assms(1) by (auto intro!: yields_intros)
  then show ?thesis using assms(2) by (auto simp: yields_def fetchedForNotifications_def)
qed

lemma yields_loadPOForWrite:
  assumes "currentEmail r = None \<Longrightarrow> Q (Error 401 ''Accesso richiesto'') []"
    "\<And>email e. currentEmail r = Some email \<Longrightarrow> fetched h arak es email (rq_ID r) = Inl e \<Longrightarrow>
       Q (handleFetchPOError e) [Call (getPO email (rq_ID r) '''')]"
    "\<And>email po. currentEmail r = Some email \<Longrightarrow> fetched h arak es email (rq_ID r) = Inr po \<Longrightarrow>
       yields (es @ [Call (getPO email (rq_ID r) '''')]) (k email po) (\<lambda>a n. Q a (Call (getPO email (rq_ID r) '''') # n))"
  shows "yields es (loadPOForWrite h arak r k) Q"
  unfolding loadPOForWrite_def withEmail_def
  using assms by (auto split: option.split sum.split intro!: yields_intros)

lemma yields_loadPermissions:
  assumes "\<And>p. permissionsForEmail h es email = Inr p \<Longrightarrow> yields es (k p) Q"
    "permissionsForEmail h es email = Inl PermissionsUnavailable \<Longrightarrow>
       Q (ErrorCode 503 ''Le approvazioni non sono disponibili in questo momento'' ''DEPENDENCY_UNAVAILABLE'') []"
    "permissionsForEmail h es email = Inl PermissionsFailed \<Longrightarrow>
       Q (Error 500 ''Le approvazioni non sono disponibili in questo momento'') []"
  shows "yields es (loadPermissionsForRequest h email k) Q"
  unfolding loadPermissionsForRequest_def
  by (intro yields_intros) (use assms in \<open>auto split: sum.split permissionError.split intro!: yields_intros elim: yields_mono\<close>)

end
