(* ===== verification/RdaWorkflow.thy ===== *)
theory RdaWorkflow
  imports RdaRoutes
begin

text \<open>
  The workflow of a purchase request as a whole: the page offers actions (\<open>buildPOActionModel\<close>), the
  handlers check them again. What the page enables is what the handlers forward, except that the
  transitions guarded by a permission alone do not look at the state.
\<close>

section \<open>Writes\<close>

text \<open>The events that change the request: every upstream call that is not a read, and the direct deletion.\<close>

definition mutating :: "event \<Rightarrow> bool" where
  "mutating e \<longleftrightarrow> (case e of Call c \<Rightarrow> ca_Method c \<noteq> GET | DirectDelete _ \<Rightarrow> True | _ \<Rightarrow> False)"

definition writes :: "event list \<Rightarrow> event list" where
  "writes evs = filter mutating evs"

lemma writes_simps [simp]:
  "writes [] = []" "writes (e # n) = (if mutating e then e # writes n else writes n)" "writes (m @ n) = writes m @ writes n"
  by (simp_all add: writes_def)

lemma write_simps [simp]:
  "mutating (Call c) \<longleftrightarrow> ca_Method c \<noteq> GET" "mutating (DirectDelete i)" "\<not> mutating (Resolve a b d)" "\<not> mutating (Notify x)"
  by (simp_all add: mutating_def)

lemma getPO_read [simp]: "ca_Method (getPO email i q) = GET"
  by (simp add: getPO_def)

lemma yields_True: "yields es p (\<lambda>_ n. writes n = []) \<Longrightarrow> yields es p (\<lambda>_ _. True)"
  by (erule yields_mono) simp

lemma after_reads: "yields es (afterRDAWorkflowTransition h r email i prev) (\<lambda>_ n. writes n = [])"
proof (cases "ha_arak h")
  case None
  then show ?thesis
    by (auto simp: afterRDAWorkflowTransition_def fetchPODetailForNotifications_def notifyRDAApprovalRequested_def intro!: yields_intros)
next
  case (Some arak)
  then show ?thesis
    by (auto simp: afterRDAWorkflowTransition_def notifyRDAApprovalRequested_def
        intro!: yields_intros yields_fetchForNotifications[OF Some] split: option.split)
qed

lemma deleteNotifications_reads: "yields es (resolveRDADeleteNotifications h i) (\<lambda>_ n. writes n = [])"
  by (auto simp: resolveRDADeleteNotifications_def intro!: yields_intros)

lemma forward_writes:
  assumes "ca_Method c \<noteq> GET" "\<And>es. yields es after (\<lambda>_ n. writes n = [])"
  shows "yields es (forwardArakAfterSuccess arak c after) (\<lambda>_ n. writes n = [Call c])"
  by (rule yields_forward) (use assms in \<open>auto elim!: yields_mono\<close>)

lemma post_not_get [simp]: "ca_Method (postTransition email i s) \<noteq> GET"
  by (simp add: postTransition_def)

lemma forward_transition: "yields es (forwardArakAfterSuccess arak (postTransition email i s) (afterRDAWorkflowTransition h r e j prev))
    (\<lambda>_ n. writes n = [Call (postTransition email i s)])"
  by (rule forward_writes) (auto intro: after_reads)

section \<open>The actions the page enables\<close>

definition enabled_ids :: "(poActionMode \<times> poAction list) list \<Rightarrow> string list" where
  "enabled_ids mas = map ac_ID (filter (\<lambda>a. \<not> ac_Disabled a) (concat (map snd mas)))"

text \<open>The page enables the action of this identifier.\<close>

definition offered :: "poActionModel \<Rightarrow> string \<Rightarrow> bool" where
  "offered m i \<longleftrightarrow> list_ex (\<lambda>a. ac_ID a = i \<and> \<not> ac_Disabled a) (am_Actions m)"

lemma offered_enabled: "offered (buildPOActionModel po p st email t) i \<longleftrightarrow> i \<in> set (enabled_ids (stateModes po p st email t))"
  by (auto simp: offered_def built_model enabled_ids_def list_ex_iff)

lemma enabled_tables:
  "enabled_ids (draftModes po t) = (if fst (submitDisabledReason po t) then [] else [''submit''])"
  "enabled_ids (approverModes po e u) = (if e then [''approve'', ''reject''] else [])"
  "enabled_ids requesterPaymentModes = []"
  "enabled_ids (afcPaymentModes e u) = (if e then [''payment-method/approve'', ''reject''] else [])"
  "enabled_ids (leasingModes e u) = (if e then [''leasing/approve'', ''leasing/reject''] else [])"
  "enabled_ids (leasingCreatedModes e u) = (if e then [''leasing/created''] else [])"
  "enabled_ids (noLeasingModes e u) = (if e then [''no-leasing/approve'', ''reject''] else [])"
  "enabled_ids (extraBudgetModes e u) = (if e then [''budget-increment/approve'', ''budget-increment/reject''] else [])"
  "enabled_ids sendModes = [''send-to-provider'']"
  "enabled_ids conformityModes = [''conformity/confirm'', ''conformity/reject'']"
  "enabled_ids [] = []"
  by (simp_all add: enabled_ids_def table_simps case_prod_beta)

lemma enabled_append: "enabled_ids (a @ b) = enabled_ids a @ enabled_ids b"
  by (simp add: enabled_ids_def)

lemma enabled_if: "enabled_ids (if b then x else y) = (if b then enabled_ids x else enabled_ids y)"
  by simp

text \<open>The enabled actions by state, with the permissions available.\<close>

definition enabledActions :: "poDetail \<Rightarrow> rdaPermissions \<Rightarrow> string \<Rightarrow> number \<Rightarrow> string list" where
  "enabledActions po p email t =
     (let state = po_State po
      in if state = ''DRAFT'' then (if isRequester po email then if fst (submitDisabledReason po t) then [] else [''submit''] else [])
         else if state = ''PENDING_APPROVAL'' then
           (if isApprover po email then if has p permissionApprover then [''approve'', ''reject''] else [] else [])
         else if state = ''PENDING_APPROVAL_PAYMENT_METHOD'' then
           (if has p permissionAFC then [''payment-method/approve'', ''reject''] else [])
         else if state = ''PENDING_LEASING'' then (if has p permissionAFC then [''leasing/approve'', ''leasing/reject''] else [])
         else if state = ''PENDING_LEASING_ORDER_CREATION'' then (if has p permissionAFC then [''leasing/created''] else [])
         else if state = ''PENDING_APPROVAL_NO_LEASING'' then
           (if has p permissionApproverNoLeasing then [''no-leasing/approve'', ''reject''] else [])
         else if state = ''PENDING_BUDGET_INCREMENT'' then
           (if has p permissionExtraBudget then [''budget-increment/approve'', ''budget-increment/reject''] else [])
         else if state = ''PENDING_SEND'' then [''send-to-provider'']
         else if state = ''PENDING_VERIFICATION'' then [''conformity/confirm'', ''conformity/reject'']
         else [])"


lemma enabled_stateModes:
  "enabled_ids (stateModes po p poPermissionAvailable email t) = enabledActions po p email t"
  unfolding stateModes_def Let_def enabled_if enabled_append enabled_tables enabledActions_def
  by (intro if_cong refl) simp_all

section \<open>What each handler forwards\<close>

text \<open>The upstream path of a transition, by its identifier.\<close>

definition upstreamSuffix :: "string \<Rightarrow> string" where
  "upstreamSuffix i =
     (if i = ''budget-increment/approve'' then ''/approve-budget-increment''
      else if i = ''budget-increment/reject'' then ''/reject-budget-increment''
      else if i = ''conformity/confirm'' then ''/confirm-conformity''
      else if i = ''conformity/reject'' then ''/reject-conformity''
      else ''/'' @ i)"

text \<open>Exactly one upstream write, a POST on the request.\<close>

definition forwards :: "string \<Rightarrow> string \<Rightarrow> event list \<Rightarrow> bool" where
  "forwards poID suffix n \<longleftrightarrow>
     (case writes n of [Call c] \<Rightarrow> ca_Method c = POST \<and> ca_Path c = poPath poID @ suffix | _ \<Rightarrow> False)"

text \<open>A situation: the service is configured, the user known, the request fetched, the rights read.\<close>

definition situation :: "handler \<Rightarrow> request \<Rightarrow> event list \<Rightarrow> string \<Rightarrow> poDetail \<Rightarrow> rdaPermissions \<Rightarrow> bool" where
  "situation h r es email po p \<longleftrightarrow>
     currentEmail r = Some email \<and>
     (case ha_arak h of None \<Rightarrow> False | Some arak \<Rightarrow> fetched h arak es email (rq_ID r) = Inr po) \<and>
     permissionsForEmail h es email = Inr p \<and>
     permissionsForEmail h (es @ [Call (getPO email (rq_ID r) '''')]) email = Inr p"

lemma situationD:
  assumes "situation h r es email po p"
  obtains arak where "currentEmail r = Some email" "ha_arak h = Some arak" "fetched h arak es email (rq_ID r) = Inr po"
    "permissionsForEmail h es email = Inr p"
    "permissionsForEmail h (es @ [Call (getPO email (rq_ID r) '''')]) email = Inr p"
  using assms by (auto simp: situation_def split: option.splits)

lemma submit_forwards:
  assumes "situation h r es email po p"
  shows "yields es (handleSubmitPO h r) (\<lambda>_ n. writes n =
     (if po_State po = ''DRAFT'' \<and> isRequester po email \<and> \<not> fst (submitDisabledReason po (ha_quoteThreshold h))
      then [Call (postTransition email (rq_ID r) ''/submit'')] else []))"
  using assms
  by (elim situationD)
    (auto simp: handleSubmitPO_def withArak_def forbidden_def submitDisabledReason_def
      intro!: yields_loadPOForWrite yields_return yields_mono[OF forward_transition] split: if_splits)

lemma approve_forwards:
  assumes "situation h r es email po p"
  shows "yields es (handleApprovePO h r) (\<lambda>_ n. writes n =
     (if po_State po = ''PENDING_APPROVAL'' \<and> isApprover po email \<and> has p permissionApprover
      then [Call (postTransition email (rq_ID r) ''/approve'')] else []))"
  using assms
  by (elim situationD)
    (auto simp: handleApprovePO_def withArak_def forbidden_def
      intro!: yields_loadPOForWrite yields_loadPermissions yields_return yields_mono[OF forward_transition] split: if_splits)

lemma reject_forwards:
  assumes "situation h r es email po p"
  shows "yields es (handleRejectPO h r) (\<lambda>_ n. writes n =
     (case rejectGuard po email of
        Inr flag \<Rightarrow> if has p flag then [Call (postTransition email (rq_ID r) ''/reject'')] else []
      | Inl _ \<Rightarrow> []))"
  using assms
  by (elim situationD)
    (auto simp: handleRejectPO_def withArak_def forbidden_def
      intro!: yields_loadPOForWrite yields_loadPermissions yields_return yields_mono[OF forward_transition] split: if_splits sum.splits)

lemma state_forwards:
  assumes "situation h r es email po p"
  shows "yields es (handleStateTransition state suffix h r) (\<lambda>_ n. writes n =
     (if po_State po = state then [Call (postTransition email (rq_ID r) suffix)] else []))"
  using assms
  by (elim situationD)
    (auto simp: handleStateTransition_def withArak_def
      intro!: yields_loadPOForWrite yields_return yields_mono[OF forward_transition] split: if_splits)

text \<open>These do not depend on the request.\<close>

lemma permission_forwards:
  assumes "ha_arak h = Some arak" "currentEmail r = Some email" "permissionsForEmail h es email = Inr p"
  shows "yields es (handlePermissionTransition flag suffix h r) (\<lambda>_ n. writes n =
     (if has p flag then [Call (postTransition email (rq_ID r) suffix)] else []))"
  using assms
  by (auto simp: handlePermissionTransition_def withArak_def withEmail_def forbidden_def
      intro!: yields_loadPermissions yields_intros yields_fetchForNotifications[OF assms(1)] yields_mono[OF forward_transition])

definition budgetCall :: "bool \<Rightarrow> request \<Rightarrow> string \<Rightarrow> call" where
  "budgetCall approve r email =
     \<lparr>ca_Method = POST, ca_Path = poPath (rq_ID r) @ (if approve then ''/approve-budget-increment'' else ''/reject-budget-increment''),
      ca_Query = '''', ca_Headers = requesterHeaders email @ jsonHeaders, ca_Body = RawBody (rq_RawBody r)\<rparr>"

lemma budget_forwards:
  assumes "ha_arak h = Some arak" "currentEmail r = Some email" "permissionsForEmail h es email = Inr p"
  shows "yields es (handleBudgetIncrement approve h r) (\<lambda>_ n. writes n =
     (if has p permissionExtraBudget then [Call (budgetCall approve r email)] else []))"
proof -
  have f: "yields es' (forwardArakAfterSuccess arak (budgetCall approve r email) (afterRDAWorkflowTransition h r email (rq_ID r) prev))
      (\<lambda>_ n. writes n = [Call (budgetCall approve r email)])" for es' prev
    by (rule forward_writes) (simp_all add: budgetCall_def after_reads)
  show ?thesis
    using assms unfolding handleBudgetIncrement_def budgetCall_def[symmetric]
    by (auto simp: withArak_def withEmail_def forbidden_def
        intro!: yields_loadPermissions yields_intros yields_fetchForNotifications[OF assms(1)] yields_mono[OF f])
qed

section \<open>Properties\<close>

lemma handler_of:
  "map_of transitionHandlers ''submit'' = Some handleSubmitPO" "map_of transitionHandlers ''approve'' = Some handleApprovePO"
  "map_of transitionHandlers ''reject'' = Some handleRejectPO"
  "map_of transitionHandlers ''leasing/approve'' = Some (handlePermissionTransition permissionAFC ''/leasing/approve'')"
  "map_of transitionHandlers ''leasing/reject'' = Some (handlePermissionTransition permissionAFC ''/leasing/reject'')"
  "map_of transitionHandlers ''leasing/created'' = Some (handlePermissionTransition permissionAFC ''/leasing/created'')"
  "map_of transitionHandlers ''no-leasing/approve'' = Some (handlePermissionTransition permissionApproverNoLeasing ''/no-leasing/approve'')"
  "map_of transitionHandlers ''payment-method/approve'' = Some (handlePermissionTransition permissionAFC ''/payment-method/approve'')"
  "map_of transitionHandlers ''budget-increment/approve'' = Some (handleBudgetIncrement True)"
  "map_of transitionHandlers ''budget-increment/reject'' = Some (handleBudgetIncrement False)"
  "map_of transitionHandlers ''conformity/confirm'' = Some (handleStateTransition ''PENDING_VERIFICATION'' ''/confirm-conformity'')"
  "map_of transitionHandlers ''conformity/reject'' = Some (handleStateTransition ''PENDING_VERIFICATION'' ''/reject-conformity'')"
  "map_of transitionHandlers ''send-to-provider'' = Some (handleStateTransition ''PENDING_SEND'' ''/send-to-provider'')"
  by (simp_all add: transitionHandlers_def)

lemma if_elim: "(if b then P else Q) \<Longrightarrow> (b \<Longrightarrow> P \<Longrightarrow> R) \<Longrightarrow> (\<not> b \<Longrightarrow> Q \<Longrightarrow> R) \<Longrightarrow> R"
  by (cases b) auto

lemma enabledActions_cases:
  assumes "i \<in> set (enabledActions po p email t)"
  obtains "po_State po = ''DRAFT''" "isRequester po email" "\<not> fst (submitDisabledReason po t)" "i \<in> {''submit''}"
    | "po_State po = ''PENDING_APPROVAL''" "isApprover po email" "has p permissionApprover" "i \<in> {''approve'', ''reject''}"
    | "po_State po = ''PENDING_APPROVAL_PAYMENT_METHOD''" "has p permissionAFC" "i \<in> {''payment-method/approve'', ''reject''}"
    | "has p permissionAFC" "i \<in> {''leasing/approve'', ''leasing/reject''}"
    | "has p permissionAFC" "i \<in> {''leasing/created''}"
    | "po_State po = ''PENDING_APPROVAL_NO_LEASING''" "has p permissionApproverNoLeasing" "i \<in> {''no-leasing/approve'', ''reject''}"
    | "has p permissionExtraBudget" "i \<in> {''budget-increment/approve'', ''budget-increment/reject''}"
    | "po_State po = ''PENDING_SEND''" "i \<in> {''send-to-provider''}"
    | "po_State po = ''PENDING_VERIFICATION''" "i \<in> {''conformity/confirm'', ''conformity/reject''}"
proof -
  have m: "x \<in> set (if b then l else l') \<longleftrightarrow> (if b then x \<in> set l else x \<in> set l')" for x :: string and b l l'
    by simp
  show thesis
    using assms unfolding enabledActions_def Let_def m list.set(2) list.set(1)
    apply (elim if_elim emptyE)
    subgoal by (rule that(1))
    subgoal by (rule that(2))
    subgoal by (rule that(3))
    subgoal by (rule that(4))
    subgoal by (rule that(5))
    subgoal by (rule that(6))
    subgoal by (rule that(7))
    subgoal by (rule that(8))
    subgoal by (rule that(9))
    done
qed

lemma forwards_post: "writes n = [Call (postTransition email i s)] \<Longrightarrow> forwards i s n"
  by (simp add: forwards_def postTransition_def)

lemma forwards_budget:
  "writes n = [Call (budgetCall b r email)] \<Longrightarrow>
   forwards (rq_ID r) (if b then ''/approve-budget-increment'' else ''/reject-budget-increment'') n"
  by (simp add: forwards_def budgetCall_def)

lemma suffixes:
  "upstreamSuffix ''submit'' = ''/submit''" "upstreamSuffix ''approve'' = ''/approve''" "upstreamSuffix ''reject'' = ''/reject''"
  "upstreamSuffix ''leasing/approve'' = ''/leasing/approve''" "upstreamSuffix ''leasing/reject'' = ''/leasing/reject''"
  "upstreamSuffix ''leasing/created'' = ''/leasing/created''" "upstreamSuffix ''no-leasing/approve'' = ''/no-leasing/approve''"
  "upstreamSuffix ''payment-method/approve'' = ''/payment-method/approve''"
  "upstreamSuffix ''budget-increment/approve'' = ''/approve-budget-increment''"
  "upstreamSuffix ''budget-increment/reject'' = ''/reject-budget-increment''"
  "upstreamSuffix ''conformity/confirm'' = ''/confirm-conformity''" "upstreamSuffix ''conformity/reject'' = ''/reject-conformity''"
  "upstreamSuffix ''send-to-provider'' = ''/send-to-provider''"
  by (simp_all add: upstreamSuffix_def)

text \<open>C2: Every action the page enables is accepted: its handler, run on the same request, user, rights and quote
  threshold, makes exactly one upstream write, the POST of that action on that request, whatever the
  upstream service answers.\<close>

theorem enabled_action_is_forwarded:
  assumes sit: "situation h r es email po p"
    and off: "offered (buildPOActionModel po p poPermissionAvailable email (ha_quoteThreshold h)) i"
  shows "case map_of transitionHandlers i of
           None \<Rightarrow> False
         | Some handle \<Rightarrow> forwards (rq_ID r) (upstreamSuffix i) (effects (handle h r) es)"
proof -
  obtain arak where w: "ha_arak h = Some arak" "currentEmail r = Some email" "permissionsForEmail h es email = Inr p"
    using sit by (rule situationD)
  note perm = yields_effects[OF permission_forwards[OF w]] and budget = yields_effects[OF budget_forwards[OF w]]
    and submit = yields_effects[OF submit_forwards[OF sit]] and approve = yields_effects[OF approve_forwards[OF sit]]
    and reject = yields_effects[OF reject_forwards[OF sit]] and state = yields_effects[OF state_forwards[OF sit]]
  have "i \<in> set (enabledActions po p email (ha_quoteThreshold h))" using off by (simp add: offered_enabled enabled_stateModes)
  then show ?thesis
  proof (cases rule: enabledActions_cases)
    case 1 then show ?thesis using submit by (simp add: handler_of suffixes forwards_post)
  next
    case 2 then show ?thesis using approve reject by (auto simp: handler_of suffixes forwards_post rejectGuard_def)
  next
    case 3 then show ?thesis using perm reject by (auto simp: handler_of suffixes forwards_post rejectGuard_def)
  next
    case 4 then show ?thesis using perm by (auto simp: handler_of suffixes forwards_post)
  next
    case 5 then show ?thesis using perm by (simp add: handler_of suffixes forwards_post)
  next
    case 6 then show ?thesis using perm reject by (auto simp: handler_of suffixes forwards_post rejectGuard_def)
  next
    case 7 then show ?thesis using budget forwards_budget[of _ True] forwards_budget[of _ False] by (auto simp: handler_of suffixes)
  next
    case 8 then show ?thesis using state by (simp add: handler_of suffixes forwards_post)
  next
    case 9 then show ?thesis using state by (auto simp: handler_of suffixes forwards_post)
  qed
qed

text \<open>The transitions whose handlers look at the state of the request.\<close>

definition stateChecked :: "string list" where
  "stateChecked = [''submit'', ''approve'', ''reject'', ''conformity/confirm'', ''conformity/reject'', ''send-to-provider'']"

lemma enabledActions_checked:
  "po_State po = ''DRAFT'' \<Longrightarrow> isRequester po email \<Longrightarrow> \<not> fst (submitDisabledReason po t) \<Longrightarrow>
     ''submit'' \<in> set (enabledActions po p email t)"
  "po_State po = ''PENDING_APPROVAL'' \<Longrightarrow> isApprover po email \<Longrightarrow> has p permissionApprover \<Longrightarrow>
     ''approve'' \<in> set (enabledActions po p email t)"
  "po_State po = ''PENDING_VERIFICATION'' \<Longrightarrow> ''conformity/confirm'' \<in> set (enabledActions po p email t)"
  "po_State po = ''PENDING_VERIFICATION'' \<Longrightarrow> ''conformity/reject'' \<in> set (enabledActions po p email t)"
  "po_State po = ''PENDING_SEND'' \<Longrightarrow> ''send-to-provider'' \<in> set (enabledActions po p email t)"
  by (simp_all add: enabledActions_def)

lemma enabledActions_reject:
  "rejectGuard po email = Inr flag \<Longrightarrow> has p flag \<Longrightarrow> ''reject'' \<in> set (enabledActions po p email t)"
  by (auto simp: rejectGuard_def enabledActions_def split: if_splits)

lemma checked_handlers:
  "filter (\<lambda>(j, handle). j \<in> set stateChecked) transitionHandlers =
     [(''submit'', handleSubmitPO), (''approve'', handleApprovePO), (''reject'', handleRejectPO),
      (''conformity/confirm'', handleStateTransition ''PENDING_VERIFICATION'' ''/confirm-conformity''),
      (''conformity/reject'', handleStateTransition ''PENDING_VERIFICATION'' ''/reject-conformity''),
      (''send-to-provider'', handleStateTransition ''PENDING_SEND'' ''/send-to-provider'')]"
  by (simp add: transitionHandlers_def stateChecked_def)

text \<open>C3: Submission, approval, rejection, the check of conformity and the sending write upstream only when the page
  enables them: the handler of an action that is not enabled for this request and user writes nothing.\<close>

theorem checked_transition_needs_offer:
  assumes sit: "situation h r es email po p"
    and off: "\<not> offered (buildPOActionModel po p poPermissionAvailable email (ha_quoteThreshold h)) i"
  shows "list_all (\<lambda>(j, handle). j = i \<longrightarrow> writes (effects (handle h r) es) = [])
           (filter (\<lambda>(j, handle). j \<in> set stateChecked) transitionHandlers)"
proof -
  note submit = yields_effects[OF submit_forwards[OF sit]] and approve = yields_effects[OF approve_forwards[OF sit]]
    and reject = yields_effects[OF reject_forwards[OF sit]] and state = yields_effects[OF state_forwards[OF sit]]
  let ?off = "\<lambda>j. j \<in> set (enabledActions po p email (ha_quoteThreshold h))"
  have off': "\<not> ?off i" using off by (simp add: offered_enabled enabled_stateModes)
  have a1: "writes (effects (handleSubmitPO h r) es) = []" if "\<not> ?off ''submit''"
    using submit that enabledActions_checked(1) by (auto split: if_splits)
  have a2: "writes (effects (handleApprovePO h r) es) = []" if "\<not> ?off ''approve''"
    using approve that enabledActions_checked(2) by (auto split: if_splits)
  have a3: "writes (effects (handleRejectPO h r) es) = []" if "\<not> ?off ''reject''"
    using reject that enabledActions_reject by (auto split: if_splits sum.splits)
  have a4: "writes (effects (handleStateTransition ''PENDING_VERIFICATION'' s h r) es) = []" if "\<not> ?off ''conformity/confirm''" for s
    using state that enabledActions_checked(3) by (auto split: if_splits)
  have a5: "writes (effects (handleStateTransition ''PENDING_VERIFICATION'' s h r) es) = []" if "\<not> ?off ''conformity/reject''" for s
    using state that enabledActions_checked(4) by (auto split: if_splits)
  have a6: "writes (effects (handleStateTransition ''PENDING_SEND'' s h r) es) = []" if "\<not> ?off ''send-to-provider''" for s
    using state that enabledActions_checked(5) by (auto split: if_splits)
  show ?thesis
    unfolding checked_handlers list.pred_inject prod.case using off'
    apply (intro conjI impI list.pred_inject(1))
    subgoal by (rule a1, hypsubst, assumption)
    subgoal by (rule a2, hypsubst, assumption)
    subgoal by (rule a3, hypsubst, assumption)
    subgoal by (rule a4, hypsubst, assumption)
    subgoal by (rule a5, hypsubst, assumption)
    subgoal by (rule a6, hypsubst, assumption)
    done
qed

text \<open>The transitions of leasing, no leasing, payment method and budget are forwarded on the strength of the
  permission alone: with it the POST is sent whatever the state of the request, even when the request
  cannot be read; without it nothing is sent.\<close>

theorem permission_transitions_ignore_state:
  assumes "ha_arak h = Some arak" "currentEmail r = Some email" "permissionsForEmail h es email = Inr p"
  shows "list_all (\<lambda>(i, flag). case map_of transitionHandlers i of None \<Rightarrow> False | Some handle \<Rightarrow>
             if has p flag then forwards (rq_ID r) (upstreamSuffix i) (effects (handle h r) es)
             else writes (effects (handle h r) es) = [])
           [(''leasing/approve'', permissionAFC), (''leasing/reject'', permissionAFC), (''leasing/created'', permissionAFC),
            (''no-leasing/approve'', permissionApproverNoLeasing), (''payment-method/approve'', permissionAFC),
            (''budget-increment/approve'', permissionExtraBudget), (''budget-increment/reject'', permissionExtraBudget)]"
  using yields_effects[OF permission_forwards[OF assms]] yields_effects[OF budget_forwards[OF assms]]
    forwards_budget[of _ True] forwards_budget[of _ False]
  by (simp add: handler_of suffixes forwards_post)

section \<open>A service for the witnesses\<close>

text \<open>Upstream answers every call with the same detail; every user has every permission.\<close>

definition sampleContent :: "fields \<Rightarrow> content" where
  "sampleContent m = \<lparr>by_Text = ''{}'', by_JSON = Some (Obj m), by_OK = True\<rparr>"

definition sampleArak :: "fields \<Rightarrow> event list \<Rightarrow> call \<Rightarrow> reply" where
  "sampleArak m es c = Reply 200 jsonType (sampleContent m)"

definition allPermissions :: rdaPermissions where
  "allPermissions = \<lparr>pm_IsApprover = True, pm_IsAFC = True, pm_IsApproverNoLeasing = True, pm_IsApproverExtraBudget = True,
     pm_CanSeeAllPO = True, pm_SkipApproval = False\<rparr>"

definition sampleStore :: store where
  "sampleStore = \<lparr>st_Permissions = \<lambda>_ _. Row allPermissions, st_Economics = \<lambda>_ _. Some [], st_DefaultPayment = \<lambda>_. Row ''BB30'',
     st_PaymentMethod = \<lambda>_ c. Row \<lparr>pa_Code = c, pa_Description = c, pa_RDAAvailable = True\<rparr>, st_Delete = \<lambda>_ _. Some 1,
     st_Approvers = \<lambda>_ _. Some [], st_Mention = \<lambda>_ i e. Row (i, e, '''', ''''), st_ErrorText = ''''\<rparr>"

definition sampleHandler :: "fields \<Rightarrow> handler" where
  "sampleHandler m = \<lparr>ha_arak = Some (sampleArak m), ha_arakDB = Some sampleStore, ha_notifier = False, ha_quoteThreshold = Fin 3000,
     ha_notifySelfMentions = False, ha_rdaAppURL = '''', ha_staticDir = ''''\<rparr>"

definition sampleRequest :: "any option \<Rightarrow> request" where
  "sampleRequest body = \<lparr>rq_Claims = Some \<lparr>cl_Subject = ''s'', cl_Email = ''ada@cdlan.it''\<rparr>, rq_Path = '''', rq_ID = ''7'', rq_RowID = ''5'',
     rq_AID = ''3'', rq_Query = [], rq_RawQuery = '''', rq_Body = body, rq_RawBody = '''', rq_Upload = None, rq_AttachmentType = ''''\<rparr>"

abbreviation verificationDetail :: fields where
  "verificationDetail \<equiv> [(''state'', Str ''PENDING_VERIFICATION'')]"

lemma sample_email [simp]: "currentEmail (sampleRequest body) = Some ''ada@cdlan.it''"
  by (simp add: currentEmail_def sampleRequest_def TrimSpace_no_space is_space_def re_space_def)

lemma sample_id [simp]: "rq_ID (sampleRequest body) = ''7''"
  by (simp add: sampleRequest_def)

lemma sample_arak [simp]: "ha_arak (sampleHandler m) = Some (sampleArak m)"
  by (simp add: sampleHandler_def)

lemma sample_db [simp]: "ha_arakDB (sampleHandler m) = Some sampleStore"
  by (simp add: sampleHandler_def)

lemma sample_body [simp]: "rq_Body (sampleRequest body) = body"
  by (simp add: sampleRequest_def)

lemma sample_permissions [simp]: "permissionsForEmail (sampleHandler m) es email = Inr allPermissions"
  by (simp add: permissionsForEmail_def sampleHandler_def sampleStore_def)

lemma sample_fetched: "fetched (sampleHandler m) (sampleArak m) es email ''7'' =
    (case Option.bind (normalizePODetailRows (Some (Obj m)) (economicsMap [])) (decodePO False) of None \<Rightarrow> Inl OtherError | Some po \<Rightarrow> Inr po)"
proof -
  have "ParseInt (TrimSpace ''7'') = (7, True)" by code_simp
  then show ?thesis
    by (simp add: fetched_def fetchPODetail_def sampleArak_def sampleContent_def successful_def normalizedBody_def fetchPORowEconomics_def
        sampleHandler_def sampleStore_def)
qed

lemma verification_fetched:
  "fetched (sampleHandler verificationDetail) (sampleArak verificationDetail) es email ''7'' = Inr (noPO\<lparr>po_State := ''PENDING_VERIFICATION''\<rparr>)"
proof -
  have "decodePO False (Obj verificationDetail) = Some (noPO\<lparr>po_State := ''PENDING_VERIFICATION''\<rparr>)" by code_simp
  then show ?thesis by (simp add: sample_fetched normalizePODetailRows_def get_Cons)
qed

lemma verification_situation:
  "situation (sampleHandler verificationDetail) (sampleRequest body) [] ''ada@cdlan.it'' (noPO\<lparr>po_State := ''PENDING_VERIFICATION''\<rparr>) allPermissions"
  by (simp add: situation_def verification_fetched)

lemma verification_offers:
  "offered (buildPOActionModel (noPO\<lparr>po_State := ''PENDING_VERIFICATION''\<rparr>) p poPermissionAvailable email t) ''conformity/confirm''"
  "\<not> offered (buildPOActionModel (noPO\<lparr>po_State := ''PENDING_VERIFICATION''\<rparr>) p poPermissionAvailable email t) ''submit''"
  by (simp_all add: offered_enabled enabled_stateModes enabledActions_def)

theorem enabled_action_is_forwarded_witness:
  "forwards ''7'' ''/confirm-conformity'' (effects (handleStateTransition ''PENDING_VERIFICATION'' ''/confirm-conformity''
     (sampleHandler verificationDetail) (sampleRequest None)) [])"
  using enabled_action_is_forwarded[OF verification_situation[of None] verification_offers(1)]
  by (simp add: handler_of suffixes)

theorem checked_transition_needs_offer_witness:
  "writes (effects (handleSubmitPO (sampleHandler verificationDetail) (sampleRequest None)) []) = []"
  using checked_transition_needs_offer[OF verification_situation[of None] verification_offers(2)]
  by (simp add: checked_handlers)

theorem permission_transitions_ignore_state_witness:
  "forwards ''7'' ''/leasing/approve'' (effects (handlePermissionTransition permissionAFC ''/leasing/approve''
     (sampleHandler verificationDetail) (sampleRequest None)) [])"
  using permission_transitions_ignore_state[OF sample_arak[of verificationDetail] sample_email[of None] sample_permissions[of verificationDetail "[]"]]
  by (simp add: handler_of suffixes allPermissions_def has_def)


end
