(* ===== verification/RdaSafety.thy ===== *)
theory RdaSafety
  imports RdaWorkflow
begin

text \<open>
  What the writing handlers do to the upstream service and answer to the user, for every behaviour
  of the service: what is sent is valid, in which order, and how failures are reported.
\<close>

section \<open>Answers\<close>

lemma status_simps [simp]:
  "rs_Status (respond s v) = s" "rs_Status (Error s m) = s" "rs_Status (ErrorCode s m c) = s" "rs_Status InternalError = 500"
  "rs_Status unavailable = 502" "rs_Status authFailed = 502" "rs_Status (copyReply s h b) = s" "rs_Status (copiedUnsized s h w) = s"
  "rs_Status (writeUpstreamRejected s h b p q) = s" "rs_Status noContent = 204" "rs_Status notAvailableNow = 502" "rs_Status panicked = 0"
  "rs_Status (writeRowReplaceDeleteFailure i) = 409"
  by (simp_all add: respond_def Error_def ErrorCode_def InternalError_def unavailable_def authFailed_def copyReply_def copiedUnsized_def
      writeUpstreamRejected_def Let_def noContent_def notAvailableNow_def panicked_def writeRowReplaceDeleteFailure_def)

lemma not_401:
  "rs_Status (refusal c rep) \<noteq> 401" "accepted rep \<Longrightarrow> rs_Status (passed rep) \<noteq> 401" "rs_Status (handleFetchPOError e) \<noteq> 401"
  by (auto simp: refusal_def passed_def accepted_def handleFetchPOError_def split: reply.split)

lemma not_401_row: "rs_Status (writeCreateRowResponse s h b) \<noteq> 401"
  by (simp add: writeCreateRowResponse_def)

abbreviation fine :: "response \<Rightarrow> event list \<Rightarrow> bool" where
  "fine a n \<equiv> rs_Status a \<noteq> 401"

lemma yields_forward_fine:
  "(\<And>es. yields es after (\<lambda>_ _. True)) \<Longrightarrow> yields es (forwardArakAfterSuccess arak c after) fine"
  by (rule yields_forward) (use not_401 in \<open>auto elim!: yields_mono\<close>)

lemma forwardArak_fine: "yields es (forwardArak arak c) fine"
  unfolding forwardArak_def by (intro yields_forward_fine yields_return TrueI)

lemma transition_fine: "yields es (forwardArakAfterSuccess arak c (afterRDAWorkflowTransition h r email i prev)) fine"
  by (intro yields_forward_fine yields_True after_reads)

lemma list_fine: "yields es (forwardArakPOList h arak c) fine"
  unfolding forwardArakPOList_def by (auto intro!: yields_intros split: reply.split)

lemma withArak_fine: "(\<And>arak. ha_arak h = Some arak \<Longrightarrow> yields es (k arak) fine) \<Longrightarrow> yields es (withArak h k) fine"
  by (auto simp: withArak_def intro!: yields_intros split: option.split)

lemma withArakDB_fine: "(\<And>db. ha_arakDB h = Some db \<Longrightarrow> yields es (k db) fine) \<Longrightarrow> yields es (withArakDB h k) fine"
  by (auto simp: withArakDB_def intro!: yields_intros split: option.split)

lemma withEmail_fine: "currentEmail r = Some email \<Longrightarrow> yields es (k email) fine \<Longrightarrow> yields es (withEmail r k) fine"
  by (simp add: withEmail_def)

lemma loadPO_fine:
  "currentEmail r = Some email \<Longrightarrow> (\<And>po es. yields es (k email po) fine) \<Longrightarrow> yields es (loadPOForWrite h arak r k) fine"
  by (rule yields_loadPOForWrite) (auto simp: not_401)

lemma loadPermissions_fine: "(\<And>p. yields es (k p) fine) \<Longrightarrow> yields es (loadPermissionsForRequest h email k) fine"
  by (rule yields_loadPermissions) auto

lemmas fine_intros = withArak_fine loadPermissions_fine forwardArak_fine transition_fine list_fine withArakDB_fine

lemma fetchNotifications_any: "yields es (fetchPODetailForNotifications h email i) (\<lambda>_ _. True)"
  by (cases "ha_arak h") (auto simp: fetchPODetailForNotifications_def intro!: yields_intros)

lemma fetchProvider_any: "yields es (fetchProviderForCreate arak i) (\<lambda>_ _. True)"
  by (auto simp: fetchProviderForCreate_def intro!: yields_intros)

lemma bind_any: "yields es m (\<lambda>_ _. True) \<Longrightarrow> (\<And>a es. yields es (f a) fine) \<Longrightarrow> yields es (State_Monad.bind m f) fine"
  by (rule yields_bind) (auto elim!: yields_mono)

lemma reads_fine:
  assumes "currentEmail r = Some email"
  shows "list_all (\<lambda>(m, p, handle). yields es (handle h r) fine) readRoutes"
proof -
  note login = withEmail_fine[OF assms] loadPO_fine[OF assms]
  have "yields es (handleGetPO h r) fine"
    unfolding handleGetPO_def
    by (intro fine_intros login) (auto intro!: yields_intros split: reply.splits option.splits prod.splits added.splits)
  moreover have "yields es (handlePOInbox h r) fine"
    unfolding handlePOInbox_def by (intro fine_intros login) (auto intro!: fine_intros yields_return split: option.split)
  moreover have "yields es (handleUsers h r) fine"
    unfolding handleUsers_def Let_def by (intro fine_intros login)
  moreover have "yields es (handlePermissions h r) fine" "yields es (handleBudgets h r) fine" "yields es (handlePOList h r) fine"
    "yields es (handlePDF h r) fine" "yields es (handleDownloadAttachment h r) fine" "yields es (handleComments h r) fine"
    unfolding handlePermissions_def handleBudgets_def handlePOList_def handlePDF_def handleDownloadAttachment_def handleComments_def
    by (auto intro!: fine_intros login yields_return)
  ultimately show ?thesis by (simp add: readRoutes_def)
qed

lemma transitions_fine:
  assumes "currentEmail r = Some email"
  shows "list_all (\<lambda>(i, handle). yields es (handle h r) fine) transitionHandlers"
proof -
  note login = withEmail_fine[OF assms] loadPO_fine[OF assms]
  have "yields es (handleSubmitPO h r) fine" "yields es (handleApprovePO h r) fine" "yields es (handleStateTransition s x h r) fine" for s x
    unfolding handleSubmitPO_def handleApprovePO_def handleStateTransition_def forbidden_def
    by (auto intro!: fine_intros login yields_return)
  moreover have "yields es (handleRejectPO h r) fine"
    unfolding handleRejectPO_def forbidden_def
    by (intro fine_intros login) (auto simp: rejectGuard_def intro!: fine_intros yields_return)
  moreover have "yields es (handlePermissionTransition flag x h r) fine" "yields es (handleBudgetIncrement b h r) fine" for flag x b
    unfolding handlePermissionTransition_def handleBudgetIncrement_def forbidden_def
    by (auto intro!: fine_intros login bind_any fetchNotifications_any yields_return)
  ultimately show ?thesis by (simp add: transitionHandlers_def)
qed

lemma upstreamBody_any: "yields es (upstreamBody arak c) (\<lambda>_ _. True)"
  by (intro yields_intros TrueI)

lemma mentions_any: "yields es (notifyRDACommentMentions h r i c a t ms) (\<lambda>_ _. True)"
  by (auto simp: notifyRDACommentMentions_def Let_def intro!: yields_intros)

lemma deleteNotifications_any: "yields es (resolveRDADeleteNotifications h i) (\<lambda>_ _. True)"
  by (rule yields_True[OF deleteNotifications_reads])

lemma rule_any: "yields es (applyPatchPaymentMethodRule arak db body po) (\<lambda>_ _. True)"
  by (auto simp: applyPatchPaymentMethodRule_def Let_def intro!: yields_intros yields_mono[OF fetchProvider_any])

lemma copyLoop_any: "yields es (copyLoop arak email i counts rows) (\<lambda>_ _. True)"
proof (induction rows arbitrary: es counts)
  case (Cons r rows)
  then show ?case by (cases counts) (auto intro!: yields_intros split: option.split)
qed (auto intro!: yields_intros)

lemma copyRecipients_any: "yields es (copyPORecipients arak email i rs) (\<lambda>_ _. True)"
  by (auto simp: copyPORecipients_def Let_def intro!: yields_intros)

lemma copyRows_any: "yields es (copyPORows arak email i rows) (\<lambda>_ _. True)"
  unfolding copyPORows_def by (intro yields_bind yields_mono[OF copyLoop_any] yields_intros TrueI)

lemmas any_steps = fetchNotifications_any fetchProvider_any upstreamBody_any mentions_any deleteNotifications_any rule_any copyRecipients_any copyRows_any

lemma bad_fine: "yields es (badRequest m) fine" "yields es (forbidden m) fine" "yields es rowsForbidden fine"
  by (simp_all add: badRequest_def forbidden_def rowsForbidden_def yields_return)

lemma createClone_fine: "yields es (createClone arak email req source body ws) fine"
proof -
  have "yields es (copyInto arak email req source ws i) fine" for es i
    unfolding copyInto_def cloneReport_def
    by (intro bind_any) (auto simp: copyRows_any copyRecipients_any intro!: yields_intros split: prod.split)
  then show ?thesis
    unfolding createClone_def by (intro bind_any upstreamBody_any) (auto intro!: yields_return split: option.split)
qed

lemma clone_fine:
  assumes "currentEmail r = Some email" shows "yields es (handleClonePO h r) fine"
proof -
  have f: "yields es (fetchPODetail h arak email i) (\<lambda>_ _. True)" for es arak i by (intro yields_intros TrueI)
  have h: "yields es history (\<lambda>_ _. True)" for es by (intro yields_intros TrueI)
  show ?thesis
    unfolding handleClonePO_def
    by (intro fine_intros withEmail_fine[OF assms])
      (auto simp: not_401 intro!: bind_any f h fetchProvider_any withArakDB_fine createClone_fine bad_fine yields_return
        split: option.split sum.split cloneError.split paymentVerdict.split prod.split)
qed

lemma edits_fine:
  assumes "currentEmail r = Some email"
  shows "list_all (\<lambda>(m, p, handle). yields es (handle h r) fine)
    (filter (\<lambda>(m, p, handle). p \<noteq> ''/rda/v1/pos/{id}/recipients'') editRoutes)"
proof -
  note login = withEmail_fine[OF assms] loadPO_fine[OF assms]
  have h: "yields es history (\<lambda>_ _. True)" for es by (intro yields_intros TrueI)
  have e: "yields es (emit x) (\<lambda>_ _. True)" for es x by (intro yields_intros TrueI)
  have "yields es (handleCreatePO h r) fine"
    unfolding handleCreatePO_def
    by (intro fine_intros login)
      (auto intro!: bind_any h any_steps fine_intros bad_fine yields_return split: option.split paymentVerdict.split)
  moreover have "yields es (handlePatchPO h r) fine"
    unfolding handlePatchPO_def patchPO_def
    by (intro fine_intros login)
      (auto intro!: bind_any any_steps fine_intros bad_fine yields_return split: option.split sum.split paymentVerdict.split)
  moreover have "yields es (handleDeletePO h r) fine"
    unfolding handleDeletePO_def
    by (intro fine_intros login)
      (auto intro!: bind_any h e any_steps fine_intros bad_fine yields_return yields_forward_fine split: option.split prod.split)
  moreover have "yields es (handlePatchPaymentMethod h r) fine"
    unfolding handlePatchPaymentMethod_def
    by (intro fine_intros login) (auto intro!: fine_intros bad_fine yields_return split: option.split)
  moreover have "yields es (handleCreateRow h r) fine"
    unfolding handleCreateRow_def
    by (intro fine_intros login)
      (auto simp: not_401_row intro!: bind_any any_steps fine_intros bad_fine yields_return split: option.splits)
  moreover have "yields es (handleReplaceRow h r) fine"
    unfolding handleReplaceRow_def deleteReplacedRow_def
    by (intro fine_intros login)
      (auto intro!: bind_any any_steps fine_intros bad_fine yields_return split: option.splits if_splits)
  moreover have "yields es (handleDeleteRow h r) fine" "yields es (handleDeleteAttachment h r) fine"
    unfolding handleDeleteRow_def handleDeleteAttachment_def by (auto intro!: fine_intros login bad_fine)
  moreover have "yields es (handleUploadAttachment h r) fine"
    unfolding handleUploadAttachment_def
    by (intro fine_intros login) (auto intro!: fine_intros bad_fine split: option.split)
  moreover have "yields es (handlePostComment h r) fine"
    unfolding handlePostComment_def Let_def
    by (intro fine_intros login) (auto intro!: bind_any any_steps bad_fine yields_return split: option.split prod.split)
  ultimately show ?thesis using clone_fine[OF assms] by (simp add: editRoutes_def)
qed

text \<open>An upstream service that refuses the credentials of the client on every call. Looking up a provider is the only call
  whose failure a handler passes over in silence.\<close>

definition refuses :: "(event list \<Rightarrow> call \<Rightarrow> reply) \<Rightarrow> bool" where
  "refuses arak \<longleftrightarrow> (\<forall>es c. case arak es c of Reply s hdr b \<Rightarrow> s = 401 | Failed \<Rightarrow> False)"

definition asksUpstream :: "event \<Rightarrow> bool" where
  "asksUpstream e = (case e of Call c \<Rightarrow> take (length arakProviderRoot) (ca_Path c) \<noteq> arakProviderRoot | _ \<Rightarrow> False)"

abbreviation told :: "response \<Rightarrow> event list \<Rightarrow> bool" where
  "told a n \<equiv> list_ex asksUpstream n \<longrightarrow> rs_Status a = 502"

lemma refused:
  assumes "refuses arak"
  shows "\<not> accepted (arak es c)" "rs_Status (refusal c (arak es c)) = 502" "fetched h arak es email i = Inl (UpstreamStatus 401)"
proof -
  have r: "\<exists>hdr b. arak es c = Reply 401 hdr b" for c
    using assms[unfolded refuses_def, rule_format, of es c] by (auto split: reply.splits)
  show "\<not> accepted (arak es c)" "rs_Status (refusal c (arak es c)) = 502" using r[of c] by (auto simp: accepted_def refusal_def)
  show "fetched h arak es email i = Inl (UpstreamStatus 401)" using r[of "getPO email i ''''"] by (auto simp: fetched_def fetchPODetail_def successful_def)
qed

lemma refused_reply: "refuses arak \<Longrightarrow> \<exists>hdr b. arak es c = Reply 401 hdr b"
  unfolding refuses_def by (drule spec[of _ es], drule spec[of _ c]) (auto split: reply.splits)

lemma refused_forward: "refuses arak \<Longrightarrow> yields es (forwardArakAfterSuccess arak c after) (\<lambda>a _. rs_Status a = 502)"
  by (rule yields_forward) (simp_all add: refused)

lemma told_forward: "refuses arak \<Longrightarrow> yields es (forwardArakAfterSuccess arak c after) told" "refuses arak \<Longrightarrow> yields es (forwardArak arak c) told"
  unfolding forwardArak_def by (rule yields_mono[OF refused_forward]; simp)+

lemma told_list: "refuses arak \<Longrightarrow> yields es (forwardArakPOList h arak c) told"
  unfolding forwardArakPOList_def using refused_reply[of arak es c] by (auto intro!: yields_intros)

lemma told_upstream:
  "refuses arak \<Longrightarrow> yields es (State_Monad.bind (upstreamBody arak c) (\<lambda>x. case x of
       None \<Rightarrow> State_Monad.return unavailable
     | Some (status, hdr, b) \<Rightarrow> if status = 401 then State_Monad.return authFailed else K status hdr b)) told"
  using refused_reply[of arak es c] by (auto intro!: yields_intros)

lemma told_withArak: "ha_arak h = Some arak \<Longrightarrow> yields es (k arak) told \<Longrightarrow> yields es (withArak h k) told"
  by (simp add: withArak_def)

lemma told_withArakDB: "(\<And>db. ha_arakDB h = Some db \<Longrightarrow> yields es (k db) told) \<Longrightarrow> yields es (withArakDB h k) told"
  by (auto simp: withArakDB_def intro!: yields_intros split: option.split)

lemma told_withEmail: "currentEmail r = Some email \<Longrightarrow> yields es (k email) told \<Longrightarrow> yields es (withEmail r k) told"
  by (simp add: withEmail_def)

lemma told_loadPO: "refuses arak \<Longrightarrow> currentEmail r = Some email \<Longrightarrow> yields es (loadPOForWrite h arak r k) told"
  by (rule yields_loadPOForWrite) (auto simp: refused handleFetchPOError_def)

lemma told_permissions: "(\<And>p. yields es (k p) told) \<Longrightarrow> yields es (loadPermissionsForRequest h email k) told"
  by (rule yields_loadPermissions) auto

lemma told_silent:
  "yields es m (\<lambda>_ n. \<not> list_ex asksUpstream n) \<Longrightarrow> (\<And>a es. yields es (f a) told) \<Longrightarrow> yields es (State_Monad.bind m f) told"
  by (rule yields_bind) (auto elim!: yields_mono)

lemma told_refused:
  "yields es m (\<lambda>_ _. True) \<Longrightarrow> (\<And>a es. yields es (f a) (\<lambda>a _. rs_Status a = 502)) \<Longrightarrow> yields es (State_Monad.bind m f) told"
proof -
  assume m: "yields es m (\<lambda>_ _. True)" and f: "\<And>a es. yields es (f a) (\<lambda>a _. rs_Status a = 502)"
  have "yields (es @ n) (f a) (\<lambda>b n2. told b (n @ n2))" for a n by (rule yields_mono[OF f]) simp
  then show ?thesis by (intro yields_bind yields_mono[OF m])
qed

lemma history_silent: "yields es history (\<lambda>_ n. \<not> list_ex asksUpstream n)"
  by (intro yields_intros) simp

lemma provider_silent: "yields es (fetchProviderForCreate arak i) (\<lambda>_ n. \<not> list_ex asksUpstream n)"
  by (auto simp: fetchProviderForCreate_def plainGet_def asksUpstream_def intro!: yields_intros)

lemma told_bad: "yields es (badRequest m) told" "yields es (forbidden m) told"
  by (simp_all add: badRequest_def forbidden_def yields_return)

lemma reads_told:
  assumes "currentEmail r = Some email" "ha_arak h = Some arak" "refuses arak"
  shows "list_all (\<lambda>(m, p, handle). yields es (handle h r) told) readRoutes"
proof -
  note login = told_withArak[OF assms(2)] told_withEmail[OF assms(1)] told_loadPO[OF assms(3,1)] told_forward[OF assms(3)]
    told_list[OF assms(3)] told_permissions
  have "yields es (handleGetPO h r) told"
    unfolding handleGetPO_def
    by (intro login) (use refused_reply[OF assms(3), of es] in \<open>auto intro!: yields_intros split: reply.split\<close>, (metis reply.inject)+)
  moreover have "yields es (handlePOInbox h r) told"
    unfolding handlePOInbox_def by (intro login) (auto intro!: login yields_return split: option.split)
  moreover have "yields es (handleUsers h r) told"
    unfolding handleUsers_def Let_def by (intro login)
  moreover have "yields es (handlePermissions h r) told" "yields es (handleBudgets h r) told" "yields es (handlePOList h r) told"
    "yields es (handlePDF h r) told" "yields es (handleDownloadAttachment h r) told" "yields es (handleComments h r) told"
    unfolding handlePermissions_def handleBudgets_def handlePOList_def handlePDF_def handleDownloadAttachment_def handleComments_def
    by (auto intro!: login yields_return)
  ultimately show ?thesis by (simp add: readRoutes_def)
qed

lemma transitions_told:
  assumes "currentEmail r = Some email" "ha_arak h = Some arak" "refuses arak"
  shows "list_all (\<lambda>(i, handle). yields es (handle h r) told) transitionHandlers"
proof -
  note login = told_withArak[OF assms(2)] told_withEmail[OF assms(1)] told_loadPO[OF assms(3,1)] told_permissions
  have "yields es (handleSubmitPO h r) told" "yields es (handleApprovePO h r) told" "yields es (handleStateTransition s x h r) told"
    "yields es (handleRejectPO h r) told" for s x
    unfolding handleSubmitPO_def handleApprovePO_def handleStateTransition_def handleRejectPO_def by (intro login)+
  moreover have "yields es (handlePermissionTransition flag x h r) told" "yields es (handleBudgetIncrement b h r) told" for flag x b
    unfolding handlePermissionTransition_def handleBudgetIncrement_def
    by (intro login; auto intro!: told_refused fetchNotifications_any refused_forward assms(3) told_bad)+
  ultimately show ?thesis by (simp add: transitionHandlers_def)
qed

lemma edits_told:
  assumes "currentEmail r = Some email" "ha_arak h = Some arak" "refuses arak"
  shows "list_all (\<lambda>(m, p, handle). yields es (handle h r) told)
    (filter (\<lambda>(m, p, handle). p \<noteq> ''/rda/v1/pos/{id}/recipients'') editRoutes)"
proof -
  note login = told_withArak[OF assms(2)] told_withEmail[OF assms(1)] told_loadPO[OF assms(3,1)] told_withArakDB
  have f: "yields es (State_Monad.bind (fetchPODetail h arak email i) (\<lambda>x. case x of Inl e \<Rightarrow> State_Monad.return (handleFetchPOError e) | Inr y \<Rightarrow> k y)) told"
    for es i k
    using refused(3)[OF assms(3), of h _ email i] by (auto simp: handleFetchPOError_def intro!: yields_bind yields_fetchPODetail yields_return)
  have "yields es (handleCreatePO h r) told"
    unfolding handleCreatePO_def
    by (intro login)
      (auto intro!: told_silent provider_silent history_silent login told_forward assms(3) told_bad yields_return split: option.split paymentVerdict.split)
  moreover have "yields es (handleClonePO h r) told"
    unfolding handleClonePO_def by (intro login) (auto intro!: f told_bad split: option.split)
  moreover have "yields es (handlePatchPO h r) told" "yields es (handleDeletePO h r) told" "yields es (handlePatchPaymentMethod h r) told"
    "yields es (handleCreateRow h r) told" "yields es (handleReplaceRow h r) told" "yields es (handleDeleteRow h r) told"
    "yields es (handleDeleteAttachment h r) told" "yields es (handleUploadAttachment h r) told"
    unfolding handlePatchPO_def handleDeletePO_def handlePatchPaymentMethod_def handleCreateRow_def handleReplaceRow_def
      handleDeleteRow_def handleDeleteAttachment_def handleUploadAttachment_def
    by (intro login)+
  moreover have "yields es (handlePostComment h r) told"
    unfolding handlePostComment_def Let_def by (intro login) (auto intro!: told_upstream assms(3) told_bad split: option.split)
  ultimately show ?thesis by (simp add: editRoutes_def)
qed

definition refusing :: "handler \<Rightarrow> bool" where
  "refusing h = (case ha_arak h of None \<Rightarrow> False | Some arak \<Rightarrow> refuses arak)"

text \<open>The answers of the handlers of the table, except of the update of the recipients.\<close>

definition answers :: "handler \<Rightarrow> request \<Rightarrow> event list \<Rightarrow> (int \<times> event list) list" where
  "answers h r es = map (\<lambda>(m, p, handle). (rs_Status (fst (run_state (handle h r) es)), effects (handle h r) es))
     (filter (\<lambda>(m, p, handle). p \<noteq> ''/rda/v1/pos/{id}/recipients'') routes)"

text \<open>C40: A user with an e-mail is never answered 401 by a handler of the table, whatever the upstream service answers, except by
  the update of the recipients. When the service refuses the credentials of the client on every call, each of
  these handlers that calls it, for more than looking up a provider, answers 502.\<close>

theorem login_is_the_only_401:
  assumes "currentEmail r = Some email"
  shows "list_all (\<lambda>(status, n). status \<noteq> 401 \<and>
     (if refusing h \<and> list_ex asksUpstream n then status = 502 else True)) (answers h r es)"
proof -
  have f: "yields es (handle h r) fine" if "(m, p, handle) \<in> set routes" "p \<noteq> ''/rda/v1/pos/{id}/recipients''" for m p handle
    using that reads_fine[OF assms, of es h] transitions_fine[OF assms, of es h] edits_fine[OF assms, of es h]
    unfolding routes_def transitionRoutes_def by (fastforce simp: list_all_iff)
  have t: "yields es (handle h r) told"
    if "(m, p, handle) \<in> set routes" "p \<noteq> ''/rda/v1/pos/{id}/recipients''" "ha_arak h = Some arak" "refuses arak" for m p handle arak
    using that(1,2) reads_told[OF assms that(3,4), of es] transitions_told[OF assms that(3,4), of es] edits_told[OF assms that(3,4), of es]
    unfolding routes_def transitionRoutes_def by (fastforce simp: list_all_iff)
  show ?thesis
    unfolding answers_def list_all_iff refusing_def
    using yields_effects[OF f] yields_effects[OF t] by (auto split: option.splits; fastforce)
qed

text \<open>With a service that refuses the credentials, reading the comments of a request answers 502.\<close>

theorem login_is_the_only_401_witness:
  "rs_Status (fst (run_state (handleComments ((sampleHandler [])\<lparr>ha_arak := Some (\<lambda>_ _. Reply 401 jsonType (sampleContent []))\<rparr>)
     (sampleRequest None)) [])) = 502"
proof -
  let ?h = "(sampleHandler [])\<lparr>ha_arak := Some (\<lambda>_ _. Reply 401 jsonType (sampleContent []))\<rparr>" and ?r = "sampleRequest None"
  have "(rs_Status (fst (run_state (handleComments ?h ?r) [])), effects (handleComments ?h ?r) []) \<in> set (answers ?h ?r [])"
    by (force simp: answers_def routes_def readRoutes_def)
  moreover have "refusing ?h" by (simp add: refusing_def refuses_def)
  moreover have "list_ex asksUpstream (effects (handleComments ?h ?r) [])"
  proof -
    have "yields [] (handleComments ?h ?r) (\<lambda>_ n. list_ex asksUpstream n)"
      unfolding handleComments_def withArak_def withEmail_def
      by (auto simp: plainGet_def asksUpstream_def getPO_def poPath_def arakRDARoot_def arakProviderRoot_def intro!: yields_loadPOForWrite yields_intros)
    then show ?thesis by (rule yields_effects)
  qed
  ultimately show ?thesis using login_is_the_only_401[OF sample_email[of None], of ?h "[]"] by (force simp: list_all_iff)
qed

text \<open>The exception: when upstream refuses the service's own credentials, the update of the recipients answers
  the user 401, as if the user were not logged in.\<close>

theorem recipients_forward_upstream_401:
  assumes "ha_arak h = Some arak" "currentEmail r = Some email" "positivePathID (rq_ID r) = Some poID"
    "decodeRecipients (rq_Body r) = Some (Some ids)" "list_all (\<lambda>i. 0 < i) ids"
    "arak es (recipientsRequest email poID ids) = Reply 401 hdr b" "by_OK b"
  shows "rs_Status (fst (run_state (handleUpdatePORecipients h r) es)) = 401"
proof -
  have "\<not> list_ex (\<lambda>i. i \<le> 0) ids" using assms(5) by (induction ids) auto
  then show ?thesis
    using assms by (simp add: handleUpdatePORecipients_def withArak_def withEmail_def validateUpdatePORecipients_def upstreamBody_def successful_def)
qed

theorem recipients_forward_upstream_401_witness:
  "rs_Status (fst (run_state (handleUpdatePORecipients
     ((sampleHandler [])\<lparr>ha_arak := Some (\<lambda>_ _. Reply 401 jsonType (sampleContent []))\<rparr>)
     (sampleRequest (Some (Obj [(''recipient_ids'', Arr [Number ''4''])])))) [])) = 401"
proof -
  have "decodeRecipients (Some (Obj [(''recipient_ids'', Arr [Number ''4''])])) = Some (Some [4])" by code_simp
  moreover have "positivePathID ''7'' = Some ''7''" by code_simp
  ultimately show ?thesis
    by (intro recipients_forward_upstream_401[where email = "''ada@cdlan.it''" and poID = "''7''" and ids = "[4]" and b = "sampleContent []"])
      (simp_all add: sampleContent_def)
qed

section \<open>Replacing a row\<close>

text \<open>The outcome of an upstream call: it was answered with success and its body could be read.\<close>

definition succeeded :: "reply \<Rightarrow> bool" where
  "succeeded rep = (case rep of Failed \<Rightarrow> False | Reply status _ b \<Rightarrow> successful status \<and> by_OK b)"

text \<open>What a replacement may do and answer: it writes nothing, or one row creation that did not succeed, or one
  that succeeded followed by the deletion of the old row; 204 exactly when both succeeded, 409 when only
  the deletion failed.\<close>

definition replaceOutcome :: "(event list \<Rightarrow> call \<Rightarrow> reply) \<Rightarrow> event list \<Rightarrow> string \<Rightarrow> request \<Rightarrow> response \<Rightarrow> event list \<Rightarrow> bool" where
  "replaceOutcome arak es email r a n =
     (let start = es @ [Call (getPO email (rq_ID r) '''')];
          creation = (\<lambda>c. ca_Method c = POST \<and> ca_Path c = poPath (rq_ID r) @ ''/row'')
      in case writes n of
           [] \<Rightarrow> a \<noteq> noContent
         | [Call c] \<Rightarrow> creation c \<and> \<not> succeeded (arak start c) \<and> a \<noteq> noContent
         | [Call c, Call d] \<Rightarrow> creation c \<and> succeeded (arak start c) \<and>
             d = rowDelete email (rq_ID r) (TrimSpace (rq_RowID r)) \<and>
             (if succeeded (arak (start @ [Call c]) d) then a = noContent else rs_Status a = 409)
         | _ \<Rightarrow> False)"

text \<open>C22: The old row is deleted only after the new one was created: a replacement writes nothing, or one POST of a
  row that did not succeed, or a POST that succeeded followed by the DELETE of the row of the request.
  The answer is 204 exactly when both succeeded, and after a creation whose deletion failed it is the
  409 that tells the user the request now holds both rows.\<close>

theorem replace_creates_before_deleting:
  assumes "ha_arak h = Some arak" "currentEmail r = Some email"
  shows "replaceOutcome arak es email r (fst (run_state (handleReplaceRow h r) es)) (effects (handleReplaceRow h r) es)"
proof -
  have e: "Error m t \<noteq> noContent" "handleFetchPOError f \<noteq> noContent" "unavailable \<noteq> noContent" "authFailed \<noteq> noContent"
    "copiedUnsized st hdr (Copied b) \<noteq> noContent" for m t f st hdr b
    by (simp_all add: Error_def respond_def noContent_def handleFetchPOError_def authFailed_def ErrorCode_def unavailable_def copiedUnsized_def)
  have m: "ca_Method (rowRequest email i body) = POST" "ca_Path (rowRequest email i body) = poPath i @ ''/row''"
    "ca_Method (rowDelete email i j) = DELETE" "\<not> successful 401" for i j body
    by (simp_all add: rowRequest_def sendJSON_def rowDelete_def successful_def)
  have "yields es (handleReplaceRow h r) (replaceOutcome arak es email r)"
    using assms
    unfolding handleReplaceRow_def withArak_def deleteReplacedRow_def badRequest_def rowsForbidden_def forbidden_def
    by (auto simp: replaceOutcome_def Let_def e m succeeded_def intro!: yields_loadPOForWrite yields_intros split: option.splits reply.splits)
  then show ?thesis by (rule yields_effects)
qed

theorem replace_creates_before_deleting_witness:
  "replaceOutcome (sampleArak verificationDetail) [] ''ada@cdlan.it'' (sampleRequest None)
     (fst (run_state (handleReplaceRow (sampleHandler verificationDetail) (sampleRequest None)) []))
     (effects (handleReplaceRow (sampleHandler verificationDetail) (sampleRequest None)) [])"
  by (rule replace_creates_before_deleting[OF sample_arak sample_email])

end
