(* ===== verification/RdaSent.thy ===== *)
theory RdaSent
  imports RdaSafety
begin

text \<open>
  What is sent upstream when a request is created, changed, deleted or duplicated: the fields are
  valid whatever the user sent, and the duplication accounts for every row.
\<close>

section \<open>Creation\<close>

lemma get_append: "get (m @ n) k = (if k \<in> fst ` set n then get n k else get m k)"
proof (cases "map_of (rev n) k")
  case None
  then have "k \<notin> fst ` set n" by (simp add: map_of_eq_None_iff)
  then show ?thesis using None by (simp add: get_def map_add_def)
next
  case (Some v)
  then have "k \<in> fst ` set n" by (metis map_of_eq_None_iff option.distinct(1) set_rev)
  then show ?thesis using Some by (simp add: get_def map_add_def)
qed

lemma ifText_keys: "fst ` set (ifText k s) = (if s = [] then {} else {k})"
  by (simp add: ifText_def)

lemma createBody_get:
  "get (createBody req currency method provider) ''currency'' = Str currency"
  "get (createBody req currency method provider) ''payment_method'' = Str method"
  "get (createBody req currency method provider) ''project'' = Str (cr_Project req)"
  "get (createBody req currency method provider) ''object'' = Str (cr_Object req)"
  "get (createBody req currency method provider) ''type'' = Str (cr_Type req)"
  "get (createBody req currency method provider) ''budget_id'' = Integer (cr_BudgetID req)"
  "get (createBody req currency method provider) ''provider_id'' = Integer (cr_ProviderID req)"
  "has_key (createBody req currency method provider) ''cost_center'' \<longleftrightarrow> TrimSpace (cr_CostCenter req) \<noteq> []"
  "has_key (createBody req currency method provider) ''budget_user_id'' \<longleftrightarrow> TrimSpace (cr_CostCenter req) = []"
  by (simp_all add: createBody_def get_append get_Cons ifText_keys image_Un has_key_def)

lemma createPOCurrency_allowed: "createPOCurrency v = Some c \<Longrightarrow> c \<in> set allowedPOCurrencies"
  by (auto simp: createPOCurrency_def Let_def defaultPOCurrency_def allowedPOCurrencies_def split: if_splits)

lemma paymentCode_trimmed: "TrimSpace (paymentCodeFromRawMessage v) = paymentCodeFromRawMessage v"
  by (auto simp: paymentCodeFromRawMessage_def split: option.split any.split)

lemma resolve_trimmed:
  "resolvePaymentMethod db es requested provider = Some (method, d) \<Longrightarrow>
   TrimSpace method = method \<and> d = providerDefaultPaymentMethod provider"
  by (auto simp: resolvePaymentMethod_def Let_def providerDefaultPaymentMethod_def paymentCode_trimmed
      split: if_splits dbResult.splits)

text \<open>The database lists the method as available for purchase requests, or it is the provider's own.\<close>

definition paymentAccepted :: "store \<Rightarrow> event list \<Rightarrow> string \<Rightarrow> string \<Rightarrow> bool" where
  "paymentAccepted db es code providerDefault =
     (code \<noteq> '''' \<and>
      (case st_PaymentMethod db es code of Row m \<Rightarrow> pa_RDAAvailable m \<or> code = providerDefault | _ \<Rightarrow> False))"

lemma validate_accepted:
  "validateEffectivePaymentMethod db es code d = PaymentOK \<Longrightarrow> TrimSpace code = code \<Longrightarrow> TrimSpace d = d \<Longrightarrow>
   paymentAccepted db es code d"
  by (auto simp: validateEffectivePaymentMethod_def paymentAccepted_def split: if_splits dbResult.splits)

definition providerFor :: "(event list \<Rightarrow> call \<Rightarrow> reply) \<Rightarrow> event list \<Rightarrow> int \<Rightarrow> providerDetail" where
  "providerFor arak es i = fst (run_state (fetchProviderForCreate arak i) es)"

lemma yields_fetchProvider:
  assumes "\<And>n. writes n = [] \<Longrightarrow> Q (providerFor arak es i) n" shows "yields es (fetchProviderForCreate arak i) Q"
proof -
  have "yields es (fetchProviderForCreate arak i) (\<lambda>_ n. writes n = [])"
    by (auto simp: fetchProviderForCreate_def plainGet_def intro!: yields_intros)
  then show ?thesis using assms by (auto simp: yields_def providerFor_def)
qed

text \<open>A creation as it must be sent: for the user who asks, of a known type, on a budget and with a provider, in an
  allowed currency, charged either to a cost centre or to a user, with an object, a payment method that is
  accepted, and the project exactly as the user typed it, of which the trimmed text has one to fifty characters.\<close>

definition createdFields :: "createPORequest \<Rightarrow> fields \<Rightarrow> bool" where
  "createdFields req m \<longleftrightarrow>
     (case (get m ''type'', get m ''object'', get m ''budget_id'', get m ''provider_id'') of
        (Str kind, Str object, Integer budget, Integer provider) \<Rightarrow>
          kind \<in> {''STANDARD'', ''ECOMMERCE''} \<and> TrimSpace object \<noteq> '''' \<and> 0 < budget \<and> 0 < provider
      | _ \<Rightarrow> False) \<and>
     has_key m ''cost_center'' \<noteq> has_key m ''budget_user_id'' \<and>
     get m ''project'' = Str (cr_Project req) \<and> TrimSpace (cr_Project req) \<noteq> '''' \<and> RuneCount (TrimSpace (cr_Project req)) \<le> 50"

definition createdValid :: "store \<Rightarrow> event list \<Rightarrow> string \<Rightarrow> string \<Rightarrow> createPORequest \<Rightarrow> call \<Rightarrow> bool" where
  "createdValid db es providerDefault email req c \<longleftrightarrow>
     ca_Method c = POST \<and> ca_Path c = arakRDARoot @ ''/po'' \<and> ca_Headers c = requesterHeaders email @ jsonHeaders \<and>
     (case ca_Body c of
        JSONBody (Obj m) \<Rightarrow>
          createdFields req m \<and>
          (case (get m ''currency'', get m ''payment_method'') of
             (Str currency, Str meth) \<Rightarrow> currency \<in> set allowedPOCurrencies \<and> paymentAccepted db es meth providerDefault
           | _ \<Rightarrow> False)
      | _ \<Rightarrow> False)"

lemma createBody_valid:
  assumes "validateCreatePO req = None" "createPOCurrency v = Some currency" "paymentAccepted db es method d"
  shows "createdValid db es d email req (sendJSON POST (arakRDARoot @ ''/po'') email (Obj (createBody req currency method provider)))"
  using assms createPOCurrency_allowed[OF assms(2)]
  by (auto simp: createdValid_def createdFields_def sendJSON_def createBody_get validateCreatePO_def Let_def split: if_splits)

text \<open>At most one write, and that one valid in the history just before it; none at all without a user, a service, a
  database or a body that decodes.\<close>

definition createOutcome :: "handler \<Rightarrow> event list \<Rightarrow> request \<Rightarrow> event list \<Rightarrow> bool" where
  "createOutcome h es r n \<longleftrightarrow>
     (case (ha_arak h, ha_arakDB h, currentEmail r, decodeCreate (rq_Body r)) of
        (Some arak, Some db, Some email, Some req) \<Rightarrow>
          (case writes n of
             [] \<Rightarrow> True
           | [Call c] \<Rightarrow>
               createdValid db (es @ butlast n) (providerDefaultPaymentMethod (providerFor arak es (cr_ProviderID req))) email req c
           | _ \<Rightarrow> False)
      | _ \<Rightarrow> writes n = [])"

text \<open>C23: Whatever the user sends, a creation makes at most one upstream write, and that one is valid: a known type, a
  budget and a provider, an allowed currency, an object, exactly one of cost centre and budget user, and a payment
  method that the database lists as available or that is the provider's own, looked up in the history just
  before the write. The project is sent as it was typed: only the trimmed text is known to have one to fifty
  characters (the sample run sends 61). Without a user, a service, a database or a body that decodes nothing is written.\<close>

theorem created_request_is_valid: "createOutcome h es r (effects (handleCreatePO h r) es)"
proof -
  have p: "ca_Method (sendJSON POST x e v) \<noteq> GET" for x e v by (simp add: sendJSON_def)
  have "yields es (handleCreatePO h r) (\<lambda>_. createOutcome h es r)"
  proof (cases "ha_arak h = None \<or> ha_arakDB h = None \<or> currentEmail r = None \<or> decodeCreate (rq_Body r) = None")
    case True
    have "yields es (fetchProviderForCreate arak i) (\<lambda>_ n. writes n = [])" for arak i by (rule yields_fetchProvider) simp
    then show ?thesis
      unfolding handleCreatePO_def withArak_def withEmail_def withArakDB_def badRequest_def
      using True by (auto simp: createOutcome_def intro!: yields_intros yields_fetchProvider split: option.split)
  next
    case False
    then obtain arak db email req where g: "ha_arak h = Some arak" "ha_arakDB h = Some db" "currentEmail r = Some email"
      "decodeCreate (rq_Body r) = Some req" by auto
    then show ?thesis
      unfolding handleCreatePO_def withArak_def withEmail_def withArakDB_def badRequest_def
      by (auto simp: p butlast_append createOutcome_def dest: resolve_trimmed
          intro!: yields_intros yields_fetchProvider createBody_valid validate_accepted
          split: option.split dbResult.split paymentVerdict.split)
        (auto simp: providerDefaultPaymentMethod_def paymentCode_trimmed dest: resolve_trimmed)
  qed
  then show ?thesis by (rule yields_effects)
qed

text \<open>A creation that is accepted, for the witness: its project is a letter and sixty blanks.\<close>

definition sampleProject :: string where
  "sampleProject = CHR ''x'' # replicate 60 (CHR '' '')"

definition sampleCreation :: any where
  "sampleCreation = Obj [(''type'', Str ''STANDARD''), (''budget_id'', Number ''3''), (''provider_id'', Number ''9''),
     (''project'', Str sampleProject), (''object'', Str ''Switch''), (''cost_center'', Str ''IT'')]"

theorem created_request_is_valid_witness:
  "\<exists>c m. writes (effects (handleCreatePO (sampleHandler []) (sampleRequest (Some sampleCreation))) []) = [Call c] \<and>
     createOutcome (sampleHandler []) [] (sampleRequest (Some sampleCreation))
       (effects (handleCreatePO (sampleHandler []) (sampleRequest (Some sampleCreation))) []) \<and>
     ca_Body c = JSONBody (Obj m) \<and> get m ''project'' = Str sampleProject \<and> RuneCount sampleProject = 61"
proof -
  let ?h = "sampleHandler []" and ?r = "sampleRequest (Some sampleCreation)"
  let ?req = "\<lparr>cr_Type = ''STANDARD'', cr_BudgetID = 3, cr_CostCenter = ''IT'', cr_BudgetUserID = 0,
      cr_ProviderID = 9, cr_PaymentMethod = '''', cr_Currency = '''', cr_Project = sampleProject, cr_Object = ''Switch'', cr_Description = '''',
      cr_Note = '''', cr_ProviderOfferCode = '''', cr_ProviderOfferDate = ''''\<rparr>"
  let ?m = "createBody ?req ''EUR'' ''BB30'' noProvider"
  let ?c = "sendJSON POST (arakRDARoot @ ''/po'') ''ada@cdlan.it'' (Obj ?m)"
  have pi: "ParseInt ''3'' = (3, True)" "ParseInt ''9'' = (9, True)" by code_simp+
  have d: "decodeCreate (Some sampleCreation) = Some ?req"
    by (simp add: decodeCreate_def sampleCreation_def decodeStruct_def setCreate_def asString_def asInt_def EqualFold_def ToUpper_def
        to_upper_def is_lower_def less_eq_char_def noCreate_def pi)
  have v: "validateCreatePO ?req = None" "createPOCurrency '''' = Some ''EUR''" "RuneCount sampleProject = 61" by code_simp+
  have p: "providerFor (sampleArak []) [] 9 = noProvider"
    by (simp add: providerFor_def fetchProviderForCreate_def sampleArak_def sampleContent_def successful_def decodeProvider_def decodeStruct_def)
  have n: "providerDefaultPaymentMethod noProvider = ''''"
    by (simp add: providerDefaultPaymentMethod_def noProvider_def paymentCodeFromRawMessage_def)
  have b: "TrimSpace ''BB30'' = ''BB30''" "TrimSpace '''' = ''''" by code_simp+
  have pay: "resolvePaymentMethod sampleStore es '''' noProvider = Some (''BB30'', '''')"
    "validateEffectivePaymentMethod sampleStore es ''BB30'' '''' = PaymentOK" for es
    by (simp_all add: resolvePaymentMethod_def validateEffectivePaymentMethod_def sampleStore_def n b)
  have "yields [] (handleCreatePO ?h ?r) (\<lambda>_ n. writes n = [Call ?c])"
    unfolding handleCreatePO_def withArak_def withEmail_def withArakDB_def badRequest_def
    using v pay p by (auto simp: d intro!: yields_intros yields_fetchProvider) (simp_all add: sendJSON_def)
  then have w: "writes (effects (handleCreatePO ?h ?r) []) = [Call ?c]" by (rule yields_effects)
  then show ?thesis using created_request_is_valid[of ?h "[]" ?r] v(3)
    by (intro exI[of _ ?c] exI[of _ ?m]) (simp add: createBody_get, simp add: sendJSON_def)
qed

section \<open>Change of a draft\<close>

lemma patch_keys: "decodeAllowedPatch r = Inr m \<Longrightarrow> fst ` set m \<subseteq> set patchAllowed"
  by (auto simp: decodeAllowedPatch_def Let_def split: option.splits if_splits)

lemma put_keys: "fst ` set (put k v m) = insert k (fst ` set m)"
  by (auto simp: put_def)

lemma patchPOCurrency_allowed: "patchPOCurrency v = Some c \<Longrightarrow> c \<in> set allowedPOCurrencies"
  by (auto simp: patchPOCurrency_def Let_def split: any.splits if_splits)

text \<open>A change as it must be sent: only fields that may change, an allowed currency, and when the provider or
  the method changes, a method that the database knows.\<close>

definition patchValid :: "handler \<Rightarrow> event list \<Rightarrow> string \<Rightarrow> call \<Rightarrow> bool" where
  "patchValid h es poID c =
     (ca_Method c = PATCH \<and> ca_Path c = poPath poID \<and>
      (case ca_Body c of
         JSONBody (Obj m) \<Rightarrow>
           fst ` set m \<subseteq> set patchAllowed \<and> m \<noteq> [] \<and>
           (if has_key m ''currency'' then (case get m ''currency'' of Str s \<Rightarrow> s \<in> set allowedPOCurrencies | _ \<Rightarrow> False) else True) \<and>
           (if patchAffectsPaymentRule m then
              (case (ha_arakDB h, get m ''payment_method'') of
                 (Some db, Str method) \<Rightarrow> (case st_PaymentMethod db es method of Row _ \<Rightarrow> True | _ \<Rightarrow> False)
               | _ \<Rightarrow> False)
            else True)
       | _ \<Rightarrow> False))"

definition patchListed :: "store \<Rightarrow> event list \<Rightarrow> fields \<Rightarrow> fields \<Rightarrow> bool" where
  "patchListed db es body m \<longleftrightarrow>
     (\<exists>method. m = put ''payment_method'' (Str method) body \<and>
       (case st_PaymentMethod db es method of Row _ \<Rightarrow> True | _ \<Rightarrow> False))"

lemma validate_listed:
  "validateEffectivePaymentMethod db es code d = PaymentOK \<Longrightarrow> TrimSpace code = code \<Longrightarrow>
   (case st_PaymentMethod db es code of Row _ \<Rightarrow> True | _ \<Rightarrow> False)"
  by (auto simp: validateEffectivePaymentMethod_def split: if_splits dbResult.splits)

lemma rule_listed:
  "yields es (applyPatchPaymentMethodRule arak db body po)
     (\<lambda>res n. writes n = [] \<and> (case res of Inr m \<Rightarrow> patchListed db (es @ n) body m | Inl _ \<Rightarrow> True))"
proof -
  have v: "patchListed db es' body (put ''payment_method'' (Str meth) body)"
    if "resolvePaymentMethod db es' q provider = Some (meth, d)" "validateEffectivePaymentMethod db es' meth d = PaymentOK"
    for es' q provider meth d
    using that resolve_trimmed[OF that(1)] validate_listed[OF that(2)] by (auto simp: patchListed_def)
  show ?thesis
    unfolding applyPatchPaymentMethodRule_def Let_def
    by (auto intro!: yields_intros yields_fetchProvider v split: option.split paymentVerdict.split)
qed

lemma patchCurrency_body:
  assumes "decodeAllowedPatch r = Inr body0" "patchCurrency body0 = Some body"
  shows "fst ` set body \<subseteq> set patchAllowed" "body \<noteq> []"
    "has_key body ''currency'' \<Longrightarrow> case get body ''currency'' of Str s \<Rightarrow> s \<in> set allowedPOCurrencies | _ \<Rightarrow> False"
  using patch_keys[OF assms(1)] assms patchPOCurrency_allowed
  by (auto simp: patchCurrency_def put_keys patchAllowed_def decodeAllowedPatch_def Let_def put_def[of _ _ "[]"]
      split: if_splits option.splits) (auto simp: put_def)

lemma patch_plain:
  assumes "decodeAllowedPatch r = Inr body0" "patchCurrency body0 = Some body" "\<not> patchAffectsPaymentRule body"
  shows "patchValid h es i (sendJSON PATCH (poPath i) email (Obj body))"
  using patchCurrency_body[OF assms(1,2)] assms(3) by (simp add: patchValid_def sendJSON_def)

lemma patch_listed:
  assumes "decodeAllowedPatch r = Inr body0" "patchCurrency body0 = Some body" "ha_arakDB h = Some db" "patchListed db es body m"
  shows "patchValid h es i (sendJSON PATCH (poPath i) email (Obj m))"
proof -
  obtain meth where m: "m = put ''payment_method'' (Str meth) body"
      "case st_PaymentMethod db es meth of Row _ \<Rightarrow> True | _ \<Rightarrow> False"
    using assms(4) by (auto simp: patchListed_def)
  have k: "has_key m ''currency'' = has_key body ''currency''" "get m ''currency'' = get body ''currency''"
    "get m ''payment_method'' = Str meth" "m \<noteq> []"
    by (simp_all add: m(1) has_key_def put_keys) (simp add: put_def)
  show ?thesis
    using patchCurrency_body[OF assms(1,2)] assms(3) m(2) k
    by (simp add: patchValid_def sendJSON_def) (simp add: m(1) put_keys patchAllowed_def)
qed

definition patchOutcome :: "handler \<Rightarrow> event list \<Rightarrow> request \<Rightarrow> string \<Rightarrow> poDetail \<Rightarrow> event list \<Rightarrow> bool" where
  "patchOutcome h es r email po n =
     (case writes n of
        [] \<Rightarrow> True
      | [Call c] \<Rightarrow> isRequester po email \<and> po_State po = ''DRAFT'' \<and> patchValid h (es @ butlast n) (rq_ID r) c
      | _ \<Rightarrow> False)"

text \<open>C35: A draft is changed only by its requester, and only as allowed: anyone else, or another state, writes
  nothing; otherwise there is at most one write, a PATCH of this request with permitted fields only, an
  allowed currency if there is one, and, when provider or method change, a listed payment method.\<close>

theorem patch_is_restricted:
  assumes "ha_arak h = Some arak" "currentEmail r = Some email" "fetched h arak es email (rq_ID r) = Inr po"
  shows "patchOutcome h es r email po (effects (handlePatchPO h r) es)"
proof -
  have p: "ca_Method (sendJSON PATCH x e v) = PATCH" "ca_Path (sendJSON PATCH x e v) = x" "ca_Body (sendJSON PATCH x e v) = JSONBody v"
    for x e v by (simp_all add: sendJSON_def)
  have "yields es (handlePatchPO h r) (\<lambda>_. patchOutcome h es r email po)"
    unfolding handlePatchPO_def withArak_def withArakDB_def badRequest_def forbidden_def patchPO_def
    using assms
    by (auto simp: p butlast_append patchOutcome_def intro!: yields_loadPOForWrite yields_intros yields_mono[OF rule_listed]
        split: option.split sum.split paymentVerdict.split)
      (auto intro: patch_plain patch_listed)
  then show ?thesis by (rule yields_effects)
qed

theorem patch_is_restricted_witness:
  "patchOutcome (sampleHandler verificationDetail) [] (sampleRequest None) ''ada@cdlan.it'' (noPO\<lparr>po_State := ''PENDING_VERIFICATION''\<rparr>)
     (effects (handlePatchPO (sampleHandler verificationDetail) (sampleRequest None)) [])"
  using patch_is_restricted[OF sample_arak sample_email, of verificationDetail "[]" None] by (simp add: verification_fetched)

end
