(* ===== verification/RdaFollowUp.thy ===== *)
theory RdaFollowUp
  imports RdaSent
begin

text \<open>
  What follows a write: who is notified of a transition and of a mention, what a deletion does in
  each state, and the account a duplication gives of the rows it copied.
\<close>

section \<open>Approvers\<close>

text \<open>The addresses, up to case, that the current level of a request must reach.\<close>

definition levelApprovers :: "poDetail \<Rightarrow> string set" where
  "levelApprovers po =
     (\<lambda>a. ToLower (TrimSpace (ap_UserEmail a))) `
       set (filter (\<lambda>a. approverLevelMatches po a \<and> TrimSpace (ap_UserEmail a) \<noteq> '''') (po_Approvers po))"

lemma recipientLoop_spec:
  "distinct (map ToLower (recipientLoop po seen as)) \<and>
   ToLower ` set (recipientLoop po seen as) =
     (\<lambda>a. ToLower (TrimSpace (ap_UserEmail a))) `
       set (filter (\<lambda>a. approverLevelMatches po a \<and> TrimSpace (ap_UserEmail a) \<noteq> '''') as) - seen"
  by (induction as arbitrary: seen) (auto simp: Let_def)

text \<open>The approval is requested of exactly the approvers of the current level that have an address, each one
  once, whatever the case their addresses are written in.\<close>

theorem approval_recipients_exact:
  "distinct (map ToLower (rdaApprovalRecipients po)) \<and> ToLower ` set (rdaApprovalRecipients po) = levelApprovers po"
  using recipientLoop_spec[of po "{}" "po_Approvers po"] by (simp add: rdaApprovalRecipients_def levelApprovers_def)

section \<open>Notification of a transition\<close>

text \<open>What a transition does after its upstream call: nothing when the call was refused or nobody listens;
  else the pending notifications are resolved, the request is read again and, when it newly waits for
  an approval, one notification goes to the approvers.\<close>

definition transitionEvents :: "handler \<Rightarrow> request \<Rightarrow> string \<Rightarrow> string \<Rightarrow> poDetail option \<Rightarrow> reply \<Rightarrow> event list \<Rightarrow> event list" where
  "transitionEvents h r email poID previous rep es =
     (if \<not> accepted rep \<or> \<not> ha_notifier h then []
      else let resolve = Resolve rdaApprovalNotificationType rdaNotificationEntityType poID
           in [resolve, Call (getPO email poID '''')] @
              (case fetchedForNotifications h (es @ [resolve]) email poID of
                 None \<Rightarrow> []
               | Some po \<Rightarrow>
                   if shouldNotifyRDAApproval previous po \<and> poIDString (po_ID po) \<noteq> '''' then [Notify (approvalNotification h r po)] else []))"

lemma should_notify_recipients: "shouldNotifyRDAApproval previous po \<Longrightarrow> rdaApprovalRecipients po \<noteq> []"
  by (auto simp: shouldNotifyRDAApproval_def split: if_splits)

lemma yields_after:
  assumes "ha_arak h = Some arak" "accepted rep"
  shows "yields es (afterRDAWorkflowTransition h r email poID previous) (\<lambda>_ n. n = transitionEvents h r email poID previous rep es)"
  unfolding afterRDAWorkflowTransition_def notifyRDAApprovalRequested_def
  using assms(2)
  by (auto simp: transitionEvents_def Let_def should_notify_recipients intro!: yields_intros yields_fetchForNotifications[OF assms(1)]
      split: option.split)

text \<open>The notifications of a transition: none before its upstream call, none when that call failed, and
  after a successful one at most one, sent exactly when the request read back newly waits for approval.\<close>

theorem transition_notifies:
  assumes "ha_arak h = Some arak"
  shows "effects (forwardArakAfterSuccess arak c (afterRDAWorkflowTransition h r email poID previous)) es =
     Call c # transitionEvents h r email poID previous (arak es c) (es @ [Call c])"
proof -
  have "yields es (forwardArakAfterSuccess arak c (afterRDAWorkflowTransition h r email poID previous))
     (\<lambda>_ n. n = Call c # transitionEvents h r email poID previous (arak es c) (es @ [Call c]))"
    by (rule yields_forward) (auto simp: transitionEvents_def[of _ _ _ _ _ "arak es c"] intro: yields_mono[OF yields_after[OF assms]])
  then show ?thesis by (rule yields_effects)
qed

theorem transition_notifies_witness:
  "effects (forwardArakAfterSuccess (sampleArak []) (postTransition ''ada@cdlan.it'' ''7'' ''/submit'')
      (afterRDAWorkflowTransition (sampleHandler []) (sampleRequest None) ''ada@cdlan.it'' ''7'' None)) [] =
   [Call (postTransition ''ada@cdlan.it'' ''7'' ''/submit'')]"
  using transition_notifies[OF sample_arak[of "[]"], of "postTransition ''ada@cdlan.it'' ''7'' ''/submit''" "sampleRequest None"
      "''ada@cdlan.it''" "''7''" None "[]"]
  by (simp add: transitionEvents_def sampleHandler_def)

section \<open>Mentions\<close>

text \<open>The user is entitled to the notification of a mention, as this recipient.\<close>

definition mentionable :: "handler \<Rightarrow> event list \<Rightarrow> string \<Rightarrow> string \<Rightarrow> recipient \<Rightarrow> commentMentionUser \<Rightarrow> bool" where
  "mentionable h es author comment rc m =
     (let email = TrimSpace (mu_Email m)
      in 0 < mu_ID m \<and> rdaCommentHasMentionToken comment email \<and> (ha_notifySelfMentions h \<or> \<not> EqualFold email author) \<and>
         (case ha_arakDB h of None \<Rightarrow> False | Some db \<Rightarrow> lookupEnabledMentionRecipient db es (mu_ID m) email = Some rc))"

lemma mentionLoop_sound:
  "ha_arakDB h = Some db \<Longrightarrow> rc \<in> set (mentionLoop h db es author comment seen requested) \<Longrightarrow>
   \<exists>m\<in>set requested. mentionable h es author comment rc m"
  by (induction requested arbitrary: seen) (auto simp: mentionable_def Let_def split: if_splits option.splits)

text \<open>Nobody is told of a mention who was not mentioned: every recipient is an existing, enabled user of the
  request, whose address follows an at sign in the comment, and not its author unless configured so.\<close>

theorem mention_recipients_sound:
  "list_all (\<lambda>rc. list_ex (mentionable h es author comment rc) requested) (rdaCommentMentionRecipients h es author comment requested)"
  by (cases "ha_arakDB h") (auto simp: rdaCommentMentionRecipients_def list_all_iff list_ex_iff dest: mentionLoop_sound)

section \<open>Deletion\<close>

text \<open>The notifications that a deletion resolves: those of the approval and of the mentions of the request.\<close>

definition deletionNotices :: "handler \<Rightarrow> string \<Rightarrow> event list" where
  "deletionNotices h poID =
     (if ha_notifier h
      then map (\<lambda>t. Resolve t rdaNotificationEntityType (TrimSpace poID)) [rdaApprovalNotificationType, rdaCommentMentionNotificationType]
      else [])"

lemma deleteNotifications_exact: "yields es (resolveRDADeleteNotifications h i) (\<lambda>_ n. n = deletionNotices h i)"
  by (auto simp: resolveRDADeleteNotifications_def deletionNotices_def intro!: yields_intros)

text \<open>The cancellation in the database succeeded and found the request.\<close>

definition cancelled :: "handler \<Rightarrow> event list \<Rightarrow> int \<Rightarrow> bool" where
  "cancelled h es i = (case Option.bind (ha_arakDB h) (\<lambda>db. st_Delete db es i) of None \<Rightarrow> False | Some n \<Rightarrow> n \<noteq> 0)"

text \<open>What a deletion may do: by its requester only, in a deletable state only; a draft goes upstream, any other
  request is cancelled in the database, and the notifications are resolved exactly when this succeeded, after it.\<close>

definition deleteOutcome ::
  "handler \<Rightarrow> (event list \<Rightarrow> call \<Rightarrow> reply) \<Rightarrow> event list \<Rightarrow> request \<Rightarrow> string \<Rightarrow> poDetail \<Rightarrow> response \<Rightarrow> event list \<Rightarrow> bool" where
  "deleteOutcome h arak es r email po res n =
     (let loaded = Call (getPO email (rq_ID r) ''''); es' = es @ [loaded]
      in case writes n of
        [] \<Rightarrow> n = [loaded] \<and> rs_Status res \<noteq> 200
      | [Call c] \<Rightarrow> isRequester po email \<and> po_State po = ''DRAFT'' \<and> ca_Method c = DELETE \<and> ca_Path c = poPath (rq_ID r) \<and>
          n = [loaded, Call c] @ (if accepted (arak es' c) then deletionNotices h (rq_ID r) else [])
      | [DirectDelete i] \<Rightarrow> isRequester po email \<and> isRequesterDeleteState (po_State po) \<and> po_State po \<noteq> ''DRAFT'' \<and>
          ParseInt (TrimSpace (rq_ID r)) = (i, True) \<and> 0 < i \<and>
          n = [loaded, DirectDelete i] @ (if cancelled h es' i then deletionNotices h (rq_ID r) else []) \<and>
          (rs_Status res = 200 \<longleftrightarrow> cancelled h es' i)
      | _ \<Rightarrow> False)"

lemma notices_write_nothing [simp]: "writes (deletionNotices h i) = []"
  by (simp add: deletionNotices_def)

text \<open>C36: A request is deleted only by its requester, and only before it goes to the supplier: a draft by one
  upstream DELETE of this request, a submitted one by one cancellation of its id in the database; anything
  else writes nothing. The notifications of the request are resolved after the deletion and only when it
  succeeded: not when upstream refuses the DELETE, nor when the cancellation fails or affects no row,
  and a cancellation is answered 200 exactly when it succeeded.\<close>

theorem delete_is_guarded:
  assumes "ha_arak h = Some arak" "currentEmail r = Some email" "fetched h arak es email (rq_ID r) = Inr po"
  shows "deleteOutcome h arak es r email po (fst (run_state (handleDeletePO h r) es)) (effects (handleDeletePO h r) es)"
proof -
  have "yields es (handleDeletePO h r) (deleteOutcome h arak es r email po)"
    unfolding handleDeletePO_def withArak_def withArakDB_def forbidden_def
    using assms
    by (auto simp: deleteOutcome_def cancelled_def Let_def intro!: yields_loadPOForWrite yields_forward yields_intros
        yields_mono[OF deleteNotifications_exact] split: option.split prod.split)
  then show ?thesis by (rule yields_effects)
qed

text \<open>A request that waits for its approval is cancelled by its requester.\<close>

definition ownDetail :: fields where
  "ownDetail = [(''state'', Str ''PENDING_APPROVAL''), (''requester'', Obj [(''email'', Str ''ada@cdlan.it'')])]"

theorem delete_is_guarded_witness:
  "\<exists>po. deleteOutcome (sampleHandler ownDetail) (sampleArak ownDetail) [] (sampleRequest None) ''ada@cdlan.it'' po
     (fst (run_state (handleDeletePO (sampleHandler ownDetail) (sampleRequest None)) []))
     (effects (handleDeletePO (sampleHandler ownDetail) (sampleRequest None)) []) \<and>
     writes (effects (handleDeletePO (sampleHandler ownDetail) (sampleRequest None)) []) = [DirectDelete 7]"
proof -
  let ?p = "handleDeletePO (sampleHandler ownDetail) (sampleRequest None)"
  have "case decodePO False (Obj ownDetail) of None \<Rightarrow> False | Some po \<Rightarrow>
      isRequester po ''ada@cdlan.it'' \<and> isRequesterDeleteState (po_State po) \<and> po_State po = ''PENDING_APPROVAL''" by code_simp
  then obtain po where po: "decodePO False (Obj ownDetail) = Some po" "isRequester po ''ada@cdlan.it''" "isRequesterDeleteState (po_State po)"
    "po_State po = ''PENDING_APPROVAL''" by (auto split: option.splits)
  have f: "fetched (sampleHandler ownDetail) (sampleArak ownDetail) es email ''7'' = Inr po" for es email
    using po(1) by (simp add: sample_fetched normalizePODetailRows_def get_Cons ownDetail_def)
  have i: "ParseInt (TrimSpace ''7'') = (7, True)" by code_simp
  have "yields [] ?p (\<lambda>_ n. writes n = [DirectDelete 7])"
    unfolding handleDeletePO_def withArak_def withArakDB_def
    using po f i by (auto simp: sampleStore_def intro!: yields_loadPOForWrite yields_intros yields_mono[OF deleteNotifications_exact])
  then have "writes (effects ?p []) = [DirectDelete 7]" by (rule yields_effects)
  then show ?thesis using delete_is_guarded[OF sample_arak sample_email, of ownDetail "[]" None po] f by (intro exI[of _ po]) simp
qed

section \<open>Duplication\<close>

text \<open>The upstream calls that copy rows: one per row that has a valid payload, in order.\<close>

definition rowCopies :: "string \<Rightarrow> string \<Rightarrow> raw list \<Rightarrow> event list" where
  "rowCopies email newPOID rows =
     map (\<lambda>payload. Call (rowRequest email newPOID (buildRowCreateBody payload email)))
       (List.map_filter cloneRowPayloadFromSource rows)"

lemma copyLoop_account:
  "yields es (copyLoop arak email newPOID (c, s) rows)
     (\<lambda>(c', s') n. c' + s' = c + s + length rows \<and> s \<le> s' \<and> n = rowCopies email newPOID rows)"
proof (induction rows arbitrary: es c s)
  case (Cons r rows)
  show ?case
  proof (cases "cloneRowPayloadFromSource r")
    case None
    then show ?thesis
      by (auto simp: rowCopies_def List.map_filter_simps intro!: yields_mono[OF Cons.IH])
  next
    case (Some payload)
    then show ?thesis
      by (auto simp: rowCopies_def List.map_filter_simps intro!: yields_intros yields_mono[OF Cons.IH])
  qed
qed (simp add: rowCopies_def List.map_filter_simps yields_return)

text \<open>A duplication accounts for every row of its source: the copied and the skipped ones together are all of
  them, each copyable row is sent exactly once and in the order of the source, and there is a warning
  exactly when a row was skipped.\<close>

theorem copied_rows_accounted:
  "(case run_state (copyPORows arak email newPOID rows) es of
      ((copied_rows, skipped, warnings), es') \<Rightarrow>
        copied_rows + skipped = length rows \<and> es' = es @ rowCopies email newPOID rows \<and> (warnings = [] \<longleftrightarrow> skipped = 0))"
proof -
  have "yields es (copyPORows arak email newPOID rows)
     (\<lambda>(c, s, ws) n. c + s = length rows \<and> n = rowCopies email newPOID rows \<and> (ws = [] \<longleftrightarrow> s = 0))"
    unfolding copyPORows_def by (auto intro!: yields_bind yields_mono[OF copyLoop_account] yields_return split: if_splits)
  then show ?thesis by (auto simp: yields_def split: prod.splits)
qed

text \<open>An upstream call that changes the rows or the recipients of this request.\<close>

definition onRequest :: "int \<Rightarrow> event \<Rightarrow> bool" where
  "onRequest i e \<longleftrightarrow>
     (case e of
        Call c \<Rightarrow> ca_Path c = poPath (FormatInt i) @ ''/row'' \<or> ca_Path c = poPath (FormatInt i) @ ''/recipients''
      | _ \<Rightarrow> False)"

lemma rowCopies_on: "list_all (onRequest i) (rowCopies email (FormatInt i) rows)"
  by (simp add: rowCopies_def list_all_iff onRequest_def rowRequest_def sendJSON_def)

lemma recipients_on: "yields es (copyPORecipients arak email (FormatInt i) rs) (\<lambda>_ n. list_all (onRequest i) n)"
  unfolding copyPORecipients_def Let_def
  by (auto simp: onRequest_def recipientsRequest_def sendJSON_def intro!: yields_intros)

lemma rows_on: "yields es (copyPORows arak email (FormatInt i) rows) (\<lambda>_ n. list_all (onRequest i) n)"
  unfolding copyPORows_def by (auto simp: rowCopies_on intro!: yields_bind yields_mono[OF copyLoop_account] yields_return)

lemma copyInto_on: "yields es (copyInto arak email req source ws i) (\<lambda>_ n. list_all (onRequest i) n)"
  unfolding copyInto_def
  by (auto intro!: yields_bind yields_mono[OF rows_on] yields_mono[OF recipients_on] yields_return)

text \<open>The request that a successful creation returned.\<close>

definition createdID :: "reply \<Rightarrow> int option" where
  "createdID rep =
     (case rep of Failed \<Rightarrow> None | Reply status _ b \<Rightarrow> if successful status \<and> by_OK b then poIDInt64FromResponse (by_JSON b) else None)"

text \<open>What a duplication may write: nothing, or the creation of a request, followed only by writes on the request
  that this creation returned.\<close>

definition cloneOutcome :: "(event list \<Rightarrow> call \<Rightarrow> reply) \<Rightarrow> event list \<Rightarrow> event list \<Rightarrow> bool" where
  "cloneOutcome arak es n =
     (case writes n of
        [] \<Rightarrow> True
      | Call c # rest \<Rightarrow>
          ca_Method c = POST \<and> ca_Path c = arakRDARoot @ ''/po'' \<and>
          (case createdID (arak (es @ takeWhile (\<lambda>e. \<not> mutating e) n) c) of
             None \<Rightarrow> rest = [] | Some i \<Rightarrow> list_all (onRequest i) rest)
      | _ \<Rightarrow> False)"

lemma cloneOutcome_reads: "writes p = [] \<Longrightarrow> cloneOutcome arak (es @ p) n \<Longrightarrow> cloneOutcome arak es (p @ n)"
proof -
  assume p: "writes p = []" and n: "cloneOutcome arak (es @ p) n"
  have t: "takeWhile (\<lambda>e. \<not> mutating e) (p @ n) = p @ takeWhile (\<lambda>e. \<not> mutating e) n"
    using p by (induction p) (auto split: if_splits)
  show ?thesis using n unfolding cloneOutcome_def t append_assoc writes_simps p append_Nil .
qed

lemma createClone_outcome: "yields es (createClone arak email req source body ws) (\<lambda>_. cloneOutcome arak es)"
proof -
  have w: "list_all (onRequest i) (writes n)" if "list_all (onRequest i) n" for i n
    using that by (auto simp: writes_def list_all_iff)
  show ?thesis
    unfolding createClone_def
    by (auto simp: cloneOutcome_def createdID_def sendJSON_def w intro!: yields_intros yields_mono[OF copyInto_on]
        split: reply.split option.split)
qed

text \<open>C34: A duplication never touches its source: it writes nothing, or first creates a request, and every further
  write is on the rows or the recipients of the request this creation returned; when the creation fails
  or returns no id there is no further write.\<close>

theorem clone_leaves_its_source:
  assumes "ha_arak h = Some arak"
  shows "cloneOutcome arak es (effects (handleClonePO h r) es)"
proof -
  have r: "cloneOutcome arak es' []" for es' by (simp add: cloneOutcome_def)
  have p: "yields es' (fetchProviderForCreate arak i) (\<lambda>_ n. writes n = [])" for es' i
    by (auto simp: fetchProviderForCreate_def plainGet_def intro!: yields_intros)
  have b: "yields es' (State_Monad.bind m f) (\<lambda>_. cloneOutcome arak es')"
    if "yields es' m (\<lambda>_ n. writes n = [])" "\<And>a es''. yields es'' (f a) (\<lambda>_. cloneOutcome arak es'')"
    for es' and m :: "'a prog" and f :: "'a \<Rightarrow> response prog"
    by (auto intro!: yields_bind yields_mono[OF that(1)] yields_mono[OF that(2)] cloneOutcome_reads)
  have f: "yields es' (fetchPODetail h arak email i) (\<lambda>_ n. writes n = [])" for es' email i
    by (intro yields_intros) simp
  have hi: "yields es' history (\<lambda>_ n. writes n = [])" for es' by (intro yields_intros) simp
  have "yields es (handleClonePO h r) (\<lambda>_. cloneOutcome arak es)"
    unfolding handleClonePO_def withArak_def withEmail_def badRequest_def withArakDB_def
    using assms
    by (auto simp: r intro!: b f p hi createClone_outcome yields_return
        split: option.split sum.split cloneError.split paymentVerdict.split prod.split)
  then show ?thesis by (rule yields_effects)
qed

theorem clone_leaves_its_source_witness:
  "cloneOutcome (sampleArak verificationDetail) [] (effects (handleClonePO (sampleHandler verificationDetail) (sampleRequest None)) [])"
  by (rule clone_leaves_its_source[OF sample_arak])

end
