(* ===== verification/ArakClient.thy ===== *)
theory ArakClient
  imports RdaAccess "HOL-Library.Word"
begin

text \<open>
  The client of the upstream service (\<open>platform/arak/client.go\<close>): a service-account token kept until
  thirty seconds before it expires, and up to two repetitions of a request that upstream answers with
  401, each with a new token. The servers, the clock and the checks of \<open>http.NewRequest\<close> are parameters,
  the servers and the clock arbitrary functions of the requests sent so far.
\<close>

section \<open>Requests and state\<close>

type_synonym headers = "(string \<times> string list) list"

record httpRequest =
  hq_Method :: string
  hq_URL :: string
  hq_Header :: headers
  hq_Body :: "string option"

record config =
  cf_BaseURL :: string
  cf_TokenURL :: string
  cf_ClientID :: string
  cf_ClientSecret :: string

text \<open>The cached token and its expiry, in nanoseconds since 1970.\<close>

record client =
  ak_accessToken :: string
  ak_expiry :: int

record env =
  en_config :: config
  en_serve :: "httpRequest list \<Rightarrow> httpRequest \<Rightarrow> reply"
  en_clock :: "httpRequest list \<Rightarrow> int"
  en_accepts :: "string \<Rightarrow> string \<Rightarrow> bool"

datatype clientError =
  TokenRequestInvalid | TokenRequestFailed | TokenStatus int string | TokenUndecodable
  | BodyUnreadable | RequestInvalid | TransportFailed | RetriesExhausted

type_synonym 'a action = "(client \<times> httpRequest list, 'a) state"

definition maxUnauthorizedRetries :: nat where "maxUnauthorizedRetries = 2"

definition second :: int where "second = 10 ^ 9"

text \<open>The zero \<open>time.Time\<close>: the first of January of year 1.\<close>

definition zeroTime :: int where "zeroTime = - 62135596800 * 10 ^ 9"

definition send :: "env \<Rightarrow> httpRequest \<Rightarrow> reply action" where
  "send env rq = State (\<lambda>(c, h). (en_serve env h rq, (c, h @ [rq])))"

definition modify :: "(client \<Rightarrow> client) \<Rightarrow> unit action" where
  "modify f = State (\<lambda>(c, h). ((), (f c, h)))"

definition look :: "(client \<times> httpRequest list) action" where
  "look = State (\<lambda>s. (s, s))"

lemma run_actions [simp]:
  "run_state (send env rq) (c, h) = (en_serve env h rq, (c, h @ [rq]))"
  "run_state (modify f) (c, h) = ((), (f c, h))" "run_state look s = (s, s)"
  by (simp_all add: send_def modify_def look_def)

lemma run_action_bind [simp]: "run_state (State_Monad.bind m f) (s :: client \<times> httpRequest list) = (case run_state m s of (a, s') \<Rightarrow> run_state (f a) s')"
  by (simp add: State_Monad.bind_def)

lemma run_action_return [simp]: "run_state (State_Monad.return a) (s :: client \<times> httpRequest list) = (a, s)"
  by (simp add: State_Monad.return_def)

section \<open>The token\<close>

definition tokenRequest :: "config \<Rightarrow> httpRequest" where
  "tokenRequest cfg =
     \<lparr>hq_Method = ''POST'', hq_URL = cf_TokenURL cfg, hq_Header = [(''Content-Type'', [''application/x-www-form-urlencoded''])],
      hq_Body = Some (Encode [(''grant_type'', [''client_credentials'']), (''client_id'', [cf_ClientID cfg]),
        (''client_secret'', [cf_ClientSecret cfg])])\<rparr>"

definition setToken :: "string \<Rightarrow> any \<Rightarrow> string \<times> int \<Rightarrow> (string \<times> int) option" where
  "setToken k v t =
     (if EqualFold k ''access_token'' then asString (\<lambda>s. (s, snd t)) v t
      else if EqualFold k ''expires_in'' then asInt (\<lambda>i. (fst t, i)) v t
      else Some t)"

definition decodeToken :: "any option \<Rightarrow> (string \<times> int) option" where
  "decodeToken body = Option.bind body (\<lambda>v. decodeStruct setToken v ('''', 0))"

text \<open>\<open>time.Duration(seconds) * time.Second\<close>: a product of 64-bit integers.\<close>

definition lifetime :: "int \<Rightarrow> int" where
  "lifetime seconds = sint (word_of_int seconds * word_of_int second :: 64 word)"

definition reusable :: "env \<Rightarrow> client \<Rightarrow> httpRequest list \<Rightarrow> bool" where
  "reusable env c h \<longleftrightarrow> ak_accessToken c \<noteq> '''' \<and> en_clock env h < ak_expiry c - 30 * second"

definition token :: "env \<Rightarrow> (clientError + string) action" where
  "token env =
     do {
       (c, h) \<leftarrow> look;
       if reusable env c h then State_Monad.return (Inr (ak_accessToken c))
       else if \<not> en_accepts env ''POST'' (cf_TokenURL (en_config env)) then State_Monad.return (Inl TokenRequestInvalid)
       else do {
         r \<leftarrow> send env (tokenRequest (en_config env));
         case r of
           Failed \<Rightarrow> State_Monad.return (Inl TokenRequestFailed)
         | Reply status _ b \<Rightarrow>
             if status \<noteq> 200 then State_Monad.return (Inl (TokenStatus status (by_Text b)))
             else case decodeToken (by_JSON b) of
               None \<Rightarrow> State_Monad.return (Inl TokenUndecodable)
             | Some (t, seconds) \<Rightarrow>
                 do {
                   (_, h') \<leftarrow> look;
                   modify (\<lambda>c. c\<lparr>ak_accessToken := t, ak_expiry := en_clock env h' + lifetime seconds\<rparr>);
                   State_Monad.return (Inr t)
                 }
       }
     }"

definition invalidateToken :: "unit action" where
  "invalidateToken = modify (\<lambda>c. c\<lparr>ak_accessToken := '''', ak_expiry := zeroTime\<rparr>)"

section \<open>A request with its retries\<close>

definition headerGet :: "headers \<Rightarrow> string \<Rightarrow> string" where
  "headerGet hs k = (case map_of hs k of Some (v # _) \<Rightarrow> v | _ \<Rightarrow> '''')"

definition copyHeaders :: "headers \<Rightarrow> headers \<Rightarrow> headers" where
  "copyHeaders src dst = fold (\<lambda>(k, vs). AList.update k vs) src dst"

definition fullURL :: "config \<Rightarrow> string \<Rightarrow> string \<Rightarrow> string" where
  "fullURL cfg path query = TrimRight (cf_BaseURL cfg) ''/'' @ path @ (if query = '''' then '''' else ''?'' @ query)"

definition apiRequest :: "config \<Rightarrow> string \<Rightarrow> string \<Rightarrow> string \<Rightarrow> string option \<Rightarrow> headers \<Rightarrow> string \<Rightarrow> httpRequest" where
  "apiRequest cfg method' path query body headers tok =
     (let hs = copyHeaders headers [(''Authorization'', [''Bearer '' @ tok]), (''Accept'', [''application/json''])];
          hs' = (if body \<noteq> None \<and> headerGet hs ''Content-Type'' = ''''
                 then AList.update ''Content-Type'' [''application/json''] hs else hs)
      in \<lparr>hq_Method = method', hq_URL = fullURL cfg path query, hq_Header = hs', hq_Body = body\<rparr>)"

text \<open>The attempts that are left; the last one returns whatever upstream answers.\<close>

fun attemptLoop :: "env \<Rightarrow> (string \<Rightarrow> httpRequest) \<Rightarrow> nat \<Rightarrow> (clientError + int \<times> header \<times> content) action" where
  "attemptLoop env mk 0 = State_Monad.return (Inl RetriesExhausted)"
| "attemptLoop env mk (Suc n) =
     do {
       tok \<leftarrow> token env;
       case tok of
         Inl e \<Rightarrow> State_Monad.return (Inl e)
       | Inr t \<Rightarrow>
           if \<not> en_accepts env (hq_Method (mk t)) (hq_URL (mk t)) then State_Monad.return (Inl RequestInvalid)
           else do {
             r \<leftarrow> send env (mk t);
             case r of
               Failed \<Rightarrow> State_Monad.return (Inl TransportFailed)
             | Reply status hdr b \<Rightarrow>
                 if status \<noteq> 401 \<or> n = 0 then State_Monad.return (Inr (status, hdr, b))
                 else do { invalidateToken; attemptLoop env mk n }
           }
     }"

text \<open>The body is read once; the flag tells whether this succeeds.\<close>

definition DoWithHeaders :: "env \<Rightarrow> string \<Rightarrow> string \<Rightarrow> string \<Rightarrow> (string \<times> bool) option \<Rightarrow> headers \<Rightarrow>
    (clientError + int \<times> header \<times> content) action" where
  "DoWithHeaders env method' path query body headers =
     (case body of
        Some (_, False) \<Rightarrow> State_Monad.return (Inl BodyUnreadable)
      | _ \<Rightarrow> attemptLoop env (apiRequest (en_config env) method' path query (map_option fst body) headers)
               (maxUnauthorizedRetries + 1))"

section \<open>What a request sends\<close>

text \<open>The replies to a list of requests sent one after the other.\<close>

fun repliesTo :: "env \<Rightarrow> httpRequest list \<Rightarrow> httpRequest list \<Rightarrow> reply list" where
  "repliesTo env h [] = []"
| "repliesTo env h (r # rs) = en_serve env h r # repliesTo env (h @ [r]) rs"

definition unauthorized :: "reply \<Rightarrow> bool" where
  "unauthorized r = (case r of Reply status _ _ \<Rightarrow> status = 401 | Failed \<Rightarrow> False)"

text \<open>The requests other than those for a token, with their replies.\<close>

definition apiReplies :: "env \<Rightarrow> httpRequest list \<Rightarrow> httpRequest list \<Rightarrow> reply list" where
  "apiReplies env h new =
     map snd (filter (\<lambda>(r, _). r \<noteq> tokenRequest (en_config env)) (zip new (repliesTo env h new)))"

text \<open>What a request with n attempts left may send and return: requests for a token and requests made with
  one, never two of a kind in a row; all requests of the latter kind but the last were answered 401,
  and what is returned is the last answer, a 401 only after the last attempt.\<close>

definition exchange :: "env \<Rightarrow> (string \<Rightarrow> httpRequest) \<Rightarrow> nat \<Rightarrow> httpRequest list \<Rightarrow> clientError + int \<times> header \<times> content \<Rightarrow>
    httpRequest list \<Rightarrow> bool" where
  "exchange env mk n h res new \<longleftrightarrow>
     (let rs = apiReplies env h new; isToken = (\<lambda>r. r = tokenRequest (en_config env))
      in set new \<subseteq> insert (tokenRequest (en_config env)) (range mk) \<and>
         successively (\<lambda>a b. isToken a \<noteq> isToken b) new \<and>
         length rs \<le> n \<and> length (filter isToken new) \<le> n \<and> list_all unauthorized (butlast rs) \<and>
         (case res of
            Inl e \<Rightarrow> e \<noteq> RetriesExhausted
          | Inr (status, hdr, b) \<Rightarrow> rs \<noteq> [] \<and> last rs = Reply status hdr b \<and> (if status = 401 then length rs = n else True)))"

lemma length_repliesTo [simp]: "length (repliesTo env h rs) = length rs"
  by (induction rs arbitrary: h) auto

lemma repliesTo_append: "repliesTo env h (a @ b) = repliesTo env h a @ repliesTo env (h @ a) b"
  by (induction a arbitrary: h) auto

lemma apiReplies_append: "apiReplies env h (a @ b) = apiReplies env h a @ apiReplies env (h @ a) b"
  by (simp add: apiReplies_def repliesTo_append)

lemma apiReplies_simps:
  "apiReplies env h [] = []" "apiReplies env h (tokenRequest (en_config env) # rs) = apiReplies env (h @ [tokenRequest (en_config env)]) rs"
  "r \<noteq> tokenRequest (en_config env) \<Longrightarrow> apiReplies env h (r # rs) = en_serve env h r # apiReplies env (h @ [r]) rs"
  by (simp_all add: apiReplies_def)

text \<open>A token comes from the cache, or costs one request and replaces the cache.\<close>

lemma token_cases:
  obtains "reusable env c h" "run_state (token env) (c, h) = (Inr (ak_accessToken c), (c, h))"
  | e where "\<not> reusable env c h" "run_state (token env) (c, h) = (Inl e, (c, h))" "e \<noteq> RetriesExhausted"
  | e where "\<not> reusable env c h" "run_state (token env) (c, h) = (Inl e, (c, h @ [tokenRequest (en_config env)]))" "e \<noteq> RetriesExhausted"
  | t i hdr b where "\<not> reusable env c h" "en_serve env h (tokenRequest (en_config env)) = Reply 200 hdr b"
      "decodeToken (by_JSON b) = Some (t, i)"
      "run_state (token env) (c, h) = (Inr t, (c\<lparr>ak_accessToken := t,
         ak_expiry := en_clock env (h @ [tokenRequest (en_config env)]) + lifetime i\<rparr>, h @ [tokenRequest (en_config env)]))"
proof (cases "reusable env c h")
  case True
  then show ?thesis using that(1) by (simp add: token_def)
next
  case False
  show ?thesis
  proof (cases "en_serve env h (tokenRequest (en_config env))")
    case Failed
    then show ?thesis using False that(2,3) by (cases "en_accepts env ''POST'' (cf_TokenURL (en_config env))") (auto simp: token_def)
  next
    case (Reply status hdr b)
    then show ?thesis
      using False that(2,3,4)
      by (cases "en_accepts env ''POST'' (cf_TokenURL (en_config env))"; cases "status = 200"; cases "decodeToken (by_JSON b)")
        (auto simp: token_def)
  qed
qed

lemma invalidate_run [simp]: "run_state invalidateToken (c, h) = ((), (c\<lparr>ak_accessToken := '''', ak_expiry := zeroTime\<rparr>, h))"
  by (simp add: invalidateToken_def)

lemma exchange_token:
  assumes "\<And>t. mk t \<noteq> tokenRequest (en_config env)" "exchange env mk (Suc n) (h @ [tokenRequest (en_config env)]) res new"
    "new = [] \<or> hd new \<noteq> tokenRequest (en_config env)" "length (filter (\<lambda>r. r = tokenRequest (en_config env)) new) \<le> n"
  shows "exchange env mk (Suc n) h res (tokenRequest (en_config env) # new)"
  using assms unfolding exchange_def Let_def by (cases new) (auto simp: apiReplies_simps split: sum.splits)

definition emptyToken :: "client \<Rightarrow> bool" where
  "emptyToken c \<longleftrightarrow> ak_accessToken c = ''''"

text \<open>One attempt with a token in hand, and what follows it.\<close>

lemma attempt_exchange:
  assumes mk: "\<And>t. mk t \<noteq> tokenRequest (en_config env)"
    and IH: "\<And>c h. 0 < n \<Longrightarrow> \<exists>new. snd (snd (run_state (attemptLoop env mk n) (c, h))) = h @ new \<and>
        exchange env mk n h (fst (run_state (attemptLoop env mk n) (c, h))) new \<and>
        (emptyToken c \<longrightarrow> new = [] \<or> hd new = tokenRequest (en_config env))"
    and run: "(if \<not> en_accepts env (hq_Method (mk t)) (hq_URL (mk t)) then State_Monad.return (Inl RequestInvalid)
           else do {
             r \<leftarrow> send env (mk t);
             case r of
               Failed \<Rightarrow> State_Monad.return (Inl TransportFailed)
             | Reply status hdr b \<Rightarrow>
                 if status \<noteq> 401 \<or> n = 0 then State_Monad.return (Inr (status, hdr, b))
                 else do { invalidateToken; attemptLoop env mk n }
           }) = m"
  shows "\<exists>new. snd (snd (run_state m (c, h))) = h @ new \<and> exchange env mk (Suc n) h (fst (run_state m (c, h))) new \<and>
    (new = [] \<or> hd new \<noteq> tokenRequest (en_config env)) \<and> length (filter (\<lambda>r. r = tokenRequest (en_config env)) new) \<le> n"
proof (cases "\<not> en_accepts env (hq_Method (mk t)) (hq_URL (mk t))")
  case True
  then show ?thesis unfolding run[symmetric] by (auto simp: exchange_def apiReplies_simps intro!: exI[of _ "[]"])
next
  case ok: False
  show ?thesis
  proof (cases "en_serve env h (mk t)")
    case Failed
    then show ?thesis using ok mk
      unfolding run[symmetric] by (auto simp: exchange_def apiReplies_simps intro!: exI[of _ "[mk t]"])
  next
    case (Reply status hdr b)
    show ?thesis
    proof (cases "status \<noteq> 401 \<or> n = 0")
      case True
      then show ?thesis using ok mk Reply
        unfolding run[symmetric] by (auto simp: exchange_def apiReplies_simps intro!: exI[of _ "[mk t]"])
    next
      case False
      let ?c = "c\<lparr>ak_accessToken := '''', ak_expiry := zeroTime\<rparr>" and ?h = "h @ [mk t]"
      let ?r = "run_state (attemptLoop env mk n) (?c, ?h)"
      have m: "run_state m (c, h) = ?r" using ok Reply False unfolding run[symmetric] by simp
      obtain new where new: "snd (snd ?r) = ?h @ new" "exchange env mk n ?h (fst ?r) new" "new = [] \<or> hd new = tokenRequest (en_config env)"
        using IH[of ?c ?h] False by (auto simp: emptyToken_def)
      have "exchange env mk (Suc n) h (fst ?r) (mk t # new)"
        using new(2,3) mk Reply False unfolding exchange_def Let_def
        by (cases new) (auto simp: apiReplies_simps unauthorized_def split: sum.splits)
      moreover have "length (filter (\<lambda>r. r = tokenRequest (en_config env)) (mk t # new)) \<le> n"
        using new(2) mk by (simp add: exchange_def Let_def)
      ultimately show ?thesis unfolding m using new(1) mk by (intro exI[of _ "mk t # new"]) simp
    qed
  qed
qed

lemma attemptLoop_exchange:
  assumes mk: "\<And>t. mk t \<noteq> tokenRequest (en_config env)" and "0 < n"
  shows "\<exists>new. snd (snd (run_state (attemptLoop env mk n) (c, h))) = h @ new \<and>
    exchange env mk n h (fst (run_state (attemptLoop env mk n) (c, h))) new \<and>
    (emptyToken c \<longrightarrow> new = [] \<or> hd new = tokenRequest (en_config env))"
  using assms(2)
proof (induction n arbitrary: c h)
  case (Suc n)
  note att = attempt_exchange[OF mk Suc.IH refl]
  show ?case
  proof (cases rule: token_cases[of env c h])
    case 1
    then have "\<not> emptyToken c" by (simp add: reusable_def emptyToken_def)
    then show ?thesis using att[of "ak_accessToken c" c h] 1(2) by auto
  next
    case (2 e)
    then show ?thesis by (auto simp: exchange_def apiReplies_simps)
  next
    case (3 e)
    then show ?thesis by (auto simp: exchange_def apiReplies_simps)
  next
    case (4 t i hdr b)
    let ?c = "c\<lparr>ak_accessToken := t, ak_expiry := en_clock env (h @ [tokenRequest (en_config env)]) + lifetime i\<rparr>"
    obtain new where "snd (snd (run_state (attemptLoop env mk (Suc n)) (c, h))) = (h @ [tokenRequest (en_config env)]) @ new"
      "exchange env mk (Suc n) (h @ [tokenRequest (en_config env)]) (fst (run_state (attemptLoop env mk (Suc n)) (c, h))) new"
      "new = [] \<or> hd new \<noteq> tokenRequest (en_config env)" "length (filter (\<lambda>r. r = tokenRequest (en_config env)) new) \<le> n"
      using att[of t ?c "h @ [tokenRequest (en_config env)]"] 4(4) by auto
    then show ?thesis using exchange_token[OF mk]
      by (intro exI[of _ "tokenRequest (en_config env) # new"]) auto
  qed
qed simp

lemma map_of_update_other: "map_of m k \<noteq> None \<Longrightarrow> map_of (AList.update k' v m) k \<noteq> None"
  by (simp add: update_conv')

lemma copyHeaders_keeps: "map_of dst k \<noteq> None \<Longrightarrow> map_of (copyHeaders src dst) k \<noteq> None"
  unfolding copyHeaders_def
  by (induction src arbitrary: dst) (auto simp: update_conv' map_of_update_other)

lemma apiRequest_authorized: "map_of (hq_Header (apiRequest cfg m p q body hs t)) ''Authorization'' \<noteq> None"
proof -
  have "map_of (copyHeaders hs [(''Authorization'', [''Bearer '' @ t]), (''Accept'', [''application/json''])]) ''Authorization'' \<noteq> None"
    by (rule copyHeaders_keeps) simp
  then show ?thesis by (simp add: apiRequest_def Let_def update_conv')
qed

lemma apiRequest_no_token: "apiRequest cfg m p q body hs t \<noteq> tokenRequest cfg'"
  using apiRequest_authorized[of cfg m p q body hs t] by (auto simp: tokenRequest_def)

text \<open>C32: A request is sent at most three times, each time with a token, and again only after a 401; no two sends
  without a new token in between; the caller gets the last answer, and a 401 only after all three
  attempts. In particular a write that upstream answered with anything else is never repeated.\<close>

theorem repeated_only_after_401:
  "(case run_state (DoWithHeaders env m p q body hs) (c, h) of (res, (c', h')) \<Rightarrow>
      take (length h) h' = h \<and>
      exchange env (apiRequest (en_config env) m p q (map_option fst body) hs) 3 h res (drop (length h) h'))"
proof -
  let ?mk = "apiRequest (en_config env) m p q (map_option fst body) hs"
  have none: "exchange env ?mk 3 h (Inl BodyUnreadable) []" by (simp add: exchange_def apiReplies_simps)
  obtain new where "snd (snd (run_state (attemptLoop env ?mk 3) (c, h))) = h @ new"
    "exchange env ?mk 3 h (fst (run_state (attemptLoop env ?mk 3) (c, h))) new"
    using attemptLoop_exchange[of ?mk env 3 c h] apiRequest_no_token by (auto simp: numeral_3_eq_3)
  then have "case run_state (attemptLoop env ?mk 3) (c, h) of (res, (c', h')) \<Rightarrow>
      take (length h) h' = h \<and> exchange env ?mk 3 h res (drop (length h) h')"
    by (auto split: prod.split)
  moreover have "DoWithHeaders env m p q body hs = (if \<exists>t. body = Some (t, False) then State_Monad.return (Inl BodyUnreadable) else attemptLoop env ?mk 3)"
    by (simp add: DoWithHeaders_def maxUnauthorizedRetries_def numeral_3_eq_3 del: attemptLoop.simps split: option.split bool.split)
  ultimately show ?thesis using none by (simp del: attemptLoop.simps)
qed

section \<open>The lifetime of a token\<close>

lemma lifetime_product: "lifetime s = (s * 10 ^ 9 + 2 ^ 63) mod 2 ^ 64 - 2 ^ 63"
proof -
  have "lifetime s = sint (word_of_int (s * second) :: 64 word)" by (simp only: lifetime_def wi_hom_mult)
  also have "\<dots> = signed_take_bit 63 (s * second)" by (simp only: sint_sbintrunc') simp
  finally show ?thesis by (simp add: signed_take_bit_eq_take_bit_shift take_bit_eq_mod second_def)
qed

text \<open>After a token was issued it serves every request until thirty seconds before its announced end, without
  another call: as long as the announced seconds, times a billion, fit in 64 bits. A longer life wraps
  around, and with a negative result the token is never reused.\<close>

theorem token_reuse_window:
  assumes "\<not> reusable env c h" "en_accepts env ''POST'' (cf_TokenURL (en_config env))"
    "en_serve env h (tokenRequest (en_config env)) = Reply 200 hdr b" "decodeToken (by_JSON b) = Some (t, s)" "t \<noteq> ''''"
  shows "case run_state (token env) (c, h) of (res, (c', h')) \<Rightarrow>
    res = Inr t \<and> h' = h @ [tokenRequest (en_config env)] \<and> ak_accessToken c' = t \<and>
    ak_expiry c' = en_clock env h' + ((s * 10 ^ 9 + 2 ^ 63) mod 2 ^ 64 - 2 ^ 63) \<and>
    (if en_clock env h2 < ak_expiry c' - 30 * 10 ^ 9 then run_state (token env) (c', h2) = (Inr t, (c', h2)) else \<not> reusable env c' h2)"
proof -
  let ?h = "h @ [tokenRequest (en_config env)]"
  let ?c = "c\<lparr>ak_accessToken := t, ak_expiry := en_clock env ?h + lifetime s\<rparr>"
  have "run_state (token env) (c, h) = (Inr t, (?c, ?h))"
    using assms by (simp add: token_def)
  moreover have "reusable env ?c h2 \<longleftrightarrow> en_clock env h2 < ak_expiry ?c - 30 * second"
    using assms(5) by (simp add: reusable_def)
  moreover have "reusable env ?c h2 \<Longrightarrow> run_state (token env) (?c, h2) = (Inr t, (?c, h2))"
    by (simp add: token_def)
  ultimately show ?thesis by (auto simp: lifetime_product second_def)
qed

definition tokenContent :: "string \<Rightarrow> string \<Rightarrow> content" where
  "tokenContent t seconds = \<lparr>by_Text = '''', by_JSON = Some (Obj [(''access_token'', Str t), (''expires_in'', Number seconds)]), by_OK = True\<rparr>"

definition noClient :: client where
  "noClient = \<lparr>ak_accessToken = '''', ak_expiry = zeroTime\<rparr>"

text \<open>A token endpoint that issues the same token for five minutes, and an API that rejects everything.\<close>

definition refusingEnv :: env where
  "refusingEnv = \<lparr>en_config = \<lparr>cf_BaseURL = ''https://gw/'', cf_TokenURL = ''https://id/token'', cf_ClientID = ''svc'', cf_ClientSecret = ''s''\<rparr>,
     en_serve = (\<lambda>_ r. if hq_URL r = ''https://id/token'' then Reply 200 jsonType (tokenContent ''t1'' ''300'')
                       else Reply 401 jsonType \<lparr>by_Text = '''', by_JSON = None, by_OK = True\<rparr>),
     en_clock = (\<lambda>h. int (length h) * 10 ^ 9), en_accepts = (\<lambda>_ _. True)\<rparr>"

lemma decode_sample_token: "decodeToken (by_JSON (tokenContent ''t1'' ''300'')) = Some (''t1'', 300)"
proof -
  have "ParseInt ''300'' = (300, True)" by code_simp
  then show ?thesis
    by (simp add: tokenContent_def decodeToken_def decodeStruct_def setToken_def asString_def asInt_def EqualFold_def ToUpper_def
        to_upper_def is_lower_def less_eq_char_def)
qed

theorem token_reuse_window_witness:
  "run_state (token refusingEnv) (noClient, []) =
     (Inr ''t1'', (\<lparr>ak_accessToken = ''t1'', ak_expiry = 301 * 10 ^ 9\<rparr>, [tokenRequest (en_config refusingEnv)]))"
proof -

  have "en_serve refusingEnv [] (tokenRequest (en_config refusingEnv)) = Reply 200 jsonType (tokenContent ''t1'' ''300'')"
    "en_accepts refusingEnv ''POST'' (cf_TokenURL (en_config refusingEnv))" "\<not> reusable refusingEnv noClient []"
    "en_clock refusingEnv [tokenRequest (en_config refusingEnv)] = 10 ^ 9"
    by (simp_all add: refusingEnv_def tokenRequest_def reusable_def noClient_def)
  then show ?thesis
    using token_reuse_window[OF _ _ _ decode_sample_token, of refusingEnv noClient "[]" jsonType "[]"]
    by (auto simp: noClient_def split: prod.splits intro!: client.equality)
qed

section \<open>Concurrent requests\<close>

text \<open>
  Handlers run in goroutines that share one client. Acquiring a token holds the mutex, invalidating it
  too; the request itself is sent without it. A task is where a goroutine is in its loop, with the
  attempts left after this one; the requests of task i are made by \<open>mk i\<close>.
\<close>

datatype task = Start nat | Holding nat string | Rejected nat | Finished "clientError + int \<times> header \<times> content"

type_synonym world = "client \<times> httpRequest list \<times> (nat \<Rightarrow> task)"

inductive client_step :: "env \<Rightarrow> (nat \<Rightarrow> string \<Rightarrow> httpRequest) \<Rightarrow> world \<Rightarrow> world \<Rightarrow> bool" for env mk where
  acquire: "ts i = Start n \<Longrightarrow> run_state (token env) (c, h) = (Inr t, (c', h')) \<Longrightarrow>
    client_step env mk (c, h, ts) (c', h', ts(i := Holding n t))"
| no_token: "ts i = Start n \<Longrightarrow> run_state (token env) (c, h) = (Inl e, (c', h')) \<Longrightarrow>
    client_step env mk (c, h, ts) (c', h', ts(i := Finished (Inl e)))"
| invalid: "ts i = Holding n t \<Longrightarrow> \<not> en_accepts env (hq_Method (mk i t)) (hq_URL (mk i t)) \<Longrightarrow>
    client_step env mk (c, h, ts) (c, h, ts(i := Finished (Inl RequestInvalid)))"
| unanswered: "ts i = Holding n t \<Longrightarrow> en_accepts env (hq_Method (mk i t)) (hq_URL (mk i t)) \<Longrightarrow> en_serve env h (mk i t) = Failed \<Longrightarrow>
    client_step env mk (c, h, ts) (c, h @ [mk i t], ts(i := Finished (Inl TransportFailed)))"
| answered: "ts i = Holding n t \<Longrightarrow> en_accepts env (hq_Method (mk i t)) (hq_URL (mk i t)) \<Longrightarrow>
    en_serve env h (mk i t) = Reply status hdr b \<Longrightarrow> status \<noteq> 401 \<or> n = 0 \<Longrightarrow>
    client_step env mk (c, h, ts) (c, h @ [mk i t], ts(i := Finished (Inr (status, hdr, b))))"
| rejected: "ts i = Holding (Suc n) t \<Longrightarrow> en_accepts env (hq_Method (mk i t)) (hq_URL (mk i t)) \<Longrightarrow>
    en_serve env h (mk i t) = Reply 401 hdr b \<Longrightarrow>
    client_step env mk (c, h, ts) (c, h @ [mk i t], ts(i := Rejected n))"
| invalidate: "ts i = Rejected n \<Longrightarrow> run_state invalidateToken (c, h) = (u, (c', h')) \<Longrightarrow>
    client_step env mk (c, h, ts) (c', h', ts(i := Start n))"

inductive_cases client_stepE: "client_step env mk (c, h, ts) w"

text \<open>The tokens that the endpoint issued within a list of requests.\<close>

definition issued :: "env \<Rightarrow> httpRequest list \<Rightarrow> string set" where
  "issued env h =
     {t. \<exists>k hdr b i. k < length h \<and> h ! k = tokenRequest (en_config env) \<and>
        en_serve env (take k h) (tokenRequest (en_config env)) = Reply 200 hdr b \<and> decodeToken (by_JSON b) = Some (t, i)}"

text \<open>With the one cached at the start.\<close>

definition known :: "env \<Rightarrow> string \<Rightarrow> httpRequest list \<Rightarrow> string set" where
  "known env t0 h = insert t0 (issued env h)"

lemma known_start: "t0 \<in> known env t0 h"
  by (simp add: known_def)

lemma known_mono: "t \<in> known env t0 h \<Longrightarrow> t \<in> known env t0 (h @ r)"
  by (fastforce simp: known_def issued_def nth_append)

lemma known_now:
  "en_serve env h (tokenRequest (en_config env)) = Reply 200 hdr b \<Longrightarrow> decodeToken (by_JSON b) = Some (t, i) \<Longrightarrow>
   t \<in> known env t0 (h @ [tokenRequest (en_config env)])"
  unfolding known_def issued_def by (auto intro!: exI[of _ "length h"])

text \<open>Each request of a history is one for a token, or carries a token of the start or one issued before it.\<close>

definition allAuthorized :: "env \<Rightarrow> (nat \<Rightarrow> string \<Rightarrow> httpRequest) \<Rightarrow> string \<Rightarrow> httpRequest list \<Rightarrow> bool" where
  "allAuthorized env mk t0 h \<longleftrightarrow>
     (\<forall>k < length h. h ! k = tokenRequest (en_config env) \<or> (\<exists>i. \<exists>t \<in> known env t0 (take k h). h ! k = mk i t))"

definition client_inv :: "env \<Rightarrow> (nat \<Rightarrow> string \<Rightarrow> httpRequest) \<Rightarrow> string \<Rightarrow> world \<Rightarrow> bool" where
  "client_inv env mk t0 w \<longleftrightarrow>
     (case w of (c, h, ts) \<Rightarrow>
        allAuthorized env mk t0 h \<and> (\<not> emptyToken c \<longrightarrow> ak_accessToken c \<in> known env t0 h) \<and>
        (\<forall>i n t. ts i = Holding n t \<longrightarrow> t \<in> known env t0 h))"

lemma allAuthorized_snoc:
  "allAuthorized env mk t0 (h @ [r]) \<longleftrightarrow> allAuthorized env mk t0 h \<and>
     (r = tokenRequest (en_config env) \<or> (\<exists>i. \<exists>t \<in> known env t0 h. r = mk i t))"
  unfolding allAuthorized_def by (auto simp: less_Suc_eq nth_append)

lemma client_inv_holding: "client_inv env mk t0 (c, h, ts) \<Longrightarrow> ts i = Holding n t \<Longrightarrow> t \<in> known env t0 h"
  by (auto simp: client_inv_def)

lemma client_inv_send:
  assumes "client_inv env mk t0 (c, h, ts)" "ts i = Holding n t" "\<And>m u. s \<noteq> Holding m u"
  shows "client_inv env mk t0 (c, h @ [mk i t], ts(i := s))"
proof -
  have "\<exists>j. \<exists>u \<in> known env t0 h. mk i t = mk j u" using client_inv_holding[OF assms(1,2)] by blast
  then show ?thesis using assms by (auto simp: client_inv_def allAuthorized_snoc intro: known_mono)
qed

lemma client_inv_token:
  assumes "client_inv env mk t0 (c, h, ts)" "run_state (token env) (c, h) = (res, (c', h'))"
  shows "client_inv env mk t0 (c', h', ts) \<and> (case res of Inr t \<Rightarrow> t \<in> known env t0 h' | Inl _ \<Rightarrow> True)"
proof (cases rule: token_cases[of env c h])
  case 1
  then show ?thesis using assms by (auto simp: client_inv_def reusable_def emptyToken_def)
next
  case (2 e)
  then show ?thesis using assms by simp
next
  case (3 e)
  then show ?thesis using assms by (auto simp: client_inv_def allAuthorized_snoc intro: known_mono)
next
  case (4 t i hdr b)
  then show ?thesis using assms known_now[OF 4(2,3), of t0]
    by (auto simp: client_inv_def allAuthorized_snoc intro: known_mono)
qed

lemma client_inv_update: "client_inv env mk t0 (c, h, ts) \<Longrightarrow> (\<And>m u. s = Holding m u \<Longrightarrow> u \<in> known env t0 h) \<Longrightarrow>
    client_inv env mk t0 (c, h, ts(i := s))"
  by (auto simp: client_inv_def)

lemma client_inv_step: "client_step env mk w w' \<Longrightarrow> client_inv env mk t0 w \<Longrightarrow> client_inv env mk t0 w'"
proof (induction rule: client_step.induct)
  case (acquire ts i n c h t c' h')
  then show ?case using client_inv_token[OF acquire(3,2)] by (intro client_inv_update) auto
next
  case (no_token ts i n c h e c' h')
  then show ?case using client_inv_token[OF no_token(3,2)] by (intro client_inv_update) auto
next
  case (invalidate ts i n c h u c' h')
  then show ?case by (auto simp: client_inv_def emptyToken_def)
qed (auto intro: client_inv_send client_inv_update)

lemma client_inv_reachable: "(client_step env mk)\<^sup>*\<^sup>* w w' \<Longrightarrow> client_inv env mk t0 w \<Longrightarrow> client_inv env mk t0 w'"
  by (induction rule: rtranclp_induct) (auto intro: client_inv_step)

text \<open>However requests interleave, each one is sent with a token that the endpoint issued before it, or with
  the one cached at the start.\<close>

theorem requests_carry_issued_tokens:
  assumes "(client_step env mk)\<^sup>*\<^sup>* (c0, [], \<lambda>_. Start maxUnauthorizedRetries) (c, h, ts)"
  shows "allAuthorized env mk (ak_accessToken c0) h"
proof -
  have "client_inv env mk (ak_accessToken c0) (c0, [], \<lambda>_. Start maxUnauthorizedRetries)"
    by (simp add: client_inv_def allAuthorized_def known_start)
  then show ?thesis using client_inv_reachable[OF assms] by (simp add: client_inv_def)
qed

text \<open>The steps a task can still take.\<close>

fun steps_left :: "task \<Rightarrow> nat" where
  "steps_left (Start n) = 3 * n + 3"
| "steps_left (Holding n t) = 3 * n + 2"
| "steps_left (Rejected n) = 3 * n + 4"
| "steps_left (Finished r) = 0"

definition total_left :: "nat \<Rightarrow> (nat \<Rightarrow> task) \<Rightarrow> nat" where
  "total_left k ts = (\<Sum>i < k. steps_left (ts i))"

lemma total_left_update: "i < k \<Longrightarrow> steps_left s < steps_left (ts i) \<Longrightarrow> total_left k (ts(i := s)) < total_left k ts"
  unfolding total_left_def by (rule sum_strict_mono_ex1) auto

definition onlyFirst :: "nat \<Rightarrow> (nat \<Rightarrow> task) \<Rightarrow> bool" where
  "onlyFirst k ts \<longleftrightarrow> (\<forall>i \<ge> k. steps_left (ts i) = 0)"

lemma step_decreases:
  assumes "client_step env mk (c, h, ts) (c', h', ts')" "onlyFirst k ts"
  shows "total_left k ts' < total_left k ts \<and> onlyFirst k ts'"
proof -
  have first: "i < k" if "steps_left (ts i) \<noteq> 0" for i
    using assms(2) that by (meson not_le onlyFirst_def)
  have upd: "total_left k (ts(i := s)) < total_left k ts \<and> onlyFirst k (ts(i := s))"
    if "steps_left s < steps_left (ts i)" for i s
    using that first[of i] total_left_update[of i k s ts] assms(2) by (auto simp: onlyFirst_def)
  show ?thesis
    using assms(1) by (elim client_stepE) (auto intro!: upd)
qed

lemma onlyFirst_run: "(client_step env mk ^^ s) (c, h, ts) (c', h', ts') \<Longrightarrow> onlyFirst k ts \<Longrightarrow> onlyFirst k ts'"
  by (induction s arbitrary: c' h' ts') (simp, metis prod_cases3 relpowp_Suc_E step_decreases)

lemma steps_bounded:
  "(client_step env mk ^^ s) (c, h, ts) (c', h', ts') \<Longrightarrow> onlyFirst k ts \<Longrightarrow> s + total_left k ts' \<le> total_left k ts"
proof (induction s arbitrary: c' h' ts')
  case (Suc s)
  obtain c1 h1 ts1 where w: "(client_step env mk ^^ s) (c, h, ts) (c1, h1, ts1)" "client_step env mk (c1, h1, ts1) (c', h', ts')"
    using Suc.prems(1) by (metis prod_cases3 relpowp_Suc_E)
  show ?case using Suc.IH[OF w(1) Suc.prems(2)] step_decreases[OF w(2) onlyFirst_run[OF w(1) Suc.prems(2)]] by linarith
qed simp

text \<open>A request that has no result yet can take its next step, whatever the servers answer, and this step is its own.\<close>

definition over :: "task \<Rightarrow> bool" where
  "over t = (case t of Finished r \<Rightarrow> True | _ \<Rightarrow> False)"

lemma over_steps: "over t \<longleftrightarrow> steps_left t = 0"
  by (cases t) (simp_all add: over_def)

definition canMove :: "env \<Rightarrow> (nat \<Rightarrow> string \<Rightarrow> httpRequest) \<Rightarrow> world \<Rightarrow> nat \<Rightarrow> bool" where
  "canMove env mk w i = (case w of (c, h, ts) \<Rightarrow>
     \<exists>c' h' t. steps_left t < steps_left (ts i) \<and> client_step env mk (c, h, ts) (c', h', ts(i := t)))"

lemma canMoveI: "client_step env mk (c, h, ts) (c', h', ts(i := t)) \<Longrightarrow> steps_left t < steps_left (ts i) \<Longrightarrow> canMove env mk (c, h, ts) i"
  by (auto simp: canMove_def)

lemma progress:
  assumes "\<not> over (ts i)"
  shows "canMove env mk (c, h, ts) i"
proof (cases "ts i")
  case (Start n)
  obtain res c' h' where r: "run_state (token env) (c, h) = (res, (c', h'))" by (metis prod_cases3)
  then show ?thesis
    by (cases res) (use client_step.no_token[of ts i n env c h _ c' h' mk] client_step.acquire[of ts i n env c h _ c' h' mk] Start
      in \<open>auto intro!: canMoveI\<close>)
next
  case (Holding n t)
  show ?thesis
  proof (cases "en_accepts env (hq_Method (mk i t)) (hq_URL (mk i t))")
    case False
    then show ?thesis using Holding by (intro canMoveI[OF client_step.invalid[where ts = ts and i = i]]) auto
  next
    case ok: True
    show ?thesis
    proof (cases "en_serve env h (mk i t)")
      case Failed
      then show ?thesis using ok Holding by (intro canMoveI[OF client_step.unanswered[where ts = ts and i = i]]) auto
    next
      case (Reply status hdr b)
      show ?thesis
      proof (cases "status = 401 \<and> n \<noteq> 0")
        case True
        then obtain m where "n = Suc m" "status = 401" by (cases n) auto
        then show ?thesis using ok Reply Holding by (intro canMoveI[OF client_step.rejected[where ts = ts and i = i]]) auto
      next
        case False
        then show ?thesis using ok Reply Holding by (intro canMoveI[OF client_step.answered[where ts = ts and i = i]]) auto
      qed
    qed
  qed
next
  case (Rejected n)
  obtain u c' h' where "run_state invalidateToken (c, h) = (u, (c', h'))" by (metis prod_cases3)
  then show ?thesis using Rejected by (intro canMoveI[OF client_step.invalidate[where ts = ts and i = i]]) auto
qed (use assms in \<open>simp add: over_def\<close>)

lemma all_finish:
  "onlyFirst k ts \<Longrightarrow> \<exists>n c' h' ts'. (client_step env mk ^^ n) (c, h, ts) (c', h', ts') \<and> (\<forall>i. over (ts' i))"
proof (induction "total_left k ts" arbitrary: c h ts rule: less_induct)
  case less
  show ?case
  proof (cases "\<forall>i. over (ts i)")
    case True
    then show ?thesis by (intro exI[of _ 0]) auto
  next
    case False
    then obtain i where "\<not> over (ts i)" by blast
    from progress[of ts i env mk c h, OF this] obtain c1 h1 t where
      s: "client_step env mk (c, h, ts) (c1, h1, ts(i := t))" by (auto simp: canMove_def)
    then obtain n c' h' ts' where n: "(client_step env mk ^^ n) (c1, h1, ts(i := t)) (c', h', ts')" "\<forall>i. over (ts' i)"
      using less(1)[of "ts(i := t)" c1 h1] step_decreases[OF s less(2)] by blast
    have "(client_step env mk ^^ Suc n) (c, h, ts) (c', h', ts')" by (rule relpowp_Suc_I2[where y = "(c1, h1, ts(i := t))"]) (rule s, rule n(1))
    then show ?thesis using n(2) by blast
  qed
qed

text \<open>C33: k concurrent requests end, in every interleaving and whatever the servers answer: they take at most nine steps each
  (the retries cannot keep each other going), at every point a request that has no result yet can take its next
  step (so a run that cannot go on has all its results), and from every point some continuation within the same bound
  gives every request its result.\<close>

theorem concurrent_requests_end:
  assumes "(client_step env mk ^^ s) (c0, [], \<lambda>i. if i < k then Start maxUnauthorizedRetries else Finished (Inl BodyUnreadable)) (c, h, ts)"
  shows "s \<le> 9 * k \<and> (\<forall>i. over (ts i) \<or> canMove env mk (c, h, ts) i) \<and>
    (\<exists>n c' h' ts'. s + n \<le> 9 * k \<and> (client_step env mk ^^ n) (c, h, ts) (c', h', ts') \<and> (\<forall>i. over (ts' i)))"
proof -
  let ?ts = "\<lambda>i. if i < k then Start maxUnauthorizedRetries else Finished (Inl BodyUnreadable)"
  have l: "total_left k ?ts = 9 * k" by (simp add: total_left_def maxUnauthorizedRetries_def)
  have f: "onlyFirst k ?ts" by (simp add: onlyFirst_def)
  have bound: "m \<le> 9 * k" if "(client_step env mk ^^ m) (c0, [], ?ts) (c', h', ts')" for m c' h' ts'
    using steps_bounded[OF that f] l by simp
  obtain n c' h' ts' where n: "(client_step env mk ^^ n) (c, h, ts) (c', h', ts')" "\<forall>i. over (ts' i)"
    using all_finish[OF onlyFirst_run[OF assms f]] by blast
  have "(client_step env mk ^^ (s + n)) (c0, [], ?ts) (c', h', ts')"
    unfolding relpowp_add relcompp_apply using assms n(1) by blast
  then show ?thesis using bound[of "s + n"] bound[OF assms] n progress by blast
qed

definition sampleMake :: "nat \<Rightarrow> string \<Rightarrow> httpRequest" where
  "sampleMake i = apiRequest (en_config refusingEnv) ''GET'' ''/arak/rda/v1/po'' '''' None []"

lemma two_sample_steps:
  assumes "ts 0 = Start 2"
  shows "\<exists>c ts'. (client_step refusingEnv sampleMake ^^ 2) (noClient, [], ts)
    (c, [tokenRequest (en_config refusingEnv), sampleMake 0 ''t1''], ts')"
proof -
  let ?h = "[tokenRequest (en_config refusingEnv)]"
  obtain c where c: "run_state (token refusingEnv) (noClient, []) = (Inr ''t1'', (c, ?h))"
    using decode_sample_token
    by (auto simp: token_def reusable_def noClient_def refusingEnv_def tokenRequest_def)
  have "client_step refusingEnv sampleMake (noClient, [], ts) (c, ?h, ts(0 := Holding 2 ''t1''))"
    by (rule client_step.acquire[of ts 0, OF assms c])
  moreover have "en_serve refusingEnv ?h (sampleMake 0 ''t1'') = Reply 401 jsonType \<lparr>by_Text = '''', by_JSON = None, by_OK = True\<rparr>"
    by (simp add: refusingEnv_def sampleMake_def apiRequest_def fullURL_def TrimRight_def)
  then have "client_step refusingEnv sampleMake (c, ?h, ts(0 := Holding 2 ''t1''))
      (c, ?h @ [sampleMake 0 ''t1''], (ts(0 := Holding 2 ''t1''))(0 := Rejected 1))"
    by (intro client_step.rejected) (simp_all add: numeral_2_eq_2, simp add: refusingEnv_def)
  ultimately have "(client_step refusingEnv sampleMake ^^ Suc (Suc 0)) (noClient, [], ts)
      (c, ?h @ [sampleMake 0 ''t1''], (ts(0 := Holding 2 ''t1''))(0 := Rejected 1))"
    by (intro relpowp_Suc_I) auto
  then show ?thesis by (auto simp: numeral_2_eq_2)
qed

theorem requests_carry_issued_tokens_witness:
  "allAuthorized refusingEnv sampleMake '''' [tokenRequest (en_config refusingEnv), sampleMake 0 ''t1'']"
proof -
  obtain c ts where "(client_step refusingEnv sampleMake ^^ 2) (noClient, [], \<lambda>_. Start maxUnauthorizedRetries)
      (c, [tokenRequest (en_config refusingEnv), sampleMake 0 ''t1''], ts)"
    using two_sample_steps[of "\<lambda>_. Start maxUnauthorizedRetries"] by (auto simp: maxUnauthorizedRetries_def)
  then show ?thesis
    using requests_carry_issued_tokens[of refusingEnv sampleMake noClient, OF relpowp_imp_rtranclp] by (simp add: noClient_def)
qed

text \<open>Three requests, of which the first was refused once: the others and its retry end within 27 steps.\<close>

theorem concurrent_requests_end_witness:
  "\<exists>c ts n c' h' ts'. (client_step refusingEnv sampleMake ^^ 2)
       (noClient, [], \<lambda>i. if i < 3 then Start maxUnauthorizedRetries else Finished (Inl BodyUnreadable))
       (c, [tokenRequest (en_config refusingEnv), sampleMake 0 ''t1''], ts) \<and>
     2 + n \<le> (27 :: nat) \<and> (client_step refusingEnv sampleMake ^^ n) (c, [tokenRequest (en_config refusingEnv), sampleMake 0 ''t1''], ts) (c', h', ts') \<and>
     (\<forall>i. over (ts' i))"
proof -
  obtain c ts where w: "(client_step refusingEnv sampleMake ^^ 2)
      (noClient, [], \<lambda>i. if i < 3 then Start maxUnauthorizedRetries else Finished (Inl BodyUnreadable))
      (c, [tokenRequest (en_config refusingEnv), sampleMake 0 ''t1''], ts)"
    using two_sample_steps[of "\<lambda>i. if i < 3 then Start maxUnauthorizedRetries else Finished (Inl BodyUnreadable)"]
    by (auto simp: maxUnauthorizedRetries_def)
  from concurrent_requests_end[OF w] obtain n c' h' ts' where
    "2 + n \<le> 9 * 3" "(client_step refusingEnv sampleMake ^^ n) (c, [tokenRequest (en_config refusingEnv), sampleMake 0 ''t1''], ts) (c', h', ts')"
    "\<forall>i. over (ts' i)" by blast
  then show ?thesis using w by (intro exI[of _ c] exI[of _ ts] exI[of _ n] exI[of _ c'] exI[of _ h'] exI[of _ ts'] conjI) simp_all
qed

section \<open>A request alone is a run\<close>

lemma step_then:
  "client_step env mk (c, h, ts(i := a)) (c1, h1, ts(i := b)) \<Longrightarrow> (client_step env mk)\<^sup>*\<^sup>* (c1, h1, ts(i := b)) w \<Longrightarrow>
   (client_step env mk)\<^sup>*\<^sup>* (c, h, ts(i := a)) w"
  by (rule converse_rtranclp_into_rtranclp)

lemma task_step:
  assumes "client_step env mk (c, h, ts(i := a)) (c', h', (ts(i := a))(i := b))"
  shows "client_step env mk (c, h, ts(i := a)) (c', h', ts(i := b))"
  using assms by simp

lemma holding_run:
  assumes IH: "\<And>m c h. n = Suc m \<Longrightarrow> case run_state (attemptLoop env (mk i) (Suc m)) (c, h) of (res, (c', h')) \<Rightarrow>
      (client_step env mk)\<^sup>*\<^sup>* (c, h, ts(i := Start m)) (c', h', ts(i := Finished res))"
    and tok: "run_state (token env) (c0, h0) = (Inr t, (c, h))"
  shows "case run_state (attemptLoop env (mk i) (Suc n)) (c0, h0) of (res, (c', h')) \<Rightarrow>
      (client_step env mk)\<^sup>*\<^sup>* (c, h, ts(i := Holding n t)) (c', h', ts(i := Finished res))"
proof (cases "en_accepts env (hq_Method (mk i t)) (hq_URL (mk i t))")
  case False
  then show ?thesis using tok by (auto intro!: r_into_rtranclp task_step[OF client_step.invalid])
next
  case ok: True
  show ?thesis
  proof (cases "en_serve env h (mk i t)")
    case Failed
    then show ?thesis using tok ok by (auto intro!: r_into_rtranclp task_step[OF client_step.unanswered])
  next
    case (Reply status hdr b)
    show ?thesis
    proof (cases "status = 401 \<and> 0 < n")
      case False
      then show ?thesis using tok ok Reply by (auto intro!: r_into_rtranclp task_step[OF client_step.answered])
    next
      case True
      then obtain m where n: "n = Suc m" by (cases n) auto
      let ?c = "c\<lparr>ak_accessToken := '''', ak_expiry := zeroTime\<rparr>" and ?h = "h @ [mk i t]"
      have "client_step env mk (c, h, ts(i := Holding n t)) (c, ?h, ts(i := Rejected m))"
        using ok Reply True n by (intro task_step[OF client_step.rejected]) auto
      moreover have "client_step env mk (c, ?h, ts(i := Rejected m)) (?c, ?h, ts(i := Start m))"
        by (intro task_step[OF client_step.invalidate]) auto
      moreover have "run_state (attemptLoop env (mk i) (Suc n)) (c0, h0) = run_state (attemptLoop env (mk i) n) (?c, ?h)"
        using tok ok Reply True unfolding attemptLoop.simps(2)[of env "mk i" n] by (simp del: attemptLoop.simps)
      ultimately show ?thesis using IH[OF n, of ?c ?h, folded n] by (auto intro: step_then)
    qed
  qed
qed

text \<open>The loop is one of the interleavings: a request of one goroutine, run alone, is a sequence of steps of
  the concurrent system that ends with its result, the same requests sent and the same client.\<close>

theorem loop_is_a_run:
  "(case run_state (attemptLoop env (mk i) (Suc n)) (c, h) of (res, (c', h')) \<Rightarrow>
      (client_step env mk)\<^sup>*\<^sup>* (c, h, ts(i := Start n)) (c', h', ts(i := Finished res)))"
proof (induction n arbitrary: c h rule: nat_less_induct)
  case (1 n)
  obtain tok c1 h1 where tok: "run_state (token env) (c, h) = (tok, (c1, h1))" by (metis prod_cases3)
  show ?case
  proof (cases tok)
    case (Inl e)
    have "client_step env mk (c, h, ts(i := Start n)) (c1, h1, ts(i := Finished (Inl e)))"
      using tok Inl by (intro task_step[OF client_step.no_token]) auto
    then have "(client_step env mk)\<^sup>*\<^sup>* (c, h, ts(i := Start n)) (c1, h1, ts(i := Finished (Inl e)))"
      by (rule r_into_rtranclp)
    moreover have "run_state (attemptLoop env (mk i) (Suc n)) (c, h) = (Inl e, (c1, h1))" using tok Inl by simp
    ultimately show ?thesis by (simp only: prod.case)
  next
    case (Inr t)
    have "client_step env mk (c, h, ts(i := Start n)) (c1, h1, ts(i := Holding n t))"
      using tok Inr by (intro task_step[OF client_step.acquire]) auto
    moreover have "case run_state (attemptLoop env (mk i) (Suc n)) (c, h) of (res, (c', h')) \<Rightarrow>
        (client_step env mk)\<^sup>*\<^sup>* (c1, h1, ts(i := Holding n t)) (c', h', ts(i := Finished res))"
      by (rule holding_run[OF _ tok[unfolded Inr]]) (rule 1[rule_format], simp)
    ultimately show ?thesis
      by (cases "run_state (attemptLoop env (mk i) (Suc n)) (c, h)") (auto simp del: attemptLoop.simps fun_upd_apply intro: step_then)
  qed
qed

end
