(* ===== verification/RaenadDecimal.thy ===== *)
theory RaenadDecimal
  imports GoNumbers
begin

text \<open>
  The amounts of quotes (\<open>raenad/decimal.go\<close>): a text typed by a user is normalised for a
  \<open>numeric(18,4)\<close> column without ever becoming a float.
\<close>

section \<open>Normalisation\<close>

definition allASCIIDigits :: "string \<Rightarrow> bool" where
  "allASCIIDigits value = list_all is_digit value"

definition allZeroes :: "string \<Rightarrow> bool" where
  "allZeroes value = list_all (\<lambda>c. c = CHR ''0'') value"

text \<open>\<open>strings.Split\<close> on one character.\<close>

fun split_on :: "char \<Rightarrow> string \<Rightarrow> string list" where
  "split_on sep [] = [[]]"
| "split_on sep (c # cs) =
     (if c = sep then [] # split_on sep cs
      else case split_on sep cs of p # ps \<Rightarrow> (c # p) # ps | [] \<Rightarrow> [[c]])"

text \<open>The rewriting before the checks: commas, a final point, a missing leading zero.\<close>

definition withoutFinalPoint :: "string \<Rightarrow> string" where
  "withoutFinalPoint s = (if count_list s (CHR ''.'') = 1 \<and> last s = CHR ''.'' then butlast s else s)"

definition withLeadingZero :: "string \<Rightarrow> string" where
  "withLeadingZero s =
     (if HasPrefix s ''.'' then ''0'' @ s else if HasPrefix s ''-.'' then ''-0'' @ tl s else s)"

text \<open>The digits without leading zeros, at least one.\<close>

definition trimZeroes :: "string \<Rightarrow> string" where
  "trimZeroes s = (case dropWhile (\<lambda>c. c = CHR ''0'') s of [] \<Rightarrow> ''0'' | t \<Rightarrow> t)"

text \<open>The checks and the printing, for the sign and the text after it.\<close>

definition unsignedDecimal :: "bool \<Rightarrow> string \<Rightarrow> string option" where
  "unsignedDecimal neg s =
     (if s = '''' \<or> CHR ''-'' \<in> set s then None
      else let parts = split_on (CHR ''.'') s; intPart = hd parts
           in if 2 < length parts then None
              else if intPart = '''' \<or> \<not> allASCIIDigits intPart then None
              else let fracPart = (if length parts = 2 then parts ! 1 else '''');
                       badFrac = (length parts = 2 \<and> (fracPart = '''' \<or> 4 < length fracPart \<or> \<not> allASCIIDigits fracPart));
                       whole = trimZeroes intPart
                   in if badFrac then None
                      else if 14 < length whole then None
                      else let sign = (if neg \<and> \<not> (whole = ''0'' \<and> allZeroes fracPart) then ''-'' else '''')
                           in Some (sign @ whole @ (if fracPart \<noteq> '''' then ''.'' @ fracPart else '''')))"

text \<open>The outcome: an error, no value (SQL NULL), or the normalised text.\<close>

definition normalizeDecimal18_4 :: "string option \<Rightarrow> (string option) option" where
  "normalizeDecimal18_4 value =
     (case value of
        None \<Rightarrow> Some None
      | Some v \<Rightarrow>
          let s = TrimSpace v
          in if s = '''' then Some None
             else let n = withLeadingZero (withoutFinalPoint (ReplaceChar (CHR '','') ''.'' s));
                      neg = HasPrefix n ''-''
                  in map_option Some (unsignedDecimal neg (TrimPrefix n ''-'')))"

section \<open>What is accepted\<close>

text \<open>A decimal of the column: an optional sign, up to fourteen digits without a leading zero, then nothing or a
  point and one to four digits; zero has no sign.\<close>

definition canonical :: "string \<Rightarrow> bool" where
  "canonical s =
     (let neg = HasPrefix s ''-''; parts = split_on (CHR ''.'') (TrimPrefix s ''-''); whole = hd parts;
          frac = (if length parts = 2 then parts ! 1 else '''')
      in length parts \<le> 2 \<and> allASCIIDigits whole \<and> allASCIIDigits frac \<and> whole \<noteq> '''' \<and>
         (if length parts = 2 then frac \<noteq> '''' else True) \<and> length whole \<le> 14 \<and> length frac \<le> 4 \<and>
         (if hd whole = CHR ''0'' then whole = ''0'' else True) \<and> \<not> (neg \<and> whole = ''0'' \<and> allZeroes frac))"

text \<open>The exact number a text denotes, by the reader of decimals of \<open>strconv\<close>.\<close>

definition exactValue :: "string \<Rightarrow> rat option" where
  "exactValue s =
     map_option (\<lambda>q. if HasPrefix s ''-'' then - q else q) (read_decimal (TrimPrefix s ''-''))"

text \<open>A text of digits with an optional fraction.\<close>

definition decimalText :: "string \<Rightarrow> string \<Rightarrow> string" where
  "decimalText ip fp = ip @ (if fp \<noteq> '''' then ''.'' @ fp else '''')"

lemma split_on_nonempty [simp]: "split_on c s \<noteq> []"
  by (induction s) (auto split: list.split)

lemma split_on_none: "c \<notin> set s \<Longrightarrow> split_on c s = [s]"
  by (induction s) auto

lemma split_on_first: "c \<notin> set a \<Longrightarrow> split_on c (a @ c # b) = a # split_on c b"
  by (induction a) auto

lemma split_on_cases:
  obtains "c \<notin> set s" "split_on c s = [s]" | a b where "s = a @ c # b" "c \<notin> set a" "split_on c s = a # split_on c b"
  by (cases "c \<in> set s") (auto dest!: split_list_first simp: split_on_none split_on_first)

lemma split_on_two: "length (split_on c s) = Suc 0 \<longleftrightarrow> c \<notin> set s"
  by (cases rule: split_on_cases[where c = c and s = s]) auto

lemma no_point: "allASCIIDigits s \<Longrightarrow> CHR ''.'' \<notin> set s" "allASCIIDigits s \<Longrightarrow> CHR ''-'' \<notin> set s"
  by (auto simp: allASCIIDigits_def list_all_iff is_digit_def less_eq_char_def)

lemma trimZeroes_facts:
  assumes "allASCIIDigits s" "s \<noteq> ''''"
  shows "allASCIIDigits (trimZeroes s)" "trimZeroes s \<noteq> ''''" "hd (trimZeroes s) = CHR ''0'' \<Longrightarrow> trimZeroes s = ''0''"
    "digits_nat (trimZeroes s) = digits_nat s" "hd s \<noteq> CHR ''0'' \<Longrightarrow> trimZeroes s = s" "trimZeroes ''0'' = ''0''"
proof -
  let ?P = "\<lambda>c. c = CHR ''0''"
  have z: "takeWhile ?P s = replicate (length (takeWhile ?P s)) (CHR ''0'')"
    by (rule replicate_length_same[symmetric]) (auto dest: set_takeWhileD)
  have s: "digits_nat s = digits_nat (dropWhile ?P s)"
    using digits_nat_append[of "takeWhile ?P s" "dropWhile ?P s"] z
    by (metis add_0 digits_nat_zeros mult_zero_left takeWhile_dropWhile_id)
  have d: "allASCIIDigits (dropWhile ?P s)"
    using assms(1) by (auto simp: allASCIIDigits_def list_all_iff dest: set_dropWhileD)
  show "allASCIIDigits (trimZeroes s)" using d by (auto simp: trimZeroes_def allASCIIDigits_def is_digit_def less_eq_char_def split: list.split)
  show "trimZeroes s \<noteq> ''''" by (simp add: trimZeroes_def split: list.split)
  show "hd (trimZeroes s) = CHR ''0'' \<Longrightarrow> trimZeroes s = ''0''"
  proof (cases "dropWhile ?P s")
    case (Cons c cs)
    have "c \<noteq> CHR ''0''" using Cons hd_dropWhile[of ?P s] by simp
    then show "hd (trimZeroes s) = CHR ''0'' \<Longrightarrow> trimZeroes s = ''0''" using Cons by (simp add: trimZeroes_def)
  next
    case Nil
    then show "hd (trimZeroes s) = CHR ''0'' \<Longrightarrow> trimZeroes s = ''0''" by (simp only: trimZeroes_def list.case)
  qed
  have "digits_nat ''0'' = 0" using digits_nat_zeros[of 1] by simp
  then show "digits_nat (trimZeroes s) = digits_nat s" using s by (cases "dropWhile ?P s") (simp_all only: trimZeroes_def list.case digits_nat_Nil)
  show "hd s \<noteq> CHR ''0'' \<Longrightarrow> trimZeroes s = s" using assms(2) by (cases s) (auto simp: trimZeroes_def)
  show "trimZeroes ''0'' = ''0''" by (simp add: trimZeroes_def)
qed

text \<open>What an accepted text consists of, and what it becomes.\<close>

lemma unsignedDecimal_Some:
  "unsignedDecimal neg s = Some t \<longleftrightarrow>
     (\<exists>ip fp. s = decimalText ip fp \<and> allASCIIDigits ip \<and> allASCIIDigits fp \<and> ip \<noteq> '''' \<and> length fp \<le> 4 \<and>
        length (trimZeroes ip) \<le> 14 \<and>
        t = (if neg \<and> \<not> (trimZeroes ip = ''0'' \<and> allZeroes fp) then ''-'' else '''') @ decimalText (trimZeroes ip) fp)"
proof (cases rule: split_on_cases[where c = "CHR ''.''" and s = s])
  case 1
  note s = this
  then have "s = decimalText ip fp \<longleftrightarrow> ip = s \<and> fp = ''''" for ip fp
    by (auto simp: decimalText_def)
  then show ?thesis
    using s no_point(2)[of s] by (auto simp: unsignedDecimal_def Let_def allASCIIDigits_def decimalText_def)
next
  case (2 a b)
  note s = this
  have e: "s = decimalText ip fp \<longleftrightarrow> ip = a \<and> fp = b \<and> b \<noteq> ''''" if "CHR ''.'' \<notin> set ip" for ip fp
  proof (cases "fp = ''''")
    case True
    then show ?thesis using s(1) that by (auto simp: decimalText_def)
  next
    case False
    have "a @ CHR ''.'' # b = ip @ CHR ''.'' # fp \<longleftrightarrow> a = ip \<and> b = fp"
      using append_sep_inj[of a "CHR ''.''" b ip fp] s(2) that by auto
    then show ?thesis using s(1) False by (auto simp: decimalText_def)
  qed
  have "(\<exists>ip fp. s = decimalText ip fp \<and> allASCIIDigits ip \<and> allASCIIDigits fp \<and> P ip fp) \<longleftrightarrow>
      b \<noteq> '''' \<and> allASCIIDigits a \<and> allASCIIDigits b \<and> P a b" for P
  proof
    assume "\<exists>ip fp. s = decimalText ip fp \<and> allASCIIDigits ip \<and> allASCIIDigits fp \<and> P ip fp"
    then obtain ip fp where w: "s = decimalText ip fp" "allASCIIDigits ip" "allASCIIDigits fp" "P ip fp" by blast
    then have "ip = a \<and> fp = b \<and> b \<noteq> ''''" using e[OF no_point(1)[OF w(2)]] by simp
    then show "b \<noteq> '''' \<and> allASCIIDigits a \<and> allASCIIDigits b \<and> P a b" using w by simp
  next
    assume w: "b \<noteq> '''' \<and> allASCIIDigits a \<and> allASCIIDigits b \<and> P a b"
    then have "s = decimalText a b" using e[OF s(2)] by simp
    then show "\<exists>ip fp. s = decimalText ip fp \<and> allASCIIDigits ip \<and> allASCIIDigits fp \<and> P ip fp" using w by blast
  qed
  note ex = this[of "\<lambda>ip fp. ip \<noteq> '''' \<and> length fp \<le> 4 \<and> length (trimZeroes ip) \<le> 14 \<and>
        t = (if neg \<and> \<not> (trimZeroes ip = ''0'' \<and> allZeroes fp) then ''-'' else '''') @ decimalText (trimZeroes ip) fp"]
  show ?thesis
  proof (cases "CHR ''.'' \<in> set b")
    case True
    then have "2 < length (split_on (CHR ''.'') s)"
      using s(3) split_on_two[of "CHR ''.''" b] by (cases "split_on (CHR ''.'') b") auto
    then have "unsignedDecimal neg s = None" by (simp add: unsignedDecimal_def)
    then show ?thesis unfolding ex using True no_point(1)[of b] by auto
  next
    case False
    then have sp: "split_on (CHR ''.'') s = [a, b]" using s(3) split_on_none by simp
    have m: "CHR ''-'' \<notin> set s \<and> s \<noteq> ''''" if "allASCIIDigits a" "allASCIIDigits b"
      using s(1) no_point(2)[OF that(1)] no_point(2)[OF that(2)] by auto
    let ?t = "(if neg \<and> \<not> (trimZeroes a = ''0'' \<and> allZeroes b) then ''-'' else '''') @ decimalText (trimZeroes a) b"
    have "unsignedDecimal neg s =
       (if a \<noteq> '''' \<and> b \<noteq> '''' \<and> allASCIIDigits a \<and> allASCIIDigits b \<and> length b \<le> 4 \<and> length (trimZeroes a) \<le> 14 then Some ?t else None)"
      using m unfolding unsignedDecimal_def sp Let_def decimalText_def by simp
    then show ?thesis unfolding ex by auto
  qed
qed

section \<open>The rewriting before the checks\<close>

text \<open>What a user may type: an optional sign, digits, and an optional point with digits.\<close>

definition typedDecimal :: "bool \<Rightarrow> string \<Rightarrow> bool \<Rightarrow> string \<Rightarrow> string" where
  "typedDecimal neg ip dot fp = (if neg then ''-'' else '''') @ ip @ (if dot then ''.'' @ fp else '''')"

lemma withoutFinalPoint_eq:
  "withoutFinalPoint c = w \<longleftrightarrow>
     (c = w @ ''.'' \<and> CHR ''.'' \<notin> set w) \<or> (c = w \<and> \<not> (count_list c (CHR ''.'') = 1 \<and> last c = CHR ''.''))"
proof (cases "count_list c (CHR ''.'') = 1 \<and> last c = CHR ''.''")
  case True
  then have "c \<noteq> ''''" by auto
  then have c: "c = butlast c @ ''.''" using True append_butlast_last_id[of c] by simp
  have "count_list (butlast c @ ''.'') (CHR ''.'') = 1" using True c by simp
  then have "CHR ''.'' \<notin> set (butlast c)" by (simp add: count_list_0_iff)
  then show ?thesis using True c by (auto simp: withoutFinalPoint_def)
next
  case False
  have "count_list (w @ ''.'') (CHR ''.'') = 1 \<and> last (w @ ''.'') = CHR ''.''" if "CHR ''.'' \<notin> set w"
    using that by (simp add: count_list_0_iff)
  then show ?thesis using False by (auto simp: withoutFinalPoint_def)
qed

lemma digits_head: "allASCIIDigits ip \<Longrightarrow> ip \<noteq> '''' \<Longrightarrow> hd ip \<noteq> CHR ''.'' \<and> hd ip \<noteq> CHR ''-''"
  by (cases ip) (auto simp: allASCIIDigits_def is_digit_def less_eq_char_def)

lemma decimalText_head: "allASCIIDigits ip \<Longrightarrow> ip \<noteq> '''' \<Longrightarrow> \<exists>d r. decimalText ip fp = d # r \<and> d \<noteq> CHR ''.'' \<and> d \<noteq> CHR ''-''"
  using digits_head[of ip] by (cases ip) (auto simp: decimalText_def)

text \<open>Typed texts become unsigned decimals with their sign.\<close>

lemma rewriting_typed:
  assumes "allASCIIDigits ip" "allASCIIDigits fp" "ip @ fp \<noteq> ''''" "dot \<or> fp = ''''"
  shows "withLeadingZero (withoutFinalPoint (typedDecimal neg ip dot fp)) =
    (if neg then ''-'' else '''') @ decimalText (if ip = '''' then ''0'' else ip) fp"
proof (cases "fp = ''''")
  case True
  let ?w = "(if neg then ''-'' else '''') @ ip"
  have "CHR ''.'' \<notin> set ?w" using no_point(1)[OF assms(1)] by simp
  then have "withoutFinalPoint (typedDecimal neg ip dot fp) = ?w"
    using True unfolding withoutFinalPoint_eq typedDecimal_def by (auto simp: count_list_0_iff)
  then show ?thesis using True assms(3) digits_head[OF assms(1)]
    by (cases ip) (auto simp: withLeadingZero_def HasPrefix_def decimalText_def)
next
  case False
  have "last (typedDecimal neg ip dot fp) = last fp" using False assms(4) by (simp add: typedDecimal_def)
  moreover have "last fp \<noteq> CHR ''.''" using False no_point(1)[OF assms(2)] last_in_set by metis
  ultimately have "withoutFinalPoint (typedDecimal neg ip dot fp) = typedDecimal neg ip dot fp"
    by (simp add: withoutFinalPoint_def)
  then show ?thesis using False assms(4) digits_head[OF assms(1)]
    by (cases ip) (auto simp: withLeadingZero_def HasPrefix_def decimalText_def typedDecimal_def)
qed

lemma withLeadingZero_eq:
  "withLeadingZero w = (if \<exists>r. w = CHR ''.'' # r then CHR ''0'' # w else if \<exists>r. w = CHR ''-'' # CHR ''.'' # r then ''-0'' @ tl w else w)"
proof (cases w)
  case (Cons x xs)
  then show ?thesis by (cases xs) (simp_all add: withLeadingZero_def HasPrefix_def)
qed (simp add: withLeadingZero_def HasPrefix_def)

lemma ReplaceChar_empty: "ReplaceChar a [b] s = '''' \<longleftrightarrow> s = ''''"
  by (cases s) (simp_all add: ReplaceChar_def)

text \<open>And nothing else does.\<close>

lemma rewriting_only:
  assumes "withLeadingZero (withoutFinalPoint c) = (if neg then ''-'' else '''') @ decimalText ip fp"
    "allASCIIDigits ip" "allASCIIDigits fp" "ip \<noteq> ''''"
  shows "\<exists>ip' dot. c = typedDecimal neg ip' dot fp \<and> allASCIIDigits ip' \<and> ip' @ fp \<noteq> '''' \<and> (dot \<or> fp = '''') \<and>
    trimZeroes ip' = trimZeroes ip"
proof -
  let ?w = "withoutFinalPoint c"
  have t: "trimZeroes '''' = ''0''" "trimZeroes ''0'' = ''0''" by (simp_all add: trimZeroes_def)
  have c: "c = ?w @ ''.'' \<and> CHR ''.'' \<notin> set ?w \<or> c = ?w" using withoutFinalPoint_eq by blast
  show ?thesis
  proof (cases "CHR ''.'' \<in> set ?w \<and> (\<exists>r. ?w = (if neg then ''-'' else '''') @ CHR ''.'' # r)")
    case True
    then obtain r where r: "?w = (if neg then ''-'' else '''') @ CHR ''.'' # r" by blast
    then have "decimalText ip fp = ''0.'' @ r" using assms(1) by (simp add: withLeadingZero_def HasPrefix_def split: if_splits)
    then have "ip = ''0'' \<and> fp = r \<and> fp \<noteq> ''''"
      using assms(4) no_point(1)[OF assms(2)] by (cases ip; cases "tl ip") (auto simp: decimalText_def split: if_splits)
    then have "c = typedDecimal neg '''' True fp \<and> fp \<noteq> ''''" using c r by (auto simp: typedDecimal_def)
    then show ?thesis using \<open>ip = ''0'' \<and> fp = r \<and> fp \<noteq> ''''\<close> t by (intro exI[of _ "''''"] exI[of _ True]) (auto simp: allASCIIDigits_def)
  next
    case False
    obtain d u where d: "decimalText ip fp = d # u" "d \<noteq> CHR ''.''" "d \<noteq> CHR ''-''" using decimalText_head[OF assms(2,4)] by blast
    have "?w = (if neg then ''-'' else '''') @ decimalText ip fp"
    proof (cases "\<exists>r. ?w = CHR ''.'' # r")
      case True
      then have "CHR ''0'' # ?w = (if neg then ''-'' else '''') @ decimalText ip fp" using assms(1) by (simp only: withLeadingZero_eq if_True)
      then have "\<not> neg" by (cases neg) simp_all
      then show ?thesis using True False by force
    next
      case nopoint: False
      show ?thesis
      proof (cases "\<exists>r. ?w = CHR ''-'' # CHR ''.'' # r")
        case True
        then obtain r where r: "?w = CHR ''-'' # CHR ''.'' # r" by blast
        then have "CHR ''-'' # CHR ''0'' # CHR ''.'' # r = (if neg then ''-'' else '''') @ decimalText ip fp"
          using assms(1) by (simp add: withLeadingZero_eq)
        then have "neg" using d by (cases neg) auto
        then show ?thesis using r False by force
      next
        case False
        then show ?thesis using assms(1) nopoint by (simp only: withLeadingZero_eq if_False)
      qed
    qed
    then have "c = typedDecimal neg ip (fp \<noteq> '''') fp \<or> fp = '''' \<and> c = typedDecimal neg ip True ''''"
      using c by (auto simp: typedDecimal_def decimalText_def split: if_splits)
    then show ?thesis using assms(2,4) by (intro exI[of _ ip]) auto
  qed
qed

lemma typed_sign:
  assumes "allASCIIDigits ip" "ip \<noteq> ''''"
  shows "HasPrefix ((if neg then ''-'' else '''') @ decimalText ip fp) ''-'' = neg"
    "TrimPrefix ((if neg then ''-'' else '''') @ decimalText ip fp) ''-'' = decimalText ip fp"
  using decimalText_head[OF assms, of fp] by (auto simp: HasPrefix_def TrimPrefix_def)

lemma sign_split: "TrimPrefix n ''-'' = u \<Longrightarrow> n = (if HasPrefix n ''-'' then ''-'' else '''') @ u"
  by (cases n) (auto simp: TrimPrefix_def HasPrefix_def split: if_splits)

text \<open>The text stored for a typed decimal.\<close>

definition storedDecimal :: "bool \<Rightarrow> string \<Rightarrow> string \<Rightarrow> string" where
  "storedDecimal neg ip fp =
     (if neg \<and> \<not> (trimZeroes ip = ''0'' \<and> allZeroes fp) then ''-'' else '''') @ decimalText (trimZeroes ip) fp"

text \<open>Exactly which texts are accepted, and as what.\<close>

lemma normalize_Some:
  "normalizeDecimal18_4 (Some v) = Some (Some t) \<longleftrightarrow>
     (\<exists>neg ip dot fp. ReplaceChar (CHR '','') ''.'' (TrimSpace v) = typedDecimal neg ip dot fp \<and> allASCIIDigits ip \<and>
        allASCIIDigits fp \<and> ip @ fp \<noteq> '''' \<and> (dot \<or> fp = '''') \<and> length fp \<le> 4 \<and> length (trimZeroes ip) \<le> 14 \<and>
        t = storedDecimal neg ip fp)"
proof -
  let ?c = "ReplaceChar (CHR '','') ''.'' (TrimSpace v)" and ?n = "withLeadingZero (withoutFinalPoint (ReplaceChar (CHR '','') ''.'' (TrimSpace v)))"
  have e: "?c = '''' \<longleftrightarrow> TrimSpace v = ''''" by (rule ReplaceChar_empty)
  have z: "allASCIIDigits ''0''" "trimZeroes '''' = ''0''" "trimZeroes ''0'' = ''0''"
    by (simp_all add: allASCIIDigits_def is_digit_def less_eq_char_def trimZeroes_def)
  have n: "normalizeDecimal18_4 (Some v) = Some (Some t) \<longleftrightarrow> TrimSpace v \<noteq> '''' \<and> unsignedDecimal (HasPrefix ?n ''-'') (TrimPrefix ?n ''-'') = Some t"
    by (auto simp: normalizeDecimal18_4_def Let_def)
  show ?thesis
  proof
    assume "normalizeDecimal18_4 (Some v) = Some (Some t)"
    then have u: "unsignedDecimal (HasPrefix ?n ''-'') (TrimPrefix ?n ''-'') = Some t" using n by blast
    obtain ip fp where d: "TrimPrefix ?n ''-'' = decimalText ip fp" "allASCIIDigits ip" "allASCIIDigits fp" "ip \<noteq> ''''" "length fp \<le> 4"
      "length (trimZeroes ip) \<le> 14" "t = storedDecimal (HasPrefix ?n ''-'') ip fp"
      using u unfolding unsignedDecimal_Some storedDecimal_def by blast
    have "?n = (if HasPrefix ?n ''-'' then ''-'' else '''') @ decimalText ip fp"
      by (rule sign_split[OF d(1)])
    from rewriting_only[OF this d(2-4)] show "\<exists>neg ip dot fp. ?c = typedDecimal neg ip dot fp \<and> allASCIIDigits ip \<and>
        allASCIIDigits fp \<and> ip @ fp \<noteq> '''' \<and> (dot \<or> fp = '''') \<and> length fp \<le> 4 \<and> length (trimZeroes ip) \<le> 14 \<and> t = storedDecimal neg ip fp"
      using d(3,5,6,7) unfolding storedDecimal_def by metis
  next
    assume "\<exists>neg ip dot fp. ?c = typedDecimal neg ip dot fp \<and> allASCIIDigits ip \<and>
        allASCIIDigits fp \<and> ip @ fp \<noteq> '''' \<and> (dot \<or> fp = '''') \<and> length fp \<le> 4 \<and> length (trimZeroes ip) \<le> 14 \<and> t = storedDecimal neg ip fp"
    then obtain neg ip dot fp where d: "?c = typedDecimal neg ip dot fp" "allASCIIDigits ip" "allASCIIDigits fp" "ip @ fp \<noteq> ''''"
      "dot \<or> fp = ''''" "length fp \<le> 4" "length (trimZeroes ip) \<le> 14" "t = storedDecimal neg ip fp" by blast
    obtain i where i: "allASCIIDigits i" "i \<noteq> ''''" "trimZeroes i = trimZeroes ip" "i = (if ip = '''' then ''0'' else ip)"
      using d(2) z by (cases "ip = ''''") auto
    have n4: "?n = (if neg then ''-'' else '''') @ decimalText i fp"
      unfolding d(1) i(4) by (rule rewriting_typed[OF d(2-5)])
    have h: "HasPrefix ?n ''-'' = neg" "TrimPrefix ?n ''-'' = decimalText i fp" unfolding n4 by (rule typed_sign[OF i(1,2)])+
    have "?c \<noteq> ''''" unfolding d(1) using d(4,5) by (auto simp: typedDecimal_def)
    moreover have "unsignedDecimal neg (decimalText i fp) = Some t"
      unfolding unsignedDecimal_Some by (rule exI[of _ i], rule exI[of _ fp]) (use i(1,2,3) d(3,6,7,8) in \<open>simp add: storedDecimal_def\<close>)
    ultimately show "normalizeDecimal18_4 (Some v) = Some (Some t)" unfolding n h using e by blast
  qed
qed

section \<open>Properties\<close>

lemma canonical_text:
  assumes "allASCIIDigits w" "allASCIIDigits fp" "w \<noteq> ''''"
  shows "canonical ((if neg then ''-'' else '''') @ decimalText w fp) \<longleftrightarrow>
    length w \<le> 14 \<and> length fp \<le> 4 \<and> (hd w = CHR ''0'' \<longrightarrow> w = ''0'') \<and> \<not> (neg \<and> w = ''0'' \<and> allZeroes fp)"
proof -
  have p: "split_on (CHR ''.'') (decimalText w fp) = (if fp = '''' then [w] else [w, fp])"
    using no_point(1)[OF assms(1)] no_point(1)[OF assms(2)] by (simp add: decimalText_def split_on_none split_on_first)
  have e: "allASCIIDigits ''''" by (simp add: allASCIIDigits_def)
  show ?thesis
  proof (cases "fp = ''''")
    case True
    then show ?thesis unfolding canonical_def Let_def typed_sign[OF assms(1,3)] p using assms e by auto
  next
    case False
    then show ?thesis unfolding canonical_def Let_def typed_sign[OF assms(1,3)] p using assms by auto
  qed
qed

lemma trim_shape: "allASCIIDigits ip \<Longrightarrow> allASCIIDigits (trimZeroes ip) \<and> trimZeroes ip \<noteq> '''' \<and> digits_nat (trimZeroes ip) = digits_nat ip \<and>
    (hd (trimZeroes ip) = CHR ''0'' \<longrightarrow> trimZeroes ip = ''0'')"
proof (cases "ip = ''''")
  case True
  then show ?thesis using digits_nat_zeros[of 1] by (simp add: trimZeroes_def allASCIIDigits_def is_digit_def less_eq_char_def)
qed (use trimZeroes_facts in blast)

lemma stored_canonical:
  assumes "allASCIIDigits ip" "allASCIIDigits fp" "length fp \<le> 4" "length (trimZeroes ip) \<le> 14"
  shows "canonical (storedDecimal neg ip fp)"
proof -
  obtain w where w: "trimZeroes ip = w" "allASCIIDigits w" "w \<noteq> ''''" "hd w = CHR ''0'' \<longrightarrow> w = ''0''" using trim_shape[OF assms(1)] by blast
  show ?thesis unfolding storedDecimal_def w(1) canonical_text[OF w(2) assms(2) w(3)] using w assms(3,4) by blast
qed

lemma read_decimalText:
  assumes "allASCIIDigits ip" "allASCIIDigits fp" "ip \<noteq> ''''"
  shows "read_decimal (decimalText ip fp) = Some (of_nat (digits_nat (ip @ fp)) / 10 ^ length fp)"
  using read_decimal_int[of ip] read_decimal_point[of ip fp] assms
  by (simp add: decimalText_def allASCIIDigits_def power_int_minus field_simps)

text \<open>The value of a typed decimal.\<close>

definition typedValue :: "bool \<Rightarrow> string \<Rightarrow> string \<Rightarrow> rat" where
  "typedValue neg ip fp = (if neg then -1 else 1) * (of_nat (digits_nat (ip @ fp)) / 10 ^ length fp)"

lemma exact_typed:
  assumes "allASCIIDigits ip" "allASCIIDigits fp" "ip @ fp \<noteq> ''''" "dot \<or> fp = ''''"
  shows "exactValue (typedDecimal neg ip dot fp) = Some (typedValue neg ip fp)"
proof -
  let ?u = "ip @ (if dot then ''.'' @ fp else '''')"
  have d: "list_all is_digit ip" "list_all is_digit fp" using assms(1,2) by (simp_all add: allASCIIDigits_def)
  have "HasPrefix ?u ''-'' = False" using assms(3,4) digits_head[OF assms(1)] by (cases ip) (auto simp: HasPrefix_def)
  then have s: "HasPrefix (typedDecimal neg ip dot fp) ''-'' = neg" "TrimPrefix (typedDecimal neg ip dot fp) ''-'' = ?u"
    by (auto simp: typedDecimal_def HasPrefix_def TrimPrefix_def)
  have "read_decimal ?u = Some (of_nat (digits_nat (ip @ fp)) / 10 ^ length fp)"
  proof (cases dot)
    case True
    then show ?thesis
      using assms(3) takeWhile_digits_point[OF d(1), of fp]
      by (simp add: read_decimal_def read_exp_def Let_def digits_span[OF d(2)] power_int_minus field_simps)
  next
    case False
    then show ?thesis using assms read_decimal_int[OF d(1)] by simp
  qed
  then show ?thesis by (simp add: exactValue_def s typedValue_def)
qed

lemma exact_stored:
  assumes "allASCIIDigits ip" "allASCIIDigits fp"
  shows "exactValue (storedDecimal neg ip fp) = Some (typedValue neg ip fp)"
proof -
  have z: "allASCIIDigits (trimZeroes ip) \<and> trimZeroes ip \<noteq> '''' \<and> digits_nat (trimZeroes ip) = digits_nat ip"
  proof (cases "ip = ''''")
    case True
    then show ?thesis using digits_nat_zeros[of 1] by (simp add: trimZeroes_def allASCIIDigits_def is_digit_def less_eq_char_def)
  qed (use trimZeroes_facts[OF assms(1)] in blast)
  let ?m = "neg \<and> \<not> (trimZeroes ip = ''0'' \<and> allZeroes fp)"
  have s: "HasPrefix (storedDecimal neg ip fp) ''-'' = ?m" "TrimPrefix (storedDecimal neg ip fp) ''-'' = decimalText (trimZeroes ip) fp"
    using typed_sign[of "trimZeroes ip" ?m fp] z unfolding storedDecimal_def by blast+
  have r: "read_decimal (decimalText (trimZeroes ip) fp) = Some (of_nat (digits_nat (ip @ fp)) / 10 ^ length fp)"
    using read_decimalText[of "trimZeroes ip" fp] z assms(2) by (simp add: digits_nat_append)
  have "digits_nat (ip @ fp) = 0" if "trimZeroes ip = ''0''" "allZeroes fp"
  proof -
    have "fp = replicate (length fp) (CHR ''0'')" using that(2) by (simp add: allZeroes_def list_all_iff replicate_length_same)
    then have "digits_nat fp = 0" by (metis digits_nat_zeros)
    moreover have "digits_nat ip = 0" using z that(1) digits_nat_zeros[of 1] by simp
    ultimately show ?thesis by (simp add: digits_nat_append)
  qed
  then show ?thesis by (auto simp: exactValue_def s r typedValue_def)
qed

lemma digits_nat_less: "allASCIIDigits s \<Longrightarrow> digits_nat s < 10 ^ length s"
proof (induction s rule: rev_induct)
  case (snoc c s)
  have "digit c \<le> 9" using snoc.prems by (auto simp: allASCIIDigits_def is_digit_def less_eq_char_def digit_def)
  then show ?case using snoc by (simp add: allASCIIDigits_def)
qed simp

lemma typed_bound:
  assumes "allASCIIDigits ip" "allASCIIDigits fp" "length (trimZeroes ip) \<le> 14" "length fp \<le> 4"
  shows "\<bar>typedValue neg ip fp\<bar> < 10 ^ 14 \<and> (\<exists>k::int. typedValue neg ip fp * 10 ^ 4 = of_int k)"
proof -
  have "digits_nat ip < 10 ^ length (trimZeroes ip)" using digits_nat_less[of "trimZeroes ip"] trim_shape[OF assms(1)] by simp
  also have "\<dots> \<le> (10 :: nat) ^ 14" using assms(3) by (rule power_increasing) simp
  finally have "Suc (digits_nat ip) * 10 ^ length fp \<le> 10 ^ 14 * 10 ^ length fp" by (intro mult_right_mono) simp_all
  then have n: "digits_nat (ip @ fp) < 10 ^ 14 * 10 ^ length fp"
    using digits_nat_less[OF assms(2)] by (simp only: digits_nat_append mult_Suc)
  have "(of_nat (digits_nat (ip @ fp)) :: rat) < of_nat (10 ^ 14 * 10 ^ length fp)" using n by (simp only: of_nat_less_iff)
  then have "of_nat (digits_nat (ip @ fp)) / 10 ^ length fp < (10 ^ 14 :: rat)" by (simp add: divide_less_eq)
  moreover have "\<bar>typedValue neg ip fp\<bar> = of_nat (digits_nat (ip @ fp)) / 10 ^ length fp" by (simp add: typedValue_def)
  moreover have "(10 :: rat) ^ 4 = 10 ^ (4 - length fp) * 10 ^ length fp" using assms(4) by (simp flip: power_add)
  then have "of_nat (digits_nat (ip @ fp)) / 10 ^ length fp * 10 ^ 4 = (of_nat (digits_nat (ip @ fp)) * 10 ^ (4 - length fp) :: rat)"
    by (simp only: divide_eq_eq times_divide_eq_left) (simp add: mult.assoc)
  then have "typedValue neg ip fp * 10 ^ 4 = of_int ((if neg then -1 else 1) * int (digits_nat (ip @ fp)) * 10 ^ (4 - length fp))"
    unfolding typedValue_def by (simp add: mult.assoc)
  ultimately show ?thesis by metis
qed

lemma canonical_shape:
  assumes "canonical s"
  obtains neg w fp where "s = (if neg then ''-'' else '''') @ decimalText w fp" "allASCIIDigits w" "allASCIIDigits fp" "w \<noteq> ''''"
proof -
  let ?u = "TrimPrefix s ''-''"
  have s: "s = (if HasPrefix s ''-'' then ''-'' else '''') @ ?u" by (rule sign_split) simp
  have "\<exists>w fp. ?u = decimalText w fp \<and> allASCIIDigits w \<and> allASCIIDigits fp \<and> w \<noteq> ''''"
  proof (cases rule: split_on_cases[where c = "CHR ''.''" and s = ?u])
    case 1
    then have "allASCIIDigits ?u \<and> ?u \<noteq> ''''" using assms unfolding canonical_def Let_def 1(2) by simp
    then show ?thesis by (intro exI[of _ ?u] exI[of _ "''''"]) (simp add: decimalText_def allASCIIDigits_def)
  next
    case (2 a b)
    have l: "length (split_on (CHR ''.'') ?u) \<le> 2" using assms unfolding canonical_def Let_def by blast
    then have b: "split_on (CHR ''.'') b = [b]"
      unfolding 2(3) by (cases rule: split_on_cases[where c = "CHR ''.''" and s = b]) simp_all
    have "allASCIIDigits a \<and> allASCIIDigits b \<and> a \<noteq> '''' \<and> b \<noteq> ''''" using assms unfolding canonical_def Let_def 2(3) b by simp
    then show ?thesis using 2(1) by (intro exI[of _ a] exI[of _ b]) (simp add: decimalText_def)
  qed
  then show ?thesis using s that by metis
qed

lemma trimZeroes_id: "w \<noteq> '''' \<Longrightarrow> (hd w = CHR ''0'' \<longrightarrow> w = ''0'') \<Longrightarrow> trimZeroes w = w"
  by (cases w) (auto simp: trimZeroes_def)

lemma decimal_chars: "allASCIIDigits w \<Longrightarrow> allASCIIDigits fp \<Longrightarrow> c \<in> set ((if neg then ''-'' else '''') @ decimalText w fp) \<Longrightarrow>
    is_digit c \<or> c = CHR ''.'' \<or> c = CHR ''-''"
  by (auto simp: decimalText_def allASCIIDigits_def list_all_iff split: if_splits)

text \<open>C30: What is stored is a text of the column's type: an optional minus, one to fourteen digits without a
  superfluous leading zero, then nothing or a point with one to four digits; zero is never negative.\<close>

theorem stored_decimal_is_canonical:
  "case normalizeDecimal18_4 v of Some (Some t) \<Rightarrow> canonical t | _ \<Rightarrow> True"
proof (cases v)
  case (Some u)
  have "canonical t" if "normalizeDecimal18_4 (Some u) = Some (Some t)" for t
    using that unfolding normalize_Some by (auto intro: stored_canonical)
  then show ?thesis using Some by (simp split: option.split)
qed (simp add: normalizeDecimal18_4_def)

text \<open>C29: A typed amount is stored exactly or refused, never rounded: the stored text denotes the number that was
  typed, which is a multiple of 0.0001 below 10^14 in absolute value; only an empty text is stored as no
  value, and a text is refused only when it is not a decimal with at most four decimals and fourteen
  digits before them.\<close>

theorem stored_decimal_is_exact:
  "(let typed = ReplaceChar (CHR '','') ''.'' (TrimSpace v)
    in case normalizeDecimal18_4 (Some v) of
         Some (Some t) \<Rightarrow> (\<exists>q. exactValue t = Some q \<and> exactValue typed = Some q \<and> \<bar>q\<bar> < 10 ^ 14 \<and> (\<exists>k::int. q * 10 ^ 4 = of_int k))
       | Some None \<Rightarrow> TrimSpace v = ''''
       | None \<Rightarrow> \<not> (\<exists>neg ip dot fp. typed = typedDecimal neg ip dot fp \<and> allASCIIDigits ip \<and> allASCIIDigits fp \<and> ip @ fp \<noteq> '''' \<and>
            (if dot then True else fp = '''') \<and> length fp \<le> 4 \<and> length (trimZeroes ip) \<le> 14))"
proof (cases "normalizeDecimal18_4 (Some v)")
  case None
  have "False" if "ReplaceChar (CHR '','') ''.'' (TrimSpace v) = typedDecimal neg ip dot fp" "allASCIIDigits ip" "allASCIIDigits fp"
    "ip @ fp \<noteq> ''''" "if dot then True else fp = ''''" "length fp \<le> 4" "length (trimZeroes ip) \<le> 14" for neg ip dot fp
  proof -
    have "dot \<or> fp = ''''" using that(5) by (cases dot) simp_all
    then have "normalizeDecimal18_4 (Some v) = Some (Some (storedDecimal neg ip fp))" unfolding normalize_Some using that by blast
    then show False using None by simp
  qed
  then show ?thesis unfolding None Let_def option.case by blast
next
  case (Some r)
  show ?thesis
  proof (cases r)
    case None
    then show ?thesis using Some by (auto simp: normalizeDecimal18_4_def Let_def split: if_splits)
  next
    case (Some t)
    with \<open>normalizeDecimal18_4 (Some v) = Some r\<close> have n: "normalizeDecimal18_4 (Some v) = Some (Some t)" by simp
    then obtain neg ip dot fp where d: "ReplaceChar (CHR '','') ''.'' (TrimSpace v) = typedDecimal neg ip dot fp" "allASCIIDigits ip"
      "allASCIIDigits fp" "ip @ fp \<noteq> ''''" "dot \<or> fp = ''''" "length fp \<le> 4" "length (trimZeroes ip) \<le> 14" "t = storedDecimal neg ip fp"
      unfolding normalize_Some by blast
    show ?thesis
      unfolding n Let_def option.case d(1) d(8) exact_stored[OF d(2,3)] exact_typed[OF d(2-5)]
      using typed_bound[OF d(2,3,7,6)] by blast
  qed
qed

text \<open>C31: A stored amount typed again is stored unchanged.\<close>

theorem stored_decimal_unchanged:
  assumes "canonical s"
  shows "normalizeDecimal18_4 (Some s) = Some (Some s)"
proof -
  obtain neg w fp where s: "s = (if neg then ''-'' else '''') @ decimalText w fp" "allASCIIDigits w" "allASCIIDigits fp" "w \<noteq> ''''"
    using assms by (rule canonical_shape)
  have c: "length w \<le> 14" "length fp \<le> 4" "hd w = CHR ''0'' \<longrightarrow> w = ''0''" "\<not> (neg \<and> w = ''0'' \<and> allZeroes fp)"
    using assms unfolding s(1) canonical_text[OF s(2-4)] by blast+
  have t: "trimZeroes w = w" by (rule trimZeroes_id[OF s(4) c(3)])
  have "is_digit d \<or> d = CHR ''.'' \<or> d = CHR ''-''" if "d \<in> set s" for d
    using decimal_chars[OF s(2,3)] that unfolding s(1) by blast
  moreover have "\<not> is_space d \<and> d \<noteq> CHR '',''" if "is_digit d \<or> d = CHR ''.'' \<or> d = CHR ''-''" for d
    using that not_space_digit[of d] by (auto simp: is_space_def re_space_def is_digit_def less_eq_char_def)
  ultimately have p: "\<forall>d \<in> set s. \<not> is_space d" "CHR '','' \<notin> set s" by blast+
  have "s = typedDecimal neg w (fp \<noteq> '''') fp" "s = storedDecimal neg w fp"
    using s(1) c(4) t by (auto simp: typedDecimal_def storedDecimal_def decimalText_def)
  then show ?thesis
    unfolding normalize_Some using s(2-4) c(1,2) t TrimSpace_no_space[OF p(1)] ReplaceChar_none[OF p(2), of "''.''"]
    by (intro exI[of _ neg] exI[of _ w] exI[of _ "fp \<noteq> ''''"] exI[of _ fp]) simp
qed

theorem stored_decimal_unchanged_witness:
  "normalizeDecimal18_4 (Some ''-12.50'') = Some (Some ''-12.50'') \<and> normalizeDecimal18_4 (Some '' 0012,5000 '') = Some (Some ''12.5000'')"
proof -
  have "canonical ''-12.50''"
    by (simp add: canonical_def HasPrefix_def TrimPrefix_def allASCIIDigits_def is_digit_def less_eq_char_def Let_def)
  then have "normalizeDecimal18_4 (Some ''-12.50'') = Some (Some ''-12.50'')" by (rule stored_decimal_unchanged)
  moreover have "normalizeDecimal18_4 (Some '' 0012,5000 '') = Some (Some ''12.5000'')" by code_simp
  ultimately show ?thesis by simp
qed


end
