(* ===== verification/OrdiniTypes.thy ===== *)
theory OrdiniTypes
  imports RdaAccess GoTime
begin

text \<open>
  The data of customer orders (\<open>ordini/types.go\<close>, \<open>scanners.go\<close>, \<open>gateway.go\<close>): the columns of the two
  tables, their readers, the states, and the payload of the ERP gateway. A \<open>NullDate\<close> is only ever tested
  and printed by day, so it is the printed day or \<open>None\<close>; a stored column is a text or NULL.
\<close>

section \<open>States and roles\<close>

definition OrderStateBozza :: string where "OrderStateBozza = ''BOZZA''"
definition OrderStateInviato :: string where "OrderStateInviato = ''INVIATO''"
definition OrderStateAttivo :: string where "OrderStateAttivo = ''ATTIVO''"

text \<open>\<open>authz.HasAnyRole\<close>.\<close>

definition HasAnyRole :: "string list \<Rightarrow> string list \<Rightarrow> bool" where
  "HasAnyRole user required \<longleftrightarrow>
     required = [] \<or> ''app_devadmin'' \<in> set user \<or> list_ex (\<lambda>r. r \<noteq> '''' \<and> r \<in> set user) required"

section \<open>Columns\<close>

record nullFloat =
  nf_Float64 :: number
  nf_Valid :: bool
  nf_Raw :: "string option"

record orderSummary =
  od_ID :: int
  od_SystemODV :: "string option"
  od_Tipodoc :: "string option"
  od_Ndoc :: "string option"
  od_Anno :: "int option"
  od_CodiceOrdine :: "string option"
  od_SostOrd :: "string option"
  od_Cliente :: "string option"
  od_ClienteID :: "int option"
  od_Datadoc :: "string option"
  od_ServiceType :: "string option"
  od_IsColo :: "string option"
  od_TipoOrd :: "string option"
  od_Dataconferma :: "string option"
  od_Stato :: "string option"
  od_ProfileLang :: "string option"
  od_Evaso :: "int option"
  od_FromCP :: "int option"
  od_ArxDocNumber :: "string option"

record referents =
  re_TechNom :: "string option"
  re_TechTel :: "string option"
  re_TechEmail :: "string option"
  re_AltroTechNom :: "string option"
  re_AltroTechTel :: "string option"
  re_AltroTechEmail :: "string option"
  re_AdmNom :: "string option"
  re_AdmTechTel :: "string option"
  re_AdmTechEmail :: "string option"

record orderOrigin =
  oo_QuoteID :: int
  oo_QuoteCode :: "string option"
  oo_QuoteURL :: string

record orderDetail = orderSummary +
  od_Commerciale :: "string option"
  od_CodTerminiPag :: "string option"
  od_Note :: "string option"
  od_DurRin :: "string option"
  od_TacitoRin :: "string option"
  od_TempiRil :: "string option"
  od_DurataServizio :: "string option"
  od_RifOrdcli :: "string option"
  od_Referents :: referents
  od_IntFatturazione :: "string option"
  od_IntFatturazioneAtt :: "string option"
  od_Chiuso :: "int option"
  od_Valuta :: "string option"
  od_WrittenBy :: "string option"
  od_ProfileIVA :: "string option"
  od_ProfileCF :: "string option"
  od_ProfileAddress :: "string option"
  od_ProfileCity :: "string option"
  od_ProfileCAP :: "string option"
  od_ProfilePV :: "string option"
  od_ProfileSDI :: "string option"
  od_DataDecorrenza :: "string option"
  od_TacitoRinInPDF :: "string option"
  od_OriginCodTerminiPag :: "string option"
  od_PaymentMethodLabel :: "string option"
  od_OriginPaymentMethodLabel :: "string option"
  od_IsArxivar :: "int option"
  od_Origin :: "orderOrigin option"

text \<open>A row as stored, and as the code reads it.\<close>

record storedRow =
  sr_ID :: int
  sr_OrderID :: int
  sr_SystemODVRow :: "int option"
  sr_CodiceKit :: "string option"
  sr_IndexKit :: "int option"
  sr_Codart :: "string option"
  sr_Descart :: "string option"
  sr_Qta :: "string option"
  sr_Prezzo :: "string option"
  sr_PrezzoAttivazione :: "string option"
  sr_PrezzoCessazione :: "string option"
  sr_RaggFatturazione :: "string option"
  sr_DataAttivazione :: "string option"
  sr_SerialNumber :: "string option"
  sr_Confirm :: "int option"
  sr_DataAnnullamento :: "string option"
  sr_NoteTecnici :: "string option"

record orderRow =
  ow_ID :: int
  ow_OrderID :: int
  ow_SystemODVRow :: "int option"
  ow_CodiceKit :: "string option"
  ow_IndexKit :: "int option"
  ow_BundleCode :: "string option"
  ow_Codart :: "string option"
  ow_Descart :: "string option"
  ow_Qta :: nullFloat
  ow_Canone :: nullFloat
  ow_ActivationPrice :: nullFloat
  ow_TerminationPrice :: nullFloat
  ow_RaggFatturazione :: "string option"
  ow_DataAttivazione :: "string option"
  ow_SerialNumber :: "string option"
  ow_Confirm :: "int option"
  ow_DataAnnullamento :: "string option"

record technicalRow =
  tr_ID :: int
  tr_SystemODVRow :: "int option"
  tr_BundleCode :: "string option"
  tr_Codart :: "string option"
  tr_Descart :: "string option"
  tr_NoteTecnici :: "string option"
  tr_DataAnnullamento :: "string option"

definition stateOf :: "'a orderSummary_scheme \<Rightarrow> string" where
  "stateOf o' = (case od_Stato o' of None \<Rightarrow> '''' | Some s \<Rightarrow> s)"

section \<open>Scanners\<close>

text \<open>The clock part of the two longer layouts: the hour may have one digit, seconds may have a fraction.
  What is left after it is returned.\<close>

definition twoDigits :: "int \<Rightarrow> string \<Rightarrow> bool" where
  "twoDigits bound s \<longleftrightarrow> length s = 2 \<and> list_all is_digit s \<and> digits_value s < bound"

definition parseClock :: "string \<Rightarrow> string option" where
  "parseClock s =
     (let h = takeWhile is_digit s; r = dropWhile is_digit s; t = drop 6 r
      in if (length h = 1 \<or> length h = 2) \<and> digits_value h < 24 \<and> 6 \<le> length r \<and> r ! 0 = CHR '':'' \<and>
            twoDigits 60 (take 2 (drop 1 r)) \<and> r ! 3 = CHR '':'' \<and> twoDigits 60 (take 2 (drop 4 r))
         then (case t of
                 c # u \<Rightarrow> if (c = CHR ''.'' \<or> c = CHR '','') \<and> takeWhile is_digit u \<noteq> []
                          then Some (dropWhile is_digit u) else Some t
               | [] \<Rightarrow> Some [])
         else None)"

definition parseZone :: "string \<Rightarrow> bool" where
  "parseZone s \<longleftrightarrow>
     s = ''Z'' \<or>
     (length s = 6 \<and> (s ! 0 = CHR ''+'' \<or> s ! 0 = CHR ''-'') \<and> twoDigits 25 (take 2 (drop 1 s)) \<and> s ! 3 = CHR '':'' \<and>
      twoDigits 60 (drop 4 s))"

text \<open>\<open>NullDate.scanString\<close>: the day that \<open>Format\<close> prints is the one in the text, since every layout is parsed in
  the zone the text gives.\<close>

definition scanDate :: "string \<Rightarrow> (string option) option" where
  "scanDate value =
     (let v = TrimSpace value; day = take 10 v; rest = drop 10 v
      in if v = '''' \<or> v = ''0000-00-00'' \<or> v = ''0000-00-00 00:00:00'' then Some None
         else if ParseDate day = None then None
         else case rest of
                [] \<Rightarrow> Some (Some day)
              | c # clock \<Rightarrow>
                  (case parseClock clock of
                     None \<Rightarrow> None
                   | Some zone \<Rightarrow> if (c = CHR ''T'' \<and> parseZone zone) \<or> (c = CHR '' '' \<and> zone = '''') then Some (Some day) else None))"

definition scanNullDate :: "string option \<Rightarrow> (string option) option" where
  "scanNullDate col = (case col of None \<Rightarrow> Some None | Some v \<Rightarrow> scanDate v)"

definition dateString :: "string option \<Rightarrow> string" where
  "dateString d = (case d of None \<Rightarrow> '''' | Some s \<Rightarrow> s)"

text \<open>\<open>NullFloat.Scan\<close> of a text column: the value for the page, the text for the gateway.\<close>

definition scanNullFloat :: "string option \<Rightarrow> nullFloat option" where
  "scanNullFloat col =
     (case col of
        None \<Rightarrow> Some \<lparr>nf_Float64 = Fin 0, nf_Valid = False, nf_Raw = None\<rparr>
      | Some value \<Rightarrow>
          let trimmed = TrimSpace value
          in if trimmed = '''' then Some \<lparr>nf_Float64 = Fin 0, nf_Valid = False, nf_Raw = Some value\<rparr>
             else case ParseFloat (ReplaceChar (CHR '','') ''.'' trimmed) of
                    (v, ok) \<Rightarrow> if ok then Some \<lparr>nf_Float64 = v, nf_Valid = True, nf_Raw = Some value\<rparr> else None)"

definition ptrStringValue :: "string option \<Rightarrow> string" where
  "ptrStringValue v = (case v of None \<Rightarrow> '''' | Some s \<Rightarrow> s)"

definition ptrIntValue :: "int option \<Rightarrow> any" where
  "ptrIntValue v = (case v of None \<Rightarrow> Null | Some i \<Rightarrow> Integer i)"

definition nullIfBlank :: "string \<Rightarrow> string option" where
  "nullIfBlank v = (if TrimSpace v = '''' then None else Some (TrimSpace v))"

definition parseRequiredInt :: "string \<Rightarrow> int option" where
  "parseRequiredInt raw =
     (if TrimSpace raw = '''' then None
      else case ParseInt (TrimSpace raw) of (v, ok) \<Rightarrow> if ok then Some v else None)"

text \<open>The scan of a whole row; a column that does not scan fails the query.\<close>

definition bundleCode :: "storedRow \<Rightarrow> string option" where
  "bundleCode r =
     (case sr_CodiceKit r of
        Some k \<Rightarrow> if k \<noteq> '''' then map_option (\<lambda>i. k @ ''-'' @ FormatInt i) (sr_IndexKit r) else None
      | None \<Rightarrow> None)"

definition scanOrderRow :: "storedRow \<Rightarrow> orderRow option" where
  "scanOrderRow r =
     (case (scanNullFloat (sr_Qta r), scanNullFloat (sr_Prezzo r), scanNullFloat (sr_PrezzoAttivazione r),
            scanNullFloat (sr_PrezzoCessazione r), scanNullDate (sr_DataAttivazione r), scanNullDate (sr_DataAnnullamento r)) of
        (Some qta, Some canone, Some activation, Some termination, Some active, Some cancelled) \<Rightarrow>
          Some \<lparr>ow_ID = sr_ID r, ow_OrderID = sr_OrderID r, ow_SystemODVRow = sr_SystemODVRow r, ow_CodiceKit = sr_CodiceKit r,
            ow_IndexKit = sr_IndexKit r, ow_BundleCode = bundleCode r, ow_Codart = sr_Codart r, ow_Descart = sr_Descart r,
            ow_Qta = qta, ow_Canone = canone, ow_ActivationPrice = activation, ow_TerminationPrice = termination,
            ow_RaggFatturazione = sr_RaggFatturazione r, ow_DataAttivazione = active, ow_SerialNumber = sr_SerialNumber r,
            ow_Confirm = sr_Confirm r, ow_DataAnnullamento = cancelled\<rparr>
      | _ \<Rightarrow> None)"

definition scanTechnicalRow :: "storedRow \<Rightarrow> technicalRow option" where
  "scanTechnicalRow r =
     map_option (\<lambda>cancelled. \<lparr>tr_ID = sr_ID r, tr_SystemODVRow = sr_SystemODVRow r, tr_BundleCode = bundleCode r,
       tr_Codart = sr_Codart r, tr_Descart = sr_Descart r, tr_NoteTecnici = sr_NoteTecnici r, tr_DataAnnullamento = cancelled\<rparr>)
       (scanNullDate (sr_DataAnnullamento r))"

text \<open>An order as stored has its dates as texts and no computed fields.\<close>

definition scanOrder :: "orderDetail \<Rightarrow> orderDetail option" where
  "scanOrder o' =
     (case (scanNullDate (od_Datadoc o'), scanNullDate (od_Dataconferma o'), scanNullDate (od_DataDecorrenza o')) of
        (Some datadoc, Some conferma, Some decorrenza) \<Rightarrow>
          Some (o'\<lparr>od_Datadoc := datadoc, od_Dataconferma := conferma, od_DataDecorrenza := decorrenza,
            od_CodiceOrdine := (case (od_Ndoc o', od_Anno o') of (Some n, Some a) \<Rightarrow> Some (n @ ''/'' @ FormatInt a) | _ \<Rightarrow> None),
            od_Note := Some (ptrStringValue (od_Note o')),
            od_PaymentMethodLabel := None, od_OriginPaymentMethodLabel := None, od_Origin := None\<rparr>)
      | _ \<Rightarrow> None)"

definition canActivateOrderRow :: "orderRow \<Rightarrow> bool" where
  "canActivateOrderRow row \<longleftrightarrow>
     ow_DataAnnullamento row = None \<and> \<not> (nf_Valid (ow_Qta row) \<and> nf_Float64 (ow_Qta row) = Fin 0)"

section \<open>The payload of the ERP gateway\<close>

definition stringValueOrSpace :: "string option \<Rightarrow> string" where
  "stringValueOrSpace v = (case v of None \<Rightarrow> '' '' | Some s \<Rightarrow> s)"

definition intValueOrNull :: "string option \<Rightarrow> any" where
  "intValueOrNull v =
     (case v of None \<Rightarrow> Null | Some s \<Rightarrow> (case parseRequiredInt s of None \<Rightarrow> Null | Some i \<Rightarrow> Integer i))"

definition ptrIntAsStringValue :: "int option \<Rightarrow> any" where
  "ptrIntAsStringValue v = (case v of None \<Rightarrow> Null | Some i \<Rightarrow> Str (FormatInt i))"

definition nullFloatRawValue :: "nullFloat \<Rightarrow> any" where
  "nullFloatRawValue v = (case nf_Raw v of None \<Rightarrow> Null | Some s \<Rightarrow> Str s)"

definition buildSendToERPPayload :: "orderDetail \<Rightarrow> orderRow \<Rightarrow> fields option" where
  "buildSendToERPPayload o' row =
     (case (parseRequiredInt (ptrStringValue (od_SystemODV o')), ow_SystemODVRow row) of
        (Some systemODV, Some systemODVRow) \<Rightarrow>
          Some [(''cdlan_systemodv'', Integer systemODV),
            (''cdlan_systemodv_row'', Integer systemODVRow),
            (''cdlan_tipodoc'', Str (ptrStringValue (od_Tipodoc o'))),
            (''cdlan_ndoc'', Str (ptrStringValue (od_Ndoc o'))),
            (''cdlan_datadoc'', Str (dateString (od_Datadoc o'))),
            (''cdlan_cliente'', Str (ptrStringValue (od_Cliente o'))),
            (''cdlan_commerciale'', Str (stringValueOrSpace (od_Commerciale o'))),
            (''cdlan_cod_termini_pag'', Str (ptrStringValue (od_CodTerminiPag o'))),
            (''cdlan_note'', Str (ptrStringValue (od_Note o'))),
            (''cdlan_tipo_ord'', Str (ptrStringValue (od_TipoOrd o'))),
            (''cdlan_dur_rin'', intValueOrNull (od_DurRin o')),
            (''cdlan_tacito_rin'', intValueOrNull (od_TacitoRin o')),
            (''cdlan_sost_ord'', Str (stringValueOrSpace (od_SostOrd o'))),
            (''cdlan_tempi_ril'', Str (ptrStringValue (od_TempiRil o'))),
            (''cdlan_durata_servizio'', Str (ptrStringValue (od_DurataServizio o'))),
            (''cdlan_dataconferma'', Str (dateString (od_Dataconferma o'))),
            (''cdlan_rif_ordcli'', Str (ptrStringValue (od_RifOrdcli o'))),
            (''cdlan_rif_tech_nom'', Str (ptrStringValue (re_TechNom (od_Referents o')))),
            (''cdlan_rif_tech_tel'', Str (ptrStringValue (re_TechTel (od_Referents o')))),
            (''cdlan_rif_tech_email'', Str (ptrStringValue (re_TechEmail (od_Referents o')))),
            (''cdlan_rif_altro_tech_nom'', Str (ptrStringValue (re_AltroTechNom (od_Referents o')))),
            (''cdlan_rif_altro_tech_tel'', Str (ptrStringValue (re_AltroTechTel (od_Referents o')))),
            (''cdlan_rif_altro_tech_email'', Str (ptrStringValue (re_AltroTechEmail (od_Referents o')))),
            (''cdlan_rif_adm_nom'', Str (ptrStringValue (re_AdmNom (od_Referents o')))),
            (''cdlan_rif_adm_tech_tel'', Str (ptrStringValue (re_AdmTechTel (od_Referents o')))),
            (''cdlan_rif_adm_tech_email'', Str (ptrStringValue (re_AdmTechEmail (od_Referents o')))),
            (''cdlan_int_fatturazione'', intValueOrNull (od_IntFatturazione o')),
            (''cdlan_int_fatturazione_att'', intValueOrNull (od_IntFatturazioneAtt o')),
            (''cdlan_codart'', Str (ptrStringValue (ow_Codart row))),
            (''cdlan_descart'', Str (ptrStringValue (ow_Descart row))),
            (''cdlan_qta'', nullFloatRawValue (ow_Qta row)),
            (''cdlan_serialnumber'', Str (ptrStringValue (ow_SerialNumber row))),
            (''cdlan_prezzo'', nullFloatRawValue (ow_Canone row)),
            (''cdlan_prezzo_attivazione'', nullFloatRawValue (ow_ActivationPrice row)),
            (''cdlan_prezzo_cessazione'', nullFloatRawValue (ow_TerminationPrice row)),
            (''cdlan_ragg_fatturazione'', Str (ptrStringValue (ow_RaggFatturazione row))),
            (''cdlan_stato'', Str ''CREATO''),
            (''cdlan_evaso'', ptrIntValue (od_Evaso o')),
            (''cdlan_chiuso'', ptrIntValue (od_Chiuso o')),
            (''cdlan_anno'', ptrIntAsStringValue (od_Anno o')),
            (''cdlan_codice_kit'', Str (ptrStringValue (ow_BundleCode row))),
            (''cdlan_valuta'', Str (ptrStringValue (od_Valuta o')))]
      | _ \<Rightarrow> None)"

text \<open>\<open>strings.NewReplacer\<close> on three single characters replaces them one by one.\<close>

definition orderCodeForFilename :: "orderDetail \<Rightarrow> string" where
  "orderCodeForFilename o' =
     (let ndoc = map (\<lambda>c. if c = CHR ''/'' \<or> c = CHR 0x5C \<or> c = CHR '' '' then CHR ''_'' else c) (ptrStringValue (od_Ndoc o'));
          anno = (case od_Anno o' of None \<Rightarrow> '''' | Some a \<Rightarrow> FormatInt a)
      in if ndoc = '''' \<and> anno = '''' then ''ordine_'' @ FormatInt (od_ID o')
         else if ndoc = '''' then anno
         else if anno = '''' then ndoc
         else ndoc @ ''_'' @ anno)"

section \<open>Bodies of the gateway\<close>

definition bodyMember :: "content \<Rightarrow> string \<Rightarrow> string option" where
  "bodyMember b k =
     (case by_JSON b of Some (Obj m) \<Rightarrow> (case get m k of Str s \<Rightarrow> Some s | _ \<Rightarrow> None) | _ \<Rightarrow> None)"

definition gatewayBodyHasCode :: "content \<Rightarrow> string \<Rightarrow> bool" where
  "gatewayBodyHasCode b code \<longleftrightarrow>
     TrimSpace (by_Text b) \<noteq> '''' \<and>
     (list_ex (\<lambda>k. bodyMember b k = Some code) [''error'', ''code'', ''message''] \<or> TrimSpace (by_Text b) = code)"

datatype gatewayError = PreconditionMissing | TransportError | HTTPError int content

definition sanitizeGatewayError :: "gatewayError \<Rightarrow> string" where
  "sanitizeGatewayError e =
     (case e of
        PreconditionMissing \<Rightarrow> ''precondition_missing''
      | HTTPError _ b \<Rightarrow> if gatewayBodyHasCode b ''precondition_missing'' then ''precondition_missing'' else ''gateway_error''
      | TransportError \<Rightarrow> ''gateway_error'')"

end
