(* ===== verification/OrdiniStore.thy ===== *)
theory OrdiniStore
  imports OrdiniTypes
begin

text \<open>
  The statements that the orders application sends (\<open>ordini/store_orders.go\<close>, \<open>store_rows.go\<close>,
  \<open>workflow_*.go\<close>, \<open>vodkadb/normalize.go\<close>) and what the SQL text of each write says about the two tables
  it works on. Reads and services outside these tables answer arbitrarily.
\<close>

section \<open>Statements and answers\<close>

text \<open>Writes, each with the values bound to it. The order of the arguments is the order of the bindings.\<close>

datatype update =
    SetHeader "string option" "string option" int string int
  | SetReferents referents int
  | MarkSent int
  | ConfirmRow string int int
  | MarkActive int
  | SetSerial "string option" int int
  | SetNotes "string option" int int
  | DeleteRows int
  | DeleteOrder int
  | NormalizeOrder int
  | NormalizeRows int

datatype statement =
    SelectOrders | SelectOrder int | SelectRows int | SelectRow int int | SelectTechRows int | SelectTechRow int int
  | Exec update | Begin | InTx update | CountAll int | CountSettled int | Commit | Rollback
  | SelectLabel string | SelectBridge int | SelectQuoteID int | SelectQuoteNumber int | DeleteBridge int int
  | SelectCustomers | SelectCustomer int | CountErpRows "int option" int string
  | PostJSON string fields | Upload string int string | Download string string
  | DeleteNote int | DeleteFile string

datatype answer =
    Broken | NoRow
  | Orders "orderDetail list" | OneOrder orderDetail | Rows "storedRow list" | OneRow storedRow
  | Done | Affected "int option" | Count int
  | Text "string option" | Bridge int "(string \<times> any option) option" | Id int
  | Customers "(int option \<times> string option) list" | Customer "int option" "string option"
  | Gateway reply | Deleted | NotFound

text \<open>What a caller reads from an answer; one that does not fit is an error.\<close>

definition oneOf :: "(answer \<Rightarrow> 'a option) \<Rightarrow> answer \<Rightarrow> 'a dbResult" where
  "oneOf f a = (case a of NoRow \<Rightarrow> NoRows | _ \<Rightarrow> (case f a of None \<Rightarrow> DbError | Some x \<Rightarrow> Row x))"

definition asOrder :: "answer \<Rightarrow> orderDetail dbResult" where
  "asOrder = oneOf (\<lambda>a. case a of OneOrder o' \<Rightarrow> scanOrder o' | _ \<Rightarrow> None)"

definition asRow :: "answer \<Rightarrow> orderRow dbResult" where
  "asRow = oneOf (\<lambda>a. case a of OneRow r \<Rightarrow> scanOrderRow r | _ \<Rightarrow> None)"

definition asTechRow :: "answer \<Rightarrow> technicalRow dbResult" where
  "asTechRow = oneOf (\<lambda>a. case a of OneRow r \<Rightarrow> scanTechnicalRow r | _ \<Rightarrow> None)"

definition asRows :: "answer \<Rightarrow> orderRow list option" where
  "asRows a = (case a of Rows rs \<Rightarrow> those (map scanOrderRow rs) | _ \<Rightarrow> None)"

definition asTechRows :: "answer \<Rightarrow> technicalRow list option" where
  "asTechRows a = (case a of Rows rs \<Rightarrow> those (map scanTechnicalRow rs) | _ \<Rightarrow> None)"

text \<open>The result of a write: failed, or the number of affected rows when the driver tells it.\<close>

definition asAffected :: "answer \<Rightarrow> int option option" where
  "asAffected a = (case a of Affected n \<Rightarrow> Some n | _ \<Rightarrow> None)"

definition asCount :: "answer \<Rightarrow> int option" where
  "asCount a = (case a of Count n \<Rightarrow> Some n | _ \<Rightarrow> None)"

definition asReply :: "answer \<Rightarrow> reply" where
  "asReply a = (case a of Gateway r \<Rightarrow> r | _ \<Rightarrow> Failed)"

section \<open>The tables\<close>

record tables =
  db_orders :: "orderDetail list"
  db_rows :: "storedRow list"

definition coalesce :: "string \<Rightarrow> string option \<Rightarrow> string option" where
  "coalesce d v = (case v of None \<Rightarrow> Some d | Some s \<Rightarrow> Some s)"

definition normalizeOrderColumns :: "orderDetail \<Rightarrow> orderDetail" where
  "normalizeOrderColumns o' =
     o'\<lparr>od_Commerciale := coalesce '''' (od_Commerciale o'), od_CodTerminiPag := coalesce '''' (od_CodTerminiPag o'),
       od_Note := coalesce '''' (od_Note o'), od_DurRin := coalesce '''' (od_DurRin o'), od_TacitoRin := coalesce '''' (od_TacitoRin o'),
       od_SostOrd := coalesce '''' (od_SostOrd o'), od_TempiRil := coalesce '''' (od_TempiRil o'),
       od_DurataServizio := coalesce '''' (od_DurataServizio o'), od_RifOrdcli := coalesce '''' (od_RifOrdcli o'),
       od_Referents := (let r = od_Referents o' in
         \<lparr>re_TechNom = coalesce '''' (re_TechNom r), re_TechTel = coalesce '''' (re_TechTel r), re_TechEmail = coalesce '''' (re_TechEmail r),
          re_AltroTechNom = coalesce '''' (re_AltroTechNom r), re_AltroTechTel = coalesce '''' (re_AltroTechTel r),
          re_AltroTechEmail = coalesce '''' (re_AltroTechEmail r), re_AdmNom = coalesce '''' (re_AdmNom r),
          re_AdmTechTel = coalesce '''' (re_AdmTechTel r), re_AdmTechEmail = coalesce '''' (re_AdmTechEmail r)\<rparr>),
       od_Valuta := coalesce ''EURO'' (od_Valuta o'), od_WrittenBy := coalesce '''' (od_WrittenBy o'),
       od_ProfileIVA := coalesce '''' (od_ProfileIVA o'), od_ProfileCF := coalesce '''' (od_ProfileCF o'),
       od_ProfileAddress := coalesce '''' (od_ProfileAddress o'), od_ProfileCity := coalesce '''' (od_ProfileCity o'),
       od_ProfileCAP := coalesce '''' (od_ProfileCAP o'), od_ProfilePV := coalesce '''' (od_ProfilePV o'),
       od_ProfileSDI := coalesce '''' (od_ProfileSDI o'), od_ProfileLang := coalesce ''it'' (od_ProfileLang o'),
       od_ServiceType := coalesce '''' (od_ServiceType o'), od_DataDecorrenza := coalesce '''' (od_DataDecorrenza o'),
       od_TacitoRinInPDF := coalesce ''1'' (od_TacitoRinInPDF o'), od_IsColo := coalesce ''0'' (od_IsColo o'),
       od_OriginCodTerminiPag := coalesce '''' (od_OriginCodTerminiPag o')\<rparr>"

definition normalizeRowColumns :: "storedRow \<Rightarrow> storedRow" where
  "normalizeRowColumns r =
     r\<lparr>sr_Codart := coalesce '''' (sr_Codart r), sr_Descart := coalesce '''' (sr_Descart r), sr_Qta := coalesce ''1'' (sr_Qta r),
       sr_SerialNumber := coalesce '''' (sr_SerialNumber r), sr_Prezzo := coalesce ''0'' (sr_Prezzo r),
       sr_PrezzoAttivazione := coalesce ''0'' (sr_PrezzoAttivazione r), sr_PrezzoCessazione := coalesce ''0'' (sr_PrezzoCessazione r),
       sr_RaggFatturazione := coalesce ''A'' (sr_RaggFatturazione r), sr_CodiceKit := coalesce '''' (sr_CodiceKit r)\<rparr>"

text \<open>The condition and the assignments of a write on orders, and of one on rows. The two normalisations ask for a NULL
  in one of the columns they fill: for a row that they change.\<close>

fun orderWhere :: "update \<Rightarrow> orderDetail \<Rightarrow> bool" where
  "orderWhere (SetHeader po date cid name i) o' \<longleftrightarrow> od_ID o' = i \<and> od_Stato o' = Some ''BOZZA''"
| "orderWhere (SetReferents r i) o' \<longleftrightarrow> od_ID o' = i \<and> (od_Stato o' = Some ''BOZZA'' \<or> od_Stato o' = Some ''INVIATO'')"
| "orderWhere (MarkSent i) o' \<longleftrightarrow> od_ID o' = i \<and> od_Stato o' = Some ''BOZZA''"
| "orderWhere (MarkActive i) o' \<longleftrightarrow> od_ID o' = i \<and> od_Stato o' = Some ''INVIATO''"
| "orderWhere (DeleteOrder i) o' \<longleftrightarrow> od_ID o' = i \<and> od_Stato o' = Some ''BOZZA''"
| "orderWhere (NormalizeOrder i) o' \<longleftrightarrow> od_ID o' = i \<and> normalizeOrderColumns o' \<noteq> o'"
| "orderWhere u o' \<longleftrightarrow> False"

fun orderSet :: "update \<Rightarrow> orderDetail \<Rightarrow> orderDetail" where
  "orderSet (SetHeader po date cid name i) o' =
     o'\<lparr>od_RifOrdcli := po, od_Dataconferma := date, od_ClienteID := Some cid, od_Cliente := Some name\<rparr>"
| "orderSet (SetReferents r i) o' = o'\<lparr>od_Referents := r\<rparr>"
| "orderSet (MarkSent i) o' = o'\<lparr>od_Stato := Some ''INVIATO'', od_Evaso := Some 1\<rparr>"
| "orderSet (MarkActive i) o' = o'\<lparr>od_Stato := Some ''ATTIVO''\<rparr>"
| "orderSet (NormalizeOrder i) o' = normalizeOrderColumns o'"
| "orderSet u o' = o'"

fun rowWhere :: "update \<Rightarrow> storedRow \<Rightarrow> bool" where
  "rowWhere (ConfirmRow date rid oid) r \<longleftrightarrow> sr_ID r = rid \<and> sr_OrderID r = oid"
| "rowWhere (SetSerial s rid oid) r \<longleftrightarrow> sr_ID r = rid \<and> sr_OrderID r = oid"
| "rowWhere (SetNotes s rid oid) r \<longleftrightarrow> sr_ID r = rid \<and> sr_OrderID r = oid"
| "rowWhere (DeleteRows oid) r \<longleftrightarrow> sr_OrderID r = oid"
| "rowWhere (NormalizeRows oid) r \<longleftrightarrow> sr_OrderID r = oid \<and> normalizeRowColumns r \<noteq> r"
| "rowWhere u r \<longleftrightarrow> False"

fun rowSet :: "update \<Rightarrow> storedRow \<Rightarrow> storedRow" where
  "rowSet (ConfirmRow date rid oid) r = r\<lparr>sr_DataAttivazione := Some date, sr_Confirm := Some 1\<rparr>"
| "rowSet (SetSerial s rid oid) r = r\<lparr>sr_SerialNumber := s\<rparr>"
| "rowSet (SetNotes s rid oid) r = r\<lparr>sr_NoteTecnici := s\<rparr>"
| "rowSet (NormalizeRows oid) r = normalizeRowColumns r"
| "rowSet u r = r"

definition isDelete :: "update \<Rightarrow> bool" where
  "isDelete u = (case u of DeleteRows _ \<Rightarrow> True | DeleteOrder _ \<Rightarrow> True | _ \<Rightarrow> False)"

text \<open>A write changes or removes the rows of its table that meet its condition.\<close>

definition perform :: "update \<Rightarrow> tables \<Rightarrow> tables" where
  "perform u db =
     (if isDelete u then db\<lparr>db_orders := filter (\<lambda>o'. \<not> orderWhere u o') (db_orders db),
                            db_rows := filter (\<lambda>r. \<not> rowWhere u r) (db_rows db)\<rparr>
      else db\<lparr>db_orders := map (\<lambda>o'. if orderWhere u o' then orderSet u o' else o') (db_orders db),
              db_rows := map (\<lambda>r. if rowWhere u r then rowSet u r else r) (db_rows db)\<rparr>)"

text \<open>The rows affected: those that meet the condition, or only those that the write changes. The driver reports the
  latter unless its connection string asks for the former.\<close>

definition affected :: "bool \<Rightarrow> update \<Rightarrow> tables \<Rightarrow> nat" where
  "affected found u db =
     length (filter (\<lambda>o'. orderWhere u o' \<and> (found \<or> isDelete u \<or> orderSet u o' \<noteq> o')) (db_orders db)) +
     length (filter (\<lambda>r. rowWhere u r \<and> (found \<or> isDelete u \<or> rowSet u r \<noteq> r)) (db_rows db))"

text \<open>A row counts as settled when it is confirmed, cancelled or of quantity zero. How the database compares the text
  of a quantity with zero is a parameter.\<close>

definition settled :: "(string \<Rightarrow> bool) \<Rightarrow> storedRow \<Rightarrow> bool" where
  "settled zero r \<longleftrightarrow>
     sr_Confirm r = Some 1 \<or> sr_DataAnnullamento r \<noteq> None \<or> (case sr_Qta r of None \<Rightarrow> False | Some q \<Rightarrow> zero q)"

definition rowsOf :: "int \<Rightarrow> tables \<Rightarrow> storedRow list" where
  "rowsOf oid db = filter (\<lambda>r. sr_OrderID r = oid) (db_rows db)"

text \<open>What the selects on the two tables answer; rows come in the order of their ids.\<close>

definition readTables :: "(string \<Rightarrow> bool) \<Rightarrow> tables \<Rightarrow> statement \<Rightarrow> answer option" where
  "readTables zero db s =
     (case s of
        SelectOrders \<Rightarrow> Some (Orders (rev (sort_key od_ID (db_orders db))))
      | SelectOrder i \<Rightarrow> Some (case find (\<lambda>o'. od_ID o' = i) (db_orders db) of None \<Rightarrow> NoRow | Some o' \<Rightarrow> OneOrder o')
      | SelectRows i \<Rightarrow> Some (Rows (sort_key sr_ID (rowsOf i db)))
      | SelectTechRows i \<Rightarrow> Some (Rows (sort_key sr_ID (rowsOf i db)))
      | SelectRow i j \<Rightarrow> Some (case find (\<lambda>r. sr_ID r = j) (rowsOf i db) of None \<Rightarrow> NoRow | Some r \<Rightarrow> OneRow r)
      | SelectTechRow i j \<Rightarrow> Some (case find (\<lambda>r. sr_ID r = j) (rowsOf i db) of None \<Rightarrow> NoRow | Some r \<Rightarrow> OneRow r)
      | CountAll i \<Rightarrow> Some (Count (int (length (rowsOf i db))))
      | CountSettled i \<Rightarrow> Some (Count (int (length (filter (settled zero) (rowsOf i db)))))
      | _ \<Rightarrow> None)"

end
