(* ===== verification/OrdiniProg.thy ===== *)
theory OrdiniProg
  imports OrdiniStore
begin

text \<open>
  A handler of the orders application as the statements it sends: each continues with what is answered.
  Guards that end a request take what follows as an argument. The statements of \<open>handler.go\<close>,
  \<open>permissions.go\<close>, \<open>store_origin.go\<close> and the readers of \<open>store_orders.go\<close> are here.
\<close>

datatype 'r proc = Return 'r | Do statement "answer \<Rightarrow> 'r proc"

section \<open>Requests and results\<close>

text \<open>The roles of the user (none without claims), the path values, the body decoded as JSON, and the form of an
  upload: whether it parses, and its file with whether reading it succeeds.\<close>

record orequest =
  qr_Roles :: "string list option"
  qr_ID :: string
  qr_RowID :: string
  qr_Body :: "any option"
  qr_FormOK :: bool
  qr_File :: "(string \<times> bool) option"

text \<open>The connections that are configured, the links of the portal, and \<open>json.Unmarshal\<close> of a text.\<close>

record ohandler =
  oh_Vodka :: bool
  oh_Alyante :: bool
  oh_Mistra :: bool
  oh_Arak :: bool
  oh_HubSpot :: bool
  oh_Link :: "string \<Rightarrow> string"
  oh_Unmarshal :: "string \<Rightarrow> any option"

record sendRowOutcome =
  so_RowID :: int
  so_SystemODVRow :: "int option"
  so_Status :: string
  so_Error :: "string option"

record sendResponse =
  se_Rows :: "sendRowOutcome list"
  se_StateTransitioned :: bool
  se_ArxivarUploaded :: bool
  se_Warning :: string

record hubSpotCleanup =
  hc_Attempted :: bool
  hc_NoteID :: "int option"
  hc_FileID :: "string option"
  hc_NoteDeleted :: bool
  hc_FileDeleted :: bool
  hc_Warnings :: "string list"

record revertResponse =
  rv_OrderID :: int
  rv_QuoteID :: int
  rv_OrderCode :: "string option"
  rv_DeletedRows :: int
  rv_BridgeDeleted :: bool
  rv_HubSpot :: hubSpotCleanup
  rv_Warnings :: "string list"
  rv_Warning :: string

datatype oresult =
    Refused int string
  | ListOrders "orderSummary list" | ShowOrder orderDetail | ListRows "orderRow list" | ListTechRows "technicalRow list"
  | ShowRow orderRow | ShowTechRow technicalRow | ListCustomers "(int \<times> string) list"
  | SendResult sendResponse | ActivationResult string orderRow | RevertResult revertResponse
  | PDF string string

type_synonym oprog = "oresult proc"

section \<open>Guards\<close>

definition customerRelationsRoles :: "string list" where
  "customerRelationsRoles = [''app_customer_relations'']"

definition ordiniAccessRoles :: "string list" where
  "ordiniAccessRoles = [''app_ordini_access'']"

definition hasCustomerRelations :: "orequest \<Rightarrow> bool" where
  "hasCustomerRelations rq \<longleftrightarrow> (case qr_Roles rq of None \<Rightarrow> False | Some roles \<Rightarrow> HasAnyRole roles customerRelationsRoles)"

definition requireCustomerRelations :: "orequest \<Rightarrow> oprog \<Rightarrow> oprog" where
  "requireCustomerRelations rq k = (if hasCustomerRelations rq then k else Return (Refused 403 ''role_insufficient''))"

definition requireVodka :: "ohandler \<Rightarrow> oprog \<Rightarrow> oprog" where
  "requireVodka h k = (if oh_Vodka h then k else Return (Refused 503 ''vodka_database_not_configured''))"

definition requireAlyante :: "ohandler \<Rightarrow> oprog \<Rightarrow> oprog" where
  "requireAlyante h k = (if oh_Alyante h then k else Return (Refused 503 ''alyante_database_not_configured''))"

definition requireMistra :: "ohandler \<Rightarrow> oprog \<Rightarrow> oprog" where
  "requireMistra h k = (if oh_Mistra h then k else Return (Refused 503 ''mistra_database_not_configured''))"

definition requireGateway :: "ohandler \<Rightarrow> oprog \<Rightarrow> oprog" where
  "requireGateway h k = (if oh_Arak h then k else Return (Refused 503 ''gateway_not_configured''))"

definition requireState :: "string \<Rightarrow> string list \<Rightarrow> oprog \<Rightarrow> oprog" where
  "requireState actual allowed k = (if actual \<in> set allowed then k else Return (Refused 409 ''wrong_state''))"

definition dbFailure :: oresult where
  "dbFailure = Refused 500 ''db_failed''"

definition parsePositive :: "string \<Rightarrow> int option" where
  "parsePositive s = (case ParseInt (TrimSpace s) of (i, ok) \<Rightarrow> if ok \<and> 0 < i then Some i else None)"

definition parseOrderID :: "orequest \<Rightarrow> (int \<Rightarrow> oprog) \<Rightarrow> oprog" where
  "parseOrderID rq k = (case parsePositive (qr_ID rq) of None \<Rightarrow> Return (Refused 400 ''invalid_order_id'') | Some i \<Rightarrow> k i)"

definition parseRowID :: "orequest \<Rightarrow> (int \<Rightarrow> oprog) \<Rightarrow> oprog" where
  "parseRowID rq k = (case parsePositive (qr_RowID rq) of None \<Rightarrow> Return (Refused 400 ''invalid_row_id'') | Some i \<Rightarrow> k i)"

text \<open>A body into a struct whose fields have the given setter: an unknown field is an error.\<close>

definition decodeJSON :: "(string \<Rightarrow> any \<Rightarrow> 'p \<Rightarrow> 'p option) \<Rightarrow> 'p \<Rightarrow> orequest \<Rightarrow> ('p \<Rightarrow> oprog) \<Rightarrow> oprog" where
  "decodeJSON setter zero rq k =
     (case Option.bind (qr_Body rq) (\<lambda>v. decodeStruct setter v zero) of
        None \<Rightarrow> Return (Refused 400 ''invalid_request_body'')
      | Some p \<Rightarrow> k p)"

section \<open>Reading an order\<close>

definition paymentMethodLabel :: "string option \<Rightarrow> (string option \<Rightarrow> oprog) \<Rightarrow> oprog" where
  "paymentMethodLabel code k =
     (case code of
        Some c \<Rightarrow>
          if c = '''' then k None
          else Do (SelectLabel c) (\<lambda>a. k (case a of Text (Some l) \<Rightarrow> if l = '''' then None else Some l | _ \<Rightarrow> None))
      | None \<Rightarrow> k None)"

definition getOrderWithoutOrigin :: "ohandler \<Rightarrow> int \<Rightarrow> (orderDetail dbResult \<Rightarrow> oprog) \<Rightarrow> oprog" where
  "getOrderWithoutOrigin h i k =
     Do (SelectOrder i) (\<lambda>a.
       case asOrder a of
         DbError \<Rightarrow> k DbError
       | NoRows \<Rightarrow> k NoRows
       | Row o' \<Rightarrow>
           if \<not> oh_Mistra h then k (Row o')
           else paymentMethodLabel (od_CodTerminiPag o') (\<lambda>l1.
                  paymentMethodLabel (od_OriginCodTerminiPag o') (\<lambda>l2.
                    k (Row (o'\<lparr>od_PaymentMethodLabel := l1, od_OriginPaymentMethodLabel := l2\<rparr>)))))"

text \<open>The quote an order comes from; \<open>None\<close> is an error, which is only logged.\<close>

definition loadOrigin :: "ohandler \<Rightarrow> int \<Rightarrow> (orderOrigin option option \<Rightarrow> oprog) \<Rightarrow> oprog" where
  "loadOrigin h i k =
     (if \<not> oh_Mistra h then k (Some None)
      else Do (SelectQuoteID i) (\<lambda>a.
        case a of
          NoRow \<Rightarrow> k (Some None)
        | Id q \<Rightarrow>
            let origin = \<lparr>oo_QuoteID = q, oo_QuoteCode = None, oo_QuoteURL = oh_Link h (''quotes/'' @ FormatInt q)\<rparr>
            in Do (SelectQuoteNumber q) (\<lambda>b.
                 case b of
                   NoRow \<Rightarrow> k (Some (Some origin))
                 | Text (Some c) \<Rightarrow> k (Some (Some (if c \<noteq> '''' then origin\<lparr>oo_QuoteCode := Some c\<rparr> else origin)))
                 | Text None \<Rightarrow> k (Some (Some origin))
                 | _ \<Rightarrow> k None)
        | _ \<Rightarrow> k None))"

definition getOrder :: "ohandler \<Rightarrow> int \<Rightarrow> (orderDetail dbResult \<Rightarrow> oprog) \<Rightarrow> oprog" where
  "getOrder h i k =
     getOrderWithoutOrigin h i (\<lambda>res.
       case res of
         Row o' \<Rightarrow> loadOrigin h i (\<lambda>origin. k (Row (case origin of None \<Rightarrow> o' | Some x \<Rightarrow> o'\<lparr>od_Origin := x\<rparr>)))
       | e \<Rightarrow> k e)"

text \<open>The three ways to go on after an order was read.\<close>

definition withOrder :: "orderDetail dbResult \<Rightarrow> (orderDetail \<Rightarrow> oprog) \<Rightarrow> oprog" where
  "withOrder res k =
     (case res of
        NoRows \<Rightarrow> Return (Refused 404 ''order_not_found'')
      | DbError \<Rightarrow> Return dbFailure
      | Row o' \<Rightarrow> k o')"

definition withRow :: "'r dbResult \<Rightarrow> ('r \<Rightarrow> oprog) \<Rightarrow> oprog" where
  "withRow res k =
     (case res of
        NoRows \<Rightarrow> Return (Refused 404 ''row_not_found'')
      | DbError \<Rightarrow> Return dbFailure
      | Row r \<Rightarrow> k r)"

definition writeOrderOrNotFound :: "ohandler \<Rightarrow> int \<Rightarrow> oprog" where
  "writeOrderOrNotFound h i = getOrder h i (\<lambda>res. withOrder res (\<lambda>o'. Return (ShowOrder o')))"

definition writeOrderIfStillInStateOrConflict :: "ohandler \<Rightarrow> int \<Rightarrow> string list \<Rightarrow> oprog" where
  "writeOrderIfStillInStateOrConflict h i allowed =
     getOrder h i (\<lambda>res. withOrder res (\<lambda>o'. requireState (stateOf o') allowed (Return (ShowOrder o'))))"

definition summaryOf :: "orderDetail \<Rightarrow> orderSummary" where
  "summaryOf o' = orderSummary.truncate o'"

definition scanOrderSummary :: "orderDetail \<Rightarrow> orderSummary option" where
  "scanOrderSummary o' =
     (case (scanNullDate (od_Datadoc o'), scanNullDate (od_Dataconferma o')) of
        (Some datadoc, Some conferma) \<Rightarrow>
          Some ((summaryOf o')\<lparr>od_Datadoc := datadoc, od_Dataconferma := conferma,
            od_CodiceOrdine := (case (od_Ndoc o', od_Anno o') of (Some n, Some a) \<Rightarrow> Some (n @ ''/'' @ FormatInt a) | _ \<Rightarrow> None)\<rparr>)
      | _ \<Rightarrow> None)"

definition listOrders :: "(orderSummary list option \<Rightarrow> oprog) \<Rightarrow> oprog" where
  "listOrders k = Do SelectOrders (\<lambda>a. k (case a of Orders os \<Rightarrow> those (map scanOrderSummary os) | _ \<Rightarrow> None))"

definition listOrderRows :: "int \<Rightarrow> (orderRow list option \<Rightarrow> oprog) \<Rightarrow> oprog" where
  "listOrderRows i k = Do (SelectRows i) (\<lambda>a. k (asRows a))"

definition getOrderRow :: "int \<Rightarrow> int \<Rightarrow> (orderRow dbResult \<Rightarrow> oprog) \<Rightarrow> oprog" where
  "getOrderRow i j k = Do (SelectRow i j) (\<lambda>a. k (asRow a))"

definition getTechnicalRow :: "int \<Rightarrow> int \<Rightarrow> (technicalRow dbResult \<Rightarrow> oprog) \<Rightarrow> oprog" where
  "getTechnicalRow i j k = Do (SelectTechRow i j) (\<lambda>a. k (asTechRow a))"

definition listTechnicalRows :: "int \<Rightarrow> (technicalRow list option \<Rightarrow> oprog) \<Rightarrow> oprog" where
  "listTechnicalRows i k = Do (SelectTechRows i) (\<lambda>a. k (asTechRows a))"

text \<open>Customers without a name are left out.\<close>

definition customerOf :: "int option \<times> string option \<Rightarrow> (int \<times> string) option" where
  "customerOf c =
     (case c of (Some i, Some n) \<Rightarrow> if TrimSpace n = '''' then None else Some (i, TrimSpace n) | _ \<Rightarrow> None)"

definition listCustomers :: "((int \<times> string) list option \<Rightarrow> oprog) \<Rightarrow> oprog" where
  "listCustomers k = Do SelectCustomers (\<lambda>a. k (case a of Customers cs \<Rightarrow> Some (List.map_filter customerOf cs) | _ \<Rightarrow> None))"

definition getCustomerByID :: "int \<Rightarrow> ((int \<times> string) dbResult \<Rightarrow> oprog) \<Rightarrow> oprog" where
  "getCustomerByID i k =
     Do (SelectCustomer i) (\<lambda>a.
       k (case a of Customer cid name \<Rightarrow> (case customerOf (cid, name) of None \<Rightarrow> NoRows | Some c \<Rightarrow> Row c)
          | NoRow \<Rightarrow> NoRows | _ \<Rightarrow> DbError))"

end
