(* ===== verification/OrdiniHandlers.thy ===== *)
theory OrdiniHandlers
  imports OrdiniProg
begin

text \<open>
  The handlers of the orders application: lists, edits of an order and its rows (\<open>store_orders.go\<close>,
  \<open>store_rows.go\<close>, \<open>store_customers.go\<close>), the sending to the ERP (\<open>workflow_send.go\<close>), the activation of a
  row (\<open>workflow_activate.go\<close>), the undoing of a conversion (\<open>workflow_revert.go\<close>) and the documents
  (\<open>pdf.go\<close>), with the calls of the gateway (\<open>gateway.go\<close>).
\<close>

section \<open>Lists and edits\<close>

definition handleListOrders :: "ohandler \<Rightarrow> orequest \<Rightarrow> oprog" where
  "handleListOrders h rq =
     requireVodka h (listOrders (\<lambda>r. Return (case r of None \<Rightarrow> dbFailure | Some os \<Rightarrow> ListOrders os)))"

definition handleGetOrder :: "ohandler \<Rightarrow> orequest \<Rightarrow> oprog" where
  "handleGetOrder h rq =
     requireVodka h (parseOrderID rq (\<lambda>i. getOrder h i (\<lambda>res. withOrder res (\<lambda>o'. Return (ShowOrder o')))))"

definition handleListRows :: "ohandler \<Rightarrow> orequest \<Rightarrow> oprog" where
  "handleListRows h rq =
     requireVodka h (parseOrderID rq (\<lambda>i. listOrderRows i (\<lambda>r. Return (case r of None \<Rightarrow> dbFailure | Some rs \<Rightarrow> ListRows rs))))"

definition handleListTechnicalRows :: "ohandler \<Rightarrow> orequest \<Rightarrow> oprog" where
  "handleListTechnicalRows h rq =
     requireVodka h (parseOrderID rq (\<lambda>i. listTechnicalRows i (\<lambda>r. Return (case r of None \<Rightarrow> dbFailure | Some rs \<Rightarrow> ListTechRows rs))))"

definition handleListCustomers :: "ohandler \<Rightarrow> orequest \<Rightarrow> oprog" where
  "handleListCustomers h rq =
     requireAlyante h (listCustomers (\<lambda>r. Return (case r of None \<Rightarrow> dbFailure | Some cs \<Rightarrow> ListCustomers cs)))"

record updateHeaderRequest =
  uh_CustomerPO :: string
  uh_ConfirmationDate :: string
  uh_CustomerID :: int

definition setUpdateHeader :: "string \<Rightarrow> any \<Rightarrow> updateHeaderRequest \<Rightarrow> updateHeaderRequest option" where
  "setUpdateHeader k v p =
     (if EqualFold k ''customer_po'' then asString (\<lambda>s. p\<lparr>uh_CustomerPO := s\<rparr>) v p
      else if EqualFold k ''confirmation_date'' then asString (\<lambda>s. p\<lparr>uh_ConfirmationDate := s\<rparr>) v p
      else if EqualFold k ''customer_id'' then asInt (\<lambda>i. p\<lparr>uh_CustomerID := i\<rparr>) v p
      else None)"

text \<open>A valid date parsed and printed is the same text.\<close>

definition confirmationDateOrNil :: "string \<Rightarrow> string option option" where
  "confirmationDateOrNil value =
     (let trimmed = TrimSpace value
      in if trimmed = '''' then Some None
         else case ParseDate trimmed of None \<Rightarrow> None | Some _ \<Rightarrow> Some (Some trimmed))"

definition handlePatchOrderHeader :: "ohandler \<Rightarrow> orequest \<Rightarrow> oprog" where
  "handlePatchOrderHeader h rq =
     requireVodka h (requireAlyante h (parseOrderID rq (\<lambda>i.
       decodeJSON setUpdateHeader \<lparr>uh_CustomerPO = '''', uh_ConfirmationDate = '''', uh_CustomerID = 0\<rparr> rq (\<lambda>p.
         if uh_CustomerID p \<le> 0 then Return (Refused 422 ''missing_customer'')
         else case confirmationDateOrNil (uh_ConfirmationDate p) of
           None \<Rightarrow> Return (Refused 422 ''invalid_confirmation_date'')
         | Some date \<Rightarrow>
             getOrderWithoutOrigin h i (\<lambda>res. withOrder res (\<lambda>o'.
               requireState (stateOf o') [OrderStateBozza]
                 (getCustomerByID (uh_CustomerID p) (\<lambda>c.
                    case c of
                      NoRows \<Rightarrow> Return (Refused 404 ''customer_not_found'')
                    | DbError \<Rightarrow> Return dbFailure
                    | Row (cid, name) \<Rightarrow>
                        Do (Exec (SetHeader (nullIfBlank (uh_CustomerPO p)) date cid name i)) (\<lambda>a.
                          case asAffected a of
                            None \<Rightarrow> Return dbFailure
                          | Some n \<Rightarrow> if n = Some 0 then writeOrderIfStillInStateOrConflict h i [OrderStateBozza]
                                     else writeOrderOrNotFound h i)))))))))"

text \<open>The nine fields of a change of the referents, in the order of the columns.\<close>

definition referentKeys :: "string list" where
  "referentKeys = [''technical_name'', ''technical_phone'', ''technical_email'', ''other_technical_name'', ''other_technical_phone'',
     ''other_technical_email'', ''admin_name'', ''admin_phone'', ''admin_email'']"

definition setReferent :: "string \<Rightarrow> any \<Rightarrow> (string \<Rightarrow> string) \<Rightarrow> (string \<Rightarrow> string) option" where
  "setReferent k v p =
     (case find (EqualFold k) referentKeys of None \<Rightarrow> None | Some c \<Rightarrow> asString (\<lambda>s. p(c := s)) v p)"

definition boundReferents :: "(string \<Rightarrow> string) \<Rightarrow> referents" where
  "boundReferents p =
     \<lparr>re_TechNom = nullIfBlank (p ''technical_name''), re_TechTel = nullIfBlank (p ''technical_phone''),
      re_TechEmail = nullIfBlank (p ''technical_email''), re_AltroTechNom = nullIfBlank (p ''other_technical_name''),
      re_AltroTechTel = nullIfBlank (p ''other_technical_phone''), re_AltroTechEmail = nullIfBlank (p ''other_technical_email''),
      re_AdmNom = nullIfBlank (p ''admin_name''), re_AdmTechTel = nullIfBlank (p ''admin_phone''),
      re_AdmTechEmail = nullIfBlank (p ''admin_email'')\<rparr>"

definition handlePatchReferents :: "ohandler \<Rightarrow> orequest \<Rightarrow> oprog" where
  "handlePatchReferents h rq =
     requireVodka h (parseOrderID rq (\<lambda>i.
       decodeJSON setReferent (\<lambda>_. '''') rq (\<lambda>p.
         getOrderWithoutOrigin h i (\<lambda>res. withOrder res (\<lambda>o'.
           requireState (stateOf o') [OrderStateBozza, OrderStateInviato]
             (Do (Exec (SetReferents (boundReferents p) i)) (\<lambda>a.
                case asAffected a of
                  None \<Rightarrow> Return dbFailure
                | Some n \<Rightarrow> if n = Some 0 then Return (Refused 409 ''wrong_state'') else writeOrderOrNotFound h i)))))))"

text \<open>A struct with one text.\<close>

definition setText :: "string \<Rightarrow> string \<Rightarrow> any \<Rightarrow> string \<Rightarrow> string option" where
  "setText key k v p = (if EqualFold k key then asString (\<lambda>s. s) v p else None)"

definition handlePatchSerialNumber :: "ohandler \<Rightarrow> orequest \<Rightarrow> oprog" where
  "handlePatchSerialNumber h rq =
     requireVodka h (parseOrderID rq (\<lambda>i. parseRowID rq (\<lambda>j.
       decodeJSON (setText ''serial_number'') '''' rq (\<lambda>serial.
         getOrderWithoutOrigin h i (\<lambda>res. withOrder res (\<lambda>o'.
           requireState (stateOf o') [OrderStateBozza]
             (getOrderRow i j (\<lambda>r. withRow r (\<lambda>_.
                Do (Exec (SetSerial (nullIfBlank serial) j i)) (\<lambda>a.
                  case asAffected a of
                    None \<Rightarrow> Return dbFailure
                  | Some _ \<Rightarrow> getOrderRow i j (\<lambda>r'. Return (case r' of Row x \<Rightarrow> ShowRow x | _ \<Rightarrow> dbFailure))))))))))))"

definition handlePatchTechnicalNotes :: "ohandler \<Rightarrow> orequest \<Rightarrow> oprog" where
  "handlePatchTechnicalNotes h rq =
     requireVodka h (parseOrderID rq (\<lambda>i. parseRowID rq (\<lambda>j.
       decodeJSON (setText ''technical_notes'') '''' rq (\<lambda>notes.
         getOrderRow i j (\<lambda>r. withRow r (\<lambda>_.
           Do (Exec (SetNotes (nullIfBlank notes) j i)) (\<lambda>a.
             case asAffected a of
               None \<Rightarrow> Return dbFailure
             | Some _ \<Rightarrow> getTechnicalRow i j (\<lambda>r'. Return (case r' of Row x \<Rightarrow> ShowTechRow x | _ \<Rightarrow> dbFailure)))))))))"

section \<open>The gateway\<close>

definition gatewayOutcome :: "reply \<Rightarrow> gatewayError option" where
  "gatewayOutcome r =
     (case r of Failed \<Rightarrow> Some TransportError | Reply status _ b \<Rightarrow> if 400 \<le> status then Some (HTTPError status b) else None)"

definition gatewayPostJSON :: "string \<Rightarrow> fields \<Rightarrow> (gatewayError option \<Rightarrow> oprog) \<Rightarrow> oprog" where
  "gatewayPostJSON path payload k = Do (PostJSON path payload) (\<lambda>a. k (gatewayOutcome (asReply a)))"

definition gatewaySendToERP :: "orderDetail \<Rightarrow> orderRow \<Rightarrow> (gatewayError option \<Rightarrow> oprog) \<Rightarrow> oprog" where
  "gatewaySendToERP o' row k =
     (case buildSendToERPPayload o' row of
        None \<Rightarrow> k (Some PreconditionMissing)
      | Some payload \<Rightarrow> gatewayPostJSON ''/orders/v1/erp'' payload k)"

definition activationPayload :: "int \<Rightarrow> int \<Rightarrow> string \<Rightarrow> fields" where
  "activationPayload systemODV systemODVRow date =
     [(''cdlan_systemodv'', Integer systemODV), (''cdlan_systemodv_row'', Integer systemODVRow), (''cdlan_data_attivazione'', Str date)]"

definition gatewaySetActivationDate :: "orderDetail \<Rightarrow> orderRow \<Rightarrow> string \<Rightarrow> (gatewayError option \<Rightarrow> oprog) \<Rightarrow> oprog" where
  "gatewaySetActivationDate o' row date k =
     (case (parseRequiredInt (ptrStringValue (od_SystemODV o')), ow_SystemODVRow row) of
        (Some odv, Some odvRow) \<Rightarrow> gatewayPostJSON ''/orders/v1/set-order-activation'' (activationPayload odv odvRow date) k
      | _ \<Rightarrow> k (Some PreconditionMissing))"

text \<open>The form carries the file, the id of the order and the name; its assembly in memory does not fail.\<close>

definition gatewayUploadToArxivar :: "orderDetail \<Rightarrow> string \<Rightarrow> string \<Rightarrow> (gatewayError option \<Rightarrow> oprog) \<Rightarrow> oprog" where
  "gatewayUploadToArxivar o' pdf filename k =
     Do (Upload pdf (od_ID o') filename) (\<lambda>a. k (gatewayOutcome (asReply a)))"

section \<open>Sending an order to the ERP\<close>

definition maxSendToERPPDFBytes :: nat where "maxSendToERPPDFBytes = 2 ^ 25"

definition readSendPDF :: "orequest \<Rightarrow> (string \<Rightarrow> oprog) \<Rightarrow> oprog" where
  "readSendPDF rq k =
     (if \<not> qr_FormOK rq then Return (Refused 400 ''invalid_pdf'')
      else case qr_File rq of
        None \<Rightarrow> Return (Refused 422 ''missing_pdf'')
      | Some (content, ok) \<Rightarrow>
          let pdf = take maxSendToERPPDFBytes content
          in if \<not> ok then Return (Refused 400 ''invalid_pdf'')
             else if \<not> HasPrefix (TrimSpace pdf) ''%PDF'' then Return (Refused 400 ''invalid_pdf'')
             else k pdf)"

text \<open>Every row is sent, whatever becomes of the ones before.\<close>

fun sendRows :: "orderDetail \<Rightarrow> orderRow list \<Rightarrow> sendRowOutcome list \<Rightarrow> bool \<Rightarrow> (sendRowOutcome list \<Rightarrow> bool \<Rightarrow> oprog) \<Rightarrow> oprog" where
  "sendRows o' [] outs failed k = k outs failed"
| "sendRows o' (row # rows) outs failed k =
     gatewaySendToERP o' row (\<lambda>e.
       let out = \<lparr>so_RowID = ow_ID row, so_SystemODVRow = ow_SystemODVRow row, so_Status = ''ok'', so_Error = None\<rparr>
       in case e of
            None \<Rightarrow> sendRows o' rows (outs @ [out]) failed k
          | Some err \<Rightarrow>
              sendRows o' rows (outs @ [out\<lparr>so_Status := ''error'', so_Error := Some (sanitizeGatewayError err)\<rparr>]) True k)"

definition handleSendToERP :: "ohandler \<Rightarrow> orequest \<Rightarrow> oprog" where
  "handleSendToERP h rq =
     requireCustomerRelations rq (requireVodka h (requireGateway h (parseOrderID rq (\<lambda>i.
       getOrderWithoutOrigin h i (\<lambda>res. withOrder res (\<lambda>o'.
         requireState (stateOf o') [OrderStateBozza]
           (if od_Dataconferma o' = None then Return (Refused 422 ''missing_confirmation_date'')
            else if TrimSpace (ptrStringValue (od_Cliente o')) = '''' \<and> od_ClienteID o' = None then Return (Refused 422 ''missing_customer'')
            else readSendPDF rq (\<lambda>pdf.
              listOrderRows i (\<lambda>rows.
                case rows of
                  None \<Rightarrow> Return dbFailure
                | Some [] \<Rightarrow> Return (Refused 422 ''precondition_missing'')
                | Some rs \<Rightarrow>
                    sendRows o' rs [] False (\<lambda>outs failed.
                      let response = \<lparr>se_Rows = outs, se_StateTransitioned = False, se_ArxivarUploaded = False, se_Warning = ''''\<rparr>
                      in if failed then Return (SendResult response)
                         else Do (Exec (MarkSent i)) (\<lambda>a.
                           case asAffected a of
                             None \<Rightarrow> Return dbFailure
                           | Some n \<Rightarrow>
                               if n = Some 0 then Return (Refused 409 ''wrong_state'')
                               else gatewayUploadToArxivar o' pdf (orderCodeForFilename o' @ ''_firmato.pdf'') (\<lambda>e.
                                 Return (SendResult (case e of
                                   None \<Rightarrow> response\<lparr>se_StateTransitioned := True, se_ArxivarUploaded := True\<rparr>
                                 | Some _ \<Rightarrow> response\<lparr>se_StateTransitioned := True, se_Warning := ''arxivar_upload_failed''\<rparr>))))))))))))))"

section \<open>Activating a row\<close>

text \<open>The way out of a transaction that is not committed.\<close>

definition abort :: "oresult \<Rightarrow> oprog" where
  "abort r = Do Rollback (\<lambda>_. Return r)"

text \<open>What follows the commit.\<close>

definition commitActivation :: "int \<Rightarrow> int \<Rightarrow> string \<Rightarrow> oprog" where
  "commitActivation i j newState =
     Do Commit (\<lambda>a.
       if a \<noteq> Done then abort (Refused 500 ''db_commit_failed'')
       else getOrderRow i j (\<lambda>r. Return (case r of Row x \<Rightarrow> ActivationResult newState x | _ \<Rightarrow> dbFailure)))"

definition handleActivateRow :: "ohandler \<Rightarrow> orequest \<Rightarrow> oprog" where
  "handleActivateRow h rq =
     requireCustomerRelations rq (requireVodka h (requireGateway h (parseOrderID rq (\<lambda>i. parseRowID rq (\<lambda>j.
       decodeJSON (setText ''activation_date'') '''' rq (\<lambda>date.
         if ParseDate date = None then Return (Refused 400 ''invalid_activation_date'')
         else getOrderWithoutOrigin h i (\<lambda>res. withOrder res (\<lambda>o'.
           requireState (stateOf o') [OrderStateInviato]
             (getOrderRow i j (\<lambda>r. withRow r (\<lambda>row.
                if parseRequiredInt (ptrStringValue (od_SystemODV o')) = None \<or> ow_SystemODVRow row = None
                then Return (Refused 422 ''precondition_missing'')
                else if \<not> canActivateOrderRow row then Return (Refused 422 ''precondition_missing'')
                else Do Begin (\<lambda>b.
                  if b \<noteq> Done then Return dbFailure
                  else Do (InTx (ConfirmRow date j i)) (\<lambda>u.
                    if asAffected u = None then abort dbFailure
                    else gatewaySetActivationDate o' row date (\<lambda>e.
                      if e \<noteq> None then abort (Refused 502 ''gateway_error'')
                      else Do (CountAll i) (\<lambda>t.
                        case asCount t of
                          None \<Rightarrow> abort dbFailure
                        | Some whole \<Rightarrow>
                            Do (CountSettled i) (\<lambda>s.
                              case asCount s of
                                None \<Rightarrow> abort dbFailure
                              | Some confirmed \<Rightarrow>
                                  if 0 < whole \<and> confirmed = whole then
                                    Do (InTx (MarkActive i)) (\<lambda>m.
                                      case asAffected m of
                                        None \<Rightarrow> abort dbFailure
                                      | Some None \<Rightarrow> abort dbFailure
                                      | Some (Some n) \<Rightarrow>
                                          if n = 0 then abort (Refused 409 ''wrong_state'')
                                          else commitActivation i j OrderStateAttivo)
                                  else commitActivation i j OrderStateInviato))))))))))))))))"

section \<open>Undoing a conversion\<close>

record hubSpotMetadata =
  hm_DealID :: string
  hm_DealURL :: string
  hm_FileID :: string
  hm_NoteID :: int
  hm_Filename :: string
  hm_FolderPath :: string

definition noMetadata :: hubSpotMetadata where
  "noMetadata = \<lparr>hm_DealID = '''', hm_DealURL = '''', hm_FileID = '''', hm_NoteID = 0, hm_Filename = '''', hm_FolderPath = ''''\<rparr>"

definition setMetadata :: "string \<Rightarrow> any \<Rightarrow> hubSpotMetadata \<Rightarrow> hubSpotMetadata option" where
  "setMetadata k v m =
     (if EqualFold k ''deal_id'' then asString (\<lambda>s. m\<lparr>hm_DealID := s\<rparr>) v m
      else if EqualFold k ''deal_url'' then asString (\<lambda>s. m\<lparr>hm_DealURL := s\<rparr>) v m
      else if EqualFold k ''file_id'' then asString (\<lambda>s. m\<lparr>hm_FileID := s\<rparr>) v m
      else if EqualFold k ''note_id'' then asInt (\<lambda>i. m\<lparr>hm_NoteID := i\<rparr>) v m
      else if EqualFold k ''filename'' then asString (\<lambda>s. m\<lparr>hm_Filename := s\<rparr>) v m
      else if EqualFold k ''folder_path'' then asString (\<lambda>s. m\<lparr>hm_FolderPath := s\<rparr>) v m
      else Some m)"

definition setBridgePayload :: "string \<Rightarrow> any \<Rightarrow> hubSpotMetadata option \<Rightarrow> hubSpotMetadata option option" where
  "setBridgePayload k v m =
     (if EqualFold k ''hubspot'' then
        (case v of Null \<Rightarrow> Some None
         | _ \<Rightarrow> map_option Some (decodeStruct setMetadata v (case m of None \<Rightarrow> noMetadata | Some x \<Rightarrow> x)))
      else Some m)"

text \<open>The data of the bridge is a text with the value it decodes to.\<close>

definition readMetadata :: "(string \<times> any option) option \<Rightarrow> hubSpotMetadata option" where
  "readMetadata jdata =
     (case jdata of
        None \<Rightarrow> None
      | Some (text, value) \<Rightarrow>
          if TrimSpace text = '''' then None
          else case Option.bind value (\<lambda>v. decodeStruct setBridgePayload v None) of
            Some (Some m) \<Rightarrow> Some (m\<lparr>hm_DealID := TrimSpace (hm_DealID m), hm_DealURL := TrimSpace (hm_DealURL m),
              hm_FileID := TrimSpace (hm_FileID m), hm_Filename := TrimSpace (hm_Filename m), hm_FolderPath := TrimSpace (hm_FolderPath m)\<rparr>)
          | _ \<Rightarrow> None)"

definition appendWarning :: "string list \<Rightarrow> string \<Rightarrow> string list" where
  "appendWarning ws code = (if code \<in> set ws then ws else ws @ [code])"

definition firstWarning :: "string list \<Rightarrow> string" where
  "firstWarning ws = (case ws of [] \<Rightarrow> '''' | w # _ \<Rightarrow> w)"

definition noCleanup :: hubSpotCleanup where
  "noCleanup = \<lparr>hc_Attempted = False, hc_NoteID = None, hc_FileID = None, hc_NoteDeleted = False, hc_FileDeleted = False, hc_Warnings = []\<rparr>"

definition gone :: "answer \<Rightarrow> bool" where
  "gone a \<longleftrightarrow> a = Deleted \<or> a = NotFound"

definition deleteFileStep :: "hubSpotMetadata \<Rightarrow> hubSpotCleanup \<Rightarrow> (hubSpotCleanup \<Rightarrow> oprog) \<Rightarrow> oprog" where
  "deleteFileStep m c k =
     (if hm_FileID m \<noteq> '''' then
        Do (DeleteFile (hm_FileID m)) (\<lambda>a.
          k (if gone a then c\<lparr>hc_FileDeleted := True\<rparr> else c\<lparr>hc_Warnings := appendWarning (hc_Warnings c) ''hubspot_cleanup_failed''\<rparr>))
      else k c)"

definition cleanupConvertedOrderHubSpot :: "ohandler \<Rightarrow> (string \<times> any option) option \<Rightarrow> (hubSpotCleanup \<Rightarrow> oprog) \<Rightarrow> oprog" where
  "cleanupConvertedOrderHubSpot h jdata k =
     (case readMetadata jdata of
        None \<Rightarrow> k noCleanup
      | Some m \<Rightarrow>
          if hm_FileID m = '''' \<and> hm_NoteID m = 0 then k noCleanup
          else let c = noCleanup\<lparr>hc_Attempted := True, hc_FileID := (if hm_FileID m \<noteq> '''' then Some (hm_FileID m) else None),
                         hc_NoteID := (if 0 < hm_NoteID m then Some (hm_NoteID m) else None)\<rparr>
               in if \<not> oh_HubSpot h then k (c\<lparr>hc_Warnings := appendWarning (hc_Warnings c) ''hubspot_not_configured''\<rparr>)
                  else if 0 < hm_NoteID m then
                    Do (DeleteNote (hm_NoteID m)) (\<lambda>a.
                      deleteFileStep m
                        (if gone a then c\<lparr>hc_NoteDeleted := True\<rparr>
                         else c\<lparr>hc_Warnings := appendWarning (hc_Warnings c) ''hubspot_cleanup_failed''\<rparr>) k)
                  else deleteFileStep m c k)"

text \<open>The rows in the accounting system; \<open>None\<close>: a number or a year is missing. \<open>Some None\<close>: the query failed.\<close>

definition countAlyanteOrderRows :: "orderDetail \<Rightarrow> (int option option \<Rightarrow> oprog) \<Rightarrow> oprog" where
  "countAlyanteOrderRows o' k =
     (let ndoc = TrimSpace (ptrStringValue (od_Ndoc o'))
      in case od_Anno o' of
           None \<Rightarrow> k None
         | Some anno \<Rightarrow>
             if ndoc = '''' then k None
             else Do (CountErpRows (case ParseInt ndoc of (i, ok) \<Rightarrow> if ok then Some i else None) anno ndoc)
                    (\<lambda>a. k (Some (asCount a))))"

datatype deletion = Deletion int | StateChanged | DeletionFailed

text \<open>The rows and the order in one transaction; the deferred rollback after a commit does nothing.\<close>

definition deleteVodkaConvertedOrder :: "int \<Rightarrow> (deletion \<Rightarrow> oprog) \<Rightarrow> oprog" where
  "deleteVodkaConvertedOrder i k =
     Do Begin (\<lambda>b.
       if b \<noteq> Done then k DeletionFailed
       else Do (InTx (DeleteRows i)) (\<lambda>r.
         case asAffected r of
           None \<Rightarrow> Do Rollback (\<lambda>_. k DeletionFailed)
         | Some n \<Rightarrow>
             Do (InTx (DeleteOrder i)) (\<lambda>d.
               case asAffected d of
                 None \<Rightarrow> Do Rollback (\<lambda>_. k DeletionFailed)
               | Some m \<Rightarrow>
                   if m = Some 0 then Do Rollback (\<lambda>_. k StateChanged)
                   else Do Commit (\<lambda>c.
                     if c \<noteq> Done then Do Rollback (\<lambda>_. k DeletionFailed)
                     else k (Deletion (case n of None \<Rightarrow> 0 | Some x \<Rightarrow> x))))))"

definition handleRevertConversion :: "ohandler \<Rightarrow> orequest \<Rightarrow> oprog" where
  "handleRevertConversion h rq =
     requireVodka h (requireMistra h (requireAlyante h (parseOrderID rq (\<lambda>i.
       getOrderWithoutOrigin h i (\<lambda>res. withOrder res (\<lambda>o'.
         requireState (stateOf o') [OrderStateBozza]
           (if TrimSpace (ptrStringValue (od_ArxDocNumber o')) \<noteq> '''' then Return (Refused 409 ''order_has_signed_pdf'')
            else Do (SelectBridge i) (\<lambda>b.
              case b of
                NoRow \<Rightarrow> Return (Refused 409 ''not_converted_from_quote'')
              | Bridge quoteID jdata \<Rightarrow>
                  countAlyanteOrderRows o' (\<lambda>erp.
                    case erp of
                      None \<Rightarrow> Return (Refused 422 ''precondition_missing'')
                    | Some None \<Rightarrow> Return dbFailure
                    | Some (Some erpRows) \<Rightarrow>
                        if 0 < erpRows then Return (Refused 409 ''order_has_erp_rows'')
                        else deleteVodkaConvertedOrder i (\<lambda>d.
                          case d of
                            StateChanged \<Rightarrow> Return (Refused 409 ''wrong_state'')
                          | DeletionFailed \<Rightarrow> Return dbFailure
                          | Deletion deleted \<Rightarrow>
                              cleanupConvertedOrderHubSpot h jdata (\<lambda>c.
                                Do (DeleteBridge quoteID i) (\<lambda>x.
                                  let ok = (x \<noteq> Broken);
                                      ws = (if ok then hc_Warnings c else appendWarning (hc_Warnings c) ''bridge_delete_failed'')
                                  in Return (RevertResult \<lparr>rv_OrderID = i, rv_QuoteID = quoteID, rv_OrderCode = od_CodiceOrdine o',
                                       rv_DeletedRows = deleted, rv_BridgeDeleted = ok, rv_HubSpot = c, rv_Warnings = ws,
                                       rv_Warning = firstWarning ws\<rparr>)))))
              | _ \<Rightarrow> Return dbFailure)))))))) "

end
