(* ===== verification/OrdiniPdf.thy ===== *)
theory OrdiniPdf
  imports OrdiniHandlers
begin

text \<open>
  The documents of an order (\<open>ordini/pdf.go\<close>): the gateway answers with a file, or with a file in base64,
  possibly inside JSON, possibly more than once. Then the table of routes (\<open>RegisterRoutes\<close>).
\<close>

section \<open>Base64\<close>

definition b64 :: "char \<Rightarrow> nat option" where
  "b64 c =
     (let n = (of_char c :: nat)
      in if CHR ''A'' \<le> c \<and> c \<le> CHR ''Z'' then Some (n - 65)
         else if CHR ''a'' \<le> c \<and> c \<le> CHR ''z'' then Some (n - 71)
         else if is_digit c then Some (n + 4)
         else if c = CHR ''+'' then Some 62
         else if c = CHR ''/'' then Some 63
         else None)"

definition byte :: "nat \<Rightarrow> char" where "byte n = char_of (n mod 256)"

definition two :: "char \<Rightarrow> char \<Rightarrow> string option" where
  "two a b = (case (b64 a, b64 b) of (Some x, Some y) \<Rightarrow> Some [byte (x * 4 + y div 16)] | _ \<Rightarrow> None)"

definition three :: "char \<Rightarrow> char \<Rightarrow> char \<Rightarrow> string option" where
  "three a b c =
     (case (b64 a, b64 b, b64 c) of
        (Some x, Some y, Some z) \<Rightarrow> Some [byte (x * 4 + y div 16), byte (y * 16 + z div 4)]
      | _ \<Rightarrow> None)"

definition four :: "char \<Rightarrow> char \<Rightarrow> char \<Rightarrow> char \<Rightarrow> string option" where
  "four a b c d =
     (case (b64 a, b64 b, b64 c, b64 d) of
        (Some x, Some y, Some z, Some w) \<Rightarrow> Some [byte (x * 4 + y div 16), byte (y * 16 + z div 4), byte (z * 64 + w)]
      | _ \<Rightarrow> None)"

text \<open>\<open>StdEncoding\<close> and \<open>RawStdEncoding\<close>, after line ends are dropped.\<close>

fun stdBytes :: "string \<Rightarrow> string option" where
  "stdBytes [] = Some []"
| "stdBytes (a # b # c # d # r) =
     (if r = [] \<and> d = CHR ''='' then (if c = CHR ''='' then two a b else three a b c)
      else case four a b c d of None \<Rightarrow> None | Some x \<Rightarrow> map_option (\<lambda>y. x @ y) (stdBytes r))"
| "stdBytes _ = None"

fun rawBytes :: "string \<Rightarrow> string option" where
  "rawBytes [] = Some []"
| "rawBytes [a] = None"
| "rawBytes [a, b] = two a b"
| "rawBytes [a, b, c] = three a b c"
| "rawBytes (a # b # c # d # r) =
     (case four a b c d of None \<Rightarrow> None | Some x \<Rightarrow> map_option (\<lambda>y. x @ y) (rawBytes r))"

definition base64Decode :: "string \<Rightarrow> string option" where
  "base64Decode s =
     (let t = filter (\<lambda>c. c \<noteq> CHR 0x0A \<and> c \<noteq> CHR 0x0D) s
      in case stdBytes t of Some x \<Rightarrow> Some x | None \<Rightarrow> rawBytes t)"

section \<open>Unwrapping\<close>

definition pdfKeys :: "string list" where
  "pdfKeys = [''pdf'', ''PDF'', ''data'', ''file'', ''content'', ''body'', ''base64'', ''result'']"

definition wrappedText :: "any option \<Rightarrow> string option" where
  "wrappedText v =
     (case v of
        Some (Obj m) \<Rightarrow>
          List.find (\<lambda>_. True) (List.map_filter (\<lambda>k. case get m k of Str t \<Rightarrow> if TrimSpace t \<noteq> '''' then Some t else None | _ \<Rightarrow> None) pdfKeys)
      | _ \<Rightarrow> None)"

definition TrimQuotes :: "string \<Rightarrow> string" where
  "TrimQuotes s = TrimRightFunc (\<lambda>c. c = CHR 0x22) (TrimLeftFunc (\<lambda>c. c = CHR 0x22) s)"

definition dataPrefix :: string where "dataPrefix = ''data:application/pdf;base64,''"

text \<open>\<open>normalizePDFBodyDepth\<close>, with \<open>normalizePDFString\<close> in its place.\<close>

function normalizePDFBodyDepth :: "(string \<Rightarrow> any option) \<Rightarrow> string \<Rightarrow> nat \<Rightarrow> string option" where
  "normalizePDFBodyDepth unmarshal body depth =
     (if body = '''' then None
      else if HasPrefix body ''%PDF'' then Some body
      else if 2 < depth then None
      else let text = (case wrappedText (unmarshal body) of Some t \<Rightarrow> t | None \<Rightarrow> TrimQuotes (TrimSpace body))
           in case base64Decode (TrimPrefix (TrimSpace text) dataPrefix) of
                None \<Rightarrow> None
              | Some decoded \<Rightarrow> normalizePDFBodyDepth unmarshal (TrimSpace decoded) (depth + 1))"
  by pat_completeness auto
termination by (relation "measure (\<lambda>(u, b, d). 3 - d)") auto

definition normalizePDFBody :: "(string \<Rightarrow> any option) \<Rightarrow> string \<Rightarrow> string option" where
  "normalizePDFBody unmarshal body = normalizePDFBodyDepth unmarshal (TrimSpace body) 0"

section \<open>The handlers of documents\<close>

text \<open>What a document asks of an order: the rights, the states, and whether it is signed.\<close>

record pdfGate =
  pg_GatewayPath :: "int \<Rightarrow> string"
  pg_Query :: string
  pg_Filename :: "orderDetail \<Rightarrow> string"
  pg_RequiresCR :: bool
  pg_AllowedStates :: "string list"
  pg_Check :: "orderDetail \<Rightarrow> (int \<times> string) option"

definition gatewayPathWithID :: "string \<Rightarrow> int \<Rightarrow> string \<Rightarrow> string" where
  "gatewayPathWithID prefix i suffix = prefix @ PathEscape (FormatInt i) @ suffix"

definition proxyNormalizedPDF :: "ohandler \<Rightarrow> string \<Rightarrow> string \<Rightarrow> string \<Rightarrow> oprog" where
  "proxyNormalizedPDF h path query filename =
     Do (Download path query) (\<lambda>a.
       Return (case asReply a of
         Failed \<Rightarrow> Refused 502 ''gateway_error''
       | Reply status _ b \<Rightarrow>
           if \<not> by_OK b then Refused 502 ''gateway_error''
           else if 400 \<le> status then Refused 502 ''gateway_error''
           else (case normalizePDFBody (oh_Unmarshal h) (by_Text b) of
                   None \<Rightarrow> Refused 502 ''gw_pdf_malformed''
                 | Some pdf \<Rightarrow> PDF filename pdf)))"

definition handleGatedPDF :: "pdfGate \<Rightarrow> ohandler \<Rightarrow> orequest \<Rightarrow> oprog" where
  "handleGatedPDF gate h rq =
     (if pg_RequiresCR gate \<and> \<not> hasCustomerRelations rq then Return (Refused 403 ''role_insufficient'')
      else requireVodka h (requireGateway h (parseOrderID rq (\<lambda>i.
        getOrderWithoutOrigin h i (\<lambda>res. withOrder res (\<lambda>o'.
          if pg_AllowedStates gate \<noteq> [] \<and> stateOf o' \<notin> set (pg_AllowedStates gate) then Return (Refused 409 ''wrong_state'')
          else case pg_Check gate o' of
            Some (status, code) \<Rightarrow> Return (Refused status code)
          | None \<Rightarrow>
              Do (Exec (NormalizeOrder i)) (\<lambda>a.
                if asAffected a = None then Return dbFailure
                else Do (Exec (NormalizeRows i)) (\<lambda>b.
                  if asAffected b = None then Return dbFailure
                  else proxyNormalizedPDF h (pg_GatewayPath gate i) (pg_Query gate) (pg_Filename gate o')))))))))"

definition signed :: "orderDetail \<Rightarrow> bool" where
  "signed o' \<longleftrightarrow> TrimSpace (ptrStringValue (od_ArxDocNumber o')) \<noteq> ''''"

definition kickoffGate :: pdfGate where
  "kickoffGate = \<lparr>pg_GatewayPath = (\<lambda>i. gatewayPathWithID ''/orders/v1/kick-off/'' i ''''), pg_Query = '''',
     pg_Filename = (\<lambda>o'. ''kick off_'' @ orderCodeForFilename o' @ ''.pdf''), pg_RequiresCR = True,
     pg_AllowedStates = [OrderStateInviato], pg_Check = (\<lambda>_. None)\<rparr>"

definition activationFormGate :: pdfGate where
  "activationFormGate = \<lparr>pg_GatewayPath = (\<lambda>i. gatewayPathWithID ''/orders/v1/activation-form/'' i ''''), pg_Query = '''',
     pg_Filename = (\<lambda>o'. if EqualFold (ptrStringValue (od_ProfileLang o')) ''en''
                          then ''Activation Form_'' @ orderCodeForFilename o' @ ''.pdf''
                          else ''Modulo di Attivazione_'' @ orderCodeForFilename o' @ ''.pdf''),
     pg_RequiresCR = True, pg_AllowedStates = [OrderStateInviato, OrderStateAttivo], pg_Check = (\<lambda>_. None)\<rparr>"

definition orderPDFGate :: pdfGate where
  "orderPDFGate = \<lparr>pg_GatewayPath = (\<lambda>i. gatewayPathWithID ''/orders/v1/order/pdf/'' i ''/generate''), pg_Query = '''',
     pg_Filename = (\<lambda>o'. orderCodeForFilename o' @ ''.pdf''), pg_RequiresCR = False, pg_AllowedStates = [],
     pg_Check = (\<lambda>o'. if signed o' then Some (409, ''wrong_state'') else None)\<rparr>"

definition signedPDFGate :: pdfGate where
  "signedPDFGate = \<lparr>pg_GatewayPath = (\<lambda>i. gatewayPathWithID ''/orders/v1/order/pdf/'' i ''''), pg_Query = ''from=vodka'',
     pg_Filename = (\<lambda>o'. orderCodeForFilename o' @ ''_firmato.pdf''), pg_RequiresCR = False, pg_AllowedStates = [],
     pg_Check = (\<lambda>o'. if signed o' then None else Some (409, ''wrong_state''))\<rparr>"

section \<open>Routes\<close>

datatype oroute =
    GetOrders | GetOneOrder | GetRows | GetTechnicalRows | GetCustomers
  | GetKickoffPDF | GetActivationFormPDF | GetOrderPDF | GetSignedPDF
  | PatchHeader | PatchReferents | PostSendToERP | PostRevertConversion | PatchSerial | PatchNotes | PatchActivate

fun orouteHandler :: "oroute \<Rightarrow> ohandler \<Rightarrow> orequest \<Rightarrow> oprog" where
  "orouteHandler GetOrders = handleListOrders"
| "orouteHandler GetOneOrder = handleGetOrder"
| "orouteHandler GetRows = handleListRows"
| "orouteHandler GetTechnicalRows = handleListTechnicalRows"
| "orouteHandler GetCustomers = handleListCustomers"
| "orouteHandler GetKickoffPDF = handleGatedPDF kickoffGate"
| "orouteHandler GetActivationFormPDF = handleGatedPDF activationFormGate"
| "orouteHandler GetOrderPDF = handleGatedPDF orderPDFGate"
| "orouteHandler GetSignedPDF = handleGatedPDF signedPDFGate"
| "orouteHandler PatchHeader = handlePatchOrderHeader"
| "orouteHandler PatchReferents = handlePatchReferents"
| "orouteHandler PostSendToERP = handleSendToERP"
| "orouteHandler PostRevertConversion = handleRevertConversion"
| "orouteHandler PatchSerial = handlePatchSerialNumber"
| "orouteHandler PatchNotes = handlePatchTechnicalNotes"
| "orouteHandler PatchActivate = handleActivateRow"

text \<open>Every route is behind the access role; without claims the middleware answers 401.\<close>

definition serveRoute :: "oroute \<Rightarrow> ohandler \<Rightarrow> orequest \<Rightarrow> oprog" where
  "serveRoute rt h rq =
     (case qr_Roles rq of
        None \<Rightarrow> Return (Refused 401 ''unauthorized'')
      | Some roles \<Rightarrow> if HasAnyRole roles ordiniAccessRoles then orouteHandler rt h rq else Return (Refused 403 ''forbidden''))"

end
