(* ===== verification/OrdiniFlow.thy ===== *)
theory OrdiniFlow
  imports OrdiniPdf
begin

text \<open>
  What a handler of orders does in every execution, whatever the databases and services answer: a run is
  the list of its statements with their answers, and the rules below follow a handler along its runs.
\<close>

section \<open>Runs\<close>

type_synonym trace = "(statement \<times> answer) list"

primrec executes :: "'r proc \<Rightarrow> trace \<Rightarrow> 'r \<Rightarrow> bool" where
  "executes (Return x) = (\<lambda>tr r. tr = [] \<and> r = x)"
| "executes (Do s f) = (\<lambda>tr r. case tr of [] \<Rightarrow> False | (s', a) # tr' \<Rightarrow> s' = s \<and> executes (f a) tr' r)"

text \<open>In every run that continues a trace, each statement is allowed after what precedes it, and the result fits
  the whole trace.\<close>

primrec always :: "'r proc \<Rightarrow> (trace \<Rightarrow> statement \<Rightarrow> bool) \<Rightarrow> (trace \<Rightarrow> 'r \<Rightarrow> bool) \<Rightarrow> trace \<Rightarrow> bool" where
  "always (Return x) = (\<lambda>A Q t. Q t x)"
| "always (Do s f) = (\<lambda>A Q t. A t s \<and> (\<forall>a. always (f a) A Q (t @ [(s, a)])))"

lemma always_executes:
  "always p A Q t \<Longrightarrow> executes p tr r \<Longrightarrow> Q (t @ tr) r \<and> (\<forall>k < length tr. A (t @ take k tr) (fst (tr ! k)))"
proof (induction p arbitrary: t tr)
  case (Do s f)
  obtain a tr' where tr: "tr = (s, a) # tr'" "executes (f a) tr' r"
    using Do.prems(2) by (cases tr) auto
  have ih: "Q ((t @ [(s, a)]) @ tr') r \<and> (\<forall>k < length tr'. A ((t @ [(s, a)]) @ take k tr') (fst (tr' ! k)))"
    using Do.IH[of "f a" "t @ [(s, a)]" tr'] Do.prems(1) tr(2) by simp
  have "A (t @ take k tr) (fst (tr ! k))" if "k < length tr" for k
    using that ih Do.prems(1) tr(1) by (cases k) auto
  then show ?case using ih tr(1) by simp
qed simp

lemma always_at:
  assumes "always p A Q []" "executes p (before @ (s, a) # after) r"
  shows "A before s"
proof -
  have "A (take (length before) (before @ (s, a) # after)) (fst ((before @ (s, a) # after) ! length before))"
    using always_executes[OF assms] by (metis append_Nil length_append less_add_same_cancel1 list.size(3) zero_less_Suc length_Cons)
  then show ?thesis by simp
qed

lemma always_mono: "always p A Q t \<Longrightarrow> (\<And>t s. A t s \<Longrightarrow> A' t s) \<Longrightarrow> (\<And>t r. Q t r \<Longrightarrow> Q' t r) \<Longrightarrow> always p A' Q' t"
  by (induction p arbitrary: t) auto

section \<open>Statements\<close>

definition isRead :: "statement \<Rightarrow> bool" where
  "isRead s = (case s of SelectOrders \<Rightarrow> True | SelectOrder _ \<Rightarrow> True | SelectRows _ \<Rightarrow> True | SelectRow _ _ \<Rightarrow> True
     | SelectTechRows _ \<Rightarrow> True | SelectTechRow _ _ \<Rightarrow> True | SelectLabel _ \<Rightarrow> True | SelectBridge _ \<Rightarrow> True
     | SelectQuoteID _ \<Rightarrow> True | SelectQuoteNumber _ \<Rightarrow> True | SelectCustomers \<Rightarrow> True | SelectCustomer _ \<Rightarrow> True
     | CountErpRows _ _ _ \<Rightarrow> True | _ \<Rightarrow> False)"

definition readsFreely :: "(trace \<Rightarrow> statement \<Rightarrow> bool) \<Rightarrow> bool" where
  "readsFreely A \<longleftrightarrow> (\<forall>t s. isRead s \<longrightarrow> A t s)"

definition quiet :: "trace \<Rightarrow> bool" where
  "quiet t \<longleftrightarrow> list_all (\<lambda>x. isRead (fst x)) t"

text \<open>An order with the labels that a read adds to it left out.\<close>

definition unlabelled :: "orderDetail \<Rightarrow> orderDetail" where
  "unlabelled o' = o'\<lparr>od_PaymentMethodLabel := None, od_OriginPaymentMethodLabel := None\<rparr>"

text \<open>What reading an order appends to a trace, and what it yields.\<close>

definition orderRead :: "int \<Rightarrow> trace \<Rightarrow> orderDetail dbResult \<Rightarrow> bool" where
  "orderRead i t res \<longleftrightarrow>
     (\<exists>a ls. t = (SelectOrder i, a) # ls \<and> quiet ls \<and>
        asOrder a = (case res of Row o' \<Rightarrow> Row (unlabelled o') | NoRows \<Rightarrow> NoRows | DbError \<Rightarrow> DbError))"

lemma asOrder_unlabelled: "asOrder a = Row o' \<Longrightarrow> unlabelled o' = o'"
  by (auto simp: asOrder_def oneOf_def scanOrder_def unlabelled_def split: answer.splits option.splits)

lemma always_label:
  assumes "readsFreely A" "\<And>l ls. quiet ls \<Longrightarrow> always (k l) A Q (t @ ls)"
  shows "always (paymentMethodLabel code k) A Q t"
  using assms(1) assms(2)[of "[]"] assms(2)[of "[x]" for x]
  by (auto simp: paymentMethodLabel_def readsFreely_def isRead_def quiet_def split: option.split)

lemma always_getOrderWithoutOrigin:
  assumes "readsFreely A" "\<And>t' res. orderRead i t' res \<Longrightarrow> always (k res) A Q (t @ t')"
  shows "always (getOrderWithoutOrigin h i k) A Q t"
proof -
  have "always (case asOrder a of DbError \<Rightarrow> k DbError | NoRows \<Rightarrow> k NoRows
      | Row o' \<Rightarrow> if \<not> oh_Mistra h then k (Row o')
          else paymentMethodLabel (od_CodTerminiPag o') (\<lambda>l1. paymentMethodLabel (od_OriginCodTerminiPag o') (\<lambda>l2.
                 k (Row (o'\<lparr>od_PaymentMethodLabel := l1, od_OriginPaymentMethodLabel := l2\<rparr>))))) A Q (t @ [(SelectOrder i, a)])" for a
  proof (cases "asOrder a")
    case (Row o')
    have r: "orderRead i ((SelectOrder i, a) # ls) (Row (o'\<lparr>od_PaymentMethodLabel := l1, od_OriginPaymentMethodLabel := l2\<rparr>))"
      if "quiet ls" for ls l1 l2
      using that Row asOrder_unlabelled[OF Row] by (simp add: orderRead_def unlabelled_def)
    have r0: "orderRead i [(SelectOrder i, a)] (Row o')"
      using Row asOrder_unlabelled[OF Row] by (simp add: orderRead_def quiet_def)
    have "always (k (Row (o'\<lparr>od_PaymentMethodLabel := l1, od_OriginPaymentMethodLabel := l2\<rparr>))) A Q (((t @ [(SelectOrder i, a)]) @ l) @ m)"
      if "quiet l" "quiet m" for l m l1 l2
      using assms(2)[OF r[of "l @ m"]] that by (simp add: quiet_def)
    then show ?thesis using Row assms(2)[OF r0] by (auto intro!: always_label[OF assms(1)])
  qed (use assms(2)[of "[(SelectOrder i, a)]"] in \<open>auto simp: orderRead_def quiet_def\<close>)
  then show ?thesis using assms(1) by (simp add: getOrderWithoutOrigin_def readsFreely_def isRead_def)
qed

lemma always_loadOrigin:
  assumes "readsFreely A" "\<And>l t'. quiet t' \<Longrightarrow> always (k l) A Q (t @ t')"
  shows "always (loadOrigin h i k) A Q t"
  using assms(1) assms(2)[of "[]"] assms(2)[of "[x]" for x] assms(2)[of "[x, y]" for x y]
  by (auto simp: loadOrigin_def readsFreely_def isRead_def quiet_def Let_def split: answer.split option.split)

lemma always_getOrder:
  assumes "readsFreely A" "\<And>res t'. quiet t' \<Longrightarrow> always (k res) A Q (t @ t')"
  shows "always (getOrder h i k) A Q t"
  unfolding getOrder_def
proof (rule always_getOrderWithoutOrigin[OF assms(1)])
  fix t' res assume r: "orderRead i t' res"
  then have q: "quiet t'" by (auto simp: orderRead_def quiet_def isRead_def)
  show "always (case res of Row o' \<Rightarrow> loadOrigin h i (\<lambda>origin. k (Row (case origin of None \<Rightarrow> o' | Some x \<Rightarrow> o'\<lparr>od_Origin := x\<rparr>)))
      | e \<Rightarrow> k e) A Q (t @ t')"
  proof (cases res)
    case (Row o')
    have "always (k x) A Q ((t @ t') @ l)" if "quiet l" for x l
      using assms(2)[of "t' @ l"] q that by (simp add: quiet_def)
    then show ?thesis using Row by (auto intro!: always_loadOrigin[OF assms(1)])
  qed (use assms(2) q in auto)
qed

lemma always_withOrder:
  "always (withOrder res k) A Q t \<longleftrightarrow>
     (case res of NoRows \<Rightarrow> Q t (Refused 404 ''order_not_found'') | DbError \<Rightarrow> Q t dbFailure | Row o' \<Rightarrow> always (k o') A Q t)"
  by (simp add: withOrder_def split: dbResult.split)

lemma always_guards:
  "always (requireCustomerRelations rq k) A Q t \<longleftrightarrow> (if hasCustomerRelations rq then always k A Q t else Q t (Refused 403 ''role_insufficient''))"
  "always (requireVodka h k) A Q t \<longleftrightarrow> (if oh_Vodka h then always k A Q t else Q t (Refused 503 ''vodka_database_not_configured''))"
  "always (requireAlyante h k) A Q t \<longleftrightarrow> (if oh_Alyante h then always k A Q t else Q t (Refused 503 ''alyante_database_not_configured''))"
  "always (requireMistra h k) A Q t \<longleftrightarrow> (if oh_Mistra h then always k A Q t else Q t (Refused 503 ''mistra_database_not_configured''))"
  "always (requireGateway h k) A Q t \<longleftrightarrow> (if oh_Arak h then always k A Q t else Q t (Refused 503 ''gateway_not_configured''))"
  "always (requireState s ss k) A Q t \<longleftrightarrow> (if s \<in> set ss then always k A Q t else Q t (Refused 409 ''wrong_state''))"
  "always (parseOrderID rq ki) A Q t \<longleftrightarrow> (case parsePositive (qr_ID rq) of None \<Rightarrow> Q t (Refused 400 ''invalid_order_id'') | Some i \<Rightarrow> always (ki i) A Q t)"
  "always (parseRowID rq ki) A Q t \<longleftrightarrow> (case parsePositive (qr_RowID rq) of None \<Rightarrow> Q t (Refused 400 ''invalid_row_id'') | Some i \<Rightarrow> always (ki i) A Q t)"
  "always (decodeJSON st z rq kp) A Q t \<longleftrightarrow> (case Option.bind (qr_Body rq) (\<lambda>v. decodeStruct st v z) of
     None \<Rightarrow> Q t (Refused 400 ''invalid_request_body'') | Some p \<Rightarrow> always (kp p) A Q t)"
  by (auto simp: requireCustomerRelations_def requireVodka_def requireAlyante_def requireMistra_def requireGateway_def
      requireState_def parseOrderID_def parseRowID_def decodeJSON_def split: option.split)

section \<open>Sending an order\<close>

text \<open>The posts made for the rows, one after the other, with the outcome told for each; a row that has no number in
  the accounting system is not posted.\<close>

fun rowsSent :: "orderDetail \<Rightarrow> orderRow list \<Rightarrow> trace \<Rightarrow> sendRowOutcome list \<Rightarrow> bool" where
  "rowsSent o' [] t outs \<longleftrightarrow> t = [] \<and> outs = []"
| "rowsSent o' (row # rows) t outs \<longleftrightarrow>
     (case outs of
        [] \<Rightarrow> False
      | out # outs' \<Rightarrow>
          so_RowID out = ow_ID row \<and> so_SystemODVRow out = ow_SystemODVRow row \<and>
          (case buildSendToERPPayload o' row of
             None \<Rightarrow> so_Status out = ''error'' \<and> so_Error out = Some ''precondition_missing'' \<and> rowsSent o' rows t outs'
           | Some p \<Rightarrow>
               (case t of
                  [] \<Rightarrow> False
                | (s, a) # t' \<Rightarrow>
                    s = PostJSON ''/orders/v1/erp'' p \<and>
                    (so_Status out, so_Error out) =
                      (case gatewayOutcome (asReply a) of None \<Rightarrow> (''ok'', None) | Some e \<Rightarrow> (''error'', Some (sanitizeGatewayError e))) \<and>
                    rowsSent o' rows t' outs')))"

definition allOK :: "sendRowOutcome list \<Rightarrow> bool" where
  "allOK outs \<longleftrightarrow> list_all (\<lambda>x. so_Status x = ''ok'') outs"

lemma always_sendRows:
  assumes "\<And>t p. A t (PostJSON ''/orders/v1/erp'' p)"
    "\<And>t' outs'. rowsSent o' rows t' outs' \<Longrightarrow> always (k (outs @ outs') (failed \<or> \<not> allOK outs')) A Q (t @ t')"
  shows "always (sendRows o' rows outs failed k) A Q t"
  using assms(2)
proof (induction rows arbitrary: outs failed t)
  case Nil
  then show ?case using Nil[of "[]" "[]"] by (simp add: allOK_def)
next
  case (Cons row rows)
  let ?out = "\<lparr>so_RowID = ow_ID row, so_SystemODVRow = ow_SystemODVRow row, so_Status = ''ok'', so_Error = None\<rparr>"
  let ?err = "\<lambda>e. \<lparr>so_RowID = ow_ID row, so_SystemODVRow = ow_SystemODVRow row, so_Status = ''error'', so_Error = Some (sanitizeGatewayError e)\<rparr>"
  have step: "always (sendRows o' rows (outs @ [out]) (failed \<or> so_Status out \<noteq> ''ok'') k) A Q (t @ x)"
    if "\<And>t' outs'. rowsSent o' rows t' outs' \<Longrightarrow> rowsSent o' (row # rows) (x @ t') (out # outs')" for out x
  proof (rule Cons.IH)
    fix t' outs' assume "rowsSent o' rows t' outs'"
    from Cons.prems[OF that[OF this]]
    show "always (k ((outs @ [out]) @ outs') ((failed \<or> so_Status out \<noteq> ''ok'') \<or> \<not> allOK outs')) A Q ((t @ x) @ t')"
      by (simp add: allOK_def disj_assoc)
  qed
  show ?case
  proof (cases "buildSendToERPPayload o' row")
    case None
    then show ?thesis using step[of "[]" "?err PreconditionMissing"]
      by (simp add: gatewaySendToERP_def Let_def sanitizeGatewayError_def)
  next
    case (Some p)
    have "always (case gatewayOutcome (asReply a) of None \<Rightarrow> sendRows o' rows (outs @ [?out]) failed k
        | Some e \<Rightarrow> sendRows o' rows (outs @ [?err e]) True k) A Q (t @ [(PostJSON ''/orders/v1/erp'' p, a)])" for a
      using Some step[of "[(PostJSON ''/orders/v1/erp'' p, a)]" ?out] step[of "[(PostJSON ''/orders/v1/erp'' p, a)]" "?err e" for e]
      by (auto split: option.split)
    then show ?thesis using Some assms(1) by (simp add: gatewaySendToERP_def gatewayPostJSON_def Let_def)
  qed
qed

lemma payload_unlabelled [simp]: "buildSendToERPPayload (unlabelled o') row = buildSendToERPPayload o' row"
  unfolding buildSendToERPPayload_def unlabelled_def by (simp split: option.split)

lemma rowsSent_unlabelled [simp]: "rowsSent (unlabelled o') rows t outs = rowsSent o' rows t outs"
  by (induction rows arbitrary: t outs) (auto split: list.split option.split)

text \<open>A run up to the end of the posts: the order was read as a draft that is confirmed and has a customer, its rows
  were read, and each was posted.\<close>

definition posted :: "int \<Rightarrow> trace \<Rightarrow> orderDetail \<Rightarrow> sendRowOutcome list \<Rightarrow> bool" where
  "posted i t o' outs \<longleftrightarrow>
     (\<exists>a ls b rows posts. t = (SelectOrder i, a) # ls @ (SelectRows i, b) # posts \<and> quiet ls \<and> asOrder a = Row o' \<and>
        stateOf o' = ''BOZZA'' \<and> od_Dataconferma o' \<noteq> None \<and>
        (TrimSpace (ptrStringValue (od_Cliente o')) \<noteq> '''' \<or> od_ClienteID o' \<noteq> None) \<and>
        asRows b = Some rows \<and> rows \<noteq> [] \<and> rowsSent o' rows posts outs)"

definition pdfAccepted :: "orequest \<Rightarrow> string \<Rightarrow> bool" where
  "pdfAccepted rq pdf \<longleftrightarrow>
     qr_FormOK rq \<and> (\<exists>content. qr_File rq = Some (content, True) \<and> pdf = take maxSendToERPPDFBytes content \<and> HasPrefix (TrimSpace pdf) ''%PDF'')"

definition uploadCall :: "orderDetail \<Rightarrow> string \<Rightarrow> statement" where
  "uploadCall o' pdf = Upload pdf (od_ID o') (orderCodeForFilename o' @ ''_firmato.pdf'')"

text \<open>How a run ends.\<close>

definition sendOutcome :: "orequest \<Rightarrow> trace \<Rightarrow> oresult \<Rightarrow> bool" where
  "sendOutcome rq t res \<longleftrightarrow>
     (if t = [] then True else hasCustomerRelations rq) \<and>
     (case res of
        SendResult r \<Rightarrow>
          (\<exists>i o' pre pdf. parsePositive (qr_ID rq) = Some i \<and> posted i pre o' (se_Rows r) \<and> pdfAccepted rq pdf \<and>
             (if allOK (se_Rows r)
              then \<exists>n u. t = pre @ [(Exec (MarkSent i), Affected n), (uploadCall o' pdf, u)] \<and> n \<noteq> Some 0 \<and>
                     se_StateTransitioned r \<and> se_ArxivarUploaded r = (gatewayOutcome (asReply u) = None) \<and>
                     se_Warning r = (if se_ArxivarUploaded r then '''' else ''arxivar_upload_failed'')
              else t = pre \<and> \<not> se_StateTransitioned r \<and> \<not> se_ArxivarUploaded r \<and> se_Warning r = ''''))
      | Refused _ _ \<Rightarrow>
          quiet t \<or>
          (\<exists>i o' pre outs a. parsePositive (qr_ID rq) = Some i \<and> posted i pre o' outs \<and> allOK outs \<and>
             t = pre @ [(Exec (MarkSent i), a)] \<and> (asAffected a = None \<or> asAffected a = Some (Some 0)))
      | _ \<Rightarrow> False)"

lemma always_inState:
  assumes "orderRead i t res" "\<And>c m. Q t (Refused c m)"
    "\<And>o'. orderRead i t (Row o') \<Longrightarrow> stateOf o' \<in> set ss \<Longrightarrow> always (k o') A Q t"
  shows "always (withOrder res (\<lambda>o'. requireState (stateOf o') ss (k o'))) A Q t"
  using assms by (auto simp: always_withOrder always_guards dbFailure_def split: dbResult.split)

lemma always_readSendPDF:
  assumes "\<And>c m. Q t (Refused c m)" "\<And>pdf. pdfAccepted rq pdf \<Longrightarrow> always (k pdf) A Q t"
  shows "always (readSendPDF rq k) A Q t"
  using assms by (auto simp: readSendPDF_def pdfAccepted_def Let_def split: option.split)

lemma orderRead_Row: "orderRead i t (Row o') \<Longrightarrow> \<exists>a ls. t = (SelectOrder i, a) # ls \<and> quiet ls \<and> asOrder a = Row (unlabelled o')"
  by (auto simp: orderRead_def)

lemma orderRead_quiet: "orderRead i t res \<Longrightarrow> quiet t"
  by (auto simp: orderRead_def quiet_def isRead_def)

lemma unlabelled_fields [simp]:
  "od_ID (unlabelled o') = od_ID o'" "stateOf (unlabelled o') = stateOf o'" "od_Dataconferma (unlabelled o') = od_Dataconferma o'"
  "od_Cliente (unlabelled o') = od_Cliente o'" "od_ClienteID (unlabelled o') = od_ClienteID o'"
  "orderCodeForFilename (unlabelled o') = orderCodeForFilename o'" "uploadCall (unlabelled o') pdf = uploadCall o' pdf"
  by (simp_all add: unlabelled_def stateOf_def orderCodeForFilename_def uploadCall_def Let_def)

text \<open>What follows the posts.\<close>

lemma send_finish:
  assumes "hasCustomerRelations rq" "parsePositive (qr_ID rq) = Some i" "posted i t (unlabelled o') outs" "pdfAccepted rq pdf"
  shows "always (let response = \<lparr>se_Rows = outs, se_StateTransitioned = False, se_ArxivarUploaded = False, se_Warning = ''''\<rparr>
     in if \<not> allOK outs then Return (SendResult response)
        else Do (Exec (MarkSent i)) (\<lambda>a.
          case asAffected a of
            None \<Rightarrow> Return dbFailure
          | Some n \<Rightarrow>
              if n = Some 0 then Return (Refused 409 ''wrong_state'')
              else gatewayUploadToArxivar o' pdf (orderCodeForFilename o' @ ''_firmato.pdf'') (\<lambda>e.
                Return (SendResult (case e of
                  None \<Rightarrow> response\<lparr>se_StateTransitioned := True, se_ArxivarUploaded := True\<rparr>
                | Some _ \<Rightarrow> response\<lparr>se_StateTransitioned := True, se_Warning := ''arxivar_upload_failed''\<rparr>)))))
     (\<lambda>_ _. True) (sendOutcome rq) t"
proof (cases "allOK outs")
  case False
  then show ?thesis using assms by (auto simp: Let_def sendOutcome_def)
next
  case True
  have ref: "sendOutcome rq (t @ [(Exec (MarkSent i), a)]) (Refused c m)"
    if "asAffected a = None \<or> asAffected a = Some (Some 0)" for a c m
    using assms(1-3) True that by (auto simp: sendOutcome_def)
  have af: "a = Affected n" if "asAffected a = Some n" for a n using that by (cases a) (auto simp: asAffected_def)
  have ok: "sendOutcome rq (t @ [(Exec (MarkSent i), Affected n), (uploadCall o' pdf, u)]) (SendResult r)"
    if "n \<noteq> Some 0" "se_Rows r = outs" "se_StateTransitioned r" "se_ArxivarUploaded r = (gatewayOutcome (asReply u) = None)"
      "se_Warning r = (if se_ArxivarUploaded r then '''' else ''arxivar_upload_failed'')" for n u r
    unfolding sendOutcome_def using assms True that
    by (simp, intro exI[of _ "unlabelled o'"] exI[of _ t] conjI exI[of _ pdf]) simp_all
  show ?thesis
    using True ref by (auto simp: Let_def gatewayUploadToArxivar_def dbFailure_def uploadCall_def[symmetric] split: option.split dest!: af
        intro!: ok)
qed


section \<open>Activating a row\<close>

text \<open>The reads that come before the transaction.\<close>

definition activatable :: "orequest \<Rightarrow> int \<Rightarrow> int \<Rightarrow> string \<Rightarrow> trace \<Rightarrow> orderDetail \<Rightarrow> orderRow \<Rightarrow> bool" where
  "activatable rq i j date t o' row \<longleftrightarrow>
     hasCustomerRelations rq \<and> parsePositive (qr_ID rq) = Some i \<and> parsePositive (qr_RowID rq) = Some j \<and>
     Option.bind (qr_Body rq) (\<lambda>v. decodeStruct (setText ''activation_date'') v '''') = Some date \<and> ParseDate date \<noteq> None \<and>
     canActivateOrderRow row \<and> stateOf o' = ''INVIATO'' \<and>
     (\<exists>a ls b. t = (SelectOrder i, a) # ls @ [(SelectRow i j, b)] \<and> quiet ls \<and> asOrder a = Row o' \<and> asRow b = Row row)"

text \<open>A run up to its commit: the row is confirmed, the gateway accepts the date, the rows are counted, and the order
  is made active when all of them are settled.\<close>

definition activationWritten :: "orequest \<Rightarrow> trace \<Rightarrow> string \<Rightarrow> int \<Rightarrow> int \<Rightarrow> bool" where
  "activationWritten rq t newState i j \<longleftrightarrow>
     (\<exists>date pre o' row odv odvRow n g whole confirmed mark.
        activatable rq i j date pre o' row \<and> parseRequiredInt (ptrStringValue (od_SystemODV o')) = Some odv \<and>
        ow_SystemODVRow row = Some odvRow \<and>
        t = pre @ [(Begin, Done), (InTx (ConfirmRow date j i), Affected n),
              (PostJSON ''/orders/v1/set-order-activation'' (activationPayload odv odvRow date), g),
              (CountAll i, Count whole), (CountSettled i, Count confirmed)] @ mark \<and>
        gatewayOutcome (asReply g) = None \<and>
        (if 0 < whole \<and> confirmed = whole
         then newState = ''ATTIVO'' \<and> (\<exists>m. mark = [(InTx (MarkActive i), Affected (Some m))] \<and> m \<noteq> 0)
         else newState = ''INVIATO'' \<and> mark = []))"

text \<open>The commit is confirmed and the row is read again, or the database answers the commit with an error, which
  leaves open whether it happened.\<close>

definition activationCommitted :: "orequest \<Rightarrow> trace \<Rightarrow> string \<Rightarrow> orderRow dbResult \<Rightarrow> bool" where
  "activationCommitted rq t newState x \<longleftrightarrow>
     (\<exists>w i j r. activationWritten rq w newState i j \<and> t = w @ [(Commit, Done), (SelectRow i j, r)] \<and> asRow r = x)"

definition activationUnconfirmed :: "orequest \<Rightarrow> trace \<Rightarrow> bool" where
  "activationUnconfirmed rq t \<longleftrightarrow>
     (\<exists>w newState i j c a. activationWritten rq w newState i j \<and> c \<noteq> Done \<and> t = w @ [(Commit, c), (Rollback, a)])"

text \<open>A run that leaves the tables alone: it asks for no commit, writes nothing outside a transaction, and rolls back the
  one it began.\<close>

definition abandoned :: "trace \<Rightarrow> bool" where
  "abandoned t \<longleftrightarrow>
     list_all (\<lambda>(s, a). s \<noteq> Commit \<and> (\<forall>u. s \<noteq> Exec u)) t \<and>
     (if (Begin, Done) \<in> set t then fst (last t) = Rollback else list_all (\<lambda>(s, a). \<forall>u. s \<noteq> InTx u) t)"

definition activationOutcome :: "orequest \<Rightarrow> trace \<Rightarrow> oresult \<Rightarrow> bool" where
  "activationOutcome rq t res \<longleftrightarrow>
     (case res of
        ActivationResult newState x \<Rightarrow> activationCommitted rq t newState (Row x)
      | Refused c m \<Rightarrow>
          abandoned t \<or>
          (c = 500 \<and> m = ''db_commit_failed'' \<and> activationUnconfirmed rq t) \<or>
          (c = 500 \<and> m = ''db_failed'' \<and> (\<exists>s e. activationCommitted rq t s e \<and> (\<forall>x. e \<noteq> Row x)))
      | _ \<Rightarrow> False)"

lemma quiet_abandoned: "quiet t \<Longrightarrow> abandoned t"
  by (auto simp: quiet_def abandoned_def list_all_iff isRead_def split: if_splits)

lemma quiet_simps [simp]:
  "quiet []" "quiet (x # t) \<longleftrightarrow> isRead (fst x) \<and> quiet t" "quiet (a @ b) \<longleftrightarrow> quiet a \<and> quiet b"
  by (auto simp: quiet_def)

lemma isRead_simps [simp]:
  "isRead (SelectOrder i)" "isRead (SelectRow i j)" "isRead (SelectRows i)" "isRead (SelectBridge i)" "isRead (CountErpRows x y z)"
  "isRead (SelectTechRow i j)" "isRead (SelectCustomer i)" "isRead (SelectTechRows i)" "isRead SelectOrders" "isRead SelectCustomers"
  by (simp_all add: isRead_def)

text \<open>After the reads, a list of statements of a transaction that ends with a rollback.\<close>

lemma abandoned_tx:
  assumes "quiet pre" "list_all (\<lambda>(s, a). s \<noteq> Commit \<and> (\<forall>u. s \<noteq> Exec u)) tx"
  shows "abandoned (pre @ (Begin, Done) # tx @ [(Rollback, a)])"
  using assms by (auto simp: abandoned_def quiet_def list_all_iff isRead_def split: statement.splits)

lemma committed_outcome:
  "activationCommitted rq t newState x \<Longrightarrow>
   activationOutcome rq t (case x of Row y \<Rightarrow> ActivationResult newState y | _ \<Rightarrow> dbFailure)"
  unfolding activationOutcome_def dbFailure_def by (cases x) auto

lemma unconfirmed_outcome: "activationUnconfirmed rq t \<Longrightarrow> activationOutcome rq t (Refused 500 ''db_commit_failed'')"
  by (simp add: activationOutcome_def)

lemma commit_ends:
  assumes "activationWritten rq w newState i j"
  shows "always (commitActivation i j newState) (\<lambda>_ _. True) (activationOutcome rq) w"
proof -
  have "activationOutcome rq (w @ [(Commit, Done), (SelectRow i j, r)])
      (case asRow r of Row x \<Rightarrow> ActivationResult newState x | _ \<Rightarrow> dbFailure)" for r
    using assms by (auto simp: activationCommitted_def intro: committed_outcome)
  moreover have "activationOutcome rq (w @ [(Commit, c), (Rollback, a)]) (Refused 500 ''db_commit_failed'')" if "c \<noteq> Done" for c a
    using assms that by (intro unconfirmed_outcome) (fastforce simp: activationUnconfirmed_def)
  ultimately show ?thesis by (simp add: commitActivation_def getOrderRow_def abort_def)
qed

lemma activation_transaction:
  assumes "activatable rq i j date t (unlabelled o') row" "parseRequiredInt (ptrStringValue (od_SystemODV o')) = Some odv"
    "ow_SystemODVRow row = Some odvRow"
  shows "always (Do Begin (\<lambda>b.
      if b \<noteq> Done then Return dbFailure
      else Do (InTx (ConfirmRow date j i)) (\<lambda>u.
        if asAffected u = None then abort dbFailure
        else gatewaySetActivationDate o' row date (\<lambda>e.
          if e \<noteq> None then abort (Refused 502 ''gateway_error'')
          else Do (CountAll i) (\<lambda>t.
            case asCount t of
              None \<Rightarrow> abort dbFailure
            | Some whole \<Rightarrow>
                Do (CountSettled i) (\<lambda>s.
                  case asCount s of
                    None \<Rightarrow> abort dbFailure
                  | Some confirmed \<Rightarrow>
                      if 0 < whole \<and> confirmed = whole then
                        Do (InTx (MarkActive i)) (\<lambda>m.
                          case asAffected m of
                            None \<Rightarrow> abort dbFailure
                          | Some None \<Rightarrow> abort dbFailure
                          | Some (Some n) \<Rightarrow>
                              if n = 0 then abort (Refused 409 ''wrong_state'')
                              else commitActivation i j ''ATTIVO'')
                      else commitActivation i j ''INVIATO''))))))
    (\<lambda>_ _. True) (activationOutcome rq) t"
proof -
  have qt: "quiet t" using assms(1) by (auto simp: activatable_def)
  have ab: "activationOutcome rq (t @ (Begin, Done) # tx @ [(Rollback, a)]) (Refused c m)"
    if "list_all (\<lambda>(s, a). s \<noteq> Commit \<and> (\<forall>u. s \<noteq> Exec u)) tx" for tx a c m
    using abandoned_tx[OF qt that] by (simp add: activationOutcome_def)
  have nb: "activationOutcome rq (t @ [(Begin, b)]) (Refused c m)" if "b \<noteq> Done" for b c m
  proof -
    have "(Begin, Done) \<notin> set t" using qt by (auto simp: quiet_def list_all_iff isRead_def)
    then have "abandoned (t @ [(Begin, b)])" using quiet_abandoned[OF qt] that by (auto simp: abandoned_def)
    then show ?thesis by (simp add: activationOutcome_def)
  qed
  have odv: "parseRequiredInt (ptrStringValue (od_SystemODV (unlabelled o'))) = Some odv" using assms(2) by (simp add: unlabelled_def)
  have written: "activationWritten rq (t @ [(Begin, Done), (InTx (ConfirmRow date j i), Affected n),
        (PostJSON ''/orders/v1/set-order-activation'' (activationPayload odv odvRow date), g),
        (CountAll i, Count whole), (CountSettled i, Count confirmed)] @ mark) newState i j"
    if "gatewayOutcome (asReply g) = None"
      "if 0 < whole \<and> confirmed = whole then newState = ''ATTIVO'' \<and> (\<exists>m. mark = [(InTx (MarkActive i), Affected (Some m))] \<and> m \<noteq> 0)
       else newState = ''INVIATO'' \<and> mark = []" for n g whole confirmed mark newState
    unfolding activationWritten_def
    by (intro exI[of _ date] exI[of _ t] exI[of _ "unlabelled o'"] exI[of _ row] exI[of _ odv] exI[of _ odvRow]
        exI[of _ n] exI[of _ g] exI[of _ whole] exI[of _ confirmed] exI[of _ mark] conjI) (rule assms(1) odv assms(3) refl that)+
  have af: "a = Affected n" if "asAffected a = Some n" for a n using that by (cases a) (auto simp: asAffected_def)
  have cn: "a = Count n" if "asCount a = Some n" for a n using that by (cases a) (auto simp: asCount_def)
  let ?A = "\<lambda>_ _. True" and ?Q = "activationOutcome rq"
  have aborts: "always (abort (Refused c m)) ?A ?Q (t @ (Begin, Done) # tx)"
    if "list_all (\<lambda>(s, a). s \<noteq> Commit \<and> (\<forall>u. s \<noteq> Exec u)) tx" for tx c m
    using ab[OF that] by (simp add: abort_def)
  let ?T1 = "\<lambda>n. [(InTx (ConfirmRow date j i), Affected n)]"
  let ?T2 = "\<lambda>n g. [(InTx (ConfirmRow date j i), Affected n),
      (PostJSON ''/orders/v1/set-order-activation'' (activationPayload odv odvRow date), g)]"
  let ?T4 = "\<lambda>n g whole confirmed. [(InTx (ConfirmRow date j i), Affected n),
      (PostJSON ''/orders/v1/set-order-activation'' (activationPayload odv odvRow date), g),
      (CountAll i, Count whole), (CountSettled i, Count confirmed)]"
  have commit: "always (commitActivation i j newState) ?A ?Q (t @ (Begin, Done) # ?T4 n g whole confirmed @ mark)"
    if "gatewayOutcome (asReply g) = None"
      "if 0 < whole \<and> confirmed = whole then newState = ''ATTIVO'' \<and> (\<exists>m. mark = [(InTx (MarkActive i), Affected (Some m))] \<and> m \<noteq> 0)
       else newState = ''INVIATO'' \<and> mark = []" for n g whole confirmed mark newState
    using commit_ends[OF written[OF that]] by simp
  have marked: "always (if 0 < whole \<and> confirmed = whole then
        Do (InTx (MarkActive i)) (\<lambda>m.
          case asAffected m of
            None \<Rightarrow> abort dbFailure
          | Some None \<Rightarrow> abort dbFailure
          | Some (Some n) \<Rightarrow> if n = 0 then abort (Refused 409 ''wrong_state'') else commitActivation i j ''ATTIVO'')
      else commitActivation i j ''INVIATO'') ?A ?Q (t @ (Begin, Done) # ?T4 n g whole confirmed)"
    if g: "gatewayOutcome (asReply g) = None" for n g whole confirmed
  proof (cases "0 < whole \<and> confirmed = whole")
    case True
    have "always (case asAffected m of None \<Rightarrow> abort dbFailure | Some None \<Rightarrow> abort dbFailure
        | Some (Some n) \<Rightarrow> if n = 0 then abort (Refused 409 ''wrong_state'') else commitActivation i j ''ATTIVO'')
        ?A ?Q (t @ (Begin, Done) # ?T4 n g whole confirmed @ [(InTx (MarkActive i), m)])" for m
      using aborts[of "?T4 n g whole confirmed @ [(InTx (MarkActive i), m)]"]
        commit[OF g, of whole confirmed "''ATTIVO''" "[(InTx (MarkActive i), m)]" n] True
      by (auto simp: dbFailure_def split: option.split dest!: af)
    then show ?thesis using True by simp
  next
    case False
    then show ?thesis using commit[OF g, of whole confirmed "''INVIATO''" "[]" n] by (simp only: if_False) simp
  qed
  have counted: "always (Do (CountAll i) (\<lambda>t. case asCount t of None \<Rightarrow> abort dbFailure | Some whole \<Rightarrow>
        Do (CountSettled i) (\<lambda>s. case asCount s of None \<Rightarrow> abort dbFailure | Some confirmed \<Rightarrow>
          if 0 < whole \<and> confirmed = whole then
            Do (InTx (MarkActive i)) (\<lambda>m.
              case asAffected m of
                None \<Rightarrow> abort dbFailure
              | Some None \<Rightarrow> abort dbFailure
              | Some (Some n) \<Rightarrow> if n = 0 then abort (Refused 409 ''wrong_state'') else commitActivation i j ''ATTIVO'')
          else commitActivation i j ''INVIATO''))) ?A ?Q (t @ (Begin, Done) # ?T2 n g)"
    if g: "gatewayOutcome (asReply g) = None" for n g
  proof -
    have "always (case asCount s of None \<Rightarrow> abort dbFailure | Some confirmed \<Rightarrow>
          if 0 < whole \<and> confirmed = whole then
            Do (InTx (MarkActive i)) (\<lambda>m.
              case asAffected m of
                None \<Rightarrow> abort dbFailure
              | Some None \<Rightarrow> abort dbFailure
              | Some (Some n) \<Rightarrow> if n = 0 then abort (Refused 409 ''wrong_state'') else commitActivation i j ''ATTIVO'')
          else commitActivation i j ''INVIATO'') ?A ?Q (t @ (Begin, Done) # ?T2 n g @ [(CountAll i, Count whole), (CountSettled i, s)])" for s whole
    proof (cases "asCount s")
      case None
      then show ?thesis using aborts[of "?T2 n g @ [(CountAll i, Count whole), (CountSettled i, s)]"] by (simp add: dbFailure_def)
    next
      case (Some confirmed)
      then show ?thesis using marked[OF g, of whole confirmed n] cn[OF Some] by simp
    qed
    then have "always (case asCount a of None \<Rightarrow> abort dbFailure | Some whole \<Rightarrow>
        Do (CountSettled i) (\<lambda>s. case asCount s of None \<Rightarrow> abort dbFailure | Some confirmed \<Rightarrow>
          if 0 < whole \<and> confirmed = whole then
            Do (InTx (MarkActive i)) (\<lambda>m.
              case asAffected m of
                None \<Rightarrow> abort dbFailure
              | Some None \<Rightarrow> abort dbFailure
              | Some (Some n) \<Rightarrow> if n = 0 then abort (Refused 409 ''wrong_state'') else commitActivation i j ''ATTIVO'')
          else commitActivation i j ''INVIATO'')) ?A ?Q (t @ (Begin, Done) # ?T2 n g @ [(CountAll i, a)])" for a
      using aborts[of "?T2 n g @ [(CountAll i, a)]"] cn[of a] by (cases "asCount a") (simp_all add: dbFailure_def)
    then show ?thesis by simp
  qed
  have posted: "always (gatewaySetActivationDate o' row date (\<lambda>e.
          if e \<noteq> None then abort (Refused 502 ''gateway_error'') else K)) ?A ?Q (t @ (Begin, Done) # ?T1 n)"
    if "\<And>g. gatewayOutcome (asReply g) = None \<Longrightarrow> always K ?A ?Q (t @ (Begin, Done) # ?T2 n g)" for K n
    using that aborts[of "?T2 n g" for g] assms(2,3) by (simp add: gatewaySetActivationDate_def gatewayPostJSON_def)
  have confirmed: "always (if asAffected u = None then abort dbFailure else K) ?A ?Q (t @ (Begin, Done) # [(InTx (ConfirmRow date j i), u)])"
    if "\<And>n. always K ?A ?Q (t @ (Begin, Done) # ?T1 n)" for u K
    using that aborts[of "[(InTx (ConfirmRow date j i), u)]"] by (auto simp: dbFailure_def dest!: af)
  show ?thesis
    using confirmed[OF posted[OF counted]] nb by (simp add: dbFailure_def)
qed

text \<open>C7: An activation is all or nothing: every write is inside one transaction, and a commit is asked for only after the
  gateway accepted the date for that row of an order read as sent; the order becomes active exactly when
  all its rows are counted as settled and the guarded update found it still sent. Every other run asks for no
  commit, rolls back what it began and answers an error. Once the commit is asked for, the only errors are
  db_commit_failed, when the database did not confirm the commit, which may then have happened or not, and
  db_failed, when the last read of the row failed after it.\<close>

theorem activation_all_or_nothing:
  assumes "executes (handleActivateRow h rq) tr res"
  shows "activationOutcome rq tr res"
proof -
  have rf: "readsFreely (\<lambda>_ _. True)" by (simp add: readsFreely_def)
  have q: "activationOutcome rq t (Refused c m)" if "quiet t" for t c m
    using quiet_abandoned[OF that] by (simp add: activationOutcome_def)
  have rows: "always (getOrderRow i j (\<lambda>r. withRow r K)) (\<lambda>_ _. True) (activationOutcome rq) t"
    if "orderRead i t (Row o')" "\<And>b row. asRow b = Row row \<Longrightarrow> always (K row) (\<lambda>_ _. True) (activationOutcome rq) (t @ [(SelectRow i j, b)])"
    for i j t o' K
    using that(2) orderRead_quiet[OF that(1)] by (auto simp: getOrderRow_def withRow_def dbFailure_def intro!: q split: dbResult.split)
  have ready: "activatable rq i j date (t @ [(SelectRow i j, b)]) (unlabelled o') row"
    if "hasCustomerRelations rq" "parsePositive (qr_ID rq) = Some i" "parsePositive (qr_RowID rq) = Some j"
      "Option.bind (qr_Body rq) (\<lambda>v. decodeStruct (setText ''activation_date'') v '''') = Some date" "ParseDate date \<noteq> None"
      "orderRead i t (Row o')" "stateOf o' \<in> set [''INVIATO'']" "asRow b = Row row" "canActivateOrderRow row" for i j date t b o' row
    using that orderRead_Row[OF that(6)] by (auto simp: activatable_def)
  have tx: "always (if parseRequiredInt (ptrStringValue (od_SystemODV o')) = None \<or> ow_SystemODVRow row = None then Return (Refused 422 e1)
      else if \<not> canActivateOrderRow row then Return (Refused 422 e1) else K) (\<lambda>_ _. True) (activationOutcome rq) t"
    if "quiet t" "\<And>odv odvRow. parseRequiredInt (ptrStringValue (od_SystemODV o')) = Some odv \<Longrightarrow> ow_SystemODVRow row = Some odvRow \<Longrightarrow>
      canActivateOrderRow row \<Longrightarrow> always K (\<lambda>_ _. True) (activationOutcome rq) t" for o' row K t e1
    using that by (auto intro: q)
  have "always (handleActivateRow h rq) (\<lambda>_ _. True) (activationOutcome rq) []"
    unfolding handleActivateRow_def always_guards OrderStateInviato_def OrderStateAttivo_def
  proof (simp only: q[of "[]"] quiet_simps simp_thms append_Nil if_True if_cancel always.simps split: option.split if_split,
      intro conjI impI allI always_getOrderWithoutOrigin[OF rf] always_inState rows tx activation_transaction ready)
  qed (auto dest: orderRead_quiet intro!: q)
  then show ?thesis using always_executes[OF _ assms] by fastforce
qed

section \<open>Undoing a conversion\<close>

definition isCleanup :: "statement \<Rightarrow> bool" where
  "isCleanup s = (case s of DeleteNote _ \<Rightarrow> True | DeleteFile _ \<Rightarrow> True | _ \<Rightarrow> False)"

text \<open>A run that deletes the order, up to its commit: it was read as a draft without a signed document, comes from a
  quote, and has no rows in the accounting system.\<close>

definition revertWritten :: "orequest \<Rightarrow> trace \<Rightarrow> int \<Rightarrow> int \<Rightarrow> int option \<Rightarrow> bool" where
  "revertWritten rq t i quoteID n \<longleftrightarrow>
     (\<exists>a ls o' jdata num anno erp m.
        t = (SelectOrder i, a) # ls @
            [(SelectBridge i, Bridge quoteID jdata), (CountErpRows num anno (TrimSpace (ptrStringValue (od_Ndoc o'))), Count erp),
             (Begin, Done), (InTx (DeleteRows i), Affected n), (InTx (DeleteOrder i), Affected m)] \<and>
        quiet ls \<and> parsePositive (qr_ID rq) = Some i \<and> asOrder a = Row o' \<and> stateOf o' = ''BOZZA'' \<and> \<not> signed o' \<and>
        od_Anno o' = Some anno \<and> erp \<le> 0 \<and> m \<noteq> Some 0)"

text \<open>The commit is confirmed and the clean-up follows, or the database answers the commit with an error, which leaves
  open whether it happened.\<close>

definition revertCommitted :: "orequest \<Rightarrow> trace \<Rightarrow> int \<Rightarrow> int \<Rightarrow> int option \<Rightarrow> bool" where
  "revertCommitted rq t i quoteID n \<longleftrightarrow>
     (\<exists>w hub x. revertWritten rq w i quoteID n \<and> t = w @ (Commit, Done) # hub @ [(DeleteBridge quoteID i, x)] \<and>
        list_all (\<lambda>(s, _). isCleanup s) hub)"

definition revertUnconfirmed :: "orequest \<Rightarrow> trace \<Rightarrow> bool" where
  "revertUnconfirmed rq t \<longleftrightarrow>
     (\<exists>w i quoteID n c a. revertWritten rq w i quoteID n \<and> c \<noteq> Done \<and> t = w @ [(Commit, c), (Rollback, a)])"

definition revertOutcome :: "orequest \<Rightarrow> trace \<Rightarrow> oresult \<Rightarrow> bool" where
  "revertOutcome rq t res \<longleftrightarrow>
     (case res of
        RevertResult r \<Rightarrow>
          (\<exists>n. revertCommitted rq t (rv_OrderID r) (rv_QuoteID r) n \<and> rv_DeletedRows r = (case n of None \<Rightarrow> 0 | Some k \<Rightarrow> k)) \<and>
          rv_BridgeDeleted r = (snd (last t) \<noteq> Broken)
      | Refused c m \<Rightarrow>
          (abandoned t \<or> (c = 500 \<and> m = ''db_failed'' \<and> revertUnconfirmed rq t)) \<and>
          list_all (\<lambda>(s, _). \<not> isCleanup s \<and> (\<forall>q i. s \<noteq> DeleteBridge q i)) t
      | _ \<Rightarrow> False)"

lemma always_cleanup:
  assumes "\<And>c t'. list_all (\<lambda>(s, _). isCleanup s) t' \<Longrightarrow> always (k c) (\<lambda>_ _. True) Q (t @ t')"
  shows "always (cleanupConvertedOrderHubSpot h jdata k) (\<lambda>_ _. True) Q t"
proof -
  have step: "always (deleteFileStep m c k) (\<lambda>_ _. True) Q (t @ t')" if "list_all (\<lambda>(s, _). isCleanup s) t'" for m c t'
    using assms[OF that] assms[of "t' @ [x]" for x] that by (auto simp: deleteFileStep_def isCleanup_def)
  show ?thesis
    using assms[of "[]"] step[of "[]"] step[of "[(DeleteNote n, a)]" for n a]
    by (auto simp: cleanupConvertedOrderHubSpot_def isCleanup_def Let_def split: option.split)
qed

lemma quiet_clean: "quiet t \<Longrightarrow> list_all (\<lambda>(s, _). \<not> isCleanup s \<and> (\<forall>q i. s \<noteq> DeleteBridge q i)) t"
  by (auto simp: quiet_def list_all_iff isRead_def isCleanup_def split: statement.splits)

text \<open>The transaction of the deletion.\<close>

lemma always_deletion:
  assumes "\<And>n m. m \<noteq> Some 0 \<Longrightarrow> always (k (Deletion (case n of None \<Rightarrow> 0 | Some x \<Rightarrow> x))) A Q
      (t @ [(Begin, Done), (InTx (DeleteRows i), Affected n), (InTx (DeleteOrder i), Affected m), (Commit, Done)])"
    "\<And>b d. b \<noteq> Done \<Longrightarrow> always (k DeletionFailed) A Q (t @ [(Begin, b)])"
    "\<And>tx a d. list_all (\<lambda>(s, a). \<exists>u. s = InTx u) tx \<Longrightarrow> d = DeletionFailed \<or> d = StateChanged \<Longrightarrow>
      always (k d) A Q (t @ (Begin, Done) # tx @ [(Rollback, a)])"
    "\<And>n m c a. m \<noteq> Some 0 \<Longrightarrow> c \<noteq> Done \<Longrightarrow> always (k DeletionFailed) A Q
      (t @ [(Begin, Done), (InTx (DeleteRows i), Affected n), (InTx (DeleteOrder i), Affected m), (Commit, c), (Rollback, a)])"
    "\<And>t s. A t s"
  shows "always (deleteVodkaConvertedOrder i k) A Q t"
proof -
  have r: "always (k d) A Q (t @ (Begin, Done) # [(InTx (DeleteRows i), x), (Rollback, a)])"
    "always (k d) A Q (t @ (Begin, Done) # [(InTx (DeleteRows i), x), (InTx (DeleteOrder i), y), (Rollback, a)])"
    if "d = DeletionFailed \<or> d = StateChanged" for d x y a
    using assms(3)[of "[(InTx (DeleteRows i), x)]" d a] assms(3)[of "[(InTx (DeleteRows i), x), (InTx (DeleteOrder i), y)]" d a]
      that by simp_all
  have af: "a = Affected n" if "asAffected a = Some n" for a n using that by (cases a) (auto simp: asAffected_def)
  show ?thesis
    using r assms(1)[where n = None, simplified] assms(1)[where n = "Some x" for x, simplified] assms(2,4,5)
    by (auto simp: deleteVodkaConvertedOrder_def split: option.split dest!: af)
qed

lemma revert_quiet: "quiet t \<Longrightarrow> revertOutcome rq t (Refused c m)"
  using quiet_abandoned[of t] quiet_clean[of t] by (simp add: revertOutcome_def)

lemma revert_rolled_back:
  assumes "quiet t" "list_all (\<lambda>(s, a). \<exists>u. s = InTx u) tx"
  shows "revertOutcome rq (t @ (Begin, Done) # tx @ [(Rollback, a)]) (Refused c m)"
proof -
  have "list_all (\<lambda>(s, a). s \<noteq> Commit \<and> (\<forall>u. s \<noteq> Exec u)) tx" using assms(2) by (auto simp: list_all_iff)
  moreover have "list_all (\<lambda>(s, _). \<not> isCleanup s \<and> (\<forall>q i. s \<noteq> DeleteBridge q i)) tx"
    using assms(2) by (fastforce simp: list_all_iff isCleanup_def)
  ultimately show ?thesis using abandoned_tx[OF assms(1)] quiet_clean[OF assms(1)] by (simp add: revertOutcome_def isCleanup_def)
qed

lemma revert_not_begun:
  assumes "quiet t" "b \<noteq> Done"
  shows "revertOutcome rq (t @ [(Begin, b)]) (Refused c m)"
proof -
  have "(Begin, Done) \<notin> set t" using assms(1) by (auto simp: quiet_def list_all_iff isRead_def)
  then show ?thesis using quiet_abandoned[OF assms(1)] quiet_clean[OF assms(1)] assms(2)
    by (auto simp: revertOutcome_def abandoned_def isCleanup_def)
qed

lemma revert_transaction:
  assumes r: "parsePositive (qr_ID rq) = Some i" "orderRead i t (Row o')" "stateOf o' = ''BOZZA''" "\<not> signed o'" "od_Anno o' = Some anno" "erp \<le> 0"
  shows "always (deleteVodkaConvertedOrder i (\<lambda>d.
    case d of
      StateChanged \<Rightarrow> Return (Refused 409 ''wrong_state'')
    | DeletionFailed \<Rightarrow> Return dbFailure
    | Deletion deleted \<Rightarrow>
        cleanupConvertedOrderHubSpot h jdata (\<lambda>c.
          Do (DeleteBridge quoteID i) (\<lambda>x.
            let ok = (x \<noteq> Broken); ws = (if ok then hc_Warnings c else appendWarning (hc_Warnings c) ''bridge_delete_failed'')
            in Return (RevertResult \<lparr>rv_OrderID = i, rv_QuoteID = quoteID, rv_OrderCode = od_CodiceOrdine o',
                 rv_DeletedRows = deleted, rv_BridgeDeleted = ok, rv_HubSpot = c, rv_Warnings = ws,
                 rv_Warning = firstWarning ws\<rparr>))))) (\<lambda>_ _. True) (revertOutcome rq)
    (t @ [(SelectBridge i, Bridge quoteID jdata), (CountErpRows num anno (TrimSpace (ptrStringValue (od_Ndoc o'))), Count erp)])"
proof -
  let ?t = "t @ [(SelectBridge i, Bridge quoteID jdata), (CountErpRows num anno (TrimSpace (ptrStringValue (od_Ndoc o'))), Count erp)]"
  obtain a ls where t: "t = (SelectOrder i, a) # ls" "quiet ls" "asOrder a = Row (unlabelled o')" using orderRead_Row[OF r(2)] by blast
  have qt: "quiet ?t" using orderRead_quiet[OF r(2)] by simp
  have written: "revertWritten rq (?t @ [(Begin, Done), (InTx (DeleteRows i), Affected n), (InTx (DeleteOrder i), Affected m)]) i quoteID n"
    if "m \<noteq> Some 0" for n m
    unfolding revertWritten_def using t r that
    by (intro exI[of _ a] exI[of _ ls] exI[of _ "unlabelled o'"] exI[of _ jdata] exI[of _ num] exI[of _ anno] exI[of _ erp] exI[of _ m])
      (simp add: unlabelled_def stateOf_def signed_def)
  have fin: "revertCommitted rq (?t @ [(Begin, Done), (InTx (DeleteRows i), Affected n), (InTx (DeleteOrder i), Affected m), (Commit, Done)] @
      hub @ [(DeleteBridge quoteID i, x)]) i quoteID n"
    if "m \<noteq> Some 0" "list_all (\<lambda>(s, _). isCleanup s) hub" for n m hub x
    unfolding revertCommitted_def using written[OF that(1), of n] that(2) by (intro exI conjI) (assumption, simp_all)
  have unconfirmed: "revertOutcome rq (?t @ [(Begin, Done), (InTx (DeleteRows i), Affected n), (InTx (DeleteOrder i), Affected m),
      (Commit, c), (Rollback, b)]) dbFailure"
    if "m \<noteq> Some 0" "c \<noteq> Done" for n m c b
  proof -
    have "revertUnconfirmed rq (?t @ [(Begin, Done), (InTx (DeleteRows i), Affected n), (InTx (DeleteOrder i), Affected m),
        (Commit, c), (Rollback, b)])"
      unfolding revertUnconfirmed_def using written[OF that(1), of n] that(2) by (intro exI conjI) (assumption, simp_all)
    then show ?thesis using quiet_clean[OF qt] by (simp add: revertOutcome_def dbFailure_def isCleanup_def)
  qed
  show ?thesis
  proof (rule always_deletion, goal_cases)
    case (1 n m)
    show ?case unfolding deletion.case
    proof (rule always_cleanup, goal_cases)
      case (1 c hub)
      then show ?case using fin[OF \<open>m \<noteq> Some 0\<close>, of hub]
        by (simp add: revertOutcome_def Let_def) blast
    qed
  next
    case (3 tx a d)
    then show ?case using revert_rolled_back[OF qt 3(1)] by (auto simp: dbFailure_def)
  next
    case (4 n m c a)
    then show ?case using unconfirmed by simp
  qed (use revert_not_begun[OF qt] in \<open>auto simp: dbFailure_def\<close>)
qed

lemma revert_reads:
  assumes r: "quiet t" "\<And>quoteID jdata num anno erp. \<not> signed o' \<Longrightarrow> od_Anno o' = Some anno \<Longrightarrow> erp \<le> 0 \<Longrightarrow>
        always (K quoteID jdata) (\<lambda>_ _. True) (revertOutcome rq)
          (t @ [(SelectBridge i, Bridge quoteID jdata), (CountErpRows num anno (TrimSpace (ptrStringValue (od_Ndoc o'))), Count erp)])"
  shows "always (if TrimSpace (ptrStringValue (od_ArxDocNumber o')) \<noteq> '''' then Return (Refused 409 e1)
      else Do (SelectBridge i) (\<lambda>b.
        case b of
          NoRow \<Rightarrow> Return (Refused 409 e2)
        | Bridge quoteID jdata \<Rightarrow>
            countAlyanteOrderRows o' (\<lambda>erp.
              case erp of
                None \<Rightarrow> Return (Refused 422 e3)
              | Some None \<Rightarrow> Return dbFailure
              | Some (Some erpRows) \<Rightarrow> if 0 < erpRows then Return (Refused 409 e4) else K quoteID jdata)
        | _ \<Rightarrow> Return dbFailure)) (\<lambda>_ _. True) (revertOutcome rq) t"
proof -
  have cn: "a = Count n" if "asCount a = Some n" for a n using that by (cases a) (auto simp: asCount_def)
  show ?thesis
    using r by (auto simp: countAlyanteOrderRows_def signed_def dbFailure_def Let_def split: option.split answer.split dest!: cn intro!: revert_quiet)
qed

text \<open>C6: A conversion is undone only while it is safe: the order and its rows are deleted in one transaction, only if
  the order was read as a draft without a signed document, it comes from a quote and the accounting system
  counted no row of it; the clean-up of the CRM and of the link to the quote comes after a confirmed commit.
  A run that answers an error has cleaned up nothing, and it either asked for no commit and rolled
  back what it began, or answers db_failed because the database did not confirm the commit of exactly such a
  deletion: only then is it open whether the order is gone.\<close>

theorem conversion_undone_only_when_safe:
  assumes "executes (handleRevertConversion h rq) tr res"
  shows "revertOutcome rq tr res"
proof -
  have rf: "readsFreely (\<lambda>_ _. True)" by (simp add: readsFreely_def)
  have "always (handleRevertConversion h rq) (\<lambda>_ _. True) (revertOutcome rq) []"
    unfolding handleRevertConversion_def always_guards OrderStateBozza_def
  proof (simp only: revert_quiet[of "[]"] quiet_simps simp_thms append_Nil if_True if_cancel split: option.split if_split,
      intro conjI impI allI always_getOrderWithoutOrigin[OF rf] always_inState revert_reads revert_transaction)
  qed (auto dest: orderRead_quiet intro!: revert_quiet)
  then show ?thesis using always_executes[OF _ assms] by fastforce
qed

section \<open>The other routes\<close>

definition orderSeen :: "trace \<Rightarrow> int \<Rightarrow> (string \<Rightarrow> bool) \<Rightarrow> bool" where
  "orderSeen t i P \<longleftrightarrow> (\<exists>a o'. (SelectOrder i, a) \<in> set t \<and> asOrder a = Row o' \<and> P (stateOf o'))"

definition rowSeen :: "trace \<Rightarrow> int \<Rightarrow> int \<Rightarrow> bool" where
  "rowSeen t i j \<longleftrightarrow> (\<exists>a r. (SelectRow i j, a) \<in> set t \<and> asRow a = Row r)"

definition customerSeen :: "trace \<Rightarrow> int \<Rightarrow> string \<Rightarrow> bool" where
  "customerSeen t cid name \<longleftrightarrow>
     name \<noteq> '''' \<and> (\<exists>k n. 0 < k \<and> (SelectCustomer k, Customer (Some cid) (Some n)) \<in> set t \<and> TrimSpace n = name)"

text \<open>The writes of these routes, each with the reads it needs.\<close>

definition editAllowed :: "orequest \<Rightarrow> trace \<Rightarrow> statement \<Rightarrow> bool" where
  "editAllowed rq t s \<longleftrightarrow>
     (case s of
        Exec u \<Rightarrow>
          (case u of
             SetHeader po date cid name i \<Rightarrow>
               parsePositive (qr_ID rq) = Some i \<and> orderSeen t i (\<lambda>st. st = ''BOZZA'') \<and> customerSeen t cid name
           | SetReferents r i \<Rightarrow> parsePositive (qr_ID rq) = Some i \<and> orderSeen t i (\<lambda>st. st \<in> {''BOZZA'', ''INVIATO''})
           | SetSerial v j i \<Rightarrow>
               parsePositive (qr_ID rq) = Some i \<and> parsePositive (qr_RowID rq) = Some j \<and> orderSeen t i (\<lambda>st. st = ''BOZZA'') \<and> rowSeen t i j
           | SetNotes v j i \<Rightarrow> parsePositive (qr_ID rq) = Some i \<and> parsePositive (qr_RowID rq) = Some j \<and> rowSeen t i j
           | NormalizeOrder i \<Rightarrow> parsePositive (qr_ID rq) = Some i \<and> orderSeen t i (\<lambda>_. True)
           | NormalizeRows i \<Rightarrow> parsePositive (qr_ID rq) = Some i \<and> orderSeen t i (\<lambda>_. True)
           | _ \<Rightarrow> False)
      | Download _ _ \<Rightarrow> True
      | _ \<Rightarrow> isRead s)"

lemma edit_reads: "readsFreely (editAllowed rq)"
  by (auto simp: readsFreely_def editAllowed_def isRead_def split: statement.split)

lemma orderRead_seen: "orderRead i t (Row o') \<Longrightarrow> P (stateOf o') \<Longrightarrow> orderSeen (t @ t') i P"
  unfolding orderSeen_def by (frule orderRead_Row) (auto intro!: exI[of _ "unlabelled o'"])

lemma orderRead_seen0: "orderRead i t (Row o') \<Longrightarrow> P (stateOf o') \<Longrightarrow> orderSeen t i P"
  using orderRead_seen[of i t o' P "[]"] by simp

lemma draftSeen: "orderRead i t (Row o') \<Longrightarrow> stateOf o' = ''BOZZA'' \<Longrightarrow> orderSeen (t @ t') i (\<lambda>st. st = ''BOZZA'')"
  by (rule orderRead_seen)

lemma rowSeenI: "asRow a = Row r \<Longrightarrow> rowSeen (t @ [(SelectRow i j, a)]) i j"
  unfolding rowSeen_def by auto

lemma customerSeenI:
  "\<not> k \<le> 0 \<Longrightarrow> TrimSpace n \<noteq> '''' \<Longrightarrow> customerSeen (t @ [(SelectCustomer k, Customer (Some cid) (Some n))]) cid (TrimSpace n)"
  unfolding customerSeen_def by (auto intro!: exI[of _ k])

lemma always_customer:
  assumes "readsFreely A" "\<And>a. always (k NoRows) A Q (t @ [(SelectCustomer i, a)])" "\<And>a. always (k DbError) A Q (t @ [(SelectCustomer i, a)])"
    "\<And>cid n. TrimSpace n \<noteq> '''' \<Longrightarrow> always (k (Row (cid, TrimSpace n))) A Q (t @ [(SelectCustomer i, Customer (Some cid) (Some n))])"
  shows "always (getCustomerByID i k) A Q t"
  using assms by (auto simp: getCustomerByID_def customerOf_def readsFreely_def split: answer.split option.split)

lemma edits_allowed:
  assumes "rt \<notin> {PostSendToERP, PostRevertConversion, PatchActivate}"
  shows "always (orouteHandler rt h rq) (editAllowed rq) (\<lambda>_ _. True) []"
proof -
  let ?A = "editAllowed rq" and ?T = "\<lambda>_ _. True"
  note rf = edit_reads[of rq]
  have one: "always (getOrder h i (\<lambda>res. withOrder res (\<lambda>o'. Return (ShowOrder o')))) ?A ?T t"
    "always (writeOrderOrNotFound h i) ?A ?T t" "always (writeOrderIfStillInStateOrConflict h i ss) ?A ?T t" for i t ss
    by (auto simp: writeOrderOrNotFound_def writeOrderIfStillInStateOrConflict_def always_withOrder always_guards
        intro!: always_getOrder[OF rf] split: dbResult.split)
  have lists: "always (handleListOrders h rq) ?A ?T []" "always (handleGetOrder h rq) ?A ?T []" "always (handleListRows h rq) ?A ?T []"
    "always (handleListTechnicalRows h rq) ?A ?T []" "always (handleListCustomers h rq) ?A ?T []"
    using one
    by (auto simp: handleListOrders_def handleGetOrder_def handleListRows_def handleListTechnicalRows_def handleListCustomers_def always_guards
        listOrders_def listOrderRows_def listTechnicalRows_def listCustomers_def editAllowed_def split: option.split)
  have header: "always (handlePatchOrderHeader h rq) ?A ?T []"
    unfolding handlePatchOrderHeader_def always_guards
    by (auto split: option.split intro!: always_getOrderWithoutOrigin[OF rf] always_inState always_customer[OF rf] one
      simp: editAllowed_def OrderStateBozza_def intro: customerSeenI draftSeen)
  have referents: "always (handlePatchReferents h rq) ?A ?T []"
    unfolding handlePatchReferents_def always_guards
    by (auto split: option.split intro!: always_getOrderWithoutOrigin[OF rf] always_inState one
      simp: editAllowed_def OrderStateBozza_def OrderStateInviato_def intro: orderRead_seen0)
  have serial: "always (handlePatchSerialNumber h rq) ?A ?T []"
    unfolding handlePatchSerialNumber_def always_guards
    by (auto split: option.split dbResult.split intro!: always_getOrderWithoutOrigin[OF rf] always_inState
      simp: editAllowed_def OrderStateBozza_def getOrderRow_def withRow_def intro!: draftSeen rowSeenI)
  have technical: "always (handlePatchTechnicalNotes h rq) ?A ?T []"
    unfolding handlePatchTechnicalNotes_def always_guards
    by (auto split: option.split dbResult.split simp: editAllowed_def getOrderRow_def getTechnicalRow_def withRow_def rowSeen_def)
  have pdf: "always (handleGatedPDF gate h rq) ?A ?T []" for gate
    unfolding handleGatedPDF_def
    by (auto split: option.split dbResult.split intro!: always_getOrderWithoutOrigin[OF rf]
      simp: always_guards always_withOrder editAllowed_def proxyNormalizedPDF_def intro: orderRead_seen orderRead_seen0)
  show ?thesis
    using assms lists header referents serial technical pdf by (cases rt) simp_all
qed

text \<open>C28: Outside the three workflows a write follows the reads that justify it: a header is written to the order of
  the request, read as a draft, with a customer that the accounting system returned; referents to an order
  read as draft or sent; a serial number to a row of a draft; notes to a row of that order; the
  normalisation before a document to an order that exists. There is no other write.\<close>

theorem edits_follow_their_reads:
  assumes "executes (orouteHandler rt h rq) (before @ (s, a) # after) res" "rt \<notin> {PostSendToERP, PostRevertConversion, PatchActivate}"
  shows "editAllowed rq before s"
  by (rule always_at[OF edits_allowed[OF assms(2)] assms(1)])

section \<open>A sample order\<close>

definition noReferents :: referents where
  "noReferents = \<lparr>re_TechNom = None, re_TechTel = None, re_TechEmail = None, re_AltroTechNom = None, re_AltroTechTel = None,
     re_AltroTechEmail = None, re_AdmNom = None, re_AdmTechTel = None, re_AdmTechEmail = None\<rparr>"

definition sampleOrder :: "string \<Rightarrow> orderDetail" where
  "sampleOrder st = \<lparr>od_ID = 7, od_SystemODV = Some ''4711'', od_Tipodoc = None, od_Ndoc = Some ''12'', od_Anno = Some 2026,
     od_CodiceOrdine = Some ''12/2026'', od_SostOrd = None, od_Cliente = Some ''Acme'', od_ClienteID = Some 5, od_Datadoc = None, od_ServiceType = None,
     od_IsColo = None, od_TipoOrd = None, od_Dataconferma = Some ''2026-03-01'', od_Stato = Some st, od_ProfileLang = None,
     od_Evaso = None, od_FromCP = None, od_ArxDocNumber = None, od_Commerciale = None, od_CodTerminiPag = None, od_Note = Some '''',
     od_DurRin = None, od_TacitoRin = None, od_TempiRil = None, od_DurataServizio = None, od_RifOrdcli = None,
     od_Referents = noReferents, od_IntFatturazione = None, od_IntFatturazioneAtt = None, od_Chiuso = None, od_Valuta = None,
     od_WrittenBy = None, od_ProfileIVA = None, od_ProfileCF = None, od_ProfileAddress = None, od_ProfileCity = None,
     od_ProfileCAP = None, od_ProfilePV = None, od_ProfileSDI = None, od_DataDecorrenza = None, od_TacitoRinInPDF = None,
     od_OriginCodTerminiPag = None, od_PaymentMethodLabel = None, od_OriginPaymentMethodLabel = None, od_IsArxivar = None, od_Origin = None\<rparr>"

definition sampleRow :: "int \<Rightarrow> storedRow" where
  "sampleRow j = \<lparr>sr_ID = j, sr_OrderID = 7, sr_SystemODVRow = Some 1, sr_CodiceKit = None, sr_IndexKit = None, sr_Codart = None,
     sr_Descart = None, sr_Qta = None, sr_Prezzo = None, sr_PrezzoAttivazione = None, sr_PrezzoCessazione = None,
     sr_RaggFatturazione = None, sr_DataAttivazione = None, sr_SerialNumber = None, sr_Confirm = None, sr_DataAnnullamento = None,
     sr_NoteTecnici = None\<rparr>"

definition sampleOHandler :: ohandler where
  "sampleOHandler = \<lparr>oh_Vodka = True, oh_Alyante = True, oh_Mistra = True, oh_Arak = True, oh_HubSpot = False, oh_Link = (\<lambda>s. s),
     oh_Unmarshal = (\<lambda>_. None)\<rparr>"

definition sampleORequest :: "any \<Rightarrow> orequest" where
  "sampleORequest body = \<lparr>qr_Roles = Some [''app_customer_relations''], qr_ID = ''7'', qr_RowID = ''3'', qr_Body = Some body,
     qr_FormOK = True, qr_File = Some (''%PDF'', True)\<rparr>"

definition accepted :: answer where
  "accepted = Gateway (Reply 200 jsonType \<lparr>by_Text = '''', by_JSON = None, by_OK = True\<rparr>)"

lemma sample_ids: "parsePositive ''7'' = Some 7" "parsePositive ''3'' = Some 3" "parseRequiredInt ''4711'' = Some 4711"
  by code_simp+

lemma sample_order: "asOrder (OneOrder (sampleOrder st)) = Row (sampleOrder st)"
proof -
  have "scanDate ''2026-03-01'' = Some (Some ''2026-03-01'')" "FormatInt 2026 = ''2026''" by code_simp+
  then show ?thesis by (simp add: asOrder_def oneOf_def scanOrder_def sampleOrder_def scanNullDate_def ptrStringValue_def)
qed

lemma sample_row: "\<exists>r. asRow (OneRow (sampleRow j)) = Row r \<and> scanOrderRow (sampleRow j) = Some r \<and> ow_ID r = j \<and> ow_SystemODVRow r = Some 1 \<and> canActivateOrderRow r"
  by (simp add: asRow_def oneOf_def scanOrderRow_def sampleRow_def scanNullDate_def scanNullFloat_def canActivateOrderRow_def)

lemma sample_reads:
  "executes (getOrderWithoutOrigin sampleOHandler i k) ((SelectOrder i, OneOrder (sampleOrder st)) # tr) r \<longleftrightarrow> executes (k (Row (sampleOrder st))) tr r"
proof -
  have "sampleOrder st\<lparr>od_PaymentMethodLabel := None, od_OriginPaymentMethodLabel := None\<rparr> = sampleOrder st" by (simp add: sampleOrder_def)
  moreover have "od_CodTerminiPag (sampleOrder st) = None" "od_OriginCodTerminiPag (sampleOrder st) = None" by (simp_all add: sampleOrder_def)
  ultimately show ?thesis by (simp add: getOrderWithoutOrigin_def sample_order paymentMethodLabel_def)
qed

lemma sample_guards:
  "requireCustomerRelations (sampleORequest b) k = k" "requireVodka sampleOHandler k = k" "requireGateway sampleOHandler k = k"
  "requireAlyante sampleOHandler k = k" "requireMistra sampleOHandler k = k"
  "parseOrderID (sampleORequest b) ki = ki 7" "parseRowID (sampleORequest b) ki = ki 3"
  "decodeJSON setter z (sampleORequest b) kp = (case decodeStruct setter b z of None \<Rightarrow> Return (Refused 400 ''invalid_request_body'') | Some p \<Rightarrow> kp p)"
  "stateOf (sampleOrder st) = st" "withOrder (Row o') ko = ko o'" "withRow (Row r) kr = kr r" "requireState s [s] k = k"
  by (simp_all add: requireCustomerRelations_def hasCustomerRelations_def HasAnyRole_def customerRelationsRoles_def requireVodka_def
      requireGateway_def requireAlyante_def requireMistra_def parseOrderID_def parseRowID_def decodeJSON_def sampleORequest_def
      sampleOHandler_def sample_ids stateOf_def sampleOrder_def withOrder_def withRow_def requireState_def)


theorem activation_all_or_nothing_witness:
  "\<exists>tr r row. executes (handleActivateRow sampleOHandler (sampleORequest (Obj [(''activation_date'', Str ''2026-03-02'')]))) tr
       (ActivationResult ''ATTIVO'' row) \<and>
     activationOutcome r tr (ActivationResult ''ATTIVO'' row)"
proof -
  let ?rq = "sampleORequest (Obj [(''activation_date'', Str ''2026-03-02'')])"
  obtain row where row: "asRow (OneRow (sampleRow 3)) = Row row" "ow_SystemODVRow row = Some 1" "canActivateOrderRow row" using sample_row[of 3] by blast
  let ?tr = "[(SelectOrder 7, OneOrder (sampleOrder ''INVIATO'')), (SelectRow 7 3, OneRow (sampleRow 3)), (Begin, Done),
      (InTx (ConfirmRow ''2026-03-02'' 3 7), Affected (Some 1)),
      (PostJSON ''/orders/v1/set-order-activation'' (activationPayload 4711 1 ''2026-03-02''), accepted), (CountAll 7, Count 1),
      (CountSettled 7, Count 1), (InTx (MarkActive 7), Affected (Some 1)), (Commit, Done), (SelectRow 7 3, OneRow (sampleRow 3))]"
  have d: "decodeStruct (setText ''activation_date'') (Obj [(''activation_date'', Str ''2026-03-02'')]) '''' = Some ''2026-03-02''"
    by (simp add: decodeStruct_def setText_def asString_def)
  have p: "ParseDate ''2026-03-02'' \<noteq> None" by code_simp
  have o: "parseRequiredInt (ptrStringValue (od_SystemODV (sampleOrder ''INVIATO''))) = Some 4711"
    using sample_ids(3) by (simp add: sampleOrder_def ptrStringValue_def)
  have "executes (handleActivateRow sampleOHandler ?rq) ?tr (ActivationResult ''ATTIVO'' row)"
    unfolding handleActivateRow_def OrderStateInviato_def OrderStateAttivo_def sample_guards d option.case
    using p o row
    by (simp add: sample_reads sample_guards getOrderRow_def gatewaySetActivationDate_def gatewayPostJSON_def gatewayOutcome_def asReply_def
        accepted_def asAffected_def asCount_def commitActivation_def)
  from this activation_all_or_nothing[OF this] show ?thesis by (intro exI[of _ ?tr] exI[of _ ?rq] exI[of _ row]) simp
qed

theorem conversion_undone_only_when_safe_witness:
  "\<exists>tr r. executes (handleRevertConversion sampleOHandler (sampleORequest Null)) tr (RevertResult r) \<and> rv_DeletedRows r = 1 \<and>
     revertOutcome (sampleORequest Null) tr (RevertResult r)"
proof -
  let ?r = "\<lparr>rv_OrderID = 7, rv_QuoteID = 9, rv_OrderCode = Some ''12/2026'', rv_DeletedRows = 1, rv_BridgeDeleted = True, rv_HubSpot = noCleanup,
      rv_Warnings = [], rv_Warning = ''''\<rparr>"
  let ?tr = "[(SelectOrder 7, OneOrder (sampleOrder ''BOZZA'')), (SelectBridge 7, Bridge 9 None), (CountErpRows (Some 12) 2026 ''12'', Count 0),
      (Begin, Done), (InTx (DeleteRows 7), Affected (Some 1)), (InTx (DeleteOrder 7), Affected (Some 1)), (Commit, Done), (DeleteBridge 9 7, Done)]"
  have o: "od_ArxDocNumber (sampleOrder ''BOZZA'') = None" "od_Ndoc (sampleOrder ''BOZZA'') = Some ''12''" "od_Anno (sampleOrder ''BOZZA'') = Some 2026"
    "od_CodiceOrdine (sampleOrder ''BOZZA'') = Some ''12/2026''" by (simp_all add: sampleOrder_def)
  have n: "ParseInt ''12'' = (12, True)" "TrimSpace ''12'' = ''12''" by code_simp+
  have "executes (handleRevertConversion sampleOHandler (sampleORequest Null)) ?tr (RevertResult ?r)"
    unfolding handleRevertConversion_def OrderStateBozza_def sample_guards sample_reads
    using o n
    by (simp add: ptrStringValue_def countAlyanteOrderRows_def asCount_def asAffected_def deleteVodkaConvertedOrder_def
        cleanupConvertedOrderHubSpot_def readMetadata_def noCleanup_def firstWarning_def Let_def)
  from this conversion_undone_only_when_safe[OF this] show ?thesis by (intro exI[of _ ?tr] exI[of _ ?r]) simp
qed

theorem edits_follow_their_reads_witness:
  "executes (orouteHandler PatchReferents sampleOHandler (sampleORequest (Obj [])))
     ([(SelectOrder 7, OneOrder (sampleOrder ''INVIATO''))] @ (Exec (SetReferents noReferents 7), Affected (Some 0)) # [])
     (Refused 409 ''wrong_state'') \<and>
   editAllowed (sampleORequest (Obj [])) [(SelectOrder 7, OneOrder (sampleOrder ''INVIATO''))] (Exec (SetReferents noReferents 7))"
proof -
  have b: "boundReferents (\<lambda>_. '''') = noReferents" by (simp add: boundReferents_def noReferents_def nullIfBlank_def)
  have d: "decodeStruct setReferent (Obj []) (\<lambda>_. '''') = Some (\<lambda>_. '''')" by (simp add: decodeStruct_def)
  have "executes (orouteHandler PatchReferents sampleOHandler (sampleORequest (Obj [])))
     ([(SelectOrder 7, OneOrder (sampleOrder ''INVIATO''))] @ (Exec (SetReferents noReferents 7), Affected (Some 0)) # []) (Refused 409 ''wrong_state'')"
    unfolding orouteHandler.simps handlePatchReferents_def sample_guards d option.case
    by (simp add: sample_reads sample_guards requireState_def OrderStateBozza_def OrderStateInviato_def b asAffected_def)
  from this edits_follow_their_reads[OF this] show ?thesis by simp
qed

end
