(* ===== verification/OrdiniSystem.thy ===== *)
theory OrdiniSystem
  imports OrdiniFlow
begin

text \<open>
  Handlers run concurrently on the same tables. A task is a request in progress: what is left of its
  handler, its open transaction, and what it has done so far. A transaction holds the writes pending in it and,
  when the database reads repeatably (the default level of MySQL, which \<open>BeginTx(ctx, nil)\<close> leaves in force), the
  tables that its first read found: its later reads see those with its own writes, its writes apply to the
  committed tables when it commits. Without repeatable reads every read sees the committed tables. Locks that
  make a writer wait are left out: a task may be delayed at any point anyway. Everything else a statement
  asks for answers arbitrarily, every statement may fail, and a task may die. The only other program that
  writes the tables is the conversion of a quote (\<open>insertVodkaOrder\<close> and
  \<open>ensureVodkaOrderPDFNullableTextFields\<close> of \<open>quotes/order_conversion.go\<close>): it adds a draft with its rows in one
  transaction and fills NULL columns.
\<close>

section \<open>Steps\<close>

type_synonym otx = "tables option \<times> update list"

text \<open>The tables as a write of the transaction finds them, and as its next read does.\<close>

definition view :: "tables \<Rightarrow> otx option \<Rightarrow> tables" where
  "view db tx = (case tx of None \<Rightarrow> db | Some (sn, us) \<Rightarrow> fold perform us db)"

definition snapshot :: "tables \<Rightarrow> tables option \<Rightarrow> tables" where
  "snapshot db sn = (case sn of None \<Rightarrow> db | Some d \<Rightarrow> d)"

definition seen :: "tables \<Rightarrow> otx option \<Rightarrow> tables" where
  "seen db tx = (case tx of None \<Rightarrow> db | Some (sn, us) \<Rightarrow> fold perform us (snapshot db sn))"

text \<open>A read of a transaction that reads repeatably fixes what its later reads see.\<close>

definition afterRead :: "bool \<Rightarrow> tables \<Rightarrow> otx option \<Rightarrow> otx option" where
  "afterRead rr db tx = (if rr then map_option (\<lambda>(sn, us). (Some (snapshot db sn), us)) tx else tx)"

text \<open>What a statement may answer and do. A failed write or commit may or may not have happened.\<close>

inductive serves :: "bool \<Rightarrow> (string \<Rightarrow> bool) \<Rightarrow> bool \<Rightarrow> tables \<Rightarrow> otx option \<Rightarrow> statement \<Rightarrow> answer \<Rightarrow> tables \<Rightarrow> otx option \<Rightarrow> bool"
  for rr zero found db tx where
  read: "readTables zero (seen db tx) s = Some a \<Longrightarrow> (s = CountAll i \<or> s = CountSettled i) \<Longrightarrow> serves rr zero found db tx s a db (afterRead rr db tx)"
| read_committed: "readTables zero db s = Some a \<Longrightarrow> (\<And>i. s \<noteq> CountAll i \<and> s \<noteq> CountSettled i) \<Longrightarrow> serves rr zero found db tx s a db tx"
| failed: "serves rr zero found db tx s Broken db tx"
| exec: "n = None \<or> n = Some (int (affected found u db)) \<Longrightarrow> serves rr zero found db tx (Exec u) (Affected n) (perform u db) tx"
| exec_unknown: "serves rr zero found db tx (Exec u) Broken (perform u db) tx"
| begin_tx: "tx = None \<Longrightarrow> serves rr zero found db tx Begin Done db (Some (None, []))"
| in_tx: "tx = Some (sn, us) \<Longrightarrow> n = None \<or> n = Some (int (affected found u (view db tx))) \<Longrightarrow>
    serves rr zero found db tx (InTx u) (Affected n) db (Some (sn, us @ [u]))"
| commit: "tx = Some p \<Longrightarrow> serves rr zero found db tx Commit Done (view db tx) None"
| commit_unknown: "tx = Some p \<Longrightarrow> db' = db \<or> db' = view db tx \<Longrightarrow> serves rr zero found db tx Commit Broken db' None"
| rollback: "serves rr zero found db tx Rollback a db None"
| elsewhere: "readTables zero db s = None \<Longrightarrow> (\<And>u. s \<noteq> Exec u \<and> s \<noteq> InTx u) \<Longrightarrow> s \<notin> {Begin, Commit, Rollback} \<Longrightarrow>
    serves rr zero found db tx s a db tx"

datatype otask = Idle | Running "otx option" oprog trace | Finished oresult

type_synonym oworld = "tables \<times> (nat \<Rightarrow> otask)"

text \<open>An id that the database has not given to an order yet: no order and no row has it, and no request in progress has
  seen a row of it. \<open>AUTO_INCREMENT\<close> gives only such ids.\<close>

definition unused :: "int \<Rightarrow> oworld \<Rightarrow> bool" where
  "unused i w \<longleftrightarrow>
     (case w of (db, ts) \<Rightarrow>
        list_all (\<lambda>o'. od_ID o' \<noteq> i) (db_orders db) \<and> rowsOf i db = [] \<and>
        (\<forall>k tx p t. ts k = Running tx p t \<longrightarrow>
           (\<forall>n. (CountAll i, Count n) \<in> set t \<longrightarrow> n \<le> 0) \<and> (\<forall>d us. tx = Some (Some d, us) \<longrightarrow> rowsOf i d = [])))"

definition addOrder :: "orderDetail \<Rightarrow> storedRow list \<Rightarrow> tables \<Rightarrow> tables" where
  "addOrder o' rs db = db\<lparr>db_orders := db_orders db @ [o'], db_rows := db_rows db @ rs\<rparr>"

inductive system_step :: "bool \<Rightarrow> (string \<Rightarrow> bool) \<Rightarrow> bool \<Rightarrow> ohandler \<Rightarrow> oworld \<Rightarrow> oworld \<Rightarrow> bool" for rr zero found h where
  request: "ts k = Idle \<Longrightarrow> system_step rr zero found h (db, ts) (db, ts(k := Running None (serveRoute rt h rq) []))"
| statement: "ts k = Running tx (Do s f) t \<Longrightarrow> serves rr zero found db tx s a db' tx' \<Longrightarrow>
    system_step rr zero found h (db, ts) (db', ts(k := Running tx' (f a) (t @ [(s, a)])))"
| respond: "ts k = Running tx (Return r) t \<Longrightarrow> system_step rr zero found h (db, ts) (db, ts(k := Finished r))"
| die: "ts k = Running tx p t \<Longrightarrow> system_step rr zero found h (db, ts) (db, ts(k := Idle))"
| again: "ts k = Finished r \<Longrightarrow> system_step rr zero found h (db, ts) (db, ts(k := Idle))"
| convert: "unused (od_ID o') (db, ts) \<Longrightarrow> od_Stato o' = Some ''BOZZA'' \<Longrightarrow> list_all (\<lambda>r. sr_OrderID r = od_ID o') rs \<Longrightarrow>
    system_step rr zero found h (db, ts) (addOrder o' rs db, ts)"
| fill: "u = NormalizeOrder i \<or> u = NormalizeRows i \<Longrightarrow> system_step rr zero found h (db, ts) (perform u db, ts)"

section \<open>How the tables evolve\<close>

text \<open>One write on one row and on one order.\<close>

definition stepRow :: "update \<Rightarrow> storedRow \<Rightarrow> storedRow" where
  "stepRow u r = (if rowWhere u r then rowSet u r else r)"

definition stepOrder :: "update \<Rightarrow> orderDetail \<Rightarrow> orderDetail" where
  "stepOrder u o' = (if orderWhere u o' then orderSet u o' else o')"

lemma perform_rows: "db_rows (perform u db) = (if isDelete u then filter (\<lambda>r. \<not> rowWhere u r) (db_rows db) else map (stepRow u) (db_rows db))"
  by (simp add: perform_def stepRow_def)

lemma perform_orders: "db_orders (perform u db) = (if isDelete u then filter (\<lambda>o'. \<not> orderWhere u o') (db_orders db) else map (stepOrder u) (db_orders db))"
  by (simp add: perform_def stepOrder_def)

text \<open>What a row keeps: its ids, and whatever settles it.\<close>

definition rowKept :: "(string \<Rightarrow> bool) \<Rightarrow> storedRow \<Rightarrow> storedRow \<Rightarrow> bool" where
  "rowKept zero r r' \<longleftrightarrow>
     sr_ID r' = sr_ID r \<and> sr_OrderID r' = sr_OrderID r \<and> (sr_Confirm r = Some 1 \<longrightarrow> sr_Confirm r' = Some 1) \<and>
     (sr_DataAnnullamento r \<noteq> None \<longrightarrow> sr_DataAnnullamento r' \<noteq> None) \<and>
     (\<forall>q. sr_Qta r = Some q \<longrightarrow> sr_Qta r' = Some q) \<and> coalesce ''1'' (sr_Qta r') = coalesce ''1'' (sr_Qta r)"

lemma rowKept_refl [simp]: "rowKept zero r r"
  by (simp add: rowKept_def)

lemma rowKept_trans: "rowKept zero a b \<Longrightarrow> rowKept zero b c \<Longrightarrow> rowKept zero a c"
  by (auto simp: rowKept_def)

lemma rowKept_settled: "rowKept zero r r' \<Longrightarrow> settled zero r \<Longrightarrow> settled zero r'"
  by (auto simp: rowKept_def settled_def split: option.splits)

lemma rowSet_ids: "sr_ID (rowSet u r) = sr_ID r" "sr_OrderID (rowSet u r) = sr_OrderID r"
  by (cases u; simp add: normalizeRowColumns_def)+

lemma stepRow_order [simp]: "sr_OrderID (stepRow u r) = sr_OrderID r"
  by (simp add: stepRow_def rowSet_ids)

lemma coalesce_simps [simp]: "coalesce d (coalesce e x) = coalesce e x" "coalesce d (Some s) = Some s" "x = Some s \<Longrightarrow> coalesce d x = Some s"
  by (auto simp: coalesce_def split: option.split)

lemma rowKept_step: "rowKept zero r (stepRow u r)"
  by (cases u) (auto simp: rowKept_def stepRow_def normalizeRowColumns_def)

lemma stepRow_normalize: "stepRow (NormalizeRows i) r = (if sr_OrderID r = i then normalizeRowColumns r else r)"
  by (simp add: stepRow_def)

lemma rowKept_mono: "rowKept zero r r' \<Longrightarrow> rowKept zero (stepRow u r) (stepRow u r')"
proof (cases u)
  case (NormalizeRows i)
  assume k: "rowKept zero r r'"
  show ?thesis unfolding NormalizeRows stepRow_normalize using k
    by (cases "sr_Qta r"; cases "sr_Qta r'") (auto simp: rowKept_def normalizeRowColumns_def coalesce_def)
qed (auto simp: rowKept_def stepRow_def)

text \<open>The rows of an order are only lost, and the others are kept.\<close>

definition rowsKept :: "(string \<Rightarrow> bool) \<Rightarrow> storedRow list \<Rightarrow> storedRow list \<Rightarrow> bool" where
  "rowsKept zero rs rs' \<longleftrightarrow> (\<forall>r' \<in> set rs'. \<exists>r \<in> set rs. rowKept zero r r') \<and> length rs' \<le> length rs"

lemma rowsKept_refl [simp]: "rowsKept zero rs rs"
  by (auto simp: rowsKept_def intro: rowKept_refl)

lemma rowsKept_Nil [simp]: "rowsKept zero rs []"
  by (simp add: rowsKept_def)

lemma rowsKept_trans: "rowsKept zero a b \<Longrightarrow> rowsKept zero b c \<Longrightarrow> rowsKept zero a c"
  unfolding rowsKept_def by (meson le_trans rowKept_trans)

lemma rowsKept_step: "rowsKept zero rs (map (stepRow u) rs)"
  by (auto simp: rowsKept_def intro: rowKept_step)

lemma rowsKept_mono: "rowsKept zero rs rs' \<Longrightarrow> rowsKept zero (map (stepRow u) rs) (map (stepRow u) rs')"
  by (fastforce simp: rowsKept_def intro: rowKept_mono)

lemma rowsKept_settled: "rowsKept zero rs rs' \<Longrightarrow> list_all (settled zero) rs \<Longrightarrow> list_all (settled zero) rs'"
  unfolding rowsKept_def list_all_iff using rowKept_settled by blast

definition orderKept :: "(string \<Rightarrow> bool) \<Rightarrow> int \<Rightarrow> tables \<Rightarrow> tables \<Rightarrow> bool" where
  "orderKept zero i db db' \<longleftrightarrow> rowsKept zero (rowsOf i db) (rowsOf i db')"

lemma rowWhere_delete: "isDelete u \<Longrightarrow> rowWhere u r \<longleftrightarrow> (\<exists>i. u = DeleteRows i \<and> sr_OrderID r = i)"
  by (cases u) (auto simp: isDelete_def)

lemma rowsOf_perform:
  "rowsOf i (perform u db) =
     (if u = DeleteRows i then [] else if isDelete u then rowsOf i db else map (stepRow u) (rowsOf i db))"
proof (cases "isDelete u")
  case True
  have "filter (\<lambda>r. sr_OrderID r = i) (filter (\<lambda>r. \<not> rowWhere u r) (db_rows db)) =
      (if u = DeleteRows i then [] else filter (\<lambda>r. sr_OrderID r = i) (db_rows db))"
    using rowWhere_delete[OF True] by (auto simp: filter_empty_conv intro: filter_cong)
  then show ?thesis using True by (simp add: rowsOf_def perform_rows)
next
  case False
  then have "u \<noteq> DeleteRows i" by (auto simp: isDelete_def)
  moreover have "(\<lambda>r. sr_OrderID r = i) \<circ> stepRow u = (\<lambda>r. sr_OrderID r = i)" by (rule ext) simp
  ultimately show ?thesis using False by (simp add: rowsOf_def perform_rows filter_map)
qed

lemma orderKept_refl [simp]: "orderKept zero i db db"
  by (simp add: orderKept_def)

lemma orderKept_trans: "orderKept zero i a b \<Longrightarrow> orderKept zero i b c \<Longrightarrow> orderKept zero i a c"
  unfolding orderKept_def by (rule rowsKept_trans)

lemma orderKept_perform: "orderKept zero i db (perform u db)"
  by (simp add: orderKept_def rowsOf_perform rowsKept_step)

lemma orderKept_mono: "orderKept zero i db db' \<Longrightarrow> orderKept zero i (perform u db) (perform u db')"
  by (simp add: orderKept_def rowsOf_perform rowsKept_mono)

lemma orderKept_fold: "orderKept zero i db (fold perform us db)"
  by (induction us arbitrary: db) (auto intro: orderKept_trans orderKept_perform)

lemma orderKept_fold_mono: "orderKept zero i db db' \<Longrightarrow> orderKept zero i (fold perform us db) (fold perform us db')"
  by (induction us arbitrary: db db') (auto intro: orderKept_mono)

lemma rowsOf_fold_Nil: "rowsOf i db = [] \<Longrightarrow> rowsOf i (fold perform us db) = []"
  by (induction us arbitrary: db) (auto simp: rowsOf_perform)

lemma rowsOf_fold_cong: "rowsOf i db = rowsOf i db' \<Longrightarrow> rowsOf i (fold perform us db) = rowsOf i (fold perform us db')"
  by (induction us arbitrary: db db') (auto simp: rowsOf_perform)

definition allSettled :: "(string \<Rightarrow> bool) \<Rightarrow> int \<Rightarrow> tables \<Rightarrow> bool" where
  "allSettled zero i db \<longleftrightarrow> list_all (settled zero) (rowsOf i db)"

lemma allSettled_kept: "orderKept zero i db db' \<Longrightarrow> allSettled zero i db \<Longrightarrow> allSettled zero i db'"
  unfolding orderKept_def allSettled_def by (rule rowsKept_settled)

text \<open>A statement keeps the rows of every order.\<close>

lemma view_simps [simp]: "view db None = db" "view db (Some (sn, us)) = fold perform us db"
  by (simp_all add: view_def)

lemma seen_simps [simp]: "seen db None = db" "seen db (Some (None, us)) = fold perform us db" "seen db (Some (Some d, us)) = fold perform us d"
  by (simp_all add: seen_def snapshot_def)

lemma serves_kept: "serves rr zero found db tx s a db' tx' \<Longrightarrow> orderKept zero i db db'"
  by (induction rule: serves.induct) (auto simp: view_def intro: orderKept_perform orderKept_fold split: option.split)

section \<open>Active orders are settled\<close>

definition activeSettled :: "(string \<Rightarrow> bool) \<Rightarrow> tables \<Rightarrow> bool" where
  "activeSettled zero db \<longleftrightarrow> list_all (\<lambda>o'. if od_Stato o' = Some ''ATTIVO'' then allSettled zero (od_ID o') db else True) (db_orders db)"

text \<open>An order is made active only after the two counts agreed on a positive number.\<close>

definition markGuard :: "trace \<Rightarrow> statement \<Rightarrow> bool" where
  "markGuard t s \<longleftrightarrow>
     (\<forall>i. s = InTx (MarkActive i) \<or> s = Exec (MarkActive i) \<longrightarrow>
        s = InTx (MarkActive i) \<and> (\<exists>t' n. 0 < n \<and> t = t' @ [(CountAll i, Count n), (CountSettled i, Count n)]))"

definition counted :: "int \<Rightarrow> trace \<Rightarrow> bool" where
  "counted i t \<longleftrightarrow> (\<exists>n > 0. (CountAll i, Count n) \<in> set t)"

text \<open>What a task knows: what it counted bounds what its next read sees, two equal counts and a pending activation mean
  that all rows of the order are settled in what it will commit, and of an order in its snapshot no row was
  added or unsettled since.\<close>

definition knows :: "(string \<Rightarrow> bool) \<Rightarrow> tables \<Rightarrow> otx option \<Rightarrow> trace \<Rightarrow> bool" where
  "knows zero db tx t \<longleftrightarrow>
     (\<forall>t' i n. t = t' @ [(CountAll i, Count n)] \<longrightarrow> 0 < n \<longrightarrow> int (length (rowsOf i (seen db tx))) \<le> n) \<and>
     (\<forall>t' i n. t = t' @ [(CountAll i, Count n), (CountSettled i, Count n)] \<longrightarrow> 0 < n \<longrightarrow> allSettled zero i (view db tx)) \<and>
     (\<forall>sn us i. tx = Some (sn, us) \<longrightarrow> MarkActive i \<in> set us \<longrightarrow> counted i t \<and> allSettled zero i (view db tx)) \<and>
     (\<forall>d us i. tx = Some (Some d, us) \<longrightarrow> rowsOf i d \<noteq> [] \<longrightarrow> orderKept zero i d db)"

lemma knowsI:
  assumes "\<And>t' i n. t = t' @ [(CountAll i, Count n)] \<Longrightarrow> 0 < n \<Longrightarrow> int (length (rowsOf i (seen db tx))) \<le> n"
    "\<And>t' i n. t = t' @ [(CountAll i, Count n), (CountSettled i, Count n)] \<Longrightarrow> 0 < n \<Longrightarrow> allSettled zero i (view db tx)"
    "\<And>sn us i. tx = Some (sn, us) \<Longrightarrow> MarkActive i \<in> set us \<Longrightarrow> counted i t \<and> allSettled zero i (view db tx)"
    "\<And>d us i. tx = Some (Some d, us) \<Longrightarrow> rowsOf i d \<noteq> [] \<Longrightarrow> orderKept zero i d db"
  shows "knows zero db tx t"
  using assms unfolding knows_def by blast

lemma knows_counted: "knows zero db tx (t' @ [(CountAll i, Count n)]) \<Longrightarrow> 0 < n \<Longrightarrow> int (length (rowsOf i (seen db tx))) \<le> n"
  by (simp add: knows_def)

lemma knows_settled:
  "knows zero db tx (t' @ [(CountAll i, Count n), (CountSettled i, Count n)]) \<Longrightarrow> 0 < n \<Longrightarrow> allSettled zero i (view db tx)"
  by (simp add: knows_def)

lemma knows_pending: "knows zero db (Some (sn, us)) t \<Longrightarrow> MarkActive i \<in> set us \<Longrightarrow> counted i t \<and> allSettled zero i (fold perform us db)"
  by (simp add: knows_def)

lemma knows_snapshot: "knows zero db (Some (Some d, us)) t \<Longrightarrow> rowsOf i d \<noteq> [] \<Longrightarrow> orderKept zero i d db"
  by (simp add: knows_def)

definition taskOK :: "(string \<Rightarrow> bool) \<Rightarrow> tables \<Rightarrow> otask \<Rightarrow> bool" where
  "taskOK zero db k = (case k of Running tx p t \<Rightarrow> always p markGuard (\<lambda>_ _. True) t \<and> knows zero db tx t | _ \<Rightarrow> True)"

definition system_inv :: "(string \<Rightarrow> bool) \<Rightarrow> oworld \<Rightarrow> bool" where
  "system_inv zero w = (case w of (db, ts) \<Rightarrow> activeSettled zero db \<and> (\<forall>k. taskOK zero db (ts k)))"

text \<open>What a task knows survives whatever keeps the orders that it knows of.\<close>

definition concerns :: "int \<Rightarrow> otx option \<Rightarrow> trace \<Rightarrow> bool" where
  "concerns i tx t \<longleftrightarrow> counted i t \<or> (\<exists>d us. tx = Some (Some d, us) \<and> rowsOf i d \<noteq> [])"

lemma knows_kept:
  assumes k: "\<And>i. concerns i tx t \<Longrightarrow> orderKept zero i db db'" and t: "knows zero db tx t"
  shows "knows zero db' tx t"
proof -
  have v: "orderKept zero i (view db tx) (view db' tx)" if "counted i t" for i
    using k[of i] that by (cases tx) (auto simp: concerns_def intro: orderKept_fold_mono)
  have s: "orderKept zero i (seen db tx) (seen db' tx)" if "counted i t" for i
    using k[of i] that by (auto simp: concerns_def seen_def snapshot_def intro: orderKept_fold_mono split: option.split)
  show ?thesis
  proof (rule knowsI)
    fix t' i n assume e: "t = t' @ [(CountAll i, Count n)]" "0 < n"
    then have "length (rowsOf i (seen db' tx)) \<le> length (rowsOf i (seen db tx))"
      using s[of i] by (auto simp: orderKept_def rowsKept_def counted_def)
    then show "int (length (rowsOf i (seen db' tx))) \<le> n" using knows_counted[OF t[unfolded e(1)] e(2)] by simp
  next
    fix t' i n assume e: "t = t' @ [(CountAll i, Count n), (CountSettled i, Count n)]" "0 < n"
    then have "counted i t" by (auto simp: counted_def)
    then show "allSettled zero i (view db' tx)" using knows_settled[OF t[unfolded e(1)] e(2)] allSettled_kept[OF v] by blast
  next
    fix sn us i assume u: "tx = Some (sn, us)" "MarkActive i \<in> set us"
    then show "counted i t \<and> allSettled zero i (view db' tx)"
      using knows_pending[OF t[unfolded u(1)] u(2)] allSettled_kept[OF v, of i] by simp
  next
    fix d us i assume d: "tx = Some (Some d, us)" "rowsOf i d \<noteq> []"
    then show "orderKept zero i d db'"
      using orderKept_trans[OF knows_snapshot[OF t[unfolded d(1)] d(2)]] k[of i] by (auto simp: concerns_def)
  qed
qed

lemma taskOK_knows:
  assumes "taskOK zero db k" "\<And>tx p t i. k = Running tx p t \<Longrightarrow> concerns i tx t \<Longrightarrow> orderKept zero i db db'"
  shows "taskOK zero db' k"
proof (cases k)
  case (Running tx p t)
  then have "knows zero db' tx t" using assms by (intro knows_kept[of tx t zero db db']) (auto simp: taskOK_def)
  then show ?thesis using assms(1) Running by (simp add: taskOK_def)
qed (simp_all add: taskOK_def)

lemma taskOK_kept: "(\<And>i. orderKept zero i db db') \<Longrightarrow> taskOK zero db k \<Longrightarrow> taskOK zero db' k"
  by (rule taskOK_knows)

lemma serves_count:
  assumes "serves rr zero found db tx s (Count n) db' tx'" "s = CountAll i \<or> s = CountSettled i"
  shows "db' = db \<and> tx' = afterRead rr db tx \<and>
    n = (if s = CountAll i then int (length (rowsOf i (seen db tx))) else int (length (filter (settled zero) (rowsOf i (seen db tx)))))"
  using assms by (auto elim!: serves.cases simp: readTables_def)

lemma afterRead_simps [simp]:
  "view db' (afterRead rr db tx) = view db' tx" "seen db (afterRead rr db tx) = seen db tx"
  by (auto simp: afterRead_def view_def seen_def snapshot_def split: option.split prod.split)

lemma all_counted: "int (length (filter P xs)) = n \<Longrightarrow> int (length xs) \<le> n \<Longrightarrow> list_all P xs"
  by (metis length_filter_less linorder_not_less list_all_iff of_nat_le_iff)

text \<open>What the transaction commits keeps the orders that its reads saw.\<close>

lemma seen_view:
  assumes "knows zero db tx t" "rowsOf i (seen db tx) \<noteq> []"
  shows "orderKept zero i (seen db tx) (view db tx)"
proof (cases tx)
  case (Some p)
  obtain sn us where p: "p = (sn, us)" by (cases p)
  show ?thesis
  proof (cases sn)
    case (Some d)
    then have "rowsOf i d \<noteq> []" using assms(2) \<open>tx = Some p\<close> p rowsOf_fold_Nil by auto
    then show ?thesis using knows_snapshot[of zero db d us t i] assms(1) Some \<open>tx = Some p\<close> p by (auto intro: orderKept_fold_mono)
  qed (use Some p in simp)
qed simp

lemma serves_tx:
  assumes "serves rr zero found db tx s a db' tx'" "tx' = Some (sn', us')"
  shows "us' = [] \<and> sn' = None \<or> (\<exists>sn. tx = Some (sn, us') \<and> (sn' = sn \<or> sn' = Some (snapshot db sn))) \<or>
    (\<exists>us u. tx = Some (sn', us) \<and> us' = us @ [u] \<and> s = InTx u \<and> db' = db)"
  using assms by (cases tx) (auto elim!: serves.cases simp: afterRead_def split: if_splits)

lemma counted_more: "counted i t \<Longrightarrow> counted i (t @ t')"
  by (auto simp: counted_def)

lemma knows_step:
  assumes k: "knows zero db tx t" and g: "markGuard t s" and s: "serves rr zero found db tx s a db' tx'"
  shows "knows zero db' tx' (t @ [(s, a)])"
proof (rule knowsI)
  fix t' i n assume "t @ [(s, a)] = t' @ [(CountAll i, Count n)]"
  then show "int (length (rowsOf i (seen db' tx'))) \<le> n"
    using serves_count[of rr zero found db tx s n db' tx' i] s by auto
next
  fix t' i n assume e: "t @ [(s, a)] = t' @ [(CountAll i, Count n), (CountSettled i, Count n)]" "0 < n"
  then have t: "t = t' @ [(CountAll i, Count n)]" "s = CountSettled i" "a = Count n" by (auto simp: append_eq_append_conv2 Cons_eq_append_conv)
  have l: "int (length (rowsOf i (seen db tx))) \<le> n" using knows_counted[OF k[unfolded t(1)] e(2)] .
  have c: "db' = db" "view db' tx' = view db tx" "n = int (length (filter (settled zero) (rowsOf i (seen db tx))))"
    using serves_count[of rr zero found db tx s n db' tx' i] s t by auto
  have "allSettled zero i (seen db tx)" unfolding allSettled_def using all_counted l c(3) by metis
  moreover have "rowsOf i (seen db tx) \<noteq> []" using c(3) e(2) by auto
  ultimately show "allSettled zero i (view db' tx')" using allSettled_kept[OF seen_view[OF k]] c(2) by simp
next
  fix sn' us' i assume u: "tx' = Some (sn', us')" "MarkActive i \<in> set us'"
  have kept: "orderKept zero i db db'" by (rule serves_kept[OF s])
  from serves_tx[OF s u(1)] consider "us' = []" | sn where "tx = Some (sn, us')"
    | us v where "tx = Some (sn', us)" "us' = us @ [v]" "s = InTx v" "db' = db" by blast
  then show "counted i (t @ [(s, a)]) \<and> allSettled zero i (view db' tx')"
  proof cases
    case 2
    then show ?thesis
      using knows_pending[of zero db sn us' t i] k u allSettled_kept[OF orderKept_fold_mono[OF kept, of us']] counted_more by simp
  next
    case 3
    have "counted i t \<and> allSettled zero i (fold perform us db)"
    proof (cases "MarkActive i \<in> set us")
      case True
      then show ?thesis using knows_pending[of zero db sn' us t i] k 3(1) by simp
    next
      case False
      then have "s = InTx (MarkActive i)" using u(2) 3(2,3) by auto
      then obtain t' n where "0 < n" "t = t' @ [(CountAll i, Count n), (CountSettled i, Count n)]"
        using g unfolding markGuard_def by blast
      then show ?thesis using knows_settled[of zero db tx t' i n] k 3(1) by (auto simp: counted_def)
    qed
    then show ?thesis using 3 u(1) allSettled_kept[OF orderKept_perform] counted_more by simp
  qed (use u(2) in simp)
next
  fix d us' i assume d: "tx' = Some (Some d, us')" "rowsOf i d \<noteq> []"
  have kept: "orderKept zero i db db'" by (rule serves_kept[OF s])
  from serves_tx[OF s d(1)] consider sn where "tx = Some (sn, us')" "d = snapshot db sn" | us where "tx = Some (Some d, us)"
    by (auto simp: snapshot_def)
  then show "orderKept zero i d db'"
  proof cases
    case 1
    then show ?thesis using kept orderKept_trans[OF knows_snapshot[of zero db d us' t i] kept] k d(2)
      by (cases sn) (auto simp: snapshot_def)
  next
    case 2
    then show ?thesis using orderKept_trans[OF knows_snapshot[of zero db d us t i] kept] k d(2) by simp
  qed
qed

text \<open>Where an active order comes from.\<close>

lemma active_origin:
  "o' \<in> set (db_orders (fold perform us db)) \<Longrightarrow> od_Stato o' = Some ''ATTIVO'' \<Longrightarrow>
   (\<exists>o0 \<in> set (db_orders db). od_ID o0 = od_ID o' \<and> od_Stato o0 = Some ''ATTIVO'') \<or> MarkActive (od_ID o') \<in> set us"
proof (induction us arbitrary: db)
  case (Cons u us)
  from Cons.IH[of "perform u db"] Cons.prems
  consider "MarkActive (od_ID o') \<in> set us" | o1 where "o1 \<in> set (db_orders (perform u db))" "od_ID o1 = od_ID o'" "od_Stato o1 = Some ''ATTIVO''"
    by auto
  then show ?case
  proof cases
    case 2
    have "(od_ID o0 = od_ID o' \<and> od_Stato o0 = Some ''ATTIVO'') \<or> u = MarkActive (od_ID o')"
      if "stepOrder u o0 = o1" for o0
      using that 2(2,3) by (cases u) (auto simp: stepOrder_def normalizeOrderColumns_def split: if_splits)
    then show ?thesis using 2 by (auto simp: perform_orders split: if_splits)
  qed simp
qed auto

lemma activeSettled_fold:
  assumes "activeSettled zero db" "\<And>i. MarkActive i \<in> set us \<Longrightarrow> allSettled zero i (fold perform us db)"
  shows "activeSettled zero (fold perform us db)"
  unfolding activeSettled_def list_all_iff
proof (clarsimp)
  fix o' assume o': "o' \<in> set (db_orders (fold perform us db))" "od_Stato o' = Some ''ATTIVO''"
  from active_origin[OF this] show "allSettled zero (od_ID o') (fold perform us db)"
  proof (elim disjE bexE conjE)
    fix o0 assume "o0 \<in> set (db_orders db)" "od_ID o0 = od_ID o'" "od_Stato o0 = Some ''ATTIVO''"
    then have "allSettled zero (od_ID o') db" using assms(1) unfolding activeSettled_def list_all_iff by force
    then show ?thesis by (rule allSettled_kept[OF orderKept_fold])
  qed (rule assms(2))
qed

lemma activeSettled_serves:
  assumes "activeSettled zero db" "knows zero db tx t" "markGuard t s" "serves rr zero found db tx s a db' tx'"
  shows "activeSettled zero db'"
proof -
  have c: "activeSettled zero (fold perform us db)" if "tx = Some (sn, us)" for sn us
    using knows_pending[of zero db sn us t] assms(2) that by (intro activeSettled_fold[OF assms(1)]) auto
  have e: "activeSettled zero (perform u db)" if "s = Exec u" for u
    using activeSettled_fold[OF assms(1), of "[u]"] assms(3) that by (auto simp: markGuard_def)
  show ?thesis using assms(4,1) by cases (auto intro: c e)
qed

text \<open>A converted quote adds a draft with an id that nobody knows.\<close>

lemma rowsOf_addOrder:
  "list_all (\<lambda>r. sr_OrderID r = od_ID o') rs \<Longrightarrow> i \<noteq> od_ID o' \<Longrightarrow> rowsOf i (addOrder o' rs db) = rowsOf i db"
  by (auto simp: rowsOf_def addOrder_def list_all_iff filter_empty_conv)

lemma unused_concerns: "unused i (db, ts) \<Longrightarrow> ts k = Running tx p t \<Longrightarrow> \<not> concerns i tx t"
  by (fastforce simp: unused_def concerns_def counted_def)

lemma addOrder_inv:
  assumes "unused (od_ID o') (db, ts)" "od_Stato o' = Some ''BOZZA''" "list_all (\<lambda>r. sr_OrderID r = od_ID o') rs" "system_inv zero (db, ts)"
  shows "system_inv zero (addOrder o' rs db, ts)"
proof -
  have kept: "orderKept zero i db (addOrder o' rs db)" if "i \<noteq> od_ID o'" for i
    using rowsOf_addOrder[OF assms(3) that] by (simp add: orderKept_def)
  have "taskOK zero (addOrder o' rs db) (ts k)" for k
  proof (rule taskOK_knows[of zero db "ts k"])
    show "taskOK zero db (ts k)" using assms(4) by (simp add: system_inv_def)
    show "orderKept zero i db (addOrder o' rs db)" if "ts k = Running tx p t" "concerns i tx t" for tx p t i
      using unused_concerns[OF assms(1) that(1)] that(2) by (intro kept) blast
  qed
  moreover have "activeSettled zero (addOrder o' rs db)"
  proof -
    have "allSettled zero (od_ID x) (addOrder o' rs db)" if "x \<in> set (db_orders db)" "od_Stato x = Some ''ATTIVO''" for x
    proof -
      have "od_ID x \<noteq> od_ID o'" using assms(1) that(1) by (auto simp: unused_def list_all_iff)
      moreover have "allSettled zero (od_ID x) db" using assms(4) that by (auto simp: system_inv_def activeSettled_def list_all_iff)
      ultimately show ?thesis using allSettled_kept[OF kept] by blast
    qed
    then show ?thesis using assms(2) by (auto simp: activeSettled_def list_all_iff addOrder_def)
  qed
  ultimately show ?thesis by (simp add: system_inv_def)
qed

section \<open>Every route respects the guard\<close>

lemma markGuard_free: "(\<And>i. s \<noteq> InTx (MarkActive i) \<and> s \<noteq> Exec (MarkActive i)) \<Longrightarrow> markGuard t s"
  by (simp add: markGuard_def)

lemma guard_reads: "readsFreely markGuard"
  by (auto simp: readsFreely_def isRead_def markGuard_def)

lemma guard_counted: "0 < n \<Longrightarrow> markGuard (t @ [(CountAll i, Count n), (CountSettled i, Count n)]) (InTx (MarkActive i))"
  by (auto simp: markGuard_def intro: exI[of _ t])

lemma edits_guard:
  assumes "rt \<notin> {PostSendToERP, PostRevertConversion, PatchActivate}"
  shows "always (orouteHandler rt h rq) markGuard (\<lambda>_ _. True) []"
proof (rule always_mono)
  show "always (orouteHandler rt h rq) (editAllowed rq) (\<lambda>_ _. True) []" by (rule edits_allowed[OF assms])
  show "markGuard t s" if "editAllowed rq t s" for t s
    using that by (auto simp: markGuard_def editAllowed_def isRead_def split: statement.splits update.splits)
qed

lemma cleanup_guard:
  assumes "\<And>c t'. always (k c) markGuard Q (t @ t')"
  shows "always (cleanupConvertedOrderHubSpot h jdata k) markGuard Q t"
proof -
  have step: "always (deleteFileStep m c k) markGuard Q (t @ t')" for m c t'
    using assms[of _ t'] assms[of _ "t' @ [x]" for x] by (auto simp: deleteFileStep_def markGuard_def)
  show ?thesis
    using assms[of _ "[]"] step[of _ _ "[]"] step[of _ _ "[x]" for x]
    by (auto simp: cleanupConvertedOrderHubSpot_def markGuard_def Let_def split: option.split)
qed

lemma revert_guard: "always (handleRevertConversion h rq) markGuard (\<lambda>_ _. True) []"
proof -
  have del: "always (deleteVodkaConvertedOrder i k) markGuard (\<lambda>_ _. True) t" if "\<And>d t. always (k d) markGuard (\<lambda>_ _. True) t" for i k t
    using that by (auto simp: deleteVodkaConvertedOrder_def markGuard_def split: option.split)
  have read: "always (countAlyanteOrderRows o' k) markGuard (\<lambda>_ _. True) t" if "\<And>d t. always (k d) markGuard (\<lambda>_ _. True) t" for o' k t
    using that by (auto simp: countAlyanteOrderRows_def Let_def split: option.split intro: markGuard_free)
  show ?thesis
    unfolding handleRevertConversion_def always_guards
    by (auto split: option.split answer.split deletion.split
        intro!: always_getOrderWithoutOrigin[OF guard_reads] always_inState del read cleanup_guard
        simp: Let_def markGuard_def)
qed

lemma send_guard: "always (handleSendToERP h rq) markGuard (\<lambda>_ _. True) []"
  unfolding handleSendToERP_def always_guards
  by (auto split: option.split list.split
      intro!: always_getOrderWithoutOrigin[OF guard_reads] always_inState always_readSendPDF always_sendRows
      simp: listOrderRows_def gatewayUploadToArxivar_def markGuard_def Let_def simp del: sendRows.simps)

lemma activate_guard: "always (handleActivateRow h rq) markGuard (\<lambda>_ _. True) []"
proof -
  have cn: "a = Count n" if "asCount a = Some n" for a n using that by (cases a) (auto simp: asCount_def)
  have commit: "always (commitActivation i j st) markGuard (\<lambda>_ _. True) t" for i j st t
    by (auto simp: commitActivation_def abort_def getOrderRow_def markGuard_def split: dbResult.split)
  have free: "markGuard t Begin" "markGuard t Rollback" "markGuard t (CountAll i)" "markGuard t (CountSettled i)"
    "markGuard t (InTx (ConfirmRow d j i))" "markGuard t (PostJSON u p)" "markGuard t (SelectRow i j)" for t i d j u p
    by (simp_all add: markGuard_def)
  show ?thesis
    unfolding handleActivateRow_def always_guards
    by (auto split: option.split dbResult.split
      intro!: always_getOrderWithoutOrigin[OF guard_reads] always_inState commit guard_counted[where t = "t @ [p, q, r, s]" for t p q r s, simplified]
      simp: free getOrderRow_def withRow_def abort_def gatewaySetActivationDate_def gatewayPostJSON_def dest!: cn)
qed

lemma routes_guard: "always (serveRoute rt h rq) markGuard (\<lambda>_ _. True) []"
  using edits_guard[of rt h rq] revert_guard send_guard activate_guard
  by (cases rt) (auto simp: serveRoute_def split: option.split)

lemma system_inv_step:
  assumes "system_step rr zero found h w w'" "system_inv zero w"
  shows "system_inv zero w'"
  using assms
proof (induction rule: system_step.induct)
  case (request ts k db rt rq)
  have "taskOK zero db (Running None (serveRoute rt h rq) [])" using routes_guard by (simp add: taskOK_def knows_def)
  then show ?case using request by (simp add: system_inv_def)
next
  case (statement ts k tx s f t db a db' tx')
  then have k: "taskOK zero db (Running tx (Do s f) t)" "activeSettled zero db" "\<And>k. taskOK zero db (ts k)"
    by (auto simp: system_inv_def) metis
  then have g: "markGuard t s" "always (f a) markGuard (\<lambda>_ _. True) (t @ [(s, a)])" "knows zero db tx t" by (auto simp: taskOK_def)
  have "taskOK zero db' (ts j)" for j using taskOK_kept[OF serves_kept[OF statement(2)] k(3)] .
  moreover have "taskOK zero db' (Running tx' (f a) (t @ [(s, a)]))"
    using g knows_step[OF g(3,1) statement(2)] by (simp add: taskOK_def)
  ultimately show ?case using activeSettled_serves[OF k(2) g(3,1) statement(2)] by (simp add: system_inv_def)
next
  case (convert o' db ts rs)
  then show ?case by (rule addOrder_inv)
next
  case (fill u i db ts)
  then have "activeSettled zero (perform u db)" using activeSettled_fold[of zero db "[u]"] by (auto simp: system_inv_def)
  moreover have "taskOK zero (perform u db) (ts k)" for k
    using fill(2) by (intro taskOK_kept[OF orderKept_perform]) (simp add: system_inv_def)
  ultimately show ?case by (simp add: system_inv_def)
qed (auto simp: system_inv_def taskOK_def)

lemma system_inv_reachable: "(system_step rr zero found h)\<^sup>*\<^sup>* w w' \<Longrightarrow> system_inv zero w \<Longrightarrow> system_inv zero w'"
  by (induction rule: rtranclp_induct) (auto intro: system_inv_step)

text \<open>C4: However requests interleave, fail or die, and whatever quotes are converted meanwhile, an active order has
  only settled rows: every row confirmed, cancelled or of quantity zero, provided that this holds when the system
  starts, with and without repeatable reads in a transaction. Whatever a transaction counted stays true until
  it commits, because no statement unsettles a row or adds one to an existing order.\<close>

theorem active_orders_have_settled_rows:
  assumes "(system_step rr zero found h)\<^sup>*\<^sup>* (db, \<lambda>_. Idle) (db', ts)" "activeSettled zero db"
  shows "activeSettled zero db'"
proof -
  have "system_inv zero (db, \<lambda>_. Idle)" using assms(2) by (simp add: system_inv_def taskOK_def)
  then show ?thesis using system_inv_reachable[OF assms(1)] by (simp add: system_inv_def)
qed

section \<open>Runs within the system\<close>

inductive servesAll :: "bool \<Rightarrow> (string \<Rightarrow> bool) \<Rightarrow> bool \<Rightarrow> tables \<Rightarrow> otx option \<Rightarrow> trace \<Rightarrow> tables \<Rightarrow> otx option \<Rightarrow> bool"
  for rr zero found where
  nothing: "servesAll rr zero found db tx [] db tx"
| more: "serves rr zero found db tx s a db' tx' \<Longrightarrow> servesAll rr zero found db' tx' tr db'' tx'' \<Longrightarrow>
    servesAll rr zero found db tx ((s, a) # tr) db'' tx''"

lemma run_steps:
  assumes "servesAll rr zero found db tx tr db' tx'" "executes p (tr @ rest) r" "ts k = Running tx p t"
  shows "\<exists>q. executes q rest r \<and> (system_step rr zero found h)\<^sup>*\<^sup>* (db, ts) (db', ts(k := Running tx' q (t @ tr)))"
  using assms
proof (induction arbitrary: p ts t)
  case (nothing db tx)
  then have "executes p rest r" "ts(k := Running tx p (t @ [])) = ts" by auto
  then show ?case by (intro exI[of _ p]) simp
next
  case (more db tx s a db' tx' tr db'' tx'')
  obtain f where f: "p = Do s f" "executes (f a) (tr @ rest) r" using more.prems(1) by (cases p) auto
  let ?ts = "ts(k := Running tx' (f a) (t @ [(s, a)]))"
  have "system_step rr zero found h (db, ts) (db', ?ts)" using system_step.statement more.hyps(1) more.prems(2) f(1) by blast
  moreover obtain q where "executes q rest r"
    "(system_step rr zero found h)\<^sup>*\<^sup>* (db', ?ts) (db'', ?ts(k := Running tx'' q ((t @ [(s, a)]) @ tr)))"
    using more.IH[OF f(2), of ?ts "t @ [(s, a)]"] by (metis fun_upd_same)
  ultimately have "(system_step rr zero found h)\<^sup>*\<^sup>* (db, ts) (db'', ts(k := Running tx'' q (t @ (s, a) # tr)))"
    by (auto intro: converse_rtranclp_into_rtranclp)
  then show ?case using \<open>executes q rest r\<close> by blast
qed

lemma executes_Nil: "executes q [] r \<Longrightarrow> q = Return r"
  by (cases q) auto

lemma servesAll_append:
  "servesAll rr zero found db tx tr db' tx' \<Longrightarrow> servesAll rr zero found db' tx' tr' db'' tx'' \<Longrightarrow> servesAll rr zero found db tx (tr @ tr') db'' tx''"
  by (induction rule: servesAll.induct) (auto intro: servesAll.more)

text \<open>A sent order with rows to activate, and the run that activates one of them, whose row may be confirmed already.\<close>

definition sentTables :: "storedRow list \<Rightarrow> tables" where
  "sentTables rows = \<lparr>db_orders = [sampleOrder ''INVIATO''], db_rows = rows\<rparr>"

definition activatedRow :: "int \<Rightarrow> storedRow" where
  "activatedRow j = (sampleRow j)\<lparr>sr_DataAttivazione := Some ''2026-03-02'', sr_Confirm := Some 1\<rparr>"

definition activateRequest :: "string \<Rightarrow> orequest" where
  "activateRequest rid = (sampleORequest (Obj [(''activation_date'', Str ''2026-03-02'')]))
     \<lparr>qr_RowID := rid, qr_Roles := Some [''app_ordini_access'', ''app_customer_relations'']\<rparr>"

definition countedRun :: "storedRow \<Rightarrow> int \<Rightarrow> int \<Rightarrow> int \<Rightarrow> int \<Rightarrow> trace" where
  "countedRun r j c n m = [(SelectOrder 7, OneOrder (sampleOrder ''INVIATO'')), (SelectRow 7 j, OneRow r), (Begin, Done),
      (InTx (ConfirmRow ''2026-03-02'' j 7), Affected (Some c)),
      (PostJSON ''/orders/v1/set-order-activation'' (activationPayload 4711 1 ''2026-03-02''), accepted), (CountAll 7, Count n),
      (CountSettled 7, Count m)]"

definition markedRun :: trace where
  "markedRun = [(InTx (MarkActive 7), Affected (Some 1))]"

definition committedRun :: "int \<Rightarrow> trace" where
  "committedRun j = [(Commit, Done), (SelectRow 7 j, OneRow (activatedRow j))]"

lemma activated_row: "\<exists>r. asRow (OneRow (activatedRow j)) = Row r \<and> ow_SystemODVRow r = Some 1 \<and> canActivateOrderRow r"
proof -
  have "scanDate ''2026-03-02'' = Some (Some ''2026-03-02'')" by code_simp
  then show ?thesis
    by (simp add: asRow_def oneOf_def scanOrderRow_def sampleRow_def activatedRow_def scanNullDate_def scanNullFloat_def canActivateOrderRow_def)
qed

lemma sample_activation:
  assumes "parsePositive rid = Some j" "r = sampleRow j \<or> r = activatedRow j"
  shows "\<exists>row. executes (serveRoute PatchActivate sampleOHandler (activateRequest rid)) (countedRun r j c n m @
      (if 0 < n \<and> m = n then markedRun else []) @ committedRun j)
    (ActivationResult (if 0 < n \<and> m = n then ''ATTIVO'' else ''INVIATO'') row)"
proof -
  let ?rq = "activateRequest rid"
  obtain row where row: "asRow (OneRow r) = Row row" "ow_SystemODVRow row = Some 1" "canActivateOrderRow row"
    using sample_row[of j] activated_row[of j] assms(2) by blast
  obtain row' where row': "asRow (OneRow (activatedRow j)) = Row row'" using activated_row by blast
  have d: "decodeStruct (setText ''activation_date'') (Obj [(''activation_date'', Str ''2026-03-02'')]) '''' = Some ''2026-03-02''"
    by (simp add: decodeStruct_def setText_def asString_def)
  have p: "ParseDate ''2026-03-02'' \<noteq> None" by code_simp
  have o: "parseRequiredInt (ptrStringValue (od_SystemODV (sampleOrder ''INVIATO''))) = Some 4711"
    using sample_ids(3) by (simp add: sampleOrder_def ptrStringValue_def)
  have g: "requireCustomerRelations ?rq k = k" "parseOrderID ?rq ki = ki 7" "parseRowID ?rq ki = ki j"
    "decodeJSON (setText ''activation_date'') '''' ?rq kp = kp ''2026-03-02''" for k ki kp
    using sample_guards(1)[of "Obj [(''activation_date'', Str ''2026-03-02'')]"] sample_guards(6)[of "Obj [(''activation_date'', Str ''2026-03-02'')]"] assms(1) d
    by (simp_all add: activateRequest_def parseRowID_def parseOrderID_def requireCustomerRelations_def hasCustomerRelations_def HasAnyRole_def
        customerRelationsRoles_def sampleORequest_def decodeJSON_def)
  have "executes (handleActivateRow sampleOHandler ?rq) (countedRun r j c n m @ (if 0 < n \<and> m = n then markedRun else []) @ committedRun j)
    (ActivationResult (if 0 < n \<and> m = n then ''ATTIVO'' else ''INVIATO'') row')"
    unfolding handleActivateRow_def OrderStateInviato_def OrderStateAttivo_def sample_guards(2,3) g
    using p o row row'
    by (simp add: sample_reads sample_guards getOrderRow_def gatewaySetActivationDate_def gatewayPostJSON_def gatewayOutcome_def asReply_def
        accepted_def asAffected_def asCount_def commitActivation_def countedRun_def markedRun_def committedRun_def)
  moreover have "serveRoute PatchActivate sampleOHandler ?rq = handleActivateRow sampleOHandler ?rq"
    by (simp add: serveRoute_def activateRequest_def sampleORequest_def HasAnyRole_def ordiniAccessRoles_def)
  ultimately show ?thesis by auto
qed

lemma sample_columns:
  "od_ID (sampleOrder st) = 7" "od_Stato (sampleOrder st) = Some st"
  "sr_OrderID (sampleRow j) = 7" "sr_ID (sampleRow j) = j" "sr_OrderID (activatedRow j) = 7" "sr_ID (activatedRow j) = j"
  "settled zero (activatedRow j)" "\<not> settled zero (sampleRow j)" "activatedRow j \<noteq> sampleRow j"
  "(sampleRow j)\<lparr>sr_DataAttivazione := Some ''2026-03-02'', sr_Confirm := Some 1\<rparr> = activatedRow j"
  "(activatedRow j)\<lparr>sr_DataAttivazione := Some ''2026-03-02'', sr_Confirm := Some 1\<rparr> = activatedRow j"
  "(sampleOrder st)\<lparr>od_Stato := Some st'\<rparr> = sampleOrder st'"
  by (simp_all add: sampleOrder_def sampleRow_def activatedRow_def settled_def)

lemmas sample_tables = sentTables_def readTables_def perform_def affected_def isDelete_def rowsOf_def sample_columns

text \<open>The transaction after the counts, for rows of which \<open>r\<close> is the one to confirm.\<close>

definition countedTx :: "bool \<Rightarrow> storedRow list \<Rightarrow> int \<Rightarrow> otx" where
  "countedTx rr rows j = (if rr then Some (sentTables rows) else None, [ConfirmRow ''2026-03-02'' j 7])"

lemma serves_counted:
  assumes "(rows, r, j, c, n, m) \<in>
    {([sampleRow 3], sampleRow 3, 3, 1, 1, 1), ([sampleRow 3, sampleRow 4], sampleRow 3, 3, 1, 2, 1),
     ([sampleRow 3, sampleRow 4], sampleRow 4, 4, 1, 2, 1),
     ([activatedRow 3, activatedRow 4], activatedRow 3, 3, if found then 1 else 0, 2, 2)}"
  shows "servesAll rr zero found (sentTables rows) None (countedRun r j c n m) (sentTables rows) (Some (countedTx rr rows j))"
proof -
  let ?db = "sentTables rows" and ?us = "[ConfirmRow ''2026-03-02'' j 7]"
  let ?tx = "Some (None, ?us)" and ?tx' = "Some (countedTx rr rows j)"
  have reads: "serves rr zero found ?db None (SelectOrder 7) (OneOrder (sampleOrder ''INVIATO'')) ?db None"
    "serves rr zero found ?db None (SelectRow 7 j) (OneRow r) ?db None"
    using assms by (auto intro!: serves.read_committed simp: sample_tables)
  have one: "int (affected found (ConfirmRow ''2026-03-02'' j 7) ?db) = c" using assms by (auto simp: sample_tables)
  have tx: "serves rr zero found ?db None Begin Done ?db (Some (None, []))"
    "serves rr zero found ?db (Some (None, [])) (InTx (ConfirmRow ''2026-03-02'' j 7)) (Affected (Some c)) ?db ?tx"
    using serves.begin_tx[of None rr zero found ?db] serves.in_tx[of "Some (None, [])" None "[]" "Some c" found "ConfirmRow ''2026-03-02'' j 7" ?db rr zero]
      one by simp_all
  have post: "serves rr zero found ?db ?tx (PostJSON u p) a ?db ?tx" for u p a by (rule serves.elsewhere) (auto simp: readTables_def)
  have after: "afterRead rr ?db ?tx = ?tx'" "afterRead rr ?db ?tx' = ?tx'"
    by (auto simp: afterRead_def countedTx_def snapshot_def)
  have sees: "readTables zero (seen ?db ?tx) (CountAll 7) = Some (Count n)" "readTables zero (seen ?db ?tx') (CountSettled 7) = Some (Count m)"
    using assms by (auto simp: sample_tables countedTx_def)
  have counts: "serves rr zero found ?db ?tx (CountAll 7) (Count n) ?db ?tx'" "serves rr zero found ?db ?tx' (CountSettled 7) (Count m) ?db ?tx'"
    using serves.read[OF sees(1), of 7 rr found] serves.read[OF sees(2), of 7 rr found] after by simp_all
  show ?thesis unfolding countedRun_def
    by (rule reads[THEN servesAll.more] tx[THEN servesAll.more] post[THEN servesAll.more] counts[THEN servesAll.more] servesAll.nothing)+
qed

lemma serves_marked:
  assumes "affected found (MarkActive 7) (fold perform us db) = 1"
  shows "servesAll rr zero found db (Some (sn, us)) markedRun db (Some (sn, us @ [MarkActive 7]))"
  unfolding markedRun_def
  by (intro servesAll.more[OF serves.in_tx[of _ sn us]] servesAll.nothing) (use assms in simp_all)

lemma serves_committed:
  assumes "db' = fold perform us db" "find (\<lambda>r. sr_ID r = j) (rowsOf 7 db') = Some (activatedRow j)"
  shows "servesAll rr zero found db (Some (sn, us)) (committedRun j) db' None"
proof -
  have "serves rr zero found db (Some (sn, us)) Commit Done db' None"
    using serves.commit[of "Some (sn, us)" "(sn, us)" rr zero found db] assms(1) by simp
  moreover have "serves rr zero found db' None (SelectRow 7 j) (OneRow (activatedRow j)) db' None"
    using assms(2) by (auto intro!: serves.read_committed simp: readTables_def)
  ultimately show ?thesis unfolding committedRun_def by (auto intro!: servesAll.more servesAll.nothing)
qed

text \<open>One request served from an idle task.\<close>

lemma request_runs:
  assumes "ts k = Idle" "executes (serveRoute rt h rq) (tr @ rest) r" "servesAll rr zero found db None tr db' tx"
  shows "\<exists>q. executes q rest r \<and> (system_step rr zero found h)\<^sup>*\<^sup>* (db, ts) (db', ts(k := Running tx q tr))"
proof -
  let ?ts = "ts(k := Running None (serveRoute rt h rq) [])"
  have "system_step rr zero found h (db, ts) (db, ?ts)" using assms(1) by (rule system_step.request)
  moreover obtain q where "executes q rest r" "(system_step rr zero found h)\<^sup>*\<^sup>* (db, ?ts) (db', ?ts(k := Running tx q ([] @ tr)))"
    using run_steps[OF assms(3,2), of ?ts k "[]"] by (metis fun_upd_same)
  ultimately show ?thesis by (auto intro: converse_rtranclp_into_rtranclp)
qed

lemma run_finishes:
  assumes "ts k = Running tx p t" "executes p tr r" "servesAll rr zero found db tx tr db' tx'"
  shows "(system_step rr zero found h)\<^sup>*\<^sup>* (db, ts) (db', ts(k := Finished r))"
proof -
  obtain q where q: "executes q [] r" "(system_step rr zero found h)\<^sup>*\<^sup>* (db, ts) (db', ts(k := Running tx' q (t @ tr)))"
    using run_steps[OF assms(3), of p "[]" r ts k t h] assms(1,2) by auto
  have "system_step rr zero found h (db', ts(k := Running tx' q (t @ tr))) (db', (ts(k := Running tx' q (t @ tr)))(k := Finished r))"
    using executes_Nil[OF q(1)] by (intro system_step.respond) simp
  then show ?thesis using rtranclp.rtrancl_into_rtrancl[OF q(2)] by simp
qed

lemma request_finishes:
  assumes "ts k = Idle" "executes (serveRoute rt h rq) tr r" "servesAll rr zero found db None tr db' tx"
  shows "(system_step rr zero found h)\<^sup>*\<^sup>* (db, ts) (db', ts(k := Finished r))"
proof -
  obtain q where q: "executes q [] r" "(system_step rr zero found h)\<^sup>*\<^sup>* (db, ts) (db', ts(k := Running tx q tr))"
    using request_runs[of ts k rt h rq tr "[]" r rr zero found db db' tx] assms by auto
  have "(system_step rr zero found h)\<^sup>*\<^sup>* (db', ts(k := Running tx q tr)) (db', (ts(k := Running tx q tr))(k := Finished r))"
    using run_finishes[of "ts(k := Running tx q tr)" k tx q tr "[]" r rr zero found db' db' tx h, OF _ q(1) servesAll.nothing] by simp
  then show ?thesis using q(2) by (simp add: rtranclp_trans)
qed

text \<open>The last open row of the sent order, or a row that is confirmed already when no row is open, is confirmed: the order
  becomes active.\<close>

definition activeTables :: "storedRow list \<Rightarrow> tables" where
  "activeTables rows = (sentTables rows)\<lparr>db_orders := [sampleOrder ''ATTIVO'']\<rparr>"

lemma activates:
  assumes "(rows, r, c, n) \<in> {([sampleRow 3], sampleRow 3, 1, 1), ([activatedRow 3, activatedRow 4], activatedRow 3, if found then 1 else 0, 2)}"
    "rows' = (if n = 1 then [activatedRow 3] else rows)"
  shows "servesAll rr zero found (sentTables rows) None (countedRun r 3 c n n @ markedRun @ committedRun 3) (activeTables rows') None"
proof -
  have a: "servesAll rr zero found (sentTables rows) None (countedRun r 3 c n n) (sentTables rows) (Some (countedTx rr rows 3))"
    using assms(1) by (intro serves_counted) auto
  have b: "servesAll rr zero found (sentTables rows) (Some (countedTx rr rows 3)) markedRun (sentTables rows)
      (Some (fst (countedTx rr rows 3), [ConfirmRow ''2026-03-02'' 3 7, MarkActive 7]))"
  proof -
    have "sampleOrder ''ATTIVO'' \<noteq> sampleOrder ''INVIATO''" by (simp add: sampleOrder_def)
    then have "affected found (MarkActive 7) (fold perform [ConfirmRow ''2026-03-02'' 3 7] (sentTables rows)) = 1"
      using assms(1) by (auto simp: sample_tables)
    from serves_marked[OF this, of rr zero "fst (countedTx rr rows 3)"] show ?thesis by (simp add: countedTx_def)
  qed
  have c: "servesAll rr zero found (sentTables rows) (Some (fst (countedTx rr rows 3), [ConfirmRow ''2026-03-02'' 3 7, MarkActive 7])) (committedRun 3)
      (activeTables rows') None"
    by (rule serves_committed) (use assms in \<open>auto simp: activeTables_def sample_tables\<close>)
  show ?thesis by (rule servesAll_append[OF a servesAll_append[OF b c]])
qed

text \<open>C27: Two activations at the same time, each of one of the last two open rows, can both succeed and leave the order
  sent although all its rows are settled: each counted before the other had committed, with and without
  repeatable reads. The order is not lost: the guard allows to activate again a row that is confirmed
  already, and from there such a request makes the order active and answers ATTIVO.\<close>

theorem concurrent_activations_leave_order_sent:
  "\<exists>ts a b. (system_step rr zero found sampleOHandler)\<^sup>*\<^sup>* (sentTables [sampleRow 3, sampleRow 4], \<lambda>_. Idle)
       (sentTables [activatedRow 3, activatedRow 4], ts) \<and>
     ts 0 = Finished (ActivationResult ''INVIATO'' a) \<and> ts 1 = Finished (ActivationResult ''INVIATO'' b) \<and>
     allSettled zero 7 (sentTables [activatedRow 3, activatedRow 4]) \<and>
     (\<exists>ts' c. (system_step rr zero found sampleOHandler)\<^sup>*\<^sup>* (sentTables [activatedRow 3, activatedRow 4], ts)
          (activeTables [activatedRow 3, activatedRow 4], ts') \<and>
        ts' 2 = Finished (ActivationResult ''ATTIVO'' c))"
proof -
  let ?st = "system_step rr zero found sampleOHandler" and ?rows = "[sampleRow 3, sampleRow 4]" and ?db = "sentTables [sampleRow 3, sampleRow 4]"
  let ?db1 = "sentTables [sampleRow 3, activatedRow 4]" and ?db2 = "sentTables [activatedRow 3, activatedRow 4]"
  let ?c = "\<lambda>j. Some (countedTx rr ?rows j)" and ?run = "\<lambda>j. countedRun (sampleRow j) j 1 2 1"
  have ids: "parsePositive ''3'' = Some 3" "parsePositive ''4'' = Some 4" by code_simp+
  obtain a b where e: "executes (serveRoute PatchActivate sampleOHandler (activateRequest ''3'')) (?run 3 @ committedRun 3) (ActivationResult ''INVIATO'' a)"
    "executes (serveRoute PatchActivate sampleOHandler (activateRequest ''4'')) (?run 4 @ committedRun 4) (ActivationResult ''INVIATO'' b)"
    using sample_activation[OF ids(1), of "sampleRow 3" 1 2 1] sample_activation[OF ids(2), of "sampleRow 4" 1 2 1] by auto
  have counted: "servesAll rr zero found ?db None (?run 3) ?db (?c 3)" "servesAll rr zero found ?db None (?run 4) ?db (?c 4)"
    by (rule serves_counted, simp)+
  have commit: "servesAll rr zero found ?db (?c 4) (committedRun 4) ?db1 None" "servesAll rr zero found ?db1 (?c 3) (committedRun 3) ?db2 None"
    unfolding countedTx_def by (rule serves_committed; simp add: sample_tables)+
  obtain p where p: "executes p (committedRun 3) (ActivationResult ''INVIATO'' a)" "?st\<^sup>*\<^sup>* (?db, \<lambda>_. Idle) (?db, (\<lambda>_. Idle)(0 := Running (?c 3) p (?run 3)))"
    using request_runs[OF _ e(1) counted(1), of "\<lambda>_. Idle" 0] by auto
  let ?t1 = "(\<lambda>_. Idle)(0 := Running (?c 3) p (?run 3))"
  obtain q where q: "executes q (committedRun 4) (ActivationResult ''INVIATO'' b)" "?st\<^sup>*\<^sup>* (?db, ?t1) (?db, ?t1(1 := Running (?c 4) q (?run 4)))"
    using request_runs[OF _ e(2) counted(2), of ?t1 1] by auto
  let ?t2 = "?t1(1 := Running (?c 4) q (?run 4))"
  let ?ts = "?t2(1 := Finished (ActivationResult ''INVIATO'' b), 0 := Finished (ActivationResult ''INVIATO'' a))"
  have "?st\<^sup>*\<^sup>* (?db, ?t2) (?db1, ?t2(1 := Finished (ActivationResult ''INVIATO'' b)))"
    by (rule run_finishes[OF _ q(1) commit(1)]) simp
  moreover have "?st\<^sup>*\<^sup>* (?db1, ?t2(1 := Finished (ActivationResult ''INVIATO'' b))) (?db2, ?ts)"
    by (rule run_finishes[OF _ p(1) commit(2)]) simp
  ultimately have "?st\<^sup>*\<^sup>* (?db, \<lambda>_. Idle) (?db2, ?ts)" using p(2) q(2) by (meson rtranclp_trans)
  moreover have "allSettled zero 7 ?db2" by (simp add: allSettled_def sample_tables)
  moreover obtain c where c: "executes (serveRoute PatchActivate sampleOHandler (activateRequest ''3''))
      (countedRun (activatedRow 3) 3 (if found then 1 else 0) 2 2 @ markedRun @ committedRun 3) (ActivationResult ''ATTIVO'' c)"
    using sample_activation[OF ids(1), of "activatedRow 3" "if found then 1 else 0" 2 2] by auto
  then have "?st\<^sup>*\<^sup>* (?db2, ?ts) (activeTables [activatedRow 3, activatedRow 4], ?ts(2 := Finished (ActivationResult ''ATTIVO'' c)))"
    using request_finishes[OF _ c activates, of ?ts 2] by simp
  ultimately show ?thesis
    by (intro exI[of _ ?ts] exI[of _ a] exI[of _ b] conjI exI[of _ "?ts(2 := Finished (ActivationResult ''ATTIVO'' c))"] exI[of _ c]) simp_all
qed

text \<open>The last row of a sent order is activated: the order becomes active.\<close>

theorem active_orders_have_settled_rows_witness:
  "\<exists>ts db. (system_step True (\<lambda>_. False) True sampleOHandler)\<^sup>*\<^sup>* (sentTables [sampleRow 3], \<lambda>_. Idle) (db, ts) \<and>
     db_orders db = [sampleOrder ''ATTIVO''] \<and> activeSettled (\<lambda>_. False) db"
proof -
  let ?st = "system_step True (\<lambda>_. False) True sampleOHandler" and ?db = "sentTables [sampleRow 3]"
  have ids: "parsePositive ''3'' = Some 3" by code_simp
  obtain a where e: "executes (serveRoute PatchActivate sampleOHandler (activateRequest ''3''))
      (countedRun (sampleRow 3) 3 1 1 1 @ markedRun @ committedRun 3) (ActivationResult ''ATTIVO'' a)"
    using sample_activation[OF ids, of "sampleRow 3" 1 1 1] by auto
  have r: "?st\<^sup>*\<^sup>* (?db, \<lambda>_. Idle) (activeTables [activatedRow 3], (\<lambda>_. Idle)(0 := Finished (ActivationResult ''ATTIVO'' a)))"
    by (rule request_finishes[OF _ e activates]) simp_all
  have "activeSettled (\<lambda>_. False) ?db" by (simp add: activeSettled_def sample_tables)
  from active_orders_have_settled_rows[OF r this] r show ?thesis by (fastforce simp: activeTables_def)
qed

end
