(* ===== verification/NotifyPolicy.thy ===== *)
theory NotifyPolicy
  imports GoTime RdaClone "HOL-Library.AList"
begin

text \<open>
  Delivery policies of notifications, \<open>notifications/policy.go\<close>: the default of a type of notification,
  overridden field by field by the sender, says on which channels and when to deliver. A Go map is an
  association list with distinct keys.
\<close>

section \<open>Constants\<close>

definition channelPortal :: string where "channelPortal = ''portal''"
definition channelEmail :: string where "channelEmail = ''email''"

definition deliveryStatusPending :: string where "deliveryStatusPending = ''pending''"
definition deliveryStatusSent :: string where "deliveryStatusSent = ''sent''"
definition deliveryStatusSkipped :: string where "deliveryStatusSkipped = ''skipped''"
definition deliveryStatusFailed :: string where "deliveryStatusFailed = ''failed''"
definition deliveryStatusCancelled :: string where "deliveryStatusCancelled = ''cancelled''"

definition portalCreatedStep :: string where "portalCreatedStep = ''portal_created''"

section \<open>Policies\<close>

record emailPolicyStep =
  es_Step :: string
  es_Delay :: string

record deliveryPolicy =
  dp_PortalEnabled :: bool
  dp_EmailEnabled :: bool
  dp_EmailSteps :: "emailPolicyStep list"

record deliverySpec =
  ds_Channel :: string
  ds_PolicyStep :: string
  ds_Status :: string
  ds_DueAt :: gotime

text \<open>A copy of an object, nested objects included.\<close>

fun copyValue :: "any \<Rightarrow> any" and copyFields :: "fields \<Rightarrow> fields \<Rightarrow> fields" where
  "copyValue (Obj m) = Obj (copyFields m [])"
| "copyValue v = v"
| "copyFields [] out = out"
| "copyFields ((k, v) # m) out = copyFields m (AList.update k (copyValue v) out)"

text \<open>The loop over the override writes into what the loop over the base has copied.\<close>

fun mergeInto :: "fields \<Rightarrow> fields \<Rightarrow> fields" where
  "mergeInto out [] = out"
| "mergeInto out ((k, v) # rest) =
     mergeInto (AList.update k
       (case v of
          Obj n \<Rightarrow> (case map_of out k of Some (Obj b) \<Rightarrow> Obj (mergeInto (copyFields b []) n) | _ \<Rightarrow> v)
        | _ \<Rightarrow> v) out) rest"

definition mergeObjects :: "fields \<Rightarrow> fields \<Rightarrow> fields" where
  "mergeObjects base override = mergeInto (copyFields base []) override"

text \<open>\<open>json.Marshal\<close> fails on a float that is not finite and writes the keys of a map in order.\<close>

fun marshalable :: "any \<Rightarrow> bool" where
  "marshalable (Float x) \<longleftrightarrow> (case x of Fin _ \<Rightarrow> True | _ \<Rightarrow> False)"
| "marshalable (Arr vs) \<longleftrightarrow> list_all marshalable vs"
| "marshalable (Obj m) \<longleftrightarrow> list_all (\<lambda>(k, v). marshalable v) m"
| "marshalable v \<longleftrightarrow> True"

fun sorted_value :: "any \<Rightarrow> any" where
  "sorted_value (Arr vs) = Arr (map sorted_value vs)"
| "sorted_value (Obj m) = Obj (sort_key fst (map (\<lambda>(k, v). (k, sorted_value v)) m))"
| "sorted_value v = v"

definition setStep :: "string \<Rightarrow> any \<Rightarrow> emailPolicyStep \<Rightarrow> emailPolicyStep option" where
  "setStep k v s =
     (if EqualFold k ''step'' then asString (\<lambda>x. s\<lparr>es_Step := x\<rparr>) v s
      else if EqualFold k ''delay'' then asString (\<lambda>x. s\<lparr>es_Delay := x\<rparr>) v s
      else Some s)"

definition emptyStep :: emailPolicyStep where
  "emptyStep = \<lparr>es_Step = '''', es_Delay = ''''\<rparr>"

definition setPortal :: "string \<Rightarrow> any \<Rightarrow> deliveryPolicy \<Rightarrow> deliveryPolicy option" where
  "setPortal k v p = (if EqualFold k ''enabled'' then asBool (\<lambda>b. p\<lparr>dp_PortalEnabled := b\<rparr>) v p else Some p)"

definition setEmail :: "string \<Rightarrow> any \<Rightarrow> deliveryPolicy \<Rightarrow> deliveryPolicy option" where
  "setEmail k v p =
     (if EqualFold k ''enabled'' then asBool (\<lambda>b. p\<lparr>dp_EmailEnabled := b\<rparr>) v p
      else if EqualFold k ''steps'' then asList (\<lambda>x. decodeStruct setStep x emptyStep) (\<lambda>ss. p\<lparr>dp_EmailSteps := ss\<rparr>) v
      else Some p)"

definition setPolicy :: "string \<Rightarrow> any \<Rightarrow> deliveryPolicy \<Rightarrow> deliveryPolicy option" where
  "setPolicy k v p =
     (if EqualFold k ''portal'' then decodeStruct setPortal v p
      else if EqualFold k ''email'' then decodeStruct setEmail v p
      else Some p)"

definition noPolicy :: deliveryPolicy where
  "noPolicy = \<lparr>dp_PortalEnabled = False, dp_EmailEnabled = False, dp_EmailSteps = []\<rparr>"

text \<open>The default policy as stored: empty, or a text with the value it decodes to. JSON null decodes to a nil map.\<close>

definition effectivePolicy :: "any option option \<Rightarrow> fields \<Rightarrow> deliveryPolicy option" where
  "effectivePolicy defaultPolicy override =
     (let base = (case defaultPolicy of
                    None \<Rightarrow> Some []
                  | Some None \<Rightarrow> None
                  | Some (Some (Obj m)) \<Rightarrow> Some m
                  | Some (Some Null) \<Rightarrow> Some []
                  | Some (Some _) \<Rightarrow> None)
      in case base of
           None \<Rightarrow> None
         | Some m \<Rightarrow>
             let merged = Obj (mergeObjects m override)
             in if marshalable merged then decodeStruct setPolicy (sorted_value merged) noPolicy else None)"

section \<open>Durations\<close>

text \<open>\<open>time.ParseDuration\<close>: numbers with units, the fraction in floating point.\<close>

definition durationUnit :: "string \<Rightarrow> nat option" where
  "durationUnit u =
     (if u = ''ns'' then Some 1
      else if u = ''us'' \<or> u = map char_of [194, 181, 115 :: nat] \<or> u = map char_of [206, 188, 115 :: nat] then Some 1000
      else if u = ''ms'' then Some 1000000
      else if u = ''s'' then Some 1000000000
      else if u = ''m'' then Some 60000000000
      else if u = ''h'' then Some 3600000000000
      else None)"

definition digitOf :: "char \<Rightarrow> nat" where "digitOf c = of_char c - 48"

fun leadingInt :: "nat \<Rightarrow> string \<Rightarrow> (nat \<times> string) option" where
  "leadingInt x [] = Some (x, [])"
| "leadingInt x (c # s) =
     (if \<not> is_digit c then Some (x, c # s)
      else if x > 2 ^ 63 div 10 then None
      else let y = x * 10 + digitOf c in if y > 2 ^ 63 then None else leadingInt y s)"

fun leadingFraction :: "nat \<Rightarrow> float64 \<Rightarrow> bool \<Rightarrow> string \<Rightarrow> nat \<times> float64 \<times> string" where
  "leadingFraction x scale overflow [] = (x, scale, [])"
| "leadingFraction x scale overflow (c # s) =
     (if \<not> is_digit c then (x, scale, c # s)
      else if overflow then leadingFraction x scale True s
      else if x > (2 ^ 63 - 1) div 10 then leadingFraction x scale True s
      else let y = x * 10 + digitOf c
           in if y > 2 ^ 63 then leadingFraction x scale True s
              else leadingFraction y (fmul scale 10) False s)"

definition unitChar :: "char \<Rightarrow> bool" where
  "unitChar c \<longleftrightarrow> c \<noteq> CHR ''.'' \<and> \<not> is_digit c"

text \<open>The fraction after a point: its digits, their scale, the rest, whether there was any digit.\<close>

definition fractionPart :: "string \<Rightarrow> nat \<times> float64 \<times> string \<times> bool" where
  "fractionPart s =
     (case s of
        [] \<Rightarrow> (0, 1, s, False)
      | c # r \<Rightarrow>
          if c = CHR ''.'' then (case leadingFraction 0 1 False r of (f, scale, r') \<Rightarrow> (f, scale, r', length r' \<noteq> length r))
          else (0, 1, s, False))"

text \<open>One number with its unit: its nanoseconds and the rest of the text.\<close>

definition durationPart :: "string \<Rightarrow> (nat \<times> string) option" where
  "durationPart s =
     (case leadingInt 0 s of
        None \<Rightarrow> None
      | Some (v, s1) \<Rightarrow>
          (case fractionPart s1 of (f, scale, s2, post) \<Rightarrow>
             let u = takeWhile unitChar s2
             in if length s1 = length s \<and> \<not> post then None
                else if u = [] then None
                else case durationUnit u of
                    None \<Rightarrow> None
                  | Some unit \<Rightarrow>
                      if v > 2 ^ 63 div unit then None
                      else let w = v * unit +
                             (if 0 < f then nat (int_of_float (fmul (float_of_int (int f)) (fdiv (float_of_int (int unit)) scale))) else 0)
                           in if w > 2 ^ 63 then None else Some (w, dropWhile unitChar s2)))"

lemma leadingInt_length: "leadingInt x s = Some (v, r) \<Longrightarrow> length r \<le> length s"
proof (induction x s arbitrary: v rule: leadingInt.induct)
  case (2 x c s)
  then show ?case by (auto simp: Let_def split: if_splits intro: le_SucI)
qed simp

lemma leadingFraction_length: "leadingFraction x sc ov s = (f, scale, r) \<Longrightarrow> length r \<le> length s"
  by (induction x sc ov s rule: leadingFraction.induct) (auto simp: Let_def split: if_splits intro: le_SucI)

lemma dropWhile_shorter: "takeWhile P s \<noteq> [] \<Longrightarrow> length (dropWhile P s) < length s"
  by (cases s) (auto simp: length_dropWhile_le le_imp_less_Suc split: if_splits)

lemma fractionPart_length: "fractionPart s = (f, scale, r, post) \<Longrightarrow> length r \<le> length s"
  using leadingFraction_length by (fastforce simp: fractionPart_def split: list.splits if_splits prod.splits intro: le_SucI)

lemma durationPart_shorter:
  assumes "durationPart s = Some (d, r)"
  shows "length r < length s"
proof -
  obtain v s1 where l: "leadingInt 0 s = Some (v, s1)" using assms by (auto simp: durationPart_def split: option.splits)
  obtain f scale s2 post where f: "fractionPart s1 = (f, scale, s2, post)" by (metis prod_cases4)
  have "takeWhile unitChar s2 \<noteq> [] \<and> r = dropWhile unitChar s2"
    using assms l f unfolding durationPart_def by (simp add: Let_def split: if_splits option.splits)
  then show ?thesis using leadingInt_length[OF l] fractionPart_length[OF f] dropWhile_shorter[of unitChar s2] by simp
qed

text \<open>The loop adds the parts up; a sum above 2 to the 63 is an overflow.\<close>

function durationParts :: "nat \<Rightarrow> string \<Rightarrow> nat option" where
  "durationParts d s =
     (if s = [] then Some d
      else case durationPart s of
        None \<Rightarrow> None
      | Some (v, r) \<Rightarrow> if d + v > 2 ^ 63 then None else durationParts (d + v) r)"
  by auto
termination by (relation "measure (length \<circ> snd)") (auto intro: durationPart_shorter)

declare durationParts.simps [simp del]

definition ParseDuration :: "string \<Rightarrow> int option" where
  "ParseDuration s =
     (let (neg, u) = (case s of [] \<Rightarrow> (False, s)
                      | c # r \<Rightarrow> if c = CHR ''-'' then (True, r) else if c = CHR ''+'' then (False, r) else (False, s))
      in if u = ''0'' then Some 0
         else if u = '''' then None
         else case durationParts 0 u of
             None \<Rightarrow> None
           | Some d \<Rightarrow> if neg then Some (- int d) else if d > 2 ^ 63 - 1 then None else Some (int d))"

section \<open>Deliveries of a policy\<close>

text \<open>The loop over the steps of the e-mail policy, and the deliveries that a policy asks for at a time.\<close>

fun emailSpecs :: "gotime \<Rightarrow> emailPolicyStep list \<Rightarrow> deliverySpec list option" where
  "emailSpecs now [] = Some []"
| "emailSpecs now (step # rest) =
     (if es_Step step = '''' then None
      else case ParseDuration (es_Delay step) of
        None \<Rightarrow> None
      | Some delay \<Rightarrow>
          map_option (\<lambda>specs. \<lparr>ds_Channel = channelEmail, ds_PolicyStep = es_Step step, ds_Status = deliveryStatusPending,
            ds_DueAt = now + delay\<rparr> # specs) (emailSpecs now rest))"

definition deliverySpecsForPolicy :: "deliveryPolicy \<Rightarrow> gotime \<Rightarrow> deliverySpec list option" where
  "deliverySpecsForPolicy policy now =
     (let portal = (if dp_PortalEnabled policy
                    then [\<lparr>ds_Channel = channelPortal, ds_PolicyStep = portalCreatedStep, ds_Status = deliveryStatusSent, ds_DueAt = now\<rparr>]
                    else [])
      in if \<not> dp_EmailEnabled policy then Some portal
         else map_option (\<lambda>specs. portal @ specs) (emailSpecs now (dp_EmailSteps policy)))"

end
