(* ===== verification/NotifyStore.thy ===== *)
theory NotifyStore
  imports NotifyPolicy "HOL-Library.Product_Lexorder"
begin

text \<open>
  The tables of the notifications and the operations of \<open>notifications/store.go\<close> on them. Each operation is
  one transaction: it takes effect as a whole or, with an error, not at all. Times are \<open>now\<close> of the
  database or of the caller; the serial ids are drawn from a sequence per table. Columns that no operation
  reads (the creation time of a delivery) are left out.
\<close>

section \<open>Tables\<close>

record notificationType =
  nt_TypeKey :: string
  nt_AppID :: string
  nt_TitleTemplate :: string
  nt_BodyTemplate :: string
  nt_Severity :: string
  nt_DefaultPolicy :: "any option option"
  nt_Enabled :: bool

record addressee =
  ad_Subject :: string
  ad_Email :: string
  ad_Name :: string

record createInput =
  ci_TypeKey :: string
  ci_AppID :: string
  ci_Severity :: string
  ci_Title :: string
  ci_Body :: string
  ci_EntityType :: string
  ci_EntityID :: string
  ci_DedupeKey :: string
  ci_DeepLink :: string
  ci_Metadata :: fields
  ci_PolicyOverride :: fields
  ci_CreatedBySubject :: string
  ci_CreatedByEmail :: string
  ci_Recipients :: "addressee list"
  ci_Deliveries :: "deliverySpec list"

record notificationRow =
  nr_ID :: int
  nr_TypeKey :: string
  nr_AppID :: string
  nr_Severity :: string
  nr_Title :: string
  nr_Body :: string
  nr_EntityType :: string
  nr_EntityID :: string
  nr_DedupeKey :: string
  nr_DeepLink :: string
  nr_Metadata :: fields
  nr_PolicyOverride :: fields
  nr_CreatedBySubject :: string
  nr_CreatedByEmail :: string
  nr_CreatedAt :: gotime

record recipientRow =
  rr_ID :: int
  rr_NotificationID :: int
  rr_Subject :: string
  rr_Email :: string
  rr_Name :: string
  rr_ReadAt :: "gotime option"
  rr_ArchivedAt :: "gotime option"
  rr_ResolvedAt :: "gotime option"
  rr_CreatedAt :: gotime

record deliveryRow =
  dl_ID :: int
  dl_RecipientID :: int
  dl_Channel :: string
  dl_PolicyStep :: string
  dl_Status :: string
  dl_DueAt :: gotime
  dl_LockedAt :: "gotime option"
  dl_LockedBy :: string
  dl_AttemptCount :: int
  dl_SentAt :: "gotime option"
  dl_SkippedAt :: "gotime option"
  dl_FailedAt :: "gotime option"
  dl_LastError :: string

record attemptRow =
  at_DeliveryID :: int
  at_Status :: string
  at_Error :: string
  at_AttemptedAt :: gotime

record notifyTables =
  tb_Types :: "notificationType list"
  tb_Notifications :: "notificationRow list"
  tb_Recipients :: "recipientRow list"
  tb_Deliveries :: "deliveryRow list"
  tb_Attempts :: "attemptRow list"
  tb_NextNotification :: int
  tb_NextRecipient :: int
  tb_NextDelivery :: int

definition inactive :: "recipientRow \<Rightarrow> bool" where
  "inactive r \<longleftrightarrow> rr_ReadAt r \<noteq> None \<or> rr_ArchivedAt r \<noteq> None \<or> rr_ResolvedAt r \<noteq> None"

definition sameEmail :: "string \<Rightarrow> string \<Rightarrow> bool" where
  "sameEmail a b \<longleftrightarrow> ToLower a = ToLower b"

section \<open>Creating a notification\<close>

definition GetType :: "string \<Rightarrow> notifyTables \<Rightarrow> notificationType option" where
  "GetType key db = find (\<lambda>t. nt_TypeKey t = key) (tb_Types db)"

text \<open>Insert, or find the notification with the same key: its id and whether it is new.\<close>

definition upsertNotification :: "gotime \<Rightarrow> createInput \<Rightarrow> notifyTables \<Rightarrow> (int \<times> bool) \<times> notifyTables" where
  "upsertNotification now i db =
     (let db' = db\<lparr>tb_NextNotification := tb_NextNotification db + 1\<rparr>
      in case find (\<lambda>n. nr_DedupeKey n = ci_DedupeKey i) (tb_Notifications db) of
           Some n \<Rightarrow> ((nr_ID n, False), db')
         | None \<Rightarrow>
             ((tb_NextNotification db, True),
              db'\<lparr>tb_Notifications := tb_Notifications db @
                [\<lparr>nr_ID = tb_NextNotification db, nr_TypeKey = ci_TypeKey i, nr_AppID = ci_AppID i, nr_Severity = ci_Severity i,
                  nr_Title = ci_Title i, nr_Body = ci_Body i, nr_EntityType = ci_EntityType i, nr_EntityID = ci_EntityID i,
                  nr_DedupeKey = ci_DedupeKey i, nr_DeepLink = ci_DeepLink i, nr_Metadata = ci_Metadata i,
                  nr_PolicyOverride = ci_PolicyOverride i, nr_CreatedBySubject = ci_CreatedBySubject i,
                  nr_CreatedByEmail = ci_CreatedByEmail i, nr_CreatedAt = now\<rparr>]\<rparr>))"

definition updateRecipient :: "int \<Rightarrow> (recipientRow \<Rightarrow> recipientRow) \<Rightarrow> notifyTables \<Rightarrow> notifyTables" where
  "updateRecipient rid f db = db\<lparr>tb_Recipients := map (\<lambda>r. if rr_ID r = rid then f r else r) (tb_Recipients db)\<rparr>"

text \<open>A recipient that was resolved becomes active again.\<close>

definition refreshed :: "addressee \<Rightarrow> bool \<Rightarrow> recipientRow \<Rightarrow> recipientRow" where
  "refreshed a reactivated r =
     r\<lparr>rr_Subject := (if ad_Subject a \<noteq> '''' then ad_Subject a else rr_Subject r),
       rr_Name := (if ad_Name a \<noteq> '''' then ad_Name a else rr_Name r),
       rr_ReadAt := (if reactivated then None else rr_ReadAt r),
       rr_ArchivedAt := (if reactivated then None else rr_ArchivedAt r),
       rr_ResolvedAt := (if reactivated then None else rr_ResolvedAt r)\<rparr>"

text \<open>The id of the recipient and whether it was reactivated.\<close>

definition upsertRecipient :: "gotime \<Rightarrow> int \<Rightarrow> addressee \<Rightarrow> notifyTables \<Rightarrow> (int \<times> bool) \<times> notifyTables" where
  "upsertRecipient now nid a db =
     (case find (\<lambda>r. rr_NotificationID r = nid \<and> sameEmail (rr_Email r) (ad_Email a)) (tb_Recipients db) of
        Some r \<Rightarrow>
          let reactivated = (rr_ResolvedAt r \<noteq> None)
          in ((rr_ID r, reactivated), updateRecipient (rr_ID r) (refreshed a reactivated) db)
      | None \<Rightarrow>
          let rid = tb_NextRecipient db
          in ((rid, False), updateRecipient rid (refreshed a False)
               (db\<lparr>tb_NextRecipient := rid + 1,
                  tb_Recipients := tb_Recipients db @
                    [\<lparr>rr_ID = rid, rr_NotificationID = nid, rr_Subject = ad_Subject a, rr_Email = ad_Email a, rr_Name = ad_Name a,
                      rr_ReadAt = None, rr_ArchivedAt = None, rr_ResolvedAt = None, rr_CreatedAt = now\<rparr>]\<rparr>)))"

fun upsertRecipients :: "gotime \<Rightarrow> int \<Rightarrow> addressee list \<Rightarrow> notifyTables \<Rightarrow> (int \<times> bool) list \<times> notifyTables" where
  "upsertRecipients now nid [] db = ([], db)"
| "upsertRecipients now nid (a # as) db =
     (case upsertRecipient now nid a db of (x, db1) \<Rightarrow>
      case upsertRecipients now nid as db1 of (xs, db2) \<Rightarrow> (x # xs, db2))"

definition finished :: "string \<Rightarrow> bool" where
  "finished st \<longleftrightarrow> st \<in> {deliveryStatusSent, deliveryStatusSkipped, deliveryStatusFailed, deliveryStatusCancelled}"

definition isFor :: "int \<Rightarrow> deliverySpec \<Rightarrow> deliveryRow \<Rightarrow> bool" where
  "isFor rid s d \<longleftrightarrow> dl_RecipientID d = rid \<and> dl_Channel d = ds_Channel s \<and> dl_PolicyStep d = ds_PolicyStep s"

definition specSentAt :: "deliverySpec \<Rightarrow> gotime option" where
  "specSentAt s = (if ds_Status s = deliveryStatusSent then Some (ds_DueAt s) else None)"

text \<open>Insert a delivery; one that is already there starts again when its recipient was reactivated and it is
  finished.\<close>

definition restarted :: "bool \<Rightarrow> deliverySpec \<Rightarrow> deliveryRow \<Rightarrow> deliveryRow" where
  "restarted reactivated s d =
     (if reactivated \<and> finished (dl_Status d)
      then d\<lparr>dl_Status := ds_Status s, dl_DueAt := ds_DueAt s, dl_AttemptCount := 0, dl_LockedAt := None, dl_LockedBy := '''',
             dl_SentAt := specSentAt s, dl_SkippedAt := None, dl_FailedAt := None, dl_LastError := ''''\<rparr>
      else d)"

definition upsertDelivery :: "int \<times> bool \<Rightarrow> deliverySpec \<Rightarrow> notifyTables \<Rightarrow> notifyTables" where
  "upsertDelivery x s db =
     (case x of (rid, reactivated) \<Rightarrow>
      let db' = db\<lparr>tb_NextDelivery := tb_NextDelivery db + 1\<rparr>
      in if list_ex (isFor rid s) (tb_Deliveries db)
         then db'\<lparr>tb_Deliveries := map (\<lambda>d. if isFor rid s d then restarted reactivated s d else d) (tb_Deliveries db)\<rparr>
         else db'\<lparr>tb_Deliveries := tb_Deliveries db @
                [\<lparr>dl_ID = tb_NextDelivery db, dl_RecipientID = rid, dl_Channel = ds_Channel s, dl_PolicyStep = ds_PolicyStep s,
                  dl_Status = ds_Status s, dl_DueAt = ds_DueAt s, dl_LockedAt = None, dl_LockedBy = '''', dl_AttemptCount = 0,
                  dl_SentAt = specSentAt s, dl_SkippedAt = None, dl_FailedAt = None, dl_LastError = ''''\<rparr>]\<rparr>)"

text \<open>What the constraints of the tables ask of new rows.\<close>

definition constraintsMet :: "createInput \<Rightarrow> bool" where
  "constraintsMet i \<longleftrightarrow>
     ci_Severity i \<in> {''info'', ''success'', ''warning'', ''critical''} \<and>
     list_all (\<lambda>a. dropWhile (\<lambda>c. c = CHR '' '') (ad_Email a) \<noteq> '''') (ci_Recipients i) \<and>
     list_all (\<lambda>s. ds_Channel s \<in> {channelPortal, channelEmail} \<and>
                   ds_Status s \<in> {''pending'', ''locked'', ''sent'', ''skipped'', ''failed'', ''cancelled''} \<and>
                   dropWhile (\<lambda>c. c = CHR '' '') (ds_PolicyStep s) \<noteq> '''') (ci_Deliveries i)"

record notifyResult =
  ns_NotificationID :: int
  ns_RecipientCount :: nat
  ns_Created :: bool

definition upsertDeliveries :: "(int \<times> bool) list \<Rightarrow> deliverySpec list \<Rightarrow> notifyTables \<Rightarrow> notifyTables" where
  "upsertDeliveries xs specs db = fold (\<lambda>x. fold (upsertDelivery x) specs) xs db"

definition CreateNotification :: "gotime \<Rightarrow> createInput \<Rightarrow> notifyTables \<Rightarrow> (notifyResult \<times> notifyTables) option" where
  "CreateNotification now i db =
     (if \<not> constraintsMet i then None
      else case upsertNotification now i db of ((nid, created), db1) \<Rightarrow>
           case upsertRecipients now nid (ci_Recipients i) db1 of (xs, db2) \<Rightarrow>
             Some (\<lparr>ns_NotificationID = nid, ns_RecipientCount = length xs, ns_Created = created\<rparr>,
                   upsertDeliveries xs (ci_Deliveries i) db2))"

section \<open>Reading\<close>

definition notificationOf :: "notifyTables \<Rightarrow> recipientRow \<Rightarrow> notificationRow option" where
  "notificationOf db r = find (\<lambda>n. nr_ID n = rr_NotificationID r) (tb_Notifications db)"

text \<open>The rows of a user joined with their notifications.\<close>

definition joined :: "notifyTables \<Rightarrow> (recipientRow \<times> notificationRow) list" where
  "joined db = List.map_filter (\<lambda>r. map_option (\<lambda>n. (r, n)) (notificationOf db r)) (tb_Recipients db)"

record notifySummary =
  sm_TotalUnread :: int
  sm_UnreadByApp :: "(string \<times> int) list"

definition Summary :: "string \<Rightarrow> notifyTables \<Rightarrow> notifySummary" where
  "Summary email db =
     (let apps = map (\<lambda>(r, n). nr_AppID n) (filter (\<lambda>(r, n). sameEmail (rr_Email r) email \<and> \<not> inactive r) (joined db));
          byApp = map (\<lambda>app. (app, int (length (filter (\<lambda>a. a = app) apps)))) (remdups apps)
      in \<lparr>sm_TotalUnread = sum_list (map snd byApp), sm_UnreadByApp = byApp\<rparr>)"

record listInput =
  li_Email :: string
  li_Unread :: bool
  li_AppID :: string
  li_Limit :: int
  li_CursorCreatedAt :: gotime
  li_CursorID :: int

record listResult =
  lr_Items :: "(recipientRow \<times> notificationRow) list"
  lr_NextCreatedAt :: gotime
  lr_NextID :: int
  lr_HasNext :: bool

text \<open>The zero time of Go: the first day of the year 1.\<close>

definition zeroInstant :: gotime where "zeroInstant = - 62135596800000000000"

definition listed :: "listInput \<Rightarrow> recipientRow \<times> notificationRow \<Rightarrow> bool" where
  "listed q x \<longleftrightarrow>
     (case x of (r, n) \<Rightarrow>
        sameEmail (rr_Email r) (li_Email q) \<and> rr_ArchivedAt r = None \<and> rr_ResolvedAt r = None \<and>
        (if li_Unread q then rr_ReadAt r = None else True) \<and>
        (if li_AppID q \<noteq> '''' then nr_AppID n = li_AppID q else True))"

definition afterCursor :: "listInput \<Rightarrow> recipientRow \<times> notificationRow \<Rightarrow> bool" where
  "afterCursor q x \<longleftrightarrow>
     (if li_CursorCreatedAt q \<noteq> zeroInstant \<and> 0 < li_CursorID q
      then rr_CreatedAt (fst x) < li_CursorCreatedAt q \<or>
        (rr_CreatedAt (fst x) = li_CursorCreatedAt q \<and> rr_ID (fst x) < li_CursorID q)
      else True)"

text \<open>The newest first.\<close>

definition newest :: "recipientRow \<times> notificationRow \<Rightarrow> int \<times> int" where
  "newest x = (- rr_CreatedAt (fst x), - rr_ID (fst x))"

definition List :: "listInput \<Rightarrow> notifyTables \<Rightarrow> listResult" where
  "List q db =
     (let limit = (if li_Limit q \<le> 0 then 30 else nat (li_Limit q));
          items = take (limit + 1) (sort_key newest (filter (afterCursor q) (filter (listed q) (joined db))))
      in if limit < length items
         then let next = fst (items ! (limit - 1))
              in \<lparr>lr_Items = take limit items, lr_NextCreatedAt = rr_CreatedAt next, lr_NextID = rr_ID next, lr_HasNext = True\<rparr>
         else \<lparr>lr_Items = items, lr_NextCreatedAt = zeroInstant, lr_NextID = 0, lr_HasNext = False\<rparr>)"

section \<open>Read, archived, resolved\<close>

definition setNow :: "gotime \<Rightarrow> gotime option \<Rightarrow> gotime option" where
  "setNow now t = (case t of None \<Rightarrow> Some now | Some x \<Rightarrow> Some x)"

definition open_delivery :: "deliveryRow \<Rightarrow> bool" where
  "open_delivery d \<longleftrightarrow> dl_Status d = ''pending'' \<or> dl_Status d = ''locked''"

text \<open>The deliveries that meet a condition and are not finished are cancelled, each with an attempt that says why.\<close>

definition cancelWhere :: "gotime \<Rightarrow> (deliveryRow \<Rightarrow> bool) \<Rightarrow> string \<Rightarrow> notifyTables \<Rightarrow> notifyTables" where
  "cancelWhere now P reason db =
     db\<lparr>tb_Deliveries := map (\<lambda>d. if P d \<and> open_delivery d
            then d\<lparr>dl_Status := ''cancelled'', dl_LockedAt := None, dl_LockedBy := '''', dl_LastError := reason\<rparr> else d) (tb_Deliveries db),
        tb_Attempts := tb_Attempts db @ map (\<lambda>d. \<lparr>at_DeliveryID = dl_ID d, at_Status = ''cancelled'', at_Error = reason, at_AttemptedAt = now\<rparr>)
            (filter (\<lambda>d. P d \<and> open_delivery d) (tb_Deliveries db))\<rparr>"

definition cancelPendingDeliveriesForRecipients :: "gotime \<Rightarrow> int list \<Rightarrow> string \<Rightarrow> notifyTables \<Rightarrow> notifyTables" where
  "cancelPendingDeliveriesForRecipients now rids reason db =
     (if rids = [] then db else cancelWhere now (\<lambda>d. dl_RecipientID d \<in> set rids) reason db)"

text \<open>An update of the rows that meet a condition, and their ids.\<close>

definition updateRecipients :: "(recipientRow \<Rightarrow> bool) \<Rightarrow> (recipientRow \<Rightarrow> recipientRow) \<Rightarrow> notifyTables \<Rightarrow> int list \<times> notifyTables" where
  "updateRecipients P f db =
     (map rr_ID (filter P (tb_Recipients db)), db\<lparr>tb_Recipients := map (\<lambda>r. if P r then f r else r) (tb_Recipients db)\<rparr>)"

definition updateRecipientTimestamp :: "gotime \<Rightarrow> (recipientRow \<Rightarrow> bool) \<Rightarrow> (recipientRow \<Rightarrow> recipientRow) \<Rightarrow> notifyTables \<Rightarrow> bool \<times> notifyTables" where
  "updateRecipientTimestamp now P f db =
     (case updateRecipients P f db of (ids, db') \<Rightarrow>
        (ids \<noteq> [], cancelPendingDeliveriesForRecipients now ids ''recipient_inactive'' db'))"

definition MarkRead :: "gotime \<Rightarrow> string \<Rightarrow> int \<Rightarrow> notifyTables \<Rightarrow> bool \<times> notifyTables" where
  "MarkRead now email rid =
     updateRecipientTimestamp now
       (\<lambda>r. rr_ID r = rid \<and> sameEmail (rr_Email r) email \<and> rr_ArchivedAt r = None \<and> rr_ResolvedAt r = None)
       (\<lambda>r. r\<lparr>rr_ReadAt := setNow now (rr_ReadAt r)\<rparr>)"

definition Archive :: "gotime \<Rightarrow> string \<Rightarrow> int \<Rightarrow> notifyTables \<Rightarrow> bool \<times> notifyTables" where
  "Archive now email rid =
     updateRecipientTimestamp now
       (\<lambda>r. rr_ID r = rid \<and> sameEmail (rr_Email r) email \<and> rr_ResolvedAt r = None)
       (\<lambda>r. r\<lparr>rr_ArchivedAt := setNow now (rr_ArchivedAt r)\<rparr>)"

definition MarkAllRead :: "gotime \<Rightarrow> string \<Rightarrow> notifyTables \<Rightarrow> nat \<times> notifyTables" where
  "MarkAllRead now email db =
     (case updateRecipients (\<lambda>r. sameEmail (rr_Email r) email \<and> rr_ReadAt r = None \<and> rr_ArchivedAt r = None \<and> rr_ResolvedAt r = None)
         (\<lambda>r. r\<lparr>rr_ReadAt := setNow now (rr_ReadAt r)\<rparr>) db of (ids, db') \<Rightarrow>
        (length ids, cancelPendingDeliveriesForRecipients now ids ''recipient_read'' db'))"

record resolveInput =
  ri_TypeKey :: string
  ri_EntityType :: string
  ri_EntityID :: string
  ri_DedupeKey :: string

definition resolveScope :: "resolveInput \<Rightarrow> bool" where
  "resolveScope i \<longleftrightarrow> ri_DedupeKey i \<noteq> '''' \<or> ri_TypeKey i \<noteq> '''' \<or> ri_EntityType i \<noteq> '''' \<or> ri_EntityID i \<noteq> ''''"

definition inScope :: "resolveInput \<Rightarrow> notificationRow \<Rightarrow> bool" where
  "inScope i n \<longleftrightarrow>
     (if ri_DedupeKey i \<noteq> '''' then nr_DedupeKey n = ri_DedupeKey i else True) \<and>
     (if ri_TypeKey i \<noteq> '''' then nr_TypeKey n = ri_TypeKey i else True) \<and>
     (if ri_EntityType i \<noteq> '''' then nr_EntityType n = ri_EntityType i else True) \<and>
     (if ri_EntityID i \<noteq> '''' then nr_EntityID n = ri_EntityID i else True)"

definition recipientInScope :: "resolveInput \<Rightarrow> notifyTables \<Rightarrow> recipientRow \<Rightarrow> bool" where
  "recipientInScope i db r \<longleftrightarrow> list_ex (\<lambda>n. nr_ID n = rr_NotificationID r \<and> inScope i n) (tb_Notifications db)"

definition deliveryInScope :: "resolveInput \<Rightarrow> notifyTables \<Rightarrow> deliveryRow \<Rightarrow> bool" where
  "deliveryInScope i db d \<longleftrightarrow> list_ex (\<lambda>r. rr_ID r = dl_RecipientID d \<and> recipientInScope i db r) (tb_Recipients db)"

definition ResolveNotifications :: "gotime \<Rightarrow> resolveInput \<Rightarrow> notifyTables \<Rightarrow> (nat \<times> notifyTables) option" where
  "ResolveNotifications now i db =
     (if \<not> resolveScope i then None
      else case updateRecipients (\<lambda>r. rr_ResolvedAt r = None \<and> recipientInScope i db r)
             (\<lambda>r. r\<lparr>rr_ResolvedAt := setNow now (rr_ResolvedAt r)\<rparr>) db of (ids, db') \<Rightarrow>
           Some (length ids, cancelWhere now (deliveryInScope i db') ''notification_resolved'' db'))"

section \<open>Claiming and completing deliveries\<close>

record claimedDelivery =
  cd_ID :: int
  cd_AttemptCount :: int
  cd_Channel :: string
  cd_Recipient :: recipientRow
  cd_Notification :: notificationRow

definition recipientOf :: "notifyTables \<Rightarrow> deliveryRow \<Rightarrow> recipientRow option" where
  "recipientOf db d = find (\<lambda>r. rr_ID r = dl_RecipientID d) (tb_Recipients db)"

definition due :: "gotime \<Rightarrow> notifyTables \<Rightarrow> deliveryRow \<Rightarrow> bool" where
  "due now db d \<longleftrightarrow>
     dl_Status d = deliveryStatusPending \<and> dl_DueAt d \<le> now \<and>
     (case recipientOf db d of None \<Rightarrow> False | Some r \<Rightarrow> \<not> inactive r)"

definition dueOrder :: "deliveryRow \<Rightarrow> int \<times> int" where
  "dueOrder d = (dl_DueAt d, dl_ID d)"

definition locked :: "gotime \<Rightarrow> string \<Rightarrow> deliveryRow \<Rightarrow> deliveryRow" where
  "locked now worker d =
     d\<lparr>dl_Status := ''locked'', dl_LockedAt := Some now, dl_LockedBy := worker, dl_AttemptCount := dl_AttemptCount d + 1\<rparr>"

definition claimedOf :: "notifyTables \<Rightarrow> deliveryRow \<Rightarrow> claimedDelivery option" where
  "claimedOf db d =
     Option.bind (recipientOf db d) (\<lambda>r. map_option (\<lambda>n. \<lparr>cd_ID = dl_ID d, cd_AttemptCount = dl_AttemptCount d,
        cd_Channel = dl_Channel d, cd_Recipient = r, cd_Notification = n\<rparr>) (notificationOf db r))"

text \<open>A row that another transaction has locked is skipped; which ones are is a parameter.\<close>

definition ClaimDueDeliveries :: "(int \<Rightarrow> bool) \<Rightarrow> gotime \<Rightarrow> string \<Rightarrow> int \<Rightarrow> notifyTables \<Rightarrow> claimedDelivery list \<times> notifyTables" where
  "ClaimDueDeliveries busy now worker maxRows db =
     (let limit = (if maxRows \<le> 0 then 10 else nat maxRows);
          ids = map dl_ID (take limit (sort_key dueOrder (filter (\<lambda>d. due now db d \<and> \<not> busy (dl_ID d)) (tb_Deliveries db))));
          db' = db\<lparr>tb_Deliveries := map (\<lambda>d. if dl_ID d \<in> set ids then locked now worker d else d) (tb_Deliveries db)\<rparr>
      in (List.map_filter (claimedOf db') (sort_key dueOrder (filter (\<lambda>d. dl_ID d \<in> set ids) (tb_Deliveries db'))), db'))"

record deliveryCompletion =
  dc_DeliveryID :: int
  dc_Status :: string
  dc_Error :: string
  dc_RetryAt :: "gotime option"

definition completed :: "gotime \<Rightarrow> string \<Rightarrow> deliveryCompletion \<Rightarrow> deliveryRow \<Rightarrow> deliveryRow" where
  "completed now status c d =
     (case dc_RetryAt c of
        Some retryAt \<Rightarrow> d\<lparr>dl_Status := ''pending'', dl_DueAt := retryAt, dl_LockedAt := None, dl_LockedBy := '''', dl_LastError := dc_Error c\<rparr>
      | None \<Rightarrow>
          d\<lparr>dl_Status := status, dl_LockedAt := None, dl_LockedBy := '''',
            dl_SentAt := (if status = ''sent'' then Some now else dl_SentAt d),
            dl_SkippedAt := (if status = ''skipped'' then Some now else dl_SkippedAt d),
            dl_FailedAt := (if status = ''failed'' then Some now else dl_FailedAt d),
            dl_LastError := dc_Error c\<rparr>)"

definition CompleteDelivery :: "gotime \<Rightarrow> deliveryCompletion \<Rightarrow> notifyTables \<Rightarrow> notifyTables option" where
  "CompleteDelivery now c db =
     (let status = TrimSpace (dc_Status c);
          attemptStatus = (if dc_RetryAt c \<noteq> None then deliveryStatusFailed else status)
      in if status = '''' then None
         else case find (\<lambda>d. dl_ID d = dc_DeliveryID c) (tb_Deliveries db) of
           None \<Rightarrow> Some db
         | Some d \<Rightarrow>
             if dl_Status d \<noteq> ''locked'' then Some db
             else if \<not> finished attemptStatus then None
             else Some (db\<lparr>tb_Attempts := tb_Attempts db @
                     [\<lparr>at_DeliveryID = dc_DeliveryID c, at_Status = attemptStatus, at_Error = dc_Error c, at_AttemptedAt = now\<rparr>],
                   tb_Deliveries := map (\<lambda>d. if dl_ID d = dc_DeliveryID c \<and> dl_Status d = ''locked'' then completed now status c d else d)
                     (tb_Deliveries db)\<rparr>))"

end
