(* ===== verification/NotifyService.thy ===== *)
theory NotifyService
  imports NotifyStore
begin

text \<open>
  Sending a notification (\<open>service.go\<close>), the worker that delivers by e-mail (\<open>worker.go\<close>, \<open>email.go\<close>) and the
  handlers of the notification centre (\<open>handler.go\<close>). The parsing of an address (\<open>net/mail\<close>) and of a link
  (\<open>net/url\<close>) are parameters.
\<close>

section \<open>Sending a notification\<close>

record notifyInput =
  ni_TypeKey :: string
  ni_Title :: string
  ni_Body :: string
  ni_Severity :: string
  ni_EntityType :: string
  ni_EntityID :: string
  ni_DedupeKey :: string
  ni_DeepLink :: string
  ni_Metadata :: fields
  ni_PolicyOverride :: fields
  ni_Recipients :: "addressee list"
  ni_CreatedBySubject :: string
  ni_CreatedByEmail :: string

type_synonym addressParser = "string \<Rightarrow> string option"

definition normalizeEmail :: "addressParser \<Rightarrow> string \<Rightarrow> string" where
  "normalizeEmail parse value =
     (let v = TrimSpace value
      in if v = '''' then ''''
         else case parse v of
             None \<Rightarrow> ''''
           | Some a \<Rightarrow> if CHR ''@'' \<notin> set a then '''' else ToLower a)"

fun normalizeLoop :: "addressParser \<Rightarrow> string list \<Rightarrow> addressee list \<Rightarrow> addressee list" where
  "normalizeLoop parse seen [] = []"
| "normalizeLoop parse seen (a # as) =
     (let email = normalizeEmail parse (ad_Email a)
      in if email = '''' \<or> email \<in> set seen then normalizeLoop parse seen as
         else \<lparr>ad_Subject = TrimSpace (ad_Subject a), ad_Email = email, ad_Name = TrimSpace (ad_Name a)\<rparr> # normalizeLoop parse (email # seen) as)"

definition normalizeRecipients :: "addressParser \<Rightarrow> addressee list \<Rightarrow> addressee list" where
  "normalizeRecipients parse as = normalizeLoop parse [] as"

definition marshalJSONObject :: "fields \<Rightarrow> fields option" where
  "marshalJSONObject m = (if marshalable (Obj m) then Some m else None)"

datatype notifyError =
    TypeKeyRequired | DedupeKeyRequired | TypeUnknown | TypeDisabled | RecipientRequired | PolicyInvalid
  | MetadataInvalid | StoreFailed

definition orElse :: "string \<Rightarrow> string \<Rightarrow> string" where
  "orElse s d = (let t = TrimSpace s in if t = '''' then d else t)"

text \<open>What \<open>Notify\<close> asks the store to create.\<close>

definition notifyRequest :: "addressParser \<Rightarrow> gotime \<Rightarrow> notifyInput \<Rightarrow> notifyTables \<Rightarrow> notifyError + createInput" where
  "notifyRequest parse now i db =
     (let typeKey = TrimSpace (ni_TypeKey i); dedupe = TrimSpace (ni_DedupeKey i)
      in if typeKey = '''' then Inl TypeKeyRequired
         else if dedupe = '''' then Inl DedupeKeyRequired
         else case GetType typeKey db of
           None \<Rightarrow> Inl TypeUnknown
         | Some ty \<Rightarrow>
             if \<not> nt_Enabled ty then Inl TypeDisabled
             else let recipients = normalizeRecipients parse (ni_Recipients i)
               in if recipients = [] then Inl RecipientRequired
                  else case Option.bind (effectivePolicy (nt_DefaultPolicy ty) (ni_PolicyOverride i)) (\<lambda>p. deliverySpecsForPolicy p now) of
                    None \<Rightarrow> Inl PolicyInvalid
                  | Some deliveries \<Rightarrow>
                      (case (marshalJSONObject (ni_Metadata i), marshalJSONObject (ni_PolicyOverride i)) of
                         (Some metadata, Some override) \<Rightarrow>
                           Inr \<lparr>ci_TypeKey = nt_TypeKey ty, ci_AppID = nt_AppID ty, ci_Severity = orElse (ni_Severity i) (nt_Severity ty),
                             ci_Title = orElse (ni_Title i) (nt_TitleTemplate ty), ci_Body = orElse (ni_Body i) (nt_BodyTemplate ty),
                             ci_EntityType = TrimSpace (ni_EntityType i), ci_EntityID = TrimSpace (ni_EntityID i), ci_DedupeKey = dedupe,
                             ci_DeepLink = TrimSpace (ni_DeepLink i), ci_Metadata = metadata, ci_PolicyOverride = override,
                             ci_CreatedBySubject = TrimSpace (ni_CreatedBySubject i),
                             ci_CreatedByEmail = normalizeEmail parse (ni_CreatedByEmail i), ci_Recipients = recipients,
                             ci_Deliveries = deliveries\<rparr>
                       | _ \<Rightarrow> Inl MetadataInvalid))"

definition NotifyAll :: "addressParser \<Rightarrow> gotime \<Rightarrow> notifyInput \<Rightarrow> notifyTables \<Rightarrow> notifyError + (notifyResult \<times> notifyTables)" where
  "NotifyAll parse now i db =
     (case notifyRequest parse now i db of
        Inl e \<Rightarrow> Inl e
      | Inr c \<Rightarrow> (case CreateNotification now c db of None \<Rightarrow> Inl StoreFailed | Some x \<Rightarrow> Inr x))"

definition resolveTrimmed :: "resolveInput \<Rightarrow> resolveInput" where
  "resolveTrimmed i =
     \<lparr>ri_TypeKey = TrimSpace (ri_TypeKey i), ri_EntityType = TrimSpace (ri_EntityType i), ri_EntityID = TrimSpace (ri_EntityID i),
      ri_DedupeKey = TrimSpace (ri_DedupeKey i)\<rparr>"

definition ResolveAll :: "gotime \<Rightarrow> resolveInput \<Rightarrow> notifyTables \<Rightarrow> notifyTables option" where
  "ResolveAll now i db = map_option snd (ResolveNotifications now (resolveTrimmed i) db)"

section \<open>E-mail\<close>

record message =
  ms_To :: "string list"
  ms_Subject :: string
  ms_Text :: string
  ms_HTML :: string

text \<open>\<open>html.EscapeString\<close>.\<close>

definition escapeChar :: "char \<Rightarrow> string" where
  "escapeChar c =
     (if c = CHR ''<'' then ''&lt;''
      else if c = CHR ''>'' then ''&gt;''
      else if c = CHR ''&'' then ''&amp;''
      else if c = CHR 0x27 then ''&#39;''
      else if c = CHR 0x22 then ''&#34;''
      else [c])"

definition EscapeString :: "string \<Rightarrow> string" where
  "EscapeString s = concat (map escapeChar s)"

definition compactLine :: "string \<Rightarrow> string" where
  "compactLine value = (let v = Join (Fields value) '' '' in if v = '''' then ''Notification'' else v)"

definition notificationEmailSubject :: "notificationRow \<Rightarrow> string" where
  "notificationEmailSubject n =
     (let app = ToUpper (TrimSpace (nr_AppID n)); app' = (if app = '''' then ''MRSMITH'' else app)
      in ''[MrSmith]['' @ app' @ ''] '' @ compactLine (nr_Title n))"

definition newline :: string where "newline = [CHR 0x0A]"

definition notificationEmailText :: "notificationRow \<Rightarrow> string \<Rightarrow> string" where
  "notificationEmailText n link =
     Join [compactLine (nr_Title n), '''', TrimSpace (nr_Body n), '''', ''Open in MrSmith:'', link] newline"

text \<open>The pieces of the page between the four values, with \<open>quoted\<close> for the attributes; white space between the
  lines of the template is kept as in the source.\<close>

definition quoted :: "string \<Rightarrow> string" where "quoted s = [CHR 0x22] @ s @ [CHR 0x22]"

definition htmlHead :: string where
  "htmlHead = ''<!doctype html>'' @ newline @ ''<html>'' @ newline @ ''<body style='' @
     quoted ''margin:0;padding:0;background:#f8fafc;font-family:Arial,sans-serif;color:#0f172a;'' @ ''>'' @ newline @ ''  <div style='' @
     quoted ''max-width:680px;margin:0 auto;padding:24px;'' @ ''>'' @ newline @ ''    <div style='' @
     quoted ''background:#ffffff;border:1px solid #dbe5df;border-radius:10px;padding:24px;'' @ ''>'' @ newline @ ''      <p style='' @
     quoted ''margin:0 0 8px;color:#3f6b4b;font-size:13px;letter-spacing:.04em;text-transform:uppercase;'' @ ''>MrSmith ''"

definition htmlTitle :: string where
  "htmlTitle = ''</p>'' @ newline @ ''      <h1 style='' @ quoted ''margin:0 0 16px;font-size:22px;line-height:1.3;color:#0f172a;'' @ ''>''"

definition htmlBody :: string where
  "htmlBody = ''</h1>'' @ newline @ ''      <p style='' @ quoted ''margin:0 0 22px;font-size:15px;line-height:1.5;color:#334155;'' @ ''>''"

definition htmlLink :: string where
  "htmlLink = ''</p>'' @ newline @ ''      <a href='' @ [CHR 0x22]"

definition htmlTail :: string where
  "htmlTail = [CHR 0x22] @ '' style='' @
     quoted ''display:inline-block;background:#0f2a18;color:#dfffe7;text-decoration:none;padding:10px 14px;border-radius:6px;font-weight:700;'' @
     ''>Open notification</a>'' @ newline @ ''    </div>'' @ newline @ ''  </div>'' @ newline @ ''</body>'' @ newline @ ''</html>''"

definition breakLines :: "string \<Rightarrow> string" where
  "breakLines s = concat (map (\<lambda>c. if c = CHR 0x0A then ''<br>'' else [c]) s)"

definition notificationEmailHTML :: "notificationRow \<Rightarrow> string \<Rightarrow> string" where
  "notificationEmailHTML n link =
     (let escaped = EscapeString (TrimSpace (nr_Body n));
          body = (if escaped = '''' then ''A notification is waiting in MrSmith.'' else escaped)
      in htmlHead @ EscapeString (ToUpper (TrimSpace (nr_AppID n))) @ htmlTitle @ EscapeString (compactLine (nr_Title n)) @ htmlBody @
         breakLines body @ htmlLink @ EscapeString link @ htmlTail)"

text \<open>\<open>net/url\<close>: whether a text parses and is absolute, and the resolution of a reference against a base.\<close>

record urlLibrary =
  ur_Parse :: "string \<Rightarrow> bool option"
  ur_Resolve :: "string \<Rightarrow> string \<Rightarrow> string"

datatype linkError = MissingBaseURL | BadLink

definition TrimSlashes :: "string \<Rightarrow> string" where
  "TrimSlashes = dropWhile (\<lambda>c. c = CHR ''/'')"

definition absoluteNotificationLink :: "urlLibrary \<Rightarrow> string \<Rightarrow> string \<Rightarrow> linkError + string" where
  "absoluteNotificationLink u deepLink publicBaseURL =
     (let l = TrimSpace deepLink; link = (if l = '''' then ''/'' else l)
      in if ur_Parse u link = Some True then Inr link
         else let base = rev (TrimSlashes (rev (TrimSpace publicBaseURL)))
           in if base = '''' then Inl MissingBaseURL
              else if ur_Parse u (base @ ''/'') \<noteq> Some True then Inl MissingBaseURL
              else if ur_Parse u (TrimSlashes link) = None then Inl BadLink
              else Inr (ur_Resolve u (base @ ''/'') (TrimSlashes link)))"

definition notificationEmail :: "urlLibrary \<Rightarrow> claimedDelivery \<Rightarrow> string \<Rightarrow> linkError + message" where
  "notificationEmail u d publicBaseURL =
     (case absoluteNotificationLink u (nr_DeepLink (cd_Notification d)) publicBaseURL of
        Inl e \<Rightarrow> Inl e
      | Inr link \<Rightarrow>
          Inr \<lparr>ms_To = [rr_Email (cd_Recipient d)], ms_Subject = notificationEmailSubject (cd_Notification d),
            ms_Text = notificationEmailText (cd_Notification d) link, ms_HTML = notificationEmailHTML (cd_Notification d) link\<rparr>)"

section \<open>The worker\<close>

definition defaultClaimLimit :: int where "defaultClaimLimit = 10"
definition maxEmailAttempts :: int where "maxEmailAttempts = 3"

record worker =
  wk_Mailer :: bool
  wk_PublicBaseURL :: string
  wk_WorkerID :: string
  wk_URL :: urlLibrary

definition retryDelay :: "int \<Rightarrow> int" where
  "retryDelay attempt = (if attempt \<le> 1 then 5 * 60000000000 else if attempt = 2 then 15 * 60000000000 else 30 * 60000000000)"

definition truncateError :: "string \<Rightarrow> string" where
  "truncateError e = take 900 (TrimSpace e)"

text \<open>A claimed delivery is completed at once, or after a message was sent: with the error of the mailer, if any,
  and the time it came.\<close>

datatype deliveryTask = CompleteNow deliveryCompletion | SendFirst message "(string \<times> gotime) option \<Rightarrow> deliveryCompletion"

definition completion :: "claimedDelivery \<Rightarrow> string \<Rightarrow> string \<Rightarrow> deliveryCompletion" where
  "completion d status error = \<lparr>dc_DeliveryID = cd_ID d, dc_Status = status, dc_Error = error, dc_RetryAt = None\<rparr>"

definition sendOutcomeCompletion :: "claimedDelivery \<Rightarrow> (string \<times> gotime) option \<Rightarrow> deliveryCompletion" where
  "sendOutcomeCompletion d res =
     (case res of
        None \<Rightarrow> completion d deliveryStatusSent ''''
      | Some (e, now) \<Rightarrow>
          (completion d deliveryStatusFailed (truncateError e))
            \<lparr>dc_RetryAt := (if cd_AttemptCount d < maxEmailAttempts then Some (now + retryDelay (cd_AttemptCount d)) else None)\<rparr>)"

definition processDelivery :: "worker \<Rightarrow> claimedDelivery \<Rightarrow> deliveryTask" where
  "processDelivery w d =
     (if inactive (cd_Recipient d) then CompleteNow (completion d deliveryStatusCancelled ''recipient_not_active'')
      else if cd_Channel d \<noteq> channelEmail then CompleteNow (completion d deliveryStatusSent '''')
      else if \<not> wk_Mailer w then CompleteNow (completion d deliveryStatusSkipped ''smtp_disabled'')
      else case notificationEmail (wk_URL w) d (wk_PublicBaseURL w) of
        Inl MissingBaseURL \<Rightarrow> CompleteNow (completion d deliveryStatusSkipped ''mrsmith_public_base_url_missing'')
      | Inl BadLink \<Rightarrow> CompleteNow (completion d deliveryStatusSkipped ''email_render_failed'')
      | Inr m \<Rightarrow> SendFirst m (sendOutcomeCompletion d))"

text \<open>A pass of the worker without interruption: claim, then each delivery in turn. The mailer is a function of the
  message; the clock stands still; a completion that fails is only logged.\<close>

definition finishDelivery :: "worker \<Rightarrow> (message \<Rightarrow> string option) \<Rightarrow> gotime \<Rightarrow> claimedDelivery \<Rightarrow> notifyTables \<Rightarrow> notifyTables" where
  "finishDelivery w mailer now d db =
     (let c = (case processDelivery w d of CompleteNow c \<Rightarrow> c | SendFirst m f \<Rightarrow> f (map_option (\<lambda>e. (e, now)) (mailer m)))
      in case CompleteDelivery now c db of None \<Rightarrow> db | Some db' \<Rightarrow> db')"

definition processOnce :: "worker \<Rightarrow> (message \<Rightarrow> string option) \<Rightarrow> (int \<Rightarrow> bool) \<Rightarrow> gotime \<Rightarrow> notifyTables \<Rightarrow> notifyTables" where
  "processOnce w mailer busy now db =
     (case ClaimDueDeliveries busy now (wk_WorkerID w) defaultClaimLimit db of
        (ds, db') \<Rightarrow> fold (finishDelivery w mailer now) ds db')"

section \<open>The handlers\<close>

text \<open>A request: the e-mail of the claims (none without claims), the path value, the query, and the cursor as
  decoded: absent, invalid, or a time with an id.\<close>

record centreRequest =
  cr_Email :: "string option"
  cr_ID :: string
  cr_Status :: string
  cr_AppID :: string
  cr_Limit :: string
  cr_Cursor :: "(gotime \<times> int) option option"

datatype centreResponse =
    CentreError int string | CentreSummary notifySummary | CentreItems listResult | CentreUpdated nat | NoContent

definition currentUserEmail :: "addressParser \<Rightarrow> centreRequest \<Rightarrow> string option" where
  "currentUserEmail parse rq =
     (case cr_Email rq of
        None \<Rightarrow> None
      | Some e \<Rightarrow> let email = normalizeEmail parse e in if email = '''' then None else Some email)"

definition parseListStatus :: "string \<Rightarrow> bool option" where
  "parseListStatus value =
     (let v = ToLower (TrimSpace value)
      in if v = '''' \<or> v = ''all'' then Some False else if v = ''unread'' then Some True else None)"

definition parseLimit :: "string \<Rightarrow> int" where
  "parseLimit value =
     (case ParseInt (TrimSpace value) of (n, ok) \<Rightarrow> if \<not> ok \<or> n \<le> 0 then 30 else if n > 100 then 100 else n)"

definition parseRecipientID :: "string \<Rightarrow> int option" where
  "parseRecipientID s = (case ParseInt (TrimSpace s) of (n, ok) \<Rightarrow> if \<not> ok \<or> n \<le> 0 then None else Some n)"

definition withUser :: "addressParser \<Rightarrow> centreRequest \<Rightarrow> (string \<Rightarrow> notifyTables \<Rightarrow> centreResponse \<times> notifyTables) \<Rightarrow>
    notifyTables \<Rightarrow> centreResponse \<times> notifyTables" where
  "withUser parse rq k db =
     (case currentUserEmail parse rq of None \<Rightarrow> (CentreError 401 ''missing_user_email'', db) | Some email \<Rightarrow> k email db)"

definition handleSummary :: "addressParser \<Rightarrow> centreRequest \<Rightarrow> notifyTables \<Rightarrow> centreResponse \<times> notifyTables" where
  "handleSummary parse rq = withUser parse rq (\<lambda>email db. (CentreSummary (Summary email db), db))"

definition handleList :: "addressParser \<Rightarrow> centreRequest \<Rightarrow> notifyTables \<Rightarrow> centreResponse \<times> notifyTables" where
  "handleList parse rq = withUser parse rq (\<lambda>email db.
     case parseListStatus (cr_Status rq) of
       None \<Rightarrow> (CentreError 400 ''invalid_status'', db)
     | Some unread \<Rightarrow>
         (case cr_Cursor rq of
            Some None \<Rightarrow> (CentreError 400 ''invalid_cursor'', db)
          | c \<Rightarrow>
              let (since, i) = (case c of Some (Some x) \<Rightarrow> x | _ \<Rightarrow> (zeroInstant, 0))
              in (CentreItems (List \<lparr>li_Email = email, li_Unread = unread, li_AppID = TrimSpace (cr_AppID rq),
                    li_Limit = parseLimit (cr_Limit rq), li_CursorCreatedAt = since, li_CursorID = i\<rparr> db), db)))"

definition updatedOr404 :: "bool \<times> notifyTables \<Rightarrow> centreResponse \<times> notifyTables" where
  "updatedOr404 x = (case x of (updated, db) \<Rightarrow> (if updated then NoContent else CentreError 404 ''notification_not_found'', db))"

definition handleRead :: "addressParser \<Rightarrow> gotime \<Rightarrow> centreRequest \<Rightarrow> notifyTables \<Rightarrow> centreResponse \<times> notifyTables" where
  "handleRead parse now rq = withUser parse rq (\<lambda>email db.
     case parseRecipientID (cr_ID rq) of
       None \<Rightarrow> (CentreError 400 ''invalid_notification_id'', db)
     | Some i \<Rightarrow> updatedOr404 (MarkRead now email i db))"

definition handleReadAll :: "addressParser \<Rightarrow> gotime \<Rightarrow> centreRequest \<Rightarrow> notifyTables \<Rightarrow> centreResponse \<times> notifyTables" where
  "handleReadAll parse now rq = withUser parse rq (\<lambda>email db.
     case MarkAllRead now email db of (n, db') \<Rightarrow> (CentreUpdated n, db'))"

definition handleArchive :: "addressParser \<Rightarrow> gotime \<Rightarrow> centreRequest \<Rightarrow> notifyTables \<Rightarrow> centreResponse \<times> notifyTables" where
  "handleArchive parse now rq = withUser parse rq (\<lambda>email db.
     case parseRecipientID (cr_ID rq) of
       None \<Rightarrow> (CentreError 400 ''invalid_notification_id'', db)
     | Some i \<Rightarrow> updatedOr404 (Archive now email i db))"

end
