(* ===== verification/NotifyTables.thy ===== *)
theory NotifyTables
  imports NotifyService
begin

text \<open>
  What the operations of the store keep of the tables: keys are unique and references exist, each delivery
  has the columns its status asks for, and a delivery has the status locked only while its recipient
  has not read, archived or resolved the notification.
\<close>

section \<open>The invariant\<close>

definition deliveryKey :: "deliveryRow \<Rightarrow> int \<times> string \<times> string" where
  "deliveryKey d = (dl_RecipientID d, dl_Channel d, dl_PolicyStep d)"

definition recipientKey :: "recipientRow \<Rightarrow> int \<times> string" where
  "recipientKey r = (rr_NotificationID r, ToLower (rr_Email r))"

definition keys_ok :: "notifyTables \<Rightarrow> bool" where
  "keys_ok db \<longleftrightarrow>
     distinct (map nr_ID (tb_Notifications db)) \<and> distinct (map nr_DedupeKey (tb_Notifications db)) \<and>
     distinct (map rr_ID (tb_Recipients db)) \<and> distinct (map recipientKey (tb_Recipients db)) \<and>
     distinct (map dl_ID (tb_Deliveries db)) \<and> distinct (map deliveryKey (tb_Deliveries db)) \<and>
     rr_NotificationID ` set (tb_Recipients db) \<subseteq> nr_ID ` set (tb_Notifications db) \<and>
     dl_RecipientID ` set (tb_Deliveries db) \<subseteq> rr_ID ` set (tb_Recipients db) \<and>
     list_all (\<lambda>n. nr_ID n < tb_NextNotification db) (tb_Notifications db) \<and>
     list_all (\<lambda>r. rr_ID r < tb_NextRecipient db) (tb_Recipients db) \<and>
     list_all (\<lambda>d. dl_ID d < tb_NextDelivery db) (tb_Deliveries db)"

text \<open>The columns of a delivery agree with its status.\<close>

definition delivery_ok :: "deliveryRow \<Rightarrow> bool" where
  "delivery_ok d \<longleftrightarrow>
     dl_Status d \<in> {''pending'', ''locked'', ''sent'', ''skipped'', ''failed'', ''cancelled''} \<and>
     (dl_Status d = ''locked'' \<longleftrightarrow> dl_LockedAt d \<noteq> None) \<and> 0 \<le> dl_AttemptCount d \<and>
     (dl_Status d = ''sent'' \<longrightarrow> dl_SentAt d \<noteq> None) \<and> (dl_Status d = ''skipped'' \<longrightarrow> dl_SkippedAt d \<noteq> None) \<and>
     (dl_Status d = ''failed'' \<longrightarrow> dl_FailedAt d \<noteq> None) \<and>
     (dl_Status d = ''locked'' \<longrightarrow> 0 < dl_AttemptCount d)"

text \<open>The recipients that have not read, archived or resolved: a locked delivery has one.\<close>

definition active_ids :: "notifyTables \<Rightarrow> int set" where
  "active_ids db = rr_ID ` {r \<in> set (tb_Recipients db). \<not> inactive r}"

lemma active_ids_iff: "x \<in> active_ids db \<longleftrightarrow> (\<exists>r \<in> set (tb_Recipients db). rr_ID r = x \<and> \<not> inactive r)"
  by (auto simp: active_ids_def)

text \<open>The stored status of a delivery against its recipient; what a worker still holds in memory is not spoken of.\<close>

definition locks_ok :: "notifyTables \<Rightarrow> bool" where
  "locks_ok db \<longleftrightarrow> (\<forall>d \<in> set (tb_Deliveries db). dl_Status d = ''locked'' \<longrightarrow> dl_RecipientID d \<in> active_ids db)"

definition tables_ok :: "notifyTables \<Rightarrow> bool" where
  "tables_ok db \<longleftrightarrow> keys_ok db \<and> list_all delivery_ok (tb_Deliveries db) \<and> locks_ok db"

named_theorems status_defs
lemmas [status_defs] = deliveryStatusPending_def deliveryStatusSent_def deliveryStatusSkipped_def deliveryStatusFailed_def
  deliveryStatusCancelled_def

section \<open>Updates of rows\<close>

text \<open>Rows are updated one by one, keeping their keys; a delivery that is locked afterwards has a recipient that is
  active afterwards.\<close>

lemma tables_ok_map:
  assumes "tables_ok db"
    "tb_Recipients db' = map f (tb_Recipients db)" "tb_Deliveries db' = map g (tb_Deliveries db)" "tb_Notifications db' = tb_Notifications db"
    "tb_NextNotification db' = tb_NextNotification db" "tb_NextRecipient db' = tb_NextRecipient db" "tb_NextDelivery db \<le> tb_NextDelivery db'"
    "\<And>r. r \<in> set (tb_Recipients db) \<Longrightarrow> rr_ID (f r) = rr_ID r \<and> recipientKey (f r) = recipientKey r"
    "\<And>d. d \<in> set (tb_Deliveries db) \<Longrightarrow> dl_ID (g d) = dl_ID d \<and> deliveryKey (g d) = deliveryKey d \<and> delivery_ok (g d)"
    "\<And>d. d \<in> set (tb_Deliveries db) \<Longrightarrow> dl_Status (g d) = ''locked'' \<Longrightarrow>
       \<exists>r \<in> set (tb_Recipients db). rr_ID r = dl_RecipientID d \<and> \<not> inactive (f r)"
  shows "tables_ok db'"
proof -
  have m: "map rr_ID (map f (tb_Recipients db)) = map rr_ID (tb_Recipients db)"
    "map recipientKey (map f (tb_Recipients db)) = map recipientKey (tb_Recipients db)"
    "map dl_ID (map g (tb_Deliveries db)) = map dl_ID (tb_Deliveries db)"
    "map deliveryKey (map g (tb_Deliveries db)) = map deliveryKey (tb_Deliveries db)" using assms(8,9) by simp_all
  have r: "dl_RecipientID (g d) = dl_RecipientID d" if "d \<in> set (tb_Deliveries db)" for d
    using assms(9)[OF that] by (simp add: deliveryKey_def)
  have i: "rr_ID ` set (map f (tb_Recipients db)) = rr_ID ` set (tb_Recipients db)"
    "rr_NotificationID ` set (map f (tb_Recipients db)) = rr_NotificationID ` set (tb_Recipients db)"
    "dl_RecipientID ` set (map g (tb_Deliveries db)) = dl_RecipientID ` set (tb_Deliveries db)"
    using assms(8) r by (simp_all add: image_image recipientKey_def cong: image_cong)
  have b: "list_all (\<lambda>r. rr_ID r < tb_NextRecipient db) (map f (tb_Recipients db))"
    "list_all (\<lambda>d. dl_ID d < tb_NextDelivery db') (map g (tb_Deliveries db))"
    using assms(1,7,8,9) by (fastforce simp: tables_ok_def keys_ok_def list_all_iff)+
  have "keys_ok db'" using assms(1) m i b unfolding tables_ok_def keys_ok_def assms(2-6) by (simp del: map_map set_map)
  moreover have "locks_ok db'"
    unfolding locks_ok_def
  proof (intro ballI impI)
    fix e assume "e \<in> set (tb_Deliveries db')" "dl_Status e = ''locked''"
    then obtain d where d: "d \<in> set (tb_Deliveries db)" "e = g d" "dl_Status (g d) = ''locked''" using assms(3) by auto
    then obtain x where "x \<in> set (tb_Recipients db)" "rr_ID x = dl_RecipientID d" "\<not> inactive (f x)" using assms(10) by blast
    then show "dl_RecipientID e \<in> active_ids db'" using assms(2,8) d r by (force simp: active_ids_def)
  qed
  ultimately show ?thesis using assms(3,9) by (auto simp: tables_ok_def list_all_iff)
qed

lemma tables_ok_map_deliveries:
  assumes "tables_ok db"
    "\<And>d. d \<in> set (tb_Deliveries db) \<Longrightarrow> dl_ID (g d) = dl_ID d \<and> deliveryKey (g d) = deliveryKey d \<and> delivery_ok (g d) \<and>
       (dl_Status (g d) = ''locked'' \<longrightarrow> dl_RecipientID d \<in> active_ids db)"
    "tb_Deliveries db' = map g (tb_Deliveries db)" "tb_Recipients db' = tb_Recipients db" "tb_Notifications db' = tb_Notifications db"
    "tb_NextNotification db' = tb_NextNotification db" "tb_NextRecipient db' = tb_NextRecipient db" "tb_NextDelivery db \<le> tb_NextDelivery db'"
  shows "tables_ok db'"
  by (rule tables_ok_map[OF assms(1), where f = "\<lambda>r. r" and g = g]) (use assms in \<open>auto simp: active_ids_iff\<close>)

text \<open>Recipients are updated; whoever has a locked delivery stays active.\<close>

lemma tables_ok_map_recipients:
  assumes "tables_ok db"
    "\<And>r. r \<in> set (tb_Recipients db) \<Longrightarrow> rr_ID (f r) = rr_ID r \<and> recipientKey (f r) = recipientKey r"
    "\<And>r. r \<in> set (tb_Recipients db) \<Longrightarrow> \<not> inactive r \<Longrightarrow> \<not> inactive (f r)"
  shows "tables_ok (db\<lparr>tb_Recipients := map f (tb_Recipients db)\<rparr>)"
  by (rule tables_ok_map[OF assms(1), where f = f and g = "\<lambda>d. d"])
     (use assms in \<open>auto simp: tables_ok_def locks_ok_def active_ids_iff list_all_iff, blast?\<close>)

section \<open>Creating\<close>

lemma new_key: "x \<notin> f ` set xs \<Longrightarrow> distinct (map f xs) \<Longrightarrow> f y = x \<Longrightarrow> distinct (map f (xs @ [y]))"
  by auto

lemma below_fresh: "list_all (\<lambda>x. f x < n) xs \<Longrightarrow> (n :: int) \<notin> f ` set xs"
  by (auto simp: list_all_iff)

lemma list_all_less: "list_all (\<lambda>x. f x < (n :: int)) xs \<Longrightarrow> n \<le> m \<Longrightarrow> list_all (\<lambda>x. f x < m) xs"
  by (auto simp: list_all_iff)

lemma upsertNotification_ok:
  assumes "tables_ok db" "upsertNotification now i db = ((nid, created), db')"
  shows "tables_ok db'" "nid \<in> nr_ID ` set (tb_Notifications db')" "tb_Recipients db' = tb_Recipients db" "tb_Deliveries db' = tb_Deliveries db"
    "tb_Attempts db' = tb_Attempts db" "tb_Types db' = tb_Types db"
proof -
  have k: "keys_ok db" using assms(1) by (simp add: tables_ok_def)
  show "tables_ok db'"
  proof (cases "find (\<lambda>n. nr_DedupeKey n = ci_DedupeKey i) (tb_Notifications db)")
    case None
    have f: "ci_DedupeKey i \<notin> nr_DedupeKey ` set (tb_Notifications db)" using None by (auto simp: find_None_iff)
    have d: "distinct (map nr_ID (tb_Notifications db'))" "distinct (map nr_DedupeKey (tb_Notifications db'))"
      using assms(2) None k f below_fresh[of nr_ID "tb_NextNotification db" "tb_Notifications db"]
      by (auto simp: upsertNotification_def keys_ok_def)
    moreover have "list_all (\<lambda>n. nr_ID n < tb_NextNotification db') (tb_Notifications db')"
      using assms(2) None k list_all_less[of nr_ID "tb_NextNotification db" "tb_Notifications db" "tb_NextNotification db + 1"]
      by (auto simp: upsertNotification_def keys_ok_def)
    moreover have "rr_NotificationID ` set (tb_Recipients db) \<subseteq> nr_ID ` set (tb_Notifications db')" "tb_Recipients db' = tb_Recipients db"
      "tb_Deliveries db' = tb_Deliveries db" "tb_NextRecipient db' = tb_NextRecipient db" "tb_NextDelivery db' = tb_NextDelivery db"
      using assms(2) None k by (auto simp: upsertNotification_def keys_ok_def)
    ultimately show ?thesis using assms(1) k by (simp add: tables_ok_def keys_ok_def locks_ok_def active_ids_def)
  next
    case (Some n)
    then have "db' = db\<lparr>tb_NextNotification := tb_NextNotification db + 1\<rparr>" using assms(2) by (simp add: upsertNotification_def)
    then show ?thesis using assms(1) k list_all_less[of nr_ID "tb_NextNotification db" "tb_Notifications db" "tb_NextNotification db + 1"]
      by (simp add: tables_ok_def keys_ok_def locks_ok_def active_ids_def)
  qed
qed (use assms(2) in \<open>auto simp: upsertNotification_def Let_def find_Some_iff split: option.splits\<close>)

lemma refreshed_keys [simp]: "rr_ID (refreshed a b r) = rr_ID r" "rr_NotificationID (refreshed a b r) = rr_NotificationID r"
  "rr_Email (refreshed a b r) = rr_Email r" "recipientKey (refreshed a b r) = recipientKey r"
  by (simp_all add: refreshed_def recipientKey_def)

lemma find_SomeD: "find P xs = Some x \<Longrightarrow> x \<in> set xs \<and> P x"
  by (induction xs) (auto split: if_splits)

lemma updateRecipient_ids: "rr_ID ` set (tb_Recipients (updateRecipient rid (refreshed a b) db)) = rr_ID ` set (tb_Recipients db)"
proof -
  have "map rr_ID (tb_Recipients (updateRecipient rid (refreshed a b) db)) = map rr_ID (tb_Recipients db)" by (simp add: updateRecipient_def)
  then show ?thesis by (metis list.set_map)
qed

lemma refreshed_active: "\<not> inactive r \<Longrightarrow> \<not> inactive (refreshed a b r)"
  by (simp add: refreshed_def inactive_def)

lemma tables_ok_new_recipient:
  assumes "tables_ok db" "rr_ID r = tb_NextRecipient db" "rr_NotificationID r \<in> nr_ID ` set (tb_Notifications db)"
    "recipientKey r \<notin> recipientKey ` set (tb_Recipients db)"
  shows "tables_ok (db\<lparr>tb_NextRecipient := tb_NextRecipient db + 1, tb_Recipients := tb_Recipients db @ [r]\<rparr>)"
proof -
  have k: "keys_ok db" using assms(1) by (simp add: tables_ok_def)
  then have "tb_NextRecipient db \<notin> rr_ID ` set (tb_Recipients db)" using below_fresh by (auto simp: keys_ok_def)
  then have "keys_ok (db\<lparr>tb_NextRecipient := tb_NextRecipient db + 1, tb_Recipients := tb_Recipients db @ [r]\<rparr>)"
    using k assms list_all_less[of rr_ID "tb_NextRecipient db" "tb_Recipients db" "tb_NextRecipient db + 1"]
    by (auto simp: keys_ok_def)
  then show ?thesis using assms(1) by (auto simp: tables_ok_def locks_ok_def active_ids_def)
qed

lemma upsertRecipient_ok:
  assumes "tables_ok db" "nid \<in> nr_ID ` set (tb_Notifications db)" "upsertRecipient now nid a db = ((rid, b), db')"
  shows "tables_ok db'" "rid \<in> rr_ID ` set (tb_Recipients db')" "tb_Notifications db' = tb_Notifications db"
    "rr_ID ` set (tb_Recipients db) \<subseteq> rr_ID ` set (tb_Recipients db')"
proof -
  let ?f = "\<lambda>b r. if rr_ID r = rid then refreshed a b r else r"
  have up: "tables_ok (updateRecipient rid (refreshed a b) db0)" if "tables_ok db0" for db0 b
    unfolding updateRecipient_def by (rule tables_ok_map_recipients[OF that]) (auto simp: refreshed_active)
  show "tables_ok db'"
  proof (cases "find (\<lambda>r. rr_NotificationID r = nid \<and> sameEmail (rr_Email r) (ad_Email a)) (tb_Recipients db)")
    case None
    let ?r = "\<lparr>rr_ID = tb_NextRecipient db, rr_NotificationID = nid, rr_Subject = ad_Subject a, rr_Email = ad_Email a, rr_Name = ad_Name a,
      rr_ReadAt = None, rr_ArchivedAt = None, rr_ResolvedAt = None, rr_CreatedAt = now\<rparr>"
    have "recipientKey ?r \<notin> recipientKey ` set (tb_Recipients db)"
      using None by (auto simp: find_None_iff recipientKey_def sameEmail_def)
    from tables_ok_new_recipient[OF assms(1) _ _ this] have "tables_ok (db\<lparr>tb_NextRecipient := tb_NextRecipient db + 1, tb_Recipients := tb_Recipients db @ [?r]\<rparr>)"
      using assms(2) by simp
    from up[OF this] show ?thesis using assms(3) None by (auto simp: upsertRecipient_def Let_def)
  next
    case (Some r)
    then show ?thesis using up[OF assms(1)] assms(3) by (auto simp: upsertRecipient_def Let_def)
  qed
  show "tb_Notifications db' = tb_Notifications db"
    using assms(3) by (auto simp: upsertRecipient_def updateRecipient_def Let_def split: option.splits)
  show "rid \<in> rr_ID ` set (tb_Recipients db')" "rr_ID ` set (tb_Recipients db) \<subseteq> rr_ID ` set (tb_Recipients db')"
    using assms(3) by (auto simp: upsertRecipient_def updateRecipient_ids Let_def dest: find_SomeD split: option.splits)
qed

lemma upsertRecipients_ok:
  assumes "tables_ok db" "nid \<in> nr_ID ` set (tb_Notifications db)" "upsertRecipients now nid as db = (xs, db')"
  shows "tables_ok db' \<and> fst ` set xs \<subseteq> rr_ID ` set (tb_Recipients db') \<and> rr_ID ` set (tb_Recipients db) \<subseteq> rr_ID ` set (tb_Recipients db')"
  using assms
proof (induction as arbitrary: db xs db')
  case (Cons a as)
  obtain rid b db1 where u: "upsertRecipient now nid a db = ((rid, b), db1)" by (metis prod.exhaust)
  obtain ys db2 where us: "upsertRecipients now nid as db1 = (ys, db2)" by (metis prod.exhaust)
  note o1 = upsertRecipient_ok[OF Cons.prems(1,2) u]
  have "nid \<in> nr_ID ` set (tb_Notifications db1)" using Cons.prems(2) o1(3) by simp
  note ih = Cons.IH[OF o1(1) this us]
  have e: "xs = (rid, b) # ys" "db' = db2" using Cons.prems(3) u us by simp_all
  show ?case unfolding e using ih o1(2,4) by (metis (no_types, lifting) fst_conv image_insert insert_subset list.simps(15) subset_iff)
qed simp

text \<open>What a policy asks for is pending or sent.\<close>

definition specs_ok :: "deliverySpec list \<Rightarrow> bool" where
  "specs_ok specs \<longleftrightarrow> list_all (\<lambda>s. ds_Status s = ''pending'' \<or> ds_Status s = ''sent'') specs"

lemma restarted_ok:
  assumes "delivery_ok d" "ds_Status s = ''pending'' \<or> ds_Status s = ''sent''"
  shows "delivery_ok (restarted b s d)"
proof (cases "b \<and> finished (dl_Status d)")
  case True
  then show ?thesis using assms(2) by (elim disjE) (simp_all add: restarted_def delivery_ok_def specSentAt_def status_defs)
next
  case False
  then have "restarted b s d = d" by (simp only: restarted_def if_False)
  then show ?thesis using assms(1) by simp
qed

lemma restarted_keys [simp]: "dl_ID (restarted b s d) = dl_ID d" "deliveryKey (restarted b s d) = deliveryKey d"
  by (simp_all add: restarted_def deliveryKey_def)

lemma restarted_locked: "dl_Status (restarted b s d) = ''locked'' \<Longrightarrow> ds_Status s = ''pending'' \<or> ds_Status s = ''sent'' \<Longrightarrow> dl_Status d = ''locked''"
  by (auto simp: restarted_def split: if_splits)

lemma upsertDelivery_ok:
  assumes "tables_ok db" "fst x \<in> rr_ID ` set (tb_Recipients db)" "ds_Status s = ''pending'' \<or> ds_Status s = ''sent''"
  shows "tables_ok (upsertDelivery x s db)" "tb_Recipients (upsertDelivery x s db) = tb_Recipients db"
    "tb_Notifications (upsertDelivery x s db) = tb_Notifications db" "tb_Attempts (upsertDelivery x s db) = tb_Attempts db"
    "tb_Types (upsertDelivery x s db) = tb_Types db"
proof -
  obtain rid b where x: "x = (rid, b)" by (cases x)
  have k: "keys_ok db" using assms(1) by (simp add: tables_ok_def)
  show "tables_ok (upsertDelivery x s db)"
  proof (cases "list_ex (isFor rid s) (tb_Deliveries db)")
    case True
    let ?g = "\<lambda>d. if isFor rid s d then restarted b s d else d"
    have g: "dl_ID (?g d) = dl_ID d \<and> deliveryKey (?g d) = deliveryKey d \<and> delivery_ok (?g d) \<and>
       (dl_Status (?g d) = ''locked'' \<longrightarrow> dl_RecipientID d \<in> active_ids db)" if "d \<in> set (tb_Deliveries db)" for d
      using that assms(1,3)
      using restarted_locked[of b s d] restarted_ok[of d s b] by (auto simp: tables_ok_def locks_ok_def list_all_iff)
    show ?thesis
      by (rule tables_ok_map_deliveries[OF assms(1) g]) (use True in \<open>simp_all add: upsertDelivery_def x Let_def\<close>)
  next
    case False
    have "tb_NextDelivery db \<notin> dl_ID ` set (tb_Deliveries db)" using k below_fresh by (auto simp: keys_ok_def)
    moreover have "(rid, ds_Channel s, ds_PolicyStep s) \<notin> deliveryKey ` set (tb_Deliveries db)"
      using False by (auto simp: list_ex_iff isFor_def deliveryKey_def)
    ultimately have "keys_ok (upsertDelivery x s db)"
      using False k assms(2) list_all_less[of dl_ID "tb_NextDelivery db" "tb_Deliveries db" "tb_NextDelivery db + 1"]
      by (auto simp: keys_ok_def upsertDelivery_def x Let_def deliveryKey_def)
    then show ?thesis using False assms(1,3)
      by (auto simp: tables_ok_def upsertDelivery_def x Let_def locks_ok_def active_ids_def delivery_ok_def specSentAt_def status_defs)
  qed
qed (auto simp: upsertDelivery_def Let_def split: prod.split)

lemma upsertDelivery_fold_ok:
  assumes "tables_ok db" "fst x \<in> rr_ID ` set (tb_Recipients db)" "specs_ok specs"
  shows "tables_ok (fold (upsertDelivery x) specs db) \<and> tb_Recipients (fold (upsertDelivery x) specs db) = tb_Recipients db"
  using assms
proof (induction specs arbitrary: db)
  case (Cons s specs)
  then have s: "ds_Status s = ''pending'' \<or> ds_Status s = ''sent''" "specs_ok specs" by (simp_all add: specs_ok_def)
  from Cons.IH[OF upsertDelivery_ok(1)[OF Cons.prems(1,2) s(1)] _ s(2)] show ?case
    using Cons.prems(2) upsertDelivery_ok(2)[OF Cons.prems(1,2) s(1)] by simp
qed simp

lemma upsertDeliveries_ok:
  assumes "tables_ok db" "fst ` set xs \<subseteq> rr_ID ` set (tb_Recipients db)" "specs_ok specs"
  shows "tables_ok (upsertDeliveries xs specs db) \<and> tb_Recipients (upsertDeliveries xs specs db) = tb_Recipients db"
  unfolding upsertDeliveries_def using assms
proof (induction xs arbitrary: db)
  case (Cons x xs)
  from upsertDelivery_fold_ok[OF Cons.prems(1) _ Cons.prems(3), of x] Cons.prems(2)
  have "tables_ok (fold (upsertDelivery x) specs db)" "tb_Recipients (fold (upsertDelivery x) specs db) = tb_Recipients db" by auto
  with Cons.IH[of "fold (upsertDelivery x) specs db"] Cons.prems show ?case by simp
qed simp

lemma CreateNotification_ok:
  assumes "tables_ok db" "CreateNotification now i db = Some (res, db')" "specs_ok (ci_Deliveries i)"
  shows "tables_ok db'"
proof -
  obtain nid created db1 where n: "upsertNotification now i db = ((nid, created), db1)" by (metis prod.exhaust)
  obtain xs db2 where r: "upsertRecipients now nid (ci_Recipients i) db1 = (xs, db2)" by (metis prod.exhaust)
  note o1 = upsertNotification_ok[OF assms(1) n]
  have "tables_ok db2 \<and> fst ` set xs \<subseteq> rr_ID ` set (tb_Recipients db2)" using upsertRecipients_ok[OF o1(1,2) r] by blast
  then show ?thesis using upsertDeliveries_ok[of db2 xs] assms(2,3) n r by (auto simp: CreateNotification_def split: if_splits)
qed

section \<open>Reading, archiving, resolving\<close>

lemma cancelled_ok: "delivery_ok d \<Longrightarrow> delivery_ok (d\<lparr>dl_Status := ''cancelled'', dl_LockedAt := None, dl_LockedBy := s, dl_LastError := e\<rparr>)"
  by (simp add: delivery_ok_def)

text \<open>Recipients that meet a condition are updated and their open deliveries are cancelled, at least.\<close>

lemma tables_ok_deactivate:
  assumes "tables_ok db" "\<And>r. rr_ID (f r) = rr_ID r \<and> recipientKey (f r) = recipientKey r"
    "\<And>r d. r \<in> set (tb_Recipients db) \<Longrightarrow> P r \<Longrightarrow> dl_RecipientID d = rr_ID r \<Longrightarrow> Q d"
  shows "tables_ok (cancelWhere now Q reason (db\<lparr>tb_Recipients := map (\<lambda>r. if P r then f r else r) (tb_Recipients db)\<rparr>))"
proof (rule tables_ok_map[OF assms(1)])
  let ?f = "\<lambda>r. if P r then f r else r"
  let ?g = "\<lambda>d. if Q d \<and> open_delivery d
            then d\<lparr>dl_Status := ''cancelled'', dl_LockedAt := None, dl_LockedBy := '''', dl_LastError := reason\<rparr> else d"
  show "tb_Recipients (cancelWhere now Q reason (db\<lparr>tb_Recipients := map ?f (tb_Recipients db)\<rparr>)) = map ?f (tb_Recipients db)"
    "tb_Deliveries (cancelWhere now Q reason (db\<lparr>tb_Recipients := map ?f (tb_Recipients db)\<rparr>)) = map ?g (tb_Deliveries db)"
    by (simp_all add: cancelWhere_def)
  show "rr_ID (?f r) = rr_ID r \<and> recipientKey (?f r) = recipientKey r" for r using assms(2) by simp
  fix d assume d: "d \<in> set (tb_Deliveries db)"
  then show "dl_ID (?g d) = dl_ID d \<and> deliveryKey (?g d) = deliveryKey d \<and> delivery_ok (?g d)"
    using assms(1) by (auto simp: tables_ok_def list_all_iff deliveryKey_def intro: cancelled_ok)
  assume l: "dl_Status (?g d) = ''locked''"
  then have "dl_Status d = ''locked''" "\<not> Q d" by (auto simp: open_delivery_def split: if_splits)
  then obtain r where "r \<in> set (tb_Recipients db)" "rr_ID r = dl_RecipientID d" "\<not> inactive r"
    using assms(1) d by (auto simp: tables_ok_def locks_ok_def active_ids_def)
  then show "\<exists>r \<in> set (tb_Recipients db). rr_ID r = dl_RecipientID d \<and> \<not> inactive (?f r)"
    using assms(3)[of r d] \<open>\<not> Q d\<close> by force
qed (simp_all add: cancelWhere_def)

lemma updateRecipients_cancel_ok:
  assumes "tables_ok db" "\<And>r. rr_ID (f r) = rr_ID r \<and> recipientKey (f r) = recipientKey r" "updateRecipients P f db = (ids, db')"
  shows "tables_ok (cancelPendingDeliveriesForRecipients now ids reason db')"
proof (cases "ids = []")
  case True
  then have "\<not> P r" if "r \<in> set (tb_Recipients db)" for r using assms(3) that by (auto simp: updateRecipients_def filter_empty_conv)
  then have "map (\<lambda>r. if P r then f r else r) (tb_Recipients db) = tb_Recipients db" by (simp add: map_idI)
  then show ?thesis using True assms(1,3) by (auto simp: updateRecipients_def cancelPendingDeliveriesForRecipients_def)
next
  case False
  then show ?thesis
    using tables_ok_deactivate[OF assms(1,2), of P "\<lambda>d. dl_RecipientID d \<in> set ids"] assms(3)
    by (auto simp: updateRecipients_def cancelPendingDeliveriesForRecipients_def)
qed

lemma marks_ok:
  assumes "tables_ok db"
  shows "tables_ok (snd (MarkRead now email rid db))" "tables_ok (snd (Archive now email rid db))" "tables_ok (snd (MarkAllRead now email db))"
  unfolding MarkRead_def Archive_def MarkAllRead_def updateRecipientTimestamp_def
  by (simp_all split: prod.split, (intro allI impI, erule updateRecipients_cancel_ok[OF assms, rotated], simp add: recipientKey_def)+)

lemma ResolveNotifications_ok:
  assumes "tables_ok db" "ResolveNotifications now i db = Some (n, db')"
  shows "tables_ok db'"
proof -
  let ?P = "\<lambda>r. rr_ResolvedAt r = None \<and> recipientInScope i db r"
  let ?f = "\<lambda>r. r\<lparr>rr_ResolvedAt := setNow now (rr_ResolvedAt r)\<rparr>"
  let ?db = "db\<lparr>tb_Recipients := map (\<lambda>r. if ?P r then ?f r else r) (tb_Recipients db)\<rparr>"
  have "tables_ok (cancelWhere now (deliveryInScope i ?db) ''notification_resolved'' ?db)"
  proof (rule tables_ok_deactivate[OF assms(1)])
    fix r and d :: deliveryRow assume r: "r \<in> set (tb_Recipients db)" "?P r" "dl_RecipientID d = rr_ID r"
    then have "?f r \<in> set (tb_Recipients ?db)" by force
    moreover have "rr_ID (?f r) = dl_RecipientID d \<and> recipientInScope i ?db (?f r)" using r by (simp add: recipientInScope_def)
    ultimately show "deliveryInScope i ?db d" unfolding deliveryInScope_def list_ex_iff by blast
  qed (simp add: recipientKey_def)
  then show ?thesis using assms(2) by (auto simp: ResolveNotifications_def updateRecipients_def split: if_splits)
qed

section \<open>Claiming and completing\<close>

lemma recipientOf_active:
  "recipientOf db d = Some r \<Longrightarrow> \<not> inactive r \<Longrightarrow> dl_RecipientID d \<in> active_ids db"
  by (auto simp: recipientOf_def active_ids_iff dest!: find_SomeD)

lemma claimed_due:
  "x \<in> set (map dl_ID (take n (sort_key dueOrder (filter P ds)))) \<Longrightarrow> \<exists>d \<in> set ds. dl_ID d = x \<and> P d"
  using set_take_subset by fastforce

lemma unique_delivery: "keys_ok db \<Longrightarrow> d \<in> set (tb_Deliveries db) \<Longrightarrow> e \<in> set (tb_Deliveries db) \<Longrightarrow> dl_ID d = dl_ID e \<Longrightarrow> d = e"
  by (auto simp: keys_ok_def dest: map_of_eq_Some_iff inj_onD simp: distinct_map)

lemma locked_ok: "delivery_ok d \<Longrightarrow> delivery_ok (locked now w d)"
  by (auto simp: delivery_ok_def locked_def)

lemma locked_simps [simp]: "dl_ID (locked now w d) = dl_ID d" "deliveryKey (locked now w d) = deliveryKey d"
  "dl_RecipientID (locked now w d) = dl_RecipientID d" "dl_Channel (locked now w d) = dl_Channel d"
  by (simp_all add: locked_def deliveryKey_def)

lemma ClaimDueDeliveries_ok:
  assumes "tables_ok db" "ClaimDueDeliveries busy now w n db = (ds, db')"
  shows "tables_ok db'"
proof -
  let ?ids = "map dl_ID (take (if n \<le> 0 then 10 else nat n) (sort_key dueOrder (filter (\<lambda>d. due now db d \<and> \<not> busy (dl_ID d)) (tb_Deliveries db))))"
  have k: "keys_ok db" using assms(1) by (simp add: tables_ok_def)
  have db': "db' = db\<lparr>tb_Deliveries := map (\<lambda>d. if dl_ID d \<in> set ?ids then locked now w d else d) (tb_Deliveries db)\<rparr>"
    using assms(2) unfolding ClaimDueDeliveries_def Let_def by simp
  show ?thesis
  proof (rule tables_ok_map_deliveries[OF assms(1), where g = "\<lambda>d. if dl_ID d \<in> set ?ids then locked now w d else d"])
    fix d assume d: "d \<in> set (tb_Deliveries db)"
    have "dl_RecipientID d \<in> active_ids db" if i: "dl_ID d \<in> set ?ids"
    proof -
      obtain e where "e \<in> set (tb_Deliveries db)" "dl_ID e = dl_ID d" "due now db e" using claimed_due[OF i] by blast
      then have "due now db d" using unique_delivery[OF k d] by metis
      then show ?thesis by (auto simp: due_def intro: recipientOf_active split: option.splits)
    qed
    moreover have "delivery_ok d" using assms(1) d by (simp add: tables_ok_def list_all_iff)
    ultimately show "dl_ID (if dl_ID d \<in> set ?ids then locked now w d else d) = dl_ID d \<and>
        deliveryKey (if dl_ID d \<in> set ?ids then locked now w d else d) = deliveryKey d \<and>
        delivery_ok (if dl_ID d \<in> set ?ids then locked now w d else d) \<and>
        (dl_Status (if dl_ID d \<in> set ?ids then locked now w d else d) = ''locked'' \<longrightarrow> dl_RecipientID d \<in> active_ids db)"
      using assms(1) d locked_ok by (auto simp: tables_ok_def locks_ok_def)
  qed (simp_all add: db')
qed

lemma completed_simps [simp]: "dl_ID (completed now st c d) = dl_ID d" "deliveryKey (completed now st c d) = deliveryKey d"
  by (simp_all add: completed_def deliveryKey_def split: option.split)

lemma completed_ok:
  assumes "delivery_ok d" "dc_RetryAt c \<noteq> None \<or> finished st"
  shows "delivery_ok (completed now st c d) \<and> dl_Status (completed now st c d) \<noteq> ''locked''"
proof (cases "dc_RetryAt c")
  case None
  then have "st \<in> {''sent'', ''skipped'', ''failed'', ''cancelled''}" using assms(2) by (simp add: finished_def status_defs)
  then show ?thesis using assms(1) None by (auto simp: completed_def delivery_ok_def)
next
  case (Some a)
  then show ?thesis using assms(1) by (simp add: completed_def delivery_ok_def)
qed

lemma CompleteDelivery_ok:
  assumes "tables_ok db" "CompleteDelivery now c db = Some db'"
  shows "tables_ok db'"
proof -
  consider "db' = db" | ats where "db' = db\<lparr>tb_Attempts := ats, tb_Deliveries := map (\<lambda>d. if dl_ID d = dc_DeliveryID c \<and> dl_Status d = ''locked''
       then completed now (TrimSpace (dc_Status c)) c d else d) (tb_Deliveries db)\<rparr>"
     "dc_RetryAt c \<noteq> None \<or> finished (TrimSpace (dc_Status c))"
    using assms(2) by (auto simp: CompleteDelivery_def Let_def split: if_splits option.splits)
  then show ?thesis
  proof cases
    case 2
    show ?thesis
      by (rule tables_ok_map_deliveries[OF assms(1), where g = "\<lambda>d. if dl_ID d = dc_DeliveryID c \<and> dl_Status d = ''locked''
            then completed now (TrimSpace (dc_Status c)) c d else d"])
         (use assms(1) completed_ok[OF _ 2(2)] in \<open>simp_all add: 2(1) tables_ok_def locks_ok_def list_all_iff\<close>)
  qed (use assms(1) in simp)
qed

end
