(* ===== verification/NotifyEvolve.thy ===== *)
theory NotifyEvolve
  imports NotifyTables
begin

text \<open>
  What the operations of the store do to each delivery: which ones stay, which are new, and how status and
  attempts change. The rules compose along the loops of \<open>CreateNotification\<close>.
\<close>

section \<open>How an operation changes the deliveries\<close>

definition freshDelivery :: "deliveryRow \<Rightarrow> bool" where
  "freshDelivery d \<longleftrightarrow> dl_AttemptCount d = 0 \<and> (dl_Status d = ''pending'' \<or> dl_Status d = ''sent'')"

text \<open>Each delivery stays, related to what it was; others are new.\<close>

definition evolves :: "(deliveryRow \<Rightarrow> deliveryRow \<Rightarrow> bool) \<Rightarrow> notifyTables \<Rightarrow> notifyTables \<Rightarrow> bool" where
  "evolves R db db' \<longleftrightarrow>
     (\<forall>d \<in> set (tb_Deliveries db). \<exists>d' \<in> set (tb_Deliveries db'). dl_ID d' = dl_ID d \<and> R d d') \<and>
     (\<forall>d' \<in> set (tb_Deliveries db'). (\<exists>d \<in> set (tb_Deliveries db). dl_ID d' = dl_ID d \<and> R d d') \<or>
        (dl_ID d' \<notin> dl_ID ` set (tb_Deliveries db) \<and> freshDelivery d'))"

lemma evolves_refl: "(\<And>d. R d d) \<Longrightarrow> tb_Deliveries db' = tb_Deliveries db \<Longrightarrow> evolves R db db'"
  by (auto simp: evolves_def)

lemma evolves_map:
  assumes "tb_Deliveries db' = map g (tb_Deliveries db)" "\<And>d. d \<in> set (tb_Deliveries db) \<Longrightarrow> dl_ID (g d) = dl_ID d \<and> R d (g d)"
  shows "evolves R db db'"
  using assms by (auto simp: evolves_def)

lemma evolves_trans:
  assumes "evolves R a b" "evolves R b c" "transp R" "\<And>d d'. freshDelivery d \<Longrightarrow> R d d' \<Longrightarrow> freshDelivery d'"
  shows "evolves R a c"
  unfolding evolves_def
proof (intro conjI ballI)
  fix d assume "d \<in> set (tb_Deliveries a)"
  then obtain e where "e \<in> set (tb_Deliveries b)" "dl_ID e = dl_ID d" "R d e" using assms(1) unfolding evolves_def by blast
  moreover from this obtain f where "f \<in> set (tb_Deliveries c)" "dl_ID f = dl_ID e" "R e f" using assms(2) unfolding evolves_def by blast
  ultimately show "\<exists>d' \<in> set (tb_Deliveries c). dl_ID d' = dl_ID d \<and> R d d'" using assms(3) by (metis transpD)
next
  fix f assume f: "f \<in> set (tb_Deliveries c)"
  have sub: "dl_ID d \<in> dl_ID ` set (tb_Deliveries b)" if d: "d \<in> set (tb_Deliveries a)" for d
  proof -
    obtain e where "e \<in> set (tb_Deliveries b)" "dl_ID e = dl_ID d" using assms(1) d unfolding evolves_def by blast
    then show ?thesis by (metis image_eqI)
  qed
  consider e where "e \<in> set (tb_Deliveries b)" "dl_ID f = dl_ID e" "R e f" | "dl_ID f \<notin> dl_ID ` set (tb_Deliveries b)" "freshDelivery f"
    using assms(2) f unfolding evolves_def by blast
  then show "(\<exists>d \<in> set (tb_Deliveries a). dl_ID f = dl_ID d \<and> R d f) \<or> (dl_ID f \<notin> dl_ID ` set (tb_Deliveries a) \<and> freshDelivery f)"
  proof cases
    case 1
    then consider d where "d \<in> set (tb_Deliveries a)" "dl_ID e = dl_ID d" "R d e" | "dl_ID e \<notin> dl_ID ` set (tb_Deliveries a)" "freshDelivery e"
      using assms(1) unfolding evolves_def by blast
    then show ?thesis
    proof cases
      case 1
      then have "R d f" using \<open>R e f\<close> assms(3) by (meson transpD)
      then show ?thesis using 1 \<open>dl_ID f = dl_ID e\<close> by auto
    next
      case 2
      then show ?thesis using \<open>R e f\<close> \<open>dl_ID f = dl_ID e\<close> assms(4) by auto
    qed
  qed (use sub in force)
qed

lemma evolves_fold:
  assumes "\<And>x db. x \<in> set xs \<Longrightarrow> I db \<Longrightarrow> evolves R db (f x db) \<and> I (f x db)" "I db" "transp R" "\<And>d. R d d"
    "\<And>d d'. freshDelivery d \<Longrightarrow> R d d' \<Longrightarrow> freshDelivery d'"
  shows "evolves R db (fold f xs db) \<and> I (fold f xs db)"
  using assms(1,2)
proof (induction xs arbitrary: db)
  case Nil
  then show ?case using evolves_refl[of R] assms(4) by simp
next
  case (Cons x xs)
  then have "evolves R db (f x db)" "I (f x db)" by simp_all
  moreover have "evolves R (f x db) (fold f xs (f x db)) \<and> I (fold f xs (f x db))" using Cons.IH[of "f x db"] Cons.prems calculation by simp
  ultimately show ?case using evolves_trans[OF _ _ assms(3,5)] by simp
qed

text \<open>The ways a delivery changes.\<close>

definition restart :: "bool \<Rightarrow> deliveryRow \<Rightarrow> deliveryRow \<Rightarrow> bool" where
  "restart re d d' \<longleftrightarrow> d' = d \<or> (re \<and> finished (dl_Status d) \<and> freshDelivery d')"

definition cancel :: "deliveryRow \<Rightarrow> deliveryRow \<Rightarrow> bool" where
  "cancel d d' \<longleftrightarrow> d' = d \<or> (open_delivery d \<and> dl_Status d' = ''cancelled'' \<and> dl_AttemptCount d' = dl_AttemptCount d)"

definition claim :: "int set \<Rightarrow> deliveryRow \<Rightarrow> deliveryRow \<Rightarrow> bool" where
  "claim ids d d' \<longleftrightarrow> (if dl_ID d \<in> ids then dl_Status d = ''pending'' \<and> dl_Status d' = ''locked'' \<and> dl_AttemptCount d' = dl_AttemptCount d + 1
     else d' = d)"

definition complete :: "deliveryCompletion \<Rightarrow> deliveryRow \<Rightarrow> deliveryRow \<Rightarrow> bool" where
  "complete c d d' \<longleftrightarrow>
     (if dl_ID d = dc_DeliveryID c \<and> dl_Status d = ''locked''
      then (if dc_RetryAt c = None then finished (dl_Status d') else dl_Status d' = ''pending'') \<and> dl_AttemptCount d' = dl_AttemptCount d
      else d' = d)"

lemma restart_trans: "transp (restart re)" "freshDelivery d \<Longrightarrow> restart re d d' \<Longrightarrow> freshDelivery d'" "restart re d d"
  by (auto simp: restart_def transp_def)

lemma upsertDelivery_evolves:
  assumes "tables_ok db" "fst x \<in> rr_ID ` set (tb_Recipients db)" "ds_Status s = ''pending'' \<or> ds_Status s = ''sent''" "snd x \<longrightarrow> re"
  shows "evolves (restart re) db (upsertDelivery x s db)"
proof (cases "list_ex (isFor (fst x) s) (tb_Deliveries db)")
  case True
  have "restart re d (restarted (snd x) s d)" for d
    using assms(3,4) by (auto simp: restart_def restarted_def freshDelivery_def)
  then show ?thesis using True restart_trans(3)
    by (intro evolves_map[where g = "\<lambda>d. if isFor (fst x) s d then restarted (snd x) s d else d"])
       (auto simp: upsertDelivery_def Let_def split: prod.split)
next
  case False
  have "tb_NextDelivery db \<notin> dl_ID ` set (tb_Deliveries db)"
    by (rule below_fresh) (use assms(1) in \<open>simp add: tables_ok_def keys_ok_def\<close>)
  then show ?thesis using False assms(3) restart_trans(3)
    by (auto simp: evolves_def upsertDelivery_def Let_def freshDelivery_def split: prod.split)
qed

lemma upsertDeliveries_evolves:
  assumes "tables_ok db" "fst ` set xs \<subseteq> rr_ID ` set (tb_Recipients db)" "specs_ok specs" "\<And>x. x \<in> set xs \<Longrightarrow> snd x \<Longrightarrow> re"
  shows "evolves (restart re) db (upsertDeliveries xs specs db)"
proof -
  let ?I = "\<lambda>rs db'. tables_ok db' \<and> tb_Recipients db' = rs"
  have inner: "evolves (restart re) db' (fold (upsertDelivery x) specs db') \<and> ?I (tb_Recipients db) (fold (upsertDelivery x) specs db')"
    if "x \<in> set xs" "?I (tb_Recipients db) db'" for x db'
  proof (rule evolves_fold[where I = "?I (tb_Recipients db)", OF _ that(2) restart_trans(1,3,2)])
    fix s db1 assume s: "s \<in> set specs" "?I (tb_Recipients db) db1"
    have f: "fst x \<in> rr_ID ` set (tb_Recipients db1)" "ds_Status s = ''pending'' \<or> ds_Status s = ''sent''"
      using that(1) assms(2,3) s by (auto simp: specs_ok_def list_all_iff)
    show "evolves (restart re) db1 (upsertDelivery x s db1) \<and> ?I (tb_Recipients db) (upsertDelivery x s db1)"
      using upsertDelivery_evolves[OF _ f] upsertDelivery_ok[OF _ f] s(2) assms(4)[OF that(1)] by simp
  qed
  have "evolves (restart re) db (fold (\<lambda>x. fold (upsertDelivery x) specs) xs db) \<and>
      ?I (tb_Recipients db) (fold (\<lambda>x. fold (upsertDelivery x) specs) xs db)"
    by (rule evolves_fold[where I = "?I (tb_Recipients db)", OF inner _ restart_trans(1,3,2)]) (use assms(1) in simp_all)
  then show ?thesis unfolding upsertDeliveries_def by blast
qed

text \<open>A creation restarts deliveries only if a recipient of its notification was resolved.\<close>

definition reactivates :: "createInput \<Rightarrow> notifyTables \<Rightarrow> bool" where
  "reactivates c db \<longleftrightarrow>
     list_ex (\<lambda>n. nr_DedupeKey n = ci_DedupeKey c \<and>
       list_ex (\<lambda>r. rr_NotificationID r = nr_ID n \<and> rr_ResolvedAt r \<noteq> None) (tb_Recipients db)) (tb_Notifications db)"

definition noneResolved :: "int \<Rightarrow> notifyTables \<Rightarrow> bool" where
  "noneResolved nid db \<longleftrightarrow> (\<forall>r \<in> set (tb_Recipients db). rr_NotificationID r = nid \<longrightarrow> rr_ResolvedAt r = None)"

lemma upsertRecipient_flags:
  assumes "upsertRecipient now nid a db = ((rid, b), db')" "noneResolved nid db"
  shows "\<not> b \<and> noneResolved nid db'"
proof (cases "find (\<lambda>r. rr_NotificationID r = nid \<and> sameEmail (rr_Email r) (ad_Email a)) (tb_Recipients db)")
  case None
  define x where "x = \<lparr>rr_ID = tb_NextRecipient db, rr_NotificationID = nid, rr_Subject = ad_Subject a, rr_Email = ad_Email a, rr_Name = ad_Name a,
      rr_ReadAt = None, rr_ArchivedAt = None, rr_ResolvedAt = None, rr_CreatedAt = now\<rparr>"
  have x: "rr_ResolvedAt x = None" "\<not> b"
    "tb_Recipients db' = map (\<lambda>r. if rr_ID r = rid then refreshed a False r else r) (tb_Recipients db @ [x])"
    using assms(1) None by (auto simp: upsertRecipient_def updateRecipient_def Let_def x_def)
  have "rr_ResolvedAt (refreshed a False r) = rr_ResolvedAt r" for r by (simp add: refreshed_def)
  then show ?thesis using assms(2) x by (auto simp: noneResolved_def)
next
  case (Some r)
  then have "\<not> b" "db' = updateRecipient (rr_ID r) (refreshed a False) db"
    using assms find_SomeD[OF Some] by (auto simp: upsertRecipient_def noneResolved_def Let_def)
  moreover have "rr_ResolvedAt (refreshed a False r) = rr_ResolvedAt r" for r by (simp add: refreshed_def)
  ultimately show ?thesis using assms(2) by (auto simp: noneResolved_def updateRecipient_def)
qed

lemma upsertRecipients_flags:
  "upsertRecipients now nid as db = (xs, db') \<Longrightarrow> noneResolved nid db \<Longrightarrow> (\<forall>x \<in> set xs. \<not> snd x) \<and> noneResolved nid db'"
proof (induction as arbitrary: db xs)
  case (Cons a as)
  obtain rid b db1 where u: "upsertRecipient now nid a db = ((rid, b), db1)" by (metis prod.exhaust)
  obtain ys db2 where us: "upsertRecipients now nid as db1 = (ys, db2)" by (metis prod.exhaust)
  have e: "xs = (rid, b) # ys" "db' = db2" using Cons.prems(1) u us by simp_all
  show ?case using upsertRecipient_flags[OF u Cons.prems(2)] Cons.IH[of db1 ys] us e by auto
qed simp

lemma upsertRecipients_deliveries: "tb_Deliveries (snd (upsertRecipients now nid as db)) = tb_Deliveries db"
proof (induction as arbitrary: db)
  case (Cons a as)
  have "tb_Deliveries (snd (upsertRecipient now nid a db)) = tb_Deliveries db" for a db
    by (simp add: upsertRecipient_def updateRecipient_def Let_def split: option.split)
  then show ?case using Cons by (simp add: case_prod_beta)
qed simp

lemma CreateNotification_evolves:
  assumes "tables_ok db" "CreateNotification now c db = Some (res, db')" "specs_ok (ci_Deliveries c)" "reactivates c db \<longrightarrow> re"
  shows "evolves (restart re) db db'"
proof -
  obtain nid created db1 where n: "upsertNotification now c db = ((nid, created), db1)" by (metis prod.exhaust)
  obtain xs db2 where r: "upsertRecipients now nid (ci_Recipients c) db1 = (xs, db2)" by (metis prod.exhaust)
  note o1 = upsertNotification_ok[OF assms(1) n]
  have o2: "tables_ok db2 \<and> fst ` set xs \<subseteq> rr_ID ` set (tb_Recipients db2)" using upsertRecipients_ok[OF o1(1,2) r] by blast
  have "noneResolved nid db1" if "\<not> reactivates c db"
  proof (cases "find (\<lambda>n. nr_DedupeKey n = ci_DedupeKey c) (tb_Notifications db)")
    case None
    then have "nid = tb_NextNotification db" using n by (auto simp: upsertNotification_def Let_def)
    moreover have "tb_NextNotification db \<notin> nr_ID ` set (tb_Notifications db)"
      by (rule below_fresh) (use assms(1) in \<open>simp add: tables_ok_def keys_ok_def\<close>)
    moreover have "rr_NotificationID ` set (tb_Recipients db) \<subseteq> nr_ID ` set (tb_Notifications db)"
      using assms(1) by (simp add: tables_ok_def keys_ok_def)
    ultimately have "nid \<notin> rr_NotificationID ` set (tb_Recipients db)" by (simp only:) (rule contra_subsetD)
    then have "rr_NotificationID r \<noteq> nid" if "r \<in> set (tb_Recipients db)" for r using that by blast
    then show ?thesis by (simp add: noneResolved_def o1(3))
  next
    case (Some m)
    then have "nid = nr_ID m" "m \<in> set (tb_Notifications db)" "nr_DedupeKey m = ci_DedupeKey c"
      using n by (auto simp: upsertNotification_def Let_def dest: find_SomeD)
    then show ?thesis using that o1(3) by (auto simp: reactivates_def noneResolved_def list_ex_iff)
  qed
  then have flags: "snd x \<longrightarrow> re" if "x \<in> set xs" for x using upsertRecipients_flags[OF r] that assms(4) by blast
  have d: "tb_Deliveries db2 = tb_Deliveries db" using o1(4) upsertRecipients_deliveries[of now nid "ci_Recipients c" db1] r by simp
  have "evolves (restart re) db2 (upsertDeliveries xs (ci_Deliveries c) db2)"
    using upsertDeliveries_evolves[OF _ _ assms(3)] o2 flags by blast
  then show ?thesis using assms(2) n r d by (auto simp: CreateNotification_def evolves_def split: if_splits)
qed

lemma cancelWhere_evolves: "tb_Deliveries db0 = tb_Deliveries db \<Longrightarrow> evolves cancel db (cancelWhere now P reason db0)"
  by (rule evolves_map[where g = "\<lambda>d. if P d \<and> open_delivery d
            then d\<lparr>dl_Status := ''cancelled'', dl_LockedAt := None, dl_LockedBy := '''', dl_LastError := reason\<rparr> else d"])
     (auto simp: cancelWhere_def cancel_def)

lemma cancelPending_evolves:
  "tb_Deliveries db0 = tb_Deliveries db \<Longrightarrow> evolves cancel db (cancelPendingDeliveriesForRecipients now ids reason db0)"
  by (auto simp: cancelPendingDeliveriesForRecipients_def cancel_def intro: cancelWhere_evolves evolves_refl)

lemma marks_evolve:
  "evolves cancel db (snd (MarkRead now email rid db))" "evolves cancel db (snd (Archive now email rid db))"
  "evolves cancel db (snd (MarkAllRead now email db))"
  by (simp_all add: MarkRead_def Archive_def MarkAllRead_def updateRecipientTimestamp_def updateRecipients_def cancelPending_evolves)

lemma ResolveNotifications_evolves: "ResolveNotifications now i db = Some (n, db') \<Longrightarrow> evolves cancel db db'"
  by (auto simp: ResolveNotifications_def updateRecipients_def cancelWhere_evolves split: if_splits)

text \<open>What a claim returns: the deliveries that it locks, once each.\<close>

lemma ClaimDueDeliveries_evolves:
  assumes "tables_ok db" "ClaimDueDeliveries busy now w n db = (ds, db')"
  shows "\<exists>ids. evolves (claim ids) db db' \<and> ids \<subseteq> dl_ID ` set (tb_Deliveries db) \<and> cd_ID ` set ds \<subseteq> ids \<and> distinct (map cd_ID ds) \<and>
    (\<forall>x \<in> set ds. \<exists>d \<in> set (tb_Deliveries db'). dl_ID d = cd_ID x \<and> dl_AttemptCount d = cd_AttemptCount x)"
proof -
  let ?ids = "map dl_ID (take (if n \<le> 0 then 10 else nat n) (sort_key dueOrder (filter (\<lambda>d. due now db d \<and> \<not> busy (dl_ID d)) (tb_Deliveries db))))"
  let ?g = "\<lambda>d. if dl_ID d \<in> set ?ids then locked now w d else d"
  have k: "keys_ok db" using assms(1) by (simp add: tables_ok_def)
  have db': "db' = db\<lparr>tb_Deliveries := map ?g (tb_Deliveries db)\<rparr>"
    and ds: "ds = List.map_filter (claimedOf db') (sort_key dueOrder (filter (\<lambda>d. dl_ID d \<in> set ?ids) (tb_Deliveries db')))"
    using assms(2) unfolding ClaimDueDeliveries_def Let_def by auto
  have p: "dl_Status d = ''pending''" if "d \<in> set (tb_Deliveries db)" and i: "dl_ID d \<in> set ?ids" for d
  proof -
    obtain e where "e \<in> set (tb_Deliveries db)" "dl_ID e = dl_ID d" "due now db e" using claimed_due[OF i] by blast
    then have "due now db d" using unique_delivery[OF k that(1)] by metis
    then show ?thesis by (simp add: due_def deliveryStatusPending_def)
  qed
  have "evolves (claim (set ?ids)) db db'"
    by (rule evolves_map[where g = ?g]) (use p in \<open>auto simp: db' claim_def locked_def\<close>)
  moreover have "set ?ids \<subseteq> dl_ID ` set (tb_Deliveries db)" using set_take_subset by fastforce
  moreover have c: "cd_ID x = dl_ID d \<and> cd_AttemptCount x = dl_AttemptCount d" if "claimedOf db' d = Some x" for x d
    using that by (auto simp: claimedOf_def bind_eq_Some_conv)
  have "cd_ID ` set ds \<subseteq> set ?ids" using c by (fastforce simp: ds map_filter_def)
  moreover have "distinct (map dl_ID (tb_Deliveries db'))" using ClaimDueDeliveries_ok[OF assms] by (simp add: tables_ok_def keys_ok_def)
  then have dist: "distinct (map dl_ID (sort_key dueOrder (filter (\<lambda>d. dl_ID d \<in> set ?ids) (tb_Deliveries db'))))"
    by (simp add: distinct_map inj_on_def)
  have "distinct (map cd_ID (List.map_filter (claimedOf db') es))" if "distinct (map dl_ID es)" for es
    using that
  proof (induction es)
    case (Cons e es)
    have "dl_ID e \<notin> cd_ID ` set (List.map_filter (claimedOf db') es)" using Cons.prems c by (fastforce simp: map_filter_def)
    then show ?case using Cons c by (auto simp: map_filter_simps split: option.split)
  qed (simp add: map_filter_simps)
  from this[OF dist] have "distinct (map cd_ID ds)" by (simp add: ds)
  moreover have "\<forall>x \<in> set ds. \<exists>d \<in> set (tb_Deliveries db'). dl_ID d = cd_ID x \<and> dl_AttemptCount d = cd_AttemptCount x"
    using c by (fastforce simp: ds map_filter_def)
  ultimately show ?thesis by blast
qed

lemma CompleteDelivery_evolves:
  assumes "tables_ok db" "CompleteDelivery now c db = Some db'"
  shows "evolves (complete c) db db'"
proof -
  consider "db' = db" "\<forall>d \<in> set (tb_Deliveries db). dl_ID d = dc_DeliveryID c \<longrightarrow> dl_Status d \<noteq> ''locked''"
    | ats where "db' = db\<lparr>tb_Attempts := ats, tb_Deliveries := map (\<lambda>d. if dl_ID d = dc_DeliveryID c \<and> dl_Status d = ''locked''
       then completed now (TrimSpace (dc_Status c)) c d else d) (tb_Deliveries db)\<rparr>"
     "dc_RetryAt c \<noteq> None \<or> finished (TrimSpace (dc_Status c))"
  proof (cases "find (\<lambda>d. dl_ID d = dc_DeliveryID c) (tb_Deliveries db)")
    case None
    then have "\<forall>d \<in> set (tb_Deliveries db). dl_ID d \<noteq> dc_DeliveryID c" by (auto simp: find_None_iff)
    then show ?thesis using that(1) assms(2) None by (auto simp: CompleteDelivery_def Let_def split: if_splits)
  next
    case (Some d)
    have k: "keys_ok db" using assms(1) by (simp add: tables_ok_def)
    have u: "e = d" if "e \<in> set (tb_Deliveries db)" "dl_ID e = dc_DeliveryID c" for e
      using unique_delivery[OF k that(1)] that(2) find_SomeD[OF Some] by auto
    show ?thesis
    proof (cases "dl_Status d = ''locked''")
      case True
      then show ?thesis using that(2) assms(2) Some by (auto simp: CompleteDelivery_def Let_def split: if_splits)
    next
      case False
      then show ?thesis using that(1) assms(2) Some u by (auto simp: CompleteDelivery_def Let_def split: if_splits)
    qed
  qed
  then show ?thesis
  proof cases
    case 1
    then show ?thesis by (intro evolves_map[where g = "\<lambda>d. d"]) (auto simp: complete_def)
  next
    case 2
    have "complete c d (completed now (TrimSpace (dc_Status c)) c d)" if "dl_ID d = dc_DeliveryID c" "dl_Status d = ''locked''" for d
      using 2(2) that by (auto simp: complete_def completed_def split: option.splits)
    then show ?thesis
      by (intro evolves_map[where g = "\<lambda>d. if dl_ID d = dc_DeliveryID c \<and> dl_Status d = ''locked''
            then completed now (TrimSpace (dc_Status c)) c d else d"]) (auto simp: 2(1) complete_def)
  qed
qed

end
