(* ===== verification/NotifySystem.thy ===== *)
theory NotifySystem
  imports NotifyEvolve
begin

text \<open>
  Requests, resolutions and several workers at once on the tables of the notifications. An operation of the
  store takes effect as a whole; a worker claims deliveries, sends their messages and completes them one by
  one, and may stop at any point. Clocks are arbitrary.
\<close>

section \<open>Steps\<close>

text \<open>A worker rests, has deliveries to work on, or is about to complete one.\<close>

datatype wstate = Resting | Holding "claimedDelivery list" | Completing claimedDelivery deliveryCompletion "claimedDelivery list"

text \<open>The mails handed to the mailer, with the delivery and whether they were accepted.\<close>

record notifyWorld =
  wd_Tables :: notifyTables
  wd_Workers :: "nat \<Rightarrow> wstate"
  wd_Mails :: "(int \<times> bool) list"

definition setWorker :: "nat \<Rightarrow> wstate \<Rightarrow> notifyWorld \<Rightarrow> notifyWorld" where
  "setWorker k s v = v\<lparr>wd_Workers := (wd_Workers v)(k := s)\<rparr>"

definition setTables :: "notifyTables \<Rightarrow> notifyWorld \<Rightarrow> notifyWorld" where
  "setTables db v = v\<lparr>wd_Tables := db\<rparr>"

text \<open>Whether a notification may restart deliveries is a parameter of the steps.\<close>

inductive notify_step :: "addressParser \<Rightarrow> (nat \<Rightarrow> worker) \<Rightarrow> bool \<Rightarrow> notifyWorld \<Rightarrow> notifyWorld \<Rightarrow> bool" for parse ws re where
  notify: "notifyRequest parse now i (wd_Tables v) = Inr c \<Longrightarrow> (reactivates c (wd_Tables v) \<longrightarrow> re) \<Longrightarrow>
    CreateNotification now c (wd_Tables v) = Some (res, db) \<Longrightarrow> notify_step parse ws re v (setTables db v)"
| resolve: "ResolveAll now r (wd_Tables v) = Some db \<Longrightarrow> notify_step parse ws re v (setTables db v)"
| read: "handleRead parse now rq (wd_Tables v) = (resp, db) \<Longrightarrow> notify_step parse ws re v (setTables db v)"
| read_all: "handleReadAll parse now rq (wd_Tables v) = (resp, db) \<Longrightarrow> notify_step parse ws re v (setTables db v)"
| archive: "handleArchive parse now rq (wd_Tables v) = (resp, db) \<Longrightarrow> notify_step parse ws re v (setTables db v)"
| claim: "wd_Workers v k = Resting \<Longrightarrow>
    ClaimDueDeliveries busy now (wk_WorkerID (ws k)) defaultClaimLimit (wd_Tables v) = (ds, db) \<Longrightarrow>
    notify_step parse ws re v (setWorker k (Holding ds) (setTables db v))"
| send: "wd_Workers v k = Holding (d # ds) \<Longrightarrow> processDelivery (ws k) d = SendFirst m f \<Longrightarrow>
    notify_step parse ws re v (setWorker k (Completing d (f outcome) ds) (v\<lparr>wd_Mails := wd_Mails v @ [(cd_ID d, outcome = None)]\<rparr>))"
| skip: "wd_Workers v k = Holding (d # ds) \<Longrightarrow> processDelivery (ws k) d = CompleteNow c \<Longrightarrow>
    notify_step parse ws re v (setWorker k (Completing d c ds) v)"
| complete: "wd_Workers v k = Completing d c ds \<Longrightarrow> CompleteDelivery now c (wd_Tables v) = Some db \<Longrightarrow>
    notify_step parse ws re v (setWorker k (Holding ds) (setTables db v))"
| complete_failed: "wd_Workers v k = Completing d c ds \<Longrightarrow> notify_step parse ws re v (setWorker k (Holding ds) v)"
| finish: "wd_Workers v k = Holding [] \<Longrightarrow> notify_step parse ws re v (setWorker k Resting v)"
| stop: "notify_step parse ws re v (setWorker k Resting v)"

lemma world_simps [simp]:
  "wd_Tables (setWorker k s v) = wd_Tables v" "wd_Tables (setTables db v) = db" "wd_Mails (setWorker k s v) = wd_Mails v"
  "wd_Mails (setTables db v) = wd_Mails v" "wd_Workers (setTables db v) = wd_Workers v"
  "wd_Workers (setWorker k s v) = (wd_Workers v)(k := s)"
  by (simp_all add: setWorker_def setTables_def)

section \<open>The operations behind the steps\<close>

lemma emailSpecs_ok: "emailSpecs now steps = Some specs \<Longrightarrow> specs_ok specs"
  by (induction steps arbitrary: specs) (auto simp: specs_ok_def status_defs split: if_splits option.splits)

lemma policy_specs_ok: "deliverySpecsForPolicy p now = Some specs \<Longrightarrow> specs_ok specs"
  using emailSpecs_ok[of now "dp_EmailSteps p"]
  by (auto simp: deliverySpecsForPolicy_def Let_def specs_ok_def status_defs split: if_splits)

lemma notifyRequest_specs: "notifyRequest parse now i db = Inr c \<Longrightarrow> specs_ok (ci_Deliveries c)"
  by (auto simp: notifyRequest_def Let_def bind_eq_Some_conv intro: policy_specs_ok split: if_splits option.splits)

lemma withUser_cases:
  assumes "withUser parse rq k db = (resp, db')"
  obtains "db' = db" | email where "k email db = (resp, db')"
  using assms by (auto simp: withUser_def split: option.splits)

lemma handlers_cases:
  assumes "handleRead parse now rq db = (resp, db') \<or> handleReadAll parse now rq db = (resp, db') \<or> handleArchive parse now rq db = (resp, db')"
  shows "db' = db \<or> (\<exists>email rid. db' = snd (MarkRead now email rid db) \<or> db' = snd (Archive now email rid db) \<or> db' = snd (MarkAllRead now email db))"
  using assms unfolding handleRead_def handleReadAll_def handleArchive_def
proof (elim disjE withUser_cases)
qed (auto simp: updatedOr404_def split: option.splits prod.splits if_splits, (metis snd_conv)+)

lemma handlers_ok:
  assumes "tables_ok db" "handleRead parse now rq db = (resp, db') \<or> handleReadAll parse now rq db = (resp, db') \<or> handleArchive parse now rq db = (resp, db')"
  shows "tables_ok db' \<and> evolves cancel db db'"
  using handlers_cases[OF assms(2)] marks_ok[OF assms(1)] marks_evolve[of db] assms(1)
  by (auto simp: cancel_def intro: evolves_refl)

lemma ResolveAll_ok:
  assumes "tables_ok db" "ResolveAll now r db = Some db'"
  shows "tables_ok db' \<and> evolves cancel db db'"
  using assms ResolveNotifications_ok ResolveNotifications_evolves by (fastforce simp: ResolveAll_def)

lemma notify_step_ok:
  assumes "notify_step parse ws re v v'" "tables_ok (wd_Tables v)"
  shows "tables_ok (wd_Tables v')"
  using assms
proof (induction rule: notify_step.induct)
  case (notify now i v c res db)
  then show ?case using CreateNotification_ok notifyRequest_specs by (simp; blast)
next
  case (resolve now r v db)
  then show ?case using ResolveAll_ok by (simp; blast)
next
  case (claim v k busy now ds db)
  then show ?case using ClaimDueDeliveries_ok by (simp; blast)
next
  case (complete v k d c ds now db)
  then show ?case using CompleteDelivery_ok by (simp; blast)
next
  case (read now rq v resp db)
  then show ?case using handlers_ok by (simp; blast)
next
  case (read_all now rq v resp db)
  then show ?case using handlers_ok by (simp; blast)
next
  case (archive now rq v resp db)
  then show ?case using handlers_ok by (simp; blast)
qed simp_all

text \<open>C9: Whatever requests, resolutions and workers do at once, the tables stay well formed: keys are unique, references
  exist, the columns of a delivery agree with its status, and a delivery has the status locked only while
  its recipient has not read, archived or resolved the notification. This is about the stored status: a
  worker that claimed the delivery before that may still have it in its batch, send the mail and try to complete it.\<close>

theorem tables_stay_well_formed:
  assumes "(notify_step parse ws re)\<^sup>*\<^sup>* v v'" "tables_ok (wd_Tables v)"
  shows "tables_ok (wd_Tables v')"
  using assms by (induction rule: rtranclp_induct) (auto intro: notify_step_ok)

end
