(* ===== verification/NotifyMails.thy ===== *)
theory NotifyMails
  imports NotifySystem
begin

text \<open>
  How often a delivery is mailed. A claim of a delivery is held by one worker, with the number of
  attempts the delivery then had, until it is completed; the number of its mails never exceeds the number of
  its attempts.
\<close>

section \<open>Who holds what\<close>

primrec unsent :: "wstate \<Rightarrow> claimedDelivery list" where
  "unsent Resting = []"
| "unsent (Holding ds) = ds"
| "unsent (Completing d c ds) = ds"

primrec held :: "wstate \<Rightarrow> claimedDelivery list" where
  "held Resting = []"
| "held (Holding ds) = ds"
| "held (Completing d c ds) = d # ds"

definition heldIDs :: "notifyWorld \<Rightarrow> nat \<Rightarrow> int set" where
  "heldIDs v k = cd_ID ` set (held (wd_Workers v k))"

definition waiting :: "notifyWorld \<Rightarrow> int set" where
  "waiting v = (\<Union>k. cd_ID ` set (unsent (wd_Workers v k)))"

text \<open>The mails of a delivery, in order: whether each was accepted.\<close>

definition mailsOf :: "int \<Rightarrow> notifyWorld \<Rightarrow> bool list" where
  "mailsOf x v = map snd (filter (\<lambda>m. fst m = x) (wd_Mails v))"

text \<open>What is held: each delivery once, by one worker, under the number of attempts it has, and not pending.\<close>

definition hands_ok :: "notifyWorld \<Rightarrow> bool" where
  "hands_ok v \<longleftrightarrow>
     (\<forall>k. distinct (map cd_ID (held (wd_Workers v k)))) \<and>
     (\<forall>k k'. k \<noteq> k' \<longrightarrow> heldIDs v k \<inter> heldIDs v k' = {}) \<and>
     (\<forall>k. \<forall>h \<in> set (held (wd_Workers v k)). \<exists>d \<in> set (tb_Deliveries (wd_Tables v)).
        dl_ID d = cd_ID h \<and> dl_AttemptCount d = cd_AttemptCount h \<and> dl_Status d \<noteq> ''pending'') \<and>
     (\<forall>k h c ds. wd_Workers v k = Completing h c ds \<longrightarrow> dc_DeliveryID c = cd_ID h \<and>
        (dc_RetryAt c \<noteq> None \<longrightarrow> cd_AttemptCount h < 3 \<and> True \<notin> set (mailsOf (cd_ID h) v)))"

text \<open>A delivery and its mails.\<close>

definition mails_ok :: "notifyWorld \<Rightarrow> deliveryRow \<Rightarrow> bool" where
  "mails_ok v d \<longleftrightarrow>
     dl_AttemptCount d \<le> 3 \<and> (dl_Status d = ''pending'' \<longrightarrow> dl_AttemptCount d < 3) \<and>
     int (length (mailsOf (dl_ID d) v)) + (if dl_ID d \<in> waiting v then 1 else 0) \<le> dl_AttemptCount d \<and>
     list_all Not (butlast (mailsOf (dl_ID d) v)) \<and>
     (True \<in> set (mailsOf (dl_ID d) v) \<longrightarrow> dl_Status d \<noteq> ''pending'' \<and> dl_ID d \<notin> waiting v)"

definition world_ok :: "notifyWorld \<Rightarrow> bool" where
  "world_ok v \<longleftrightarrow> tables_ok (wd_Tables v) \<and> hands_ok v \<and> (\<forall>d \<in> set (tb_Deliveries (wd_Tables v)). mails_ok v d) \<and>
     fst ` set (wd_Mails v) \<subseteq> dl_ID ` set (tb_Deliveries (wd_Tables v))"

lemma unsent_held: "set (unsent s) \<subseteq> set (held s)"
  by (cases s) auto

lemma waiting_held: "x \<in> waiting v \<Longrightarrow> \<exists>k. x \<in> heldIDs v k"
  using unsent_held by (fastforce simp: waiting_def heldIDs_def)

lemma hands_sim [simp]: "heldIDs (setTables db v) = heldIDs v" "waiting (setTables db v) = waiting v" "mailsOf x (setTables db v) = mailsOf x v"
  "mailsOf x (setWorker k s v) = mailsOf x v"
  by (simp_all add: heldIDs_def waiting_def mailsOf_def fun_eq_iff)

lemma mails_ok_tables: "mails_ok (setTables db v) d = mails_ok v d"
  by (simp add: mails_ok_def)

lemma no_mails: "fst ` set (wd_Mails v) \<subseteq> X \<Longrightarrow> x \<notin> X \<Longrightarrow> mailsOf x v = []"
  by (fastforce simp: mailsOf_def filter_empty_conv)

lemma heldD:
  assumes "hands_ok v" "h \<in> set (held (wd_Workers v k))"
  obtains d where "d \<in> set (tb_Deliveries (wd_Tables v))" "dl_ID d = cd_ID h" "dl_AttemptCount d = cd_AttemptCount h" "dl_Status d \<noteq> ''pending''"
  using assms unfolding hands_ok_def by blast

lemma not_waiting_new: "hands_ok v \<Longrightarrow> x \<notin> dl_ID ` set (tb_Deliveries (wd_Tables v)) \<Longrightarrow> x \<notin> waiting v"
  using waiting_held[of x v] by (auto simp: heldIDs_def) (metis heldD image_eqI)

section \<open>Operations that leave attempts alone\<close>

definition calm :: "deliveryRow \<Rightarrow> deliveryRow \<Rightarrow> bool" where
  "calm d d' \<longleftrightarrow> dl_AttemptCount d' = dl_AttemptCount d \<and> (dl_Status d' = ''pending'' \<longrightarrow> dl_Status d = ''pending'')"

lemma evolves_mono: "evolves R a b \<Longrightarrow> (\<And>d d'. d \<in> set (tb_Deliveries a) \<Longrightarrow> R d d' \<Longrightarrow> S d d') \<Longrightarrow> evolves S a b"
  unfolding evolves_def by blast

lemma calm_ways: "restart False d d' \<Longrightarrow> calm d d'" "cancel d d' \<Longrightarrow> calm d d'"
  by (auto simp: restart_def cancel_def calm_def)

lemma evolves_ids: "evolves R a b \<Longrightarrow> dl_ID ` set (tb_Deliveries a) \<subseteq> dl_ID ` set (tb_Deliveries b)"
proof (intro subsetI)
  fix x assume e: "evolves R a b" and "x \<in> dl_ID ` set (tb_Deliveries a)"
  then obtain d where d: "d \<in> set (tb_Deliveries a)" "x = dl_ID d" by blast
  obtain d' where "d' \<in> set (tb_Deliveries b)" "dl_ID d' = dl_ID d" using e d(1) unfolding evolves_def by blast
  then show "x \<in> dl_ID ` set (tb_Deliveries b)" using d(2) by (intro image_eqI[of _ _ d']) simp_all
qed

lemma hands_evolve:
  assumes "hands_ok v" "evolves R (wd_Tables v) db" "tables_ok (wd_Tables v)"
    "\<And>k h d d'. h \<in> set (held (wd_Workers v k)) \<Longrightarrow> d \<in> set (tb_Deliveries (wd_Tables v)) \<Longrightarrow> dl_ID d = cd_ID h \<Longrightarrow> R d d' \<Longrightarrow>
       dl_Status d \<noteq> ''pending'' \<Longrightarrow> dl_AttemptCount d' = dl_AttemptCount d \<and> dl_Status d' \<noteq> ''pending''"
  shows "hands_ok (setTables db v)"
proof -
  have "\<exists>d' \<in> set (tb_Deliveries db). dl_ID d' = cd_ID h \<and> dl_AttemptCount d' = cd_AttemptCount h \<and> dl_Status d' \<noteq> ''pending''"
    if h: "h \<in> set (held (wd_Workers v k))" for k h
  proof -
    obtain d where d: "d \<in> set (tb_Deliveries (wd_Tables v))" "dl_ID d = cd_ID h" "dl_AttemptCount d = cd_AttemptCount h" "dl_Status d \<noteq> ''pending''"
      using heldD[OF assms(1) h] .
    then obtain d' where "d' \<in> set (tb_Deliveries db)" "dl_ID d' = dl_ID d" "R d d'" using assms(2) unfolding evolves_def by blast
    then show ?thesis using assms(4)[OF h d(1,2) _ d(4)] d by auto
  qed
  then show ?thesis using assms(1) by (simp add: hands_ok_def)
qed

lemma world_calm:
  assumes "world_ok v" "evolves calm (wd_Tables v) db" "tables_ok db"
  shows "world_ok (setTables db v)"
proof -
  have ok: "tables_ok (wd_Tables v)" "hands_ok v" "fst ` set (wd_Mails v) \<subseteq> dl_ID ` set (tb_Deliveries (wd_Tables v))"
    "\<And>d. d \<in> set (tb_Deliveries (wd_Tables v)) \<Longrightarrow> mails_ok v d" using assms(1) by (simp_all add: world_ok_def)
  have "hands_ok (setTables db v)" by (rule hands_evolve[OF ok(2) assms(2) ok(1)]) (auto simp: calm_def)
  moreover have "mails_ok v d'" if d': "d' \<in> set (tb_Deliveries db)" for d'
  proof -
    consider d where "d \<in> set (tb_Deliveries (wd_Tables v))" "dl_ID d' = dl_ID d" "calm d d'"
      | "dl_ID d' \<notin> dl_ID ` set (tb_Deliveries (wd_Tables v))" "freshDelivery d'" using assms(2) d' unfolding evolves_def by blast
    then show ?thesis
    proof cases
      case 1
      then show ?thesis using ok(4)[OF 1(1)] by (auto simp: mails_ok_def calm_def)
    next
      case 2
      then show ?thesis using no_mails[OF ok(3) 2(1)] not_waiting_new[OF ok(2) 2(1)] by (auto simp: mails_ok_def freshDelivery_def)
    qed
  qed
  ultimately show ?thesis using assms(3) ok(3) evolves_ids[OF assms(2)] by (auto simp: world_ok_def mails_ok_def)
qed

text \<open>A worker that lets go of deliveries.\<close>

lemma world_shrink:
  assumes "world_ok v" "set (unsent s) \<subseteq> set (unsent (wd_Workers v k))" "set (held s) \<subseteq> set (held (wd_Workers v k))"
    "distinct (map cd_ID (held s))"
    "\<And>h c ds. s = Completing h c ds \<Longrightarrow> dc_DeliveryID c = cd_ID h \<and>
       (dc_RetryAt c \<noteq> None \<longrightarrow> cd_AttemptCount h < 3 \<and> True \<notin> set (mailsOf (cd_ID h) v))"
  shows "world_ok (setWorker k s v)"
proof -
  have ok: "hands_ok v" "\<And>d. d \<in> set (tb_Deliveries (wd_Tables v)) \<Longrightarrow> mails_ok v d" using assms(1) by (simp_all add: world_ok_def)
  have h: "heldIDs (setWorker k s v) j \<subseteq> heldIDs v j" for j using assms(3) by (auto simp: heldIDs_def)
  have w: "waiting (setWorker k s v) \<subseteq> waiting v" using assms(2) by (fastforce simp: waiting_def split: if_splits)
  have "hands_ok (setWorker k s v)"
    using ok(1) assms(3-5) h unfolding hands_ok_def by (auto; blast)
  moreover have "mails_ok (setWorker k s v) d" if "d \<in> set (tb_Deliveries (wd_Tables v))" for d
    using ok(2)[OF that] w by (auto simp: mails_ok_def split: if_splits)
  ultimately show ?thesis using assms(1) by (simp add: world_ok_def)
qed

section \<open>Claiming\<close>

lemma held_update: "held ((wd_Workers (setWorker k s v)) j) = (if j = k then held s else held (wd_Workers v j))"
  by simp

lemma claim_world:
  assumes "world_ok v" "wd_Workers v k = Resting" "ClaimDueDeliveries busy now w n (wd_Tables v) = (ds, db)"
  shows "world_ok (setWorker k (Holding ds) (setTables db v))" (is "world_ok ?v")
proof -
  have ok: "tables_ok (wd_Tables v)" "hands_ok v" "fst ` set (wd_Mails v) \<subseteq> dl_ID ` set (tb_Deliveries (wd_Tables v))"
    "\<And>d. d \<in> set (tb_Deliveries (wd_Tables v)) \<Longrightarrow> mails_ok v d" using assms(1) by (simp_all add: world_ok_def)
  have db: "tables_ok db" using ClaimDueDeliveries_ok[OF ok(1) assms(3)] .
  obtain ids where c: "evolves (claim ids) (wd_Tables v) db" "cd_ID ` set ds \<subseteq> ids" "distinct (map cd_ID ds)"
    "\<forall>x \<in> set ds. \<exists>d \<in> set (tb_Deliveries db). dl_ID d = cd_ID x \<and> dl_AttemptCount d = cd_AttemptCount x"
    "ids \<subseteq> dl_ID ` set (tb_Deliveries (wd_Tables v))"
    using ClaimDueDeliveries_evolves[OF ok(1) assms(3)] by blast
  have unheld: "x \<notin> ids" if m: "x \<in> heldIDs v j" for x j
  proof
    assume x: "x \<in> ids"
    obtain h where h: "h \<in> set (held (wd_Workers v j))" "x = cd_ID h" using m by (auto simp: heldIDs_def)
    obtain d where d: "d \<in> set (tb_Deliveries (wd_Tables v))" "dl_ID d = cd_ID h" "dl_Status d \<noteq> ''pending''" using heldD[OF ok(2) h(1)] .
    then obtain d' where "claim ids d d'" using c(1) unfolding evolves_def by blast
    then show False using x d h(2) by (simp add: claim_def)
  qed
  have old: "hands_ok (setTables db v)"
  proof (rule hands_evolve[OF ok(2) c(1) ok(1)])
    fix j h d d' assume a: "h \<in> set (held (wd_Workers v j))" "dl_ID d = cd_ID h" "claim ids d d'" "dl_Status d \<noteq> ''pending''"
    show "dl_AttemptCount d' = dl_AttemptCount d \<and> dl_Status d' \<noteq> ''pending''" using a(3,4) by (auto simp: claim_def split: if_splits)
  qed
  have new: "dl_Status d' \<noteq> ''pending''" if "d' \<in> set (tb_Deliveries db)" "dl_ID d' \<in> ids" for d'
  proof -
    have "\<exists>d \<in> set (tb_Deliveries (wd_Tables v)). dl_ID d' = dl_ID d \<and> claim ids d d'"
      using c(1) that c(5) unfolding evolves_def by blast
    then show ?thesis using that(2) by (auto simp: claim_def)
  qed
  have h: "heldIDs ?v j = (if j = k then cd_ID ` set ds else heldIDs v j)" for j by (simp add: heldIDs_def)
  have hands: "hands_ok ?v"
    unfolding hands_ok_def
  proof (intro conjI)
    show "\<forall>j. distinct (map cd_ID (held (wd_Workers ?v j)))" using old c(3) by (simp add: hands_ok_def)
    show "\<forall>j j'. j \<noteq> j' \<longrightarrow> heldIDs ?v j \<inter> heldIDs ?v j' = {}"
      using old unheld c(2) unfolding hands_ok_def h by auto
    show "\<forall>j. \<forall>h \<in> set (held (wd_Workers ?v j)). \<exists>d \<in> set (tb_Deliveries (wd_Tables ?v)).
        dl_ID d = cd_ID h \<and> dl_AttemptCount d = cd_AttemptCount h \<and> dl_Status d \<noteq> ''pending''"
    proof (intro allI ballI)
      fix j h assume h: "h \<in> set (held (wd_Workers ?v j))"
      show "\<exists>d \<in> set (tb_Deliveries (wd_Tables ?v)). dl_ID d = cd_ID h \<and> dl_AttemptCount d = cd_AttemptCount h \<and> dl_Status d \<noteq> ''pending''"
      proof (cases "j = k")
        case True
        then have "h \<in> set ds" using h by simp
        moreover from this have "cd_ID h \<in> ids" using c(2) by blast
        ultimately obtain d where "d \<in> set (tb_Deliveries db)" "dl_ID d = cd_ID h" "dl_AttemptCount d = cd_AttemptCount h" "dl_ID d \<in> ids"
          using c(4) by auto
        then show ?thesis using new by auto
      next
        case False
        then have "h \<in> set (held (wd_Workers (setTables db v) j))" using h by simp
        then show ?thesis using heldD[OF old] by simp metis
      qed
    qed
    show "\<forall>j h c ds. wd_Workers ?v j = Completing h c ds \<longrightarrow> dc_DeliveryID c = cd_ID h \<and>
        (dc_RetryAt c \<noteq> None \<longrightarrow> cd_AttemptCount h < 3 \<and> True \<notin> set (mailsOf (cd_ID h) ?v))"
      using old by (simp add: hands_ok_def)
  qed
  have w: "waiting ?v = waiting v \<union> cd_ID ` set ds"
    using assms(2) by (auto simp: waiting_def split: if_splits) (metis empty_iff empty_set image_eqI unsent.simps(1))
  have "mails_ok ?v d'" if d': "d' \<in> set (tb_Deliveries db)" for d'
  proof -
    consider d where "d \<in> set (tb_Deliveries (wd_Tables v))" "dl_ID d' = dl_ID d" "claim ids d d'"
      | "dl_ID d' \<notin> dl_ID ` set (tb_Deliveries (wd_Tables v))" "freshDelivery d'" using c(1) d' unfolding evolves_def by blast
    then show ?thesis
    proof cases
      case 1
      have u: "dl_ID d \<notin> waiting v" if "dl_ID d \<in> ids" using waiting_held unheld that by blast
      show ?thesis
      proof (cases "dl_ID d \<in> ids")
        case True
        then show ?thesis using ok(4)[OF 1(1)] 1(2,3) u by (auto simp: mails_ok_def claim_def)
      next
        case False
        then have "dl_ID d \<notin> cd_ID ` set ds" using c(2) by blast
        then show ?thesis using ok(4)[OF 1(1)] 1(2,3) False w by (auto simp: mails_ok_def claim_def)
      qed
    next
      case 2
      then have "dl_ID d' \<notin> waiting ?v" using not_waiting_new[OF ok(2) 2(1)] c(2,5) w by blast
      then show ?thesis using no_mails[OF ok(3) 2(1)] 2 by (auto simp: mails_ok_def freshDelivery_def)
    qed
  qed
  then show ?thesis using db hands ok(3) evolves_ids[OF c(1)] by (auto simp: world_ok_def)
qed

section \<open>Sending and completing\<close>

lemma processDelivery_cases:
  "processDelivery w d = SendFirst m f \<Longrightarrow> f = sendOutcomeCompletion d"
  "processDelivery w d = CompleteNow c \<Longrightarrow> dc_DeliveryID c = cd_ID d \<and> dc_RetryAt c = None"
  by (auto simp: processDelivery_def completion_def split: if_splits sum.splits linkError.splits)

lemma sendOutcomeCompletion_ok:
  "dc_DeliveryID (sendOutcomeCompletion d out) = cd_ID d"
  "dc_RetryAt (sendOutcomeCompletion d out) \<noteq> None \<Longrightarrow> out \<noteq> None \<and> cd_AttemptCount d < 3"
  by (auto simp: sendOutcomeCompletion_def completion_def maxEmailAttempts_def split: option.splits prod.splits if_splits)

lemma add_mail:
  assumes "world_ok v" "x \<notin> waiting v" "d0 \<in> set (tb_Deliveries (wd_Tables v))" "dl_ID d0 = x"
    "int (length (mailsOf x v)) < dl_AttemptCount d0" "True \<notin> set (mailsOf x v)" "dl_Status d0 \<noteq> ''pending''"
    "\<And>k h c ds. o1 \<Longrightarrow> wd_Workers v k = Completing h c ds \<Longrightarrow> cd_ID h = x \<Longrightarrow> dc_RetryAt c = None"
  shows "world_ok (v\<lparr>wd_Mails := wd_Mails v @ [(x, o1)]\<rparr>)" (is "world_ok ?v")
proof -
  have ok: "tables_ok (wd_Tables v)" "hands_ok v" "fst ` set (wd_Mails v) \<subseteq> dl_ID ` set (tb_Deliveries (wd_Tables v))"
    "\<And>d. d \<in> set (tb_Deliveries (wd_Tables v)) \<Longrightarrow> mails_ok v d" using assms(1) by (simp_all add: world_ok_def)
  have m: "mailsOf y ?v = mailsOf y v @ (if y = x then [o1] else [])" for y by (simp add: mailsOf_def)
  have s: "heldIDs ?v = heldIDs v" "waiting ?v = waiting v" by (simp_all add: heldIDs_def waiting_def fun_eq_iff)
  have "hands_ok ?v" using ok(2) assms(8) unfolding hands_ok_def s m by (cases o1) auto
  moreover have "mails_ok ?v d" if d: "d \<in> set (tb_Deliveries (wd_Tables v))" for d
  proof (cases "dl_ID d = x")
    case True
    have "d = d0" using unique_delivery[of "wd_Tables v" d d0] d assms(3,4) True ok(1) by (simp add: tables_ok_def)
    moreover have "list_all Not (mailsOf x v)" using assms(6) by (auto simp: list_all_iff)
    ultimately show ?thesis using ok(4)[OF d] True assms(2,4,5,7) by (simp add: mails_ok_def m s)
  next
    case False
    then show ?thesis using ok(4)[OF d] by (simp add: mails_ok_def m s)
  qed
  ultimately show ?thesis using ok(1,3) assms(3,4) by (auto simp: world_ok_def)
qed

lemma send_world:
  assumes "world_ok v" "wd_Workers v k = Holding (d # ds)" "processDelivery w d = SendFirst m f"
  shows "world_ok (setWorker k (Completing d (f out) ds) (v\<lparr>wd_Mails := wd_Mails v @ [(cd_ID d, out = None)]\<rparr>))"
proof -
  let ?s = "Completing d (f out) ds"
  have ok: "hands_ok v" "\<And>d. d \<in> set (tb_Deliveries (wd_Tables v)) \<Longrightarrow> mails_ok v d" using assms(1) by (simp_all add: world_ok_def)
  have f: "f = sendOutcomeCompletion d" using processDelivery_cases(1)[OF assms(3)] .
  obtain e where e: "e \<in> set (tb_Deliveries (wd_Tables v))" "dl_ID e = cd_ID d" "dl_AttemptCount e = cd_AttemptCount d" "dl_Status e \<noteq> ''pending''"
    using heldD[OF ok(1), of d k] assms(2) by auto
  have w: "cd_ID d \<in> waiting v" using assms(2) by (auto simp: waiting_def intro!: exI[of _ k])
  then have m: "True \<notin> set (mailsOf (cd_ID d) v)" "int (length (mailsOf (cd_ID d) v)) < dl_AttemptCount e"
    using ok(2)[OF e(1)] e(2) by (auto simp: mails_ok_def)
  have dist: "distinct (map cd_ID (d # ds))" using ok(1) assms(2) unfolding hands_ok_def by (metis held.simps(2))
  have own: "cd_ID d \<notin> heldIDs v j" if "j \<noteq> k" for j
    using ok(1) assms(2) that unfolding hands_ok_def heldIDs_def by fastforce
  have "world_ok (setWorker k ?s v)"
    by (rule world_shrink[OF assms(1)]) (use assms(2) dist m(1) sendOutcomeCompletion_ok[of d out] in \<open>auto simp: f\<close>)
  moreover have "cd_ID d \<notin> waiting (setWorker k ?s v)"
    using own unsent_held dist by (fastforce simp: waiting_def heldIDs_def split: if_splits)
  moreover have "dc_RetryAt c = None" if "out = None" "wd_Workers (setWorker k ?s v) j = Completing h c cs" "cd_ID h = cd_ID d" for j h c cs
  proof (cases "j = k")
    case True
    then show ?thesis using that sendOutcomeCompletion_ok(2)[of d out] by (cases "dc_RetryAt c") (auto simp: f)
  next
    case False
    then show ?thesis using that own[OF False] by (auto simp: heldIDs_def)
  qed
  ultimately have "world_ok ((setWorker k ?s v)\<lparr>wd_Mails := wd_Mails (setWorker k ?s v) @ [(cd_ID d, out = None)]\<rparr>)"
    using add_mail[of "setWorker k ?s v" "cd_ID d" e "out = None"] e m by simp
  moreover have "(setWorker k ?s v)\<lparr>wd_Mails := ms\<rparr> = setWorker k ?s (v\<lparr>wd_Mails := ms\<rparr>)" for ms
    by (cases v) (simp add: setWorker_def)
  ultimately show ?thesis by simp
qed

lemma complete_world:
  assumes "world_ok v" "wd_Workers v k = Completing h c ds" "CompleteDelivery now c (wd_Tables v) = Some db"
  shows "world_ok (setWorker k (Holding ds) (setTables db v))" (is "world_ok ?v")
proof -
  let ?u = "setWorker k (Holding ds) v"
  have ok: "tables_ok (wd_Tables v)" "hands_ok v" using assms(1) by (simp_all add: world_ok_def)
  have c: "dc_DeliveryID c = cd_ID h" "dc_RetryAt c \<noteq> None \<Longrightarrow> cd_AttemptCount h < 3 \<and> True \<notin> set (mailsOf (cd_ID h) v)"
    using ok(2) assms(2) unfolding hands_ok_def by blast+
  have dist: "distinct (map cd_ID (h # ds))" using ok(2) assms(2) unfolding hands_ok_def by (metis held.simps(3))
  obtain e where e: "e \<in> set (tb_Deliveries (wd_Tables v))" "dl_ID e = cd_ID h" "dl_AttemptCount e = cd_AttemptCount h"
    using heldD[OF ok(2), of h k] assms(2) by auto
  have u: "world_ok ?u" by (rule world_shrink[OF assms(1)]) (use assms(2) dist in auto)
  have gone: "cd_ID h \<notin> heldIDs ?u j" for j
    using ok(2) assms(2) dist unfolding hands_ok_def heldIDs_def by (cases "j = k") fastforce+
  have ev: "evolves (complete c) (wd_Tables ?u) db" using CompleteDelivery_evolves[OF ok(1) assms(3)] by simp
  have db: "tables_ok db" using CompleteDelivery_ok[OF ok(1) assms(3)] .
  have uok: "hands_ok ?u" "fst ` set (wd_Mails ?u) \<subseteq> dl_ID ` set (tb_Deliveries (wd_Tables ?u))"
    "\<And>d. d \<in> set (tb_Deliveries (wd_Tables ?u)) \<Longrightarrow> mails_ok ?u d" using u by (simp_all add: world_ok_def)
  have "hands_ok (setTables db ?u)"
  proof (rule hands_evolve[OF uok(1) ev])
    show "tables_ok (wd_Tables ?u)" using ok(1) by simp
    fix j g d d' assume a: "g \<in> set (held (wd_Workers ?u j))" "dl_ID d = cd_ID g" "complete c d d'" "dl_Status d \<noteq> ''pending''"
    have "cd_ID g \<noteq> cd_ID h" using a(1) gone[of j] unfolding heldIDs_def by (metis image_eqI)
    then show "dl_AttemptCount d' = dl_AttemptCount d \<and> dl_Status d' \<noteq> ''pending''" using a c(1) by (simp add: complete_def)
  qed
  moreover have "mails_ok ?u d'" if d': "d' \<in> set (tb_Deliveries db)" for d'
  proof -
    consider d where "d \<in> set (tb_Deliveries (wd_Tables v))" "dl_ID d' = dl_ID d" "complete c d d'"
      | "dl_ID d' \<notin> dl_ID ` set (tb_Deliveries (wd_Tables v))" "freshDelivery d'" using ev d' unfolding evolves_def by auto
    then show ?thesis
    proof cases
      case 1
      show ?thesis
      proof (cases "dl_ID d = cd_ID h \<and> dl_Status d = ''locked''")
        case True
        then have "d = e" using unique_delivery[of "wd_Tables v" d e] 1(1) e ok(1) by (simp add: tables_ok_def)
        moreover have "cd_ID h \<notin> waiting ?u" using gone waiting_held by blast
        ultimately show ?thesis using uok(3)[of d] 1 True c e(3) by (auto simp: mails_ok_def complete_def finished_def status_defs split: if_splits)
      next
        case False
        then show ?thesis using uok(3)[of d] 1 c(1) by (simp add: mails_ok_def complete_def)
      qed
    next
      case 2
      then show ?thesis using no_mails[OF uok(2)] not_waiting_new[OF uok(1)] by (auto simp: mails_ok_def freshDelivery_def)
    qed
  qed
  ultimately have "world_ok (setTables db ?u)" using db uok(2) evolves_ids[OF ev] by (auto simp: world_ok_def mails_ok_tables)
  moreover have "setTables db ?u = ?v" by (cases v) (simp add: setTables_def setWorker_def)
  ultimately show ?thesis by simp
qed

section \<open>Every run\<close>

lemma handlers_calm:
  assumes "tables_ok (wd_Tables v)" "tables_ok db \<and> evolves cancel (wd_Tables v) db" "world_ok v"
  shows "world_ok (setTables db v)"
  using world_calm[OF assms(3)] assms(2) evolves_mono calm_ways(2) by blast

lemma step_world_ok:
  assumes "notify_step parse ws False v v'" "world_ok v"
  shows "world_ok v'"
proof -
  have t: "tables_ok (wd_Tables v)" using assms(2) by (simp add: world_ok_def)
  show ?thesis
    using assms(1)
  proof cases
    case (notify now i c res db)
    have specs: "specs_ok (ci_Deliveries c)" using notifyRequest_specs[OF notify(2)] .
    have "evolves (restart False) (wd_Tables v) db" by (rule CreateNotification_evolves[OF t notify(4) specs]) (use notify(3) in simp)
    then have "evolves calm (wd_Tables v) db" using evolves_mono calm_ways(1) by blast
    then show ?thesis using world_calm[OF assms(2)] CreateNotification_ok[OF t notify(4) specs] notify(1) by simp
  next
    case (resolve now r db)
    then show ?thesis using handlers_calm[OF t] ResolveAll_ok[OF t] assms(2) by blast
  next
    case (read now rq resp db)
    then show ?thesis using handlers_calm[OF t] handlers_ok[OF t] assms(2) by blast
  next
    case (read_all now rq resp db)
    then show ?thesis using handlers_calm[OF t] handlers_ok[OF t] assms(2) by blast
  next
    case (archive now rq resp db)
    then show ?thesis using handlers_calm[OF t] handlers_ok[OF t] assms(2) by blast
  next
    case (claim k busy now ds db)
    then show ?thesis using claim_world[OF assms(2)] by blast
  next
    case (send k d ds m f outcome)
    then show ?thesis using send_world[OF assms(2)] by blast
  next
    case (skip k d ds c)
    have "distinct (map cd_ID (d # ds))" using skip(2) assms(2) unfolding world_ok_def hands_ok_def by (metis held.simps(2))
    moreover have "dc_DeliveryID c = cd_ID d" "dc_RetryAt c = None" using processDelivery_cases(2)[OF skip(3)] by simp_all
    ultimately show ?thesis unfolding skip(1) by (intro world_shrink[OF assms(2)]) (auto simp: skip(2))
  next
    case (complete k d c ds now db)
    then show ?thesis using complete_world[OF assms(2)] by blast
  next
    case (complete_failed k d c ds)
    have "distinct (map cd_ID (d # ds))" using complete_failed(2) assms(2) unfolding world_ok_def hands_ok_def by (metis held.simps(3))
    then show ?thesis unfolding complete_failed(1) by (intro world_shrink[OF assms(2)]) (auto simp: complete_failed(2))
  next
    case (finish k)
    then show ?thesis using world_shrink[OF assms(2), of Resting k] by simp
  next
    case (stop k)
    then show ?thesis using world_shrink[OF assms(2), of Resting k] by simp
  qed
qed

text \<open>The start: no deliveries, no mails, workers at rest.\<close>

definition idle_world :: "notifyWorld \<Rightarrow> bool" where
  "idle_world v \<longleftrightarrow> tables_ok (wd_Tables v) \<and> tb_Deliveries (wd_Tables v) = [] \<and> wd_Mails v = [] \<and> wd_Workers v = (\<lambda>k. Resting)"

lemma idle_world_ok: "idle_world v \<Longrightarrow> world_ok v"
  by (simp add: idle_world_def world_ok_def hands_ok_def heldIDs_def)

lemma reachable_world_ok: "(notify_step parse ws False)\<^sup>*\<^sup>* v v' \<Longrightarrow> idle_world v \<Longrightarrow> world_ok v'"
  by (induction rule: rtranclp_induct) (auto intro: idle_world_ok step_world_ok)

text \<open>C8: As long as no notification is raised again after it was resolved, any number of workers mails a delivery
  at most three times, and never again once a mail was accepted: whatever the order of the steps, and wherever
  workers stop or completions fail.\<close>

theorem mailed_at_most_three_times:
  assumes "(notify_step parse ws False)\<^sup>*\<^sup>* v v'" "idle_world v"
  shows "length (mailsOf x v') \<le> 3 \<and> list_all Not (butlast (mailsOf x v'))"
proof -
  have ok: "world_ok v'" using reachable_world_ok[OF assms] .
  show ?thesis
  proof (cases "x \<in> dl_ID ` set (tb_Deliveries (wd_Tables v'))")
    case True
    then show ?thesis using ok by (auto simp: world_ok_def mails_ok_def split: if_splits)
  next
    case False
    have "mailsOf x v' = []" by (rule no_mails[OF _ False]) (use ok in \<open>simp add: world_ok_def\<close>)
    then show ?thesis by simp
  qed
qed

end
