(* ===== verification/NotifyRuns.thy ===== *)
theory NotifyRuns
  imports NotifyMails
begin

text \<open>
  Deliveries that no worker holds any more, and concrete runs of requests and workers.
\<close>

section \<open>Stranded deliveries\<close>

text \<open>A delivery that is locked while no worker has it in hand.\<close>

definition stranded :: "int \<Rightarrow> notifyWorld \<Rightarrow> bool" where
  "stranded x v \<longleftrightarrow> (\<exists>d \<in> set (tb_Deliveries (wd_Tables v)). dl_ID d = x \<and> dl_Status d = ''locked'') \<and> (\<forall>k. x \<notin> heldIDs v k)"

definition statusOf :: "int \<Rightarrow> notifyWorld \<Rightarrow> string option" where
  "statusOf x v = map_option dl_Status (find (\<lambda>d. dl_ID d = x) (tb_Deliveries (wd_Tables v)))"

definition lost :: "int \<Rightarrow> bool list \<Rightarrow> notifyWorld \<Rightarrow> bool" where
  "lost x ms v \<longleftrightarrow> world_ok v \<and> (\<forall>k. x \<notin> heldIDs v k) \<and> mailsOf x v = ms \<and>
     (\<exists>d \<in> set (tb_Deliveries (wd_Tables v)). dl_ID d = x \<and> (dl_Status d = ''locked'' \<or> dl_Status d = ''cancelled''))"

lemma lost_status: "lost x ms v \<Longrightarrow> statusOf x v \<in> {Some ''locked'', Some ''cancelled''}"
proof -
  assume a: "lost x ms v"
  then obtain d where d: "d \<in> set (tb_Deliveries (wd_Tables v))" "dl_ID d = x" "dl_Status d = ''locked'' \<or> dl_Status d = ''cancelled''"
    by (auto simp: lost_def)
  obtain e where e: "find (\<lambda>d. dl_ID d = x) (tb_Deliveries (wd_Tables v)) = Some e"
    using d(1,2) by (cases "find (\<lambda>d. dl_ID d = x) (tb_Deliveries (wd_Tables v))") (auto simp: find_None_iff)
  have "keys_ok (wd_Tables v)" using a by (simp add: lost_def world_ok_def tables_ok_def)
  then have "e = d" using unique_delivery[of "wd_Tables v" e d] find_SomeD[OF e] d(1,2) by simp
  then show ?thesis using d(3) e by (auto simp: statusOf_def)
qed

lemma lost_evolves:
  assumes "lost x ms v" "evolves R (wd_Tables v) db"
    "\<And>d d'. dl_ID d = x \<Longrightarrow> dl_Status d = ''locked'' \<or> dl_Status d = ''cancelled'' \<Longrightarrow> R d d' \<Longrightarrow>
       dl_Status d' = ''locked'' \<or> dl_Status d' = ''cancelled''"
  shows "\<exists>d \<in> set (tb_Deliveries db). dl_ID d = x \<and> (dl_Status d = ''locked'' \<or> dl_Status d = ''cancelled'')"
proof -
  obtain d where d: "d \<in> set (tb_Deliveries (wd_Tables v))" "dl_ID d = x" "dl_Status d = ''locked'' \<or> dl_Status d = ''cancelled''"
    using assms(1) unfolding lost_def by blast
  then obtain d' where "d' \<in> set (tb_Deliveries db)" "dl_ID d' = dl_ID d" "R d d'" using assms(2) unfolding evolves_def by blast
  then show ?thesis using assms(3)[OF d(2,3)] d(2) by blast
qed

lemma held_setWorker: "heldIDs (setWorker k s v) j = (if j = k then cd_ID ` set (held s) else heldIDs v j)"
  by (simp add: heldIDs_def)

lemma lost_worker:
  assumes "lost x ms v" "world_ok (setWorker k s v)" "set (held s) \<subseteq> set (held (wd_Workers v k))"
  shows "lost x ms (setWorker k s v)"
proof -
  have "cd_ID ` set (held s) \<subseteq> heldIDs v k" using assms(3) by (auto simp: heldIDs_def)
  then have "x \<notin> heldIDs (setWorker k s v) j" for j using assms(1) by (auto simp: lost_def held_setWorker)
  then show ?thesis using assms(1,2) by (simp add: lost_def)
qed

lemma lost_step:
  assumes "notify_step parse ws False v v'" "lost x ms v"
  shows "lost x ms v'"
proof -
  have ok: "world_ok v" "tables_ok (wd_Tables v)" "hands_ok v" and free: "x \<notin> heldIDs v k" for k
    using assms(2) by (simp_all add: lost_def world_ok_def)
  have ok': "world_ok v'" using step_world_ok[OF assms(1) ok(1)] .
  have table: "lost x ms (setTables db v)" if "evolves cancel (wd_Tables v) db" "world_ok (setTables db v)" for db
    using lost_evolves[OF assms(2) that(1)] that(2) assms(2) by (auto simp: lost_def cancel_def)
  show ?thesis
    using assms(1)
  proof cases
    case (notify now i c res db)
    have e: "evolves (restart False) (wd_Tables v) db"
      by (rule CreateNotification_evolves[OF ok(2) notify(4) notifyRequest_specs[OF notify(2)]]) (use notify(3) in simp)
    have "evolves cancel (wd_Tables v) db" by (rule evolves_mono[OF e]) (simp add: restart_def cancel_def)
    then show ?thesis using table ok' notify(1) by simp
  next
    case (resolve now r db)
    then show ?thesis using table ok' ResolveAll_ok[OF ok(2)] by blast
  next
    case (read now rq resp db)
    then show ?thesis using table ok' handlers_ok[OF ok(2)] by blast
  next
    case (read_all now rq resp db)
    then show ?thesis using table ok' handlers_ok[OF ok(2)] by blast
  next
    case (archive now rq resp db)
    then show ?thesis using table ok' handlers_ok[OF ok(2)] by blast
  next
    case (claim k busy now ds db)
    obtain ids where c: "evolves (claim ids) (wd_Tables v) db" "cd_ID ` set ds \<subseteq> ids" "ids \<subseteq> dl_ID ` set (tb_Deliveries (wd_Tables v))"
      using ClaimDueDeliveries_evolves[OF ok(2) claim(3)] by blast
    obtain d where d: "d \<in> set (tb_Deliveries (wd_Tables v))" "dl_ID d = x" "dl_Status d \<noteq> ''pending''"
      using assms(2) by (auto simp: lost_def)
    obtain d' where "claim ids d d'" using c(1) d(1) unfolding evolves_def by blast
    then have x: "x \<notin> ids" using d by (auto simp: claim_def split: if_splits)
    then have "x \<notin> heldIDs v' j" for j using free c(2) claim(1) by (auto simp: held_setWorker)
    moreover have "\<exists>d \<in> set (tb_Deliveries db). dl_ID d = x \<and> (dl_Status d = ''locked'' \<or> dl_Status d = ''cancelled'')"
      using lost_evolves[OF assms(2) c(1)] x by (auto simp: claim_def)
    ultimately show ?thesis using ok' assms(2) claim(1) by (simp add: lost_def)
  next
    case (send k d ds m f outcome)
    have "cd_ID d \<noteq> x" using free[of k] send(2) by (auto simp: heldIDs_def)
    then have "mailsOf x v' = mailsOf x v" using send(1) by (simp add: mailsOf_def)
    moreover have "heldIDs v' j = heldIDs v j" for j using send(1,2) by (simp add: heldIDs_def)
    ultimately show ?thesis using ok' assms(2) send(1) by (simp add: lost_def)
  next
    case (skip k d ds c)
    then show ?thesis using lost_worker[OF assms(2)] ok' by simp
  next
    case (complete k d c ds now db)
    have "dc_DeliveryID c = cd_ID d" using ok(3) complete(2) unfolding hands_ok_def by blast
    moreover have "cd_ID d \<noteq> x" using free[of k] complete(2) by (auto simp: heldIDs_def)
    ultimately have "\<exists>d \<in> set (tb_Deliveries db). dl_ID d = x \<and> (dl_Status d = ''locked'' \<or> dl_Status d = ''cancelled'')"
      using lost_evolves[OF assms(2) CompleteDelivery_evolves[OF ok(2) complete(3)]] by (auto simp: complete_def)
    moreover have "x \<notin> heldIDs v' j" for j using free[of j] complete(1,2) by (auto simp: heldIDs_def split: if_splits)
    ultimately show ?thesis using ok' assms(2) complete(1) by (simp add: lost_def)
  next
    case (complete_failed k d c ds)
    have "set (held (Holding ds)) \<subseteq> set (held (wd_Workers v k))" using complete_failed(2) by auto
    then show ?thesis using lost_worker[OF assms(2)] ok' complete_failed(1) by blast
  next
    case (finish k)
    then show ?thesis using lost_worker[OF assms(2)] ok' by simp
  next
    case (stop k)
    then show ?thesis using lost_worker[OF assms(2)] ok' by simp
  qed
qed

lemma lost_run: "(notify_step parse ws False)\<^sup>*\<^sup>* v v' \<Longrightarrow> lost x ms v \<Longrightarrow> lost x ms v'"
  by (induction rule: rtranclp_induct) (auto intro: lost_step)

text \<open>C12: A delivery whose worker stopped, or lost the answer of its claim, after locking it is never mailed again: it
  stays locked through every run in which its notification is not raised again after a resolution, until it is
  cancelled.\<close>

theorem stranded_delivery_is_never_mailed:
  assumes "idle_world v0" "(notify_step parse ws False)\<^sup>*\<^sup>* v0 v" "stranded x v" "(notify_step parse ws False)\<^sup>*\<^sup>* v v'"
  shows "statusOf x v' \<in> {Some ''locked'', Some ''cancelled''} \<and> mailsOf x v' = mailsOf x v"
proof -
  have "lost x (mailsOf x v) v" using reachable_world_ok[OF assms(2,1)] assms(3) by (auto simp: lost_def stranded_def)
  then have "lost x (mailsOf x v) v'" using lost_run[OF assms(4)] by blast
  then show ?thesis using lost_status by (auto simp: lost_def)
qed

end
