(* ===== verification/NotifyExamples.thy ===== *)
theory NotifyExamples
  imports NotifyRuns
begin

text \<open>
  One notification and two workers, step by step.
\<close>

section \<open>The tables of the example\<close>

definition exampleType :: notificationType where
  "exampleType = \<lparr>nt_TypeKey = ''t'', nt_AppID = ''a'', nt_TitleTemplate = ''T'', nt_BodyTemplate = ''B'', nt_Severity = ''info'',
     nt_DefaultPolicy = Some (Some (Obj [(''email'', Obj [(''enabled'', Bool True),
       (''steps'', Arr [Obj [(''step'', Str ''s''), (''delay'', Str ''0'')]])])])), nt_Enabled = True\<rparr>"

definition exampleInput :: notifyInput where
  "exampleInput = \<lparr>ni_TypeKey = ''t'', ni_Title = '''', ni_Body = '''', ni_Severity = '''', ni_EntityType = '''', ni_EntityID = '''',
     ni_DedupeKey = ''k'', ni_DeepLink = '''', ni_Metadata = [], ni_PolicyOverride = [],
     ni_Recipients = [\<lparr>ad_Subject = '''', ad_Email = ''u@x'', ad_Name = ''''\<rparr>], ni_CreatedBySubject = '''', ni_CreatedByEmail = ''''\<rparr>"

definition exampleStart :: notifyTables where
  "exampleStart = \<lparr>tb_Types = [exampleType], tb_Notifications = [], tb_Recipients = [], tb_Deliveries = [], tb_Attempts = [],
     tb_NextNotification = 1, tb_NextRecipient = 1, tb_NextDelivery = 1\<rparr>"

definition exampleRequest :: "gotime \<Rightarrow> createInput" where
  "exampleRequest now = \<lparr>ci_TypeKey = ''t'', ci_AppID = ''a'', ci_Severity = ''info'', ci_Title = ''T'', ci_Body = ''B'', ci_EntityType = '''',
     ci_EntityID = '''', ci_DedupeKey = ''k'', ci_DeepLink = '''', ci_Metadata = [], ci_PolicyOverride = [], ci_CreatedBySubject = '''',
     ci_CreatedByEmail = '''', ci_Recipients = [\<lparr>ad_Subject = '''', ad_Email = ''u@x'', ad_Name = ''''\<rparr>],
     ci_Deliveries = [\<lparr>ds_Channel = ''email'', ds_PolicyStep = ''s'', ds_Status = ''pending'', ds_DueAt = now\<rparr>]\<rparr>"

definition exampleWorker :: worker where
  "exampleWorker = \<lparr>wk_Mailer = True, wk_PublicBaseURL = '''', wk_WorkerID = ''w'', wk_URL = \<lparr>ur_Parse = (\<lambda>s. Some True), ur_Resolve = (\<lambda>a b. a)\<rparr>\<rparr>"

section \<open>Stages\<close>

text \<open>The notification is raised, its delivery claimed and mailed; then it is resolved and raised again, a second
  worker claims the delivery, and the first one completes what it had claimed.\<close>

definition exampleScope :: resolveInput where
  "exampleScope = \<lparr>ri_TypeKey = '''', ri_EntityType = '''', ri_EntityID = '''', ri_DedupeKey = ''k''\<rparr>"

definition raisedOnce :: notifyTables where
  "raisedOnce = snd (the (CreateNotification 0 (exampleRequest 0) exampleStart))"

definition claimedOnce :: notifyTables where
  "claimedOnce = snd (ClaimDueDeliveries (\<lambda>i. False) 1 ''w'' defaultClaimLimit raisedOnce)"

definition firstClaim :: claimedDelivery where
  "firstClaim = fst (ClaimDueDeliveries (\<lambda>i. False) 1 ''w'' defaultClaimLimit raisedOnce) ! 0"

definition sentOnce :: notifyTables where
  "sentOnce = the (CompleteDelivery 2 (sendOutcomeCompletion firstClaim None) claimedOnce)"

definition resolvedOnce :: notifyTables where
  "resolvedOnce = the (ResolveAll 2 exampleScope claimedOnce)"

definition raisedAgain :: notifyTables where
  "raisedAgain = snd (the (CreateNotification 3 (exampleRequest 3) resolvedOnce))"

definition claimedAgain :: notifyTables where
  "claimedAgain = snd (ClaimDueDeliveries (\<lambda>i. False) 4 ''w'' defaultClaimLimit raisedAgain)"

definition secondClaim :: claimedDelivery where
  "secondClaim = fst (ClaimDueDeliveries (\<lambda>i. False) 4 ''w'' defaultClaimLimit raisedAgain) ! 0"

definition completedStale :: notifyTables where
  "completedStale = the (CompleteDelivery 5 (sendOutcomeCompletion firstClaim None) claimedAgain)"

definition completedLast :: notifyTables where
  "completedLast = the (CompleteDelivery 6 (sendOutcomeCompletion secondClaim (Some (''refused'', 6))) completedStale)"

lemma raisedOnce:
  "notifyRequest Some 0 exampleInput exampleStart = Inr (exampleRequest 0)"
  "CreateNotification 0 (exampleRequest 0) exampleStart = Some (fst (the (CreateNotification 0 (exampleRequest 0) exampleStart)), raisedOnce)"
  "\<not> reactivates (exampleRequest 0) exampleStart"
  by code_simp+

lemma claimedOnce: "ClaimDueDeliveries (\<lambda>i. False) 1 ''w'' defaultClaimLimit raisedOnce = ([firstClaim], claimedOnce)"
  by code_simp

lemma firstClaim: "cd_ID firstClaim = 1" "\<not> inactive (cd_Recipient firstClaim)" "cd_Channel firstClaim = channelEmail"
  by code_simp+

lemma sentOnce: "CompleteDelivery 2 (sendOutcomeCompletion firstClaim None) claimedOnce = Some sentOnce"
  by code_simp

lemma resolvedOnce: "ResolveAll 2 exampleScope claimedOnce = Some resolvedOnce"
  by code_simp

lemma raisedAgain:
  "notifyRequest Some 3 exampleInput resolvedOnce = Inr (exampleRequest 3)"
  "CreateNotification 3 (exampleRequest 3) resolvedOnce = Some (fst (the (CreateNotification 3 (exampleRequest 3) resolvedOnce)), raisedAgain)"
  by code_simp+

lemma claimedAgain: "ClaimDueDeliveries (\<lambda>i. False) 4 ''w'' defaultClaimLimit raisedAgain = ([secondClaim], claimedAgain)"
  by code_simp

lemma secondClaim: "cd_ID secondClaim = 1" "\<not> inactive (cd_Recipient secondClaim)" "cd_Channel secondClaim = channelEmail"
  by code_simp+

lemma completedStale: "CompleteDelivery 5 (sendOutcomeCompletion firstClaim None) claimedAgain = Some completedStale"
  by code_simp

lemma completedLast:
  "CompleteDelivery 6 (sendOutcomeCompletion secondClaim (Some (''refused'', 6))) completedStale = Some completedLast"
  by code_simp

lemma exampleStart_ok: "tables_ok exampleStart" "tb_Deliveries exampleStart = []"
  by (simp_all add: exampleStart_def tables_ok_def keys_ok_def locks_ok_def)

lemma example_send:
  "\<not> inactive (cd_Recipient d) \<Longrightarrow> cd_Channel d = channelEmail \<Longrightarrow> \<exists>m. processDelivery exampleWorker d = SendFirst m (sendOutcomeCompletion d)"
  by (simp add: processDelivery_def exampleWorker_def notificationEmail_def absoluteNotificationLink_def Let_def)

lemma exampleWorkerID: "wk_WorkerID exampleWorker = ''w''"
  by (simp add: exampleWorker_def)

section \<open>Runs\<close>

definition exampleWorld :: "notifyTables \<Rightarrow> (nat \<Rightarrow> wstate) \<Rightarrow> (int \<times> bool) list \<Rightarrow> notifyWorld" where
  "exampleWorld db w ms = \<lparr>wd_Tables = db, wd_Workers = w, wd_Mails = ms\<rparr>"

abbreviation resting :: "nat \<Rightarrow> wstate" where "resting \<equiv> (\<lambda>k. Resting)"

lemma exampleWorld_sets:
  "wd_Tables (exampleWorld db w ms) = db" "wd_Workers (exampleWorld db w ms) = w" "wd_Mails (exampleWorld db w ms) = ms"
  "setTables db' (exampleWorld db w ms) = exampleWorld db' w ms"
  "setWorker k s (exampleWorld db w ms) = exampleWorld db (w(k := s)) ms"
  "(exampleWorld db w ms)\<lparr>wd_Mails := ms'\<rparr> = exampleWorld db w ms'"
  by (simp_all add: exampleWorld_def setTables_def setWorker_def)

lemma example_idle: "idle_world (exampleWorld exampleStart resting [])"
  by (simp add: idle_world_def exampleWorld_sets exampleStart_ok)

lemma example_raise: "notify_step Some (\<lambda>k. exampleWorker) re (exampleWorld exampleStart resting []) (exampleWorld raisedOnce resting [])"
  using notify_step.notify[of Some 0 exampleInput "exampleWorld exampleStart resting []" _ re] raisedOnce
  by (simp add: exampleWorld_sets)

lemma example_raise_again:
  "notify_step Some (\<lambda>k. exampleWorker) True (exampleWorld resolvedOnce w ms) (exampleWorld raisedAgain w ms)"
  using notify_step.notify[of Some 3 exampleInput "exampleWorld resolvedOnce w ms" _ True] raisedAgain
  by (simp add: exampleWorld_sets)

lemma example_claim:
  assumes "ClaimDueDeliveries (\<lambda>i. False) now ''w'' defaultClaimLimit db = ([d], db')" "w k = Resting"
  shows "notify_step Some (\<lambda>k. exampleWorker) re (exampleWorld db w ms) (exampleWorld db' (w(k := Holding [d])) ms)"
  using notify_step.claim[of "exampleWorld db w ms" k "\<lambda>i. False" now "\<lambda>k. exampleWorker"] assms
  by (simp add: exampleWorld_sets exampleWorkerID)

lemma example_mail:
  assumes "\<not> inactive (cd_Recipient d)" "cd_Channel d = channelEmail" "w k = Holding [d]"
  shows "notify_step Some (\<lambda>k. exampleWorker) re (exampleWorld db w ms)
    (exampleWorld db (w(k := Completing d (sendOutcomeCompletion d res) [])) (ms @ [(cd_ID d, res = None)]))"
proof -
  obtain m where "processDelivery exampleWorker d = SendFirst m (sendOutcomeCompletion d)" using example_send[OF assms(1,2)] ..
  then show ?thesis
    using notify_step.send[of "exampleWorld db w ms" k d "[]" "\<lambda>k. exampleWorker" m "sendOutcomeCompletion d"] assms(3)
    by (simp add: exampleWorld_sets)
qed

lemma example_complete:
  assumes "CompleteDelivery now c db = Some db'" "w k = Completing d c []"
  shows "notify_step Some (\<lambda>k. exampleWorker) re (exampleWorld db w ms) (exampleWorld db' (w(k := Holding [])) ms)"
  using notify_step.complete[of "exampleWorld db w ms" k d c "[]"] assms by (simp add: exampleWorld_sets)

lemma example_rest:
  assumes "w k = Holding []"
  shows "notify_step Some (\<lambda>k. exampleWorker) re (exampleWorld db w ms) (exampleWorld db (w(k := Resting)) ms)"
  using notify_step.finish[of "exampleWorld db w ms" k] assms by (simp add: exampleWorld_sets)

lemma example_resolve:
  "notify_step Some (\<lambda>k. exampleWorker) re (exampleWorld claimedOnce w ms) (exampleWorld resolvedOnce w ms)"
  using notify_step.resolve[of 2 exampleScope "exampleWorld claimedOnce w ms"] resolvedOnce by (simp add: exampleWorld_sets)

abbreviation example_run :: "bool \<Rightarrow> notifyWorld \<Rightarrow> notifyWorld \<Rightarrow> bool" where
  "example_run re \<equiv> (notify_step Some (\<lambda>k. exampleWorker) re)\<^sup>*\<^sup>*"

definition mailedWorld :: notifyWorld where
  "mailedWorld = exampleWorld claimedOnce (resting(0 := Completing firstClaim (sendOutcomeCompletion firstClaim None) [])) [(1, True)]"

lemma resting_back: "resting(k := Resting) = resting"
  by auto

lemmas run_step = converse_rtranclp_into_rtranclp and run_last = r_into_rtranclp and run_append = rtranclp.rtrancl_into_rtrancl

lemma run_to_mailed: "example_run re (exampleWorld exampleStart resting []) mailedWorld"
proof -
  let ?w = "resting(0 := Holding [firstClaim])"
  have 1: "notify_step Some (\<lambda>k. exampleWorker) re (exampleWorld raisedOnce resting []) (exampleWorld claimedOnce ?w [])"
    by (rule example_claim[OF claimedOnce]) simp
  have 2: "notify_step Some (\<lambda>k. exampleWorker) re (exampleWorld claimedOnce ?w []) mailedWorld"
    using example_mail[OF firstClaim(2,3), of ?w 0 re claimedOnce "[]" None] by (simp add: firstClaim(1) mailedWorld_def)
  show ?thesis by (rule run_step[OF example_raise run_step[OF 1 run_last[of "notify_step Some (\<lambda>k. exampleWorker) re", OF 2]]])
qed

definition finishedWorld :: notifyWorld where
  "finishedWorld = exampleWorld sentOnce (resting(0 := Holding [])) [(1, True)]"

lemma run_to_finished: "example_run re (exampleWorld exampleStart resting []) finishedWorld"
proof -
  have "notify_step Some (\<lambda>k. exampleWorker) re mailedWorld finishedWorld"
    unfolding mailedWorld_def finishedWorld_def
    using example_complete[OF sentOnce, of "resting(0 := Completing firstClaim (sendOutcomeCompletion firstClaim None) [])" 0] by simp
  then show ?thesis by (rule run_append[OF run_to_mailed])
qed

lemma mailsOf_example: "mailsOf x (exampleWorld db w ms) = map snd (filter (\<lambda>m. fst m = x) ms)"
  by (simp add: mailsOf_def exampleWorld_sets)

theorem mailed_at_most_three_times_witness:
  "mailsOf 1 finishedWorld = [True] \<and> length (mailsOf 1 finishedWorld) \<le> 3 \<and> list_all Not (butlast (mailsOf 1 finishedWorld))"
  using mailed_at_most_three_times[OF run_to_finished example_idle, of 1]
  by (simp add: finishedWorld_def mailsOf_example)

theorem tables_stay_well_formed_witness: "tables_ok (wd_Tables finishedWorld) \<and> length (tb_Deliveries (wd_Tables finishedWorld)) = 1"
proof -
  have "length (tb_Deliveries sentOnce) = 1" by code_simp
  then show ?thesis using tables_stay_well_formed[OF run_to_finished[of False]] exampleStart_ok(1) by (simp add: finishedWorld_def exampleWorld_sets)
qed

section \<open>A worker that stops\<close>

definition strandedWorld :: notifyWorld where
  "strandedWorld = exampleWorld claimedOnce resting []"

lemma run_to_stranded: "example_run re (exampleWorld exampleStart resting []) strandedWorld"
proof -
  let ?w = "resting(0 := Holding [firstClaim])"
  have 1: "notify_step Some (\<lambda>k. exampleWorker) re (exampleWorld raisedOnce resting []) (exampleWorld claimedOnce ?w [])"
    by (rule example_claim[OF claimedOnce]) simp
  have 2: "notify_step Some (\<lambda>k. exampleWorker) re (exampleWorld claimedOnce ?w []) strandedWorld"
    using notify_step.stop[of Some "\<lambda>k. exampleWorker" re "exampleWorld claimedOnce ?w []" 0]
    by (simp add: strandedWorld_def exampleWorld_sets resting_back)
  show ?thesis by (rule run_step[OF example_raise run_step[OF 1 run_last[of "notify_step Some (\<lambda>k. exampleWorker) re", OF 2]]])
qed

lemma stranded_example: "stranded 1 strandedWorld"
proof -
  have "list_ex (\<lambda>d. dl_ID d = 1 \<and> dl_Status d = ''locked'') (tb_Deliveries claimedOnce)" by code_simp
  then show ?thesis by (auto simp: stranded_def strandedWorld_def exampleWorld_sets heldIDs_def list_ex_iff)
qed

theorem stranded_delivery_is_never_mailed_witness:
  "mailsOf 1 (exampleWorld resolvedOnce resting []) = mailsOf 1 strandedWorld \<and>
   statusOf 1 (exampleWorld resolvedOnce resting []) \<in> {Some ''locked'', Some ''cancelled''}"
  using stranded_delivery_is_never_mailed[OF example_idle run_to_stranded stranded_example, of "exampleWorld resolvedOnce resting []"]
    example_resolve[of False resting "[]"]
  by (auto simp: strandedWorld_def)

section \<open>A worker that completes late\<close>

lemma statusOf_example: "statusOf x (exampleWorld db w ms) = map_option dl_Status (find (\<lambda>d. dl_ID d = x) (tb_Deliveries db))"
  by (simp add: statusOf_def exampleWorld_sets)

lemma run_to_raised_again:
  "example_run True (exampleWorld exampleStart resting [])
     (exampleWorld raisedAgain (resting(0 := Completing firstClaim (sendOutcomeCompletion firstClaim None) [])) [(1, True)])"
  by (rule run_append[OF run_append[OF run_to_mailed[unfolded mailedWorld_def] example_resolve] example_raise_again])

lemma run_of_late_worker:
  "example_run True
     (exampleWorld raisedAgain (resting(0 := Completing firstClaim (sendOutcomeCompletion firstClaim None) [])) [(1, True)])
     (exampleWorld completedLast resting [(1, True), (1, False)])"
proof -
  let ?step = "notify_step Some (\<lambda>k. exampleWorker) True"
  let ?late = "Completing firstClaim (sendOutcomeCompletion firstClaim None) []"
  let ?res = "Some (''refused'', 6)"
  let ?c = "Completing secondClaim (sendOutcomeCompletion secondClaim ?res) []"
  have 1: "?step (exampleWorld raisedAgain (resting(0 := ?late)) [(1, True)])
      (exampleWorld claimedAgain (resting(0 := ?late, 1 := Holding [secondClaim])) [(1, True)])"
    by (rule example_claim[OF claimedAgain]) simp
  have 2: "?step \<dots> (exampleWorld completedStale (resting(0 := Holding [], 1 := Holding [secondClaim])) [(1, True)])"
    using example_complete[OF completedStale, of "resting(0 := ?late, 1 := Holding [secondClaim])" 0] by (simp add: fun_upd_twist)
  have 3: "?step \<dots> (exampleWorld completedStale (resting(0 := Holding [], 1 := ?c)) [(1, True), (1, False)])"
    using example_mail[OF secondClaim(2,3), of "resting(0 := Holding [], 1 := Holding [secondClaim])" 1 True completedStale "[(1, True)]" ?res]
    by (simp add: secondClaim(1))
  have 4: "?step \<dots> (exampleWorld completedLast (resting(0 := Holding [], 1 := Holding [])) [(1, True), (1, False)])"
    using example_complete[OF completedLast, of "resting(0 := Holding [], 1 := ?c)" 1] by simp
  have 5: "?step \<dots> (exampleWorld completedLast (resting(1 := Holding [])) [(1, True), (1, False)])"
    using example_rest[of "resting(0 := Holding [], 1 := Holding [])" 0] by (simp add: fun_upd_twist resting_back)
  have 6: "?step \<dots> (exampleWorld completedLast resting [(1, True), (1, False)])"
    using example_rest[of "resting(1 := Holding [])" 1] by (simp add: resting_back)
  show ?thesis by (rule run_step[OF 1 run_step[OF 2 run_step[OF 3 run_step[OF 4 run_step[OF 5 run_last[of ?step, OF 6]]]]]])
qed

text \<open>C13: A worker that completes late closes the claim of another one: a notification was mailed, resolved and raised
  again, and its delivery is pending; when everyone rests the delivery counts as sent, although the only mail
  since then was refused, and it is not tried again.\<close>

theorem late_worker_closes_anothers_claim:
  "\<exists>start raised last. idle_world start \<and> example_run True start raised \<and>
     mailsOf 1 raised = [True] \<and> statusOf 1 raised = Some ''pending'' \<and>
     example_run True raised last \<and> wd_Workers last = resting \<and>
     mailsOf 1 last = [True, False] \<and> statusOf 1 last = Some ''sent''"
proof -
  have "map_option dl_Status (find (\<lambda>d. dl_ID d = 1) (tb_Deliveries raisedAgain)) = Some ''pending''"
    "map_option dl_Status (find (\<lambda>d. dl_ID d = 1) (tb_Deliveries completedLast)) = Some ''sent''" by code_simp+
  then show ?thesis
    using example_idle run_to_raised_again run_of_late_worker
    by (intro exI[of _ "exampleWorld exampleStart resting []"] exI[of _ "exampleWorld completedLast resting [(1, True), (1, False)]"]
      exI[of _ "exampleWorld raisedAgain (resting(0 := Completing firstClaim (sendOutcomeCompletion firstClaim None) [])) [(1, True)]"])
      (simp add: statusOf_example mailsOf_example exampleWorld_sets)
qed

end
