(* ===== verification/NotifyRepeat.thy ===== *)
theory NotifyRepeat
  imports NotifyExamples
begin

text \<open>
  A notification that is raised twice: the second request finds everything that the first one has created.
\<close>

section \<open>Recipients\<close>

text \<open>A recipient is seated when another request for the same address would leave its row alone.\<close>

definition seated :: "int \<Rightarrow> int \<Rightarrow> addressee \<Rightarrow> notifyTables \<Rightarrow> bool" where
  "seated nid rid a db \<longleftrightarrow> (\<exists>r \<in> set (tb_Recipients db). rr_ID r = rid \<and> rr_NotificationID r = nid \<and>
     sameEmail (rr_Email r) (ad_Email a) \<and> rr_ResolvedAt r = None \<and> refreshed a False r = r)"

lemma refreshed_simps [simp]: "rr_ID (refreshed a b r) = rr_ID r" "rr_NotificationID (refreshed a b r) = rr_NotificationID r"
  "rr_Email (refreshed a b r) = rr_Email r" "rr_ResolvedAt (refreshed a b r) = (if b then None else rr_ResolvedAt r)"
  "refreshed a False (refreshed a b r) = refreshed a b r"
  by (simp_all add: refreshed_def)

lemma in_updateRecipient:
  "r \<in> set (tb_Recipients db) \<Longrightarrow> (if rr_ID r = rid then f r else r) \<in> set (tb_Recipients (updateRecipient rid f db))"
  by (auto simp: updateRecipient_def)

lemma upsertRecipient_seats:
  assumes "upsertRecipient now nid a db = ((rid, b), db')"
  shows "seated nid rid a db'"
proof (cases "find (\<lambda>r. rr_NotificationID r = nid \<and> sameEmail (rr_Email r) (ad_Email a)) (tb_Recipients db)")
  case None
  let ?x = "\<lparr>rr_ID = rid, rr_NotificationID = nid, rr_Subject = ad_Subject a, rr_Email = ad_Email a, rr_Name = ad_Name a,
      rr_ReadAt = None, rr_ArchivedAt = None, rr_ResolvedAt = None, rr_CreatedAt = now\<rparr>"
  have e: "db' = updateRecipient rid (refreshed a False) (db\<lparr>tb_NextRecipient := rid + 1, tb_Recipients := tb_Recipients db @ [?x]\<rparr>)"
    using assms None by (auto simp: upsertRecipient_def Let_def)
  show ?thesis
    unfolding seated_def e
    by (intro bexI[of _ "refreshed a False ?x"]) (simp_all add: updateRecipient_def sameEmail_def)
next
  case (Some r)
  then have e: "rid = rr_ID r" "b \<longleftrightarrow> rr_ResolvedAt r \<noteq> None" "db' = updateRecipient (rr_ID r) (refreshed a b) db"
    using assms by (auto simp: upsertRecipient_def Let_def)
  then show ?thesis
    using in_updateRecipient[of r db "rr_ID r" "refreshed a b"] find_SomeD[OF Some]
    unfolding seated_def by (intro bexI[of _ "refreshed a b r"]) auto
qed

lemma unique_recipient: "keys_ok db \<Longrightarrow> r \<in> set (tb_Recipients db) \<Longrightarrow> s \<in> set (tb_Recipients db) \<Longrightarrow> rr_ID r = rr_ID s \<Longrightarrow> r = s"
  by (auto simp: keys_ok_def distinct_map dest: inj_onD)

lemma upsertRecipient_keeps_seated:
  assumes "upsertRecipient now nid a db = ((rid', b), db')" "keys_ok db" "seated nid rid a0 db" "\<not> sameEmail (ad_Email a) (ad_Email a0)"
  shows "seated nid rid a0 db'"
proof -
  obtain r where r: "r \<in> set (tb_Recipients db)" "rr_ID r = rid" "rr_NotificationID r = nid" "sameEmail (rr_Email r) (ad_Email a0)"
    "rr_ResolvedAt r = None" "refreshed a0 False r = r" using assms(3) unfolding seated_def by blast
  have "r \<in> set (tb_Recipients db')"
  proof (cases "find (\<lambda>r. rr_NotificationID r = nid \<and> sameEmail (rr_Email r) (ad_Email a)) (tb_Recipients db)")
    case None
    let ?x = "\<lparr>rr_ID = rid', rr_NotificationID = nid, rr_Subject = ad_Subject a, rr_Email = ad_Email a, rr_Name = ad_Name a,
        rr_ReadAt = None, rr_ArchivedAt = None, rr_ResolvedAt = None, rr_CreatedAt = now\<rparr>"
    have e: "rid' = tb_NextRecipient db"
      "db' = updateRecipient rid' (refreshed a False) (db\<lparr>tb_NextRecipient := rid' + 1, tb_Recipients := tb_Recipients db @ [?x]\<rparr>)"
      using assms(1) None by (auto simp: upsertRecipient_def Let_def)
    have "rr_ID r < rid'" using assms(2) r(1) unfolding e(1) keys_ok_def list_all_iff by blast
    then show ?thesis using r(1) in_updateRecipient[of r "db\<lparr>tb_NextRecipient := rid' + 1, tb_Recipients := tb_Recipients db @ [?x]\<rparr>" rid'] unfolding e(2) by simp
  next
    case (Some s)
    then have e: "db' = updateRecipient (rr_ID s) (refreshed a b) db" using assms(1) by (auto simp: upsertRecipient_def Let_def)
    have "rr_ID r \<noteq> rr_ID s" using find_SomeD[OF Some] unique_recipient[OF assms(2) r(1), of s] r(4) assms(4) by (auto simp: sameEmail_def)
    then show ?thesis using r(1) in_updateRecipient[of r db "rr_ID s"] unfolding e by simp
  qed
  then show ?thesis using r unfolding seated_def by blast
qed

lemma upsertRecipient_seated:
  assumes "keys_ok db" "seated nid rid a db"
  shows "upsertRecipient now nid a db = ((rid, False), db)"
proof -
  obtain r where r: "r \<in> set (tb_Recipients db)" "rr_ID r = rid" "rr_NotificationID r = nid" "sameEmail (rr_Email r) (ad_Email a)"
    "rr_ResolvedAt r = None" "refreshed a False r = r" using assms(2) unfolding seated_def by blast
  let ?P = "\<lambda>r. rr_NotificationID r = nid \<and> sameEmail (rr_Email r) (ad_Email a)"
  obtain s where s: "find ?P (tb_Recipients db) = Some s" using r by (cases "find ?P (tb_Recipients db)") (auto simp: find_None_iff)
  have "recipientKey s = recipientKey r" using find_SomeD[OF s] r(3,4) by (simp add: recipientKey_def sameEmail_def)
  then have "s = r" using find_SomeD[OF s] r(1) assms(1) by (auto simp: keys_ok_def distinct_map dest: inj_onD)
  moreover have "map (\<lambda>x. if rr_ID x = rid then refreshed a False x else x) (tb_Recipients db) = tb_Recipients db"
    by (rule map_idI) (use unique_recipient[OF assms(1) _ r(1)] r(2,6) in auto)
  ultimately show ?thesis using s r(2,5) by (simp add: upsertRecipient_def updateRecipient_def)
qed

definition addresses :: "addressee list \<Rightarrow> string list" where
  "addresses as = map (\<lambda>a. ToLower (ad_Email a)) as"

lemma upsertRecipients_keep_seated:
  assumes "tables_ok db" "nid \<in> nr_ID ` set (tb_Notifications db)" "upsertRecipients now nid as db = (xs, db')"
    "seated nid rid a0 db" "ToLower (ad_Email a0) \<notin> set (addresses as)"
  shows "seated nid rid a0 db'"
  using assms
proof (induction as arbitrary: db xs)
  case (Cons a as)
  obtain rid' b db1 where u: "upsertRecipient now nid a db = ((rid', b), db1)" by (metis prod.exhaust)
  obtain ys db2 where us: "upsertRecipients now nid as db1 = (ys, db2)" by (metis prod.exhaust)
  note o1 = upsertRecipient_ok[OF Cons.prems(1,2) u]
  have "seated nid rid a0 db1"
    by (rule upsertRecipient_keeps_seated[OF u _ Cons.prems(4)]) (use Cons.prems(1,5) in \<open>auto simp: tables_ok_def sameEmail_def addresses_def\<close>)
  moreover have "db' = db2" using Cons.prems(3) u us by simp
  ultimately show ?case using Cons.IH[OF o1(1) _ _] us o1(3) Cons.prems(2,5) by (simp add: addresses_def)
qed simp

lemma upsertRecipients_seat:
  assumes "tables_ok db" "nid \<in> nr_ID ` set (tb_Notifications db)" "upsertRecipients now nid as db = (xs, db')" "distinct (addresses as)"
  shows "list_all2 (\<lambda>x a. seated nid (fst x) a db') xs as"
  using assms
proof (induction as arbitrary: db xs)
  case (Cons a as)
  obtain rid b db1 where u: "upsertRecipient now nid a db = ((rid, b), db1)" by (metis prod.exhaust)
  obtain ys db2 where us: "upsertRecipients now nid as db1 = (ys, db2)" by (metis prod.exhaust)
  note o1 = upsertRecipient_ok[OF Cons.prems(1,2) u]
  have e: "xs = (rid, b) # ys" "db' = db2" using Cons.prems(3) u us by simp_all
  have n: "nid \<in> nr_ID ` set (tb_Notifications db1)" using o1(3) Cons.prems(2) by simp
  have d: "distinct (addresses as)" "ToLower (ad_Email a) \<notin> set (addresses as)" using Cons.prems(4) by (simp_all add: addresses_def)
  have "seated nid rid a db2" by (rule upsertRecipients_keep_seated[OF o1(1) n us upsertRecipient_seats[OF u] d(2)])
  then show ?case using Cons.IH[OF o1(1) n _ d(1)] us by (simp add: e)
qed simp

lemma upsertRecipients_seated:
  "keys_ok db \<Longrightarrow> list_all2 (\<lambda>x a. seated nid (fst x) a db) xs as \<Longrightarrow> upsertRecipients now nid as db = (map (\<lambda>x. (fst x, False)) xs, db)"
  by (induction as arbitrary: xs) (auto simp: list_all2_Cons2 upsertRecipient_seated)

lemma upsertRecipients_frame:
  "upsertRecipients now nid as db = (xs, db') \<Longrightarrow> tb_Notifications db' = tb_Notifications db \<and> tb_Types db' = tb_Types db"
proof (induction as arbitrary: db xs)
  case (Cons a as)
  obtain rid b db1 where u: "upsertRecipient now nid a db = ((rid, b), db1)" by (metis prod.exhaust)
  then have "tb_Notifications db1 = tb_Notifications db \<and> tb_Types db1 = tb_Types db"
    by (auto simp: upsertRecipient_def updateRecipient_def Let_def split: option.splits)
  then show ?case using Cons.IH[of db1] Cons.prems u by (auto split: prod.splits)
qed simp

section \<open>Deliveries\<close>

definition specKey :: "deliverySpec \<Rightarrow> string \<times> string" where
  "specKey s = (ds_Channel s, ds_PolicyStep s)"

definition deliveryKeys :: "notifyTables \<Rightarrow> (int \<times> string \<times> string) set" where
  "deliveryKeys db = deliveryKey ` set (tb_Deliveries db)"

lemma isFor_key: "isFor rid s d \<longleftrightarrow> deliveryKey d = (rid, specKey s)"
  by (auto simp: isFor_def deliveryKey_def specKey_def)

lemma restarted_key: "deliveryKey (restarted b s d) = deliveryKey d"
  by (simp add: restarted_def deliveryKey_def)

lemma isFor_any: "list_ex (isFor rid s) (tb_Deliveries db) \<longleftrightarrow> (rid, specKey s) \<in> deliveryKeys db"
  by (auto simp: list_ex_iff isFor_key deliveryKeys_def image_iff) metis+

lemma upsertDelivery_keys: "insert (fst x, specKey s) (deliveryKeys db) \<subseteq> deliveryKeys (upsertDelivery x s db)"
proof (cases "(fst x, specKey s) \<in> deliveryKeys db")
  case True
  have "deliveryKeys (upsertDelivery x s db) = deliveryKeys db"
  proof -
    have "map deliveryKey (map (\<lambda>d. if isFor rid s d then restarted b s d else d) ds) = map deliveryKey ds" for rid b ds
      by (simp add: restarted_key)
    then have "deliveryKeys (db\<lparr>tb_NextDelivery := n, tb_Deliveries := map (\<lambda>d. if isFor rid s d then restarted b s d else d) (tb_Deliveries db)\<rparr>) =
        deliveryKeys db" for rid b n by (metis (no_types, lifting) deliveryKeys_def list.set_map notifyTables.select_convs(4)
          notifyTables.surjective notifyTables.update_convs(4))
    then show ?thesis using True by (cases x) (simp add: upsertDelivery_def Let_def isFor_any)
  qed
  then show ?thesis using True by simp
next
  case False
  then show ?thesis by (auto simp: upsertDelivery_def Let_def isFor_any deliveryKeys_def deliveryKey_def specKey_def split: prod.split)
qed

lemma upsertDelivery_fold_keys: "deliveryKeys db \<union> {fst x} \<times> specKey ` set specs \<subseteq> deliveryKeys (fold (upsertDelivery x) specs db)"
proof (induction specs arbitrary: db)
  case (Cons s specs)
  then show ?case using upsertDelivery_keys[of x s db] Cons.IH[of "upsertDelivery x s db"] by auto
qed simp

lemma upsertDeliveries_keys: "deliveryKeys db \<union> fst ` set xs \<times> specKey ` set specs \<subseteq> deliveryKeys (upsertDeliveries xs specs db)"
  unfolding upsertDeliveries_def
proof (induction xs arbitrary: db)
  case (Cons x xs)
  have "deliveryKeys db \<union> {fst x} \<times> specKey ` set specs \<subseteq> deliveryKeys (fold (\<lambda>x. fold (upsertDelivery x) specs) xs (fold (upsertDelivery x) specs db))"
    using upsertDelivery_fold_keys[of db x specs] Cons.IH[of "fold (upsertDelivery x) specs db"] by blast
  moreover have "fst ` set (x # xs) \<times> specKey ` set specs = {fst x} \<times> specKey ` set specs \<union> fst ` set xs \<times> specKey ` set specs" by auto
  ultimately show ?case using Cons.IH[of "fold (upsertDelivery x) specs db"] by simp
qed simp

lemma upsertDelivery_present:
  "(rid, specKey s) \<in> deliveryKeys db \<Longrightarrow> upsertDelivery (rid, False) s db = db\<lparr>tb_NextDelivery := tb_NextDelivery db + 1\<rparr>"
  by (simp add: upsertDelivery_def Let_def isFor_any restarted_def map_idI)

lemma upsertDelivery_fold_present:
  "{rid} \<times> specKey ` set specs \<subseteq> deliveryKeys db \<Longrightarrow>
   fold (upsertDelivery (rid, False)) specs db = db\<lparr>tb_NextDelivery := tb_NextDelivery db + int (length specs)\<rparr>"
proof (induction specs arbitrary: db)
  case (Cons s specs)
  have "{rid} \<times> specKey ` set specs \<subseteq> deliveryKeys (db\<lparr>tb_NextDelivery := tb_NextDelivery db + 1\<rparr>)"
    using Cons.prems by (auto simp: deliveryKeys_def)
  then show ?case using Cons.IH[of "db\<lparr>tb_NextDelivery := tb_NextDelivery db + 1\<rparr>"] Cons.prems
    by (simp add: upsertDelivery_present algebra_simps)
qed simp

lemma upsertDeliveries_present:
  "fst ` set xs \<times> specKey ` set specs \<subseteq> deliveryKeys db \<Longrightarrow>
   upsertDeliveries (map (\<lambda>x. (fst x, False)) xs) specs db =
     db\<lparr>tb_NextDelivery := tb_NextDelivery db + int (length xs) * int (length specs)\<rparr>"
  unfolding upsertDeliveries_def
proof (induction xs arbitrary: db)
  case (Cons x xs)
  let ?db = "db\<lparr>tb_NextDelivery := tb_NextDelivery db + int (length specs)\<rparr>"
  have "fold (upsertDelivery (fst x, False)) specs db = ?db" by (rule upsertDelivery_fold_present) (use Cons.prems in auto)
  moreover have "fst ` set xs \<times> specKey ` set specs \<subseteq> deliveryKeys ?db" using Cons.prems by (auto simp: deliveryKeys_def)
  ultimately show ?case using Cons.IH[of ?db] by (simp add: algebra_simps)
qed simp

lemma upsertDeliveries_frame:
  "tb_Recipients (upsertDeliveries xs specs db) = tb_Recipients db \<and> tb_Notifications (upsertDeliveries xs specs db) = tb_Notifications db \<and>
   tb_Types (upsertDeliveries xs specs db) = tb_Types db"
proof -
  have one: "tb_Recipients (upsertDelivery x s db) = tb_Recipients db" "tb_Notifications (upsertDelivery x s db) = tb_Notifications db"
    "tb_Types (upsertDelivery x s db) = tb_Types db" for x s db
    by (simp_all add: upsertDelivery_def Let_def split: prod.split)
  have "tb_Recipients (fold (upsertDelivery x) specs db) = tb_Recipients db \<and> tb_Notifications (fold (upsertDelivery x) specs db) = tb_Notifications db \<and>
      tb_Types (fold (upsertDelivery x) specs db) = tb_Types db" for x db
    by (induction specs arbitrary: db) (simp_all add: one)
  then show ?thesis unfolding upsertDeliveries_def by (induction xs arbitrary: db) simp_all
qed

section \<open>The whole request\<close>

lemma ToLower_again: "ToLower (ToLower s) = ToLower s"
proof -
  have "to_lower (to_lower c) = to_lower c" for c
  proof (cases "is_upper c")
    case True
    define n where "n = (of_char c :: nat)"
    have n: "65 \<le> n" "n \<le> 90" using True by (simp_all add: is_upper_def less_eq_char_def n_def)
    have l: "to_lower c = char_of (n + 32)" using True by (simp add: to_lower_def n_def)
    have "\<not> is_upper (char_of (n + 32))" using n by (simp add: is_upper_def less_eq_char_def)
    then show ?thesis unfolding l by (simp add: to_lower_def)
  qed (simp add: to_lower_def)
  then show ?thesis by (simp add: ToLower_def)
qed

lemma normalizeEmail_lower: "ToLower (normalizeEmail parse s) = normalizeEmail parse s"
  by (auto simp: normalizeEmail_def Let_def ToLower_again split: option.split) (simp_all add: ToLower_def)

lemma normalizeLoop_addresses:
  "distinct (addresses (normalizeLoop parse seen as)) \<and> set (addresses (normalizeLoop parse seen as)) \<inter> set seen = {}"
  by (induction parse seen as rule: normalizeLoop.induct) (auto simp: addresses_def Let_def normalizeEmail_lower)

lemma emailSpecs_keys:
  "emailSpecs now steps = Some specs \<Longrightarrow> \<exists>specs'. emailSpecs now' steps = Some specs' \<and> map specKey specs' = map specKey specs \<and>
     map ds_Status specs' = map ds_Status specs"
  by (induction steps arbitrary: specs) (fastforce simp: specKey_def split: if_splits option.splits)+

lemma policy_keys:
  "deliverySpecsForPolicy p now = Some specs \<Longrightarrow> \<exists>specs'. deliverySpecsForPolicy p now' = Some specs' \<and> map specKey specs' = map specKey specs \<and>
     map ds_Status specs' = map ds_Status specs"
  using emailSpecs_keys[of now "dp_EmailSteps p" _ now'] by (fastforce simp: deliverySpecsForPolicy_def Let_def specKey_def split: if_splits)

text \<open>The same input at another time asks for the same, but for the times.\<close>

lemma notifyRequest_again:
  assumes "notifyRequest parse now i db = Inr c" "tb_Types db' = tb_Types db"
  shows "\<exists>specs. notifyRequest parse now' i db' = Inr (c\<lparr>ci_Deliveries := specs\<rparr>) \<and> map specKey specs = map specKey (ci_Deliveries c) \<and>
    map ds_Status specs = map ds_Status (ci_Deliveries c)"
proof -
  obtain ty p where t: "GetType (TrimSpace (ni_TypeKey i)) db = Some ty" "effectivePolicy (nt_DefaultPolicy ty) (ni_PolicyOverride i) = Some p"
    "deliverySpecsForPolicy p now = Some (ci_Deliveries c)"
    using assms(1) by (auto simp: notifyRequest_def Let_def bind_eq_Some_conv split: if_splits option.splits)
  obtain specs where s: "deliverySpecsForPolicy p now' = Some specs" "map specKey specs = map specKey (ci_Deliveries c)"
    "map ds_Status specs = map ds_Status (ci_Deliveries c)" using policy_keys[OF t(3)] by blast
  have "GetType (TrimSpace (ni_TypeKey i)) db' = Some ty" using t(1) assms(2) by (simp add: GetType_def)
  then have "notifyRequest parse now' i db' = Inr (c\<lparr>ci_Deliveries := specs\<rparr>)"
    using assms(1) t s(1) by (cases c) (auto simp: notifyRequest_def Let_def split: if_splits option.splits)
  then show ?thesis using s by blast
qed

lemma notifyRequest_addresses: "notifyRequest parse now i db = Inr c \<Longrightarrow> distinct (addresses (ci_Recipients c))"
  using normalizeLoop_addresses by (auto simp: notifyRequest_def Let_def normalizeRecipients_def split: if_splits option.splits)

lemma constraintsMet_again:
  assumes "constraintsMet c" "map specKey specs = map specKey (ci_Deliveries c)" "map ds_Status specs = map ds_Status (ci_Deliveries c)"
  shows "constraintsMet (c\<lparr>ci_Deliveries := specs\<rparr>)"
proof -
  let ?P = "\<lambda>(ch, st) status. ch \<in> {channelPortal, channelEmail} \<and> status \<in> {''pending'', ''locked'', ''sent'', ''skipped'', ''failed'', ''cancelled''} \<and>
     dropWhile (\<lambda>c. c = CHR '' '') st \<noteq> []"
  have e: "list_all (\<lambda>s. ds_Channel s \<in> {channelPortal, channelEmail} \<and>
                   ds_Status s \<in> {''pending'', ''locked'', ''sent'', ''skipped'', ''failed'', ''cancelled''} \<and>
                   dropWhile (\<lambda>c. c = CHR '' '') (ds_PolicyStep s) \<noteq> []) ss \<longleftrightarrow> list_all (\<lambda>(k, st). ?P k st) (zip (map specKey ss) (map ds_Status ss))" for ss
    by (induction ss) (simp_all add: specKey_def)
  have f: "ci_Severity (c\<lparr>ci_Deliveries := specs\<rparr>) = ci_Severity c" "ci_Recipients (c\<lparr>ci_Deliveries := specs\<rparr>) = ci_Recipients c"
    "ci_Deliveries (c\<lparr>ci_Deliveries := specs\<rparr>) = specs" by simp_all
  show ?thesis using assms(1) unfolding constraintsMet_def f e assms(2,3) .
qed

lemma find_append: "find P (xs @ ys) = (case find P xs of None \<Rightarrow> find P ys | Some x \<Rightarrow> Some x)"
  by (induction xs) simp_all

lemma create_again:
  assumes "tables_ok db" "CreateNotification now c db = Some (res, db1)" "specs_ok (ci_Deliveries c)" "distinct (addresses (ci_Recipients c))"
    "map specKey specs = map specKey (ci_Deliveries c)" "map ds_Status specs = map ds_Status (ci_Deliveries c)"
  shows "CreateNotification now' (c\<lparr>ci_Deliveries := specs\<rparr>) db1 =
    Some (res\<lparr>ns_Created := False\<rparr>, db1\<lparr>tb_NextNotification := tb_NextNotification db1 + 1,
      tb_NextDelivery := tb_NextDelivery db1 + int (ns_RecipientCount res) * int (length specs)\<rparr>)"
proof -
  obtain nid created n1 where n: "upsertNotification now c db = ((nid, created), n1)" by (metis prod.exhaust)
  obtain xs n2 where r: "upsertRecipients now nid (ci_Recipients c) n1 = (xs, n2)" by (metis prod.exhaust)
  have d: "constraintsMet c" "db1 = upsertDeliveries xs (ci_Deliveries c) n2" "res = \<lparr>ns_NotificationID = nid, ns_RecipientCount = length xs, ns_Created = created\<rparr>"
    using assms(2) n r by (auto simp: CreateNotification_def split: if_splits)
  note o1 = upsertNotification_ok[OF assms(1) n]
  have seats: "list_all2 (\<lambda>x a. seated nid (fst x) a n2) xs (ci_Recipients c)" by (rule upsertRecipients_seat[OF o1(1,2) r assms(4)])
  have fr: "tb_Recipients db1 = tb_Recipients n2" "tb_Notifications db1 = tb_Notifications n1"
    using upsertDeliveries_frame[of xs "ci_Deliveries c" n2] upsertRecipients_frame[OF r] by (simp_all add: d(2))
  have ok: "tables_ok db1" by (rule CreateNotification_ok[OF assms(1-3)])
  obtain m where m: "find (\<lambda>n. nr_DedupeKey n = ci_DedupeKey c) (tb_Notifications n1) = Some m" "nr_ID m = nid"
    using n by (cases "find (\<lambda>n. nr_DedupeKey n = ci_DedupeKey c) (tb_Notifications db)")
      (auto simp: upsertNotification_def Let_def find_append)
  let ?n = "db1\<lparr>tb_NextNotification := tb_NextNotification db1 + 1\<rparr>"
  have 1: "upsertNotification now' (c\<lparr>ci_Deliveries := specs\<rparr>) db1 = ((nid, False), ?n)"
    using m fr(2) by (simp add: upsertNotification_def Let_def)
  have k: "keys_ok ?n" using ok by (auto simp: tables_ok_def keys_ok_def list_all_iff)
  have 2: "upsertRecipients now' nid (ci_Recipients c) ?n = (map (\<lambda>x. (fst x, False)) xs, ?n)"
    by (rule upsertRecipients_seated[OF k]) (use seats fr(1) in \<open>simp add: seated_def\<close>)
  have "fst ` set xs \<times> specKey ` set specs \<subseteq> deliveryKeys ?n"
    using upsertDeliveries_keys[of n2 xs "ci_Deliveries c"] arg_cong[OF assms(5), of set] by (simp add: d(2) deliveryKeys_def)
  then have 3: "upsertDeliveries (map (\<lambda>x. (fst x, False)) xs) specs ?n =
      ?n\<lparr>tb_NextDelivery := tb_NextDelivery ?n + int (length xs) * int (length specs)\<rparr>" by (rule upsertDeliveries_present)
  show ?thesis using constraintsMet_again[OF d(1) assms(5,6)] 1 2 3 by (simp add: CreateNotification_def d(3))
qed

text \<open>C10: Raising the same notification again, at any later time, changes no row: the answer names the notification that is
  there, the recipients are the same, and only the sequences have moved.\<close>

theorem notify_again_changes_no_row:
  assumes "tables_ok db" "NotifyAll parse now i db = Inr (res, db1)"
  shows "\<exists>k. NotifyAll parse now' i db1 =
    Inr (res\<lparr>ns_Created := False\<rparr>, db1\<lparr>tb_NextNotification := tb_NextNotification db1 + 1, tb_NextDelivery := tb_NextDelivery db1 + k\<rparr>)"
proof -
  obtain c where c: "notifyRequest parse now i db = Inr c" "CreateNotification now c db = Some (res, db1)"
    using assms(2) by (auto simp: NotifyAll_def split: sum.splits option.splits)
  have "tb_Types db1 = tb_Types db"
    using c(2) upsertDeliveries_frame upsertRecipients_frame upsertNotification_ok(6)[OF assms(1)]
    by (auto simp: CreateNotification_def split: if_splits prod.splits; metis)
  then obtain specs where s: "notifyRequest parse now' i db1 = Inr (c\<lparr>ci_Deliveries := specs\<rparr>)" "map specKey specs = map specKey (ci_Deliveries c)"
    "map ds_Status specs = map ds_Status (ci_Deliveries c)" using notifyRequest_again[OF c(1)] by blast
  show ?thesis
    using create_again[OF assms(1) c(2) notifyRequest_specs[OF c(1)] notifyRequest_addresses[OF c(1)] s(2,3)] s(1)
    by (auto simp: NotifyAll_def)
qed

theorem notify_again_changes_no_row_witness:
  "\<exists>res k. NotifyAll Some 0 exampleInput exampleStart = Inr (res, raisedOnce) \<and>
     NotifyAll Some 9 exampleInput raisedOnce = Inr (res\<lparr>ns_Created := False\<rparr>,
       raisedOnce\<lparr>tb_NextNotification := tb_NextNotification raisedOnce + 1, tb_NextDelivery := tb_NextDelivery raisedOnce + k\<rparr>)"
proof -
  obtain res where "CreateNotification 0 (exampleRequest 0) exampleStart = Some (res, raisedOnce)" using raisedOnce(2) by blast
  then have "NotifyAll Some 0 exampleInput exampleStart = Inr (res, raisedOnce)" by (simp add: NotifyAll_def raisedOnce(1))
  then show ?thesis using notify_again_changes_no_row[OF exampleStart_ok(1)] by blast
qed

end
