(* ===== verification/NotifyPages.thy ===== *)
theory NotifyPages
  imports NotifyTables
begin

text \<open>
  The pages of a user's notifications: a client that follows the cursors sees every notification once.
\<close>

section \<open>Following the cursors\<close>

definition nextPage :: "listInput \<Rightarrow> listResult \<Rightarrow> listInput" where
  "nextPage q r = q\<lparr>li_CursorCreatedAt := lr_NextCreatedAt r, li_CursorID := lr_NextID r\<rparr>"

text \<open>The items of at most so many pages.\<close>

fun pages :: "nat \<Rightarrow> listInput \<Rightarrow> notifyTables \<Rightarrow> (recipientRow \<times> notificationRow) list" where
  "pages 0 q db = []"
| "pages (Suc n) q db =
     (let r = List q db in lr_Items r @ (if lr_HasNext r then pages n (nextPage q r) db else []))"

definition pageLimit :: "listInput \<Rightarrow> nat" where
  "pageLimit q = (if li_Limit q \<le> 0 then 30 else nat (li_Limit q))"

text \<open>What is left from the cursor on.\<close>

definition remaining :: "listInput \<Rightarrow> notifyTables \<Rightarrow> (recipientRow \<times> notificationRow) list" where
  "remaining q db = sort_key newest (filter (afterCursor q) (filter (listed q) (joined db)))"

lemma filter_after:
  fixes f :: "'a \<Rightarrow> int \<times> int"
  assumes "sorted_wrt (<) (map f xs)" "0 < l" "l \<le> length xs"
  shows "filter (\<lambda>x. f (xs ! (l - 1)) < f x) xs = drop l xs"
proof -
  have s: "f (xs ! i) < f (xs ! j)" if "i < j" "j < length xs" for i j
    using assms(1) that by (simp add: sorted_wrt_iff_nth_less)
  have "filter (\<lambda>x. f (xs ! (l - 1)) < f x) (take l xs) = []"
  proof (rule filter_False, rule ballI)
    fix x assume "x \<in> set (take l xs)"
    then obtain i where i: "i < l" "x = xs ! i" using assms(3) by (auto simp: in_set_conv_nth)
    show "\<not> f (xs ! (l - 1)) < f x"
    proof (cases "i = l - 1")
      case False
      then have "f x < f (xs ! (l - 1))" using s[of i "l - 1"] i assms(2,3) by simp
      then show ?thesis by simp
    qed (use i in simp)
  qed
  moreover have "filter (\<lambda>x. f (xs ! (l - 1)) < f x) (drop l xs) = drop l xs"
  proof (rule filter_True, rule ballI)
    fix x assume "x \<in> set (drop l xs)"
    then obtain i where "i < length xs - l" "x = xs ! (l + i)" using assms(3) by (auto simp: in_set_conv_nth)
    then show "f (xs ! (l - 1)) < f x" using s[of "l - 1" "l + i"] assms(2) by simp
  qed
  moreover have "filter P xs = filter P (take l xs) @ filter P (drop l xs)" for P by (metis append_take_drop_id filter_append)
  ultimately show ?thesis by simp
qed

lemma joined_ids: "keys_ok db \<Longrightarrow> distinct (map (\<lambda>x. rr_ID (fst x)) (joined db))"
proof -
  have "distinct (map (\<lambda>x. rr_ID (fst x)) (List.map_filter (\<lambda>r. map_option (\<lambda>n. (r, n)) (notificationOf db r)) rs)) \<and>
      (\<lambda>x. rr_ID (fst x)) ` set (List.map_filter (\<lambda>r. map_option (\<lambda>n. (r, n)) (notificationOf db r)) rs) \<subseteq> rr_ID ` set rs"
    if "distinct (map rr_ID rs)" for rs
    using that by (induction rs) (auto simp: map_filter_simps split: option.split)
  then show "keys_ok db \<Longrightarrow> ?thesis" by (simp add: keys_ok_def joined_def)
qed

lemma remaining_sorted: "keys_ok db \<Longrightarrow> sorted_wrt (<) (map newest (remaining q db))"
proof -
  assume k: "keys_ok db"
  let ?L = "filter (afterCursor q) (filter (listed q) (joined db))"
  have "distinct (map (\<lambda>x. rr_ID (fst x)) ?L)" using joined_ids[OF k] by (simp add: distinct_map_filter)
  then have "inj_on newest (set ?L)" "distinct ?L" by (auto simp: distinct_map inj_on_def newest_def)
  then have "distinct (map newest (remaining q db))" by (simp add: remaining_def distinct_map)
  then show ?thesis by (simp add: remaining_def strict_sorted_iff)
qed

lemma listed_next [simp]: "listed (nextPage q r) = listed q"
  by (simp add: listed_def nextPage_def fun_eq_iff)

text \<open>Rows that a cursor can name.\<close>

definition cursorable :: "notifyTables \<Rightarrow> bool" where
  "cursorable db \<longleftrightarrow> list_all (\<lambda>r. 0 < rr_ID r \<and> rr_CreatedAt r \<noteq> zeroInstant) (tb_Recipients db)"

lemma joined_recipients: "x \<in> set (joined db) \<Longrightarrow> fst x \<in> set (tb_Recipients db)"
  by (auto simp: joined_def map_filter_def split: option.splits)

lemma afterCursor_next:
  assumes "rr_CreatedAt (fst y) \<noteq> zeroInstant" "0 < rr_ID (fst y)" "lr_NextCreatedAt r = rr_CreatedAt (fst y)" "lr_NextID r = rr_ID (fst y)"
  shows "afterCursor (nextPage q r) x \<longleftrightarrow> newest y < newest x"
  using assms by (auto simp: afterCursor_def nextPage_def newest_def less_prod_def)

lemma afterCursor_mono: "afterCursor q y \<Longrightarrow> newest y < newest x \<Longrightarrow> afterCursor q x"
  by (auto simp: afterCursor_def newest_def less_prod_def split: if_splits)

lemma pageLimit_pos: "0 < pageLimit q"
  by (simp add: pageLimit_def)

lemma List_page:
  assumes "keys_ok db" "cursorable db"
  shows "lr_Items (List q db) = take (pageLimit q) (remaining q db)"
    "lr_HasNext (List q db) \<longleftrightarrow> pageLimit q < length (remaining q db)"
    "lr_HasNext (List q db) \<Longrightarrow> remaining (nextPage q (List q db)) db = drop (pageLimit q) (remaining q db)"
proof -
  let ?S = "remaining q db" and ?l = "pageLimit q"
  show "lr_Items (List q db) = take ?l ?S" "lr_HasNext (List q db) \<longleftrightarrow> ?l < length ?S"
    by (auto simp: List_def Let_def pageLimit_def remaining_def)
  assume n: "lr_HasNext (List q db)"
  let ?y = "?S ! (?l - 1)"
  have l: "?l < length ?S" using n by (auto simp: List_def Let_def pageLimit_def remaining_def split: if_splits)
  have y: "?y \<in> set ?S" using l by simp
  then have yq: "afterCursor q ?y" "fst ?y \<in> set (tb_Recipients db)" using joined_recipients by (simp_all add: remaining_def)
  have c: "lr_NextCreatedAt (List q db) = rr_CreatedAt (fst ?y)" "lr_NextID (List q db) = rr_ID (fst ?y)"
    using l pageLimit_pos[of q] by (auto simp: List_def Let_def pageLimit_def remaining_def split: if_splits)
  have a: "afterCursor (nextPage q (List q db)) x \<longleftrightarrow> newest ?y < newest x" for x
    by (rule afterCursor_next[OF _ _ c]) (use yq(2) assms(2) in \<open>auto simp: cursorable_def list_all_iff\<close>)
  have "remaining (nextPage q (List q db)) db = sort_key newest (filter (\<lambda>x. newest ?y < newest x) (filter (listed q) (joined db)))"
    by (simp add: remaining_def a)
  also have "\<dots> = sort_key newest (filter (\<lambda>x. newest ?y < newest x) (filter (afterCursor q) (filter (listed q) (joined db))))"
    using afterCursor_mono[OF yq(1)] by (simp only: filter_filter) (metis (mono_tags, lifting))
  also have "\<dots> = filter (\<lambda>x. newest ?y < newest x) ?S" by (simp add: filter_sort remaining_def)
  also have "\<dots> = drop ?l ?S" using filter_after[OF remaining_sorted[OF assms(1)] pageLimit_pos[of q]] l by simp
  finally show "remaining (nextPage q (List q db)) db = drop ?l ?S" .
qed

lemma pages_remaining:
  "keys_ok db \<Longrightarrow> cursorable db \<Longrightarrow> length (remaining q db) < n \<Longrightarrow> pages n q db = remaining q db"
proof (induction n arbitrary: q)
  case (Suc n)
  note p = List_page[OF Suc.prems(1,2), of q]
  show ?case
  proof (cases "lr_HasNext (List q db)")
    case True
    have "length (remaining (nextPage q (List q db)) db) < n" using p(2,3) True Suc.prems(3) pageLimit_pos[of q] by simp
    then have "pages n (nextPage q (List q db)) db = drop (pageLimit q) (remaining q db)" using Suc.IH Suc.prems(1,2) p(3) True by simp
    then show ?thesis using True p(1) by (simp add: Let_def)
  next
    case False
    then show ?thesis using p(1,2) by (simp add: Let_def)
  qed
qed simp

text \<open>C11: Following the cursors from the first page on, a client sees each notification of the user that meets the filter
  exactly once, the newest first, on any size of page.\<close>

theorem pages_enumerate:
  assumes "tables_ok db" "cursorable db" "li_CursorID q = 0" "length (tb_Recipients db) < n"
  shows "pages n q db = sort_key newest (filter (listed q) (joined db))"
proof -
  have "length (joined db) \<le> length (tb_Recipients db)" by (simp add: joined_def map_filter_def)
  then have "length (filter (listed q) (joined db)) < n" by (rule le_less_trans[OF le_trans[OF length_filter_le] assms(4)])
  moreover have "remaining q db = sort_key newest (filter (listed q) (joined db))" using assms(3) by (simp add: remaining_def afterCursor_def)
  ultimately show ?thesis using pages_remaining[of db q n] assms by (simp add: tables_ok_def)
qed

definition pagesTables :: notifyTables where
  "pagesTables = \<lparr>tb_Types = [],
     tb_Notifications = map (\<lambda>i. \<lparr>nr_ID = i, nr_TypeKey = ''t'', nr_AppID = ''a'', nr_Severity = ''info'', nr_Title = ''T'', nr_Body = '''',
       nr_EntityType = '''', nr_EntityID = '''', nr_DedupeKey = (if i = 1 then ''j'' else ''k''), nr_DeepLink = '''', nr_Metadata = [],
       nr_PolicyOverride = [], nr_CreatedBySubject = '''', nr_CreatedByEmail = '''', nr_CreatedAt = 0\<rparr>) [1, 2],
     tb_Recipients = map (\<lambda>i. \<lparr>rr_ID = i, rr_NotificationID = i, rr_Subject = '''', rr_Email = ''u@x'', rr_Name = '''', rr_ReadAt = None,
       rr_ArchivedAt = None, rr_ResolvedAt = None, rr_CreatedAt = 5\<rparr>) [1, 2],
     tb_Deliveries = [], tb_Attempts = [], tb_NextNotification = 3, tb_NextRecipient = 3, tb_NextDelivery = 1\<rparr>"

definition pagesQuery :: listInput where
  "pagesQuery = \<lparr>li_Email = ''U@x'', li_Unread = True, li_AppID = '''', li_Limit = 1, li_CursorCreatedAt = zeroInstant, li_CursorID = 0\<rparr>"

theorem pages_enumerate_witness:
  "lr_HasNext (List pagesQuery pagesTables) \<and> map (\<lambda>x. rr_ID (fst x)) (pages 3 pagesQuery pagesTables) = [2, 1] \<and>
   pages 3 pagesQuery pagesTables = sort_key newest (filter (listed pagesQuery) (joined pagesTables))"
proof -
  have "keys_ok pagesTables" by code_simp
  moreover have "list_all delivery_ok (tb_Deliveries pagesTables)" "locks_ok pagesTables" "cursorable pagesTables"
    "li_CursorID pagesQuery = 0" "length (tb_Recipients pagesTables) < 3" by code_simp+
  ultimately have "pages 3 pagesQuery pagesTables = sort_key newest (filter (listed pagesQuery) (joined pagesTables))"
    by (intro pages_enumerate) (simp_all add: tables_ok_def)
  moreover have "lr_HasNext (List pagesQuery pagesTables)" "map (\<lambda>x. rr_ID (fst x)) (pages 3 pagesQuery pagesTables) = [2, 1]" by code_simp+
  ultimately show ?thesis by simp
qed

end
