(* ===== verification/DeepValues.thy ===== *)
theory DeepValues
  imports RdaValues
begin

text \<open>
  What the deep-dive analysis of companies (\<open>binocolo\<close>) uses of Go's numbers, and the readers of vendor
  payloads in \<open>ma_vendor.go\<close>. A payload is decoded with \<open>UseNumber\<close>; a Go map is an association list with
  distinct keys, in the order in which a loop over it would visit them.
\<close>

section \<open>Numbers\<close>

text \<open>\<open>a - b\<close>, \<open>math.Abs\<close>, \<open>math.Round\<close>, \<open>math.Min\<close>, \<open>math.Max\<close>, and a division by a number that is not zero.\<close>

definition nsub :: "number \<Rightarrow> number \<Rightarrow> number" where
  "nsub a b = nadd a (nneg b)"

fun nabs :: "number \<Rightarrow> number" where
  "nabs (Fin q) = Fin \<bar>q\<bar>"
| "nabs NaN = NaN"
| "nabs _ = PosInf"

fun nround :: "number \<Rightarrow> number" where
  "nround (Fin q) = Fin (of_int (Round q))"
| "nround x = x"

definition nmin :: "number \<Rightarrow> number \<Rightarrow> number" where
  "nmin a b = (if a = NegInf \<or> b = NegInf then NegInf else if a = NaN \<or> b = NaN then NaN else if nless a b then a else b)"

definition nmax :: "number \<Rightarrow> number \<Rightarrow> number" where
  "nmax a b = (if a = PosInf \<or> b = PosInf then PosInf else if a = NaN \<or> b = NaN then NaN else if nless b a then a else b)"

definition ndiv :: "number \<Rightarrow> number \<Rightarrow> number" where
  "ndiv a b = (if nless b (Fin 0) then ndiv_pos (nneg a) (nneg b) else ndiv_pos a b)"

text \<open>\<open>a <= b\<close>, \<open>a > b\<close>, \<open>a == b\<close> and \<open>a != b\<close>.\<close>

abbreviation nleq :: "number \<Rightarrow> number \<Rightarrow> bool" where "nleq a b \<equiv> ngeq b a"

abbreviation ngreater :: "number \<Rightarrow> number \<Rightarrow> bool" where "ngreater a b \<equiv> nless b a"

definition nequal :: "number \<Rightarrow> number \<Rightarrow> bool" where
  "nequal a b \<longleftrightarrow> a = b \<and> a \<noteq> NaN"

text \<open>A constant of the source.\<close>

definition lit :: "rat \<Rightarrow> number" where
  "lit q = Fin (fl q)"

text \<open>\<open>fmt\<close> with \<open>%.0f\<close>, \<open>%.1f\<close>: so many digits after the point, rounded to nearest even.\<close>

definition formatFixed :: "nat \<Rightarrow> number \<Rightarrow> string" where
  "formatFixed k x =
     (case x of
        Fin q \<Rightarrow>
          let ds = digits_of (nat (round_half_even (\<bar>q\<bar> * 10 ^ k)));
              ps = replicate (Suc k - length ds) (CHR ''0'') @ ds
          in (if q < 0 then ''-'' else '''') @ take (length ps - k) ps @ (if k = 0 then '''' else ''.'' @ drop (length ps - k) ps)
      | PosInf \<Rightarrow> ''+Inf'' | NegInf \<Rightarrow> ''-Inf'' | NaN \<Rightarrow> ''NaN'')"

text \<open>For evaluation: the bound of the format written out.\<close>

lemma maxFloat_code [code]: "maxFloat =
  179769313486231590772930519078902473361797697894230657273430081157732675805500963132708477322407536021120113879871393357658789768814416622492847430639474124377767893424865485276302219601246094119453082952085005768838150682342462881473913110540827237163350510684586298239947245938479716304835356329624224137216"
  by (simp add: maxFloat_def)

section \<open>Readers of payloads\<close>

type_synonym payload = "fields option"

text \<open>\<open>strings.Split\<close> at a character.\<close>

fun splitAt :: "char \<Rightarrow> string \<Rightarrow> string list" where
  "splitAt c [] = ['''']"
| "splitAt c (x # xs) = (if x = c then '''' # splitAt c xs else case splitAt c xs of (p # ps) \<Rightarrow> (x # p) # ps | [] \<Rightarrow> [[x]])"

fun walkPath :: "any \<Rightarrow> string list \<Rightarrow> any option" where
  "walkPath v [] = Some v"
| "walkPath v (part # parts) =
     (case v of
        Obj m \<Rightarrow> (case map_of m part of None \<Rightarrow> None | Some w \<Rightarrow> walkPath w parts)
      | _ \<Rightarrow> None)"

definition vendorPath :: "fields \<Rightarrow> string \<Rightarrow> any option" where
  "vendorPath object path = walkPath (Obj object) (splitAt (CHR ''.'') path)"

definition vendorString :: "any \<Rightarrow> string" where
  "vendorString v =
     (case v of
        Str s \<Rightarrow> TrimSpace s
      | Number s \<Rightarrow> s
      | Float x \<Rightarrow> (case x of Fin q \<Rightarrow> if q = of_int \<lfloor>q\<rfloor> then FormatInt (int64_of_number x) else FormatFloat x
                   | NaN \<Rightarrow> FormatFloat x | _ \<Rightarrow> FormatInt (int64_of_number x))
      | Bool b \<Rightarrow> if b then ''true'' else ''false''
      | _ \<Rightarrow> '''')"

definition parsed :: "number \<times> bool \<Rightarrow> number option" where
  "parsed x = (if snd x then Some (fst x) else None)"

definition vendorNumber :: "any \<Rightarrow> number option" where
  "vendorNumber v =
     (case v of
        Number s \<Rightarrow> parsed (ParseFloat s)
      | Float x \<Rightarrow> Some x
      | Integer i \<Rightarrow> Some (to_number (of_int i))
      | Str s \<Rightarrow>
          let t = TrimSpace (ReplaceChar (CHR '' '') '''' s)
          in if t = '''' then None else parsed (ParseFloat (ReplaceChar (CHR '','') ''.'' (ReplaceChar (CHR ''.'') '''' t)))
      | _ \<Rightarrow> None)"

fun firstVendorString :: "fields \<Rightarrow> string list \<Rightarrow> string" where
  "firstVendorString object [] = ''''"
| "firstVendorString object (path # paths) =
     (case vendorPath object path of
        None \<Rightarrow> firstVendorString object paths
      | Some v \<Rightarrow> let text = vendorString v in if text \<noteq> '''' then text else firstVendorString object paths)"

text \<open>\<open>maInspectNumber\<close> and \<open>deepFloatPtr\<close>; \<open>deepIntPtr\<close> truncates.\<close>

definition maInspectNumber :: "fields \<Rightarrow> string \<Rightarrow> number option" where
  "maInspectNumber rt path = Option.bind (vendorPath rt path) vendorNumber"

definition deepFloatPtr :: "fields \<Rightarrow> string \<Rightarrow> number option" where
  "deepFloatPtr rt path = (case vendorPath rt path of None \<Rightarrow> None | Some v \<Rightarrow> vendorNumber v)"

definition deepIntPtr :: "fields \<Rightarrow> string \<Rightarrow> int option" where
  "deepIntPtr rt path = map_option int64_of_number (deepFloatPtr rt path)"

text \<open>The object itself, or the one in its envelope.\<close>

definition deepFullRoot :: "fields \<Rightarrow> fields" where
  "deepFullRoot object =
     (if list_ex (\<lambda>k. map_of object k \<noteq> None) [''operatingResults'', ''profitability'', ''ecofin''] then object
      else case map_of object ''data'' of Some (Obj inner) \<Rightarrow> inner | _ \<Rightarrow> object)"

definition normalizeAtecoCode :: "string \<Rightarrow> string" where
  "normalizeAtecoCode raw = ReplaceChar (CHR '' '') '''' (ToUpper (TrimSpace raw))"

definition atecoPaths :: "string list" where
  "atecoPaths = [''atecoClassification.ateco.code'', ''atecoClassification.ateco2022.code'', ''ateco.code'']"

section \<open>Rounding is monotone\<close>

lemma round_half_even_mono: "x \<le> y \<Longrightarrow> round_half_even x \<le> round_half_even y"
proof -
  assume xy: "x \<le> y"
  have le: "\<lfloor>x\<rfloor> \<le> \<lfloor>y\<rfloor>" using xy by (rule floor_mono)
  have r: "round_half_even z = \<lfloor>z\<rfloor> \<or> round_half_even z = \<lfloor>z\<rfloor> + 1" for z by (simp add: round_half_even_def Let_def)
  show ?thesis
  proof (cases "\<lfloor>x\<rfloor> = \<lfloor>y\<rfloor>")
    case True
    then show ?thesis using xy by (auto simp: round_half_even_def Let_def)
  next
    case False
    then show ?thesis using le r[of x] r[of y] by linarith
  qed
qed

lemma ilog2_mono: "0 < x \<Longrightarrow> x \<le> y \<Longrightarrow> ilog2 x \<le> ilog2 y"
proof (rule ccontr)
  assume a: "0 < x" "x \<le> y" "\<not> ilog2 x \<le> ilog2 y"
  have "y < 2 powi (ilog2 y + 1)" using ilog2_bounds[of y] a by simp
  also have "\<dots> \<le> 2 powi (ilog2 x)" using a(3) by (intro power_int_increasing) simp_all
  also have "\<dots> \<le> x" using ilog2_bounds[of x] a by simp
  finally show False using a(2) by simp
qed

text \<open>A multiple of the unit that bounds a number bounds its rounding.\<close>

lemma fl_le_grid: "x \<noteq> 0 \<Longrightarrow> x \<le> of_int n * ulp64 x \<Longrightarrow> fl x \<le> of_int n * ulp64 x"
proof -
  assume a: "x \<noteq> 0" "x \<le> of_int n * ulp64 x"
  have "x / ulp64 x \<le> of_int n" using a(2) by (simp add: pos_divide_le_eq)
  then have "round_half_even (x / ulp64 x) \<le> n" using round_half_even_mono[of _ "of_int n"] by fastforce
  then show ?thesis using a(1) by (simp add: fl_def)
qed

lemma fl_ge_grid: "x \<noteq> 0 \<Longrightarrow> of_int n * ulp64 x \<le> x \<Longrightarrow> of_int n * ulp64 x \<le> fl x"
proof -
  assume a: "x \<noteq> 0" "of_int n * ulp64 x \<le> x"
  have "of_int n \<le> x / ulp64 x" using a(2) by (simp add: pos_le_divide_eq)
  then have "n \<le> round_half_even (x / ulp64 x)" using round_half_even_mono[of "of_int n"] by fastforce
  then show ?thesis using a(1) by (simp add: fl_def)
qed

lemma powi_whole: "0 \<le> k \<Longrightarrow> (2::rat) powi k = of_int (2 ^ nat k)"
  by (simp add: power_int_def)

lemma powi_grid: "e \<le> k \<Longrightarrow> (2::rat) powi k = of_int (2 ^ nat (k - e)) * 2 powi e"
proof -
  assume "e \<le> k"
  then have "(2::rat) powi (k - e) = of_int (2 ^ nat (k - e))" by (intro powi_whole) simp
  moreover have "(2::rat) powi k = 2 powi (k - e) * 2 powi e" by (simp add: power_int_add[symmetric])
  ultimately show ?thesis by simp
qed

lemma fl_mono_pos:
  assumes "0 < x" "x \<le> y"
  shows "fl x \<le> fl y"
proof -
  let ?E = "\<lambda>z. max (ilog2 z - 52) (- 1074)"
  have u: "ulp64 x = 2 powi ?E x" "ulp64 y = 2 powi ?E y" using assms by (simp_all add: ulp64_def)
  have i: "ilog2 x \<le> ilog2 y" using ilog2_mono[OF assms] .
  show ?thesis
  proof (cases "?E x = ?E y")
    case True
    then have "ulp64 x = ulp64 y" using u by simp
    moreover have "x / ulp64 x \<le> y / ulp64 x" using assms(2) by (simp add: divide_right_mono less_imp_le)
    ultimately show ?thesis using round_half_even_mono assms by (simp add: fl_def mult_right_mono less_imp_le)
  next
    case False
    then have lt: "?E x < ?E y" "?E y = ilog2 y - 52" "ilog2 x < ilog2 y" using i by (auto simp: max_def split: if_splits)
    let ?P = "2 powi ilog2 y :: rat"
    have "x < 2 powi (ilog2 x + 1)" using ilog2_bounds[of x] assms by simp
    also have "\<dots> \<le> ?P" using lt(3) by (intro power_int_increasing) simp_all
    finally have "x \<le> ?P" by simp
    moreover have "?P = of_int (2 ^ nat (ilog2 y - ?E x)) * ulp64 x" unfolding u by (rule powi_grid) (use lt in linarith)
    ultimately have "fl x \<le> ?P" using fl_le_grid[of x "2 ^ nat (ilog2 y - ?E x)"] assms(1) by simp
    moreover have "?P \<le> y" using ilog2_bounds[of y] assms by simp
    moreover have "?P = of_int (2 ^ nat (ilog2 y - ?E y)) * ulp64 y" unfolding u by (rule powi_grid) (use lt in linarith)
    ultimately have "fl x \<le> ?P" "?P \<le> fl y" using fl_ge_grid[of y "2 ^ nat (ilog2 y - ?E y)"] assms by simp_all
    then show ?thesis by simp
  qed
qed

lemma fl_nonneg: "0 \<le> x \<Longrightarrow> 0 \<le> fl x"
  using fl_nonpos[of "- x"] by (simp add: fl_minus)

lemma fl_mono: "x \<le> y \<Longrightarrow> fl x \<le> fl y"
proof -
  assume xy: "x \<le> y"
  consider "0 < x" | "y < 0" | "x \<le> 0" "0 \<le> y" by linarith
  then show ?thesis
  proof cases
    case 1
    then show ?thesis using fl_mono_pos xy by simp
  next
    case 2
    then show ?thesis using fl_mono_pos[of "- y" "- x"] xy by (simp add: fl_minus)
  next
    case 3
    then show ?thesis using fl_nonpos[of x] fl_nonneg[of y] by simp
  qed
qed

lemma Round_mono: "x \<le> y \<Longrightarrow> Round x \<le> Round y"
proof -
  assume xy: "x \<le> y"
  have "\<lfloor>- y + 1 / 2\<rfloor> \<le> \<lfloor>- x + 1 / 2\<rfloor>" "\<lfloor>x + 1 / 2\<rfloor> \<le> \<lfloor>y + 1 / 2\<rfloor>" using xy by (simp_all add: floor_mono)
  moreover have "0 \<le> \<lfloor>- x + 1 / 2\<rfloor>" if "x < 0" using that by (simp add: zero_le_floor)
  moreover have "0 \<le> \<lfloor>y + 1 / 2\<rfloor>" if "0 \<le> y" using that by (simp add: zero_le_floor)
  ultimately show ?thesis using xy unfolding Round_def by (cases "x < 0"; cases "y < 0") (simp_all only: if_True if_False, linarith+)
qed

section \<open>The order of numbers\<close>

text \<open>Numbers other than NaN, in their order.\<close>

lemma to_number_mono: "x \<le> y \<Longrightarrow> nleq (to_number x) (to_number y)"
  using fl_mono[of x y] by (auto simp: to_number_def Let_def maxFloat_def)

lemma nleq_trans: "nleq a b \<Longrightarrow> nleq b c \<Longrightarrow> nleq a c"
  by (cases a; cases b; cases c) auto

lemma nleq_refl: "a \<noteq> NaN \<Longrightarrow> nleq a a"
  by (cases a) auto

lemma nleq_not_greater: "nleq a b \<Longrightarrow> \<not> ngreater a b"
  by (cases a; cases b) auto

lemma nround_mono: "nleq a b \<Longrightarrow> nleq (nround a) (nround b)"
  by (cases a; cases b) (auto intro: Round_mono)

lemma nmul_mono_pos: "nleq a b \<Longrightarrow> 0 < c \<Longrightarrow> nleq (nmul a (Fin c)) (nmul b (Fin c))"
proof -
  assume ab: "nleq a b" and c: "0 < c"
  have top: "nleq x PosInf" if "x \<noteq> NaN" for x using that by (cases x) auto
  have bot: "nleq NegInf x" if "x \<noteq> NaN" for x using that by (cases x) auto
  have n: "to_number z \<noteq> NaN" for z by (simp add: to_number_def Let_def)
  show ?thesis
  proof (cases a; cases b)
    fix p q assume e: "a = Fin p" "b = Fin q"
    then have "p * c \<le> q * c" using ab c by (simp add: mult_right_mono)
    then show ?thesis using e to_number_mono by simp
  qed (use ab c top bot n in \<open>auto simp: inf_times_def\<close>)
qed

lemma nmul_mono_fin: "p \<le> q \<Longrightarrow> 0 \<le> c \<Longrightarrow> nleq (nmul (Fin p) (Fin c)) (nmul (Fin q) (Fin c))"
  by (simp add: to_number_mono mult_right_mono)

lemma nmul_nonneg: "nleq (Fin 0) a \<Longrightarrow> 0 < c \<Longrightarrow> nleq (Fin 0) (nmul a (Fin c))"
  using nmul_mono_pos[where a = "Fin 0" and b = a and c = c] by (simp add: to_number_def Let_def maxFloat_def)

end
