(* ===== verification/DeepCee.thy ===== *)
theory DeepCee
  imports DeepValues "HOL-Library.AList"
begin

text \<open>
  The reading of the balance-sheet codes of a payload, \<open>binocolo/ma_deep_cee.go\<close>: each derived quantity
  with the place its number comes from. A missing code is \<open>None\<close> where the code keeps a pointer, and zero
  where it adds.
\<close>

section \<open>Codes\<close>

definition maCEEProvDetail :: string where "maCEEProvDetail = ''cee_detail''"
definition maCEEProvTotal :: string where "maCEEProvTotal = ''cee_total''"
definition maCEEProvVendorRatio :: string where "maCEEProvVendorRatio = ''vendor_ratio''"

type_synonym ceeCodes = "(string \<times> number) list"

definition maCEENormalizeCode :: "string \<Rightarrow> string" where
  "maCEENormalizeCode code =
     (if code = ''IICC351'' then ''351''
      else if length code \<noteq> 6 then ''''
      else let prefix = take 3 code; num = drop 3 code
        in if prefix \<noteq> ''IIC'' \<and> prefix \<noteq> ''IPL'' then ''''
           else if list_all is_digit num then num else '''')"

text \<open>An entry of an array: its code and value, if it has both.\<close>

definition ceeEntry :: "any \<Rightarrow> (string \<times> number) option" where
  "ceeEntry item =
     (case item of
        Obj e \<Rightarrow>
          let num = maCEENormalizeCode (case map_of e ''code'' of Some (Str s) \<Rightarrow> s | _ \<Rightarrow> '''')
          in if num = '''' then None
             else map_option (\<lambda>n. (num, n)) (vendorNumber (case map_of e ''value'' of Some v \<Rightarrow> v | None \<Rightarrow> Null))
      | _ \<Rightarrow> None)"

definition entriesOf :: "any \<Rightarrow> (string \<times> number) list" where
  "entriesOf v = (case v of Arr items \<Rightarrow> List.map_filter ceeEntry items | _ \<Rightarrow> [])"

text \<open>A later entry of a code overwrites an earlier one, in the order in which the map is visited.\<close>

definition maCEECodesFromRoot :: "fields \<Rightarrow> ceeCodes" where
  "maCEECodesFromRoot rt = fold (\<lambda>(k, v) out. fold (\<lambda>(num, n). AList.update num n) (entriesOf v) out) rt []"

definition code0 :: "ceeCodes \<Rightarrow> string \<Rightarrow> number" where
  "code0 codes num = (case map_of codes num of None \<Rightarrow> Fin 0 | Some n \<Rightarrow> n)"

text \<open>The chain from the split of a debt to its total.\<close>

definition voce :: "ceeCodes \<Rightarrow> string \<times> string \<times> string \<Rightarrow> (number \<times> string) option" where
  "voce codes f =
     (case f of (base, beyond, tot) \<Rightarrow>
        if map_of codes base \<noteq> None \<or> map_of codes beyond \<noteq> None
        then Some (nadd (code0 codes base) (code0 codes beyond), maCEEProvDetail)
        else map_option (\<lambda>v. (v, maCEEProvTotal)) (map_of codes tot))"

section \<open>The reading\<close>

record ceeAmount =
  am_Value :: number
  am_Provenance :: string

record ceeReading =
  ce_GrossFinancialDebt :: "ceeAmount option"
  ce_FinancialDebtBeyond :: "number option"
  ce_PFN :: "ceeAmount option"
  ce_Cash :: "number option"
  ce_Securities :: number
  ce_PassiveDerivatives :: number
  ce_TFR :: "number option"
  ce_TaxFund :: "number option"
  ce_RiskProvisionsTotal :: "number option"
  ce_ShareholderLoans :: "ceeAmount option"
  ce_ParticipationsTotal :: "number option"
  ce_ParticipationsSubs :: "number option"
  ce_TotalAssets :: "number option"
  ce_NetWorth :: "number option"
  ce_EBITDACEE :: "number option"
  ce_EBITDAPrudential :: "number option"
  ce_Capitalizations :: number
  ce_OperatingGrants :: number
  ce_OtherRevenuesA5 :: number
  ce_Revenues :: "number option"
  ce_ProductionValue :: "number option"
  ce_MaterialCosts :: number
  ce_ServiceCosts :: number
  ce_StaffCosts :: number
  ce_OtherOperatingCosts :: number
  ce_LeaseCosts :: number
  ce_InventoryVariation :: number
  ce_ProvisionsB12B13 :: number
  ce_ParticipationIncome :: number
  ce_Inventory :: "number option"
  ce_PreTaxResult :: "number option"
  ce_Taxes :: "number option"
  ce_NetProfit :: "number option"

definition maCEEFinancialVoci :: "(string \<times> string \<times> string) list" where
  "maCEEFinancialVoci =
     [(''090'', ''091'', ''329''), (''092'', ''093'', ''330''), (''184'', ''185'', ''331''), (''094'', ''095'', ''332''),
      (''096'', ''097'', ''333'')]"

text \<open>The loop over the financial debts: whether one was found, whether all have a split, their sum and the part
  beyond the year.\<close>

fun debtLoop :: "ceeCodes \<Rightarrow> (string \<times> string \<times> string) list \<Rightarrow> bool \<times> bool \<times> number \<times> number \<Rightarrow> bool \<times> bool \<times> number \<times> number" where
  "debtLoop codes [] acc = acc"
| "debtLoop codes (f # fs) (found, allDetail, gross, beyond) =
     (case voce codes f of
        None \<Rightarrow> debtLoop codes fs (found, allDetail, gross, beyond)
      | Some (v, prov) \<Rightarrow>
          if prov = maCEEProvDetail then debtLoop codes fs (True, allDetail, nadd gross v, nadd beyond (code0 codes (fst (snd f))))
          else debtLoop codes fs (True, False, nadd gross v, beyond))"

definition grossDebt :: "ceeCodes \<Rightarrow> ceeAmount option" where
  "grossDebt codes =
     (case debtLoop codes maCEEFinancialVoci (False, True, Fin 0, Fin 0) of (found, allDetail, gross, beyond) \<Rightarrow>
        if found then Some \<lparr>am_Value = nadd gross (code0 codes ''219''),
          am_Provenance = (if allDetail then maCEEProvDetail else maCEEProvTotal)\<rparr>
        else None)"

definition debtBeyond :: "ceeCodes \<Rightarrow> number option" where
  "debtBeyond codes =
     (case debtLoop codes maCEEFinancialVoci (False, True, Fin 0, Fin 0) of (found, allDetail, gross, beyond) \<Rightarrow>
        if found \<and> allDetail then Some beyond else None)"

text \<open>The net financial position: from the codes, or as implied by the ratio of the vendor.\<close>

definition netPosition :: "fields \<Rightarrow> ceeCodes \<Rightarrow> ceeAmount option" where
  "netPosition rt codes =
     (case (grossDebt codes, map_of codes ''070'') of
        (Some g, Some cash) \<Rightarrow>
          Some \<lparr>am_Value = nsub (nsub (am_Value g) cash) (code0 codes ''065''), am_Provenance = am_Provenance g\<rparr>
      | _ \<Rightarrow>
          (case (maInspectNumber rt ''leverageRatios.pfnEbitda'', maInspectNumber rt ''operatingResults.ebitda'') of
             (Some ratio, Some ebitda) \<Rightarrow> Some \<lparr>am_Value = nmul ratio ebitda, am_Provenance = maCEEProvVendorRatio\<rparr>
           | _ \<Rightarrow> None))"

definition ebitdaCEE :: "ceeCodes \<Rightarrow> number option" where
  "ebitdaCEE codes =
     (case (map_of codes ''130'', map_of codes ''149'') of
        (Some a, Some b) \<Rightarrow> Some (nadd (nsub a b) (code0 codes ''144''))
      | _ \<Rightarrow> None)"

definition readingOfCodes :: "fields \<Rightarrow> ceeCodes \<Rightarrow> ceeReading" where
  "readingOfCodes rt codes =
           \<lparr>ce_GrossFinancialDebt = grossDebt codes,
            ce_FinancialDebtBeyond = debtBeyond codes,
            ce_PFN = netPosition rt codes,
            ce_Cash = map_of codes ''070'',
            ce_Securities = code0 codes ''065'',
            ce_PassiveDerivatives = code0 codes ''219'',
            ce_TFR = map_of codes ''089'',
            ce_TaxFund = map_of codes ''086'',
            ce_RiskProvisionsTotal = map_of codes ''088'',
            ce_ShareholderLoans = map_option (\<lambda>(v, prov). \<lparr>am_Value = v, am_Provenance = prov\<rparr>) (voce codes (''184'', ''185'', ''331'')),
            ce_ParticipationsTotal = map_of codes ''023'',
            ce_ParticipationsSubs = map_of codes ''019'',
            ce_TotalAssets = map_of codes ''074'',
            ce_NetWorth = map_of codes ''084'',
            ce_EBITDACEE = ebitdaCEE codes,
            ce_EBITDAPrudential = map_option (\<lambda>e. nsub (nsub e (code0 codes ''127'')) (code0 codes ''129'')) (ebitdaCEE codes),
            ce_Capitalizations = code0 codes ''127'',
            ce_OperatingGrants = code0 codes ''129'',
            ce_OtherRevenuesA5 = code0 codes ''128'',
            ce_Revenues = map_of codes ''124'',
            ce_ProductionValue = map_of codes ''130'',
            ce_MaterialCosts = code0 codes ''131'',
            ce_ServiceCosts = code0 codes ''132'',
            ce_StaffCosts = code0 codes ''139'',
            ce_OtherOperatingCosts = code0 codes ''148'',
            ce_LeaseCosts = code0 codes ''133'',
            ce_InventoryVariation = code0 codes ''145'',
            ce_ProvisionsB12B13 = nadd (code0 codes ''146'') (code0 codes ''147''),
            ce_ParticipationIncome = code0 codes ''150'',
            ce_Inventory = map_of codes ''045'',
            ce_PreTaxResult = map_of codes ''177'',
            ce_Taxes = map_of codes ''178'',
            ce_NetProfit = map_of codes ''179''\<rparr>"

text \<open>Without codes there is no reading.\<close>

definition maCEEReadingFromRoot :: "fields \<Rightarrow> ceeReading option" where
  "maCEEReadingFromRoot rt = (let codes = maCEECodesFromRoot rt in if codes = [] then None else Some (readingOfCodes rt codes))"

text \<open>\<open>maCEEReadingFromPayload\<close>: a payload that does not decode, or decodes to null, has no reading.\<close>

definition maCEEReadingFromPayload :: "payload \<Rightarrow> ceeReading option" where
  "maCEEReadingFromPayload payload = Option.bind payload (\<lambda>object. maCEEReadingFromRoot (deepFullRoot object))"

section \<open>Reconciliation\<close>

definition maRound2 :: "number \<Rightarrow> number" where
  "maRound2 v = ndiv (nround (nmul v (lit 100))) (lit 100)"

record deepReconciliation =
  rc_EBITDAPct :: "number option"
  rc_PFNPct :: "number option"
  rc_PFNProvenance :: string
  rc_ROEPointsDiff :: "number option"

definition ebitdaGap :: "fields \<Rightarrow> ceeReading \<Rightarrow> number option" where
  "ebitdaGap rt reading =
     (case (maInspectNumber rt ''operatingResults.ebitda'', ce_EBITDACEE reading) of
        (Some vendor, Some cee) \<Rightarrow>
          if nequal vendor (Fin 0) then None
          else Some (maRound2 (nmul (ndiv (nsub cee vendor) (nabs vendor)) (lit 100)))
      | _ \<Rightarrow> None)"

definition pfnGap :: "fields \<Rightarrow> ceeReading \<Rightarrow> (number \<times> string) option" where
  "pfnGap rt reading =
     (case (ce_PFN reading, maInspectNumber rt ''operatingResults.ebitda'', maInspectNumber rt ''leverageRatios.pfnEbitda'') of
        (Some pfn, Some vendorEBITDA, Some ratio) \<Rightarrow>
          if am_Provenance pfn = maCEEProvVendorRatio then None
          else let vendorPFN = nmul ratio vendorEBITDA; denom = nmax (nabs vendorPFN) (lit 1000)
            in Some (maRound2 (nmul (ndiv (nsub (am_Value pfn) vendorPFN) denom) (lit 100)), am_Provenance pfn)
      | _ \<Rightarrow> None)"

definition roeGap :: "fields \<Rightarrow> ceeReading \<Rightarrow> number option" where
  "roeGap rt reading =
     (case (maInspectNumber rt ''profitability.roe'', ce_NetProfit reading, ce_NetWorth reading) of
        (Some roe, Some profit, Some worth) \<Rightarrow>
          if nequal worth (Fin 0) then None
          else Some (maRound2 (nsub (nmul (ndiv profit worth) (lit 100)) roe))
      | _ \<Rightarrow> None)"

definition buildMADeepReconciliation :: "fields \<Rightarrow> ceeReading option \<Rightarrow> deepReconciliation option" where
  "buildMADeepReconciliation rt reading =
     (case reading of
        None \<Rightarrow> None
      | Some r \<Rightarrow>
          if ebitdaGap rt r = None \<and> pfnGap rt r = None \<and> roeGap rt r = None then None
          else Some \<lparr>rc_EBITDAPct = ebitdaGap rt r, rc_PFNPct = map_option fst (pfnGap rt r),
            rc_PFNProvenance = (case pfnGap rt r of None \<Rightarrow> '''' | Some (p, prov) \<Rightarrow> prov), rc_ROEPointsDiff = roeGap rt r\<rparr>)"

section \<open>Amounts as text\<close>

text \<open>The loop that inserts a point before every third digit from the end: it works on the text it has built.\<close>

function pointLoop :: "nat \<Rightarrow> string \<Rightarrow> string" where
  "pointLoop i s = (if i = 0 then s else pointLoop (i - 3) (take i s @ ''.'' @ drop i s))"
  by pat_completeness auto
termination by (relation "measure fst") auto

declare pointLoop.simps [simp del]

definition euro :: string where "euro = [CHR '' '', CHR 0xE2, CHR 0x82, CHR 0xAC]"

definition maFormatEUR :: "number \<Rightarrow> string" where
  "maFormatEUR v =
     (let s = FormatInt (int64_of_number (nround (nabs v))); t = pointLoop (length s - 3) s
      in (if nless v (Fin 0) then ''-'' else '''') @ t @ euro)"

end
