(* ===== verification/DeepPricing.thy ===== *)
theory DeepPricing
  imports DeepCee
begin

text \<open>
  The levers of the deep-dive analysis: thresholds of the semaphores by family of business model
  (\<open>ma_deep_engine.go\<close>, \<open>ma_deep_family.go\<close>) and the prices and percentages that the table of parameters
  overrides (\<open>ma_service.go\<close>, defaults in \<open>ma_types.go\<close>).
\<close>

section \<open>Families and thresholds\<close>

definition maBMFamilyServiziRicorrenti :: string where "maBMFamilyServiziRicorrenti = ''servizi_ricorrenti''"
definition maBMFamilyProgettoIntegrazione :: string where "maBMFamilyProgettoIntegrazione = ''progetto_integrazione''"
definition maBMFamilyRivenditaVAR :: string where "maBMFamilyRivenditaVAR = ''rivendita_var''"
definition maBMFamilySoftwareProdotto :: string where "maBMFamilySoftwareProdotto = ''software_prodotto''"

definition maBMFamilies :: "string list" where
  "maBMFamilies = [maBMFamilyServiziRicorrenti, maBMFamilyProgettoIntegrazione, maBMFamilyRivenditaVAR, maBMFamilySoftwareProdotto]"

record deepThresholds =
  th_MarginOK :: number
  th_MarginGood :: number
  th_ROSOK :: number
  th_ROSGood :: number
  th_CicloGood :: number
  th_CicloOK :: number

definition thresholds :: "rat \<Rightarrow> rat \<Rightarrow> rat \<Rightarrow> rat \<Rightarrow> rat \<Rightarrow> rat \<Rightarrow> deepThresholds" where
  "thresholds a b c d e f =
     \<lparr>th_MarginOK = lit a, th_MarginGood = lit b, th_ROSOK = lit c, th_ROSGood = lit d, th_CicloGood = lit e, th_CicloOK = lit f\<rparr>"

definition defaultMADeepThresholds :: deepThresholds where
  "defaultMADeepThresholds = thresholds 8 15 5 10 60 120"

definition maFamilyThresholdDefaults :: "(string \<times> deepThresholds) list" where
  "maFamilyThresholdDefaults =
     [(maBMFamilyServiziRicorrenti, thresholds 10 18 6 12 30 75),
      (maBMFamilyProgettoIntegrazione, thresholds 6 12 4 8 90 150),
      (maBMFamilyRivenditaVAR, thresholds 3 7 2 5 45 90),
      (maBMFamilySoftwareProdotto, thresholds 15 25 10 18 15 60)]"

section \<open>Prices and percentages\<close>

record pricing =
  pr_CostAdvanced :: number
  pr_CostFull :: number
  pr_CostDryRun :: number
  pr_BudgetDefault :: number
  pr_SMEHaircutPct :: number
  pr_EBITDAFallbackPct :: number
  pr_VendorCEETolerancePct :: number
  pr_TFRBridgePct :: number
  pr_A5EBITDAFlagPct :: number
  pr_B8RevenueFlagPct :: number
  pr_ParticipationAssetsFlagPct :: number
  pr_ParticipationIncomeFlagPct :: number
  pr_ThesisFitHoldingHaircutPct :: number
  pr_HaircutTier1Pct :: number
  pr_HaircutTier2Pct :: number
  pr_HaircutTier3Pct :: number
  pr_HaircutTier1MaxEUR :: number
  pr_HaircutTier2MaxEUR :: number
  pr_FamilyThresholds :: "(string \<times> deepThresholds) list"
  pr_CostAddress :: number
  pr_CostScrapePage :: number
  pr_CostSearch :: number
  pr_SurvivorRate :: number
  pr_SurfaceCap :: int
  pr_TrendCagrDeclineFloorPct :: number
  pr_TrendCagrTopPct :: number
  pr_ProductivityFloorEUR :: number
  pr_ProductivityTopEUR :: number

definition maTFRBridgePctDefault :: number where "maTFRBridgePctDefault = lit 100"

definition defaultPricing :: pricing where
  "defaultPricing =
     \<lparr>pr_CostAdvanced = lit (1 / 10), pr_CostFull = lit (3 / 10), pr_CostDryRun = lit (1 / 100), pr_BudgetDefault = lit 50,
      pr_SMEHaircutPct = lit 30, pr_EBITDAFallbackPct = lit 5, pr_VendorCEETolerancePct = lit 1, pr_TFRBridgePct = maTFRBridgePctDefault,
      pr_A5EBITDAFlagPct = lit 20, pr_B8RevenueFlagPct = lit 8, pr_ParticipationAssetsFlagPct = lit 25,
      pr_ParticipationIncomeFlagPct = lit 20, pr_ThesisFitHoldingHaircutPct = lit 60, pr_HaircutTier1Pct = lit 35,
      pr_HaircutTier2Pct = lit 30, pr_HaircutTier3Pct = lit 20, pr_HaircutTier1MaxEUR = lit 5000000,
      pr_HaircutTier2MaxEUR = lit 20000000, pr_FamilyThresholds = [], pr_CostAddress = lit (1 / 100),
      pr_CostScrapePage = lit (1 / 1000), pr_CostSearch = lit (1 / 1000), pr_SurvivorRate = lit (35 / 100), pr_SurfaceCap = 1000,
      pr_TrendCagrDeclineFloorPct = lit 10, pr_TrendCagrTopPct = lit 15, pr_ProductivityFloorEUR = lit 50000,
      pr_ProductivityTopEUR = lit 200000\<rparr>"

text \<open>A parameter counts when it is a finite number that is not negative.\<close>

definition paramFloat :: "(string \<rightharpoonup> string) \<Rightarrow> string \<Rightarrow> number option" where
  "paramFloat values key =
     (case values key of
        None \<Rightarrow> None
      | Some raw \<Rightarrow>
          (case ParseFloat (TrimSpace raw) of (v, ok) \<Rightarrow>
             if \<not> ok \<or> nless v (Fin 0) \<or> v = NaN \<or> v = PosInf \<or> v = NegInf then None else Some v))"

definition paramInt :: "(string \<rightharpoonup> string) \<Rightarrow> string \<Rightarrow> int option" where
  "paramInt values key =
     (case values key of None \<Rightarrow> None | Some raw \<Rightarrow> (case ParseInt (TrimSpace raw) of (v, ok) \<Rightarrow> if ok then Some v else None))"

text \<open>An override, under a condition on the value.\<close>

definition override :: "(string \<rightharpoonup> string) \<Rightarrow> string \<Rightarrow> (number \<Rightarrow> bool) \<Rightarrow> number \<Rightarrow> number" where
  "override values key P d = (case paramFloat values key of None \<Rightarrow> d | Some v \<Rightarrow> if P v then v else d)"

abbreviation overrideAny :: "(string \<rightharpoonup> string) \<Rightarrow> string \<Rightarrow> number \<Rightarrow> number" where
  "overrideAny values key \<equiv> override values key (\<lambda>v. True)"

definition familyThresholds :: "(string \<rightharpoonup> string) \<Rightarrow> string \<Rightarrow> deepThresholds \<Rightarrow> deepThresholds" where
  "familyThresholds values family th =
     \<lparr>th_MarginOK = overrideAny values (''rag_margin_ok_'' @ family) (th_MarginOK th),
      th_MarginGood = overrideAny values (''rag_margin_good_'' @ family) (th_MarginGood th),
      th_ROSOK = overrideAny values (''rag_ros_ok_'' @ family) (th_ROSOK th),
      th_ROSGood = overrideAny values (''rag_ros_good_'' @ family) (th_ROSGood th),
      th_CicloGood = overrideAny values (''rag_ciclo_good_'' @ family) (th_CicloGood th),
      th_CicloOK = overrideAny values (''rag_ciclo_ok_'' @ family) (th_CicloOK th)\<rparr>"

text \<open>The productivity band must not be empty.\<close>

definition productivityBand :: "pricing \<Rightarrow> pricing" where
  "productivityBand p =
     (if nleq (pr_ProductivityTopEUR p) (pr_ProductivityFloorEUR p)
      then p\<lparr>pr_ProductivityFloorEUR := lit 50000, pr_ProductivityTopEUR := lit 200000\<rparr> else p)"

definition maPricingFromParameters :: "(string \<times> string) list \<Rightarrow> pricing" where
  "maPricingFromParameters params =
     (let values = map_of (rev params); d = defaultPricing; pos = (\<lambda>v. ngreater v (Fin 0)) in
      productivityBand
     \<lparr>pr_CostAdvanced = overrideAny values ''cost_advanced_eur'' (pr_CostAdvanced d),
      pr_CostFull = overrideAny values ''cost_full_eur'' (pr_CostFull d),
      pr_CostDryRun = overrideAny values ''cost_dryrun_eur'' (pr_CostDryRun d),
      pr_BudgetDefault = overrideAny values ''budget_default_eur'' (pr_BudgetDefault d),
      pr_SMEHaircutPct = overrideAny values ''sme_haircut_pct'' (pr_SMEHaircutPct d),
      pr_EBITDAFallbackPct = overrideAny values ''ebitda_fallback_threshold'' (pr_EBITDAFallbackPct d),
      pr_VendorCEETolerancePct = overrideAny values ''vendor_cee_tolerance_pct'' (pr_VendorCEETolerancePct d),
      pr_TFRBridgePct = override values ''tfr_bridge_pct'' (\<lambda>v. nleq v (lit 100)) (pr_TFRBridgePct d),
      pr_A5EBITDAFlagPct = overrideAny values ''a5_ebitda_flag_pct'' (pr_A5EBITDAFlagPct d),
      pr_B8RevenueFlagPct = overrideAny values ''b8_revenue_flag_pct'' (pr_B8RevenueFlagPct d),
      pr_ParticipationAssetsFlagPct = overrideAny values ''participation_assets_flag_pct'' (pr_ParticipationAssetsFlagPct d),
      pr_ParticipationIncomeFlagPct = overrideAny values ''participation_income_flag_pct'' (pr_ParticipationIncomeFlagPct d),
      pr_ThesisFitHoldingHaircutPct = override values ''thesis_fit_holding_haircut_pct'' (\<lambda>v. nless v (lit 100)) (pr_ThesisFitHoldingHaircutPct d),
      pr_HaircutTier1Pct = overrideAny values ''haircut_pct_tier1'' (pr_HaircutTier1Pct d),
      pr_HaircutTier2Pct = overrideAny values ''haircut_pct_tier2'' (pr_HaircutTier2Pct d),
      pr_HaircutTier3Pct = overrideAny values ''haircut_pct_tier3'' (pr_HaircutTier3Pct d),
      pr_HaircutTier1MaxEUR = overrideAny values ''haircut_tier1_max_eur'' (pr_HaircutTier1MaxEUR d),
      pr_HaircutTier2MaxEUR = overrideAny values ''haircut_tier2_max_eur'' (pr_HaircutTier2MaxEUR d),
      pr_FamilyThresholds = map (\<lambda>(family, th). (family, familyThresholds values family th)) maFamilyThresholdDefaults,
      pr_CostAddress = overrideAny values ''cost_address_eur'' (pr_CostAddress d),
      pr_CostScrapePage = overrideAny values ''cost_scrape_page_eur'' (pr_CostScrapePage d),
      pr_CostSearch = overrideAny values ''cost_search_eur'' (pr_CostSearch d),
      pr_SurvivorRate = override values ''survivor_rate_default'' (\<lambda>v. pos v \<and> nleq v (lit 1)) (pr_SurvivorRate d),
      pr_SurfaceCap = (case paramInt values ''gated_surface_cap'' of Some v \<Rightarrow> if 0 < v then v else pr_SurfaceCap d | None \<Rightarrow> pr_SurfaceCap d),
      pr_TrendCagrDeclineFloorPct = override values ''trend_cagr_decline_floor_pct'' pos (pr_TrendCagrDeclineFloorPct d),
      pr_TrendCagrTopPct = override values ''trend_cagr_top_pct'' pos (pr_TrendCagrTopPct d),
      pr_ProductivityFloorEUR = override values ''productivity_floor_eur'' pos (pr_ProductivityFloorEUR d),
      pr_ProductivityTopEUR = override values ''productivity_top_eur'' pos (pr_ProductivityTopEUR d)\<rparr>)"

definition thresholdsForFamily :: "pricing \<Rightarrow> string \<Rightarrow> deepThresholds" where
  "thresholdsForFamily p family =
     (case map_of (pr_FamilyThresholds p) family of
        Some th \<Rightarrow> th
      | None \<Rightarrow> (case map_of maFamilyThresholdDefaults family of Some th \<Rightarrow> th | None \<Rightarrow> defaultMADeepThresholds))"

definition haircutForTurnover :: "pricing \<Rightarrow> number option \<Rightarrow> number" where
  "haircutForTurnover p turnover =
     (case turnover of
        None \<Rightarrow> pr_SMEHaircutPct p
      | Some t \<Rightarrow>
          if nleq (pr_HaircutTier1MaxEUR p) (Fin 0) \<or> nleq (pr_HaircutTier2MaxEUR p) (pr_HaircutTier1MaxEUR p) then pr_SMEHaircutPct p
          else if nless t (pr_HaircutTier1MaxEUR p) then pr_HaircutTier1Pct p
          else if nless t (pr_HaircutTier2MaxEUR p) then pr_HaircutTier2Pct p
          else pr_HaircutTier3Pct p)"

section \<open>The percentages are finite\<close>

fun share :: "number \<Rightarrow> bool" where
  "share (Fin q) = (0 \<le> q)"
| "share _ = False"

lemma share_lit: "0 \<le> q \<Longrightarrow> share (lit q)"
  by (simp add: lit_def fl_nonneg)

lemma share_param: "paramFloat values key = Some v \<Longrightarrow> share v"
  by (cases v) (auto simp: paramFloat_def split: option.splits prod.splits if_splits)

lemma share_override: "share d \<Longrightarrow> share (override values key P d)"
  by (auto simp: override_def share_param split: option.split)

text \<open>Whatever the table of parameters holds.\<close>

definition haircuts_ok :: "pricing \<Rightarrow> bool" where
  "haircuts_ok p \<longleftrightarrow> list_all share [pr_SMEHaircutPct p, pr_HaircutTier1Pct p, pr_HaircutTier2Pct p, pr_HaircutTier3Pct p, pr_EBITDAFallbackPct p,
     pr_TFRBridgePct p]"

lemma pricing_haircuts_ok: "haircuts_ok (maPricingFromParameters params)"
  by (simp add: haircuts_ok_def maPricingFromParameters_def Let_def productivityBand_def defaultPricing_def maTFRBridgePctDefault_def
      share_override share_lit)

lemma haircut_share: "haircuts_ok p \<Longrightarrow> share (haircutForTurnover p turnover)"
  by (simp add: haircuts_ok_def haircutForTurnover_def split: option.split)

end
