(* ===== verification/DeepEngine.thy ===== *)
theory DeepEngine
  imports DeepPricing GoTime
begin

text \<open>
  The financial engine of the deep-dive analysis, \<open>binocolo/ma_deep_engine.go\<close>: the scorecard with its
  semaphores, and the valuation with its band and the bridge to equity. An optional number is a pointer of
  the code.
\<close>

section \<open>Semaphores\<close>

definition maRAGGreen :: string where "maRAGGreen = ''green''"
definition maRAGAmber :: string where "maRAGAmber = ''amber''"
definition maRAGRed :: string where "maRAGRed = ''red''"
definition maRAGNone :: string where "maRAGNone = ''na''"

definition maMetricTierContorno :: string where "maMetricTierContorno = ''contorno''"

record deepMetric =
  dm_Group :: string
  dm_Key :: string
  dm_Label :: string
  dm_Value :: "number option"
  dm_Unit :: string
  dm_RAG :: string
  dm_Tier :: string

record qualityFlag =
  qf_Code :: string
  qf_Severity :: string
  qf_Label :: string
  qf_Evidence :: string
  qf_DDQuestion :: string

record deepScorecard =
  sc_Metrics :: "deepMetric list"
  sc_OverallRAG :: string
  sc_Turnover :: "number option"
  sc_TurnoverYear :: "int option"
  sc_Ebitda :: "number option"
  sc_NetWorth :: "number option"
  sc_PFN :: "number option"
  sc_AtecoCode :: string
  sc_Reconciliation :: "deepReconciliation option"
  sc_QualityFlags :: "qualityFlag list"

definition ragHigher :: "number \<Rightarrow> number \<Rightarrow> number \<Rightarrow> string" where
  "ragHigher ok good v = (if ngeq v good then maRAGGreen else if ngeq v ok then maRAGAmber else maRAGRed)"

definition ragLower :: "number \<Rightarrow> number \<Rightarrow> number \<Rightarrow> string" where
  "ragLower good ok v = (if nleq v good then maRAGGreen else if nleq v ok then maRAGAmber else maRAGRed)"

text \<open>The loop that counts red, amber and scored metrics of the core.\<close>

fun ragCounts :: "deepMetric list \<Rightarrow> nat \<times> nat \<times> nat \<Rightarrow> nat \<times> nat \<times> nat" where
  "ragCounts [] acc = acc"
| "ragCounts (m # ms) (red, amber, scored) =
     (if dm_Tier m = maMetricTierContorno then ragCounts ms (red, amber, scored)
      else if dm_RAG m = maRAGRed then ragCounts ms (red + 1, amber, scored + 1)
      else if dm_RAG m = maRAGAmber then ragCounts ms (red, amber + 1, scored + 1)
      else if dm_RAG m = maRAGGreen then ragCounts ms (red, amber, scored + 1)
      else ragCounts ms (red, amber, scored))"

definition deepOverallRAG :: "deepMetric list \<Rightarrow> string" where
  "deepOverallRAG metrics =
     (case ragCounts metrics (0, 0, 0) of (red, amber, scored) \<Rightarrow>
        if scored = 0 then maRAGNone
        else if red \<ge> 2 then maRAGRed
        else if red = 1 \<or> amber \<ge> 2 then maRAGAmber
        else maRAGGreen)"

section \<open>The scorecard\<close>

definition addMetric :: "fields \<Rightarrow> string \<Rightarrow> string \<Rightarrow> string \<Rightarrow> string \<Rightarrow> string \<Rightarrow> rat \<Rightarrow> (number \<Rightarrow> string) \<Rightarrow> deepMetric" where
  "addMetric rt grp key label path u scale rag =
     (let metric = \<lparr>dm_Group = grp, dm_Key = key, dm_Label = label, dm_Value = None, dm_Unit = u, dm_RAG = maRAGNone, dm_Tier = ''''\<rparr>
      in case deepFloatPtr rt path of
           None \<Rightarrow> metric
         | Some v \<Rightarrow> let scaled = nmul v (lit scale) in metric\<lparr>dm_Value := Some scaled, dm_RAG := rag scaled\<rparr>)"

definition derivedMetric :: "string \<Rightarrow> string \<Rightarrow> string \<Rightarrow> string \<Rightarrow> number \<Rightarrow> string \<Rightarrow> deepMetric" where
  "derivedMetric grp key label u v rag =
     \<lparr>dm_Group = grp, dm_Key = key, dm_Label = label, dm_Value = Some v, dm_Unit = u, dm_RAG = rag, dm_Tier = ''''\<rparr>"

definition marginMetric :: "deepThresholds \<Rightarrow> number option \<Rightarrow> number option \<Rightarrow> deepMetric list" where
  "marginMetric th ebitda turnover =
     (case (ebitda, turnover) of
        (Some e, Some t) \<Rightarrow>
          if ngreater t (Fin 0)
          then let margin = nmul (ndiv e t) (lit 100)
            in [derivedMetric ''redditivita'' ''ebitda_margin'' ''Margine EBITDA'' ''%'' margin (ragHigher (th_MarginOK th) (th_MarginGood th) margin)]
          else []
      | _ \<Rightarrow> [])"

definition delta :: string where "delta = [CHR 0xCE, CHR 0x94]"

definition deltaMetric :: "fields \<Rightarrow> number option \<Rightarrow> deepMetric list" where
  "deltaMetric rt ebitda =
     (case (maInspectNumber rt ''operatingResults.ebitdaL2Y'', ebitda) of
        (Some before, Some e) \<Rightarrow>
          [derivedMetric ''qualita_margine'' ''delta_ebitda'' (delta @ '' EBITDA vs anno precedente'') (tl euro) (nsub e before) maRAGNone]
      | _ \<Rightarrow> [])"

definition absorptionMetric :: "ceeReading option \<Rightarrow> number option \<Rightarrow> deepMetric list" where
  "absorptionMetric reading ebitda =
     (case (reading, ebitda) of
        (Some r, Some e) \<Rightarrow>
          if ngreater e (Fin 0)
          then let absorption = (if nless (ce_InventoryVariation r) (Fin 0) then nmul (ndiv (nneg (ce_InventoryVariation r)) e) (lit 100) else Fin 0)
            in [derivedMetric ''qualita_margine'' ''assorbimento_magazzino'' ''EBITDA assorbito da magazzino'' ''%'' absorption
                  (ragLower (lit 25) (lit 75) absorption)]
          else []
      | _ \<Rightarrow> [])"

text \<open>Leverage is red when the equity is eroded; metrics on the capital structure of the seller do not count.\<close>

definition erodedEquity :: "number option \<Rightarrow> deepMetric \<Rightarrow> deepMetric" where
  "erodedEquity netWorth m =
     (case netWorth of
        Some w \<Rightarrow> if nleq w (Fin 0) \<and> dm_Key m = ''leverage'' \<and> dm_Value m \<noteq> None then m\<lparr>dm_RAG := maRAGRed\<rparr> else m
      | None \<Rightarrow> m)"

definition buyerLens :: "deepMetric \<Rightarrow> deepMetric" where
  "buyerLens m =
     (if dm_Key m \<in> {''leverage'', ''capitalizzazione'', ''current_ratio'', ''acid_test'', ''roe''}
      then m\<lparr>dm_Tier := maMetricTierContorno\<rparr> else m)"

definition scorecardMetrics :: "fields \<Rightarrow> deepThresholds \<Rightarrow> ceeReading option \<Rightarrow> number option \<Rightarrow> number option \<Rightarrow> deepMetric list" where
  "scorecardMetrics rt th reading ebitda turnover =
     [addMetric rt ''redditivita'' ''ros'' ''ROS (margine operativo)'' ''profitability.ros'' ''%'' 1 (ragHigher (th_ROSOK th) (th_ROSGood th)),
      addMetric rt ''redditivita'' ''roe'' ''ROE'' ''profitability.roe'' ''%'' 1 (ragHigher (lit 5) (lit 12)),
      addMetric rt ''redditivita'' ''roi'' ''ROI'' ''profitability.roi'' ''%'' 1 (ragHigher (lit 5) (lit 10))] @
     marginMetric th ebitda turnover @
     [addMetric rt ''leva'' ''pfn_ebitda'' ''PFN / EBITDA'' ''leverageRatios.pfnEbitda'' ''x'' 1 (ragLower (lit 3) (lit 5)),
      addMetric rt ''leva'' ''leverage'' ''Leverage (attivo / PN)'' ''indebtedness.leverage'' ''x'' 1 (ragLower (lit 3) (lit 6)),
      addMetric rt ''leva'' ''capitalizzazione'' ''Grado di capitalizzazione'' ''indebtedness.capitalizationDegree'' ''%'' 100 (ragHigher (lit 20) (lit 40)),
      addMetric rt ''liquidita'' ''current_ratio'' ''Current ratio'' ''financialStability.currentRatio'' ''x'' 1 (ragHigher (lit 1) (lit (3 / 2))),
      addMetric rt ''liquidita'' ''acid_test'' ''Acid test (quick ratio)'' ''financialStability.acidTest'' ''x'' 1 (ragHigher (lit (8 / 10)) (lit 1)),
      addMetric rt ''efficienza'' ''financial_cycle'' ''Ciclo finanziario'' ''financialCycle.financialCycleDuration'' ''gg'' 1 (ragLower (th_CicloGood th) (th_CicloOK th)),
      addMetric rt ''crescita'' ''turnover_trend'' ''Trend fatturato'' ''ecofin.turnoverTrend'' ''%'' 1 (ragHigher (lit 0) (lit 8)),
      addMetric rt ''crescita'' ''ebit_variation'' ''Variazione EBIT'' ''development.ebitVariation'' ''%'' 100 (ragHigher (lit 0) (lit 8))] @
     deltaMetric rt ebitda @ absorptionMetric reading ebitda"

text \<open>The net financial position: read from the codes, or derived from the ratio of the vendor.\<close>

definition scorecardPFN :: "fields \<Rightarrow> ceeReading option \<Rightarrow> number option \<Rightarrow> number option" where
  "scorecardPFN rt reading ebitda =
     (case Option.bind reading ce_PFN of
        Some p \<Rightarrow> Some (am_Value p)
      | None \<Rightarrow> (case (deepFloatPtr rt ''leverageRatios.pfnEbitda'', ebitda) of (Some r, Some e) \<Rightarrow> Some (nmul r e) | _ \<Rightarrow> None))"

definition scorecardFromRoot :: "fields \<Rightarrow> deepThresholds \<Rightarrow> deepScorecard" where
  "scorecardFromRoot rt th =
     (let turnover = deepFloatPtr rt ''ecofin.turnover''; ebitda = deepFloatPtr rt ''operatingResults.ebitda'';
          netWorth = deepFloatPtr rt ''ecofin.netWorth''; reading = maCEEReadingFromRoot rt;
          metrics = map buyerLens (map (erodedEquity netWorth) (scorecardMetrics rt th reading ebitda turnover))
      in \<lparr>sc_Metrics = metrics, sc_OverallRAG = deepOverallRAG metrics, sc_Turnover = turnover,
          sc_TurnoverYear = deepIntPtr rt ''ecofin.turnoverYear'', sc_Ebitda = ebitda, sc_NetWorth = netWorth,
          sc_PFN = scorecardPFN rt reading ebitda, sc_AtecoCode = normalizeAtecoCode (firstVendorString rt atecoPaths),
          sc_Reconciliation = buildMADeepReconciliation rt reading, sc_QualityFlags = []\<rparr>)"

definition buildMADeepScorecard :: "payload \<Rightarrow> deepThresholds \<Rightarrow> deepScorecard option" where
  "buildMADeepScorecard payload th = map_option (\<lambda>object. scorecardFromRoot (deepFullRoot object) th) payload"

text \<open>The key of a vintage: the closing date as written, and the year.\<close>

definition deepVintageKey :: "payload \<Rightarrow> (string \<times> int option) option" where
  "deepVintageKey payload =
     (case payload of
        None \<Rightarrow> None
      | Some object \<Rightarrow>
          let rt = deepFullRoot object; raw = firstVendorString rt [''ecofin.balanceSheetDate'']
          in if length raw < 10 then None
             else case ParseDate (take 10 raw) of
               None \<Rightarrow> None
             | Some t \<Rightarrow> Some (take 10 raw, deepIntPtr rt ''ecofin.turnoverYear''))"

section \<open>The valuation\<close>

record sectorMultiple =
  sm_Prefix :: string
  sm_Industry :: string
  sm_EVEbitda :: "number option"
  sm_EVSales :: "number option"
  sm_NFirms :: int
  sm_Source :: string
  sm_SourceDate :: string

record methodSelection =
  se_Method :: string
  se_LowMethod :: string
  se_Mult :: number
  se_lowExtreme :: string
  se_SalesMult :: number

definition marginPct :: "deepScorecard \<Rightarrow> number \<Rightarrow> number" where
  "marginPct sc ebitda =
     (case sc_Turnover sc of
        None \<Rightarrow> PosInf
      | Some t \<Rightarrow> if nleq t (Fin 0) then PosInf else nmul (ndiv ebitda t) (lit 100))"

text \<open>The turnover and the sales multiple, when both can be used.\<close>

definition salesPath :: "deepScorecard \<Rightarrow> sectorMultiple \<Rightarrow> (number \<times> number) option" where
  "salesPath sc m =
     (case (sc_Turnover sc, sm_EVSales m) of
        (Some t, Some s) \<Rightarrow> if ngreater t (Fin 0) then Some (t, s) else None
      | _ \<Rightarrow> None)"

definition usableEbitda :: "deepScorecard \<Rightarrow> sectorMultiple \<Rightarrow> pricing \<Rightarrow> (number \<times> number) option" where
  "usableEbitda sc m p =
     (case (sc_Ebitda sc, sm_EVEbitda m) of
        (Some e, Some ev) \<Rightarrow> if ngreater e (Fin 0) \<and> ngeq (marginPct sc e) (pr_EBITDAFallbackPct p) then Some (e, ev) else None
      | _ \<Rightarrow> None)"

definition selectMADeepMethod :: "deepScorecard \<Rightarrow> ceeReading option \<Rightarrow> sectorMultiple \<Rightarrow> pricing \<Rightarrow> methodSelection option" where
  "selectMADeepMethod sc reading m p =
     (case usableEbitda sc m p of
        Some (e, ev) \<Rightarrow>
          let prud = (case Option.bind reading ce_EBITDAPrudential of Some x \<Rightarrow> x | None \<Rightarrow> e);
              sel = \<lparr>se_Method = ''ev_ebitda'', se_LowMethod = '''', se_Mult = ev, se_lowExtreme = '''', se_SalesMult = Fin 0\<rparr>
          in Some (if ngreater prud (Fin 0) \<and> ngeq (marginPct sc prud) (pr_EBITDAFallbackPct p) then sel\<lparr>se_lowExtreme := ''prudential''\<rparr>
                   else case salesPath sc m of
                     Some (t, s) \<Rightarrow> sel\<lparr>se_LowMethod := ''ev_sales'', se_lowExtreme := ''sales'', se_SalesMult := s\<rparr>
                   | None \<Rightarrow> sel\<lparr>se_lowExtreme := ''reported''\<rparr>)
      | None \<Rightarrow>
          (case salesPath sc m of
             Some (t, s) \<Rightarrow> Some \<lparr>se_Method = ''ev_sales'', se_LowMethod = '''', se_Mult = s, se_lowExtreme = '''', se_SalesMult = Fin 0\<rparr>
           | None \<Rightarrow> None))"

record bridgeRow =
  br_Value :: number
  br_Provenance :: string
  br_Note :: string

record deepBridge =
  bg_PFN :: "bridgeRow option"
  bg_TFR :: "bridgeRow option"
  bg_TaxFund :: "bridgeRow option"
  bg_ShareholderLoans :: "bridgeRow option"
  bg_EquityLow :: "number option"
  bg_EquityHigh :: "number option"

record deepValuation =
  va_Method :: string
  va_Multiple :: number
  va_HaircutPct :: number
  va_EVLow :: number
  va_EVHigh :: number
  va_EquityLow :: "number option"
  va_EquityHigh :: "number option"
  va_PFN :: "number option"
  va_Sector :: string
  va_NFirms :: int
  va_Source :: string
  va_SourceDate :: string
  va_Caveat :: string
  va_PrudentialEbitda :: "number option"
  va_LowMethod :: string
  va_Bridge :: "deepBridge option"

text \<open>The discount, between 0 and 95 per cent.\<close>

definition valuationFactor :: "number \<Rightarrow> number" where
  "valuationFactor haircutPct =
     (let haircut = ndiv haircutPct (lit 100);
          haircut' = (if nless haircut (Fin 0) then Fin 0 else haircut);
          haircut'' = (if ngreater haircut' (lit (95 / 100)) then lit (95 / 100) else haircut')
      in nsub (lit 1) haircut'')"

definition spreadLow :: number where "spreadLow = lit (1 - 15 / 100)"
definition spreadHigh :: number where "spreadHigh = lit (1 + 15 / 100)"

text \<open>The two bases of the band; \<open>None\<close> stands for a nil dereference or an unknown method.\<close>

definition bandBases :: "deepScorecard \<Rightarrow> ceeReading option \<Rightarrow> methodSelection \<Rightarrow> number \<Rightarrow> (number \<times> number) option" where
  "bandBases sc reading sel factor =
     (if se_Method sel = ''ev_ebitda'' then
        (case sc_Ebitda sc of
           None \<Rightarrow> None
         | Some e \<Rightarrow>
             let high = nmul (nmul e (se_Mult sel)) factor
             in if se_lowExtreme sel = ''prudential'' then
                  let prud = (case Option.bind reading ce_EBITDAPrudential of Some x \<Rightarrow> x | None \<Rightarrow> e)
                  in Some (nmul (nmul prud (se_Mult sel)) factor, high)
                else if se_lowExtreme sel = ''sales'' then
                  map_option (\<lambda>t. (nmin (nmul (nmul t (se_SalesMult sel)) factor) high, high)) (sc_Turnover sc)
                else Some (high, high))
      else if se_Method sel = ''ev_sales'' then map_option (\<lambda>t. let high = nmul (nmul t (se_Mult sel)) factor in (high, high)) (sc_Turnover sc)
      else None)"

section \<open>The bridge to equity\<close>

definition tfrRow :: "pricing \<Rightarrow> number \<Rightarrow> bridgeRow" where
  "tfrRow p tfr =
     (let pct = (if nleq (pr_TFRBridgePct p) (Fin 0) \<or> ngreater (pr_TFRBridgePct p) (lit 100) then maTFRBridgePctDefault else pr_TFRBridgePct p)
      in \<lparr>br_Value = nround (ndiv (nmul tfr pct) (lit 100)), br_Provenance = maCEEProvDetail,
          br_Note = (if nless pct (lit 100) then ''al '' @ formatFixed 0 pct @ ''% del fondo'' else '''')\<rparr>)"

definition loansNote :: string where
  "loansNote = ''inclusi nella PFN '' @ [CHR 0xE2, CHR 0x80, CHR 0x94] @ '' riga negoziale: al closing spesso rinunciati o convertiti''"

definition positiveOption :: "number option \<Rightarrow> number option" where
  "positiveOption x = (case x of Some v \<Rightarrow> if ngreater v (Fin 0) then Some v else None | None \<Rightarrow> None)"

text \<open>What is deducted from the enterprise value: the position as it is, the severance fund as rounded, the tax
  fund as it is.\<close>

definition bridgeDeductions :: "number \<Rightarrow> ceeReading option \<Rightarrow> pricing \<Rightarrow> number" where
  "bridgeDeductions pfn reading p =
     (case reading of
        None \<Rightarrow> pfn
      | Some r \<Rightarrow>
          let d = (case ce_TFR r of Some t \<Rightarrow> nadd pfn (br_Value (tfrRow p t)) | None \<Rightarrow> pfn)
          in case positiveOption (ce_TaxFund r) of Some f \<Rightarrow> nadd d f | None \<Rightarrow> d)"

definition buildMADeepBridge :: "number \<Rightarrow> number \<Rightarrow> deepScorecard \<Rightarrow> ceeReading option \<Rightarrow> pricing \<Rightarrow> deepBridge option" where
  "buildMADeepBridge evLow evHigh sc reading p =
     (case sc_PFN sc of
        None \<Rightarrow> None
      | Some pfn \<Rightarrow>
          let prov = (case Option.bind reading ce_PFN of Some a \<Rightarrow> am_Provenance a | None \<Rightarrow> maCEEProvVendorRatio);
              deductions = bridgeDeductions pfn reading p
          in Some \<lparr>bg_PFN = Some \<lparr>br_Value = nround pfn, br_Provenance = prov, br_Note = ''''\<rparr>,
               bg_TFR = map_option (tfrRow p) (Option.bind reading ce_TFR),
               bg_TaxFund = map_option (\<lambda>f. \<lparr>br_Value = nround f, br_Provenance = maCEEProvDetail, br_Note = ''''\<rparr>)
                 (positiveOption (Option.bind reading ce_TaxFund)),
               bg_ShareholderLoans = (case Option.bind reading ce_ShareholderLoans of
                   Some a \<Rightarrow> if ngreater (am_Value a) (Fin 0)
                     then Some \<lparr>br_Value = nround (am_Value a), br_Provenance = am_Provenance a, br_Note = loansNote\<rparr> else None
                 | None \<Rightarrow> None),
               bg_EquityLow = Some (nround (nsub evLow deductions)), bg_EquityHigh = Some (nround (nsub evHigh deductions))\<rparr>)"

section \<open>Assembly\<close>

definition valuationCaveat :: "deepScorecard \<Rightarrow> ceeReading option \<Rightarrow> sectorMultiple \<Rightarrow> methodSelection \<Rightarrow> number \<times> number \<Rightarrow> string" where
  "valuationCaveat sc reading m sel bases =
     (let prudential = Option.bind reading ce_EBITDAPrudential;
          c = (if se_Method sel = ''ev_ebitda'' \<and> nequal (fst bases) (snd bases) \<and> se_LowMethod sel = '''' \<and>
                  (case (prudential, sc_Ebitda sc) of (Some x, Some e) \<Rightarrow> \<not> nequal x e | _ \<Rightarrow> False)
               then ''EBITDA prudenziale non utilizzabile e multiplo EV/Sales assente: estremo basso non prudenziale.'' else '''')
      in if 0 < sm_NFirms m \<and> sm_NFirms m < 10
         then TrimSpace (c @ '' Multiplo di settore su campione ridotto: stima indicativa.'') else c)"

definition buildMADeepValuationWithMethod :: "deepScorecard \<Rightarrow> ceeReading option \<Rightarrow> sectorMultiple \<Rightarrow> pricing \<Rightarrow> methodSelection \<Rightarrow> deepValuation option" where
  "buildMADeepValuationWithMethod sc reading m p sel =
     (let haircutPct = haircutForTurnover p (sc_Turnover sc); factor = valuationFactor haircutPct
      in case bandBases sc reading sel factor of
           None \<Rightarrow> None
         | Some (lowBase, highBase) \<Rightarrow>
             let evLow = nround (nmul lowBase spreadLow); evHigh = nround (nmul highBase spreadHigh);
                 bridge = buildMADeepBridge evLow evHigh sc reading p
             in Some \<lparr>va_Method = se_Method sel, va_Multiple = ndiv (nround (nmul (se_Mult sel) (lit 100))) (lit 100),
                  va_HaircutPct = haircutPct, va_EVLow = evLow, va_EVHigh = evHigh,
                  va_EquityLow = Option.bind bridge bg_EquityLow, va_EquityHigh = Option.bind bridge bg_EquityHigh,
                  va_PFN = (if bridge = None then None else sc_PFN sc), va_Sector = sm_Industry m, va_NFirms = sm_NFirms m,
                  va_Source = sm_Source m, va_SourceDate = sm_SourceDate m,
                  va_Caveat = valuationCaveat sc reading m sel (lowBase, highBase),
                  va_PrudentialEbitda = Option.bind reading ce_EBITDAPrudential, va_LowMethod = se_LowMethod sel, va_Bridge = bridge\<rparr>)"

definition buildMADeepValuation :: "deepScorecard option \<Rightarrow> ceeReading option \<Rightarrow> sectorMultiple option \<Rightarrow> pricing \<Rightarrow> deepValuation option" where
  "buildMADeepValuation sc reading multiple p =
     (case (sc, multiple) of
        (Some s, Some m) \<Rightarrow> (case selectMADeepMethod s reading m p of None \<Rightarrow> None | Some sel \<Rightarrow> buildMADeepValuationWithMethod s reading m p sel)
      | _ \<Rightarrow> None)"

end
