(* ===== verification/DeepFlags.thy ===== *)
theory DeepFlags
  imports DeepEngine
begin

text \<open>
  The quality flags of \<open>binocolo/ma_deep_cee.go\<close> and the family of business model of
  \<open>binocolo/ma_deep_family.go\<close>: the suggestion, the keys of the sector multiple, and the two paths that compute
  scorecard and valuation with a store.
\<close>

section \<open>Quality flags\<close>

definition flag :: "string \<Rightarrow> string \<Rightarrow> string \<Rightarrow> string \<Rightarrow> string \<Rightarrow> qualityFlag" where
  "flag severity code label evidence question =
     \<lparr>qf_Code = code, qf_Severity = severity, qf_Label = label, qf_Evidence = evidence, qf_DDQuestion = question\<rparr>"

text \<open>A part as a percentage of a whole.\<close>

definition pctOf :: "number \<Rightarrow> number \<Rightarrow> number" where
  "pctOf a b = nmul (ndiv a b) (lit 100)"

definition zeroPtr :: "number option \<Rightarrow> number" where
  "zeroPtr v = (case v of None \<Rightarrow> Fin 0 | Some x \<Rightarrow> x)"

definition capitalizationFlag :: "number \<Rightarrow> ceeReading \<Rightarrow> qualityFlag list" where
  "capitalizationFlag ebitda r =
     (if ngreater (ce_Capitalizations r) (Fin 0) \<and> ngreater ebitda (Fin 0)
      then [flag ''warning'' ''a4_capitalizzazioni'' ''EBITDA con costi capitalizzati''
        (''A.4 incrementi per lavori interni = '' @ maFormatEUR (ce_Capitalizations r) @ '' ('' @
         formatFixed 0 (pctOf (ce_Capitalizations r) ebitda) @ ''% dell'EBITDA): l'estremo basso della banda li esclude'')
        ''Dettagliare natura e ricorrenza dei costi capitalizzati (A.4) e la quota che sopravvivrebbe a una normalizzazione dell'EBITDA.'']
      else [])"

definition otherRevenuesFlag :: "pricing \<Rightarrow> number \<Rightarrow> ceeReading \<Rightarrow> qualityFlag list" where
  "otherRevenuesFlag p ebitda r =
     (if ngreater ebitda (Fin 0) \<and> ngreater (pctOf (ce_OtherRevenuesA5 r) ebitda) (pr_A5EBITDAFlagPct p)
      then [flag ''warning'' ''a5_altri_ricavi'' ''Altri ricavi rilevanti sull'EBITDA''
        (''A.5 altri ricavi = '' @ maFormatEUR (ce_OtherRevenuesA5 r) @ '' = '' @ formatFixed 0 (pctOf (ce_OtherRevenuesA5 r) ebitda) @
         ''% dell'EBITDA (di cui contributi '' @ maFormatEUR (ce_OperatingGrants r) @ '')'')
        ''Chiarire la composizione degli altri ricavi (A.5): quota ricorrente vs una tantum (sopravvenienze, plusvalenze, rimborsi).'']
      else [])"

definition leaseFlag :: "pricing \<Rightarrow> ceeReading \<Rightarrow> qualityFlag list" where
  "leaseFlag p r =
     (case ce_Revenues r of
        Some revenues \<Rightarrow>
          if ngreater revenues (Fin 0) \<and> ngreater (pctOf (ce_LeaseCosts r) revenues) (pr_B8RevenueFlagPct p)
          then [flag ''info'' ''b8_beni_terzi'' ''Struttura in godimento di terzi''
            (''B.8 godimento beni di terzi = '' @ maFormatEUR (ce_LeaseCosts r) @ '' = '' @ formatFixed 0 (pctOf (ce_LeaseCosts r) revenues) @
             ''% dei ricavi: impegni che il compratore eredita'')
            ''Elencare i contratti di godimento beni di terzi (affitti, noleggi, leasing): durate residue, canoni e controparti (parti correlate?).'']
          else []
      | None \<Rightarrow> [])"

definition participationFlag :: "pricing \<Rightarrow> number \<Rightarrow> ceeReading \<Rightarrow> qualityFlag list" where
  "participationFlag p ebitda r =
     (let assetsShare = (case (ce_ParticipationsTotal r, ce_TotalAssets r) of
            (Some x, Some a) \<Rightarrow> if ngreater a (Fin 0) then pctOf x a else Fin 0
          | _ \<Rightarrow> Fin 0);
          incomeShare = (if ngreater ebitda (Fin 0) then pctOf (ce_ParticipationIncome r) ebitda else Fin 0)
      in if ngreater assetsShare (pr_ParticipationAssetsFlagPct p) \<or> ngreater incomeShare (pr_ParticipationIncomeFlagPct p)
         then [flag ''warning'' ''perimetro_standalone'' ''Controllate fuori dal perimetro valutato''
           (''Partecipazioni = '' @ maFormatEUR (zeroPtr (ce_ParticipationsTotal r)) @ '' ('' @ formatFixed 0 assetsShare @
            ''% dell'attivo); proventi da partecipazioni = '' @ maFormatEUR (ce_ParticipationIncome r) @ '' ('' @ formatFixed 0 incomeShare @
            ''% dell'EBITDA): la banda valuta il solo standalone'')
           ''Acquisire il bilancio consolidato (o i bilanci delle controllate) e valutare la somma delle parti.'']
         else [])"

definition overTolerance :: "pricing \<Rightarrow> number option \<Rightarrow> bool" where
  "overTolerance p pct = (case pct of None \<Rightarrow> False | Some x \<Rightarrow> ngreater (nabs x) (pr_VendorCEETolerancePct p))"

definition reconciliationFlag :: "pricing \<Rightarrow> deepReconciliation option \<Rightarrow> qualityFlag list" where
  "reconciliationFlag p rec =
     (case rec of
        None \<Rightarrow> []
      | Some r \<Rightarrow>
          if overTolerance p (rc_EBITDAPct r) \<or> overTolerance p (rc_PFNPct r)
          then [flag ''warning'' ''scarto_vendor_cee'' ''Dati da riconciliare''
            (''Scarto vendor-vs-CEE oltre soglia:'' @
             (if overTolerance p (rc_EBITDAPct r) then '' EBITDA '' @ formatFixed 1 (zeroPtr (rc_EBITDAPct r)) @ ''%'' else '''') @
             (if overTolerance p (rc_PFNPct r) then '' PFN '' @ formatFixed 1 (zeroPtr (rc_PFNPct r)) @ ''%'' else '''') @
             '' (tolleranza '' @ formatFixed 1 (pr_VendorCEETolerancePct p) @ ''%)'')
            ''Riconciliare le fonti: quale bilancio/vintage usa il provider per i KPI pre-calcolati?'']
          else [])"

definition erodedFlag :: "number option \<Rightarrow> qualityFlag list" where
  "erodedFlag netWorth =
     (case netWorth of
        Some w \<Rightarrow>
          if nleq w (Fin 0)
          then [flag ''warning'' ''patrimonio_eroso'' ''Patrimonio netto eroso'' (''Patrimonio netto = '' @ maFormatEUR w)
            ''Ricostruire l'evoluzione del patrimonio netto: perdite cumulate, versamenti/rinunce soci, piani di ricapitalizzazione.'']
          else []
      | None \<Rightarrow> [])"

text \<open>Combinations of directions.\<close>

definition leverageMomentumFlag :: "fields \<Rightarrow> qualityFlag list" where
  "leverageMomentumFlag rt =
     (case (maInspectNumber rt ''operatingResults.ebitdaL2Y'', maInspectNumber rt ''operatingResults.ebitda'',
            maInspectNumber rt ''development.grossFinancialDebt'') of
        (Some before, Some now, Some debtDelta) \<Rightarrow>
          if nless now before \<and> ngreater debtDelta (Fin 0)
          then [flag ''warning'' ''leva_in_peggioramento'' ''Leva in peggioramento''
            (''EBITDA in calo di '' @ maFormatEUR (nsub before now) @ '' sull'anno precedente con debito finanziario lordo in aumento'')
            ''Ricostruire l'evoluzione del debito finanziario: nuove linee, utilizzi di fido, covenant e scadenze.'']
          else []
      | _ \<Rightarrow> [])"

definition addedValueFlag :: "fields \<Rightarrow> qualityFlag list" where
  "addedValueFlag rt =
     (case (maInspectNumber rt ''ecofin.turnoverTrend'', maInspectNumber rt ''development.addedValue'') of
        (Some trend, Some added) \<Rightarrow>
          if ngreater trend (Fin 0) \<and> nless added (Fin 0)
          then [flag ''info'' ''deriva_valore_aggiunto'' ''Crescita a valore aggiunto calante''
            (''Ricavi in crescita (+'' @ formatFixed 1 trend @ ''%) con valore aggiunto in calo: possibile deriva verso rivendita/pass-through'')
            ''Scomporre la crescita per linea: quota rivendita/pass-through vs servizi propri e relativi margini.'']
          else []
      | _ \<Rightarrow> [])"

text \<open>Warnings come before infos; without a root the momentum is skipped.\<close>

definition buildMADeepQualityFlags :: "fields option \<Rightarrow> deepScorecard option \<Rightarrow> ceeReading option \<Rightarrow> pricing \<Rightarrow> qualityFlag list" where
  "buildMADeepQualityFlags rt scorecard reading p =
     (case scorecard of
        None \<Rightarrow> []
      | Some sc \<Rightarrow>
          let ebitda = zeroPtr (sc_Ebitda sc);
              flags = (case reading of None \<Rightarrow> []
                  | Some r \<Rightarrow> capitalizationFlag ebitda r @ otherRevenuesFlag p ebitda r @ leaseFlag p r @ participationFlag p ebitda r) @
                reconciliationFlag p (sc_Reconciliation sc) @ erodedFlag (sc_NetWorth sc) @
                (case rt of None \<Rightarrow> [] | Some o1 \<Rightarrow> leverageMomentumFlag o1 @ addedValueFlag o1)
          in filter (\<lambda>f. qf_Severity f = ''warning'') flags @ filter (\<lambda>f. qf_Severity f \<noteq> ''warning'') flags)"

section \<open>Family of business model\<close>

definition maDispersedMultiplePrefixes :: "string list" where
  "maDispersedMultiplePrefixes = [''46'', ''58'', ''62'', ''620'', ''6201'', ''63'']"

definition maFamilyFirstPrefixes :: "string list" where
  "maFamilyFirstPrefixes = [''43'', ''46'', ''58'', ''62'', ''620'', ''6201'', ''63'']"

record familySuggestion =
  fs_Family :: string
  fs_Source :: string
  fs_Evidence :: string

definition plainCode :: "string \<Rightarrow> string" where
  "plainCode ateco = ReplaceChar (CHR ''.'') '''' (normalizeAtecoCode ateco)"

definition suggestBMFamilyFromCosts :: "ceeReading option \<Rightarrow> familySuggestion option" where
  "suggestBMFamilyFromCosts reading =
     (case reading of
        None \<Rightarrow> None
      | Some r \<Rightarrow>
          (case ce_ProductionValue r of
             None \<Rightarrow> None
           | Some production \<Rightarrow>
               let suggestion = (\<lambda>family evidence. Some \<lparr>fs_Family = family, fs_Source = ''cost_structure'', fs_Evidence = evidence\<rparr>);
                   materials = pctOf (ce_MaterialCosts r) production;
                   capitalized = (case positiveOption (ce_EBITDACEE r) of None \<Rightarrow> None | Some e \<Rightarrow> Some (pctOf (ce_Capitalizations r) e));
                   stock = (case (ce_Inventory r, positiveOption (ce_TotalAssets r)) of (Some i, Some a) \<Rightarrow> Some (pctOf i a) | _ \<Rightarrow> None);
                   addedValue = nsub (nsub (nsub (nsub production (ce_MaterialCosts r)) (ce_ServiceCosts r)) (ce_LeaseCosts r)) (ce_OtherOperatingCosts r);
                   light = (ce_Inventory r = None \<or> (case stock of None \<Rightarrow> False | Some s \<Rightarrow> nless s (lit 5)));
                   staff = pctOf (ce_StaffCosts r) addedValue;
                   over = (\<lambda>x limit. case x of None \<Rightarrow> False | Some s \<Rightarrow> ngreater s (lit limit))
               in if nleq production (Fin 0) then None
                  else if ngreater materials (lit 40) then
                    suggestion maBMFamilyRivenditaVAR (''B.6 materie/merci = '' @ formatFixed 0 materials @ ''% del valore della produzione'')
                  else if over capitalized 15 then
                    suggestion maBMFamilySoftwareProdotto (''A.4 capitalizzazioni = '' @ formatFixed 0 (zeroPtr capitalized) @ ''% dell'EBITDA (sviluppo interno)'')
                  else if over stock 15 then
                    suggestion maBMFamilyProgettoIntegrazione (''magazzino = '' @ formatFixed 0 (zeroPtr stock) @ ''% dell'attivo (commesse/WIP)'')
                  else if ngreater addedValue (Fin 0) \<and> light \<and> ngreater staff (lit 45) then
                    suggestion maBMFamilyServiziRicorrenti (''costo del personale = '' @ formatFixed 0 staff @ ''% del valore aggiunto, magazzino trascurabile'')
                  else None))"

definition suggestBMFamily :: "string \<Rightarrow> ceeReading option \<Rightarrow> familySuggestion option" where
  "suggestBMFamily ateco reading =
     (let code = plainCode ateco;
          suggestion = (\<lambda>family what. Some \<lparr>fs_Family = family, fs_Source = ''ateco'', fs_Evidence = ''ATECO '' @ code @ '': '' @ what\<rparr>)
      in if HasPrefix code ''4651'' \<or> HasPrefix code ''4741'' then suggestion maBMFamilyRivenditaVAR ''commercio di computer e apparecchiature''
         else if HasPrefix code ''432'' then suggestion maBMFamilyProgettoIntegrazione ''installazione di impianti''
         else if HasPrefix code ''61'' then suggestion maBMFamilyServiziRicorrenti ''telecomunicazioni''
         else if HasPrefix code ''62'' \<or> HasPrefix code ''63'' then suggestBMFamilyFromCosts reading
         else None)"

definition sectorMultipleLookupKeys :: "string \<Rightarrow> string \<Rightarrow> string list" where
  "sectorMultipleLookupKeys family ateco =
     (let code = plainCode ateco;
          prefixes = map (\<lambda>n. take n code) (filter (\<lambda>n. n \<le> length code) [4, 3, 2]);
          familyFirst = list_ex (\<lambda>x. x \<in> set maFamilyFirstPrefixes) prefixes;
          familyKey = (if family \<in> set maBMFamilies then [''FAMILY:'' @ family] else [])
      in (if familyFirst then familyKey else []) @ prefixes @ (if familyFirst then [] else familyKey) @ [''TOTAL''])"

text \<open>What is stored on the family of a company: suggested, and ratified by the analyst.\<close>

record bmFamily =
  bm_CompanyKey :: string
  bm_SuggestedFamily :: string
  bm_SuggestedSource :: string
  bm_SuggestedEvidence :: string
  bm_Family :: string
  bm_RatifiedByEmail :: string
  bm_RatifiedAt :: "gotime option"

definition Effective :: "bmFamily option \<Rightarrow> string \<times> bool" where
  "Effective f = (case f of None \<Rightarrow> ('''', False) | Some r \<Rightarrow> if bm_Family r \<noteq> '''' then (bm_Family r, True) else (bm_SuggestedFamily r, False))"

text \<open>The store, as far as the computations use it: families by company, multiples by key. Upserts and reads may fail.\<close>

record familyStore =
  st_Family :: "(string \<times> bmFamily) list"
  st_Multiples :: "(string \<times> sectorMultiple) list"

definition UpsertMABMFamilySuggestion :: "string \<Rightarrow> familySuggestion \<Rightarrow> familyStore \<Rightarrow> familyStore option" where
  "UpsertMABMFamilySuggestion companyKey s st =
     (if TrimSpace companyKey = '''' \<or> fs_Family s \<notin> set maBMFamilies then None
      else Some (st\<lparr>st_Family := AList.update companyKey
          (case map_of (st_Family st) companyKey of
             None \<Rightarrow> \<lparr>bm_CompanyKey = companyKey, bm_SuggestedFamily = fs_Family s, bm_SuggestedSource = fs_Source s,
               bm_SuggestedEvidence = fs_Evidence s, bm_Family = '''', bm_RatifiedByEmail = '''', bm_RatifiedAt = None\<rparr>
           | Some r \<Rightarrow> r\<lparr>bm_SuggestedFamily := fs_Family s, bm_SuggestedSource := fs_Source s, bm_SuggestedEvidence := fs_Evidence s\<rparr>)
          (st_Family st)\<rparr>))"

fun ResolveSectorMultipleKeys :: "familyStore \<Rightarrow> string list \<Rightarrow> sectorMultiple option" where
  "ResolveSectorMultipleKeys st [] = None"
| "ResolveSectorMultipleKeys st (k # ks) =
     (case map_of (st_Multiples st) k of Some m \<Rightarrow> Some m | None \<Rightarrow> ResolveSectorMultipleKeys st ks)"

text \<open>The payload is decoded twice: the maps of the two readings may be visited in different orders. A failed upsert
  or read is only logged.\<close>

definition computeMADeepScorecard ::
  "payload \<Rightarrow> payload \<Rightarrow> string \<Rightarrow> pricing \<Rightarrow> bool \<Rightarrow> bool \<Rightarrow> familyStore \<Rightarrow>
    (deepScorecard option \<times> ceeReading option \<times> string \<times> bool) \<times> familyStore" where
  "computeMADeepScorecard payload again companyKey p upsertFails readFails st =
     (let reading = maCEEReadingFromPayload payload;
          rt = map_option deepFullRoot again;
          ateco = normalizeAtecoCode (firstVendorString (case rt of None \<Rightarrow> [] | Some o1 \<Rightarrow> o1) atecoPaths);
          st' = (case suggestBMFamily ateco reading of
               None \<Rightarrow> st
             | Some s \<Rightarrow> if upsertFails then st else case UpsertMABMFamilySuggestion companyKey s st of None \<Rightarrow> st | Some u \<Rightarrow> u);
          (family, ratified) = (if readFails then ('''', False) else Effective (map_of (st_Family st') companyKey));
          scorecard = buildMADeepScorecard again (thresholdsForFamily p family);
          scorecard' = map_option (\<lambda>sc. sc\<lparr>sc_QualityFlags := buildMADeepQualityFlags rt (Some sc) reading p\<rparr>) scorecard
      in ((scorecard', reading, family, ratified), st'))"

definition resolveMADeepValuation ::
  "deepScorecard option \<Rightarrow> ceeReading option \<Rightarrow> string \<Rightarrow> bool \<Rightarrow> pricing \<Rightarrow> bool \<Rightarrow> familyStore \<Rightarrow> deepValuation option" where
  "resolveMADeepValuation scorecard reading family ratified p readFails st =
     (case scorecard of
        None \<Rightarrow> None
      | Some sc \<Rightarrow>
          if readFails then None
          else let multiple = ResolveSectorMultipleKeys st (sectorMultipleLookupKeys family (sc_AtecoCode sc))
            in case (buildMADeepValuation (Some sc) reading multiple p, multiple) of
                 (Some v, Some m) \<Rightarrow>
                   Some (if HasPrefix (sm_Prefix m) ''FAMILY:'' \<and> \<not> ratified
                     then v\<lparr>va_Caveat := TrimSpace (''Famiglia di business model suggerita ma non ratificata: multiplo per famiglia indicativo. '' @ va_Caveat v)\<rparr>
                     else if family = '''' \<and> sm_Prefix m \<in> set maDispersedMultiplePrefixes
                     then v\<lparr>va_Caveat := TrimSpace (''Settore a multipli dispersi e famiglia non classificata: il posizionamento di business ''
                       @ ''pu'' @ [CHR 0xC3, CHR 0xB2] @ '' spostare il multiplo sensibilmente. '' @ va_Caveat v)\<rparr>
                     else v)
               | (v, _) \<Rightarrow> v)"

end
