(* ===== verification/DeepReading.thy ===== *)
theory DeepReading
  imports DeepEngine
begin

text \<open>
  A loop over a Go map visits the keys in any order: the reading of the balance-sheet codes and the scorecard do not depend on
  it as long as no two entries of a payload have one code, and do when two have.
\<close>

section \<open>Codes in any order\<close>

abbreviation updates :: "(string \<times> number) list \<Rightarrow> ceeCodes \<Rightarrow> ceeCodes" where
  "updates xs al \<equiv> fold (\<lambda>(num, n). AList.update num n) xs al"

lemma map_of_updates: "map_of (updates xs al) = map_of al ++ map_of (rev xs)"
  by (induction xs arbitrary: al) (auto simp: update_conv' map_add_upd_left map_add_def fun_eq_iff split: option.split)

definition allEntries :: "fields \<Rightarrow> (string \<times> number) list" where
  "allEntries rt = concat (map (entriesOf \<circ> snd) rt)"

lemma codes_updates: "maCEECodesFromRoot rt = updates (allEntries rt) []"
proof -
  have "fold (\<lambda>(k, v) out. updates (entriesOf v) out) rt al = updates (allEntries rt) al" for al
    by (induction rt arbitrary: al) (auto simp: allEntries_def)
  then show ?thesis by (simp add: maCEECodesFromRoot_def)
qed

lemma map_of_permuted: "mset xs = mset ys \<Longrightarrow> distinct (map fst xs) \<Longrightarrow> map_of xs = map_of ys"
proof -
  assume a: "mset xs = mset ys" "distinct (map fst xs)"
  have "mset (map fst xs) = mset (map fst ys)" using a(1) by (simp add: mset_map)
  then have "distinct (map fst ys)" using a(2) by (metis mset_eq_imp_distinct_iff)
  then show ?thesis using a map_of_inject_set mset_eq_setD by metis
qed

lemma codes_permuted:
  assumes "mset rt = mset rt'" "distinct (map fst (allEntries rt))"
  shows "map_of (maCEECodesFromRoot rt) = map_of (maCEECodesFromRoot rt')"
proof -
  have "mset (allEntries rt) = mset (allEntries rt')"
    using assms(1) unfolding allEntries_def mset_concat map_map
    by (metis mset_map sum_mset_sum_list)
  then have "mset (rev (allEntries rt)) = mset (rev (allEntries rt'))" by simp
  then have "map_of (rev (allEntries rt)) = map_of (rev (allEntries rt'))"
    using assms(2) by (intro map_of_permuted) (simp_all add: rev_map[symmetric])
  then show ?thesis by (simp add: codes_updates map_of_updates)
qed

section \<open>What is read only by key\<close>

lemma splitAt_nonempty: "splitAt c s \<noteq> []"
  by (induction s) (auto split: list.split)

lemma vendorPath_cong: "map_of rt = map_of rt' \<Longrightarrow> vendorPath rt = vendorPath rt'"
proof (rule ext)
  fix path assume a: "map_of rt = map_of rt'"
  obtain p ps where "splitAt (CHR ''.'') path = p # ps" using splitAt_nonempty by (cases "splitAt (CHR ''.'') path") auto
  then show "vendorPath rt path = vendorPath rt' path" using a by (simp add: vendorPath_def)
qed

lemma readers_cong:
  assumes "map_of rt = map_of rt'"
  shows "maInspectNumber rt = maInspectNumber rt'" "deepFloatPtr rt = deepFloatPtr rt'" "deepIntPtr rt = deepIntPtr rt'"
    "firstVendorString rt = firstVendorString rt'"
proof -
  note v = vendorPath_cong[OF assms]
  show f: "maInspectNumber rt = maInspectNumber rt'" "deepFloatPtr rt = deepFloatPtr rt'"
    by (simp_all add: fun_eq_iff maInspectNumber_def deepFloatPtr_def v)
  then show "deepIntPtr rt = deepIntPtr rt'" by (simp add: fun_eq_iff deepIntPtr_def)
  show "firstVendorString rt = firstVendorString rt'"
  proof
    fix paths show "firstVendorString rt paths = firstVendorString rt' paths" by (induction paths) (simp_all add: v Let_def split: option.split)
  qed
qed

lemma code0_cong: "map_of cs = map_of cs' \<Longrightarrow> code0 cs = code0 cs'"
  by (simp add: fun_eq_iff code0_def)

lemma voce_cong: "map_of cs = map_of cs' \<Longrightarrow> voce cs = voce cs'"
  by (auto simp: fun_eq_iff voce_def code0_cong[of cs cs'] split: prod.split)

lemma debtLoop_cong:
  assumes "map_of cs = map_of cs'"
  shows "debtLoop cs fs acc = debtLoop cs' fs acc"
proof (induction fs arbitrary: acc)
  case (Cons f fs)
  then show ?case by (cases acc) (simp add: voce_cong[OF assms] code0_cong[OF assms] split: option.split prod.split)
qed simp

lemma reading_cong:
  assumes "map_of cs = map_of cs'" "map_of rt = map_of rt'"
  shows "readingOfCodes rt cs = readingOfCodes rt' cs'"
proof -
  have "grossDebt cs = grossDebt cs'" "debtBeyond cs = debtBeyond cs'"
    unfolding grossDebt_def debtBeyond_def debtLoop_cong[OF assms(1)] code0_cong[OF assms(1)] by simp_all
  moreover have "ebitdaCEE cs = ebitdaCEE cs'" unfolding ebitdaCEE_def assms(1) code0_cong[OF assms(1)] by simp
  moreover have "netPosition rt cs = netPosition rt' cs'"
    unfolding netPosition_def assms(1) code0_cong[OF assms(1)] readers_cong[OF assms(2)] calculation(1) by simp
  ultimately show ?thesis using assms(1) code0_cong[OF assms(1)] voce_cong[OF assms(1)] by (simp add: readingOfCodes_def)
qed

lemma scorecard_cong:
  assumes "maCEEReadingFromRoot rt = maCEEReadingFromRoot rt'" "map_of rt = map_of rt'"
  shows "scorecardFromRoot rt th = scorecardFromRoot rt' th"
proof -
  note r = readers_cong[OF assms(2)]
  have "ebitdaGap rt = ebitdaGap rt'" "pfnGap rt = pfnGap rt'" "roeGap rt = roeGap rt'"
    by (simp_all add: fun_eq_iff ebitdaGap_def pfnGap_def roeGap_def r)
  then have "buildMADeepReconciliation rt = buildMADeepReconciliation rt'" by (intro ext) (simp only: buildMADeepReconciliation_def)
  moreover have "scorecardMetrics rt = scorecardMetrics rt'"
    by (intro ext) (simp only: scorecardMetrics_def addMetric_def deltaMetric_def r)
  moreover have "scorecardPFN rt = scorecardPFN rt'" by (intro ext) (simp only: scorecardPFN_def r)
  ultimately show ?thesis using assms(1) r by (simp add: scorecardFromRoot_def Let_def)
qed

text \<open>C17: when no two entries of the payload's arrays have one code, the reading of the codes and the whole scorecard are the same
  whatever the order in which the map is visited.\<close>

theorem reading_independent_of_map_order:
  assumes perm: "mset rt = mset rt'" and keys: "distinct (map fst rt)" and codes: "distinct (map fst (allEntries rt))"
  shows "maCEEReadingFromRoot rt = maCEEReadingFromRoot rt' \<and> scorecardFromRoot rt th = scorecardFromRoot rt' th"
proof -
  have m: "map_of rt = map_of rt'" using map_of_permuted[OF perm keys] .
  have c: "map_of (maCEECodesFromRoot rt) = map_of (maCEECodesFromRoot rt')" using codes_permuted[OF perm codes] .
  then have "maCEECodesFromRoot rt = [] \<longleftrightarrow> maCEECodesFromRoot rt' = []"
    by (metis map_of_eq_empty_iff)
  then have r: "maCEEReadingFromRoot rt = maCEEReadingFromRoot rt'"
    using reading_cong[OF c m] by (simp add: maCEEReadingFromRoot_def)
  then show ?thesis using scorecard_cong[OF r m] by simp
qed

section \<open>Two readings of one payload\<close>

definition twiceEntry :: "string \<Rightarrow> string \<Rightarrow> any" where
  "twiceEntry code value = Obj [(''code'', Str code), (''value'', Number value)]"

definition oneArray :: "string \<times> any" where
  "oneArray = (''incomeStatement'', Arr [twiceEntry ''IIC130'' ''40'', twiceEntry ''IIC149'' ''32''])"

definition otherArray :: "string \<times> any" where
  "otherArray = (''productionCosts'', Arr [twiceEntry ''IPL131'' ''7''])"

definition againArray :: "string \<times> any" where
  "againArray = (''productionCosts'', Arr [twiceEntry ''IPL149'' ''36''])"

theorem reading_independent_of_map_order_witness:
  "maCEEReadingFromRoot [oneArray, otherArray] = maCEEReadingFromRoot [otherArray, oneArray]"
proof -
  have "allEntries [oneArray, otherArray] = [(''130'', Fin 40), (''149'', Fin 32), (''131'', Fin 7)]" by code_simp
  then have "distinct (map fst (allEntries [oneArray, otherArray]))" by simp
  moreover have "distinct (map fst [oneArray, otherArray])" by (simp add: oneArray_def otherArray_def)
  ultimately show ?thesis using reading_independent_of_map_order[of "[oneArray, otherArray]" "[otherArray, oneArray]"] by simp
qed

text \<open>a code that occurs in two arrays (the two families of a code are one) makes the reading depend on the order in which Go
  visits the map: the same payload has an EBITDA of 8 or of 4.\<close>

theorem repeated_code_reads_two_ways:
  "map_option ce_EBITDACEE (maCEEReadingFromRoot [oneArray, againArray]) = Some (Some (Fin 4)) \<and>
   map_option ce_EBITDACEE (maCEEReadingFromRoot [againArray, oneArray]) = Some (Some (Fin 8))"
proof -
  have c: "maCEECodesFromRoot [oneArray, againArray] = [(''130'', Fin 40), (''149'', Fin 36)]"
    "maCEECodesFromRoot [againArray, oneArray] = [(''149'', Fin 32), (''130'', Fin 40)]" by code_simp+
  have "ebitdaCEE [(''130'', Fin 40), (''149'', Fin 36)] = Some (Fin 4)" "ebitdaCEE [(''149'', Fin 32), (''130'', Fin 40)] = Some (Fin 8)" by code_simp+
  then show ?thesis by (simp add: maCEEReadingFromRoot_def c Let_def readingOfCodes_def)
qed

end
