(* ===== verification/DeepNotes.thy ===== *)
theory DeepNotes
  imports DeepCee GoTime "HOL-Library.Product_Lexorder"
begin

text \<open>
  The adjustments read in the notes of a filing and the analyst's decisions on them: the reducer and the matcher of
  \<open>binocolo/ma_ni_reading.go\<close>, the endpoint that records a decision (\<open>ma_filing_endpoints.go\<close>), and the
  tables they work on (\<open>ma_ni_store.go\<close>). Decisions are only appended.
\<close>

section \<open>Tables\<close>

definition maNIActionRatify :: string where "maNIActionRatify = ''ratify''"
definition maNIActionReject :: string where "maNIActionReject = ''reject''"
definition maNIActionRevoke :: string where "maNIActionRevoke = ''revoke''"

definition maNITrattamentoEbitda :: string where "maNITrattamentoEbitda = ''ebitda''"
definition maNITrattamentoPFN :: string where "maNITrattamentoPFN = ''pfn''"
definition maNITrattamentoDDOnly :: string where "maNITrattamentoDDOnly = ''dd_only''"

definition maNIDirectionUncertain :: string where "maNIDirectionUncertain = ''uncertain''"

definition maNIStateEffective :: string where "maNIStateEffective = ''effective''"
definition maNIStateRejected :: string where "maNIStateRejected = ''rejected''"
definition maNIStateRevoked :: string where "maNIStateRevoked = ''revoked''"
definition maNIStatePending :: string where "maNIStatePending = ''pending''"

record niRun =
  nr_ID :: string
  nr_FilingID :: string
  nr_ProcessingRunID :: string
  nr_PromptID :: string
  nr_ModelID :: string
  nr_RequestID :: string
  nr_Status :: string
  nr_CreatedAt :: gotime

record niProposal =
  np_ID :: string
  np_RunID :: string
  np_ExerciseDate :: "gotime option"
  np_Fingerprint :: string
  np_FattoOsservato :: string
  np_ImportoLordo :: "number option"
  np_TrattamentoCandidato :: string
  np_Direction :: string
  np_ImportoRettifica :: "number option"
  np_Incertezza :: string
  np_Quote :: string
  np_PageNo :: "int option"
  np_Section :: string
  np_Label :: string
  np_Rationale :: string
  np_CreatedAt :: gotime

record niDecision =
  nd_ID :: string
  nd_ProposalID :: string
  nd_Action :: string
  nd_RatifiedAmount :: "number option"
  nd_RatifiedTreatment :: string
  nd_Reason :: string
  nd_ActorSubject :: string
  nd_ActorEmail :: string
  nd_CreatedAt :: gotime
  nd_AutoReconfirmedFrom :: string

record niTables =
  nt_Runs :: "niRun list"
  nt_Proposals :: "niProposal list"
  nt_Decisions :: "niDecision list"

section \<open>The current decision\<close>

text \<open>Later, with the greater identifier on a tie.\<close>

definition newer :: "niDecision \<Rightarrow> niDecision \<Rightarrow> bool" where
  "newer d cur \<longleftrightarrow> nd_CreatedAt d > nd_CreatedAt cur \<or> (nd_CreatedAt d = nd_CreatedAt cur \<and> nd_ID d > nd_ID cur)"

definition latestMANIDecision :: "niDecision list \<Rightarrow> niDecision option" where
  "latestMANIDecision decisions =
     fold (\<lambda>d latest. case latest of None \<Rightarrow> Some d | Some cur \<Rightarrow> if newer d cur then Some d else Some cur) decisions None"

text \<open>The loop of the reducer, over the decisions of several proposals.\<close>

definition latestByProposal :: "niDecision list \<Rightarrow> (string \<times> niDecision) list" where
  "latestByProposal decisions =
     fold (\<lambda>d latest. case map_of latest (nd_ProposalID d) of
         None \<Rightarrow> AList.update (nd_ProposalID d) d latest
       | Some cur \<Rightarrow> if newer d cur then AList.update (nd_ProposalID d) d latest else latest) decisions []"

section \<open>The reducer\<close>

record niEffective =
  ne_ProposalID :: string
  ne_Treatment :: string
  ne_ExerciseDate :: "gotime option"
  ne_Amount :: number

definition quantified :: "string \<Rightarrow> bool" where
  "quantified treatment \<longleftrightarrow> treatment = maNITrattamentoEbitda \<or> treatment = maNITrattamentoPFN"

definition effectiveAmount :: "niProposal \<Rightarrow> niDecision \<Rightarrow> number option" where
  "effectiveAmount p d =
     (case nd_RatifiedAmount d of
        Some a \<Rightarrow> Some a
      | None \<Rightarrow> if np_Direction p \<noteq> maNIDirectionUncertain then np_ImportoRettifica p else None)"

definition effectiveTreatment :: "niProposal \<Rightarrow> string \<Rightarrow> string" where
  "effectiveTreatment p ratified = (if ratified \<noteq> '''' then ratified else np_TrattamentoCandidato p)"

definition effectOf :: "niProposal \<Rightarrow> niDecision option \<Rightarrow> niEffective option" where
  "effectOf p decision =
     (case decision of
        None \<Rightarrow> None
      | Some d \<Rightarrow>
          if nd_Action d \<noteq> maNIActionRatify then None
          else let treatment = effectiveTreatment p (nd_RatifiedTreatment d)
            in if \<not> quantified treatment then None
               else map_option (\<lambda>a. \<lparr>ne_ProposalID = np_ID p, ne_Treatment = treatment, ne_ExerciseDate = np_ExerciseDate p, ne_Amount = a\<rparr>)
                      (effectiveAmount p d))"

definition reduceMANIEffectiveAdjustments :: "niProposal list \<Rightarrow> niDecision list \<Rightarrow> niEffective list" where
  "reduceMANIEffectiveAdjustments proposals decisions =
     (let latest = latestByProposal decisions in List.map_filter (\<lambda>p. effectOf p (map_of latest (np_ID p))) proposals)"

definition classifyMANIProposalState :: "niProposal \<Rightarrow> niDecision list \<Rightarrow> string" where
  "classifyMANIProposalState p decisions =
     (case latestMANIDecision decisions of
        None \<Rightarrow> maNIStatePending
      | Some d \<Rightarrow>
          if nd_Action d = maNIActionReject then maNIStateRejected
          else if nd_Action d = maNIActionRevoke then maNIStateRevoked
          else if nd_Action d = maNIActionRatify then
            (if reduceMANIEffectiveAdjustments [p] decisions \<noteq> [] then maNIStateEffective else maNIStatePending)
          else maNIStatePending)"

section \<open>Recording a decision\<close>

datatype niError = StoreUnavailable | StoreFailed | ActionInvalid | ProposalNotFound | RatifiedTreatmentInvalid |
  RatifiedTreatmentRequired | RatifiedAmountRequired

definition validateMANIRatify :: "niProposal \<Rightarrow> number option \<Rightarrow> string \<Rightarrow> niError option" where
  "validateMANIRatify p amount ratified =
     (if ratified \<noteq> '''' \<and> \<not> quantified ratified then Some RatifiedTreatmentInvalid
      else if \<not> quantified (effectiveTreatment p ratified) then Some RatifiedTreatmentRequired
      else if amount = None \<and> (np_TrattamentoCandidato p = maNITrattamentoDDOnly \<or> np_Direction p = maNIDirectionUncertain \<or>
              np_ImportoRettifica p = None) then Some RatifiedAmountRequired
      else None)"

record niDecisionCreate =
  nc_ProposalID :: string
  nc_Action :: string
  nc_RatifiedAmount :: "number option"
  nc_RatifiedTreatment :: string
  nc_Reason :: string
  nc_ActorSubject :: string
  nc_ActorEmail :: string
  nc_AutoReconfirmedFrom :: string

text \<open>The identifier and the clock are the database's; without the proposal no row is inserted, which is an error.\<close>

definition InsertMANIDecision :: "string \<Rightarrow> gotime \<Rightarrow> niDecisionCreate \<Rightarrow> niTables \<Rightarrow> niTables option" where
  "InsertMANIDecision ident now c t =
     (if list_ex (\<lambda>p. np_ID p = nc_ProposalID c) (nt_Proposals t)
      then Some (t\<lparr>nt_Decisions := nt_Decisions t @
        [\<lparr>nd_ID = ident, nd_ProposalID = nc_ProposalID c, nd_Action = nc_Action c, nd_RatifiedAmount = nc_RatifiedAmount c,
          nd_RatifiedTreatment = nc_RatifiedTreatment c, nd_Reason = nc_Reason c, nd_ActorSubject = nc_ActorSubject c,
          nd_ActorEmail = nc_ActorEmail c, nd_CreatedAt = now, nd_AutoReconfirmedFrom = nc_AutoReconfirmedFrom c\<rparr>]\<rparr>)
      else None)"

definition GetMANIProposal :: "string \<Rightarrow> niTables \<Rightarrow> niProposal option" where
  "GetMANIProposal ident t = List.find (\<lambda>p. np_ID p = ident) (nt_Proposals t)"

definition ListMANIDecisionsByProposals :: "string list \<Rightarrow> niTables \<Rightarrow> niDecision list" where
  "ListMANIDecisionsByProposals ids t =
     sort_key (\<lambda>d. (nd_CreatedAt d, nd_ID d)) (filter (\<lambda>d. nd_ProposalID d \<in> set ids) (nt_Decisions t))"

record niDecisionInput =
  ni_Action :: string
  ni_RatifiedAmount :: "number option"
  ni_RatifiedTreatment :: string
  ni_Reason :: string

text \<open>Which of the three calls of the store fail; whether the service has its stores.\<close>

record niFaults =
  nf_Configured :: bool
  nf_Get :: bool
  nf_Insert :: bool
  nf_List :: bool

definition decideNIProposal ::
  "niFaults \<Rightarrow> string \<Rightarrow> gotime \<Rightarrow> string \<Rightarrow> niDecisionInput \<Rightarrow> string \<Rightarrow> string \<Rightarrow> niTables \<Rightarrow> (niError + string \<times> string) \<times> niTables" where
  "decideNIProposal faults ident now proposalID i subject email t =
     (if \<not> nf_Configured faults then (Inl StoreUnavailable, t)
      else let action = TrimSpace (ni_Action i) in
      if action \<noteq> maNIActionRatify \<and> action \<noteq> maNIActionReject \<and> action \<noteq> maNIActionRevoke then (Inl ActionInvalid, t)
      else if nf_Get faults then (Inl StoreFailed, t)
      else case GetMANIProposal proposalID t of
        None \<Rightarrow> (Inl ProposalNotFound, t)
      | Some p \<Rightarrow>
          let treatment = TrimSpace (ni_RatifiedTreatment i);
              refused = (if action = maNIActionRatify then validateMANIRatify p (ni_RatifiedAmount i) treatment else None);
              create = \<lparr>nc_ProposalID = proposalID, nc_Action = action,
                nc_RatifiedAmount = (if action = maNIActionRatify then ni_RatifiedAmount i else None),
                nc_RatifiedTreatment = (if action = maNIActionRatify then treatment else ''''),
                nc_Reason = TrimSpace (ni_Reason i), nc_ActorSubject = subject, nc_ActorEmail = email, nc_AutoReconfirmedFrom = ''''\<rparr>
          in case refused of
               Some e \<Rightarrow> (Inl e, t)
             | None \<Rightarrow>
                 if nf_Insert faults then (Inl StoreFailed, t)
                 else case InsertMANIDecision ident now create t of
                   None \<Rightarrow> (Inl StoreFailed, t)
                 | Some t' \<Rightarrow>
                     if nf_List faults then (Inl StoreFailed, t')
                     else (Inr (ident, classifyMANIProposalState p (ListMANIDecisionsByProposals [proposalID] t')), t'))"

section \<open>Carrying decisions to a new reading\<close>

record niPrior =
  pp_ProposalID :: string
  pp_Fingerprint :: string
  pp_CreatedAt :: gotime
  pp_Decision :: "niDecision option"

record niAutoReconfirm =
  na_NewProposalID :: string
  na_HistoricalDecisionID :: string
  na_Action :: string
  na_RatifiedAmount :: "number option"
  na_RatifiedTreatment :: string
  na_Reason :: string
  na_ActorSubject :: string
  na_ActorEmail :: string

definition newerPrior :: "niPrior \<Rightarrow> niPrior \<Rightarrow> bool" where
  "newerPrior p cur \<longleftrightarrow> pp_CreatedAt p > pp_CreatedAt cur \<or> (pp_CreatedAt p = pp_CreatedAt cur \<and> pp_ProposalID p > pp_ProposalID cur)"

definition bestByFingerprint :: "niPrior list \<Rightarrow> (string \<times> niPrior) list" where
  "bestByFingerprint prior =
     fold (\<lambda>p best. case map_of best (pp_Fingerprint p) of
         None \<Rightarrow> AList.update (pp_Fingerprint p) p best
       | Some cur \<Rightarrow> if newerPrior p cur then AList.update (pp_Fingerprint p) p best else best) prior []"

text \<open>New proposals are pairs of identifier and fingerprint.\<close>

definition matchMANIAutoReconfirm :: "(string \<times> string) list \<Rightarrow> niPrior list \<Rightarrow> niAutoReconfirm list" where
  "matchMANIAutoReconfirm newProps prior =
     (let best = bestByFingerprint prior
      in List.map_filter (\<lambda>(ident, fingerprint).
           case Option.bind (map_of best fingerprint) pp_Decision of
             None \<Rightarrow> None
           | Some d \<Rightarrow>
               if nd_Action d \<noteq> maNIActionRatify \<and> nd_Action d \<noteq> maNIActionReject then None
               else Some \<lparr>na_NewProposalID = ident, na_HistoricalDecisionID = nd_ID d, na_Action = nd_Action d,
                 na_RatifiedAmount = nd_RatifiedAmount d, na_RatifiedTreatment = nd_RatifiedTreatment d, na_Reason = nd_Reason d,
                 na_ActorSubject = nd_ActorSubject d, na_ActorEmail = nd_ActorEmail d\<rparr>) newProps)"

text \<open>The new reading's proposals without a decision, and those of the other readings of the filing with their current
  decision.\<close>

definition undecidedOf :: "string \<Rightarrow> niTables \<Rightarrow> (string \<times> string) list" where
  "undecidedOf runID t =
     map (\<lambda>p. (np_ID p, np_Fingerprint p))
       (filter (\<lambda>p. np_RunID p = runID \<and> \<not> list_ex (\<lambda>d. nd_ProposalID d = np_ID p) (nt_Decisions t)) (nt_Proposals t))"

definition priorOf :: "string \<Rightarrow> string \<Rightarrow> niTables \<Rightarrow> niPrior list" where
  "priorOf filingID runID t =
     map (\<lambda>p. \<lparr>pp_ProposalID = np_ID p, pp_Fingerprint = np_Fingerprint p, pp_CreatedAt = np_CreatedAt p,
           pp_Decision = latestMANIDecision (filter (\<lambda>d. nd_ProposalID d = np_ID p) (nt_Decisions t))\<rparr>)
       (filter (\<lambda>p. np_RunID p \<noteq> runID \<and> list_ex (\<lambda>r. nr_ID r = np_RunID p \<and> nr_FilingID r = filingID) (nt_Runs t)) (nt_Proposals t))"

definition ListMANIAutoReconfirmCandidates :: "string \<Rightarrow> string \<Rightarrow> niTables \<Rightarrow> niAutoReconfirm list" where
  "ListMANIAutoReconfirmCandidates filingID runID t =
     (let newProps = undecidedOf runID t in if newProps = [] then [] else matchMANIAutoReconfirm newProps (priorOf filingID runID t))"

definition cloneOf :: "niAutoReconfirm \<Rightarrow> niDecisionCreate" where
  "cloneOf c =
     \<lparr>nc_ProposalID = na_NewProposalID c, nc_Action = na_Action c, nc_RatifiedAmount = na_RatifiedAmount c,
      nc_RatifiedTreatment = na_RatifiedTreatment c, nc_Reason = na_Reason c, nc_ActorSubject = na_ActorSubject c,
      nc_ActorEmail = na_ActorEmail c, nc_AutoReconfirmedFrom = na_HistoricalDecisionID c\<rparr>"

text \<open>Each clone is a statement of its own, which may fail; it brings its identifier and clock.\<close>

fun cloneLoop :: "niAutoReconfirm list \<Rightarrow> (bool \<times> string \<times> gotime) list \<Rightarrow> niTables \<Rightarrow> niTables" where
  "cloneLoop (c # cs) ((fails, ident, now) # stamps) t =
     cloneLoop cs stamps (if fails then t else case InsertMANIDecision ident now (cloneOf c) t of None \<Rightarrow> t | Some t' \<Rightarrow> t')"
| "cloneLoop _ _ t = t"

definition autoReconfirmMANIDecisions ::
  "bool \<Rightarrow> (nat \<Rightarrow> bool \<times> string \<times> gotime) \<Rightarrow> string \<Rightarrow> string \<Rightarrow> niTables \<Rightarrow> niTables" where
  "autoReconfirmMANIDecisions lookupFails stamp filingID runID t =
     (if lookupFails then t
      else let cs = ListMANIAutoReconfirmCandidates filingID runID t in cloneLoop cs (map stamp [0..<length cs]) t)"

text \<open>A filing's active reading with the decisions of each proposal.\<close>

definition GetActiveMANIReadingRun :: "string \<Rightarrow> niTables \<Rightarrow> niRun option" where
  "GetActiveMANIReadingRun filingID t =
     fold (\<lambda>r best. case best of None \<Rightarrow> Some r | Some cur \<Rightarrow> if nr_CreatedAt r > nr_CreatedAt cur then Some r else Some cur)
       (filter (\<lambda>r. nr_FilingID r = filingID \<and> nr_Status r = ''active'') (nt_Runs t)) None"

definition ListMANIProposalsByRun :: "string \<Rightarrow> niTables \<Rightarrow> niProposal list" where
  "ListMANIProposalsByRun runID t = sort_key (\<lambda>p. (np_CreatedAt p, np_ID p)) (filter (\<lambda>p. np_RunID p = runID) (nt_Proposals t))"

definition ListMANIProposalsWithDecisions :: "string \<Rightarrow> niTables \<Rightarrow> (niProposal \<times> niDecision list) list" where
  "ListMANIProposalsWithDecisions filingID t =
     (case GetActiveMANIReadingRun filingID t of
        None \<Rightarrow> []
      | Some r \<Rightarrow>
          let ps = ListMANIProposalsByRun (nr_ID r) t; ds = ListMANIDecisionsByProposals (map np_ID ps) t
          in map (\<lambda>p. (p, filter (\<lambda>d. nd_ProposalID d = np_ID p) ds)) ps)"

end
