(* ===== verification/DeepDecisions.thy ===== *)
theory DeepDecisions
  imports DeepNotes
begin

text \<open>
  The current decision is the greatest by time and identifier, whatever the order in which decisions are listed; an accepted
  decision takes effect; a decision carried to a new reading may not.
\<close>

section \<open>The current decision\<close>

abbreviation decisionKey :: "niDecision \<Rightarrow> gotime \<times> string" where
  "decisionKey d \<equiv> (nd_CreatedAt d, nd_ID d)"

definition keepNewer :: "niDecision \<Rightarrow> niDecision option \<Rightarrow> niDecision option" where
  "keepNewer d latest = (case latest of None \<Rightarrow> Some d | Some cur \<Rightarrow> if newer d cur then Some d else Some cur)"

lemma latest_fold: "latestMANIDecision ds = fold keepNewer ds None"
  by (simp add: latestMANIDecision_def keepNewer_def[abs_def])

lemma latest_snoc: "latestMANIDecision (ds @ [d]) = keepNewer d (latestMANIDecision ds)"
  by (simp add: latest_fold)

lemma latest_Nil [simp]: "latestMANIDecision [] = None"
  by (simp add: latest_fold)

lemma latest_None [simp]: "latestMANIDecision ds = None \<longleftrightarrow> ds = []"
  by (induction ds rule: rev_induct) (auto simp: latest_snoc keepNewer_def split: option.split)

lemma newer_key: "newer d cur \<longleftrightarrow> decisionKey d > decisionKey cur"
  by (auto simp: newer_def less_prod_def)

lemma latest_max:
  "latestMANIDecision ds = Some d \<Longrightarrow> d \<in> set ds \<and> (\<forall>e \<in> set ds. decisionKey e \<le> decisionKey d)"
proof (induction ds arbitrary: d rule: rev_induct)
  case (snoc x ds)
  show ?case
  proof (cases "latestMANIDecision ds")
    case None
    then have "ds = []" by simp
    then show ?thesis using snoc.prems by (simp add: latest_fold keepNewer_def)
  next
    case (Some c)
    then have c: "c \<in> set ds" "\<forall>e \<in> set ds. decisionKey e \<le> decisionKey c" using snoc.IH by blast+
    have d: "d = (if newer x c then x else c)" using snoc.prems Some by (simp add: latest_snoc keepNewer_def split: if_splits)
    show ?thesis
    proof (cases "newer x c")
      case True
      then have "decisionKey c < decisionKey x" by (simp only: newer_key)
      then show ?thesis using c True d by (auto simp del: less_eq_prod_simp less_prod_simp intro: order.trans order.strict_implies_order)
    next
      case False
      then have "decisionKey x \<le> decisionKey c" by (simp only: newer_key not_less)
      then show ?thesis using c False d by (auto simp del: less_eq_prod_simp less_prod_simp)
    qed
  qed
qed simp

lemma latest_unique:
  assumes "set ds = set ds'" "inj_on nd_ID (set ds)"
  shows "latestMANIDecision ds = latestMANIDecision ds'"
proof (cases "latestMANIDecision ds")
  case None
  then show ?thesis using assms(1) by simp
next
  case (Some d)
  then have "ds' \<noteq> []" using assms(1) latest_None by (metis option.distinct(1) set_empty)
  then obtain d' where d': "latestMANIDecision ds' = Some d'" using latest_None by blast
  have "decisionKey d \<le> decisionKey d'" "decisionKey d' \<le> decisionKey d" "d \<in> set ds" "d' \<in> set ds"
    using latest_max[OF Some] latest_max[OF d'] assms(1) by blast+
  then show ?thesis using Some d' assms(2) by (metis antisym inj_onD prod.inject)
qed

lemma latest_newest:
  assumes "\<forall>e \<in> set ds. nd_CreatedAt e < nd_CreatedAt d"
  shows "latestMANIDecision (ds @ [d]) = Some d"
proof (cases "latestMANIDecision ds")
  case None
  then show ?thesis by (simp add: latest_fold keepNewer_def)
next
  case (Some c)
  then have "newer d c" using assms latest_max[OF Some] by (simp add: newer_def)
  then show ?thesis using Some by (simp add: latest_snoc keepNewer_def)
qed

section \<open>The reducer\<close>

lemma latestByProposal_snoc:
  "latestByProposal (ds @ [d]) =
     (case map_of (latestByProposal ds) (nd_ProposalID d) of
        None \<Rightarrow> AList.update (nd_ProposalID d) d (latestByProposal ds)
      | Some cur \<Rightarrow> if newer d cur then AList.update (nd_ProposalID d) d (latestByProposal ds) else latestByProposal ds)"
  unfolding latestByProposal_def by (simp only: fold_append fold.simps comp_apply id_apply)

lemma latestByProposal_latest:
  "map_of (latestByProposal ds) pid = latestMANIDecision (filter (\<lambda>d. nd_ProposalID d = pid) ds)"
proof (induction ds rule: rev_induct)
  case Nil
  then show ?case by (simp add: latestByProposal_def)
next
  case (snoc d ds)
  then show ?case
    by (cases "nd_ProposalID d = pid")
       (auto simp: latestByProposal_snoc latest_snoc keepNewer_def update_conv' split: option.split)
qed

lemma reduce_eq:
  "reduceMANIEffectiveAdjustments ps ds =
   List.map_filter (\<lambda>p. effectOf p (latestMANIDecision (filter (\<lambda>d. nd_ProposalID d = np_ID p) ds))) ps"
  by (simp add: reduceMANIEffectiveAdjustments_def Let_def latestByProposal_latest)

text \<open>The decision that counts for a proposal, by its definition: the latest, with the greater identifier on a tie.\<close>

definition decides :: "niDecision list \<Rightarrow> string \<Rightarrow> niDecision \<Rightarrow> bool" where
  "decides ds pid d \<longleftrightarrow>
     d \<in> set ds \<and> nd_ProposalID d = pid \<and>
     list_all (\<lambda>e. nd_ProposalID e \<noteq> pid \<or> nd_CreatedAt e < nd_CreatedAt d \<or>
       nd_CreatedAt e = nd_CreatedAt d \<and> nd_ID e \<le> nd_ID d) ds"

lemma latest_decides:
  assumes "latestMANIDecision (filter (\<lambda>d. nd_ProposalID d = pid) ds) = Some d"
  shows "decides ds pid d"
  using latest_max[OF assms] by (auto simp: decides_def list_all_iff less_eq_prod_def)

text \<open>C18: the effective adjustments of a reading do not depend on the order in which its decisions, whose identifiers are unique, are listed: the effect of each
  proposal is that of its latest decision, with the greater identifier on a tie, and a proposal without decisions has none.\<close>

theorem effective_adjustments_independent_of_order:
  assumes "mset ds = mset ds'" "distinct (map nd_ID ds)"
  shows "reduceMANIEffectiveAdjustments ps ds = reduceMANIEffectiveAdjustments ps ds' \<and>
    (\<exists>deciding. reduceMANIEffectiveAdjustments ps ds = List.map_filter (\<lambda>p. effectOf p (deciding (np_ID p))) ps \<and>
       (\<forall>pid. case deciding pid of
          None \<Rightarrow> list_all (\<lambda>d. nd_ProposalID d \<noteq> pid) ds
        | Some d \<Rightarrow> decides ds pid d))"
proof -
  have "latestMANIDecision (filter (\<lambda>d. nd_ProposalID d = pid) ds) = latestMANIDecision (filter (\<lambda>d. nd_ProposalID d = pid) ds')" for pid
  proof (rule latest_unique)
    show "set (filter (\<lambda>d. nd_ProposalID d = pid) ds) = set (filter (\<lambda>d. nd_ProposalID d = pid) ds')"
      using mset_eq_setD[OF assms(1)] by simp
    show "inj_on nd_ID (set (filter (\<lambda>d. nd_ProposalID d = pid) ds))"
      using assms(2) by (auto simp: distinct_map intro: inj_on_subset)
  qed
  then have "reduceMANIEffectiveAdjustments ps ds = reduceMANIEffectiveAdjustments ps ds'" by (simp add: reduce_eq)
  moreover have "case latestMANIDecision (filter (\<lambda>d. nd_ProposalID d = pid) ds) of
      None \<Rightarrow> list_all (\<lambda>d. nd_ProposalID d \<noteq> pid) ds | Some d \<Rightarrow> decides ds pid d" for pid
    using latest_decides[of pid ds] by (auto simp: list_all_iff filter_empty_conv split: option.split)
  ultimately show ?thesis
    by (intro conjI exI[of _ "\<lambda>pid. latestMANIDecision (filter (\<lambda>d. nd_ProposalID d = pid) ds)"]) (simp_all add: reduce_eq)
qed

definition exampleDecision :: "string \<Rightarrow> gotime \<Rightarrow> string \<Rightarrow> number option \<Rightarrow> niDecision" where
  "exampleDecision ident now action amount =
     \<lparr>nd_ID = ident, nd_ProposalID = ''p1'', nd_Action = action, nd_RatifiedAmount = amount, nd_RatifiedTreatment = '''', nd_Reason = '''',
      nd_ActorSubject = ''u1'', nd_ActorEmail = ''u1@example.it'', nd_CreatedAt = now, nd_AutoReconfirmedFrom = ''''\<rparr>"

definition exampleProposal :: "string \<Rightarrow> string \<Rightarrow> string \<Rightarrow> niProposal" where
  "exampleProposal ident runID direction =
     \<lparr>np_ID = ident, np_RunID = runID, np_ExerciseDate = Some 0, np_Fingerprint = ''f1'', np_FattoOsservato = ''Contributo una tantum'',
      np_ImportoLordo = Some (Fin 3), np_TrattamentoCandidato = maNITrattamentoEbitda, np_Direction = direction,
      np_ImportoRettifica = Some (Fin 3), np_Incertezza = ''low'', np_Quote = ''contributo'', np_PageNo = Some 7, np_Section = '''',
      np_Label = ''Contributo'', np_Rationale = '''', np_CreatedAt = 0\<rparr>"

theorem effective_adjustments_independent_of_order_witness:
  "let d = exampleDecision ''d1'' 5 maNIActionRatify (Some (Fin 2)); e = exampleDecision ''d2'' 5 maNIActionReject None;
       ps = [exampleProposal ''p1'' ''r1'' ''decrease'']
   in reduceMANIEffectiveAdjustments ps [d, e] = reduceMANIEffectiveAdjustments ps [e, d] \<and> reduceMANIEffectiveAdjustments ps [e, d] = [] \<and>
      decides [e, d] ''p1'' e"
proof -
  let ?d = "exampleDecision ''d1'' 5 maNIActionRatify (Some (Fin 2))" and ?e = "exampleDecision ''d2'' 5 maNIActionReject None"
  have "distinct (map nd_ID [?d, ?e])" by (simp add: exampleDecision_def)
  moreover have "reduceMANIEffectiveAdjustments [exampleProposal ''p1'' ''r1'' ''decrease''] [?e, ?d] = []" "decides [?e, ?d] ''p1'' ?e" by code_simp+
  ultimately show ?thesis
    using effective_adjustments_independent_of_order[of "[?d, ?e]" "[?e, ?d]" "[exampleProposal ''p1'' ''r1'' ''decrease'']"]
    by (simp add: Let_def)
qed

section \<open>An accepted decision\<close>

lemma validated_ratify_effective:
  assumes "validateMANIRatify p amount treatment = None" "nd_Action d = maNIActionRatify" "nd_RatifiedAmount d = amount"
    "nd_RatifiedTreatment d = treatment"
  shows "effectOf p (Some d) \<noteq> None"
  using assms by (auto simp: validateMANIRatify_def effectOf_def effectiveAmount_def Let_def split: if_splits option.split)

lemma found_proposal: "GetMANIProposal pid t = Some p \<Longrightarrow> np_ID p = pid \<and> p \<in> set (nt_Proposals t)"
  by (auto simp: GetMANIProposal_def find_Some_iff)

lemma listed_latest:
  assumes "\<forall>d \<in> set ds. nd_ProposalID d = pid \<longrightarrow> nd_CreatedAt d < nd_CreatedAt d'" "nd_ProposalID d' = pid" "nt_Decisions t = ds @ [d']"
  shows "latestMANIDecision (ListMANIDecisionsByProposals [pid] t) = Some d'"
proof -
  let ?l = "ListMANIDecisionsByProposals [pid] t"
  have s: "set ?l = insert d' {d \<in> set ds. nd_ProposalID d = pid}" using assms by (auto simp: ListMANIDecisionsByProposals_def)
  then obtain e where e: "latestMANIDecision ?l = Some e" by (metis insert_not_empty latest_None not_None_eq set_empty)
  have "e \<in> set ?l" "decisionKey d' \<le> decisionKey e" using latest_max[OF e] s by blast+
  then have "e = d'" using s assms(1) by (force simp: less_eq_prod_def)
  then show ?thesis using e by simp
qed

lemma listed_only: "set (ListMANIDecisionsByProposals [pid] t) \<subseteq> {d. nd_ProposalID d = pid}"
  by (auto simp: ListMANIDecisionsByProposals_def)

lemma action_distinct [simp]: "maNIActionReject \<noteq> maNIActionRatify" "maNIActionRevoke \<noteq> maNIActionRatify" "maNIActionRevoke \<noteq> maNIActionReject"
    "maNIActionRatify \<noteq> maNIActionReject" "maNIActionRatify \<noteq> maNIActionRevoke" "maNIActionReject \<noteq> maNIActionRevoke"
  by (simp_all add: maNIActionReject_def maNIActionRatify_def maNIActionRevoke_def)

lemma classify_latest:
  assumes "latestMANIDecision ds = Some d" "set ds \<subseteq> {d. nd_ProposalID d = np_ID p}"
    "nd_Action d = maNIActionRatify \<Longrightarrow> effectOf p (Some d) \<noteq> None"
  shows "nd_Action d \<in> {maNIActionRatify, maNIActionReject, maNIActionRevoke} \<Longrightarrow> classifyMANIProposalState p ds =
    (if nd_Action d = maNIActionRatify then maNIStateEffective else if nd_Action d = maNIActionReject then maNIStateRejected else maNIStateRevoked)"
proof -
  have "filter (\<lambda>d. nd_ProposalID d = np_ID p) ds = ds" using assms(2) by (auto simp: filter_id_conv)
  then show "nd_Action d \<in> {maNIActionRatify, maNIActionReject, maNIActionRevoke} \<Longrightarrow> ?thesis"
    using assms by (auto simp: classifyMANIProposalState_def reduce_eq List.map_filter_def)
qed

text \<open>C16: a decision that the endpoint accepts takes effect: one row is appended, and when it is later than the proposal's other
  decisions the state returned is effective after a ratify, rejected after a reject and revoked after a revoke.\<close>

theorem accepted_decision_takes_effect:
  assumes ok: "decideNIProposal faults ident now pid i subject email t = (Inr (did, state), t')"
    and latest: "\<forall>d \<in> set (nt_Decisions t). nd_ProposalID d = pid \<longrightarrow> nd_CreatedAt d < now"
  shows "did = ident \<and> (\<exists>d. nt_Decisions t' = nt_Decisions t @ [d] \<and> nd_ID d = ident \<and> nd_ProposalID d = pid) \<and>
    state = (if TrimSpace (ni_Action i) = maNIActionRatify then maNIStateEffective
      else if TrimSpace (ni_Action i) = maNIActionReject then maNIStateRejected else maNIStateRevoked)"
proof -
  let ?a = "TrimSpace (ni_Action i)" and ?tr = "TrimSpace (ni_RatifiedTreatment i)"
  obtain p where p: "GetMANIProposal pid t = Some p" using ok by (auto simp: decideNIProposal_def Let_def split: if_splits option.splits)
  have act: "?a \<in> {maNIActionRatify, maNIActionReject, maNIActionRevoke}" using ok by (auto simp: decideNIProposal_def Let_def split: if_splits)
  define d where "d = \<lparr>nd_ID = ident, nd_ProposalID = pid, nd_Action = ?a,
      nd_RatifiedAmount = (if ?a = maNIActionRatify then ni_RatifiedAmount i else None),
      nd_RatifiedTreatment = (if ?a = maNIActionRatify then ?tr else ''''), nd_Reason = TrimSpace (ni_Reason i),
      nd_ActorSubject = subject, nd_ActorEmail = email, nd_CreatedAt = now, nd_AutoReconfirmedFrom = ''''\<rparr>"
  have r: "did = ident" "t' = t\<lparr>nt_Decisions := nt_Decisions t @ [d]\<rparr>"
      "state = classifyMANIProposalState p (ListMANIDecisionsByProposals [pid] t')"
      "?a = maNIActionRatify \<Longrightarrow> validateMANIRatify p (ni_RatifiedAmount i) ?tr = None"
    using ok p by (auto simp: decideNIProposal_def InsertMANIDecision_def Let_def d_def split: if_splits option.splits)
  have "nt_Decisions t' = nt_Decisions t @ [d]" using r(2) by simp
  moreover have "latestMANIDecision (ListMANIDecisionsByProposals [pid] t') = Some d"
    using listed_latest[of "nt_Decisions t" pid d t'] latest calculation by (simp add: d_def)
  moreover have "nd_Action d = maNIActionRatify \<Longrightarrow> effectOf p (Some d) \<noteq> None"
    using validated_ratify_effective r(4) by (simp add: d_def)
  ultimately show ?thesis
    using classify_latest[of "ListMANIDecisionsByProposals [pid] t'" d p] listed_only[of pid t'] found_proposal[OF p] r(1,3) act
    by (simp add: d_def)
qed

definition exampleTables :: niTables where
  "exampleTables = \<lparr>nt_Runs = [], nt_Proposals = [exampleProposal ''p1'' ''r1'' ''decrease''], nt_Decisions = [exampleDecision ''d1'' 5 maNIActionReject None]\<rparr>"

definition noFaults :: niFaults where
  "noFaults = \<lparr>nf_Configured = True, nf_Get = False, nf_Insert = False, nf_List = False\<rparr>"

definition exampleInput :: niDecisionInput where
  "exampleInput = \<lparr>ni_Action = '' ratify'', ni_RatifiedAmount = None, ni_RatifiedTreatment = '''', ni_Reason = ''ok''\<rparr>"

theorem accepted_decision_takes_effect_witness:
  "fst (decideNIProposal noFaults ''d2'' 9 ''p1'' exampleInput ''u1'' '''' exampleTables) = Inr (''d2'', maNIStateEffective)"
proof -
  have "(case decideNIProposal noFaults ''d2'' 9 ''p1'' exampleInput ''u1'' '''' exampleTables of (Inr x, t') \<Rightarrow> True | _ \<Rightarrow> False)" by code_simp
  then obtain did state t' where r: "decideNIProposal noFaults ''d2'' 9 ''p1'' exampleInput ''u1'' '''' exampleTables = (Inr (did, state), t')"
    by (auto split: prod.splits sum.splits)
  have "TrimSpace (ni_Action exampleInput) = maNIActionRatify" by code_simp
  moreover have "\<forall>d \<in> set (nt_Decisions exampleTables). nd_ProposalID d = ''p1'' \<longrightarrow> nd_CreatedAt d < 9"
    by (simp add: exampleTables_def exampleDecision_def)
  ultimately show ?thesis using accepted_decision_takes_effect[OF r] r by simp
qed

section \<open>A decision carried to a new reading\<close>

definition exampleRun :: "string \<Rightarrow> string \<Rightarrow> gotime \<Rightarrow> niRun" where
  "exampleRun ident status created =
     \<lparr>nr_ID = ident, nr_FilingID = ''f'', nr_ProcessingRunID = ''o1'', nr_PromptID = '''', nr_ModelID = '''', nr_RequestID = '''', nr_Status = status,
      nr_CreatedAt = created\<rparr>"

definition carryTables :: "string \<Rightarrow> niTables" where
  "carryTables direction =
     \<lparr>nt_Runs = [exampleRun ''r1'' ''superseded'' 0, exampleRun ''r2'' ''active'' 6],
      nt_Proposals = [exampleProposal ''p1'' ''r1'' ''decrease'', exampleProposal ''p2'' ''r2'' direction],
      nt_Decisions = [exampleDecision ''d1'' 5 maNIActionRatify None]\<rparr>"

definition carried :: "string \<Rightarrow> niTables" where
  "carried direction = autoReconfirmMANIDecisions False (\<lambda>k. (False, ''d2'', 7)) ''f'' ''r2'' (carryTables direction)"

definition carriedState :: "string \<Rightarrow> string" where
  "carriedState direction = classifyMANIProposalState (exampleProposal ''p2'' ''r2'' direction) (ListMANIDecisionsByProposals [''p2''] (carried direction))"

text \<open>a ratify without an amount, effective on a proposal whose direction is certain, is carried to the proposal of a new reading
  with the same fingerprint, which does not contain the direction: it is effective there if the direction is still certain, and a
  ratify without effect, which the endpoint would refuse, if the new reading finds the direction uncertain.\<close>

theorem carried_ratify_may_have_no_effect:
  "carriedState ''decrease'' = maNIStateEffective \<and> carriedState maNIDirectionUncertain = maNIStatePending \<and>
   map nd_Action (ListMANIDecisionsByProposals [''p2''] (carried maNIDirectionUncertain)) = [maNIActionRatify] \<and>
   validateMANIRatify (exampleProposal ''p2'' ''r2'' maNIDirectionUncertain) None '''' = Some RatifiedAmountRequired"
proof -
  have "carriedState ''decrease'' = maNIStateEffective" "carriedState maNIDirectionUncertain = maNIStatePending"
    "map nd_Action (ListMANIDecisionsByProposals [''p2''] (carried maNIDirectionUncertain)) = [maNIActionRatify]"
    "validateMANIRatify (exampleProposal ''p2'' ''r2'' maNIDirectionUncertain) None '''' = Some RatifiedAmountRequired"
    by code_simp+
  then show ?thesis by simp
qed

end
