(* ===== verification/DeepAdjusted.thy ===== *)
theory DeepAdjusted
  imports DeepEngine DeepNotes
begin

text \<open>
  The adjusted valuation of \<open>binocolo/ma_deep_adjusted.go\<close>, computed when it is read: the exercise of the baseline,
  the filing that is canonical for it, and the analyst's effective adjustments folded onto the baseline.
\<close>

section \<open>The exercise of the baseline\<close>

text \<open>The clock of \<open>time.Parse\<close> after the date: hours may have one digit, and a fraction may follow the seconds.\<close>

definition twoDigits :: "string \<Rightarrow> (int \<times> string) option" where
  "twoDigits s = (if 2 \<le> length s \<and> list_all is_digit (take 2 s) then Some (digits_value (take 2 s), drop 2 s) else None)"

definition hourDigits :: "string \<Rightarrow> (int \<times> string) option" where
  "hourDigits s =
     (case s of
        a # b # r \<Rightarrow> if \<not> is_digit a then None else if is_digit b then Some (digits_value [a, b], r) else Some (digits_value [a], b # r)
      | [a] \<Rightarrow> None
      | [] \<Rightarrow> None)"

definition literalChar :: "char \<Rightarrow> string \<Rightarrow> string option" where
  "literalChar c s = (case s of x # r \<Rightarrow> if x = c then Some r else None | [] \<Rightarrow> None)"

definition skipFraction :: "string \<Rightarrow> string" where
  "skipFraction s =
     (case s of
        c # d # r \<Rightarrow> if (c = CHR ''.'' \<or> c = CHR '','') \<and> is_digit d then dropWhile is_digit r else s
      | _ \<Rightarrow> s)"

text \<open>The hour and what follows the seconds.\<close>

definition parseClock :: "string \<Rightarrow> (int \<times> string) option" where
  "parseClock s =
     Option.bind (literalChar (CHR ''T'') s) (\<lambda>s1.
     Option.bind (hourDigits s1) (\<lambda>(h, s2).
     Option.bind (literalChar (CHR '':'') s2) (\<lambda>s3.
     Option.bind (twoDigits s3) (\<lambda>(m, s4).
     Option.bind (literalChar (CHR '':'') s4) (\<lambda>s5.
     Option.bind (twoDigits s5) (\<lambda>(sec, s6).
       if h < 24 \<and> m < 60 \<and> sec < 60 then Some (h, skipFraction s6) else None))))))"

definition zoneOK :: "string \<Rightarrow> bool" where
  "zoneOK s \<longleftrightarrow> s = ''Z'' \<or>
     (length s = 6 \<and> (s ! 0 = CHR ''+'' \<or> s ! 0 = CHR ''-'') \<and> s ! 3 = CHR '':'' \<and> list_all is_digit (take 2 (drop 1 s)) \<and>
      list_all is_digit (drop 4 s) \<and> digits_value (take 2 (drop 1 s)) \<le> 24 \<and> digits_value (drop 4 s) \<le> 60)"

text \<open>The day and the hour on the clock of the value itself, by the three layouts in turn.\<close>

definition parseExercise :: "string \<Rightarrow> (gotime \<times> int) option" where
  "parseExercise raw =
     (case ParseDate (take 10 raw) of
        None \<Rightarrow> None
      | Some day \<Rightarrow>
          if drop 10 raw = '''' then Some (day, 0)
          else case parseClock (drop 10 raw) of
            Some (h, r) \<Rightarrow> if r = '''' \<or> zoneOK r then Some (day, h) else None
          | None \<Rightarrow> None)"

definition maBaselineExerciseDate :: "payload \<Rightarrow> gotime option" where
  "maBaselineExerciseDate payload =
     (case payload of
        None \<Rightarrow> None
      | Some object \<Rightarrow>
          let raw = firstVendorString (deepFullRoot object) [''ecofin.balanceSheetDate'']
          in if raw = '''' then None
             else map_option (\<lambda>(day, h). if h \<ge> 12 then AddDate day 0 0 1 else day) (parseExercise raw))"

definition sameMADay :: "gotime \<Rightarrow> gotime \<Rightarrow> bool" where
  "sameMADay a b \<longleftrightarrow> day_of a = day_of b"

section \<open>The canonical filing\<close>

record filing =
  fl_ID :: string
  fl_FiscalKey :: string
  fl_VATClean :: string
  fl_TaxClean :: string
  fl_ClosingDate :: "gotime option"
  fl_BalanceSheetID :: string
  fl_BalanceSheetType :: string
  fl_TaxonomyVersion :: string
  fl_IdentityStatus :: string
  fl_Status :: string
  fl_BlobMD5 :: string
  fl_ActiveProcessingRunID :: string
  fl_PageCount :: "int option"
  fl_Error :: string
  fl_CreatedAt :: gotime

record filingSP =
  sp_TotaleAttivo :: "number option"
  sp_TotalePassivo :: "number option"
  sp_TotaleImmobilizzazioni :: "number option"
  sp_TotaleAttivoCircolante :: "number option"
  sp_TotalePatrimonioNetto :: "number option"
  sp_TotaleDebiti :: "number option"
  sp_TFR :: "number option"

record filingCE =
  cx_ValoreProduzione :: "number option"
  cx_CostiProduzione :: "number option"
  cx_DifferenzaAB :: "number option"
  cx_UtileEsercizio :: "number option"

text \<open>The statements of an extract enter decoded; the columns on who created or overrode a filing, and the checks of an
  extract, are not read here and left out.\<close>

record filingExtract =
  ex_ProcessingRunID :: string
  ex_ExerciseDate :: gotime
  ex_SP :: filingSP
  ex_CE :: filingCE

definition selectMACanonicalMatches :: "filing list \<Rightarrow> gotime \<Rightarrow> filing list" where
  "selectMACanonicalMatches filings baseline =
     filter (\<lambda>f. (fl_IdentityStatus f = ''validated'' \<or> fl_IdentityStatus f = ''override'') \<and>
       (case fl_ClosingDate f of None \<Rightarrow> False | Some d \<Rightarrow> sameMADay d baseline)) filings"

record filingDigest =
  dg_totaleAttivo :: "number option"
  dg_totalePassivo :: "number option"
  dg_differenzaAB :: "number option"
  dg_utile :: "number option"
  dg_present :: bool

definition readable :: "filingDigest \<Rightarrow> bool" where
  "readable d \<longleftrightarrow> dg_present d \<and> (dg_totaleAttivo d \<noteq> None \<or> dg_totalePassivo d \<noteq> None \<or> dg_differenzaAB d \<noteq> None \<or> dg_utile d \<noteq> None)"

definition sameMAFloatPtr :: "number option \<Rightarrow> number option \<Rightarrow> bool" where
  "sameMAFloatPtr a b = (case (a, b) of (Some x, Some y) \<Rightarrow> nequal x y | (None, None) \<Rightarrow> True | _ \<Rightarrow> False)"

definition sameMAFilingDigest :: "filingDigest \<Rightarrow> filingDigest \<Rightarrow> bool" where
  "sameMAFilingDigest a b \<longleftrightarrow>
     sameMAFloatPtr (dg_totaleAttivo a) (dg_totaleAttivo b) \<and> sameMAFloatPtr (dg_totalePassivo a) (dg_totalePassivo b) \<and>
     sameMAFloatPtr (dg_differenzaAB a) (dg_differenzaAB b) \<and> sameMAFloatPtr (dg_utile a) (dg_utile b)"

definition betterMACanonicalDuplicate :: "filing \<Rightarrow> filing \<Rightarrow> bool" where
  "betterMACanonicalDuplicate a b =
     (let aVendor = (fl_BalanceSheetID a \<noteq> ''''); bVendor = (fl_BalanceSheetID b \<noteq> '''')
      in if aVendor \<noteq> bVendor then aVendor else fl_CreatedAt a > fl_CreatedAt b)"

text \<open>\<open>None\<close> when the candidates are not one deposit.\<close>

definition decideMADuplicateCanonical :: "filing list \<Rightarrow> filingDigest list \<Rightarrow> filing option" where
  "decideMADuplicateCanonical candidates digests =
     (if length candidates < 2 \<or> length candidates \<noteq> length digests then None
      else if \<not> list_all readable digests then None
      else if \<not> list_all (sameMAFilingDigest (digests ! 0)) (drop 1 digests) then None
      else fold (\<lambda>c canonical. case canonical of None \<Rightarrow> Some c | Some cur \<Rightarrow> if betterMACanonicalDuplicate c cur then Some c else Some cur)
             candidates None)"

text \<open>What the service reads; a failing read of the extracts is logged and nothing is found.\<close>

record adjustedStore =
  as_Configured :: bool
  as_Filings :: "filing list"
  as_Extracts :: "filingExtract list"
  as_Notes :: niTables
  as_ListFails :: bool
  as_ExtractsFail :: bool
  as_NotesFail :: bool

definition maFilingExtractForExercise :: "adjustedStore \<Rightarrow> filing option \<Rightarrow> gotime \<Rightarrow> (filingSP \<times> filingCE) option" where
  "maFilingExtractForExercise st canonical exercise =
     (case canonical of
        None \<Rightarrow> None
      | Some f \<Rightarrow>
          if fl_ActiveProcessingRunID f = '''' \<or> \<not> as_Configured st \<or> as_ExtractsFail st then None
          else map_option (\<lambda>e. (ex_SP e, ex_CE e))
            (List.find (\<lambda>e. sameMADay (ex_ExerciseDate e) exercise)
              (filter (\<lambda>e. ex_ProcessingRunID e = fl_ActiveProcessingRunID f) (as_Extracts st))))"

definition maFilingDigestForExercise :: "adjustedStore \<Rightarrow> gotime \<Rightarrow> filing \<Rightarrow> filingDigest" where
  "maFilingDigestForExercise st exercise f =
     (case maFilingExtractForExercise st (Some f) exercise of
        None \<Rightarrow> \<lparr>dg_totaleAttivo = None, dg_totalePassivo = None, dg_differenzaAB = None, dg_utile = None, dg_present = False\<rparr>
      | Some (sp, ce) \<Rightarrow>
          \<lparr>dg_totaleAttivo = sp_TotaleAttivo sp, dg_totalePassivo = sp_TotalePassivo sp, dg_differenzaAB = cx_DifferenzaAB ce,
           dg_utile = cx_UtileEsercizio ce, dg_present = True\<rparr>)"

text \<open>\<open>[[:space:].]\<close> of \<open>normalizeMAFiscalValue\<close>, and the prefix of an Italian VAT number.\<close>

definition normalizeMAFiscalValue :: "string \<Rightarrow> string" where
  "normalizeMAFiscalValue s = filter (\<lambda>c. \<not> is_space c \<and> c \<noteq> CHR ''.'') (ToUpper (TrimSpace s))"

definition maStableVAT :: "string \<Rightarrow> string" where
  "maStableVAT vat =
     (let c = normalizeMAFiscalValue vat
      in if length c = 13 \<and> take 2 c = ''IT'' \<and> list_all is_digit (drop 2 c) then drop 2 c else c)"

definition buildMAFiscalKey :: "string \<Rightarrow> string \<Rightarrow> string" where
  "buildMAFiscalKey vat tax = (let v = maStableVAT vat in if v \<noteq> '''' then v else normalizeMAFiscalValue tax)"

text \<open>The canonical filing, how many are ambiguous, and how many there are.\<close>

definition resolveMACanonicalFilingDetail :: "adjustedStore \<Rightarrow> string \<Rightarrow> string \<Rightarrow> gotime \<Rightarrow> (filing option \<times> nat \<times> nat) option" where
  "resolveMACanonicalFilingDetail st vat tax baseline =
     (let key = buildMAFiscalKey vat tax in
      if key = '''' \<or> \<not> as_Configured st then Some (None, 0, 0)
      else if as_ListFails st then None
      else let filings = filter (\<lambda>f. fl_FiscalKey f = key) (as_Filings st);
               candidates = selectMACanonicalMatches filings baseline
        in case candidates of
             [] \<Rightarrow> Some (None, 0, length filings)
           | [f] \<Rightarrow> Some (Some f, 0, length filings)
           | _ \<Rightarrow>
               (case decideMADuplicateCanonical candidates (map (maFilingDigestForExercise st baseline) candidates) of
                  Some f \<Rightarrow> Some (Some f, 0, length filings)
                | None \<Rightarrow> Some (None, length candidates, length filings)))"

section \<open>The adjusted valuation\<close>

definition maAdjustedLowUsesPrudential :: "deepValuation \<Rightarrow> deepScorecard \<Rightarrow> pricing \<Rightarrow> bool" where
  "maAdjustedLowUsesPrudential v sc p =
     (case sc_Ebitda sc of
        None \<Rightarrow> False
      | Some e \<Rightarrow>
          let prud = (case va_PrudentialEbitda v of Some x \<Rightarrow> x | None \<Rightarrow> e)
          in if nleq prud (Fin 0) then False
             else case sc_Turnover sc of
               None \<Rightarrow> True
             | Some t \<Rightarrow> if nleq t (Fin 0) then True else ngeq (nmul (ndiv prud t) (lit 100)) (pr_EBITDAFallbackPct p))"

text \<open>The loop that adds the effects of one treatment.\<close>

definition sumEffects :: "string \<Rightarrow> niEffective list \<Rightarrow> number" where
  "sumEffects treatment effects = fold (\<lambda>e acc. if ne_Treatment e = treatment then nadd acc (ne_Amount e) else acc) effects (Fin 0)"

text \<open>The two extremes after a change of the EBITDA; \<open>None\<close> when the scorecard has none.\<close>

definition adjustedBand :: "deepValuation \<Rightarrow> deepScorecard \<Rightarrow> number \<Rightarrow> pricing \<Rightarrow> (number \<times> number) option" where
  "adjustedBand v sc sumEbitda p =
     (if va_Method v = ''ev_ebitda'' \<and> \<not> nequal sumEbitda (Fin 0) then
        (case sc_Ebitda sc of
           None \<Rightarrow> None
         | Some e \<Rightarrow>
             let factor = valuationFactor (va_HaircutPct v);
                 highBase = nmul (nmul (nadd e sumEbitda) (va_Multiple v)) factor;
                 high = nround (nmul highBase spreadHigh);
                 low = (if va_LowMethod v = ''ev_sales'' then va_EVLow v
                   else if maAdjustedLowUsesPrudential v sc p then
                     (let prud = (case va_PrudentialEbitda v of Some x \<Rightarrow> x | None \<Rightarrow> e)
                      in nround (nmul (nmul (nmul (nadd prud sumEbitda) (va_Multiple v)) factor) spreadLow))
                   else nround (nmul highBase spreadLow))
             in Some (low, high))
      else Some (va_EVLow v, va_EVHigh v))"

definition adjustedDeductions :: "deepBridge \<Rightarrow> number \<Rightarrow> number" where
  "adjustedDeductions b pfn =
     (let d = (case bg_TFR b of Some r \<Rightarrow> nadd pfn (br_Value r) | None \<Rightarrow> pfn)
      in case bg_TaxFund b of Some r \<Rightarrow> nadd d (br_Value r) | None \<Rightarrow> d)"

definition adjustedBridge :: "deepBridge \<Rightarrow> number \<Rightarrow> number \<Rightarrow> number \<Rightarrow> deepBridge" where
  "adjustedBridge b pfn low high =
     (let deductions = adjustedDeductions b pfn
      in \<lparr>bg_PFN = Some \<lparr>br_Value = nround pfn,
             br_Provenance = (case bg_PFN b of Some r \<Rightarrow> br_Provenance r | None \<Rightarrow> maCEEProvVendorRatio), br_Note = ''''\<rparr>,
          bg_TFR = bg_TFR b, bg_TaxFund = bg_TaxFund b, bg_ShareholderLoans = bg_ShareholderLoans b,
          bg_EquityLow = Some (nround (nsub low deductions)), bg_EquityHigh = Some (nround (nsub high deductions))\<rparr>)"

definition evSalesExtreme :: "deepValuation \<Rightarrow> bool" where
  "evSalesExtreme v \<longleftrightarrow> va_Method v = ''ev_sales'' \<or> va_LowMethod v = ''ev_sales''"

definition buildMAAdjustedValuation :: "deepValuation option \<Rightarrow> deepScorecard option \<Rightarrow> niEffective list \<Rightarrow> pricing \<Rightarrow> deepValuation option \<times> bool" where
  "buildMAAdjustedValuation baseline scorecard effects p =
     (case (baseline, scorecard) of
        (Some v, Some sc) \<Rightarrow>
          let sumEbitda = sumEffects maNITrattamentoEbitda effects; sumPfn = sumEffects maNITrattamentoPFN effects
          in (case adjustedBand v sc sumEbitda p of
                None \<Rightarrow> (None, False)
              | Some (low, high) \<Rightarrow>
                  let bridge = (case (va_Bridge v, sc_PFN sc) of
                        (Some b, Some pfn) \<Rightarrow> Some (adjustedBridge b (nadd pfn sumPfn) low high)
                      | _ \<Rightarrow> None)
                  in (Some (v\<lparr>va_EVLow := low, va_EVHigh := high,
                        va_PrudentialEbitda := map_option (\<lambda>x. nadd x sumEbitda) (va_PrudentialEbitda v),
                        va_Bridge := bridge,
                        va_PFN := (if bridge = None then None else map_option (\<lambda>x. nadd x sumPfn) (sc_PFN sc)),
                        va_EquityLow := Option.bind bridge bg_EquityLow, va_EquityHigh := Option.bind bridge bg_EquityHigh\<rparr>),
                      evSalesExtreme v \<and> \<not> nequal sumEbitda (Fin 0)))
      | _ \<Rightarrow> (None, False))"

section \<open>The view\<close>

definition maAdjustedStatusActive :: string where "maAdjustedStatusActive = ''active''"
definition maAdjustedStatusNotAligned :: string where "maAdjustedStatusNotAligned = ''not_aligned''"
definition maAdjustedStatusAmbiguous :: string where "maAdjustedStatusAmbiguous = ''ambiguous''"
definition maAdjustedStatusNoFiling :: string where "maAdjustedStatusNoFiling = ''no_filing''"
definition maAdjustedStatusNoEffects :: string where "maAdjustedStatusNoEffects = ''no_effects''"

text \<open>The three fields of the stored analysis that the view reads.\<close>

record deepRecord =
  dr_Scorecard :: "deepScorecard option"
  dr_Valuation :: "deepValuation option"
  dr_Payload :: payload

record adjustedInputs =
  in_baselineExercise :: "gotime option"
  in_status :: string
  in_ambiguousCount :: nat
  in_canonical :: "filing option"
  in_proposals :: "(niProposal \<times> niDecision list) list"
  in_aligned :: "niEffective list"

definition alignedTo :: "gotime \<Rightarrow> gotime option \<Rightarrow> bool" where
  "alignedTo baseline d = (case d of None \<Rightarrow> False | Some x \<Rightarrow> sameMADay x baseline)"

definition noInputs :: "gotime option \<Rightarrow> string \<Rightarrow> nat \<Rightarrow> adjustedInputs" where
  "noInputs exercise status n =
     \<lparr>in_baselineExercise = exercise, in_status = status, in_ambiguousCount = n, in_canonical = None, in_proposals = [], in_aligned = []\<rparr>"

definition resolveMAAdjustedInputs :: "adjustedStore \<Rightarrow> string \<Rightarrow> string \<Rightarrow> deepRecord option \<Rightarrow> adjustedInputs option" where
  "resolveMAAdjustedInputs st vat tax deep =
     (case deep of
        None \<Rightarrow> Some (noInputs None maAdjustedStatusNoFiling 0)
      | Some r \<Rightarrow>
          (case maBaselineExerciseDate (dr_Payload r) of
             None \<Rightarrow> Some (noInputs None maAdjustedStatusNoFiling 0)
           | Some day \<Rightarrow>
               if buildMAFiscalKey vat tax = '''' \<or> \<not> as_Configured st then Some (noInputs (Some day) maAdjustedStatusNoFiling 0)
               else case resolveMACanonicalFilingDetail st vat tax day of
                 None \<Rightarrow> None
               | Some (canonical, ambiguous, n) \<Rightarrow>
                   if ambiguous > 0 then Some (noInputs (Some day) maAdjustedStatusAmbiguous ambiguous)
                   else case canonical of
                     None \<Rightarrow> Some (noInputs (Some day) (if n = 0 then maAdjustedStatusNoFiling else maAdjustedStatusNotAligned) 0)
                   | Some f \<Rightarrow>
                       if as_NotesFail st then None
                       else let proposals = ListMANIProposalsWithDecisions (fl_ID f) (as_Notes st);
                                effects = reduceMANIEffectiveAdjustments (map fst proposals) (concat (map snd proposals))
                         in Some \<lparr>in_baselineExercise = Some day, in_status = '''', in_ambiguousCount = 0, in_canonical = Some f,
                              in_proposals = proposals, in_aligned = filter (\<lambda>e. alignedTo day (ne_ExerciseDate e)) effects\<rparr>))"

record reconField =
  rf_Name :: string
  rf_Filing :: "number option"
  rf_Vendor :: "number option"
  rf_Delta :: "number option"

record adjustedReconciliation =
  ar_Exercise :: string
  ar_Fields :: "reconField list"
  ar_Divergent :: bool

definition addField :: "string \<Rightarrow> number option \<Rightarrow> number option \<Rightarrow> reconField" where
  "addField name x y =
     \<lparr>rf_Name = name, rf_Filing = x, rf_Vendor = y,
      rf_Delta = (case (x, y) of (Some a, Some b) \<Rightarrow> Some (nsub a b) | _ \<Rightarrow> None)\<rparr>"

definition divergentField :: "reconField \<Rightarrow> bool" where
  "divergentField f =
     (case (rf_Delta f, rf_Vendor f) of
        (Some d, Some v) \<Rightarrow> ngreater (nmul (ndiv (nabs d) (nmax (nabs v) (lit 1000))) (lit 100)) (lit 1)
      | _ \<Rightarrow> False)"

definition buildMAAdjustedReconciliation :: "(filingSP \<times> filingCE) option \<Rightarrow> gotime \<Rightarrow> deepRecord \<Rightarrow> adjustedReconciliation option" where
  "buildMAAdjustedReconciliation extract exercise r =
     (case extract of
        None \<Rightarrow> None
      | Some (sp, ce) \<Rightarrow>
          let vendor = maCEEReadingFromPayload (dr_Payload r);
              fields = [addField ''totale_attivo'' (sp_TotaleAttivo sp) (Option.bind vendor ce_TotalAssets),
                addField ''valore_produzione'' (cx_ValoreProduzione ce) (Option.bind vendor ce_ProductionValue),
                addField ''patrimonio_netto'' (sp_TotalePatrimonioNetto sp) (Option.bind vendor ce_NetWorth)]
          in if list_all (\<lambda>f. rf_Filing f = None \<and> rf_Vendor f = None) fields then None
             else Some \<lparr>ar_Exercise = FormatDate exercise, ar_Fields = fields, ar_Divergent = list_ex divergentField fields\<rparr>)"

record adjustedEffect =
  ae_ProposalID :: string
  ae_Label :: string
  ae_Treatment :: string
  ae_Amount :: number
  ae_ExerciseDate :: string
  ae_PageNo :: "int option"

record adjustedView =
  vw_BaselineExercise :: string
  vw_FilingID :: string
  vw_Status :: string
  vw_AmbiguousCount :: nat
  vw_AdjustedValuation :: "deepValuation option"
  vw_Effects :: "adjustedEffect list"
  vw_DeltaEbitda :: number
  vw_DeltaPfn :: number
  vw_EVSalesDeltaEbitdaNotApplied :: bool
  vw_Reconciliation :: "adjustedReconciliation option"
  vw_PendingCount :: nat

definition effectView :: "niProposal list \<Rightarrow> niEffective \<Rightarrow> adjustedEffect" where
  "effectView ps e =
     (let p = map_of (rev (map (\<lambda>p. (np_ID p, p)) ps)) (ne_ProposalID e)
      in \<lparr>ae_ProposalID = ne_ProposalID e, ae_Label = (case p of Some q \<Rightarrow> np_Label q | None \<Rightarrow> ''''), ae_Treatment = ne_Treatment e,
          ae_Amount = ne_Amount e, ae_ExerciseDate = (case ne_ExerciseDate e of Some d \<Rightarrow> FormatDate d | None \<Rightarrow> ''''),
          ae_PageNo = (case p of Some q \<Rightarrow> np_PageNo q | None \<Rightarrow> None)\<rparr>)"

definition pendingPoints :: "gotime \<Rightarrow> niProposal list \<Rightarrow> niEffective list \<Rightarrow> niProposal list" where
  "pendingPoints day ps effects =
     filter (\<lambda>p. alignedTo day (np_ExerciseDate p) \<and> \<not> list_ex (\<lambda>e. ne_ProposalID e = np_ID p) effects) ps"

text \<open>The outer option is the error of a read. The prices are loaded only for an active view.\<close>

definition computeMAAdjustedView :: "adjustedStore \<Rightarrow> pricing \<Rightarrow> string \<Rightarrow> string \<Rightarrow> deepRecord option \<Rightarrow> adjustedView option" where
  "computeMAAdjustedView st p vat tax deep =
     (case resolveMAAdjustedInputs st vat tax deep of
        None \<Rightarrow> None
      | Some i \<Rightarrow>
          let view = \<lparr>vw_BaselineExercise = (case in_baselineExercise i of Some d \<Rightarrow> FormatDate d | None \<Rightarrow> ''''), vw_FilingID = '''',
                vw_Status = in_status i, vw_AmbiguousCount = in_ambiguousCount i, vw_AdjustedValuation = None, vw_Effects = [],
                vw_DeltaEbitda = Fin 0, vw_DeltaPfn = Fin 0, vw_EVSalesDeltaEbitdaNotApplied = False, vw_Reconciliation = None,
                vw_PendingCount = 0\<rparr>
          in case (in_canonical i, in_baselineExercise i, deep) of
               (Some f, Some day, Some r) \<Rightarrow>
                 let ps = map fst (in_proposals i);
                     view' = view\<lparr>vw_FilingID := fl_ID f, vw_Effects := map (effectView ps) (in_aligned i),
                       vw_DeltaEbitda := sumEffects maNITrattamentoEbitda (in_aligned i),
                       vw_DeltaPfn := sumEffects maNITrattamentoPFN (in_aligned i),
                       vw_PendingCount := length (pendingPoints day ps (in_aligned i)),
                       vw_Reconciliation := buildMAAdjustedReconciliation (maFilingExtractForExercise st (Some f) day) day r\<rparr>
                 in if in_aligned i = [] then Some (view'\<lparr>vw_Status := maAdjustedStatusNoEffects\<rparr>)
                    else case (dr_Valuation r, dr_Scorecard r) of
                      (Some v, Some sc) \<Rightarrow>
                        (case buildMAAdjustedValuation (Some v) (Some sc) (in_aligned i) p of
                           (adjusted, notApplied) \<Rightarrow>
                             Some (view'\<lparr>vw_Status := maAdjustedStatusActive, vw_AdjustedValuation := adjusted,
                               vw_EVSalesDeltaEbitdaNotApplied := notApplied\<rparr>))
                    | _ \<Rightarrow> Some (view'\<lparr>vw_Status := maAdjustedStatusActive\<rparr>)
             | _ \<Rightarrow> Some view)"

definition maDeepBriefStale :: "gotime option \<Rightarrow> gotime option \<Rightarrow> bool" where
  "maDeepBriefStale generated newest =
     (case newest of None \<Rightarrow> False | Some d \<Rightarrow> (case generated of None \<Rightarrow> True | Some g \<Rightarrow> d > g))"

end
