(* ===== verification/DeepBand.thy ===== *)
theory DeepBand
  imports DeepEngine
begin

text \<open>
  The band of a valuation is ordered when the prudential EBITDA does not exceed the reported one; the overall semaphore
  is monotone in the metrics of the core.
\<close>

section \<open>The discount\<close>

lemma fl_whole [simp]: "fl 1 = 1" "fl 100 = 100"
  using fl_of_int[of 1] fl_of_int[of 100] by simp_all

lemma fl_upper: "fl (95 / 100) < 1"
  by code_simp

lemma to_number_between: "0 < fl a \<Longrightarrow> a \<le> q \<Longrightarrow> q \<le> 1 \<Longrightarrow> \<exists>c. to_number q = Fin c \<and> 0 < c"
proof -
  assume a: "0 < fl a" "a \<le> q" "q \<le> 1"
  then have "fl a \<le> fl q" "fl q \<le> 1" using fl_mono[of a q] fl_mono[of q 1] by simp_all
  moreover have "(1::rat) < maxFloat" by (simp add: maxFloat_def)
  ultimately show ?thesis using a(1) by (simp add: to_number_def Let_def)
qed

lemma discount_left: "0 < fl (1 - fl (95 / 100))"
  by code_simp

lemma valuationFactor_positive:
  assumes "share h"
  obtains c where "valuationFactor h = Fin c" "0 < c"
proof -
  obtain q where q: "h = Fin q" "0 \<le> q" using assms by (cases h) auto
  let ?d = "ndiv h (lit 100)"
  have d: "?d = to_number (q / 100)" using q by (simp add: ndiv_def lit_def)
  have "?d = PosInf \<or> (\<exists>r. ?d = Fin r \<and> 0 \<le> r)"
    using fl_nonneg[of "q / 100"] q(2) unfolding d to_number_def Let_def maxFloat_def by auto
  moreover have l: "lit (95 / 100) = Fin (fl (95 / 100))" by (rule lit_def)
  ultimately have "valuationFactor h = nsub (lit 1) (Fin (fl (95 / 100))) \<or>
      (\<exists>r. 0 \<le> r \<and> r \<le> fl (95 / 100) \<and> valuationFactor h = nsub (lit 1) (Fin r))"
    unfolding valuationFactor_def Let_def l by (auto simp del: divide_numeral_1 simp: not_less)
  then obtain r where r: "0 \<le> r" "r \<le> fl (95 / 100)" "valuationFactor h = nsub (lit 1) (Fin r)"
    using fl_nonneg[of "95 / 100"] by fastforce
  have "valuationFactor h = to_number (1 - r)" using r(3) by (simp add: nsub_def lit_def)
  then show ?thesis using to_number_between[OF discount_left, of "1 - r"] r that by auto
qed

section \<open>Products\<close>

abbreviation scaled :: "number \<Rightarrow> number \<Rightarrow> number \<Rightarrow> number" where
  "scaled x m c \<equiv> nmul (nmul x m) c"

lemma scaled_mono:
  assumes "p \<le> q" "share m" "0 < c"
  shows "nleq (scaled (Fin p) m (Fin c)) (scaled (Fin q) m (Fin c))"
proof -
  obtain k where k: "m = Fin k" "0 \<le> k" using assms(2) by (cases m) auto
  show ?thesis unfolding k(1)
    using nmul_mono_pos[where a = "nmul (Fin p) (Fin k)" and b = "nmul (Fin q) (Fin k)" and c = c] nmul_mono_fin[OF assms(1) k(2)] assms(3)
    by simp
qed

lemma to_number_0 [simp]: "to_number 0 = Fin 0"
  by (simp add: to_number_def Let_def maxFloat_def)

lemma scaled_nonneg: "0 \<le> q \<Longrightarrow> share m \<Longrightarrow> 0 < c \<Longrightarrow> nleq (Fin 0) (scaled (Fin q) m (Fin c))"
  using scaled_mono[where p = 0 and q = q and m = m and c = c] by (cases m) simp_all

lemma nmul_mono_right:
  assumes "nleq (Fin 0) b" "0 < c" "c \<le> d"
  shows "nleq (nmul b (Fin c)) (nmul b (Fin d))"
  using assms to_number_mono[of "q * c" "q * d" for q] by (cases b) (auto simp: inf_times_def mult_left_mono)

lemma spreads: "spreadLow = Fin (fl (85 / 100))" "spreadHigh = Fin (fl (115 / 100))" "0 < fl (85 / 100)" "fl (85 / 100) \<le> fl (115 / 100)"
  by (simp_all add: spreadLow_def spreadHigh_def lit_def fl_mono) code_simp

text \<open>The spread keeps the order of two bases when the higher is not negative.\<close>

lemma spread_ordered:
  assumes "nleq a b" "nleq (Fin 0) b"
  shows "nleq (nround (nmul a spreadLow)) (nround (nmul b spreadHigh))"
proof (rule nround_mono)
  have "nleq (nmul a spreadLow) (nmul b spreadLow)"
    unfolding spreads(1) using nmul_mono_pos[where a = a and b = b] assms(1) spreads(3) by blast
  moreover have "nleq (nmul b spreadLow) (nmul b spreadHigh)"
    unfolding spreads(1,2) using nmul_mono_right[OF assms(2) spreads(3,4)] .
  ultimately show "nleq (nmul a spreadLow) (nmul b spreadHigh)" using nleq_trans by blast
qed

lemma nmin_le: "b \<noteq> NaN \<Longrightarrow> a \<noteq> NaN \<Longrightarrow> nleq (nmin a b) b"
  by (cases a; cases b) (auto simp: nmin_def)

section \<open>The band\<close>

fun finite_number :: "number \<Rightarrow> bool" where
  "finite_number (Fin q) = True"
| "finite_number _ = False"

text \<open>The inputs of a valuation are finite, and the multiples of the sector not negative.\<close>

definition plain_inputs :: "deepScorecard \<Rightarrow> ceeReading option \<Rightarrow> sectorMultiple \<Rightarrow> bool" where
  "plain_inputs sc reading m \<longleftrightarrow>
     pred_option share (sm_EVEbitda m) \<and> pred_option share (sm_EVSales m) \<and> pred_option finite_number (sc_Turnover sc) \<and>
     pred_option finite_number (sc_Ebitda sc) \<and> pred_option finite_number (Option.bind reading ce_EBITDAPrudential)"

definition prudent :: "deepScorecard \<Rightarrow> ceeReading option \<Rightarrow> bool" where
  "prudent sc reading \<longleftrightarrow>
     (case (Option.bind reading ce_EBITDAPrudential, sc_Ebitda sc) of (Some x, Some e) \<Rightarrow> nleq x e | _ \<Rightarrow> True)"

lemma finite_numberE: "finite_number x \<Longrightarrow> (\<And>q. x = Fin q \<Longrightarrow> P) \<Longrightarrow> P"
  by (cases x) auto

lemma selected_ebitda:
  assumes "selectMADeepMethod sc reading m p = Some sel" "plain_inputs sc reading m" "se_Method sel = ''ev_ebitda''"
  obtains e where "sc_Ebitda sc = Some (Fin e)" "0 < e" "share (se_Mult sel)" "se_lowExtreme sel \<in> {''prudential'', ''sales'', ''reported''}"
    "se_lowExtreme sel = ''sales'' \<Longrightarrow> (\<exists>t. sc_Turnover sc = Some (Fin t) \<and> 0 < t) \<and> share (se_SalesMult sel)"
  using assms unfolding selectMADeepMethod_def usableEbitda_def salesPath_def plain_inputs_def Let_def
  by (auto split: option.splits if_splits prod.splits elim!: finite_numberE)

lemma selected_sales:
  assumes "selectMADeepMethod sc reading m p = Some sel" "plain_inputs sc reading m" "se_Method sel \<noteq> ''ev_ebitda''"
  obtains t where "se_Method sel = ''ev_sales''" "sc_Turnover sc = Some (Fin t)" "0 < t" "share (se_Mult sel)"
  using assms unfolding selectMADeepMethod_def usableEbitda_def salesPath_def plain_inputs_def Let_def
  by (auto split: option.splits if_splits prod.splits elim!: finite_numberE)

lemma bases_ordered:
  assumes "selectMADeepMethod sc reading m p = Some sel" "plain_inputs sc reading m" "prudent sc reading" "0 < c"
    "bandBases sc reading sel (Fin c) = Some (low, high)"
  shows "nleq low high \<and> nleq (Fin 0) high"
proof (cases "se_Method sel = ''ev_ebitda''")
  case True
  obtain e where e: "sc_Ebitda sc = Some (Fin e)" "0 < e" "share (se_Mult sel)" "se_lowExtreme sel \<in> {''prudential'', ''sales'', ''reported''}"
    "se_lowExtreme sel = ''sales'' \<Longrightarrow> (\<exists>t. sc_Turnover sc = Some (Fin t) \<and> 0 < t) \<and> share (se_SalesMult sel)"
    using selected_ebitda[OF assms(1,2) True] by blast
  let ?high = "scaled (Fin e) (se_Mult sel) (Fin c)"
  have high: "high = ?high" using assms(5) True e by (auto simp: bandBases_def Let_def split: if_splits option.splits)
  have pos: "nleq (Fin 0) high" unfolding high using scaled_nonneg e(2,3) assms(4) by simp
  then have num: "high \<noteq> NaN" by auto
  consider "se_lowExtreme sel = ''prudential''" | "se_lowExtreme sel = ''sales''" | "se_lowExtreme sel = ''reported''" using e(4) by auto
  then have "nleq low high"
  proof cases
    case 1
    define prud where "prud = (case Option.bind reading ce_EBITDAPrudential of Some x \<Rightarrow> x | None \<Rightarrow> Fin e)"
    have low: "low = scaled prud (se_Mult sel) (Fin c)" using assms(5) True e 1 by (auto simp: bandBases_def Let_def prud_def)
    obtain q where "prud = Fin q" "q \<le> e"
      using assms(2,3) e(1) by (auto simp: prud_def plain_inputs_def prudent_def split: option.splits elim!: finite_numberE)
    then show ?thesis using scaled_mono e(3) assms(4) unfolding high low by simp
  next
    case 2
    obtain t where t: "sc_Turnover sc = Some (Fin t)" "0 < t" "share (se_SalesMult sel)" using e(5) 2 by blast
    have "low = nmin (scaled (Fin t) (se_SalesMult sel) (Fin c)) ?high" using assms(5) True e 2 t by (auto simp: bandBases_def Let_def)
    moreover have "nleq (Fin 0) (scaled (Fin t) (se_SalesMult sel) (Fin c))" using scaled_nonneg t assms(4) by simp
    then have "scaled (Fin t) (se_SalesMult sel) (Fin c) \<noteq> NaN" by auto
    ultimately show ?thesis using nmin_le num high by simp
  next
    case 3
    then have "low = high" using assms(5) True e by (auto simp: bandBases_def Let_def)
    then show ?thesis using nleq_refl num by simp
  qed
  then show ?thesis using pos by simp
next
  case False
  obtain t where t: "se_Method sel = ''ev_sales''" "sc_Turnover sc = Some (Fin t)" "0 < t" "share (se_Mult sel)"
    using selected_sales[OF assms(1,2) False] by blast
  have "low = scaled (Fin t) (se_Mult sel) (Fin c)" "high = scaled (Fin t) (se_Mult sel) (Fin c)"
    using assms(5) t by (auto simp: bandBases_def Let_def)
  moreover have pos: "nleq (Fin 0) (scaled (Fin t) (se_Mult sel) (Fin c))" using scaled_nonneg t assms(4) by simp
  moreover have "scaled (Fin t) (se_Mult sel) (Fin c) \<noteq> NaN" using pos by auto
  ultimately show ?thesis using nleq_refl by metis
qed

lemma nsub_mono_fin: "nleq a b \<Longrightarrow> nleq (nsub a (Fin d)) (nsub b (Fin d))"
proof -
  assume ab: "nleq a b"
  have n: "to_number z \<noteq> NaN" for z by (simp add: to_number_def Let_def)
  show ?thesis
  proof (cases a; cases b)
    fix p q assume "a = Fin p" "b = Fin q"
    then show ?thesis using ab to_number_mono[of "p - d" "q - d"] by (simp add: nsub_def)
  qed (use ab n in \<open>auto simp: nsub_def\<close>, (metis n ngeq.simps number.exhaust)+)
qed

lemma with_method_band:
  assumes "buildMADeepValuationWithMethod sc reading m p sel = Some v"
  obtains low high where "bandBases sc reading sel (valuationFactor (haircutForTurnover p (sc_Turnover sc))) = Some (low, high)"
    "va_EVLow v = nround (nmul low spreadLow)" "va_EVHigh v = nround (nmul high spreadHigh)"
    "va_Bridge v = buildMADeepBridge (va_EVLow v) (va_EVHigh v) sc reading p"
    "va_EquityLow v = Option.bind (va_Bridge v) bg_EquityLow" "va_EquityHigh v = Option.bind (va_Bridge v) bg_EquityHigh"
  using assms unfolding buildMADeepValuationWithMethod_def Let_def by (auto split: option.splits prod.splits)

lemma bridge_equity:
  assumes "buildMADeepBridge low high sc reading p = Some b"
  obtains pfn where "sc_PFN sc = Some pfn" "bg_EquityLow b = Some (nround (nsub low (bridgeDeductions pfn reading p)))"
    "bg_EquityHigh b = Some (nround (nsub high (bridgeDeductions pfn reading p)))"
  using assms unfolding buildMADeepBridge_def Let_def by (auto split: option.splits)

lemma buildMADeepValuation_Some:
  "buildMADeepValuation (Some sc) reading (Some m) p = Some v \<Longrightarrow>
   \<exists>sel. selectMADeepMethod sc reading m p = Some sel \<and> buildMADeepValuationWithMethod sc reading m p sel = Some v"
  by (auto simp: buildMADeepValuation_def split: option.splits)

section \<open>Properties of the band\<close>

text \<open>C14: whatever the table of parameters holds, a valuation built on finite figures and multiples that are not negative has
  its low extreme at most its high one, in enterprise value and in equity, provided that the prudential EBITDA read from the
  codes does not exceed the EBITDA of the vendor and the deductions of the bridge are finite.\<close>

theorem valuation_band_ordered:
  assumes built: "buildMADeepValuation (Some sc) reading (Some m) (maPricingFromParameters params) = Some v"
    and plain: "plain_inputs sc reading m" and prudent: "prudent sc reading"
    and deductions: "pred_option (\<lambda>pfn. finite_number (bridgeDeductions pfn reading (maPricingFromParameters params))) (sc_PFN sc)"
  shows "nleq (va_EVLow v) (va_EVHigh v) \<and>
    (case (va_EquityLow v, va_EquityHigh v) of (Some l, Some h) \<Rightarrow> nleq l h | (None, None) \<Rightarrow> True | _ \<Rightarrow> False)"
proof -
  let ?p = "maPricingFromParameters params"
  obtain sel where sel: "selectMADeepMethod sc reading m ?p = Some sel" "buildMADeepValuationWithMethod sc reading m ?p sel = Some v"
    using buildMADeepValuation_Some[OF built] by blast
  obtain c where c: "valuationFactor (haircutForTurnover ?p (sc_Turnover sc)) = Fin c" "0 < c"
    using valuationFactor_positive haircut_share pricing_haircuts_ok by metis
  obtain low high where b: "bandBases sc reading sel (Fin c) = Some (low, high)"
    "va_EVLow v = nround (nmul low spreadLow)" "va_EVHigh v = nround (nmul high spreadHigh)"
    "va_Bridge v = buildMADeepBridge (va_EVLow v) (va_EVHigh v) sc reading ?p"
    "va_EquityLow v = Option.bind (va_Bridge v) bg_EquityLow" "va_EquityHigh v = Option.bind (va_Bridge v) bg_EquityHigh"
    using with_method_band[OF sel(2)] c(1) by metis
  have ev: "nleq (va_EVLow v) (va_EVHigh v)"
    using spread_ordered bases_ordered[OF sel(1) plain prudent c(2) b(1)] b(2,3) by simp
  show ?thesis
  proof (cases "va_Bridge v")
    case None
    then show ?thesis using ev b(5,6) by simp
  next
    case (Some g)
    then obtain pfn where g: "sc_PFN sc = Some pfn" "bg_EquityLow g = Some (nround (nsub (va_EVLow v) (bridgeDeductions pfn reading ?p)))"
      "bg_EquityHigh g = Some (nround (nsub (va_EVHigh v) (bridgeDeductions pfn reading ?p)))"
      using bridge_equity b(4) by metis
    then obtain d where "bridgeDeductions pfn reading ?p = Fin d" using deductions by (auto elim!: finite_numberE)
    then show ?thesis using ev nround_mono nsub_mono_fin g Some b(5,6) by simp
  qed
qed

section \<open>The overall semaphore\<close>

definition counted :: "deepMetric \<Rightarrow> bool" where
  "counted m \<longleftrightarrow> dm_Tier m \<noteq> maMetricTierContorno \<and> dm_RAG m \<in> {maRAGRed, maRAGAmber, maRAGGreen}"

definition ragRank :: "string \<Rightarrow> nat" where
  "ragRank s = (if s = maRAGRed then 0 else if s = maRAGAmber then 1 else 2)"

text \<open>The second metric is at least as good; metrics that do not count may be anything.\<close>

definition improved :: "deepMetric \<Rightarrow> deepMetric \<Rightarrow> bool" where
  "improved m m' \<longleftrightarrow> counted m = counted m' \<and> (counted m \<longrightarrow> ragRank (dm_RAG m) \<le> ragRank (dm_RAG m'))"

definition countOf :: "nat \<Rightarrow> deepMetric list \<Rightarrow> nat" where
  "countOf r ms = length (filter (\<lambda>m. counted m \<and> ragRank (dm_RAG m) = r) ms)"

lemma rag_distinct [simp]: "maRAGRed \<noteq> maRAGAmber" "maRAGRed \<noteq> maRAGGreen" "maRAGAmber \<noteq> maRAGGreen"
  by (simp_all add: maRAGRed_def maRAGAmber_def maRAGGreen_def)

lemma ragCounts_eq:
  "ragCounts ms (r, a, s) = (r + countOf 0 ms, a + countOf 1 ms, s + length (filter counted ms))"
  by (induction ms arbitrary: r a s) (auto simp: countOf_def counted_def ragRank_def)

lemma overall_eq:
  "deepOverallRAG ms =
     (if filter counted ms = [] then maRAGNone
      else if countOf 0 ms \<ge> 2 then maRAGRed
      else if countOf 0 ms = 1 \<or> countOf 1 ms \<ge> 2 then maRAGAmber
      else maRAGGreen)"
  by (simp add: deepOverallRAG_def ragCounts_eq)

lemma improved_counts:
  assumes "list_all2 improved ms ms'"
  shows "countOf 0 ms' \<le> countOf 0 ms \<and> countOf 0 ms' + countOf 1 ms' \<le> countOf 0 ms + countOf 1 ms \<and>
    length (filter counted ms') = length (filter counted ms)"
  using assms by (induction rule: list_all2_induct) (auto simp: improved_def countOf_def ragRank_def split: if_splits)

text \<open>C39: the overall semaphore is monotone: when every metric of the core stays as good or gets better, whatever happens to the
  metrics on the seller's capital structure, the company is scored as before and its colour does not get worse.\<close>

theorem overall_semaphore_monotone:
  assumes "list_all2 improved ms ms'"
  shows "(deepOverallRAG ms = maRAGNone \<longleftrightarrow> deepOverallRAG ms' = maRAGNone) \<and>
    ragRank (deepOverallRAG ms) \<le> ragRank (deepOverallRAG ms')"
proof -
  have n: "maRAGNone \<notin> {maRAGRed, maRAGAmber, maRAGGreen}" by (simp add: maRAGNone_def maRAGRed_def maRAGAmber_def maRAGGreen_def)
  have "filter counted ms = [] \<longleftrightarrow> filter counted ms' = []" using improved_counts[OF assms] by (metis length_0_conv)
  then show ?thesis using improved_counts[OF assms] n by (auto simp: overall_eq ragRank_def rag_distinct[symmetric] simp del: rag_distinct)

qed

definition exampleMetric :: "string \<Rightarrow> string \<Rightarrow> deepMetric" where
  "exampleMetric tier rag =
     \<lparr>dm_Group = ''redditivita'', dm_Key = ''ros'', dm_Label = ''ROS'', dm_Value = Some (Fin 1), dm_Unit = ''%'', dm_RAG = rag, dm_Tier = tier\<rparr>"

theorem overall_semaphore_monotone_witness:
  "deepOverallRAG [exampleMetric '''' maRAGRed, exampleMetric '''' maRAGAmber, exampleMetric maMetricTierContorno maRAGGreen] = maRAGAmber \<and>
   ragRank maRAGAmber \<le> ragRank (deepOverallRAG [exampleMetric '''' maRAGAmber, exampleMetric '''' maRAGAmber, exampleMetric maMetricTierContorno maRAGRed])"
proof -
  let ?ms = "[exampleMetric '''' maRAGRed, exampleMetric '''' maRAGAmber, exampleMetric maMetricTierContorno maRAGGreen]"
  let ?ms' = "[exampleMetric '''' maRAGAmber, exampleMetric '''' maRAGAmber, exampleMetric maMetricTierContorno maRAGRed]"
  have "list_all2 improved ?ms ?ms'" by code_simp
  moreover have "deepOverallRAG ?ms = maRAGAmber" by code_simp
  ultimately show ?thesis using overall_semaphore_monotone[of ?ms ?ms'] by simp
qed

end
