(* ===== verification/DeepExamples.thy ===== *)
theory DeepExamples
  imports DeepBand
begin

text \<open>
  Runs of the engine on a small payload, figures in thousands of euros: a vendor EBITDA that is given, and balance-sheet
  codes that make an EBITDA of 10, a net position of 5 and a severance fund of 2.
\<close>

definition exampleEntry :: "string \<Rightarrow> string \<Rightarrow> any" where
  "exampleEntry code value = Obj [(''code'', Str code), (''value'', Number value)]"

definition exampleRoot :: "string \<Rightarrow> fields" where
  "exampleRoot vendorEbitda =
     [(''ecofin'', Obj [(''turnover'', Number ''40''), (''netWorth'', Number ''9'')]),
      (''operatingResults'', Obj [(''ebitda'', Number vendorEbitda)]),
      (''incomeStatement'', Arr [exampleEntry ''IIC130'' ''40'', exampleEntry ''IIC149'' ''32'', exampleEntry ''IIC144'' ''2'']),
      (''balanceSheet'', Arr [exampleEntry ''IIC070'' ''3'', exampleEntry ''IPL330'' ''8'', exampleEntry ''IPL089'' ''2''])]"

definition exampleMultiple :: sectorMultiple where
  "exampleMultiple =
     \<lparr>sm_Prefix = ''62'', sm_Industry = ''Software'', sm_EVEbitda = Some (Fin 8), sm_EVSales = Some (Fin 1), sm_NFirms = 40,
      sm_Source = ''Damodaran'', sm_SourceDate = ''2026-01-01''\<rparr>"

definition exampleCodes :: ceeCodes where
  "exampleCodes = [(''130'', Fin 40), (''149'', Fin 32), (''144'', Fin 2), (''070'', Fin 3), (''330'', Fin 8), (''089'', Fin 2)]"

definition exampleScorecard :: "string \<Rightarrow> deepScorecard" where
  "exampleScorecard v = scorecardFromRoot (exampleRoot v) defaultMADeepThresholds"

abbreviation exampleReading :: "string \<Rightarrow> ceeReading" where
  "exampleReading v \<equiv> readingOfCodes (exampleRoot v) exampleCodes"

abbreviation examplePricing :: pricing where
  "examplePricing \<equiv> maPricingFromParameters []"

lemma example_full [simp]: "deepFullRoot (exampleRoot v) = exampleRoot v"
  by (simp add: exampleRoot_def deepFullRoot_def)

lemma example_codes: "maCEECodesFromRoot (exampleRoot v) = exampleCodes"
  by (simp add: exampleRoot_def) code_simp

lemma example_reading [simp]: "maCEEReadingFromRoot (exampleRoot v) = Some (exampleReading v)"
  by (simp add: maCEEReadingFromRoot_def example_codes) (simp add: exampleCodes_def)

lemma example_gross: "grossDebt exampleCodes = Some \<lparr>am_Value = Fin 8, am_Provenance = maCEEProvTotal\<rparr>"
  by code_simp

lemma example_values:
  "netPosition (exampleRoot v) exampleCodes = Some \<lparr>am_Value = Fin 5, am_Provenance = maCEEProvTotal\<rparr>"
  "ce_EBITDAPrudential (exampleReading v) = Some (Fin 10)" "ce_TFR (exampleReading v) = Some (Fin 2)" "ce_TaxFund (exampleReading v) = None"
proof -
  have "map_of exampleCodes ''070'' = Some (Fin 3)" "code0 exampleCodes ''065'' = Fin 0" "nsub (nsub (Fin 8) (Fin 3)) (Fin 0) = Fin 5" by code_simp+
  then show "netPosition (exampleRoot v) exampleCodes = Some \<lparr>am_Value = Fin 5, am_Provenance = maCEEProvTotal\<rparr>"
    by (simp add: netPosition_def example_gross)
  have "map_option (\<lambda>e. nsub (nsub e (code0 exampleCodes ''127'')) (code0 exampleCodes ''129'')) (ebitdaCEE exampleCodes) = Some (Fin 10)"
    by code_simp
  then show "ce_EBITDAPrudential (exampleReading v) = Some (Fin 10)" by (simp add: readingOfCodes_def)
qed (simp_all add: readingOfCodes_def exampleCodes_def)

lemma example_scorecard:
  "sc_Turnover (exampleScorecard v) = Some (Fin 40)" "sc_Ebitda (exampleScorecard v) = vendorNumber (Number v)"
  "sc_PFN (exampleScorecard v) = Some (Fin 5)"
proof -
  have "deepFloatPtr (exampleRoot v) ''ecofin.turnover'' = vendorNumber (Number ''40'')"
    by (simp add: deepFloatPtr_def vendorPath_def exampleRoot_def)
  also have "\<dots> = Some (Fin 40)" by code_simp
  finally show "sc_Turnover (exampleScorecard v) = Some (Fin 40)" by (simp add: exampleScorecard_def scorecardFromRoot_def Let_def)
  show "sc_Ebitda (exampleScorecard v) = vendorNumber (Number v)"
    by (simp add: exampleScorecard_def scorecardFromRoot_def Let_def deepFloatPtr_def vendorPath_def exampleRoot_def)
  have "ce_PFN (exampleReading v) = Some \<lparr>am_Value = Fin 5, am_Provenance = maCEEProvTotal\<rparr>"
    by (simp add: readingOfCodes_def example_values(1))
  then show "sc_PFN (exampleScorecard v) = Some (Fin 5)"
    by (simp add: exampleScorecard_def scorecardFromRoot_def Let_def scorecardPFN_def)
qed

lemma example_pricing: "haircutForTurnover examplePricing (Some (Fin 40)) = lit 35" "pr_EBITDAFallbackPct examplePricing = lit 5"
    "pr_TFRBridgePct examplePricing = lit 100"
proof -
  have "pr_HaircutTier1MaxEUR examplePricing = lit 5000000" "pr_HaircutTier2MaxEUR examplePricing = lit 20000000"
    "pr_HaircutTier1Pct examplePricing = lit 35"
    by (simp_all add: maPricingFromParameters_def Let_def productivityBand_def override_def paramFloat_def defaultPricing_def)
  moreover have "nless (Fin 40) (lit 5000000)" "\<not> nleq (lit 5000000) (Fin 0)" "\<not> nleq (lit 20000000) (lit 5000000)" by code_simp+
  ultimately show "haircutForTurnover examplePricing (Some (Fin 40)) = lit 35" by (simp add: haircutForTurnover_def)
qed (simp_all add: maPricingFromParameters_def Let_def productivityBand_def override_def paramFloat_def defaultPricing_def maTFRBridgePctDefault_def)

lemma example_selection:
  assumes "vendorNumber (Number v) = Some (Fin e)" "0 < e" "ngeq (nmul (ndiv (Fin e) (Fin 40)) (lit 100)) (lit 5)"
  shows "selectMADeepMethod (exampleScorecard v) (Some (exampleReading v)) exampleMultiple examplePricing =
    Some \<lparr>se_Method = ''ev_ebitda'', se_LowMethod = '''', se_Mult = Fin 8, se_lowExtreme = ''prudential'', se_SalesMult = Fin 0\<rparr>"
proof -
  have m: "ngeq (nmul (ndiv (Fin 10) (Fin 40)) (lit 100)) (lit 5)" by code_simp
  have u: "usableEbitda (exampleScorecard v) exampleMultiple examplePricing = Some (Fin e, Fin 8)"
    using assms by (simp add: usableEbitda_def marginPct_def example_scorecard example_pricing exampleMultiple_def)
  show ?thesis using m by (simp add: selectMADeepMethod_def u example_values marginPct_def example_scorecard example_pricing)
qed

definition exampleEV :: "rat \<Rightarrow> number \<Rightarrow> number" where
  "exampleEV e spread = nround (nmul (scaled (Fin e) (Fin 8) (valuationFactor (lit 35))) spread)"

definition exampleEquity :: "number \<Rightarrow> number" where
  "exampleEquity ev = nround (nsub ev (Fin 7))"

lemma example_deductions: "bridgeDeductions (Fin 5) (Some (exampleReading v)) examplePricing = Fin 7"
proof -
  have "\<not> nleq (lit 100) (Fin 0)" "\<not> ngreater (lit 100) (lit 100)" "nround (ndiv (nmul (Fin 2) (lit 100)) (lit 100)) = Fin 2"
    "nadd (Fin 5) (Fin 2) = Fin 7" by code_simp+
  then show ?thesis by (simp add: bridgeDeductions_def Let_def example_values tfrRow_def example_pricing positiveOption_def)
qed

lemma example_valuation:
  assumes "vendorNumber (Number v) = Some (Fin e)" "0 < e" "ngeq (nmul (ndiv (Fin e) (Fin 40)) (lit 100)) (lit 5)"
  obtains val where "buildMADeepValuation (Some (exampleScorecard v)) (Some (exampleReading v)) (Some exampleMultiple) examplePricing = Some val"
    "va_EVLow val = exampleEV 10 spreadLow" "va_EVHigh val = exampleEV e spreadHigh"
    "va_EquityLow val = Some (exampleEquity (exampleEV 10 spreadLow))" "va_EquityHigh val = Some (exampleEquity (exampleEV e spreadHigh))"
proof -
  have "bandBases (exampleScorecard v) (Some (exampleReading v))
      \<lparr>se_Method = ''ev_ebitda'', se_LowMethod = '''', se_Mult = Fin 8, se_lowExtreme = ''prudential'', se_SalesMult = Fin 0\<rparr> f =
      Some (scaled (Fin 10) (Fin 8) f, scaled (Fin e) (Fin 8) f)" for f
    by (simp add: bandBases_def Let_def example_scorecard assms(1) example_values)
  then show ?thesis using that
    by (simp add: buildMADeepValuation_def example_selection[OF assms] buildMADeepValuationWithMethod_def Let_def example_scorecard
        example_pricing exampleEV_def buildMADeepBridge_def example_deductions exampleEquity_def)
qed

section \<open>An ordered band and an inverted one\<close>

lemma example_band_values:
  "exampleEV 10 spreadLow = Fin 44" "exampleEV 12 spreadHigh = Fin 72" "exampleEV 4 spreadHigh = Fin 24" "exampleEquity (Fin 44) = Fin 37"
  "exampleEquity (Fin 72) = Fin 65" "exampleEquity (Fin 24) = Fin 17"
  by code_simp+

text \<open>With a vendor EBITDA of 12 the prudential EBITDA is the lower one: the band is 44 to 72, the equity 37 to 65.\<close>

theorem valuation_band_ordered_witness:
  "\<exists>val. buildMADeepValuation (Some (exampleScorecard ''12'')) (Some (exampleReading ''12'')) (Some exampleMultiple) examplePricing = Some val \<and>
     va_EVLow val = Fin 44 \<and> va_EVHigh val = Fin 72 \<and> va_EquityLow val = Some (Fin 37) \<and> va_EquityHigh val = Some (Fin 65) \<and>
     nleq (va_EVLow val) (va_EVHigh val)"
proof -
  have a: "vendorNumber (Number ''12'') = Some (Fin 12)" "(0::rat) < 12" "ngeq (nmul (ndiv (Fin 12) (Fin 40)) (lit 100)) (lit 5)" by code_simp+
  obtain val where v: "buildMADeepValuation (Some (exampleScorecard ''12'')) (Some (exampleReading ''12'')) (Some exampleMultiple) examplePricing = Some val"
    "va_EVLow val = exampleEV 10 spreadLow" "va_EVHigh val = exampleEV 12 spreadHigh"
    "va_EquityLow val = Some (exampleEquity (exampleEV 10 spreadLow))" "va_EquityHigh val = Some (exampleEquity (exampleEV 12 spreadHigh))"
    using example_valuation[OF a] by blast
  have "plain_inputs (exampleScorecard ''12'') (Some (exampleReading ''12'')) exampleMultiple"
    by (simp add: plain_inputs_def exampleMultiple_def example_scorecard a(1) example_values)
  moreover have "prudent (exampleScorecard ''12'') (Some (exampleReading ''12''))" by (simp add: prudent_def example_scorecard a(1) example_values)
  moreover have "pred_option (\<lambda>pfn. finite_number (bridgeDeductions pfn (Some (exampleReading ''12'')) examplePricing)) (sc_PFN (exampleScorecard ''12''))"
    by (simp add: example_scorecard example_deductions)
  ultimately have "nleq (va_EVLow val) (va_EVHigh val)" using valuation_band_ordered[OF v(1)] by blast
  then show ?thesis using v example_band_values by auto
qed

text \<open>C19: the band can be inverted. With a vendor EBITDA of 4 against one of 10 in the codes, on a turnover of 40, the method is the multiple
  of the EBITDA with the prudential one at the low extreme, which is then 44 against 24 at the high extreme; the equity goes
  from 37 down to 17.\<close>

theorem band_inverted_when_codes_exceed_vendor:
  "\<exists>val. buildMADeepValuation (Some (exampleScorecard ''4'')) (maCEEReadingFromRoot (exampleRoot ''4'')) (Some exampleMultiple) examplePricing = Some val \<and>
     va_EVLow val = Fin 44 \<and> va_EVHigh val = Fin 24 \<and> va_EquityLow val = Some (Fin 37) \<and> va_EquityHigh val = Some (Fin 17)"
proof -
  have a: "vendorNumber (Number ''4'') = Some (Fin 4)" "(0::rat) < 4" "ngeq (nmul (ndiv (Fin 4) (Fin 40)) (lit 100)) (lit 5)" by code_simp+
  obtain val where "buildMADeepValuation (Some (exampleScorecard ''4'')) (Some (exampleReading ''4'')) (Some exampleMultiple) examplePricing = Some val"
    "va_EVLow val = exampleEV 10 spreadLow" "va_EVHigh val = exampleEV 4 spreadHigh"
    "va_EquityLow val = Some (exampleEquity (exampleEV 10 spreadLow))" "va_EquityHigh val = Some (exampleEquity (exampleEV 4 spreadHigh))"
    using example_valuation[OF a] by blast
  then show ?thesis using example_band_values by auto
qed

end
