(* ===== verification/DeepReplay.thy ===== *)
theory DeepReplay
  imports DeepAdjusted DeepExamples
begin

text \<open>
  The adjusted valuation against the engine: with the method it inherits it is a run of the engine on the moved figures.
\<close>

section \<open>Moved figures\<close>

definition movedScorecard :: "number \<Rightarrow> number \<Rightarrow> deepScorecard \<Rightarrow> deepScorecard" where
  "movedScorecard dE dP sc =
     sc\<lparr>sc_Ebitda := map_option (\<lambda>x. nadd x dE) (sc_Ebitda sc), sc_PFN := map_option (\<lambda>x. nadd x dP) (sc_PFN sc)\<rparr>"

definition movedReading :: "number \<Rightarrow> ceeReading option \<Rightarrow> ceeReading option" where
  "movedReading dE reading =
     map_option (\<lambda>r. r\<lparr>ce_EBITDAPrudential := map_option (\<lambda>x. nadd x dE) (ce_EBITDAPrudential r)\<rparr>) reading"

lemma moved_fields [simp]:
  "sc_Turnover (movedScorecard dE dP sc) = sc_Turnover sc"
  "sc_Ebitda (movedScorecard dE dP sc) = map_option (\<lambda>x. nadd x dE) (sc_Ebitda sc)"
  "sc_PFN (movedScorecard dE dP sc) = map_option (\<lambda>x. nadd x dP) (sc_PFN sc)"
  by (simp_all add: movedScorecard_def)

lemma moved_prudential [simp]:
  "Option.bind (movedReading dE reading) ce_EBITDAPrudential = map_option (\<lambda>x. nadd x dE) (Option.bind reading ce_EBITDAPrudential)"
  by (cases reading) (simp_all add: movedReading_def)

lemma moved_funds [simp]:
  "Option.bind (movedReading dE reading) ce_TFR = Option.bind reading ce_TFR"
  "Option.bind (movedReading dE reading) ce_TaxFund = Option.bind reading ce_TaxFund"
  "Option.bind (movedReading dE reading) ce_PFN = Option.bind reading ce_PFN"
  by (cases reading; simp add: movedReading_def)+

lemma deductions_moved [simp]: "bridgeDeductions pfn (movedReading dE reading) p = bridgeDeductions pfn reading p"
  by (cases reading) (simp_all add: bridgeDeductions_def movedReading_def)

section \<open>The low extreme\<close>

lemma low_uses_prudential:
  assumes "selectMADeepMethod sc reading m p = Some sel" "se_Method sel = ''ev_ebitda''"
    "va_PrudentialEbitda v = Option.bind reading ce_EBITDAPrudential" "Option.bind reading ce_EBITDAPrudential \<noteq> Some NaN"
  shows "maAdjustedLowUsesPrudential v sc p \<longleftrightarrow> se_lowExtreme sel = ''prudential''"
proof -
  obtain e ev where u: "usableEbitda sc m p = Some (e, ev)"
    using assms(1,2) by (auto simp: selectMADeepMethod_def salesPath_def split: option.splits)
  then have e: "sc_Ebitda sc = Some e" "e \<noteq> NaN"
    by (auto simp: usableEbitda_def split: option.splits if_splits)
  define prud where "prud = (case Option.bind reading ce_EBITDAPrudential of Some x \<Rightarrow> x | None \<Rightarrow> e)"
  have n: "prud \<noteq> NaN" using e(2) assms(4) by (auto simp: prud_def split: option.splits)
  have ten: "ngeq PosInf x \<longleftrightarrow> x \<noteq> NaN" for x by (cases x) auto
  have sign: "nleq prud (Fin 0) \<longleftrightarrow> \<not> ngreater prud (Fin 0)" using n by (cases prud) auto
  have fb: "pr_EBITDAFallbackPct p \<noteq> NaN"
    using u unfolding usableEbitda_def by (auto split: option.splits if_splits; cases "marginPct sc e"; auto)
  have "maAdjustedLowUsesPrudential v sc p \<longleftrightarrow> ngreater prud (Fin 0) \<and> ngeq (marginPct sc prud) (pr_EBITDAFallbackPct p)"
    using sign fb by (auto simp: maAdjustedLowUsesPrudential_def e assms(3) prud_def[symmetric] marginPct_def Let_def ten split: option.splits)
  moreover have "se_lowExtreme sel = ''prudential'' \<longleftrightarrow> ngreater prud (Fin 0) \<and> ngeq (marginPct sc prud) (pr_EBITDAFallbackPct p)"
    using assms(1) by (auto simp: selectMADeepMethod_def u prud_def[symmetric] Let_def split: if_splits option.splits)
  ultimately show ?thesis by simp
qed

text \<open>The replayed selection: the multiple is the one that was stored, rounded.\<close>

definition inherited :: "deepValuation \<Rightarrow> methodSelection \<Rightarrow> methodSelection" where
  "inherited v sel = sel\<lparr>se_Mult := va_Multiple v\<rparr>"

lemma inherited_fields [simp]: "se_Method (inherited v sel) = se_Method sel" "se_lowExtreme (inherited v sel) = se_lowExtreme sel"
    "se_Mult (inherited v sel) = va_Multiple v"
  by (simp_all add: inherited_def)

lemma with_method_fields:
  assumes "buildMADeepValuationWithMethod sc reading m p sel = Some v"
  shows "va_Method v = se_Method sel" "va_LowMethod v = se_LowMethod sel" "va_HaircutPct v = haircutForTurnover p (sc_Turnover sc)"
    "va_PrudentialEbitda v = Option.bind reading ce_EBITDAPrudential" "va_Bridge v = buildMADeepBridge (va_EVLow v) (va_EVHigh v) sc reading p"
  using assms unfolding buildMADeepValuationWithMethod_def Let_def by (auto split: option.splits prod.splits)

lemma selected_low:
  assumes "selectMADeepMethod sc reading m p = Some sel" "se_Method sel = ''ev_ebitda''" "se_LowMethod sel = ''''"
  shows "se_lowExtreme sel = ''prudential'' \<or> se_lowExtreme sel = ''reported''"
  using assms by (auto simp: selectMADeepMethod_def Let_def split: option.splits if_splits prod.splits)

lemma band_replayed:
  assumes "selectMADeepMethod sc reading m p = Some sel" "buildMADeepValuationWithMethod sc reading m p sel = Some v"
    "va_Method v = ''ev_ebitda''" "va_LowMethod v = ''''" "Option.bind reading ce_EBITDAPrudential \<noteq> Some NaN" "\<not> nequal dE (Fin 0)"
    "adjustedBand v sc dE p = Some (low, high)"
  shows "\<exists>lowBase highBase. bandBases (movedScorecard dE dP sc) (movedReading dE reading) (inherited v sel)
      (valuationFactor (haircutForTurnover p (sc_Turnover sc))) = Some (lowBase, highBase) \<and>
    low = nround (nmul lowBase spreadLow) \<and> high = nround (nmul highBase spreadHigh)"
proof -
  note f = with_method_fields[OF assms(2)]
  obtain e where e: "sc_Ebitda sc = Some e" using assms(3,6,7) by (auto simp: adjustedBand_def split: option.splits)
  have uses: "maAdjustedLowUsesPrudential v sc p \<longleftrightarrow> se_lowExtreme sel = ''prudential''"
    using low_uses_prudential assms(1,3,5) f(1,4) by simp
  have low: "se_lowExtreme sel = ''prudential'' \<or> se_lowExtreme sel = ''reported''"
    using selected_low[OF assms(1)] f(1,2) assms(3,4) by simp
  show ?thesis
    using low assms(3,4,6,7) f(1,3,4) e uses
    by (cases "Option.bind reading ce_EBITDAPrudential") (auto simp: adjustedBand_def bandBases_def Let_def)
qed

section \<open>The bridge\<close>

definition wholeTaxFund :: "ceeReading option \<Rightarrow> bool" where
  "wholeTaxFund reading \<longleftrightarrow> pred_option (\<lambda>f. nround f = f) (positiveOption (Option.bind reading ce_TaxFund))"

lemma positiveOption_None [simp]: "positiveOption None = None"
  by (simp add: positiveOption_def)

lemma adjusted_deductions:
  assumes "buildMADeepBridge low high sc reading p = Some b" "wholeTaxFund reading"
  shows "adjustedDeductions b pfn = bridgeDeductions pfn reading p"
  using assms unfolding buildMADeepBridge_def adjustedDeductions_def bridgeDeductions_def wholeTaxFund_def Let_def
  by (cases reading) (auto split: option.splits)

lemma bridge_exists: "buildMADeepBridge low high sc reading p = None \<longleftrightarrow> sc_PFN sc = None"
  by (simp add: buildMADeepBridge_def Let_def split: option.split)

text \<open>Of the parameters only the threshold of the margin is read again.\<close>

lemma adjusted_pricing:
  "pr_EBITDAFallbackPct q = pr_EBITDAFallbackPct p \<Longrightarrow> buildMAAdjustedValuation v sc effects q = buildMAAdjustedValuation v sc effects p"
proof -
  assume fb: "pr_EBITDAFallbackPct q = pr_EBITDAFallbackPct p"
  have low: "maAdjustedLowUsesPrudential w sc q = maAdjustedLowUsesPrudential w sc p" for w sc
    by (simp only: maAdjustedLowUsesPrudential_def fb)
  have band: "adjustedBand w sc dE q = adjustedBand w sc dE p" for w sc dE by (simp only: adjustedBand_def low)
  show ?thesis by (simp only: buildMAAdjustedValuation_def band)
qed

text \<open>C15: When the baseline is a run of the engine by the EBITDA multiple with no extreme on sales, and the effects on the EBITDA do not sum
  to zero, the adjusted valuation is the run of the engine on the EBITDA, the prudential EBITDA and the net position moved
  by the effects, under the inherited method and the multiple that was stored (rounded): band, equity, net position and prudential EBITDA
  are the same. This holds when the prudential EBITDA is not NaN, the tax fund is a whole number of euros, and the margin
  threshold of the parameters loaded for the reading is the one of the baseline; the other parameters may have changed since, the
  replay is under those of the baseline.\<close>

theorem adjusted_valuation_replays_engine:
  assumes sel: "selectMADeepMethod sc reading m p = Some sel" and base: "buildMADeepValuationWithMethod sc reading m p sel = Some v"
    and inherits: "va_Method v = ''ev_ebitda''" "va_LowMethod v = ''''"
    and num: "Option.bind reading ce_EBITDAPrudential \<noteq> Some NaN" "wholeTaxFund reading"
    and moved: "\<not> nequal (sumEffects maNITrattamentoEbitda effects) (Fin 0)"
    and threshold: "pr_EBITDAFallbackPct q = pr_EBITDAFallbackPct p"
    and read: "fst (buildMAAdjustedValuation (Some v) (Some sc) effects q) = Some a"
  shows "\<exists>w. buildMADeepValuationWithMethod (movedScorecard (sumEffects maNITrattamentoEbitda effects) (sumEffects maNITrattamentoPFN effects) sc)
      (movedReading (sumEffects maNITrattamentoEbitda effects) reading) m p (inherited v sel) = Some w \<and>
    va_EVLow a = va_EVLow w \<and> va_EVHigh a = va_EVHigh w \<and> va_EquityLow a = va_EquityLow w \<and> va_EquityHigh a = va_EquityHigh w \<and>
    va_PFN a = va_PFN w \<and> va_PrudentialEbitda a = va_PrudentialEbitda w"
proof -
  let ?dE = "sumEffects maNITrattamentoEbitda effects" and ?dP = "sumEffects maNITrattamentoPFN effects"
  have adj: "fst (buildMAAdjustedValuation (Some v) (Some sc) effects p) = Some a" using read adjusted_pricing[OF threshold] by simp
  obtain low high where band: "adjustedBand v sc ?dE p = Some (low, high)"
    using adj by (auto simp: buildMAAdjustedValuation_def Let_def split: option.splits)
  define bridge where "bridge = (case (va_Bridge v, sc_PFN sc) of (Some b, Some pfn) \<Rightarrow> Some (adjustedBridge b (nadd pfn ?dP) low high) | _ \<Rightarrow> None)"
  have a: "va_EVLow a = low" "va_EVHigh a = high" "va_EquityLow a = Option.bind bridge bg_EquityLow" "va_EquityHigh a = Option.bind bridge bg_EquityHigh"
    "va_PFN a = (if bridge = None then None else map_option (\<lambda>x. nadd x ?dP) (sc_PFN sc))"
    "va_PrudentialEbitda a = map_option (\<lambda>x. nadd x ?dE) (va_PrudentialEbitda v)"
    using adj by (auto simp: buildMAAdjustedValuation_def Let_def band bridge_def)
  note f = with_method_fields[OF base]
  obtain lb hb where b: "bandBases (movedScorecard ?dE ?dP sc) (movedReading ?dE reading) (inherited v sel)
      (valuationFactor (haircutForTurnover p (sc_Turnover sc))) = Some (lb, hb)" "low = nround (nmul lb spreadLow)" "high = nround (nmul hb spreadHigh)"
    using band_replayed[OF sel base inherits num(1) moved band] by blast
  show ?thesis
  proof (cases "sc_PFN sc")
    case None
    then have "bridge = None" "buildMADeepBridge low high (movedScorecard ?dE ?dP sc) (movedReading ?dE reading) p = None"
      by (simp_all add: bridge_def bridge_exists split: option.split)
    then show ?thesis using a f(4) b by (simp add: buildMADeepValuationWithMethod_def Let_def)
  next
    case (Some pfn)
    then obtain g where g: "va_Bridge v = Some g" using f(5) bridge_exists by (metis not_None_eq)
    then have "adjustedDeductions g x = bridgeDeductions x reading p" for x using adjusted_deductions f(5) num(2) by metis
    then have "bridge \<noteq> None \<and> Option.bind bridge bg_EquityLow = Some (nround (nsub low (bridgeDeductions (nadd pfn ?dP) reading p))) \<and>
        Option.bind bridge bg_EquityHigh = Some (nround (nsub high (bridgeDeductions (nadd pfn ?dP) reading p)))"
      using Some g by (simp add: bridge_def adjustedBridge_def Let_def)
    then show ?thesis using a f(4) b Some by (simp add: buildMADeepValuationWithMethod_def Let_def buildMADeepBridge_def)
  qed
qed

section \<open>A replayed band\<close>

definition exampleEffect :: "string \<Rightarrow> number \<Rightarrow> niEffective" where
  "exampleEffect treatment amount = \<lparr>ne_ProposalID = ''p1'', ne_Treatment = treatment, ne_ExerciseDate = Some 0, ne_Amount = amount\<rparr>"

definition exampleEffects :: "niEffective list" where
  "exampleEffects = [exampleEffect maNITrattamentoEbitda (Fin 2), exampleEffect maNITrattamentoPFN (Fin 1)]"

lemma treatments_distinct [simp]: "maNITrattamentoEbitda \<noteq> maNITrattamentoPFN" "maNITrattamentoPFN \<noteq> maNITrattamentoEbitda"
  by (simp_all add: maNITrattamentoEbitda_def maNITrattamentoPFN_def)

lemma example_sums:
  "sumEffects maNITrattamentoEbitda exampleEffects = Fin 2" "sumEffects maNITrattamentoPFN exampleEffects = Fin 1"
  "sumEffects maNITrattamentoEbitda [exampleEffect maNITrattamentoEbitda (Fin (- 10))] = Fin (- 10)"
  "sumEffects maNITrattamentoPFN [exampleEffect maNITrattamentoEbitda (Fin (- 10))] = Fin 0"
  by code_simp+

theorem adjusted_valuation_replays_engine_witness:
  "\<exists>v sel a w. buildMADeepValuation (Some (exampleScorecard ''12'')) (Some (exampleReading ''12'')) (Some exampleMultiple) examplePricing = Some v \<and>
     fst (buildMAAdjustedValuation (Some v) (Some (exampleScorecard ''12'')) exampleEffects (examplePricing\<lparr>pr_HaircutTier1Pct := lit 50\<rparr>)) = Some a \<and>
     buildMADeepValuationWithMethod (movedScorecard (Fin 2) (Fin 1) (exampleScorecard ''12'')) (movedReading (Fin 2) (Some (exampleReading ''12'')))
       exampleMultiple examplePricing (inherited v sel) = Some w \<and>
     va_EVLow a = va_EVLow w \<and> va_EVHigh a = va_EVHigh w \<and> va_EquityLow a = va_EquityLow w"
proof -
  let ?sc = "exampleScorecard ''12''" and ?r = "Some (exampleReading ''12'')"
  have e: "vendorNumber (Number ''12'') = Some (Fin 12)" "(0::rat) < 12" "ngeq (nmul (ndiv (Fin 12) (Fin 40)) (lit 100)) (lit 5)" by code_simp+
  obtain v where v: "buildMADeepValuation (Some ?sc) ?r (Some exampleMultiple) examplePricing = Some v" using example_valuation[OF e] by blast
  then obtain sel where s: "selectMADeepMethod ?sc ?r exampleMultiple examplePricing = Some sel"
      "buildMADeepValuationWithMethod ?sc ?r exampleMultiple examplePricing sel = Some v"
    using buildMADeepValuation_Some by blast
  have m: "va_Method v = ''ev_ebitda''" "va_LowMethod v = ''''" using s(1) with_method_fields[OF s(2)] by (auto simp: example_selection[OF e])
  have d: "\<not> nequal (sumEffects maNITrattamentoEbitda exampleEffects) (Fin 0)" by (simp add: example_sums nequal_def)
  then obtain a where a: "fst (buildMAAdjustedValuation (Some v) (Some ?sc) exampleEffects (examplePricing\<lparr>pr_HaircutTier1Pct := lit 50\<rparr>)) = Some a"
    by (simp add: buildMAAdjustedValuation_def Let_def adjustedBand_def m example_scorecard e(1))
  have "Option.bind ?r ce_EBITDAPrudential \<noteq> Some NaN" "wholeTaxFund ?r"
    "pr_EBITDAFallbackPct (examplePricing\<lparr>pr_HaircutTier1Pct := lit 50\<rparr>) = pr_EBITDAFallbackPct examplePricing"
    by (simp_all add: example_values wholeTaxFund_def)
  then show ?thesis using adjusted_valuation_replays_engine[OF s m _ _ d _ a, unfolded example_sums] v a by blast
qed

section \<open>An adjusted band that is inverted\<close>

text \<open>With 20 of capitalised costs the prudential EBITDA is negative: the low extreme is taken from sales.\<close>

definition cappedReading :: ceeReading where
  "cappedReading = (exampleReading ''12'')\<lparr>ce_Capitalizations := Fin 20, ce_EBITDAPrudential := Some (Fin (- 10))\<rparr>"

lemma capped_values: "ce_EBITDAPrudential cappedReading = Some (Fin (- 10))" "bridgeDeductions (Fin 5) (Some cappedReading) examplePricing = Fin 7"
proof -
  show "bridgeDeductions (Fin 5) (Some cappedReading) examplePricing = Fin 7"
    using example_deductions[of "''12''"] by (simp add: cappedReading_def bridgeDeductions_def)
qed (simp add: cappedReading_def)

lemma capped_band:
  "nround (nmul (nmin (scaled (Fin 40) (Fin 1) (valuationFactor (lit 35))) (scaled (Fin 12) (Fin 8) (valuationFactor (lit 35)))) spreadLow) = Fin 22"
  "nround (nmul (scaled (nadd (Fin 12) (Fin (- 10))) (Fin 8) (valuationFactor (lit 35))) spreadHigh) = Fin 12"
  "ndiv (nround (nmul (Fin 8) (lit 100))) (lit 100) = Fin 8"
  by code_simp+

text \<open>an adjustment can invert the band. When the low extreme comes from sales it is kept as it was while the high one moves: a
  ratified adjustment of -10 on an EBITDA of 12 takes the band from 22 to 72 into 22 to 12.\<close>

theorem adjustment_inverts_sales_band:
  "\<exists>v a. buildMADeepValuation (Some (exampleScorecard ''12'')) (Some cappedReading) (Some exampleMultiple) examplePricing = Some v \<and>
     va_LowMethod v = ''ev_sales'' \<and> va_EVLow v = Fin 22 \<and> va_EVHigh v = Fin 72 \<and>
     buildMAAdjustedValuation (Some v) (Some (exampleScorecard ''12'')) [exampleEffect maNITrattamentoEbitda (Fin (- 10))] examplePricing = (Some a, True) \<and>
     va_EVLow a = Fin 22 \<and> va_EVHigh a = Fin 12"
proof -
  let ?sc = "exampleScorecard ''12''" and ?r = "Some cappedReading"
  let ?sel = "\<lparr>se_Method = ''ev_ebitda'', se_LowMethod = ''ev_sales'', se_Mult = Fin 8, se_lowExtreme = ''sales'', se_SalesMult = Fin 1\<rparr>"
  have e: "vendorNumber (Number ''12'') = Some (Fin 12)" "ngeq (nmul (ndiv (Fin 12) (Fin 40)) (lit 100)) (lit 5)" by code_simp+
  have u: "usableEbitda ?sc exampleMultiple examplePricing = Some (Fin 12, Fin 8)"
    using e by (simp add: usableEbitda_def marginPct_def example_scorecard example_pricing exampleMultiple_def)
  have sales: "salesPath ?sc exampleMultiple = Some (Fin 40, Fin 1)" by (simp add: salesPath_def example_scorecard exampleMultiple_def)
  have sel: "selectMADeepMethod ?sc ?r exampleMultiple examplePricing = Some ?sel"
    by (simp add: selectMADeepMethod_def u sales capped_values Let_def)
  have "nround (nmul (scaled (Fin 12) (Fin 8) (valuationFactor (lit 35))) spreadHigh) = Fin 72" using example_band_values(2) by (simp add: exampleEV_def)
  then obtain v where v: "buildMADeepValuation (Some ?sc) ?r (Some exampleMultiple) examplePricing = Some v"
      "va_Method v = ''ev_ebitda''" "va_LowMethod v = ''ev_sales''" "va_EVLow v = Fin 22" "va_EVHigh v = Fin 72" "va_Multiple v = Fin 8" "va_HaircutPct v = lit 35"
    using capped_band by (simp add: buildMADeepValuation_def sel buildMADeepValuationWithMethod_def Let_def bandBases_def example_scorecard example_pricing e(1))
  then show ?thesis using capped_band(2)
    by (simp add: buildMAAdjustedValuation_def Let_def adjustedBand_def example_sums nequal_def example_scorecard e(1) evSalesExtreme_def)
qed

end
