(* ===== verification/Spec2Isabelle.thy ===== *)
theory Spec2Isabelle
  imports FunnelLoad RdaFollowUp ArakClient RaenadDecimal OrdiniSystem NotifyRepeat NotifyPages DeepFlags DeepReading DeepDecisions DeepReplay
begin

text \<open>
  Verification of the MrSmith backend (Go, \<open>src/backend/internal\<close>).

  MrSmith is a set of internal applications of an Internet provider behind one server; each package of
  \<open>backend/internal\<close> is one application. Those that carry rules of their own are modelled here: the
  matching funnel of passive invoices (\<open>smartpassive\<close>), the purchase requests (\<open>rda\<close>), the orders
  (\<open>ordini\<close>), the notification centre (\<open>notifications\<close>) and the financial engine of company analyses
  (\<open>binocolo\<close>), with the decimals of \<open>raenad\<close>. The others are chiefly queries, forms and proxies.

  \<^bold>\<open>The funnel\<close> answers, for every supplier invoice, which purchase request it belongs to. It reads the
  requests, the orders of the accounting system, the supplier contracts and the electronic invoices,
  runs four kinds of evidence over each invoice and closes it at the first level that succeeds.

  \<^item> \<open>Prelude\<close>: indexes from keys to slices (locale \<open>slice_index\<close>), loops that keep the elements of a
    slice (locale \<open>map_loop\<close>), removal of duplicates.
  \<^item> \<open>GoStrings\<close>, \<open>GoFloat\<close>, \<open>GoNumbers\<close>, \<open>GoTime\<close>: the parts of Go's library in use: \<open>strings\<close> on
    ASCII classes, IEEE doubles as dyadic rationals with rounding to nearest even, \<open>strconv\<close>, calendar
    days. \<open>GoNumbers\<close> adds NaN and the infinities.
  \<^item> \<open>FunnelTypes\<close>: the data of \<open>funnel.go\<close> and \<open>funnel_orders.go\<close>, cents, the profile of a request
    (\<open>classifyFunnelRDA\<close>).
  \<^item> \<open>FunnelReference\<close> (\<open>funnel_reference.go\<close>): notes of the accounting office. The regular expressions
    are scanners; \<open>resolve\<close> looks the codes up in \<open>funnelReferenceIndex\<close>.
  \<^item> \<open>FunnelRules\<close> (\<open>funnel_rules.go\<close>): full amount, installment and sum rules.
  \<^item> \<open>FunnelOrders\<close> (\<open>funnel_orders.go\<close>): residual quantities of order lines and the three order rules.
  \<^item> \<open>FunnelContracts\<close> (\<open>funnel_contracts.go\<close>): the search for subsets of contracts that add up to an
    invoice, with its cut-off after the second hit.
  \<^item> \<open>FunnelSdi\<close> (\<open>funnel_sdi.go\<close>): linking an electronic invoice and resolving the orders it quotes.
  \<^item> \<open>FunnelFixedFee\<close> (\<open>funnel_fixedfee.go\<close>): monthly series of the same amount.
  \<^item> \<open>FunnelCascade\<close> (\<open>funnel_cascade.go\<close>): the closing levels and the families of what is left.
  \<^item> \<open>FunnelSuggestion\<close> (\<open>funnel_suggestion.go\<close>): the suggestion shown for an invoice.
  \<^item> \<open>Funnel\<close> (\<open>funnel.go\<close>): request parameters and \<open>buildMatchingFunnel\<close>; \<open>FunnelLoad\<close>: what the loops
    over query rows build (locale \<open>row_grouping\<close>).

  Each theory holds first the state and operations of its file, in the order of the code, then their
  lemmas. The lemmas show that counters partition the invoices (conservation), that each level decides
  by its rule alone, that proposals only contain what the supplier's data justify, that the contract
  search finds exactly the subsets whose sum matches, and that parsing a printed code gives it back.

  \<^bold>\<open>The purchase requests\<close>: the handlers check what a user may do, translate it into calls of an
  upstream service (Arak) that keeps the requests, and notify approvers.

  \<^item> \<open>RdaValues\<close>, \<open>RdaTypes\<close>: readers of decoded JSON, records of \<open>types.go\<close>, rights and states.
  \<^item> \<open>RdaActionModel\<close> (\<open>action_model.go\<close>): the modes and actions the page shows.
  \<^item> \<open>RdaRows\<close> (\<open>row_totals.go\<close>, \<open>validation.go\<close>, \<open>clone.go\<close>): amounts of rows, shown and sent.
  \<^item> \<open>RdaHttp\<close>, \<open>RdaAccess\<close> (\<open>handler.go\<close>, \<open>arak.go\<close>, \<open>permissions.go\<close>): a handler is a program in the
    state monad over the history of its effects; forwarding, fetching, guards.
  \<^item> \<open>RdaNotify\<close> (\<open>notifications.go\<close>), \<open>RdaHandlers\<close>, \<open>RdaEdit\<close>, \<open>RdaClone\<close>: one definition per handler
    of \<open>handler.go\<close>, \<open>validation.go\<close> and \<open>clone.go\<close>; \<open>RdaRoutes\<close>: the table of \<open>RegisterRoutes\<close> and the
    rules (\<open>yields\<close>) by which handlers are verified.
  \<^item> \<open>RdaWorkflow\<close>: an action that the page enables is forwarded, an action guarded by the state is
    forwarded only when the page enables it. \<open>RdaSafety\<close>: what users are answered, also when the
    service refuses the client's credentials, the order of a row replacement. \<open>RdaSent\<close>: what creations and changes send is valid. \<open>RdaFollowUp\<close>: deletion,
    duplication, notifications.

  \<^bold>\<open>The client of the service\<close>, \<open>ArakClient\<close> (\<open>platform/arak/client.go\<close>): every call of the handlers goes
  through it. It keeps a token until thirty seconds before its end and repeats a request answered with
  401, at most twice, each time with a new token. The loop is a program over the client and the requests
  sent so far; goroutines that share the client are the interleavings of \<open>client_step\<close>, and the loop is one
  of them. The lemmas show when a request is repeated, which tokens it carries, that a token is reused
  exactly within its window, and that a request without a result can always go on and has one after at most
  nine steps.

  \<^bold>\<open>The orders\<close> live in two tables of a MySQL database (Vodka) and move from BOZZA to INVIATO to ATTIVO; the
  accounting system, the document service and the CRM are called along the way. A handler is a program
  over \<^emph>\<open>statements\<close>: it sends one and continues with whatever is answered.

  \<^item> \<open>OrdiniTypes\<close> (\<open>types.go\<close>, \<open>scanners.go\<close>, \<open>gateway.go\<close>): orders and rows, the scanners, the payload for
    the accounting system.
  \<^item> \<open>OrdiniStore\<close> (the SQL of \<open>store_orders.go\<close>, \<open>store_rows.go\<close>, the workflows and
    \<open>vodkadb/normalize.go\<close>): statements, answers, and what a write changes in the tables.
  \<^item> \<open>OrdiniProg\<close> (\<open>handler.go\<close>, \<open>permissions.go\<close>, readers), \<open>OrdiniHandlers\<close> (handlers and workflows),
    \<open>OrdiniPdf\<close> (\<open>pdf.go\<close> and the table of routes).
  \<^item> \<open>OrdiniFlow\<close>: a run is the list of statements with their answers; \<open>always\<close> follows a handler along all
    its runs. The lemmas show what is sent, activated, undone and edited, and after which reads.
  \<^item> \<open>OrdiniSystem\<close>: requests run interleaved on the tables, statements fail, tasks die; an active order
    has only settled rows, and two activations at once can leave an order sent with every row settled, until
    a row is confirmed once more.

  \<^bold>\<open>The notification centre\<close>: an application raises a notification for some users under a key; a policy says
  on which channels and when it is delivered; workers claim the deliveries that are due and mail them;
  reading, archiving or resolving the notification cancels what is not yet sent.

  \<^item> \<open>NotifyPolicy\<close> (\<open>policy.go\<close>): merge of policies, their decoding, durations, the deliveries they ask for.
  \<^item> \<open>NotifyStore\<close> (\<open>store.go\<close>): the tables and the operations on them, one transaction each.
  \<^item> \<open>NotifyService\<close> (\<open>service.go\<close>, \<open>email.go\<close>, \<open>worker.go\<close>, \<open>handler.go\<close>): requests, mails, a pass of the
    worker, the handlers.
  \<^item> \<open>NotifyTables\<close>: what every operation keeps of the tables (\<open>tables_ok\<close>). \<open>NotifyEvolve\<close>: how each
    operation changes the deliveries, as relations that compose along loops.
  \<^item> \<open>NotifySystem\<close>: requests and any number of workers interleaved, workers that stop. \<open>NotifyMails\<close>: who
    holds what, and how often a delivery is mailed; \<open>NotifyRuns\<close>: deliveries whose worker stopped.
    \<open>NotifyExamples\<close>: runs step by step, one of them with a late worker.
  \<^item> \<open>NotifyRepeat\<close>: raising a notification twice. \<open>NotifyPages\<close>: the pages of a user's list.

  \<^bold>\<open>The deep dive\<close>: a company's financial payload, bought from a vendor, becomes a scorecard and a band of
  values; an analyst's decisions on the notes of a deposited filing move the band when it is read.

  \<^item> \<open>DeepValues\<close> (\<open>ma_vendor.go\<close>): readers of payloads, the rest of Go's arithmetic; rounding is monotone.
    \<open>DeepCee\<close> (\<open>ma_deep_cee.go\<close>): balance-sheet codes, their reading and its reconciliation. \<open>DeepPricing\<close>
    (\<open>ma_service.go\<close>): parameters. \<open>DeepEngine\<close> (\<open>ma_deep_engine.go\<close>): semaphores, method, band, bridge to
    equity. \<open>DeepFlags\<close> (\<open>ma_deep_cee.go\<close>, \<open>ma_deep_family.go\<close>): quality flags, business families.
  \<^item> \<open>DeepNotes\<close> (\<open>ma_ni_reading.go\<close>, \<open>ma_ni_store.go\<close>, \<open>ma_filing_endpoints.go\<close>): proposals, decisions, the
    reducer. \<open>DeepAdjusted\<close> (\<open>ma_deep_adjusted.go\<close>): canonical filing and adjusted valuation.
  \<^item> \<open>DeepBand\<close>: when the band is ordered, the overall semaphore is monotone; \<open>DeepExamples\<close>: an ordered band
    and an inverted one. \<open>DeepReading\<close>: what the order of a Go map can change. \<open>DeepDecisions\<close>: the decision
    that counts, accepted decisions take effect. \<open>DeepReplay\<close>: the adjusted valuation is a run of the engine.

  \<^bold>\<open>Decimals\<close>, \<open>RaenadDecimal\<close> (\<open>raenad/decimal.go\<close>): the text of an amount as it is stored is canonical, has
  the value that was typed, and is stored as it is when stored again.

  \<^bold>\<open>Parameters.\<close> The upstream service, the database and the notifier are not in the repository. The
  service is a function from the history and a call to a reply, each query a function of the history
  and its arguments, so a theorem holds for every behaviour they may have, failures and inconsistent
  answers included. The sample service of \<open>RdaWorkflow\<close> serves the closed instances. In the funnel the
  iteration order of Go maps is a parameter. In the orders every statement may be answered in any way;
  only \<open>OrdiniSystem\<close> fixes what the two tables answer: a transaction reads its own writes over the snapshot
  of its first read or over what is committed (the isolation level is a parameter), writes of others are
  not lost, and the only other program that writes the tables is the conversion of a quote, which adds drafts
  under new ids and fills NULL columns. How MySQL compares a
  text with zero, and whether it reports matched or changed rows, are parameters. In the notification
  centre an operation of the store takes effect as a whole; which rows other transactions hold, the
  parser of addresses, \<open>net/url\<close>, the mailer and the clocks are parameters.

  \<^bold>\<open>Modelling choices.\<close> Cents and counters are unbounded integers where the code has \<open>int64\<close>; the amounts
  are far below the bound. A string is a list of bytes; case and white space are those of ASCII. JSON
  enters as the value that \<open>encoding/json\<close> reads first from a body (trailing bytes are ignored by a
  decoder and rejected by \<open>Unmarshal\<close>; the latter case is not distinguished), with its numbers as
  texts. \<open>strconv.ParseFloat\<close> is modelled without hexadecimal notation and underscores, the sign of a
  zero is not kept. Log lines, tracing, cancelled requests and the bodies of SQL statements are not
  modelled. A panic is the response \<open>panicked\<close>. No definition of code uses fuel: every recursion is on a
  list or has a measure; \<open>pages\<close> of \<open>NotifyPages\<close> counts the pages that a client asks for.

  \<^bold>\<open>Not modelled.\<close> Of \<open>smartpassive\<close>: the XML parsing of electronic invoices with its cache, SQL texts and
  the HTTP wrappers. Of \<open>rda\<close>: provider e-mail, providers, articles, payment method lists. Of
  \<open>notifications\<close>: the text of a cursor and the answers to database errors. Of \<open>binocolo\<close>: searches, target
  scoring, the parsing of filings, everything that asks a language model. The other
  applications: see the list of components kept beside the development.
\<close>

end
